(* ===== verification/Prelude.thy ===== *)
theory Prelude
  imports Main
    "HOL-Library.Word"
    "HOL-Library.Char_ord"
    "HOL-Library.List_Lexorder"
    "HOL-Library.Option_ord"
    "HOL-Library.Product_Lexorder"
begin

text \<open>
  Shared vocabulary of the development: results, the state-and-error computations that stand
  for async code with effects, and the machine integers of the source.

  A fallible Rust function \<open>Result<T, E>\<close> is a value of \<open>'e + 'a\<close>, with \<open>Inl\<close> the error.
  An async function that talks to the outside world is a computation
  \<open>('s, 'e, 'a) io\<close>: it takes the state of the world it talks to and returns its result
  together with the new state, so that the order and the number of its external calls are
  visible.  The \<open>?\<close> operator is \<open>and_then\<close> on results and \<open>io_bind\<close> on computations.
\<close>

named_theorems valid_simps
  \<open>characterisations of the validated commands a component builds\<close>

named_theorems io_simps
  \<open>unfolding rules of the state-and-error computations\<close>

named_theorems io_errors
  \<open>introduction rules for the errors a computation can end with\<close>

section \<open>Machine integers\<close>

type_synonym u8 = "8 word"
type_synonym u16 = "16 word"
type_synonym u32 = "32 word"
type_synonym u64 = "64 word"
type_synonym i32 = "32 word"
type_synonym i64 = "64 word"

text \<open>
  Signed integers are words read by \<open>sint\<close>.  A cast \<open>as u16\<close> from a length keeps the low
  bits, which is \<open>word_of_nat\<close>; \<open>usize\<close> values are lengths of live objects and are \<open>nat\<close>.
\<close>

definition u64_saturating_add :: "u64 \<Rightarrow> u64 \<Rightarrow> u64" where
  "u64_saturating_add a b = (if unat a + unat b < 2 ^ 64 then a + b else - 1)"

lemma unat_u64_saturating_add:
  "unat (u64_saturating_add a b) = min (unat a + unat b) (2 ^ 64 - 1)"
proof (cases "unat a + unat b < 2 ^ 64")
  case True
  then show ?thesis by (simp add: u64_saturating_add_def unat_word_ariths)
next
  case False
  have "unat (- 1 :: u64) = 2 ^ LENGTH(64) - 1"
    by (simp add: unsigned_minus_1_eq_mask mask_eq_exp_minus_1)
  with False show ?thesis by (simp add: u64_saturating_add_def)
qed

lemma unat_of_nat_u16: "n < 65536 \<Longrightarrow> unat (word_of_nat n :: u16) = n"
  by (simp add: unat_of_nat)

lemma unat_of_nat_u8: "n < 256 \<Longrightarrow> unat (word_of_nat n :: u8) = n"
  by (simp add: unat_of_nat)

section \<open>Results\<close>

fun and_then :: "'e + 'a \<Rightarrow> ('a \<Rightarrow> 'e + 'b) \<Rightarrow> 'e + 'b" where
  "and_then (Inl e) f = Inl e"
| "and_then (Inr a) f = f a"

fun ok_or :: "'a option \<Rightarrow> 'e \<Rightarrow> 'e + 'a" where
  "ok_or None e = Inl e"
| "ok_or (Some a) e = Inr a"

fun map_err :: "('e \<Rightarrow> 'f) \<Rightarrow> 'e + 'a \<Rightarrow> 'f + 'a" where
  "map_err f (Inl e) = Inl (f e)"
| "map_err f (Inr a) = Inr a"

text \<open>\<open>guard_or p e\<close> is the early return \<open>if !p { return Err(e) }\<close>.\<close>

definition guard_or :: "bool \<Rightarrow> 'e \<Rightarrow> 'e + unit" where
  "guard_or p e = (if p then Inr () else Inl e)"

text \<open>\<open>collect_results\<close> is \<open>collect::<Result<Vec<_>, _>>()\<close>: the first error wins.\<close>

fun collect_results :: "('e + 'a) list \<Rightarrow> 'e + 'a list" where
  "collect_results [] = Inr []"
| "collect_results (r # rs) =
     (case r of Inl e \<Rightarrow> Inl e
      | Inr a \<Rightarrow> (case collect_results rs of Inl e \<Rightarrow> Inl e | Inr as \<Rightarrow> Inr (a # as)))"

lemma and_then_Inr [simp]:
  "(and_then r f = Inr b) \<longleftrightarrow> (\<exists>a. r = Inr a \<and> f a = Inr b)"
  by (cases r) auto

lemma and_then_Inl:
  "(and_then r f = Inl e) \<longleftrightarrow> (r = Inl e \<or> (\<exists>a. r = Inr a \<and> f a = Inl e))"
  by (cases r) auto

lemma ok_or_Inr [simp]: "(ok_or x e = Inr a) \<longleftrightarrow> x = Some a"
  by (cases x) auto

lemma ok_or_Inl [simp]: "(ok_or x e = Inl e') \<longleftrightarrow> x = None \<and> e' = e"
  by (cases x) auto

lemma map_err_Inr [simp]: "(map_err f r = Inr a) \<longleftrightarrow> r = Inr a"
  by (cases r) auto

lemma guard_or_Inr [simp]: "(guard_or p e = Inr u) \<longleftrightarrow> p"
  by (simp add: guard_or_def)

lemma guard_or_Inl [simp]: "(guard_or p e = Inl e') \<longleftrightarrow> \<not> p \<and> e' = e"
  by (auto simp: guard_or_def)

lemma collect_results_map_Inr [simp]: "collect_results (map Inr as) = Inr as"
  by (induction as) auto

lemma collect_results_Inr:
  "(collect_results rs = Inr as) \<longleftrightarrow> rs = map Inr as"
proof
  show "collect_results rs = Inr as \<Longrightarrow> rs = map Inr as"
    by (induction rs arbitrary: as) (auto split: sum.splits)
qed simp

lemma collect_results_Inl:
  "collect_results rs = Inl e \<Longrightarrow> Inl e \<in> set rs"
  by (induction rs) (auto split: sum.splits)

lemma length_collect_results:
  "collect_results rs = Inr as \<Longrightarrow> length as = length rs"
  by (simp add: collect_results_Inr)

section \<open>Computations with state and errors\<close>

type_synonym ('s, 'e, 'a) io = "'s \<Rightarrow> ('e + 'a) \<times> 's"

definition io_return :: "'a \<Rightarrow> ('s, 'e, 'a) io" where
  "io_return a = (\<lambda>s. (Inr a, s))"

definition io_throw :: "'e \<Rightarrow> ('s, 'e, 'a) io" where
  "io_throw e = (\<lambda>s. (Inl e, s))"

definition io_lift :: "'e + 'a \<Rightarrow> ('s, 'e, 'a) io" where
  "io_lift r = (\<lambda>s. (r, s))"

definition io_bind :: "('s, 'e, 'a) io \<Rightarrow> ('a \<Rightarrow> ('s, 'e, 'b) io) \<Rightarrow> ('s, 'e, 'b) io" where
  "io_bind m f = (\<lambda>s. case m s of (Inl e, s') \<Rightarrow> (Inl e, s') | (Inr a, s') \<Rightarrow> f a s')"

definition io_guard :: "bool \<Rightarrow> 'e \<Rightarrow> ('s, 'e, unit) io" where
  "io_guard p e = io_lift (guard_or p e)"

lemma io_bind_Inr [io_simps]:
  "(io_bind m f s = (Inr b, s')) \<longleftrightarrow> (\<exists>a t. m s = (Inr a, t) \<and> f a t = (Inr b, s'))"
  by (auto simp: io_bind_def split: prod.splits sum.splits)

lemma io_bind_Inl [io_simps]:
  "(io_bind m f s = (Inl e, s')) \<longleftrightarrow>
     (m s = (Inl e, s') \<or> (\<exists>a t. m s = (Inr a, t) \<and> f a t = (Inl e, s')))"
  by (auto simp: io_bind_def split: prod.splits sum.splits)

lemma io_return_eq [io_simps]: "(io_return a s = (r, s')) \<longleftrightarrow> r = Inr a \<and> s' = s"
  by (auto simp: io_return_def)

lemma io_throw_eq [io_simps]: "(io_throw e s = (r, s')) \<longleftrightarrow> r = Inl e \<and> s' = s"
  by (auto simp: io_throw_def)

lemma io_lift_eq [io_simps]: "(io_lift x s = (r, s')) \<longleftrightarrow> x = r \<and> s' = s"
  by (auto simp: io_lift_def)

lemma io_guard_Inr [io_simps]: "(io_guard p e s = (Inr u, s')) \<longleftrightarrow> p \<and> s' = s"
  by (auto simp: io_guard_def io_lift_def guard_or_def)

lemma io_guard_Inl [io_simps]: "(io_guard p e s = (Inl e', s')) \<longleftrightarrow> \<not> p \<and> e' = e \<and> s' = s"
  by (auto simp: io_guard_def io_lift_def guard_or_def)

lemma io_bind_return [simp]: "io_bind (io_return a) f = f a"
  by (simp add: io_bind_def io_return_def)

lemma io_bind_throw [simp]: "io_bind (io_throw e) f = io_throw e"
  by (simp add: io_bind_def io_throw_def)

lemma io_bind_assoc:
  "io_bind (io_bind m f) g = io_bind m (\<lambda>a. io_bind (f a) g)"
  by (rule ext) (simp add: io_bind_def split: prod.splits sum.splits)

text \<open>\<open>errors_in P m\<close>: every error of the computation satisfies \<open>P\<close>.\<close>

definition errors_in :: "('e \<Rightarrow> bool) \<Rightarrow> ('s, 'e, 'a) io \<Rightarrow> bool" where
  "errors_in P m \<longleftrightarrow> (\<forall>s e s'. m s = (Inl e, s') \<longrightarrow> P e)"

lemma errors_inI: "(\<And>s e s'. m s = (Inl e, s') \<Longrightarrow> P e) \<Longrightarrow> errors_in P m"
  by (simp add: errors_in_def)

lemma errors_inD: "errors_in P m \<Longrightarrow> m s = (Inl e, s') \<Longrightarrow> P e"
  unfolding errors_in_def by blast

lemma errors_in_bind [io_errors]:
  "errors_in P m \<Longrightarrow> (\<And>a. errors_in P (f a)) \<Longrightarrow> errors_in P (io_bind m f)"
  by (rule errors_inI) (auto simp: io_simps dest: errors_inD)

lemma errors_in_return [io_errors]: "errors_in P (io_return a)"
  by (simp add: errors_in_def io_simps)

lemma errors_in_lift [io_errors]: "(\<And>e. r = Inl e \<Longrightarrow> P e) \<Longrightarrow> errors_in P (io_lift r)"
  by (auto simp: errors_in_def io_simps)

lemma errors_in_throw [io_errors]: "P e \<Longrightarrow> errors_in P (io_throw e)"
  by (auto simp: errors_in_def io_simps)

lemma errors_in_guard [io_errors]: "P e \<Longrightarrow> errors_in P (io_guard b e)"
  by (auto simp: errors_in_def io_simps)

lemma errors_in_if [io_errors]:
  "(b \<Longrightarrow> errors_in P m) \<Longrightarrow> (\<not> b \<Longrightarrow> errors_in P n) \<Longrightarrow> errors_in P (if b then m else n)"
  by simp

text \<open>
  \<open>io_rel R m\<close>: whatever the computation does, the state it ends in is related to the state it
  started in.  For a preorder \<open>R\<close> this composes along \<open>io_bind\<close>.
\<close>

definition io_rel :: "('s \<Rightarrow> 's \<Rightarrow> bool) \<Rightarrow> ('s, 'e, 'a) io \<Rightarrow> bool" where
  "io_rel R m \<longleftrightarrow> (\<forall>s r s'. m s = (r, s') \<longrightarrow> R s s')"

lemma io_relI: "(\<And>s r s'. m s = (r, s') \<Longrightarrow> R s s') \<Longrightarrow> io_rel R m"
  by (simp add: io_rel_def)

lemma io_relD: "io_rel R m \<Longrightarrow> m s = (r, s') \<Longrightarrow> R s s'"
  unfolding io_rel_def by blast

named_theorems io_rels
  \<open>introduction rules for the step relation of a computation\<close>

locale step_preorder =
  fixes R :: "'s \<Rightarrow> 's \<Rightarrow> bool"
  assumes step_refl: "R s s"
    and step_trans: "R s t \<Longrightarrow> R t u \<Longrightarrow> R s u"
begin

lemma rel_bind:
  assumes "io_rel R m" "\<And>a. io_rel R (f a)"
  shows "io_rel R (io_bind m f)"
proof (rule io_relI)
  fix s r s'
  assume "io_bind m f s = (r, s')"
  then consider e where "m s = (Inl e, s')" | a t where "m s = (Inr a, t)" "f a t = (r, s')"
    by (auto simp: io_bind_def split: prod.splits sum.splits)
  then show "R s s'"
    by cases (auto intro: step_trans dest: io_relD [OF assms(1)] io_relD [OF assms(2)])
qed

lemma rel_return: "io_rel R (io_return a)"
  by (simp add: io_rel_def io_return_def step_refl)

lemma rel_throw: "io_rel R (io_throw e)"
  by (simp add: io_rel_def io_throw_def step_refl)

lemma rel_lift: "io_rel R (io_lift r)"
  by (simp add: io_rel_def io_lift_def step_refl)

lemma rel_guard: "io_rel R (io_guard b e)"
  by (simp add: io_guard_def rel_lift)

lemma rel_if: "(b \<Longrightarrow> io_rel R m) \<Longrightarrow> (\<not> b \<Longrightarrow> io_rel R n) \<Longrightarrow> io_rel R (if b then m else n)"
  by simp

lemma rel_option:
  "(v = None \<Longrightarrow> io_rel R m) \<Longrightarrow> (\<And>a. v = Some a \<Longrightarrow> io_rel R (f a)) \<Longrightarrow>
     io_rel R (case v of None \<Rightarrow> m | Some a \<Rightarrow> f a)"
  by (simp split: option.splits)

lemmas step_rules = rel_bind rel_return rel_throw rel_lift rel_guard rel_if rel_option

end

section \<open>Lists\<close>

lemma map_filter_Some_length: "length (List.map_filter f xs) \<le> length xs"
  by (induction xs) (auto simp: List.map_filter_simps split: option.splits)

lemma set_map_filter: "set (List.map_filter f xs) = {y. \<exists>x\<in>set xs. f x = Some y}"
  by (induction xs) (auto simp: List.map_filter_simps split: option.splits)

lemma length_remdups_adj_sorted:
  fixes xs :: "'a :: linorder list"
  shows "sorted xs \<Longrightarrow> (length (remdups_adj xs) = length xs) \<longleftrightarrow> distinct xs"
proof (induction xs rule: remdups_adj.induct)
  case (3 x y zs)
  show ?case
  proof (cases "x = y")
    case True
    have "length (remdups_adj (y # zs)) \<le> length (y # zs)"
      by (rule remdups_adj_length)
    then have "length (remdups_adj (y # zs)) \<noteq> Suc (length (y # zs))"
      by linarith
    with True show ?thesis by simp
  next
    case False
    with "3.prems" have "x \<notin> set (y # zs)" by (auto simp: antisym)
    with False "3.IH"(2) "3.prems" show ?thesis by simp
  qed
qed simp_all

end
