(* ===== verification/Rust_Text.thy ===== *)
theory Rust_Text
  imports Prelude
begin

text \<open>
  Rust's \<open>str\<close> and \<open>[u8]\<close>.  Both are lists of bytes, here \<open>string\<close> (a HOL \<open>char\<close> is eight
  bits), so that \<open>len()\<close> is \<open>length\<close> and counts bytes as in Rust.  A \<open>str\<close> is valid UTF-8, the
  predicate \<open>utf8_valid\<close>; \<open>chars\<close> is the list of its code points, which is what \<open>char\<close>
  predicates such as \<open>is_control\<close> and \<open>is_whitespace\<close> read.  The functions are the
  operations of the standard library that the sources call: slicing at character boundaries,
  \<open>from_utf8_lossy\<close>, \<open>split\<close>, \<open>split_once\<close>, \<open>find\<close>, \<open>contains\<close>, \<open>replace\<close>, \<open>lines\<close>,
  \<open>trim\<close> and the decimal formatting of integers.
\<close>

section \<open>Bytes and ASCII classes\<close>

abbreviation byte_of :: "char \<Rightarrow> nat" where
  "byte_of c \<equiv> of_char c"

abbreviation bytes :: "string \<Rightarrow> nat list" where
  "bytes s \<equiv> map of_char s"

definition ascii_lowercase :: "nat \<Rightarrow> bool" where
  "ascii_lowercase n \<longleftrightarrow> 97 \<le> n \<and> n \<le> 122"

definition ascii_uppercase :: "nat \<Rightarrow> bool" where
  "ascii_uppercase n \<longleftrightarrow> 65 \<le> n \<and> n \<le> 90"

definition ascii_digit :: "nat \<Rightarrow> bool" where
  "ascii_digit n \<longleftrightarrow> 48 \<le> n \<and> n \<le> 57"

definition ascii_alphabetic :: "nat \<Rightarrow> bool" where
  "ascii_alphabetic n \<longleftrightarrow> ascii_lowercase n \<or> ascii_uppercase n"

definition ascii_alphanumeric :: "nat \<Rightarrow> bool" where
  "ascii_alphanumeric n \<longleftrightarrow> ascii_alphabetic n \<or> ascii_digit n"

lemmas ascii_defs =
  ascii_lowercase_def ascii_uppercase_def ascii_digit_def ascii_alphabetic_def
  ascii_alphanumeric_def

text \<open>The Unicode classes \<open>char::is_control\<close> (Cc) and \<open>char::is_whitespace\<close> (White\_Space).\<close>

definition is_control :: "nat \<Rightarrow> bool" where
  "is_control n \<longleftrightarrow> n < 32 \<or> (127 \<le> n \<and> n < 160)"

definition is_whitespace :: "nat \<Rightarrow> bool" where
  "is_whitespace n \<longleftrightarrow> (9 \<le> n \<and> n \<le> 13) \<or> n = 32 \<or> n = 133 \<or> n = 160 \<or> n = 5760
     \<or> (8192 \<le> n \<and> n \<le> 8202) \<or> n = 8232 \<or> n = 8233 \<or> n = 8239 \<or> n = 8287 \<or> n = 12288"

definition to_ascii_lowercase_byte :: "char \<Rightarrow> char" where
  "to_ascii_lowercase_byte c =
     (if ascii_uppercase (of_char c) then char_of (of_char c + 32 :: nat) else c)"

definition to_ascii_lowercase :: "string \<Rightarrow> string" where
  "to_ascii_lowercase s = map to_ascii_lowercase_byte s"

section \<open>UTF-8\<close>

definition is_continuation :: "char \<Rightarrow> bool" where
  "is_continuation c \<longleftrightarrow> 128 \<le> (of_char c :: nat) \<and> (of_char c :: nat) < 192"

definition byte_between :: "nat \<Rightarrow> nat \<Rightarrow> char \<Rightarrow> bool" where
  "byte_between lo hi c \<longleftrightarrow> lo \<le> of_char c \<and> of_char c \<le> hi"

text \<open>
  \<open>utf8_head\<close> reads the first character of a nonempty byte string: \<open>(True, n)\<close> for a
  well-formed character of \<open>n\<close> bytes, \<open>(False, n)\<close> for an ill-formed prefix, with \<open>n\<close> the
  bytes that the lossy decoder replaces by one replacement character.
\<close>

fun head_sat :: "(char \<Rightarrow> bool) \<Rightarrow> string \<Rightarrow> bool" where
  "head_sat p [] = False"
| "head_sat p (c # cs) = p c"

definition utf8_second :: "nat \<Rightarrow> char \<Rightarrow> bool" where
  "utf8_second x c =
     (if x = 224 then byte_between 160 191 c
      else if x = 237 then byte_between 128 159 c
      else if x = 240 then byte_between 144 191 c
      else if x = 244 then byte_between 128 143 c
      else is_continuation c)"

definition utf8_head :: "string \<Rightarrow> bool \<times> nat" where
  "utf8_head s = (case s of [] \<Rightarrow> (True, 1) | b # bs \<Rightarrow>
     (let x = (of_char b :: nat) in
      if x < 128 then (True, 1)
      else if 194 \<le> x \<and> x \<le> 223 then
        (if head_sat is_continuation bs then (True, 2) else (False, 1))
      else if 224 \<le> x \<and> x \<le> 239 then
        (if \<not> head_sat (utf8_second x) bs then (False, 1)
         else if head_sat is_continuation (drop 1 bs) then (True, 3) else (False, 2))
      else if 240 \<le> x \<and> x \<le> 244 then
        (if \<not> head_sat (utf8_second x) bs then (False, 1)
         else if \<not> head_sat is_continuation (drop 1 bs) then (False, 2)
         else if head_sat is_continuation (drop 2 bs) then (True, 4) else (False, 3))
      else (False, 1)))"

abbreviation head_width :: "string \<Rightarrow> nat" where
  "head_width s \<equiv> snd (utf8_head s)"

lemma head_width_pos [simp]: "0 < head_width s"
  by (auto simp: utf8_head_def Let_def split: list.splits if_splits)

lemma head_width_le4: "head_width s \<le> 4"
  by (auto simp: utf8_head_def Let_def split: list.splits if_splits)

lemma drop_head_shorter: "s \<noteq> [] \<Longrightarrow> length s - head_width s < length s"
  using head_width_pos [of s] by (cases s) (simp_all del: head_width_pos)

function chunks :: "string \<Rightarrow> string list" where
  "chunks s = (if s = [] then [] else take (head_width s) s # chunks (drop (head_width s) s))"
  by pat_completeness auto
termination
  by (relation "measure length") (simp_all add: drop_head_shorter)

declare chunks.simps [simp del]

function utf8_valid :: "string \<Rightarrow> bool" where
  "utf8_valid s = (if s = [] then True
     else if fst (utf8_head s) then utf8_valid (drop (head_width s) s) else False)"
  by pat_completeness auto
termination
  by (relation "measure length") (simp_all add: drop_head_shorter)

declare utf8_valid.simps [simp del]

definition replacement_char :: string where
  "replacement_char = map char_of [239 :: nat, 191, 189]"

function from_utf8_lossy :: "string \<Rightarrow> string" where
  "from_utf8_lossy s = (if s = [] then []
     else (if fst (utf8_head s) then take (head_width s) s else replacement_char)
          @ from_utf8_lossy (drop (head_width s) s))"
  by pat_completeness auto
termination
  by (relation "measure length") (simp_all add: drop_head_shorter)

declare from_utf8_lossy.simps [simp del]

lemma chunks_Nil [simp]: "chunks [] = []"
  by (simp add: chunks.simps)

lemma chunks_Cons:
  "chunks (b # bs) = take (head_width (b # bs)) (b # bs) # chunks (drop (head_width (b # bs)) (b # bs))"
  by (subst chunks.simps) simp

lemma utf8_valid_Nil [simp]: "utf8_valid []"
  by (simp add: utf8_valid.simps)

lemma utf8_valid_Cons:
  "utf8_valid (b # bs) \<longleftrightarrow>
     fst (utf8_head (b # bs)) \<and> utf8_valid (drop (head_width (b # bs)) (b # bs))"
  by (subst utf8_valid.simps) simp

lemma from_utf8_lossy_Nil [simp]: "from_utf8_lossy [] = []"
  by (simp add: from_utf8_lossy.simps)

lemma from_utf8_lossy_Cons:
  "from_utf8_lossy (b # bs) =
     (if fst (utf8_head (b # bs)) then take (head_width (b # bs)) (b # bs) else replacement_char)
     @ from_utf8_lossy (drop (head_width (b # bs)) (b # bs))"
  by (subst from_utf8_lossy.simps) simp

definition code_point :: "string \<Rightarrow> nat" where
  "code_point c = (case bytes c of
     [a] \<Rightarrow> a
   | [a, b] \<Rightarrow> (a mod 32) * 64 + b mod 64
   | [a, b, d] \<Rightarrow> (a mod 16) * 4096 + (b mod 64) * 64 + d mod 64
   | [a, b, d, e] \<Rightarrow> (a mod 8) * 262144 + (b mod 64) * 4096 + (d mod 64) * 64 + e mod 64
   | _ \<Rightarrow> 0)"

definition chars :: "string \<Rightarrow> nat list" where
  "chars s = map code_point (chunks s)"

definition is_char_boundary :: "string \<Rightarrow> nat \<Rightarrow> bool" where
  "is_char_boundary s i \<longleftrightarrow>
     i = 0 \<or> i = length s \<or> (i < length s \<and> \<not> is_continuation (s ! i))"

text \<open>The loop \<open>while !is_char_boundary(b) { b -= 1 }\<close>; it stops at 0 at the latest.\<close>

fun floor_char_boundary :: "string \<Rightarrow> nat \<Rightarrow> nat" where
  "floor_char_boundary s 0 = 0"
| "floor_char_boundary s (Suc n) =
     (if is_char_boundary s (Suc n) then Suc n else floor_char_boundary s n)"


section \<open>Laws of the UTF-8 layer\<close>

lemma four_bytes_cases [case_names zero one two three four]:
  obtains "s = []" | a where "s = [a]" | a b where "s = [a, b]" | a b c where "s = [a, b, c]"
  | a b c d r where "s = a # b # c # d # r"
  by (metis list.exhaust)

lemmas utf8_head_simps = utf8_head_def Let_def utf8_second_def byte_between_def is_continuation_def

lemma utf8_head_width_le: "s \<noteq> [] \<Longrightarrow> head_width s \<le> length s"
  by (cases s rule: four_bytes_cases) (auto simp: utf8_head_def Let_def)

lemma utf8_head_append:
  "s \<noteq> [] \<Longrightarrow> fst (utf8_head s) \<Longrightarrow> utf8_head (take (head_width s) s @ r) = utf8_head s"
  by (cases s rule: four_bytes_cases) (auto simp: utf8_head_def Let_def split: if_splits)

lemma utf8_head_tail_continuation:
  assumes "s \<noteq> []" "fst (utf8_head s)" "0 < i" "i < head_width s"
  shows "is_continuation (s ! i)"
proof -
  have i: "i = 1 \<or> i = 2 \<or> i = 3"
    using assms(3,4) head_width_le4 [of s] by linarith
  show ?thesis
  proof (cases s rule: four_bytes_cases)
    case four
    with i assms show ?thesis
      by (elim disjE) (auto simp: utf8_head_simps split: if_splits)
  next
    case three
    with i assms show ?thesis
      by (elim disjE) (auto simp: utf8_head_simps split: if_splits)
  next
    case two
    with i assms show ?thesis
      by (elim disjE) (auto simp: utf8_head_simps split: if_splits)
  qed (use assms in \<open>auto simp: utf8_head_simps split: if_splits\<close>)
qed

lemma utf8_head_lead: "s \<noteq> [] \<Longrightarrow> fst (utf8_head s) \<Longrightarrow> \<not> is_continuation (hd s)"
  by (cases s) (auto simp: utf8_head_def Let_def is_continuation_def split: if_splits)

lemma utf8_head_replacement: "utf8_head (replacement_char @ r) = (True, 3)"
  by (simp add: utf8_head_simps replacement_char_def)

lemma length_replacement_char: "length replacement_char = 3" "replacement_char \<noteq> []"
  by (simp_all add: replacement_char_def)

lemma utf8_valid_induct [consumes 1, case_names Nil Char]:
  assumes "utf8_valid s" and "P []"
    and "\<And>h r. h \<noteq> [] \<Longrightarrow> utf8_head (h @ r) = (True, length h) \<Longrightarrow> utf8_valid r \<Longrightarrow> P r
      \<Longrightarrow> P (h @ r)"
  shows "P s"
  using assms(1)
proof (induction s rule: length_induct)
  case (1 s)
  show ?case
  proof (cases "s = []")
    case False
    let ?h = "take (head_width s) s" and ?r = "drop (head_width s) s"
    from "1.prems" False have ok: "fst (utf8_head s)" and v: "utf8_valid ?r"
      by (auto simp: utf8_valid.simps [of s] split: if_splits)
    from False have len: "length ?h = head_width s" and ne: "?h \<noteq> []"
      using utf8_head_width_le [of s] head_width_pos [of s] by auto
    have "P ?r" using "1.IH" v False drop_head_shorter [of s] by simp
    with assms(3) [of ?h ?r] ok v len ne show ?thesis
      by (simp add: prod_eq_iff)
  qed (simp add: assms(2))
qed

lemma utf8_valid_char_append:
  "h \<noteq> [] \<Longrightarrow> utf8_head (h @ r) = (True, length h) \<Longrightarrow> utf8_valid (h @ r) = utf8_valid r"
  by (simp add: utf8_valid.simps [of "h @ r"])

lemma utf8_char_extend:
  assumes "h \<noteq> []" and "utf8_head (h @ r) = (True, length h)"
  shows "utf8_head (h @ r') = (True, length h)"
  using utf8_head_append [of "h @ r" r'] assms by simp

lemma utf8_valid_append: "utf8_valid a \<Longrightarrow> utf8_valid b \<Longrightarrow> utf8_valid (a @ b)"
proof (induction a rule: utf8_valid_induct)
  case (Char h r)
  then have "utf8_head (h @ r @ b) = (True, length h)"
    by (blast intro: utf8_char_extend)
  with Char show ?case by (simp add: utf8_valid_char_append)
qed simp

theorem utf8_valid_from_utf8_lossy: "utf8_valid (from_utf8_lossy s)"
proof (induction s rule: length_induct)
  case (1 s)
  show ?case
  proof (cases s)
    case (Cons b bs)
    let ?w = "head_width s"
    have IH: "utf8_valid (from_utf8_lossy (drop ?w s))"
      using "1.IH" drop_head_shorter [of s] Cons by simp
    have *: "utf8_valid (if fst (utf8_head s) then take ?w s else replacement_char)"
      using utf8_head_append [of s "[]"] utf8_head_width_le [of s] Cons
        utf8_head_replacement [of "[]"]
      by (auto simp: utf8_valid.simps [of "take (head_width (b # bs)) (b # bs)"]
            utf8_valid.simps [of replacement_char] length_replacement_char)
    have eq: "from_utf8_lossy s =
        (if fst (utf8_head s) then take ?w s else replacement_char)
          @ from_utf8_lossy (drop ?w s)"
      by (subst from_utf8_lossy.simps) (simp add: Cons)
    show ?thesis unfolding eq by (rule utf8_valid_append [OF * IH])
  qed simp
qed

lemma from_utf8_lossy_id: "utf8_valid s \<Longrightarrow> from_utf8_lossy s = s"
proof (induction s rule: utf8_valid_induct)
  case (Char h r)
  then show ?case by (simp add: from_utf8_lossy.simps [of "h @ r"])
qed simp

subsection \<open>Character boundaries\<close>

lemma is_char_boundary_0 [simp]: "is_char_boundary s 0"
  by (simp add: is_char_boundary_def)

lemma utf8_valid_take:
  "utf8_valid s \<Longrightarrow> is_char_boundary s i \<Longrightarrow> i \<le> length s \<Longrightarrow> utf8_valid (take i s)"
proof (induction s arbitrary: i rule: utf8_valid_induct)
  case (Char h r)
  show ?case
  proof (cases "i < length h")
    case True
    have "i = 0"
    proof (rule ccontr)
      assume "i \<noteq> 0"
      with True Char.hyps have "is_continuation ((h @ r) ! i)"
        using utf8_head_tail_continuation [of "h @ r" i] by simp
      with Char.prems True \<open>i \<noteq> 0\<close> show False by (simp add: is_char_boundary_def)
    qed
    then show ?thesis by simp
  next
    case False
    then have b: "is_char_boundary r (i - length h)"
      using Char.prems by (auto simp: is_char_boundary_def nth_append)
    have "utf8_valid (take (i - length h) r)"
      using Char.IH [OF b] Char.prems False by simp
    moreover have "utf8_head (h @ take (i - length h) r) = (True, length h)"
      using Char.hyps by (blast intro: utf8_char_extend)
    ultimately show ?thesis
      using False Char.hyps(1) by (simp add: utf8_valid_char_append)
  qed
qed simp

lemma floor_char_boundary_le: "floor_char_boundary s n \<le> n"
  by (induction n) auto

lemma floor_char_boundary_boundary: "is_char_boundary s (floor_char_boundary s n)"
  by (induction n) auto

lemma floor_char_boundary_max:
  "is_char_boundary s i \<Longrightarrow> i \<le> n \<Longrightarrow> i \<le> floor_char_boundary s n"
  by (induction n) (auto simp: le_Suc_eq)

lemma utf8_valid_boundary_within_3:
  "utf8_valid s \<Longrightarrow> n \<le> length s \<Longrightarrow> \<exists>i\<le>n. n \<le> i + 3 \<and> is_char_boundary s i"
proof (induction s arbitrary: n rule: utf8_valid_induct)
  case (Char h r)
  have w: "length h \<le> 4"
    using head_width_le4 [of "h @ r"] Char.hyps by simp
  show ?case
  proof (cases "n < length h")
    case True
    with w show ?thesis by (intro exI [of _ 0]) auto
  next
    case False
    with Char.prems have "n - length h \<le> length r" by simp
    from Char.IH [OF this] obtain i where
      i: "i \<le> n - length h" "n - length h \<le> i + 3" "is_char_boundary r i"
      by blast
    show ?thesis
    proof (cases "i = 0 \<and> r \<noteq> []")
      case True
      have "r \<noteq> []" using True by simp
      moreover have "fst (utf8_head r)"
        using Char.hyps(3) True by (auto simp: utf8_valid.simps [of r] split: if_splits)
      ultimately have "\<not> is_continuation (hd r)" by (rule utf8_head_lead)
      with True have "is_char_boundary (h @ r) (length h)"
        by (auto simp: is_char_boundary_def nth_append hd_conv_nth)
      with i True False show ?thesis by (intro exI [of _ "length h"]) auto
    next
      case f: False
      have "is_char_boundary (h @ r) (length h + i)"
        using i(3) f by (auto simp: is_char_boundary_def nth_append)
      with i False show ?thesis by (intro exI [of _ "length h + i"]) auto
    qed
  qed
qed simp

lemma floor_char_boundary_within_3:
  "utf8_valid s \<Longrightarrow> n \<le> length s \<Longrightarrow> n \<le> floor_char_boundary s n + 3"
  using utf8_valid_boundary_within_3 [of s n] floor_char_boundary_max [of s _ n]
  by (metis add_le_mono1 le_trans)

subsection \<open>ASCII strings\<close>

abbreviation is_ascii :: "string \<Rightarrow> bool" where
  "is_ascii s \<equiv> (\<forall>c\<in>set s. (of_char c :: nat) < 128)"

lemma utf8_head_ascii: "(of_char b :: nat) < 128 \<Longrightarrow> utf8_head (b # bs) = (True, 1)"
  by (simp add: utf8_head_def)

lemma chunks_ascii: "is_ascii s \<Longrightarrow> chunks s = map (\<lambda>c. [c]) s"
  by (induction s) (auto simp: chunks_Cons utf8_head_ascii)

lemma chars_ascii: "is_ascii s \<Longrightarrow> chars s = bytes s"
  by (simp add: chars_def chunks_ascii code_point_def)

lemma utf8_valid_ascii: "is_ascii s \<Longrightarrow> utf8_valid s"
  by (induction s) (auto simp: utf8_valid_Cons utf8_head_ascii)

lemma chars_Nil [simp]: "chars [] = []"
  by (simp add: chars_def)

lemma chars_eq_Nil [simp]: "chars s = [] \<longleftrightarrow> s = []"
  by (cases s) (simp_all add: chars_def chunks_Cons)

lemma chars_char_append:
  "h \<noteq> [] \<Longrightarrow> utf8_head (h @ r) = (True, length h) \<Longrightarrow> chars (h @ r) = code_point h # chars r"
  by (simp add: chars_def chunks.simps [of "h @ r"])

lemma mod_in_block:
  fixes a k m :: nat
  assumes "k * m \<le> a" "a < k * m + m"
  shows "a mod m = a - k * m"
proof -
  from assms have "a = (a - k * m) + k * m" "a - k * m < m" by simp_all
  then show ?thesis by (metis mod_less mod_mult_self1)
qed

lemma lead_byte_bits:
  "194 \<le> (a::nat) \<Longrightarrow> a \<le> 223 \<Longrightarrow> 2 \<le> a mod 32"
  "160 \<le> a \<Longrightarrow> a \<le> 191 \<Longrightarrow> 32 \<le> a mod 64"
  "225 \<le> a \<Longrightarrow> a \<le> 239 \<Longrightarrow> 1 \<le> a mod 16"
  "144 \<le> a \<Longrightarrow> a \<le> 191 \<Longrightarrow> 16 \<le> a mod 64"
  "241 \<le> a \<Longrightarrow> a \<le> 247 \<Longrightarrow> 1 \<le> a mod 8"
  using mod_in_block [of 6 32 a] mod_in_block [of 2 64 a] mod_in_block [of 14 16 a]
    mod_in_block [of 30 8 a]
  by simp_all

lemma utf8_head_three:
  "utf8_head (a # b # c # r) = (True, 3) \<Longrightarrow>
     (of_char a = (224::nat) \<and> byte_between 160 191 b) \<or>
     (225 \<le> (of_char a :: nat) \<and> (of_char a :: nat) \<le> 239)"
  by (auto simp: utf8_head_def Let_def utf8_second_def split: if_splits)

lemma utf8_head_four:
  "utf8_head (a # b # c # d # r) = (True, 4) \<Longrightarrow>
     (of_char a = (240::nat) \<and> byte_between 144 191 b) \<or>
     (241 \<le> (of_char a :: nat) \<and> (of_char a :: nat) \<le> 247)"
  by (auto simp: utf8_head_def Let_def utf8_second_def split: if_splits)

lemma code_point_multibyte:
  assumes "h \<noteq> []" "utf8_head (h @ r) = (True, length h)" "code_point h < 128"
  shows "\<exists>c. h = [c] \<and> (of_char c :: nat) < 128"
proof (cases h rule: four_bytes_cases)
  case (one a)
  with assms show ?thesis by (simp add: code_point_def)
next
  case (two a b)
  with assms have "194 \<le> (of_char a :: nat)" "(of_char a :: nat) \<le> 223"
    by (auto simp: utf8_head_def Let_def split: if_splits)
  with lead_byte_bits(1) have "2 \<le> (of_char a :: nat) mod 32" by blast
  with assms(3) two show ?thesis by (simp add: code_point_def)
next
  case (three a b c)
  with assms have "utf8_head (a # b # c # r) = (True, 3)" by simp
  from utf8_head_three [OF this]
  have "32 \<le> (of_char b :: nat) mod 64 \<or> 1 \<le> (of_char a :: nat) mod 16"
    using lead_byte_bits(2) [of "of_char b"] lead_byte_bits(3) [of "of_char a"]
    by (auto simp: byte_between_def)
  with assms(3) three show ?thesis by (auto simp: code_point_def)
next
  case (four a b c d t)
  with assms(2) have w: "utf8_head (a # b # c # d # t @ r) = (True, length h)" by simp
  with four head_width_le4 [of "a # b # c # d # t @ r"] have t: "t = []" by simp
  with w four have "utf8_head (a # b # c # d # r) = (True, 4)" by simp
  from utf8_head_four [OF this]
  have "16 \<le> (of_char b :: nat) mod 64 \<or> 1 \<le> (of_char a :: nat) mod 8"
    using lead_byte_bits(4) [of "of_char b"] lead_byte_bits(5) [of "of_char a"]
    by (auto simp: byte_between_def)
  with assms(3) four t show ?thesis by (auto simp: code_point_def)
qed (use assms in simp)

lemma utf8_ascii_chars:
  "utf8_valid s \<Longrightarrow> \<forall>n\<in>set (chars s). n < 128 \<Longrightarrow> is_ascii s"
proof (induction s rule: utf8_valid_induct)
  case (Char h r)
  then have "code_point h < 128" and r: "is_ascii r"
    by (simp_all add: chars_char_append)
  with code_point_multibyte [OF Char.hyps(1,2)] obtain c where
    "h = [c]" "(of_char c :: nat) < 128" by blast
  with r show ?case by simp
qed simp

end
