(* ===== verification/Rust_Str.thy ===== *)
theory Rust_Str
  imports Rust_Text
begin

text \<open>
  The \<open>str\<close> and \<open>[u8]\<close> operations of the standard library that the sources call, and the
  decimal formatting and parsing of integers, with the laws the components use: searching is
  the existence of an occurrence, splitting and joining are inverse, a replaced pattern does
  not survive, a decimal number parses back to itself.
\<close>

section \<open>Searching\<close>

definition starts_with :: "string \<Rightarrow> string \<Rightarrow> bool" where
  "starts_with s pat \<longleftrightarrow> take (length pat) s = pat"

definition strip_prefix :: "string \<Rightarrow> string \<Rightarrow> string option" where
  "strip_prefix s pat = (if starts_with s pat then Some (drop (length pat) s) else None)"

fun str_contains :: "string \<Rightarrow> string \<Rightarrow> bool" where
  "str_contains [] pat \<longleftrightarrow> pat = []"
| "str_contains (c # cs) pat \<longleftrightarrow> starts_with (c # cs) pat \<or> str_contains cs pat"

fun str_find :: "string \<Rightarrow> string \<Rightarrow> nat option" where
  "str_find [] pat = (if pat = [] then Some 0 else None)"
| "str_find (c # cs) pat =
     (if starts_with (c # cs) pat then Some 0 else map_option Suc (str_find cs pat))"

definition has_control :: "string \<Rightarrow> bool" where
  "has_control s \<longleftrightarrow> list_ex is_control (chars s)"

definition has_whitespace :: "string \<Rightarrow> bool" where
  "has_whitespace s \<longleftrightarrow> list_ex is_whitespace (chars s)"

lemma starts_with_iff: "starts_with s pat \<longleftrightarrow> (\<exists>v. s = pat @ v)"
  by (metis append_eq_conv_conj append_take_drop_id starts_with_def)

lemma starts_with_append [simp]: "starts_with (pat @ v) pat"
  by (auto simp: starts_with_iff)

lemma starts_with_Nil [simp]: "starts_with s []"
  by (simp add: starts_with_def)

lemma str_contains_iff: "str_contains s pat \<longleftrightarrow> (\<exists>u v. s = u @ pat @ v)"
proof (induction s)
  case (Cons c cs)
  show ?case
  proof
    assume "str_contains (c # cs) pat"
    then consider v where "c # cs = pat @ v" | u v where "cs = u @ pat @ v"
      using Cons.IH by (auto simp: starts_with_iff)
    then show "\<exists>u v. c # cs = u @ pat @ v"
    proof cases
      case (1 v) then show ?thesis by (intro exI [of _ "[]"] exI [of _ v]) simp
    next
      case (2 u v) then show ?thesis by (intro exI [of _ "c # u"] exI [of _ v]) simp
    qed
  next
    assume "\<exists>u v. c # cs = u @ pat @ v"
    then show "str_contains (c # cs) pat"
      using Cons.IH by (auto simp: starts_with_iff Cons_eq_append_conv)
  qed
qed auto

lemma str_find_Some:
  "str_find s pat = Some i \<Longrightarrow> i + length pat \<le> length s \<and> s = take i s @ pat @ drop (i + length pat) s"
proof (induction s arbitrary: i)
  case (Cons c cs)
  show ?case
  proof (cases "starts_with (c # cs) pat")
    case True
    then obtain v where "c # cs = pat @ v" by (auto simp: starts_with_iff)
    moreover from True Cons.prems have "i = 0" by simp
    ultimately show ?thesis by simp
  next
    case False
    with Cons.prems obtain j where "str_find cs pat = Some j" "i = Suc j" by auto
    with Cons.IH [of j] show ?thesis by auto
  qed
qed (auto split: if_splits)

lemma str_find_None: "str_find s pat = None \<longleftrightarrow> \<not> str_contains s pat"
  by (induction s) auto

section \<open>Splitting and joining\<close>

fun split_char :: "char \<Rightarrow> string \<Rightarrow> string list" where
  "split_char d [] = [[]]"
| "split_char d (c # cs) =
     (if c = d then [] # split_char d cs
      else case split_char d cs of [] \<Rightarrow> [[c]] | w # ws \<Rightarrow> (c # w) # ws)"

fun split_once_char :: "char \<Rightarrow> string \<Rightarrow> (string \<times> string) option" where
  "split_once_char d [] = None"
| "split_once_char d (c # cs) =
     (if c = d then Some ([], cs)
      else map_option (\<lambda>(a, b). (c # a, b)) (split_once_char d cs))"

fun join_with :: "string \<Rightarrow> string list \<Rightarrow> string" where
  "join_with d [] = []"
| "join_with d [w] = w"
| "join_with d (w # ws) = w @ d @ join_with d ws"

lemma split_char_nonempty [simp]: "split_char d s \<noteq> []"
  by (induction s) (auto split: list.splits)

lemma join_split_char: "join_with [d] (split_char d s) = s"
proof (induction s)
  case (Cons c cs)
  obtain w ws where "split_char d cs = w # ws"
    using split_char_nonempty [of d cs] by (cases "split_char d cs") auto
  with Cons.IH show ?case by (cases ws) auto
qed simp

lemma set_join_with: "w \<in> set ws \<Longrightarrow> set w \<subseteq> set (join_with d ws)"
  by (induction d ws rule: join_with.induct) auto

lemma length_join_with: "w \<in> set ws \<Longrightarrow> length w \<le> length (join_with d ws)"
  by (induction d ws rule: join_with.induct) auto

lemma set_join_with_subset: "set (join_with d ws) \<subseteq> set d \<union> (\<Union>w\<in>set ws. set w)"
  by (induction d ws rule: join_with.induct) auto

lemma split_char_cover: "c \<in> set s \<Longrightarrow> c = d \<or> (\<exists>w\<in>set (split_char d s). c \<in> set w)"
  using set_join_with_subset [of "[d]" "split_char d s"] by (auto simp: join_split_char)

lemma split_char_no_sep: "w \<in> set (split_char d s) \<Longrightarrow> d \<notin> set w"
  by (induction s arbitrary: w) (auto split: list.splits if_splits)

lemma split_char_single: "d \<notin> set s \<Longrightarrow> split_char d s = [s]"
  by (induction s) auto

lemma split_char_append_sep:
  "split_char d (a @ d # b) = split_char d a @ split_char d b"
  by (induction a) (auto split: list.splits)

lemma split_char_append_no_sep:
  assumes "d \<notin> set b"
  shows "split_char d (a @ b) = butlast (split_char d a) @ [last (split_char d a) @ b]"
proof (induction a)
  case (Cons c cs)
  obtain w ws where "split_char d cs = w # ws"
    using split_char_nonempty [of d cs] by (cases "split_char d cs") auto
  with Cons show ?case by (cases ws) (auto simp: Cons_eq_append_conv)
qed (simp add: split_char_single assms)

lemma split_char_set: "w \<in> set (split_char d s) \<Longrightarrow> set w \<subseteq> set s"
  by (metis join_split_char set_join_with)

lemma split_char_length: "w \<in> set (split_char d s) \<Longrightarrow> length w \<le> length s"
  by (metis join_split_char length_join_with)

lemma split_once_char_Some:
  "split_once_char d s = Some (a, b) \<longleftrightarrow> s = a @ d # b \<and> d \<notin> set a"
  by (induction s arbitrary: a b) (auto simp: Cons_eq_append_conv)

lemma split_once_char_None: "split_once_char d s = None \<longleftrightarrow> d \<notin> set s"
  by (induction s) auto

section \<open>Lines\<close>

definition strip_cr :: "string \<Rightarrow> string" where
  "strip_cr s = (if s \<noteq> [] \<and> last s = char_of (13 :: nat) then butlast s else s)"

definition newline :: char where
  "newline = char_of (10 :: nat)"

definition str_lines :: "string \<Rightarrow> string list" where
  "str_lines s =
     (let segs = split_char newline s
      in map strip_cr (butlast segs) @ (if last segs = [] then [] else [last segs]))"

lemma length_split_char: "length (split_char d s) = Suc (count_list s d)"
  by (induction s) (auto split: list.splits)

lemma count_list_less: "c \<in> set s \<Longrightarrow> c \<noteq> d \<Longrightarrow> count_list s d < length s"
proof (induction s)
  case (Cons x xs)
  then show ?case using count_le_length [of xs d] by (auto simp: less_Suc_eq_le)
qed simp

lemma length_str_lines_le: "length (str_lines s) \<le> length s"
proof -
  have "count_list s newline \<le> length s" by (rule count_le_length)
  moreover have "last (split_char newline s) = [] \<or> count_list s newline < length s"
  proof (rule ccontr)
    assume "\<not> ?thesis"
    then have ne: "last (split_char newline s) \<noteq> []" and all: "count_list s newline = length s"
      using count_le_length [of s newline] by auto
    from ne obtain c where c: "c \<in> set (last (split_char newline s))"
      by (meson last_in_set)
    have "last (split_char newline s) \<in> set (split_char newline s)" by simp
    with c have "c \<in> set s" "c \<noteq> newline"
      using split_char_set split_char_no_sep by blast+
    moreover from this have "count_list s newline < length s"
      using count_list_less [of c s newline] by simp
    ultimately show False using all by simp
  qed
  ultimately show ?thesis
    by (auto simp: str_lines_def Let_def length_split_char)
qed

section \<open>Trimming\<close>

definition chunk_is_whitespace :: "string \<Rightarrow> bool" where
  "chunk_is_whitespace c \<longleftrightarrow> is_whitespace (code_point c)"

definition trim_start :: "string \<Rightarrow> string" where
  "trim_start s = concat (dropWhile chunk_is_whitespace (chunks s))"

definition trim_end :: "string \<Rightarrow> string" where
  "trim_end s = concat (rev (dropWhile chunk_is_whitespace (rev (chunks s))))"

definition trim :: "string \<Rightarrow> string" where
  "trim s = trim_end (trim_start s)"

definition trim_end_matches :: "char list \<Rightarrow> string \<Rightarrow> string" where
  "trim_end_matches cs s = rev (dropWhile (\<lambda>c. c \<in> set cs) (rev s))"

lemma concat_chunks [simp]: "concat (chunks s) = s"
proof (induction s rule: length_induct)
  case (1 s)
  show ?case
  proof (cases "s = []")
    case False
    with "1" drop_head_shorter [of s] have "concat (chunks (drop (head_width s) s)) = drop (head_width s) s"
      by simp
    with False show ?thesis by (subst chunks.simps) simp
  qed simp
qed

lemma trim_end_matches_prefix: "\<exists>v. s = trim_end_matches cs s @ v \<and> set v \<subseteq> set cs"
proof -
  have "rev s = takeWhile (\<lambda>c. c \<in> set cs) (rev s) @ dropWhile (\<lambda>c. c \<in> set cs) (rev s)"
    by simp
  then have "s = rev (dropWhile (\<lambda>c. c \<in> set cs) (rev s)) @ rev (takeWhile (\<lambda>c. c \<in> set cs) (rev s))"
    by (metis rev_append rev_rev_ident)
  then show ?thesis
    by (metis trim_end_matches_def set_rev set_takeWhileD subsetI)
qed

lemma trim_end_matches_last:
  "trim_end_matches cs s \<noteq> [] \<Longrightarrow> last (trim_end_matches cs s) \<notin> set cs"
  using hd_dropWhile [of "\<lambda>c. c \<in> set cs" "rev s"]
  by (simp add: trim_end_matches_def last_rev)

section \<open>Replacing\<close>

fun replace_from :: "string \<Rightarrow> string \<Rightarrow> nat \<Rightarrow> string \<Rightarrow> string" where
  "replace_from pat rep k [] = []"
| "replace_from pat rep k (c # cs) =
     (if 0 < k then replace_from pat rep (k - 1) cs
      else if starts_with (c # cs) pat then rep @ replace_from pat rep (length pat - 1) cs
      else c # replace_from pat rep 0 cs)"

text \<open>
  \<open>str::replace\<close>: the non-overlapping occurrences from left to right; an empty pattern matches
  at every character boundary.  \<open>replace_from\<close> carries the number of bytes of the current
  occurrence that are still to be skipped.
\<close>

definition str_replace :: "string \<Rightarrow> string \<Rightarrow> string \<Rightarrow> string" where
  "str_replace s pat rep =
     (if pat = [] then rep @ concat (map (\<lambda>c. c @ rep) (chunks s))
      else replace_from pat rep 0 s)"

lemma replace_from_skip: "replace_from pat rep k s = replace_from pat rep 0 (drop k s)"
proof (induction s arbitrary: k)
  case (Cons c cs)
  show ?case by (cases k) (simp_all add: Cons.IH)
qed simp

lemma replace_from_0_Cons:
  "pat \<noteq> [] \<Longrightarrow> replace_from pat rep 0 (c # cs) =
     (if starts_with (c # cs) pat then rep @ replace_from pat rep 0 (drop (length pat) (c # cs))
      else c # replace_from pat rep 0 cs)"
  by (cases pat) (simp_all add: replace_from_skip [of _ _ "length _"])

text \<open>
  A replacement \<open>a # mid @ [b]\<close> whose first and last characters do not occur in a string \<open>q\<close>:
  an occurrence of \<open>q\<close> in the result lies in the middle of a replacement or was there before,
  and then it is not the replaced pattern.
\<close>

lemma starts_with_replaced:
  "starts_with (replace_from pat (a # m) 0 s) q \<Longrightarrow> pat \<noteq> [] \<Longrightarrow> a \<notin> set q \<Longrightarrow> starts_with s q"
proof (induction s arbitrary: q)
  case (Cons c cs)
  show ?case
  proof (cases q)
    case (Cons d q')
    show ?thesis
    proof (cases "starts_with (c # cs) pat")
      case True
      with Cons.prems \<open>q = d # q'\<close> show ?thesis by (simp add: replace_from_0_Cons starts_with_def)
    next
      case False
      with Cons.prems \<open>q = d # q'\<close> have "c = d" "starts_with (replace_from pat (a # m) 0 cs) q'"
        by (simp_all add: starts_with_def)
      with Cons.IH [of q'] Cons.prems \<open>q = d # q'\<close> show ?thesis
        by (simp add: starts_with_def)
    qed
  qed simp
qed simp

lemma starts_with_before:
  "starts_with (m @ b # r) q \<Longrightarrow> b \<notin> set q \<Longrightarrow> starts_with m q"
proof (induction m arbitrary: q)
  case Nil
  then show ?case by (cases q) (simp_all add: starts_with_def)
next
  case (Cons c m)
  then show ?case by (cases q) (auto simp: starts_with_def)
qed

lemma str_contains_append_sep:
  "str_contains (m @ b # r) q \<Longrightarrow> b \<notin> set q \<Longrightarrow> q \<noteq> [] \<Longrightarrow> str_contains m q \<or> str_contains r q"
proof (induction m)
  case Nil
  then show ?case by (cases q) (auto simp: starts_with_def)
next
  case (Cons c m)
  then show ?case using starts_with_before [of "c # m" b r q] by auto
qed

lemma str_contains_drop: "str_contains (drop n s) q \<Longrightarrow> str_contains s q"
  unfolding str_contains_iff by (metis append.assoc append_take_drop_id)

lemma str_contains_replaced:
  assumes "str_contains (replace_from pat (a # m @ [b]) 0 s) q" "pat \<noteq> []" "q \<noteq> []"
    and "a \<notin> set q" "b \<notin> set q" "\<not> str_contains m q"
  shows "str_contains s q \<and> q \<noteq> pat"
  using assms(1)
proof (induction s rule: length_induct)
  case (1 s)
  show ?case
  proof (cases s)
    case Nil
    with 1 assms(3) show ?thesis by simp
  next
    case (Cons c cs)
    let ?R = "replace_from pat (a # m @ [b]) 0"
    show ?thesis
    proof (cases "starts_with s pat")
      case True
      let ?t = "drop (length pat) s"
      have "?R s = a # m @ b # ?R ?t"
        using True Cons assms(2) replace_from_0_Cons [of pat "a # m @ [b]" c cs] by simp
      with 1(2) have "str_contains (m @ b # ?R ?t) q"
        using assms(3,4) by (cases q) (auto simp: starts_with_def)
      with assms(3,5,6) have "str_contains (?R ?t) q" using str_contains_append_sep by blast
      moreover have "length ?t < length s" using Cons assms(2) by (cases pat) simp_all
      ultimately have "str_contains ?t q \<and> q \<noteq> pat" using 1(1) by blast
      then show ?thesis using str_contains_drop by blast
    next
      case False
      then have R: "?R s = c # ?R cs"
        using Cons assms(2) replace_from_0_Cons [of pat "a # m @ [b]" c cs] by simp
      with 1(2) consider "starts_with (?R s) q" | "str_contains (?R cs) q" by auto
      then show ?thesis
      proof cases
        case 1
        then have "starts_with s q" using starts_with_replaced assms(2,4) by blast
        with False Cons show ?thesis by auto
      next
        case 2
        with 1(1) Cons show ?thesis by auto
      qed
    qed
  qed
qed

lemma str_contains_take: "str_contains (take n s) q \<Longrightarrow> str_contains s q"
  unfolding str_contains_iff by (metis append.assoc append_take_drop_id)

section \<open>Decimal numbers\<close>

definition digit_char :: "nat \<Rightarrow> char" where
  "digit_char d = char_of (48 + d)"

fun show_nat :: "nat \<Rightarrow> string" where
  "show_nat n = (if n < 10 then [digit_char n] else show_nat (n div 10) @ [digit_char (n mod 10)])"

declare show_nat.simps [simp del]

definition show_bool :: "bool \<Rightarrow> string" where
  "show_bool b = (if b then ''true'' else ''false'')"

definition pad_zero :: "nat \<Rightarrow> string \<Rightarrow> string" where
  "pad_zero w s = replicate (w - length s) (CHR ''0'') @ s"

definition digit_val :: "char \<Rightarrow> nat" where
  "digit_val c = of_char c - 48"

definition parse_digits :: "string \<Rightarrow> nat" where
  "parse_digits s = foldl (\<lambda>acc c. 10 * acc + digit_val c) 0 s"

definition all_digits :: "string \<Rightarrow> bool" where
  "all_digits s \<longleftrightarrow> list_all (\<lambda>c. ascii_digit (of_char c)) s"

lemma of_char_digit_char: "d < 10 \<Longrightarrow> (of_char (digit_char d) :: nat) = 48 + d"
  by (simp add: digit_char_def of_char_mod_256)

lemma digit_val_digit_char [simp]: "d < 10 \<Longrightarrow> digit_val (digit_char d) = d"
  by (simp add: digit_val_def of_char_digit_char)

lemma parse_digits_snoc: "parse_digits (s @ [c]) = 10 * parse_digits s + digit_val c"
  by (simp add: parse_digits_def)

lemma parse_digits_show_nat [simp]: "parse_digits (show_nat n) = n"
proof (induction n rule: show_nat.induct)
  case (1 n)
  show ?case
  proof (cases "n < 10")
    case True
    then show ?thesis by (simp add: show_nat.simps [of n] parse_digits_def)
  next
    case False
    with "1" have "parse_digits (show_nat (n div 10)) = n div 10" by simp
    with False show ?thesis
      by (simp add: show_nat.simps [of n] parse_digits_snoc)
  qed
qed

lemma inj_show_nat: "show_nat m = show_nat n \<longleftrightarrow> m = n"
  by (metis parse_digits_show_nat)

lemma all_digits_show_nat [simp]: "all_digits (show_nat n)"
proof (induction n rule: show_nat.induct)
  case (1 n)
  then show ?case
    by (subst show_nat.simps) (auto simp: all_digits_def ascii_digit_def of_char_digit_char)
qed

lemma show_nat_not_Nil [simp]: "show_nat n \<noteq> []"
  by (subst show_nat.simps) simp

lemma length_show_nat_le: "n < 10 ^ Suc k \<Longrightarrow> length (show_nat n) \<le> Suc k"
proof (induction k arbitrary: n)
  case 0
  then show ?case by (simp add: show_nat.simps [of n])
next
  case (Suc k)
  show ?case
  proof (cases "n < 10")
    case False
    with Suc.prems have "n div 10 < 10 ^ Suc k" by (simp add: less_mult_imp_div_less mult.commute)
    with Suc.IH False show ?thesis by (subst show_nat.simps) fastforce
  qed (simp add: show_nat.simps [of n])
qed

lemma parse_digits_pad_zero [simp]: "parse_digits (pad_zero w s) = parse_digits s"
proof -
  have "foldl (\<lambda>acc c. 10 * acc + digit_val c) 0 (replicate k (CHR ''0'') @ s) = parse_digits s" for k
    by (induction k) (simp_all add: parse_digits_def digit_val_def)
  then show ?thesis by (simp add: pad_zero_def parse_digits_def)
qed

lemma length_pad_zero: "length s \<le> w \<Longrightarrow> length (pad_zero w s) = w"
  by (simp add: pad_zero_def)

lemma all_digits_pad_zero: "all_digits s \<Longrightarrow> all_digits (pad_zero w s)"
  by (auto simp: all_digits_def pad_zero_def list_all_iff ascii_digit_def)

end
