(* ===== verification/Ord_Map.thy ===== *)
theory Ord_Map
  imports Rust_Str
begin

text \<open>
  \<open>BTreeMap<K, V>\<close>, as the list of its entries in ascending key order, and the interface the
  components use of it.  The locale \<open>ordered_map\<close> names the operations and the laws a client
  relies on (what a lookup returns after an insert or a remove, that the keys come out
  ascending and without repetition); the facts about filling a map from a list of entries are
  proved in it once.  The entry-list implementation is its interpretation \<open>bt\<close>.
\<close>

type_synonym ('k, 'v) btree = "('k \<times> 'v) list"

fun bt_insert :: "'k::linorder \<Rightarrow> 'v \<Rightarrow> ('k, 'v) btree \<Rightarrow> ('k, 'v) btree" where
  "bt_insert k v [] = [(k, v)]"
| "bt_insert k v ((k', v') # m) =
     (if k < k' then (k, v) # (k', v') # m
      else if k = k' then (k, v) # m
      else (k', v') # bt_insert k v m)"

fun bt_remove :: "'k::linorder \<Rightarrow> ('k, 'v) btree \<Rightarrow> ('k, 'v) btree" where
  "bt_remove k [] = []"
| "bt_remove k ((k', v') # m) = (if k = k' then m else (k', v') # bt_remove k m)"

fun bt_get :: "('k::linorder, 'v) btree \<Rightarrow> 'k \<Rightarrow> 'v option" where
  "bt_get [] k = None"
| "bt_get ((k', v') # m) k = (if k = k' then Some v' else bt_get m k)"

definition bt_keys :: "('k::linorder, 'v) btree \<Rightarrow> 'k list" where
  "bt_keys m = map fst m"

definition bt_ok :: "('k::linorder, 'v) btree \<Rightarrow> bool" where
  "bt_ok m \<longleftrightarrow> sorted_wrt (<) (map fst m)"

locale ordered_map =
  fixes empty :: "'m"
    and insert :: "'k::linorder \<Rightarrow> 'v \<Rightarrow> 'm \<Rightarrow> 'm"
    and remove :: "'k \<Rightarrow> 'm \<Rightarrow> 'm"
    and lookup :: "'m \<Rightarrow> 'k \<Rightarrow> 'v option"
    and keys :: "'m \<Rightarrow> 'k list"
    and invar :: "'m \<Rightarrow> bool"
  assumes invar_empty: "invar empty"
    and invar_insert: "invar m \<Longrightarrow> invar (insert k v m)"
    and invar_remove: "invar m \<Longrightarrow> invar (remove k m)"
    and lookup_empty: "lookup empty k = None"
    and lookup_insert: "invar m \<Longrightarrow> lookup (insert k v m) k' = (if k' = k then Some v else lookup m k')"
    and lookup_remove: "invar m \<Longrightarrow> lookup (remove k m) k' = (if k' = k then None else lookup m k')"
    and keys_sorted: "invar m \<Longrightarrow> sorted_wrt (<) (keys m)"
    and keys_lookup: "invar m \<Longrightarrow> k \<in> set (keys m) \<longleftrightarrow> lookup m k \<noteq> None"
begin

lemma invar_fold_insert:
  "invar m \<Longrightarrow> invar (fold (\<lambda>(k, v). insert k v) kvs m)"
  by (induction kvs arbitrary: m) (auto intro: invar_insert)

lemma lookup_fold_insert:
  "invar m \<Longrightarrow> distinct (map fst kvs) \<Longrightarrow>
     lookup (fold (\<lambda>(k, v). insert k v) kvs m) k =
       (case map_of kvs k of Some v \<Rightarrow> Some v | None \<Rightarrow> lookup m k)"
proof (induction kvs arbitrary: m)
  case (Cons kv kvs)
  obtain a b where kv: "kv = (a, b)" by (cases kv)
  with Cons show ?case
    by (auto simp: lookup_insert invar_insert split: option.splits
        dest: map_of_SomeD intro: rev_image_eqI)
qed simp

lemma keys_insert: "invar m \<Longrightarrow> set (keys (insert k v m)) = Set.insert k (set (keys m))"
  by (auto simp: keys_lookup invar_insert lookup_insert split: if_splits)

lemma keys_remove: "invar m \<Longrightarrow> set (keys (remove k m)) = set (keys m) - {k}"
  by (auto simp: keys_lookup invar_remove lookup_remove split: if_splits)

lemma distinct_keys: "invar m \<Longrightarrow> distinct (keys m)"
  using keys_sorted [of m] strict_sorted_iff by blast

lemma sorted_keys: "invar m \<Longrightarrow> sorted (keys m)"
  using keys_sorted [of m] strict_sorted_iff by blast

lemma length_keys_insert:
  assumes "invar m"
  shows "length (keys (insert k v m)) = (if lookup m k = None then Suc else id) (length (keys m))"
proof -
  have "length (keys (insert k v m)) = card (Set.insert k (set (keys m)))"
    using assms distinct_keys [OF invar_insert [OF assms]] keys_insert [OF assms]
    by (metis distinct_card)
  moreover have "length (keys m) = card (set (keys m))"
    using distinct_keys [OF assms] by (simp add: distinct_card)
  ultimately show ?thesis
    using keys_lookup [OF assms, of k] by (auto simp: insert_absorb)
qed

end

lemma bt_insert_keys: "set (map fst (bt_insert k v m)) = insert k (set (map fst m))"
  by (induction k v m rule: bt_insert.induct) auto

lemma bt_insert_ok: "bt_ok m \<Longrightarrow> bt_ok (bt_insert k v m)"
proof (induction k v m rule: bt_insert.induct)
  case (2 k v k' v' m)
  then show ?case
    using bt_insert_keys [of k v m] by (auto simp: bt_ok_def)
qed (simp add: bt_ok_def)

lemma bt_get_None: "bt_get m k = None \<longleftrightarrow> k \<notin> set (map fst m)"
  by (induction m k rule: bt_get.induct) auto

lemma bt_get_insert:
  "bt_get (bt_insert k v m) k' = (if k' = k then Some v else bt_get m k')"
  by (induction k v m rule: bt_insert.induct) auto

lemma bt_remove_keys: "bt_ok m \<Longrightarrow> set (map fst (bt_remove k m)) = set (map fst m) - {k}"
  by (induction k m rule: bt_remove.induct) (auto simp: bt_ok_def)

lemma bt_remove_ok: "bt_ok m \<Longrightarrow> bt_ok (bt_remove k m)"
proof (induction k m rule: bt_remove.induct)
  case (2 k k' v' m)
  then show ?case
    using bt_remove_keys [of m k] by (auto simp: bt_ok_def)
qed (simp add: bt_ok_def)

lemma bt_get_remove:
  "bt_ok m \<Longrightarrow> bt_get (bt_remove k m) k' = (if k' = k then None else bt_get m k')"
proof (induction k m rule: bt_remove.induct)
  case (2 k k'' v' m)
  then have "k'' \<notin> set (map fst m)" by (auto simp: bt_ok_def)
  then have "bt_get m k'' = None" by (simp add: bt_get_None del: set_map)
  with 2 show ?case by (auto simp: bt_ok_def)
qed simp

interpretation bt: ordered_map "[]" bt_insert bt_remove bt_get bt_keys bt_ok
proof (unfold_locales, goal_cases)
  case (2 m k v) then show ?case by (rule bt_insert_ok)
next
  case (3 m k) then show ?case by (rule bt_remove_ok)
next
  case (5 m k v k') show ?case by (rule bt_get_insert)
next
  case (6 m k k') then show ?case by (rule bt_get_remove)
next
  case (8 m k) show ?case by (simp add: bt_keys_def bt_get_None)
qed (simp_all add: bt_ok_def bt_keys_def)

lemma bt_get_in_set: "bt_get m k = Some v \<Longrightarrow> (k, v) \<in> set m"
  by (induction m k rule: bt_get.induct) (auto split: if_splits)

lemma bt_insert_set: "x \<in> set (bt_insert k v m) \<Longrightarrow> x = (k, v) \<or> x \<in> set m"
  by (induction k v m rule: bt_insert.induct) (auto split: if_splits)

end
