(* ===== verification/Json.thy ===== *)
theory Json
  imports Ord_Map
begin

text \<open>
  JSON documents, the data the integrations exchange with their upstreams, and the documented
  read accessors of \<open>serde_json::Value\<close>.  Numbers keep the three representations of
  \<open>serde_json::Number\<close>: a non-negative integer, a negative integer and an IEEE-754 double,
  the last as its 64 bits.  Parsing a byte string into a document is not modelled here; the
  clients take it as a parameter.
\<close>

type_synonym f64 = "64 word"

datatype number = PosInt u64 | NegInt i64 | Float f64

datatype json =
    JNull
  | JBool bool
  | JNum number
  | JStr string
  | JArr "json list"
  | JObj "(string \<times> json) list"

fun json_get :: "json \<Rightarrow> string \<Rightarrow> json option" where
  "json_get (JObj m) k = map_of m k"
| "json_get _ k = None"

fun as_bool :: "json \<Rightarrow> bool option" where
  "as_bool (JBool b) = Some b"
| "as_bool _ = None"

fun as_str :: "json \<Rightarrow> string option" where
  "as_str (JStr s) = Some s"
| "as_str _ = None"

fun as_array :: "json \<Rightarrow> json list option" where
  "as_array (JArr a) = Some a"
| "as_array _ = None"

fun as_object :: "json \<Rightarrow> (string \<times> json) list option" where
  "as_object (JObj m) = Some m"
| "as_object _ = None"

fun as_u64 :: "json \<Rightarrow> u64 option" where
  "as_u64 (JNum (PosInt n)) = Some n"
| "as_u64 _ = None"

fun as_i64 :: "json \<Rightarrow> i64 option" where
  "as_i64 (JNum (PosInt n)) = (if n \<le> 9223372036854775807 then Some n else None)"
| "as_i64 (JNum (NegInt n)) = Some n"
| "as_i64 _ = None"

text \<open>
  A JSON pointer \<open>/a/b/0\<close>: object members by name, array elements by a decimal index without
  leading zeros.  The pointers of the sources contain no escaped characters.
\<close>

definition pointer_index :: "string \<Rightarrow> nat option" where
  "pointer_index t =
     (if t = [] \<or> \<not> all_digits t \<or> (hd t = CHR ''0'' \<and> length t \<noteq> 1) then None
      else Some (parse_digits t))"

fun json_step :: "json \<Rightarrow> string \<Rightarrow> json option" where
  "json_step (JObj m) t = map_of m t"
| "json_step (JArr a) t =
     (case pointer_index t of None \<Rightarrow> None
      | Some i \<Rightarrow> if i < length a then Some (a ! i) else None)"
| "json_step _ t = None"

fun json_walk :: "json \<Rightarrow> string list \<Rightarrow> json option" where
  "json_walk v [] = Some v"
| "json_walk v (t # ts) = (case json_step v t of None \<Rightarrow> None | Some w \<Rightarrow> json_walk w ts)"

definition json_pointer :: "json \<Rightarrow> string \<Rightarrow> json option" where
  "json_pointer v p =
     (if p = [] then Some v
      else if hd p \<noteq> CHR ''/'' then None
      else json_walk v (tl (split_char (CHR ''/'') p)))"

text \<open>Reading through an optional value, \<open>value.and_then(Value::as_str)\<close> and its like.\<close>

definition opt_get :: "json option \<Rightarrow> string \<Rightarrow> json option" where
  "opt_get v k = Option.bind v (\<lambda>x. json_get x k)"

definition opt_str :: "json option \<Rightarrow> string option" where
  "opt_str v = Option.bind v as_str"

definition opt_array :: "json option \<Rightarrow> json list option" where
  "opt_array v = Option.bind v as_array"

definition opt_u64 :: "json option \<Rightarrow> u64 option" where
  "opt_u64 v = Option.bind v as_u64"

definition opt_i64 :: "json option \<Rightarrow> i64 option" where
  "opt_i64 v = Option.bind v as_i64"

definition opt_bool :: "json option \<Rightarrow> bool option" where
  "opt_bool v = Option.bind v as_bool"

text \<open>\<open>Option::filter\<close> and \<open>Option<Vec>\<close> flattened into the elements it holds.\<close>

definition opt_filter :: "('a \<Rightarrow> bool) \<Rightarrow> 'a option \<Rightarrow> 'a option" where
  "opt_filter p v = (case v of None \<Rightarrow> None | Some a \<Rightarrow> if p a then Some a else None)"

definition opt_elems :: "'a list option \<Rightarrow> 'a list" where
  "opt_elems v = (case v of None \<Rightarrow> [] | Some as \<Rightarrow> as)"

lemma opt_filter_Some [simp]: "(opt_filter p v = Some a) \<longleftrightarrow> v = Some a \<and> p a"
  by (auto simp: opt_filter_def split: option.splits)

lemma opt_elems_Some [simp]: "opt_elems (Some as) = as"
  by (simp add: opt_elems_def)

lemma opt_elems_None [simp]: "opt_elems None = []"
  by (simp add: opt_elems_def)

end
