(* ===== verification/Tool_Error.thy ===== *)
theory Tool_Error
  imports Json
begin

text \<open>
  The tool error every integration renders its own errors into (\<open>src/tool_error.rs\<close>): a stable
  code, a message, and whether the caller may retry.
\<close>

record tool_error =
  te_code :: string
  te_message :: string
  te_retryable :: bool

definition tool_error_new :: "string \<Rightarrow> string \<Rightarrow> bool \<Rightarrow> tool_error" where
  "tool_error_new code message retryable =
     \<lparr>te_code = code, te_message = message, te_retryable = retryable\<rparr>"

definition into_mcp_result :: "tool_error \<Rightarrow> json" where
  "into_mcp_result e = JObj
     [(''content'', JArr [JObj [(''type'', JStr ''text''), (''text'', JStr (te_message e))]]),
      (''structuredContent'', JObj
        [(''error'', JObj
          [(''code'', JStr (te_code e)),
           (''message'', JStr (te_message e)),
           (''retryable'', JBool (te_retryable e))])]),
      (''isError'', JBool True)]"

end
