(* ===== verification/Kube_Error.thy ===== *)
theory Kube_Error
  imports Tool_Error
begin

text \<open>
  The semantic errors of the Kubernetes integration (\<open>src/integrations/kubernetes/error.rs\<close>),
  their stable codes and messages, and which of them the caller may retry.
\<close>

datatype kube_error =
    KE_InvalidArguments
  | KE_CapacityExhausted
  | KE_Timeout
  | KE_Unauthorized
  | KE_NotFound
  | KE_UnsupportedApi
  | KE_QueryRejected
  | KE_MutationRejected
  | KE_MutationOutcomeUnknown
  | KE_UpstreamUnavailable
  | KE_InvalidResponse
  | KE_ResponseTooLarge
  | KE_RequestCancelled

fun kube_error_code :: "kube_error \<Rightarrow> string" where
  "kube_error_code KE_InvalidArguments = ''invalid_arguments''"
| "kube_error_code KE_CapacityExhausted = ''capacity_exhausted''"
| "kube_error_code KE_Timeout = ''timeout''"
| "kube_error_code KE_Unauthorized = ''kubernetes_unauthorized''"
| "kube_error_code KE_NotFound = ''not_found''"
| "kube_error_code KE_UnsupportedApi = ''unsupported_api''"
| "kube_error_code KE_QueryRejected = ''query_rejected''"
| "kube_error_code KE_MutationRejected = ''mutation_rejected''"
| "kube_error_code KE_MutationOutcomeUnknown = ''mutation_outcome_unknown''"
| "kube_error_code KE_UpstreamUnavailable = ''upstream_unavailable''"
| "kube_error_code KE_InvalidResponse = ''invalid_response''"
| "kube_error_code KE_ResponseTooLarge = ''response_too_large''"
| "kube_error_code KE_RequestCancelled = ''request_cancelled''"

fun kube_error_message :: "kube_error \<Rightarrow> string \<Rightarrow> string \<times> bool" where
  "kube_error_message KE_InvalidArguments subject =
     (''The Kubernetes '' @ subject @ '' arguments are invalid.'', False)"
| "kube_error_message KE_CapacityExhausted subject =
     (''Kubernetes request capacity is currently exhausted.'', True)"
| "kube_error_message KE_Timeout subject = (''The Kubernetes query timed out.'', True)"
| "kube_error_message KE_Unauthorized subject =
     (''Kubernetes rejected the MCP service credentials.'', False)"
| "kube_error_message KE_NotFound subject =
     (''The requested Kubernetes '' @ subject @ '' was not found.'', False)"
| "kube_error_message KE_UnsupportedApi subject =
     (''The requested Kubernetes API is not supported by this cluster.'', False)"
| "kube_error_message KE_QueryRejected subject =
     (''Kubernetes rejected the '' @ subject @ '' query.'', False)"
| "kube_error_message KE_MutationRejected subject =
     (''The requested Kubernetes mutation was rejected.'', False)"
| "kube_error_message KE_MutationOutcomeUnknown subject =
     (''The Kubernetes mutation did not complete cleanly; its outcome may be uncertain. Inspect the exact object before retrying.'', False)"
| "kube_error_message KE_UpstreamUnavailable subject =
     (''The Kubernetes API is currently unavailable.'', True)"
| "kube_error_message KE_InvalidResponse subject =
     (''Kubernetes returned an invalid response.'', False)"
| "kube_error_message KE_ResponseTooLarge subject =
     (''The Kubernetes response exceeded the safe size limit.'', False)"
| "kube_error_message KE_RequestCancelled subject =
     (''The Kubernetes request was cancelled.'', False)"

definition kube_into_tool_error :: "kube_error \<Rightarrow> string \<Rightarrow> tool_error" where
  "kube_into_tool_error e subject =
     (let (message, retryable) = kube_error_message e subject
      in tool_error_new (kube_error_code e) message retryable)"

lemma kube_error_code_inj: "kube_error_code a = kube_error_code b \<longleftrightarrow> a = b"
  by (cases a; cases b) simp_all

lemma kube_retryable_iff:
  "te_retryable (kube_into_tool_error e subject) \<longleftrightarrow>
     e \<in> {KE_CapacityExhausted, KE_Timeout, KE_UpstreamUnavailable}"
  by (cases e) (simp_all add: kube_into_tool_error_def tool_error_new_def)

end
