(* ===== verification/Kube_Kinds.thy ===== *)
theory Kube_Kinds
  imports Kube_Error
begin

text \<open>
  The fixed catalog of resource kinds (\<open>src/integrations/kubernetes/actions.rs\<close>): the enum
  with its discriminants, the two subsets the typed inputs offer, the scope of each kind and
  its API path.  The order \<open>*kind as u8\<close>, by which the source sorts kinds, is the type's
  \<open>linorder\<close>.
\<close>

datatype resource_kind =
    RK_Namespace
  | RK_Node
  | RK_Deployment
  | RK_StatefulSet
  | RK_DaemonSet
  | RK_ReplicaSet
  | RK_Job
  | RK_CronJob
  | RK_Pod
  | RK_Event
  | RK_PodMetric
  | RK_NodeMetric
  | RK_Service
  | RK_EndpointSlice
  | RK_Ingress
  | RK_Gateway
  | RK_GatewayClass
  | RK_HttpRoute
  | RK_NetworkPolicy
  | RK_PersistentVolumeClaim
  | RK_StorageClass
  | RK_HorizontalPodAutoscaler
  | RK_PodDisruptionBudget
  | RK_Certificate
  | RK_ClusterIssuer
  | RK_CnpgCluster
  | RK_Kafka
  | RK_KafkaNodePool
  | RK_KafkaTopic
  | RK_CephCluster
  | RK_CephFilesystem
  | RK_CephBlockPool
  | RK_CephObjectStore
  | RK_VeleroBackup
  | RK_VeleroSchedule
  | RK_BackupStorageLocation

datatype namespaced_resource_kind =
    NRK_Deployment
  | NRK_StatefulSet
  | NRK_DaemonSet
  | NRK_ReplicaSet
  | NRK_Job
  | NRK_CronJob
  | NRK_Pod
  | NRK_Event
  | NRK_PodMetric
  | NRK_Service
  | NRK_EndpointSlice
  | NRK_Ingress
  | NRK_Gateway
  | NRK_HttpRoute
  | NRK_NetworkPolicy
  | NRK_PersistentVolumeClaim
  | NRK_HorizontalPodAutoscaler
  | NRK_PodDisruptionBudget
  | NRK_Certificate
  | NRK_CnpgCluster
  | NRK_Kafka
  | NRK_KafkaNodePool
  | NRK_KafkaTopic
  | NRK_CephCluster
  | NRK_CephFilesystem
  | NRK_CephBlockPool
  | NRK_CephObjectStore
  | NRK_VeleroBackup
  | NRK_VeleroSchedule
  | NRK_BackupStorageLocation

datatype cluster_resource_kind =
    CRK_Namespace
  | CRK_Node
  | CRK_NodeMetric
  | CRK_GatewayClass
  | CRK_StorageClass
  | CRK_ClusterIssuer

fun from_namespaced_kind :: "namespaced_resource_kind \<Rightarrow> resource_kind" where
  "from_namespaced_kind NRK_Deployment = RK_Deployment"
| "from_namespaced_kind NRK_StatefulSet = RK_StatefulSet"
| "from_namespaced_kind NRK_DaemonSet = RK_DaemonSet"
| "from_namespaced_kind NRK_ReplicaSet = RK_ReplicaSet"
| "from_namespaced_kind NRK_Job = RK_Job"
| "from_namespaced_kind NRK_CronJob = RK_CronJob"
| "from_namespaced_kind NRK_Pod = RK_Pod"
| "from_namespaced_kind NRK_Event = RK_Event"
| "from_namespaced_kind NRK_PodMetric = RK_PodMetric"
| "from_namespaced_kind NRK_Service = RK_Service"
| "from_namespaced_kind NRK_EndpointSlice = RK_EndpointSlice"
| "from_namespaced_kind NRK_Ingress = RK_Ingress"
| "from_namespaced_kind NRK_Gateway = RK_Gateway"
| "from_namespaced_kind NRK_HttpRoute = RK_HttpRoute"
| "from_namespaced_kind NRK_NetworkPolicy = RK_NetworkPolicy"
| "from_namespaced_kind NRK_PersistentVolumeClaim = RK_PersistentVolumeClaim"
| "from_namespaced_kind NRK_HorizontalPodAutoscaler = RK_HorizontalPodAutoscaler"
| "from_namespaced_kind NRK_PodDisruptionBudget = RK_PodDisruptionBudget"
| "from_namespaced_kind NRK_Certificate = RK_Certificate"
| "from_namespaced_kind NRK_CnpgCluster = RK_CnpgCluster"
| "from_namespaced_kind NRK_Kafka = RK_Kafka"
| "from_namespaced_kind NRK_KafkaNodePool = RK_KafkaNodePool"
| "from_namespaced_kind NRK_KafkaTopic = RK_KafkaTopic"
| "from_namespaced_kind NRK_CephCluster = RK_CephCluster"
| "from_namespaced_kind NRK_CephFilesystem = RK_CephFilesystem"
| "from_namespaced_kind NRK_CephBlockPool = RK_CephBlockPool"
| "from_namespaced_kind NRK_CephObjectStore = RK_CephObjectStore"
| "from_namespaced_kind NRK_VeleroBackup = RK_VeleroBackup"
| "from_namespaced_kind NRK_VeleroSchedule = RK_VeleroSchedule"
| "from_namespaced_kind NRK_BackupStorageLocation = RK_BackupStorageLocation"

fun from_cluster_kind :: "cluster_resource_kind \<Rightarrow> resource_kind" where
  "from_cluster_kind CRK_Namespace = RK_Namespace"
| "from_cluster_kind CRK_Node = RK_Node"
| "from_cluster_kind CRK_NodeMetric = RK_NodeMetric"
| "from_cluster_kind CRK_GatewayClass = RK_GatewayClass"
| "from_cluster_kind CRK_StorageClass = RK_StorageClass"
| "from_cluster_kind CRK_ClusterIssuer = RK_ClusterIssuer"

definition kind_namespaced :: "resource_kind \<Rightarrow> bool" where
  "kind_namespaced k \<longleftrightarrow>
     \<not> (case k of RK_Namespace \<Rightarrow> True | RK_Node \<Rightarrow> True | RK_NodeMetric \<Rightarrow> True
        | RK_GatewayClass \<Rightarrow> True | RK_StorageClass \<Rightarrow> True | RK_ClusterIssuer \<Rightarrow> True
        | _ \<Rightarrow> False)"

fun kind_mapping :: "resource_kind \<Rightarrow> string \<times> string \<times> string" where
  "kind_mapping RK_Namespace = (''api'', ''v1'', ''namespaces'')"
| "kind_mapping RK_Node = (''api'', ''v1'', ''nodes'')"
| "kind_mapping RK_Deployment = (''apis'', ''apps/v1'', ''deployments'')"
| "kind_mapping RK_StatefulSet = (''apis'', ''apps/v1'', ''statefulsets'')"
| "kind_mapping RK_DaemonSet = (''apis'', ''apps/v1'', ''daemonsets'')"
| "kind_mapping RK_ReplicaSet = (''apis'', ''apps/v1'', ''replicasets'')"
| "kind_mapping RK_Job = (''apis'', ''batch/v1'', ''jobs'')"
| "kind_mapping RK_CronJob = (''apis'', ''batch/v1'', ''cronjobs'')"
| "kind_mapping RK_Pod = (''api'', ''v1'', ''pods'')"
| "kind_mapping RK_Event = (''apis'', ''events.k8s.io/v1'', ''events'')"
| "kind_mapping RK_PodMetric = (''apis'', ''metrics.k8s.io/v1beta1'', ''pods'')"
| "kind_mapping RK_NodeMetric = (''apis'', ''metrics.k8s.io/v1beta1'', ''nodes'')"
| "kind_mapping RK_Service = (''api'', ''v1'', ''services'')"
| "kind_mapping RK_EndpointSlice = (''apis'', ''discovery.k8s.io/v1'', ''endpointslices'')"
| "kind_mapping RK_Ingress = (''apis'', ''networking.k8s.io/v1'', ''ingresses'')"
| "kind_mapping RK_Gateway = (''apis'', ''gateway.networking.k8s.io/v1'', ''gateways'')"
| "kind_mapping RK_GatewayClass = (''apis'', ''gateway.networking.k8s.io/v1'', ''gatewayclasses'')"
| "kind_mapping RK_HttpRoute = (''apis'', ''gateway.networking.k8s.io/v1'', ''httproutes'')"
| "kind_mapping RK_NetworkPolicy = (''apis'', ''networking.k8s.io/v1'', ''networkpolicies'')"
| "kind_mapping RK_PersistentVolumeClaim = (''api'', ''v1'', ''persistentvolumeclaims'')"
| "kind_mapping RK_StorageClass = (''apis'', ''storage.k8s.io/v1'', ''storageclasses'')"
| "kind_mapping RK_HorizontalPodAutoscaler = (''apis'', ''autoscaling/v2'', ''horizontalpodautoscalers'')"
| "kind_mapping RK_PodDisruptionBudget = (''apis'', ''policy/v1'', ''poddisruptionbudgets'')"
| "kind_mapping RK_Certificate = (''apis'', ''cert-manager.io/v1'', ''certificates'')"
| "kind_mapping RK_ClusterIssuer = (''apis'', ''cert-manager.io/v1'', ''clusterissuers'')"
| "kind_mapping RK_CnpgCluster = (''apis'', ''postgresql.cnpg.io/v1'', ''clusters'')"
| "kind_mapping RK_Kafka = (''apis'', ''kafka.strimzi.io/v1beta2'', ''kafkas'')"
| "kind_mapping RK_KafkaNodePool = (''apis'', ''kafka.strimzi.io/v1beta2'', ''kafkanodepools'')"
| "kind_mapping RK_KafkaTopic = (''apis'', ''kafka.strimzi.io/v1beta2'', ''kafkatopics'')"
| "kind_mapping RK_CephCluster = (''apis'', ''ceph.rook.io/v1'', ''cephclusters'')"
| "kind_mapping RK_CephFilesystem = (''apis'', ''ceph.rook.io/v1'', ''cephfilesystems'')"
| "kind_mapping RK_CephBlockPool = (''apis'', ''ceph.rook.io/v1'', ''cephblockpools'')"
| "kind_mapping RK_CephObjectStore = (''apis'', ''ceph.rook.io/v1'', ''cephobjectstores'')"
| "kind_mapping RK_VeleroBackup = (''apis'', ''velero.io/v1'', ''backups'')"
| "kind_mapping RK_VeleroSchedule = (''apis'', ''velero.io/v1'', ''schedules'')"
| "kind_mapping RK_BackupStorageLocation = (''apis'', ''velero.io/v1'', ''backupstoragelocations'')"

fun kind_as_u8 :: "resource_kind \<Rightarrow> nat" where
  "kind_as_u8 RK_Namespace = 0"
| "kind_as_u8 RK_Node = 1"
| "kind_as_u8 RK_Deployment = 2"
| "kind_as_u8 RK_StatefulSet = 3"
| "kind_as_u8 RK_DaemonSet = 4"
| "kind_as_u8 RK_ReplicaSet = 5"
| "kind_as_u8 RK_Job = 6"
| "kind_as_u8 RK_CronJob = 7"
| "kind_as_u8 RK_Pod = 8"
| "kind_as_u8 RK_Event = 9"
| "kind_as_u8 RK_PodMetric = 10"
| "kind_as_u8 RK_NodeMetric = 11"
| "kind_as_u8 RK_Service = 12"
| "kind_as_u8 RK_EndpointSlice = 13"
| "kind_as_u8 RK_Ingress = 14"
| "kind_as_u8 RK_Gateway = 15"
| "kind_as_u8 RK_GatewayClass = 16"
| "kind_as_u8 RK_HttpRoute = 17"
| "kind_as_u8 RK_NetworkPolicy = 18"
| "kind_as_u8 RK_PersistentVolumeClaim = 19"
| "kind_as_u8 RK_StorageClass = 20"
| "kind_as_u8 RK_HorizontalPodAutoscaler = 21"
| "kind_as_u8 RK_PodDisruptionBudget = 22"
| "kind_as_u8 RK_Certificate = 23"
| "kind_as_u8 RK_ClusterIssuer = 24"
| "kind_as_u8 RK_CnpgCluster = 25"
| "kind_as_u8 RK_Kafka = 26"
| "kind_as_u8 RK_KafkaNodePool = 27"
| "kind_as_u8 RK_KafkaTopic = 28"
| "kind_as_u8 RK_CephCluster = 29"
| "kind_as_u8 RK_CephFilesystem = 30"
| "kind_as_u8 RK_CephBlockPool = 31"
| "kind_as_u8 RK_CephObjectStore = 32"
| "kind_as_u8 RK_VeleroBackup = 33"
| "kind_as_u8 RK_VeleroSchedule = 34"
| "kind_as_u8 RK_BackupStorageLocation = 35"

definition all_resource_kinds :: "resource_kind list" where
  "all_resource_kinds =
    [RK_Namespace,
     RK_Node,
     RK_Deployment,
     RK_StatefulSet,
     RK_DaemonSet,
     RK_ReplicaSet,
     RK_Job,
     RK_CronJob,
     RK_Pod,
     RK_Event,
     RK_PodMetric,
     RK_NodeMetric,
     RK_Service,
     RK_EndpointSlice,
     RK_Ingress,
     RK_Gateway,
     RK_GatewayClass,
     RK_HttpRoute,
     RK_NetworkPolicy,
     RK_PersistentVolumeClaim,
     RK_StorageClass,
     RK_HorizontalPodAutoscaler,
     RK_PodDisruptionBudget,
     RK_Certificate,
     RK_ClusterIssuer,
     RK_CnpgCluster,
     RK_Kafka,
     RK_KafkaNodePool,
     RK_KafkaTopic,
     RK_CephCluster,
     RK_CephFilesystem,
     RK_CephBlockPool,
     RK_CephObjectStore,
     RK_VeleroBackup,
     RK_VeleroSchedule,
     RK_BackupStorageLocation]"

definition kind_of_u8 :: "nat \<Rightarrow> resource_kind" where
  "kind_of_u8 n = [RK_Namespace,
     RK_Node,
     RK_Deployment,
     RK_StatefulSet,
     RK_DaemonSet,
     RK_ReplicaSet,
     RK_Job,
     RK_CronJob,
     RK_Pod,
     RK_Event,
     RK_PodMetric,
     RK_NodeMetric,
     RK_Service,
     RK_EndpointSlice,
     RK_Ingress,
     RK_Gateway,
     RK_GatewayClass,
     RK_HttpRoute,
     RK_NetworkPolicy,
     RK_PersistentVolumeClaim,
     RK_StorageClass,
     RK_HorizontalPodAutoscaler,
     RK_PodDisruptionBudget,
     RK_Certificate,
     RK_ClusterIssuer,
     RK_CnpgCluster,
     RK_Kafka,
     RK_KafkaNodePool,
     RK_KafkaTopic,
     RK_CephCluster,
     RK_CephFilesystem,
     RK_CephBlockPool,
     RK_CephObjectStore,
     RK_VeleroBackup,
     RK_VeleroSchedule,
     RK_BackupStorageLocation] ! n"

lemma kind_of_as_u8 [simp]: "kind_of_u8 (kind_as_u8 k) = k"
  by (cases k) (simp_all add: kind_of_u8_def)

lemma kind_as_u8_inj: "kind_as_u8 a = kind_as_u8 b \<longleftrightarrow> a = b"
  by (metis kind_of_as_u8)

instantiation resource_kind :: linorder
begin

definition less_eq_resource_kind :: "resource_kind \<Rightarrow> resource_kind \<Rightarrow> bool" where
  "less_eq_resource_kind a b \<longleftrightarrow> kind_as_u8 a \<le> kind_as_u8 b"

definition less_resource_kind :: "resource_kind \<Rightarrow> resource_kind \<Rightarrow> bool" where
  "less_resource_kind a b \<longleftrightarrow> kind_as_u8 a < kind_as_u8 b"

instance
  by standard
    (auto simp: less_eq_resource_kind_def less_resource_kind_def kind_as_u8_inj)

end

definition kind_api_version :: "resource_kind \<Rightarrow> string" where
  "kind_api_version k = fst (snd (kind_mapping k))"

section \<open>Laws of the catalog\<close>

lemma all_resource_kinds_complete: "k \<in> set all_resource_kinds"
  by (cases k) (simp_all add: all_resource_kinds_def)

lemma length_all_resource_kinds: "length all_resource_kinds = 36"
  by (simp add: all_resource_kinds_def)

lemma distinct_all_resource_kinds: "distinct all_resource_kinds"
proof -
  have "distinct (map kind_as_u8 all_resource_kinds)"
    by (simp add: all_resource_kinds_def)
  then show ?thesis by (simp only: distinct_map)
qed

lemma from_namespaced_kind_namespaced: "kind_namespaced (from_namespaced_kind k)"
  by (cases k) (simp_all add: kind_namespaced_def)

lemma from_cluster_kind_cluster: "\<not> kind_namespaced (from_cluster_kind k)"
  by (cases k) (simp_all add: kind_namespaced_def)

lemma namespaced_kinds_partition:
  "kind_namespaced k \<longleftrightarrow> k \<in> range from_namespaced_kind"
  "\<not> kind_namespaced k \<longleftrightarrow> k \<in> range from_cluster_kind"
proof -
  have "kind_namespaced k \<Longrightarrow> \<exists>n. from_namespaced_kind n = k"
    by (cases k) (simp_all add: kind_namespaced_def, (metis from_namespaced_kind.simps)+)
  then show "kind_namespaced k \<longleftrightarrow> k \<in> range from_namespaced_kind"
    using from_namespaced_kind_namespaced by (metis rangeE rangeI)
  have "\<not> kind_namespaced k \<Longrightarrow> \<exists>n. from_cluster_kind n = k"
    by (cases k) (simp_all add: kind_namespaced_def, (metis from_cluster_kind.simps)+)
  then show "\<not> kind_namespaced k \<longleftrightarrow> k \<in> range from_cluster_kind"
    using from_cluster_kind_cluster by (metis rangeE rangeI)
qed

end
