(* ===== verification/Kube_Validate.thy ===== *)
theory Kube_Validate
  imports Kube_Kinds
begin

text \<open>
  The string predicates of the Kubernetes inputs
  (\<open>src/integrations/kubernetes/actions.rs\<close>, from \<open>valid_identifier\<close> to
  \<open>valid_label_segment\<close>, and \<open>valid_context\<close> of \<open>runner.rs\<close>): catalog names, DNS labels and
  subdomains, label keys and values, UIDs.  The lemmas state what a caller-supplied string
  that passes them can contain.
\<close>

definition valid_identifier :: "string \<Rightarrow> nat \<Rightarrow> bool" where
  "valid_identifier value max_len \<longleftrightarrow>
     value \<noteq> [] \<and> length value \<le> max_len \<and> \<not> starts_with value ''-''
     \<and> \<not> list_ex (\<lambda>c. is_control c \<or> is_whitespace c) (chars value)
     \<and> list_all (\<lambda>c. ascii_alphanumeric c \<or> c \<in> set (bytes ''-._'')) (chars value)"

definition valid_catalog_name :: "string \<Rightarrow> bool" where
  "valid_catalog_name value = valid_identifier value 253"

definition first_alphanumeric :: "string \<Rightarrow> bool" where
  "first_alphanumeric value \<longleftrightarrow> (case value of [] \<Rightarrow> False | c # _ \<Rightarrow> ascii_alphanumeric (of_char c))"

definition last_alphanumeric :: "string \<Rightarrow> bool" where
  "last_alphanumeric value \<longleftrightarrow> value \<noteq> [] \<and> ascii_alphanumeric (of_char (last value))"

definition valid_dns_label :: "string \<Rightarrow> bool" where
  "valid_dns_label value \<longleftrightarrow>
     value \<noteq> [] \<and> length value \<le> 63
     \<and> list_all (\<lambda>b. ascii_lowercase b \<or> ascii_digit b \<or> b = of_char (CHR ''-'')) (bytes value)
     \<and> first_alphanumeric value \<and> last_alphanumeric value"

definition valid_dns_subdomain :: "string \<Rightarrow> nat \<Rightarrow> bool" where
  "valid_dns_subdomain value max_len \<longleftrightarrow>
     value \<noteq> [] \<and> length value \<le> max_len
     \<and> list_all valid_dns_label (split_char (CHR ''.'') value)"

definition valid_object_name :: "string \<Rightarrow> bool" where
  "valid_object_name value = valid_dns_subdomain value 253"

definition valid_namespace :: "string \<Rightarrow> bool" where
  "valid_namespace value = valid_dns_label value"

definition valid_cronjob_name :: "string \<Rightarrow> bool" where
  "valid_cronjob_name value \<longleftrightarrow> length value \<le> 52 \<and> valid_object_name value"

definition valid_uid :: "string \<Rightarrow> bool" where
  "valid_uid value \<longleftrightarrow>
     value \<noteq> [] \<and> length value \<le> 128
     \<and> list_all (\<lambda>b. ascii_alphanumeric b \<or> b \<in> set (bytes ''-._'')) (bytes value)"

definition valid_label_segment :: "string \<Rightarrow> bool \<Rightarrow> bool" where
  "valid_label_segment value empty_allowed \<longleftrightarrow>
     (if value = [] then empty_allowed
      else length value \<le> 63
        \<and> list_all (\<lambda>b. ascii_alphanumeric b \<or> b \<in> set (bytes ''-._'')) (bytes value)
        \<and> first_alphanumeric value \<and> last_alphanumeric value)"

definition valid_label_key :: "string \<Rightarrow> bool" where
  "valid_label_key value \<longleftrightarrow>
     (case split_once_char (CHR ''/'') value of
        None \<Rightarrow> valid_label_segment value False
      | Some (prefix, name) \<Rightarrow> valid_dns_subdomain prefix 253 \<and> valid_label_segment name False)"

definition valid_label_value :: "string \<Rightarrow> bool" where
  "valid_label_value value = valid_label_segment value True"

definition valid_context :: "string \<Rightarrow> bool" where
  "valid_context value \<longleftrightarrow>
     value \<noteq> [] \<and> length value \<le> 253 \<and> \<not> starts_with value ''-''
     \<and> \<not> list_ex (\<lambda>c. is_control c \<or> is_whitespace c) (chars value)
     \<and> list_all (\<lambda>c. ascii_alphanumeric c \<or> c \<in> set (bytes ''-._:/'')) (chars value)"

section \<open>What a validated string contains\<close>

text \<open>The bytes of a DNS label and of a DNS subdomain.\<close>

definition dns_byte :: "char \<Rightarrow> bool" where
  "dns_byte c \<longleftrightarrow> ascii_lowercase (of_char c) \<or> ascii_digit (of_char c) \<or> c = CHR ''-''"

lemma dns_byte_code:
  "dns_byte c \<longleftrightarrow> ascii_lowercase (of_char c) \<or> ascii_digit (of_char c) \<or> of_char c = (of_char (CHR ''-'') :: nat)"
  unfolding dns_byte_def of_char_eq_iff ..

lemma first_alphanumeric_iff: "first_alphanumeric v \<longleftrightarrow> v \<noteq> [] \<and> ascii_alphanumeric (of_char (hd v))"
  by (cases v) (simp_all add: first_alphanumeric_def)

lemma valid_dns_label_iff:
  "valid_dns_label v \<longleftrightarrow>
     v \<noteq> [] \<and> length v \<le> 63 \<and> (\<forall>c\<in>set v. dns_byte c)
     \<and> ascii_alphanumeric (of_char (hd v)) \<and> ascii_alphanumeric (of_char (last v))"
  unfolding valid_dns_label_def first_alphanumeric_iff last_alphanumeric_def dns_byte_code
    list_all_iff set_map ball_simps by blast

lemma valid_dns_label_bytes: "valid_dns_label v \<Longrightarrow> c \<in> set v \<Longrightarrow> dns_byte c"
  by (simp add: valid_dns_label_iff)

lemma valid_dns_subdomain_bytes:
  assumes "valid_dns_subdomain v n" "c \<in> set v"
  shows "dns_byte c \<or> c = CHR ''.''"
  using split_char_cover [OF assms(2), of "CHR ''.''"] assms(1)
  unfolding valid_dns_subdomain_def list_all_iff by (blast dest: valid_dns_label_bytes)

lemma hd_split_char: "s \<noteq> [] \<Longrightarrow> hd (split_char d s) \<noteq> [] \<Longrightarrow> hd s = hd (hd (split_char d s))"
  by (cases s) (auto split: list.splits)

lemma valid_dns_subdomain_hd:
  assumes "valid_dns_subdomain v n"
  shows "v \<noteq> []" "ascii_alphanumeric (of_char (hd v))"
proof -
  show v: "v \<noteq> []" using assms by (simp add: valid_dns_subdomain_def)
  have "valid_dns_label (hd (split_char (CHR ''.'') v))"
    using assms by (simp add: valid_dns_subdomain_def list_all_iff)
  then have "hd (split_char (CHR ''.'') v) \<noteq> []"
    and "ascii_alphanumeric (of_char (hd (hd (split_char (CHR ''.'') v))))"
    by (simp_all add: valid_dns_label_iff)
  with v show "ascii_alphanumeric (of_char (hd v))" by (simp add: hd_split_char)
qed

lemma dns_byte_ascii: "dns_byte c \<Longrightarrow> (of_char c :: nat) < 128"
  by (auto simp: dns_byte_def ascii_defs)

text \<open>
  A validated name, namespace or container cannot change the meaning of the URL path, query
  string or command line it is put into.
\<close>

definition inert_in_path :: "string \<Rightarrow> bool" where
  "inert_in_path v \<longleftrightarrow> v \<noteq> [] \<and> \<not> starts_with v ''-''
     \<and> (\<forall>c\<in>set v. c \<notin> set ''/?&=%#+, '' \<and> \<not> is_control (of_char c) \<and> (of_char c :: nat) < 128)"

lemma dns_byte_inert:
  "dns_byte c \<or> c = CHR ''.'' \<Longrightarrow>
     c \<notin> set ''/?&=%#+, '' \<and> \<not> is_control (of_char c) \<and> (of_char c :: nat) < 128"
  by (auto simp: dns_byte_def ascii_defs is_control_def)

lemma alphanumeric_not_dash: "ascii_alphanumeric (of_char (hd v)) \<Longrightarrow> v \<noteq> [] \<Longrightarrow> \<not> starts_with v ''-''"
  by (cases v) (auto simp: starts_with_def ascii_defs)

lemma valid_dns_subdomain_inert:
  assumes "valid_dns_subdomain v n"
  shows "inert_in_path v"
proof -
  have "\<not> starts_with v ''-''"
    using valid_dns_subdomain_hd [OF assms] by (simp add: alphanumeric_not_dash)
  moreover have "c \<notin> set ''/?&=%#+, '' \<and> \<not> is_control (of_char c) \<and> (of_char c :: nat) < 128"
    if "c \<in> set v" for c
    using valid_dns_subdomain_bytes [OF assms that] by (rule dns_byte_inert)
  ultimately show ?thesis
    using valid_dns_subdomain_hd(1) [OF assms] unfolding inert_in_path_def by blast
qed

lemma valid_object_name_inert: "valid_object_name v \<Longrightarrow> inert_in_path v"
  by (simp add: valid_object_name_def valid_dns_subdomain_inert)

lemma not_dns_byte_dot: "\<not> dns_byte (CHR ''.'')"
  by (simp add: dns_byte_def ascii_defs)

lemma valid_dns_label_subdomain:
  assumes "valid_dns_label v"
  shows "valid_dns_subdomain v 253"
proof -
  have "CHR ''.'' \<notin> set v"
    using valid_dns_label_bytes [OF assms] not_dns_byte_dot by blast
  then have "split_char (CHR ''.'') v = [v]" by (rule split_char_single)
  with assms show ?thesis
    by (simp add: valid_dns_subdomain_def) (simp add: valid_dns_label_iff)
qed

lemma valid_dns_label_inert: "valid_dns_label v \<Longrightarrow> inert_in_path v"
  by (rule valid_dns_subdomain_inert [OF valid_dns_label_subdomain])

lemma valid_namespace_inert: "valid_namespace v \<Longrightarrow> inert_in_path v"
  by (simp add: valid_namespace_def valid_dns_label_inert)

end
