(* ===== verification/Kube_Actions.thy ===== *)
theory Kube_Actions
  imports Kube_Validate
begin

text \<open>
  The typed inputs and the validated commands of the Kubernetes integration
  (\<open>src/integrations/kubernetes/actions.rs\<close>).  An input enum or struct is what a caller sends;
  \<open>validate\<close> turns it into a command or rejects it, and a command's \<open>is_valid\<close> is the check
  the client repeats before it starts a process.  The lemmas show that the two agree: a
  command is the result of a validation exactly when \<open>is_valid\<close> holds of it.
\<close>

datatype kube_validation_error = KubeValidationError

section \<open>Resource queries\<close>

definition max_selectors :: nat where
  "max_selectors = 8"

record resource_query_input =
  rqi_kind :: resource_kind
  rqi_namespace :: "string option"
  rqi_name :: "string option"
  rqi_labels :: "(string, string) btree"
  rqi_limit :: "u16 option"

record resource_query =
  rq_kind :: resource_kind
  rq_namespace :: "string option"
  rq_name :: "string option"
  rq_labels :: "(string, string) btree"
  rq_limit :: u16

definition unwrap_or :: "'a option \<Rightarrow> 'a \<Rightarrow> 'a" where
  "unwrap_or x d = (case x of None \<Rightarrow> d | Some a \<Rightarrow> a)"

definition is_some_and :: "('a \<Rightarrow> bool) \<Rightarrow> 'a option \<Rightarrow> bool" where
  "is_some_and p x = (case x of None \<Rightarrow> False | Some a \<Rightarrow> p a)"

definition is_none_or :: "('a \<Rightarrow> bool) \<Rightarrow> 'a option \<Rightarrow> bool" where
  "is_none_or p x = (case x of None \<Rightarrow> True | Some a \<Rightarrow> p a)"

definition resource_query_input_validate ::
  "resource_query_input \<Rightarrow> kube_validation_error + resource_query" where
  "resource_query_input_validate i =
     (if is_some_and (\<lambda>v. \<not> valid_namespace v) (rqi_namespace i)
         \<or> is_some_and (\<lambda>v. \<not> valid_object_name v) (rqi_name i)
         \<or> kind_namespaced (rqi_kind i) \<noteq> (rqi_namespace i \<noteq> None)
         \<or> (rqi_name i \<noteq> None \<and> rqi_labels i \<noteq> [])
         \<or> length (rqi_labels i) > max_selectors
         \<or> list_ex (\<lambda>(k, v). \<not> valid_label_key k \<or> \<not> valid_label_value v) (rqi_labels i)
      then Inl KubeValidationError
      else let limit = unwrap_or (rqi_limit i) 50 in
        if \<not> (1 \<le> limit \<and> limit \<le> 100) then Inl KubeValidationError
        else Inr \<lparr>rq_kind = rqi_kind i, rq_namespace = rqi_namespace i, rq_name = rqi_name i,
                  rq_labels = rqi_labels i, rq_limit = limit\<rparr>)"

definition resource_query_is_valid :: "resource_query \<Rightarrow> bool" where
  "resource_query_is_valid q \<longleftrightarrow>
     is_none_or valid_namespace (rq_namespace q)
     \<and> is_none_or valid_object_name (rq_name q)
     \<and> kind_namespaced (rq_kind q) = (rq_namespace q \<noteq> None)
     \<and> (rq_name q = None \<or> rq_labels q = [])
     \<and> length (rq_labels q) \<le> max_selectors
     \<and> list_all (\<lambda>(k, v). valid_label_key k \<and> valid_label_value v) (rq_labels q)
     \<and> 1 \<le> rq_limit q \<and> rq_limit q \<le> 100"

section \<open>Capability queries\<close>

record capabilities_query =
  cq_kinds :: "resource_kind list"

definition capabilities_input_validate ::
  "resource_kind list option \<Rightarrow> kube_validation_error + capabilities_query" where
  "capabilities_input_validate kinds_opt =
     (let kinds = unwrap_or kinds_opt all_resource_kinds in
      if kinds = [] \<or> length kinds > length all_resource_kinds then Inl KubeValidationError
      else let unique = remdups_adj (sort kinds) in
        if length unique \<noteq> length kinds then Inl KubeValidationError
        else Inr \<lparr>cq_kinds = kinds\<rparr>)"

definition capabilities_query_is_valid :: "capabilities_query \<Rightarrow> bool" where
  "capabilities_query_is_valid q \<longleftrightarrow>
     (let kinds = remdups_adj (sort (cq_kinds q)) in
      kinds \<noteq> [] \<and> length kinds = length (cq_kinds q)
      \<and> length kinds \<le> length all_resource_kinds)"

section \<open>Pod logs\<close>

datatype pod_log_instance = CurrentInstance | PreviousInstance

record pod_logs_query_input =
  pli_namespace :: string
  pli_pod :: string
  pli_pod_uid :: string
  pli_container :: string
  pli_instance :: pod_log_instance
  pli_tail_lines :: "u16 option"
  pli_max_bytes :: "u32 option"

record pod_logs_query =
  plq_namespace :: string
  plq_pod :: string
  plq_pod_uid :: string
  plq_container :: string
  plq_instance :: pod_log_instance
  plq_tail_lines :: u16
  plq_max_bytes :: u32

definition pod_logs_query_input_validate ::
  "pod_logs_query_input \<Rightarrow> kube_validation_error + pod_logs_query" where
  "pod_logs_query_input_validate i =
     (let tail_lines = unwrap_or (pli_tail_lines i) 200;
          max_bytes = unwrap_or (pli_max_bytes i) 65536 in
      if \<not> valid_namespace (pli_namespace i)
         \<or> \<not> valid_object_name (pli_pod i)
         \<or> \<not> valid_dns_label (pli_container i)
         \<or> \<not> valid_uid (pli_pod_uid i)
         \<or> \<not> (1 \<le> tail_lines \<and> tail_lines \<le> 1000)
         \<or> \<not> (1 \<le> max_bytes \<and> max_bytes \<le> 262144)
      then Inl KubeValidationError
      else Inr \<lparr>plq_namespace = pli_namespace i, plq_pod = pli_pod i, plq_pod_uid = pli_pod_uid i,
                plq_container = pli_container i, plq_instance = pli_instance i,
                plq_tail_lines = tail_lines, plq_max_bytes = max_bytes\<rparr>)"

definition pod_logs_query_is_valid :: "pod_logs_query \<Rightarrow> bool" where
  "pod_logs_query_is_valid q \<longleftrightarrow>
     valid_namespace (plq_namespace q)
     \<and> valid_object_name (plq_pod q)
     \<and> valid_dns_label (plq_container q)
     \<and> valid_uid (plq_pod_uid q)
     \<and> 1 \<le> plq_tail_lines q \<and> plq_tail_lines q \<le> 1000
     \<and> 1 \<le> plq_max_bytes q \<and> plq_max_bytes q \<le> 262144"

section \<open>Query inputs and commands\<close>

datatype kube_query_input =
    KQI_ClusterList
  | KQI_CapabilityList string "resource_kind list option"
  | KQI_ResourceList string resource_kind "string option" "(string, string) btree" "u16 option"
  | KQI_ResourceGet string resource_kind "string option" string
  | KQI_PodLogs string pod_logs_query_input

datatype kube_query_command =
    KQ_ClusterList
  | KQ_CapabilityList string capabilities_query
  | KQ_Resource string resource_query
  | KQ_PodLogs string pod_logs_query

fun kube_query_input_validate :: "kube_query_input \<Rightarrow> kube_validation_error + kube_query_command" where
  "kube_query_input_validate KQI_ClusterList = Inr KQ_ClusterList"
| "kube_query_input_validate (KQI_CapabilityList cluster kinds) =
     (if valid_catalog_name cluster then
        and_then (capabilities_input_validate kinds) (\<lambda>q. Inr (KQ_CapabilityList cluster q))
      else Inl KubeValidationError)"
| "kube_query_input_validate (KQI_ResourceList cluster kind namespace labels limit) =
     (if valid_catalog_name cluster then
        and_then (resource_query_input_validate
          \<lparr>rqi_kind = kind, rqi_namespace = namespace, rqi_name = None, rqi_labels = labels,
           rqi_limit = limit\<rparr>)
        (\<lambda>q. Inr (KQ_Resource cluster q))
      else Inl KubeValidationError)"
| "kube_query_input_validate (KQI_ResourceGet cluster kind namespace name) =
     (if valid_catalog_name cluster then
        and_then (resource_query_input_validate
          \<lparr>rqi_kind = kind, rqi_namespace = namespace, rqi_name = Some name, rqi_labels = [],
           rqi_limit = Some 1\<rparr>)
        (\<lambda>q. Inr (KQ_Resource cluster q))
      else Inl KubeValidationError)"
| "kube_query_input_validate (KQI_PodLogs cluster logs) =
     (if valid_catalog_name cluster then
        and_then (pod_logs_query_input_validate logs) (\<lambda>q. Inr (KQ_PodLogs cluster q))
      else Inl KubeValidationError)"

text \<open>The per-action inputs of the tools, which all delegate to \<open>QueryInput::validate\<close>.\<close>

definition cluster_list_input_validate :: "kube_validation_error + kube_query_command" where
  "cluster_list_input_validate = kube_query_input_validate KQI_ClusterList"

definition pod_logs_input_validate ::
  "string \<Rightarrow> pod_logs_query_input \<Rightarrow> kube_validation_error + kube_query_command" where
  "pod_logs_input_validate cluster logs = kube_query_input_validate (KQI_PodLogs cluster logs)"

definition capability_list_input_validate ::
  "string \<Rightarrow> resource_kind list option \<Rightarrow> kube_validation_error + kube_query_command" where
  "capability_list_input_validate cluster kinds =
     kube_query_input_validate (KQI_CapabilityList cluster kinds)"

datatype resource_list_input =
    RLI_Namespaced string namespaced_resource_kind string "(string, string) btree" "u16 option"
  | RLI_Cluster string cluster_resource_kind "(string, string) btree" "u16 option"

fun resource_list_input_validate ::
  "resource_list_input \<Rightarrow> kube_validation_error + kube_query_command" where
  "resource_list_input_validate (RLI_Namespaced cluster kind namespace labels limit) =
     kube_query_input_validate
       (KQI_ResourceList cluster (from_namespaced_kind kind) (Some namespace) labels limit)"
| "resource_list_input_validate (RLI_Cluster cluster kind labels limit) =
     kube_query_input_validate
       (KQI_ResourceList cluster (from_cluster_kind kind) None labels limit)"

datatype resource_get_input =
    RGI_Namespaced string namespaced_resource_kind string string
  | RGI_Cluster string cluster_resource_kind string

fun resource_get_input_validate ::
  "resource_get_input \<Rightarrow> kube_validation_error + kube_query_command" where
  "resource_get_input_validate (RGI_Namespaced cluster kind namespace name) =
     kube_query_input_validate
       (KQI_ResourceGet cluster (from_namespaced_kind kind) (Some namespace) name)"
| "resource_get_input_validate (RGI_Cluster cluster kind name) =
     kube_query_input_validate (KQI_ResourceGet cluster (from_cluster_kind kind) None name)"

section \<open>Mutation inputs and commands\<close>

datatype restart_workload_kind = RW_Deployment | RW_StatefulSet | RW_DaemonSet

fun restart_kind_argument :: "restart_workload_kind \<Rightarrow> string" where
  "restart_kind_argument RW_Deployment = ''deployment''"
| "restart_kind_argument RW_StatefulSet = ''statefulset''"
| "restart_kind_argument RW_DaemonSet = ''daemonset''"

datatype scalable_workload_kind = SW_Deployment | SW_StatefulSet

fun scalable_kind_argument :: "scalable_workload_kind \<Rightarrow> string" where
  "scalable_kind_argument SW_Deployment = ''deployment''"
| "scalable_kind_argument SW_StatefulSet = ''statefulset''"

text \<open>Arguments: cluster, (kind,) namespace, name, (replicas or suspended,) dry run.\<close>

datatype kube_exec_input =
    KEI_WorkloadRestart string restart_workload_kind string string "bool option"
  | KEI_WorkloadScale string scalable_workload_kind string string u32 "bool option"
  | KEI_CronjobSuspend string string string bool "bool option"
  | KEI_CronjobTrigger string string string "bool option"
  | KEI_PodDelete string string string "bool option"

datatype kube_exec_command =
    KX_WorkloadRestart string restart_workload_kind string string bool
  | KX_WorkloadScale string scalable_workload_kind string string u32 bool
  | KX_CronjobSuspend string string string bool bool
  | KX_CronjobTrigger string string string bool
  | KX_PodDelete string string string bool

definition valid_pair :: "string \<Rightarrow> string \<Rightarrow> bool" where
  "valid_pair namespace name \<longleftrightarrow> valid_namespace namespace \<and> valid_object_name name"

fun kube_exec_input_validate :: "kube_exec_input \<Rightarrow> kube_validation_error + kube_exec_command" where
  "kube_exec_input_validate (KEI_WorkloadRestart cluster kind namespace name dry_run) =
     (if valid_catalog_name cluster \<and> valid_pair namespace name
      then Inr (KX_WorkloadRestart cluster kind namespace name (unwrap_or dry_run False))
      else Inl KubeValidationError)"
| "kube_exec_input_validate (KEI_WorkloadScale cluster kind namespace name replicas dry_run) =
     (if valid_catalog_name cluster \<and> valid_pair namespace name \<and> replicas \<le> 1000
      then Inr (KX_WorkloadScale cluster kind namespace name replicas (unwrap_or dry_run False))
      else Inl KubeValidationError)"
| "kube_exec_input_validate (KEI_CronjobSuspend cluster namespace name suspended dry_run) =
     (if valid_catalog_name cluster \<and> valid_pair namespace name \<and> valid_cronjob_name name
      then Inr (KX_CronjobSuspend cluster namespace name suspended (unwrap_or dry_run False))
      else Inl KubeValidationError)"
| "kube_exec_input_validate (KEI_CronjobTrigger cluster namespace name dry_run) =
     (if valid_catalog_name cluster \<and> valid_pair namespace name \<and> valid_cronjob_name name
      then Inr (KX_CronjobTrigger cluster namespace name (unwrap_or dry_run False))
      else Inl KubeValidationError)"
| "kube_exec_input_validate (KEI_PodDelete cluster namespace name dry_run) =
     (if valid_catalog_name cluster \<and> valid_pair namespace name
      then Inr (KX_PodDelete cluster namespace name (unwrap_or dry_run False))
      else Inl KubeValidationError)"

fun kube_exec_cluster :: "kube_exec_command \<Rightarrow> string" where
  "kube_exec_cluster (KX_WorkloadRestart cluster _ _ _ _) = cluster"
| "kube_exec_cluster (KX_WorkloadScale cluster _ _ _ _ _) = cluster"
| "kube_exec_cluster (KX_CronjobSuspend cluster _ _ _ _) = cluster"
| "kube_exec_cluster (KX_CronjobTrigger cluster _ _ _) = cluster"
| "kube_exec_cluster (KX_PodDelete cluster _ _ _) = cluster"

fun kube_exec_target_valid :: "kube_exec_command \<Rightarrow> bool" where
  "kube_exec_target_valid (KX_WorkloadRestart _ _ namespace name _) = valid_pair namespace name"
| "kube_exec_target_valid (KX_PodDelete _ namespace name _) = valid_pair namespace name"
| "kube_exec_target_valid (KX_CronjobSuspend _ namespace name _ _) =
     (valid_pair namespace name \<and> valid_cronjob_name name)"
| "kube_exec_target_valid (KX_CronjobTrigger _ namespace name _) =
     (valid_pair namespace name \<and> valid_cronjob_name name)"
| "kube_exec_target_valid (KX_WorkloadScale _ _ namespace name replicas _) =
     (valid_pair namespace name \<and> replicas \<le> 1000)"

definition kube_exec_is_valid :: "kube_exec_command \<Rightarrow> bool" where
  "kube_exec_is_valid c \<longleftrightarrow> valid_catalog_name (kube_exec_cluster c) \<and> kube_exec_target_valid c"

text \<open>The per-action inputs of the mutation tools.\<close>

definition workload_restart_input_validate ::
  "string \<Rightarrow> restart_workload_kind \<Rightarrow> string \<Rightarrow> string \<Rightarrow> bool option
     \<Rightarrow> kube_validation_error + kube_exec_command" where
  "workload_restart_input_validate cluster kind namespace name dry_run =
     kube_exec_input_validate (KEI_WorkloadRestart cluster kind namespace name dry_run)"

definition workload_scale_input_validate ::
  "string \<Rightarrow> scalable_workload_kind \<Rightarrow> string \<Rightarrow> string \<Rightarrow> u32 \<Rightarrow> bool option
     \<Rightarrow> kube_validation_error + kube_exec_command" where
  "workload_scale_input_validate cluster kind namespace name replicas dry_run =
     kube_exec_input_validate (KEI_WorkloadScale cluster kind namespace name replicas dry_run)"

definition cronjob_suspend_input_validate ::
  "string \<Rightarrow> string \<Rightarrow> string \<Rightarrow> bool \<Rightarrow> bool option \<Rightarrow> kube_validation_error + kube_exec_command" where
  "cronjob_suspend_input_validate cluster namespace name suspended dry_run =
     kube_exec_input_validate (KEI_CronjobSuspend cluster namespace name suspended dry_run)"

definition cronjob_trigger_input_validate ::
  "string \<Rightarrow> string \<Rightarrow> string \<Rightarrow> bool option \<Rightarrow> kube_validation_error + kube_exec_command" where
  "cronjob_trigger_input_validate cluster namespace name dry_run =
     kube_exec_input_validate (KEI_CronjobTrigger cluster namespace name dry_run)"

definition pod_delete_input_validate ::
  "string \<Rightarrow> string \<Rightarrow> string \<Rightarrow> bool option \<Rightarrow> kube_validation_error + kube_exec_command" where
  "pod_delete_input_validate cluster namespace name dry_run =
     kube_exec_input_validate (KEI_PodDelete cluster namespace name dry_run)"

section \<open>Laws\<close>

lemmas option_test_defs = unwrap_or_def is_some_and_def is_none_or_def

lemma resource_query_input_validate_Inr [valid_simps]:
  "(resource_query_input_validate i = Inr q) \<longleftrightarrow>
     q = \<lparr>rq_kind = rqi_kind i, rq_namespace = rqi_namespace i, rq_name = rqi_name i,
          rq_labels = rqi_labels i, rq_limit = unwrap_or (rqi_limit i) 50\<rparr>
     \<and> resource_query_is_valid q"
  by (auto simp: resource_query_input_validate_def resource_query_is_valid_def is_some_and_def
      is_none_or_def Let_def list_all_iff list_ex_iff split: option.splits)

lemma resource_query_validate_iff:
  "(\<exists>i. resource_query_input_validate i = Inr q) \<longleftrightarrow> resource_query_is_valid q"
proof
  assume "resource_query_is_valid q"
  then show "\<exists>i. resource_query_input_validate i = Inr q"
    by (intro exI [of _ "\<lparr>rqi_kind = rq_kind q, rqi_namespace = rq_namespace q,
        rqi_name = rq_name q, rqi_labels = rq_labels q, rqi_limit = Some (rq_limit q)\<rparr>"])
       (simp add: valid_simps unwrap_or_def)
qed (auto simp: valid_simps)

lemma sorted_unique_length:
  fixes ks :: "'a::linorder list"
  shows "length (remdups_adj (sort ks)) = length ks \<longleftrightarrow> distinct ks"
  using length_remdups_adj_sorted [of "sort ks"] by simp

lemma capabilities_input_validate_Inr [valid_simps]:
  "(capabilities_input_validate k = Inr q) \<longleftrightarrow>
     q = \<lparr>cq_kinds = unwrap_or k all_resource_kinds\<rparr> \<and> cq_kinds q \<noteq> [] \<and> distinct (cq_kinds q)"
proof -
  have "distinct (unwrap_or k all_resource_kinds) \<Longrightarrow>
      length (unwrap_or k all_resource_kinds) \<le> length all_resource_kinds"
    using card_mono [of "set all_resource_kinds" "set (unwrap_or k all_resource_kinds)"]
      all_resource_kinds_complete distinct_all_resource_kinds
    by (simp add: distinct_card subsetI)
  then show ?thesis
    by (auto simp: capabilities_input_validate_def Let_def sorted_unique_length)
qed

lemma capabilities_query_is_valid_iff [valid_simps]:
  "capabilities_query_is_valid q \<longleftrightarrow> cq_kinds q \<noteq> [] \<and> distinct (cq_kinds q)"
proof -
  have "length (cq_kinds q) \<le> length all_resource_kinds" if "distinct (cq_kinds q)"
    using that card_mono [of "set all_resource_kinds" "set (cq_kinds q)"]
      all_resource_kinds_complete distinct_all_resource_kinds
    by (simp add: distinct_card subsetI)
  then have "length (remdups_adj (sort (cq_kinds q))) \<le> length all_resource_kinds"
    if "distinct (cq_kinds q)"
    using that remdups_adj_length [of "sort (cq_kinds q)"] by fastforce
  moreover have "remdups_adj (sort (cq_kinds q)) = [] \<longleftrightarrow> cq_kinds q = []"
    by (metis length_0_conv length_sort remdups_adj_Nil_iff)
  ultimately show ?thesis
    by (auto simp: capabilities_query_is_valid_def Let_def sorted_unique_length)
qed

lemma capabilities_validate_iff:
  "(\<exists>k. capabilities_input_validate k = Inr q) \<longleftrightarrow> capabilities_query_is_valid q"
proof
  assume "capabilities_query_is_valid q"
  then show "\<exists>k. capabilities_input_validate k = Inr q"
    by (intro exI [of _ "Some (cq_kinds q)"]) (simp add: valid_simps unwrap_or_def)
qed (auto simp: valid_simps)

lemma pod_logs_query_input_validate_Inr [valid_simps]:
  "(pod_logs_query_input_validate i = Inr q) \<longleftrightarrow>
     q = \<lparr>plq_namespace = pli_namespace i, plq_pod = pli_pod i, plq_pod_uid = pli_pod_uid i,
          plq_container = pli_container i, plq_instance = pli_instance i,
          plq_tail_lines = unwrap_or (pli_tail_lines i) 200,
          plq_max_bytes = unwrap_or (pli_max_bytes i) 65536\<rparr>
     \<and> pod_logs_query_is_valid q"
  by (auto simp: pod_logs_query_input_validate_def pod_logs_query_is_valid_def Let_def)

lemma pod_logs_validate_iff:
  "(\<exists>i. pod_logs_query_input_validate i = Inr q) \<longleftrightarrow> pod_logs_query_is_valid q"
proof
  assume "pod_logs_query_is_valid q"
  then show "\<exists>i. pod_logs_query_input_validate i = Inr q"
    by (intro exI [of _ "\<lparr>pli_namespace = plq_namespace q, pli_pod = plq_pod q,
        pli_pod_uid = plq_pod_uid q, pli_container = plq_container q,
        pli_instance = plq_instance q, pli_tail_lines = Some (plq_tail_lines q),
        pli_max_bytes = Some (plq_max_bytes q)\<rparr>"])
       (simp add: valid_simps unwrap_or_def)
qed (auto simp: valid_simps)

lemma kube_exec_validate_valid:
  "kube_exec_input_validate i = Inr c \<Longrightarrow> kube_exec_is_valid c"
  by (cases i) (auto simp: kube_exec_is_valid_def split: if_splits)

lemma kube_exec_valid_reachable:
  assumes "kube_exec_is_valid c"
  shows "\<exists>i. kube_exec_input_validate i = Inr c"
proof (cases c)
  case (KX_WorkloadRestart a k n m d)
  with assms show ?thesis
    by (intro exI [of _ "KEI_WorkloadRestart a k n m (Some d)"])
       (simp add: kube_exec_is_valid_def unwrap_or_def)
next
  case (KX_WorkloadScale a k n m r d)
  with assms show ?thesis
    by (intro exI [of _ "KEI_WorkloadScale a k n m r (Some d)"])
       (simp add: kube_exec_is_valid_def unwrap_or_def)
next
  case (KX_CronjobSuspend a n m s d)
  with assms show ?thesis
    by (intro exI [of _ "KEI_CronjobSuspend a n m s (Some d)"])
       (simp add: kube_exec_is_valid_def unwrap_or_def)
next
  case (KX_CronjobTrigger a n m d)
  with assms show ?thesis
    by (intro exI [of _ "KEI_CronjobTrigger a n m (Some d)"])
       (simp add: kube_exec_is_valid_def unwrap_or_def)
next
  case (KX_PodDelete a n m d)
  with assms show ?thesis
    by (intro exI [of _ "KEI_PodDelete a n m (Some d)"])
       (simp add: kube_exec_is_valid_def unwrap_or_def)
qed

fun kube_query_command_is_valid :: "kube_query_command \<Rightarrow> bool" where
  "kube_query_command_is_valid KQ_ClusterList = True"
| "kube_query_command_is_valid (KQ_CapabilityList cluster q) =
     (valid_catalog_name cluster \<and> capabilities_query_is_valid q)"
| "kube_query_command_is_valid (KQ_Resource cluster q) =
     (valid_catalog_name cluster \<and> resource_query_is_valid q)"
| "kube_query_command_is_valid (KQ_PodLogs cluster q) =
     (valid_catalog_name cluster \<and> pod_logs_query_is_valid q)"

lemma kube_query_validate_valid:
  assumes "kube_query_input_validate i = Inr c"
  shows "kube_query_command_is_valid c"
proof (cases i)
  case (KQI_CapabilityList cluster k)
  with assms show ?thesis
    using capabilities_validate_iff by (fastforce split: if_splits)
next
  case (KQI_ResourceList cluster kind ns labels limit)
  with assms show ?thesis
    using resource_query_validate_iff by (fastforce split: if_splits)
next
  case (KQI_ResourceGet cluster kind ns name)
  with assms show ?thesis
    using resource_query_validate_iff by (fastforce split: if_splits)
next
  case (KQI_PodLogs cluster l)
  with assms show ?thesis
    using pod_logs_validate_iff by (fastforce split: if_splits)
qed (use assms in auto)

section \<open>Properties\<close>

text \<open>
  The mutation commands that validation can produce are exactly those the client's own
  check accepts: validation and \<open>ExecCommand::is_valid\<close> are the same boundary, so no validated
  mutation is turned away later and no unvalidated one passes.
\<close>

theorem exec_validation_exact:
  "(\<exists>i. kube_exec_input_validate i = Inr c) \<longleftrightarrow> kube_exec_is_valid c"
  using kube_exec_validate_valid kube_exec_valid_reachable by blast

text \<open>
  Resource, capability and pod-log queries: the queries that validation can produce are
  exactly those their \<open>is_valid\<close> accepts.
\<close>

theorem query_validation_exact:
  "((\<exists>i. resource_query_input_validate i = Inr rq) \<longleftrightarrow> resource_query_is_valid rq)
   \<and> ((\<exists>k. capabilities_input_validate k = Inr cq) \<longleftrightarrow> capabilities_query_is_valid cq)
   \<and> ((\<exists>l. pod_logs_query_input_validate l = Inr lq) \<longleftrightarrow> pod_logs_query_is_valid lq)"
  using resource_query_validate_iff capabilities_validate_iff pod_logs_validate_iff by blast

end
