(* ===== verification/Rust_Float.thy ===== *)
theory Rust_Float
  imports Json "HOL-Library.Log_Nat"
begin

text \<open>
  What the sources ask of floating-point values: whether \<open>str::parse::<f64>\<close> accepts a string
  with a finite result, whether a double given by its IEEE-754 bits is finite and where it
  lies, and the double nearest to an integer (\<open>as f64\<close>, \<open>Value::as_f64\<close>).  The arithmetic
  on doubles that the Grafana client does is in Float_Arith.
\<close>

section \<open>Parsing a decimal\<close>

text \<open>
  The documented grammar of \<open>f64::from_str\<close>: an optional sign, digits with an optional point
  and at least one digit, an optional exponent.  \<open>inf\<close>, \<open>infinity\<close> and \<open>nan\<close> parse as well,
  but not to a finite number.  The result is correctly rounded, so it is infinite exactly from
  the midpoint between the largest double and the next power of two, \<open>2^1024 - 2^970\<close>.
\<close>

definition drop_sign :: "string \<Rightarrow> bool \<times> string" where
  "drop_sign s =
     (case s of [] \<Rightarrow> (False, [])
      | c # cs \<Rightarrow> if c = CHR ''-'' then (True, cs) else if c = CHR ''+'' then (False, cs) else (False, s))"

definition span_digits :: "string \<Rightarrow> string \<times> string" where
  "span_digits s =
     (takeWhile (\<lambda>c. ascii_digit (of_char c)) s, dropWhile (\<lambda>c. ascii_digit (of_char c)) s)"

definition parse_exponent :: "string \<Rightarrow> int option" where
  "parse_exponent s =
     (case s of [] \<Rightarrow> Some 0
      | c # cs \<Rightarrow>
          if c = CHR ''e'' \<or> c = CHR ''E'' then
            (let (neg, ds) = drop_sign cs in
             if ds = [] \<or> \<not> all_digits ds then None
             else Some (if neg then - int (parse_digits ds) else int (parse_digits ds)))
          else None)"

definition parse_decimal :: "string \<Rightarrow> (nat \<times> int) option" where
  "parse_decimal s =
     (let (_, t) = drop_sign s;
          (whole, r) = span_digits t;
          (frac, r') = (case r of [] \<Rightarrow> ([], []) | c # cs \<Rightarrow> if c = CHR ''.'' then span_digits cs else ([], r))
      in if whole = [] \<and> frac = [] then None
         else map_option (\<lambda>e. (parse_digits (whole @ frac), e - int (length frac))) (parse_exponent r'))"

definition decimal_finite :: "nat \<times> int \<Rightarrow> bool" where
  "decimal_finite d =
     (let (m, e) = d; bound = 2 ^ 1024 - 2 ^ 970 :: nat
      in if 0 \<le> e then m * 10 ^ nat e < bound else m < bound * 10 ^ nat (- e))"

definition parses_finite_f64 :: "string \<Rightarrow> bool" where
  "parses_finite_f64 s = (case parse_decimal s of None \<Rightarrow> False | Some d \<Rightarrow> decimal_finite d)"

section \<open>Doubles by their bits\<close>

definition f64_exponent :: "f64 \<Rightarrow> nat" where
  "f64_exponent w = unat w div 2 ^ 52 mod 2 ^ 11"

definition f64_is_finite :: "f64 \<Rightarrow> bool" where
  "f64_is_finite w \<longleftrightarrow> f64_exponent w \<noteq> 2047"

text \<open>
  Non-negative doubles are ordered like their bits; \<open>1.0\<close> is \<open>0x3FF0000000000000\<close> and \<open>-0.0\<close>
  is \<open>0x8000000000000000\<close>, equal to \<open>0.0\<close>.
\<close>

definition f64_in_unit_interval :: "f64 \<Rightarrow> bool" where
  "f64_in_unit_interval w \<longleftrightarrow> unat w \<le> 0x3FF0000000000000 \<or> unat w = 0x8000000000000000"

lemma f64_in_unit_interval_finite: "f64_in_unit_interval w \<Longrightarrow> f64_is_finite w"
proof -
  assume "f64_in_unit_interval w"
  then consider "unat w \<le> 1023 * 2 ^ 52" | "unat w = 2048 * 2 ^ 52"
    by (auto simp: f64_in_unit_interval_def)
  then have "unat w div 2 ^ 52 \<le> 1023 \<or> unat w div 2 ^ 52 = 2048"
  proof cases
    case 1
    then have "unat w div 2 ^ 52 \<le> 1023 * 2 ^ 52 div 2 ^ 52" by (rule div_le_mono)
    then show ?thesis by simp
  qed simp
  then show ?thesis by (auto simp: f64_is_finite_def f64_exponent_def)
qed

lemma span_digits_append: "fst (span_digits s) @ snd (span_digits s) = s"
  by (simp add: span_digits_def)

section \<open>From integers to doubles\<close>

text \<open>
  \<open>n as f64\<close>: the nearest double, ties to the even significand.  With \<open>e\<close> the position of the
  highest bit, a number of at most 53 bits is exact; a longer one keeps its top 53 bits, rounded
  by the bits below them.  A carry out of the significand falls into the exponent, which is the
  next power of two, as it should be.
\<close>

definition round_shift :: "nat \<Rightarrow> nat \<Rightarrow> nat" where
  "round_shift n k =
     (let q = n div 2 ^ k; r = n mod 2 ^ k; half = 2 ^ (k - 1) in
      if half < r \<or> (half = r \<and> odd q) then q + 1 else q)"

definition significand :: "nat \<Rightarrow> nat \<Rightarrow> nat" where
  "significand n e = (if e \<le> 52 then n * 2 ^ (52 - e) else round_shift n (e - 52))"

definition nat_to_f64_bits :: "nat \<Rightarrow> nat" where
  "nat_to_f64_bits n =
     (if n = 0 then 0
      else let e = floorlog 2 n - 1 in (1023 + e) * 2 ^ 52 + (significand n e - 2 ^ 52))"

definition u64_as_f64 :: "u64 \<Rightarrow> f64" where
  "u64_as_f64 n = word_of_nat (nat_to_f64_bits (unat n))"

definition i64_as_f64 :: "i64 \<Rightarrow> f64" where
  "i64_as_f64 n =
     (if 0 \<le> sint n then word_of_nat (nat_to_f64_bits (nat (sint n)))
      else word_of_nat (2 ^ 63 + nat_to_f64_bits (nat (- sint n))))"

fun as_f64 :: "json \<Rightarrow> f64 option" where
  "as_f64 (JNum (PosInt n)) = Some (u64_as_f64 n)"
| "as_f64 (JNum (NegInt n)) = Some (i64_as_f64 n)"
| "as_f64 (JNum (Float w)) = Some w"
| "as_f64 _ = None"

lemma significand_bounds:
  assumes "0 < n" "e = floorlog 2 n - 1"
  shows "2 ^ 52 \<le> significand n e \<and> significand n e \<le> 2 ^ 53"
proof -
  have fl: "0 < floorlog 2 n" using assms(1) by (simp add: floorlog_def)
  have lo: "2 ^ e \<le> n" and hi: "n < 2 ^ Suc e"
    using floorlog_bounds [of n 2] assms(1,2) fl by simp_all
  show ?thesis
  proof (cases "e \<le> 52")
    case True
    have e: "(2::nat) ^ e * 2 ^ (52 - e) = 2 ^ 52" using True by (simp flip: power_add)
    have "n * 2 ^ (52 - e) < 2 ^ Suc e * 2 ^ (52 - e)" using hi by simp
    then have "n * 2 ^ (52 - e) < 2 * 2 ^ 52" using e by (simp add: mult.assoc)
    moreover have "2 ^ 52 \<le> n * 2 ^ (52 - e)" using mult_le_mono1 [OF lo, of "2 ^ (52 - e)"] e by simp
    ultimately show ?thesis using True by (simp add: significand_def)
  next
    case False
    define k where "k = e - 52"
    have "e = 52 + k" using False by (simp add: k_def)
    then have e: "(2::nat) ^ e = 2 ^ 52 * 2 ^ k" by (simp only: power_add)
    have "2 ^ 52 \<le> n div 2 ^ k" using lo e by (simp add: less_eq_div_iff_mult_less_eq)
    moreover have "n div 2 ^ k < 2 ^ 53" using hi e by (simp add: less_mult_imp_div_less)
    ultimately show ?thesis using False by (simp add: significand_def round_shift_def k_def Let_def)
  qed
qed

lemma nat_to_f64_bits_bound:
  assumes "n < 2 ^ 64"
  shows "nat_to_f64_bits n \<le> 1087 * 2 ^ 52"
proof (cases "n = 0")
  case False
  define e where "e = floorlog 2 n - 1"
  have "floorlog 2 n \<le> 64" using assms by (simp add: floorlog_leI)
  then have "e \<le> 63" by (simp add: e_def)
  then have "(1023 + e) * 2 ^ 52 \<le> 1086 * 2 ^ 52" by simp
  moreover have "significand n e \<le> 2 * 2 ^ 52"
    using conjunct2 [OF significand_bounds [of n e]] False e_def by simp
  then have "significand n e - 2 ^ 52 \<le> 2 ^ 52" by linarith
  moreover have "nat_to_f64_bits n = (1023 + e) * 2 ^ 52 + (significand n e - 2 ^ 52)"
    using False by (simp add: nat_to_f64_bits_def Let_def e_def)
  ultimately show ?thesis by linarith
qed (simp add: nat_to_f64_bits_def)

lemma f64_finite_below:
  assumes "m \<le> 1087 * 2 ^ 52"
  shows "f64_is_finite (word_of_nat m)" "f64_is_finite (word_of_nat (2 ^ 63 + m))"
proof -
  have d: "m div 2 ^ 52 \<le> 1087" using div_le_mono [OF assms, of "2 ^ 52"] by simp
  have "unat (word_of_nat m :: f64) = m" using assms by (simp add: unat_of_nat)
  then show "f64_is_finite (word_of_nat m)" using d by (simp add: f64_is_finite_def f64_exponent_def)
  have "unat (word_of_nat (2 ^ 63 + m) :: f64) = (2 ^ 63 + m) mod 2 ^ 64"
    by (simp only: unat_of_nat) simp
  also have "\<dots> = 2048 * 2 ^ 52 + m" using assms by simp
  finally have "unat (word_of_nat (2 ^ 63 + m) :: f64) = 2048 * 2 ^ 52 + m" .
  moreover have "(2048 * 2 ^ 52 + m) div 2 ^ 52 = 2048 + m div 2 ^ 52" by (rule div_mult_self3) simp
  ultimately have "f64_exponent (word_of_nat (2 ^ 63 + m)) = (2048 + m div 2 ^ 52) mod 2048"
    unfolding f64_exponent_def by (simp only: power2_eq_square) simp
  also have "\<dots> = m div 2 ^ 52 mod 2048" by (simp only: mod_add_self1)
  also have "\<dots> \<le> 1087" using d by (rule order_trans [rotated]) (rule mod_less_eq_dividend)
  finally show "f64_is_finite (word_of_nat (2 ^ 63 + m))" by (simp add: f64_is_finite_def)
qed

lemma u64_as_f64_finite: "f64_is_finite (u64_as_f64 n)"
  unfolding u64_as_f64_def
  by (rule f64_finite_below, rule nat_to_f64_bits_bound) (use unsigned_less [of n] in simp)

end
