(* ===== verification/Kube_Normalize.thy ===== *)
theory Kube_Normalize
  imports Kube_Actions Rust_Float
begin

text \<open>
  Normalisation of Kubernetes API documents (\<open>src/integrations/kubernetes/normalize.rs\<close>): the
  records the server returns, the extraction of the reviewed fields of each resource kind, the
  text filters every extracted string passes, and the aggregate bound on event messages.
  The lemmas state what a normalised resource can contain and how large it can get.
\<close>

section \<open>Data\<close>

record list_metadata =
  lm_pages :: u8
  lm_inspected :: u16
  lm_returned :: u16
  lm_source_truncated :: bool
  lm_result_truncated :: bool
  lm_aggregate_truncated :: bool
  lm_truncated :: bool

record condition =
  cnd_type :: string
  cnd_status :: string
  cnd_reason :: "string option"
  cnd_last_transition_time :: "string option"

datatype container_kind = CK_Init | CK_Application | CK_Ephemeral

record container_status =
  cs_kind :: container_kind
  cs_name :: string
  cs_ready :: "bool option"
  cs_started :: "bool option"
  cs_restart_count :: u64
  cs_state :: string
  cs_reason :: "string option"
  cs_exit_code :: "i32 option"
  cs_signal :: "i32 option"
  cs_started_at :: "string option"
  cs_finished_at :: "string option"
  cs_last_reason :: "string option"
  cs_last_exit_code :: "i32 option"
  cs_last_signal :: "i32 option"
  cs_last_started_at :: "string option"
  cs_last_finished_at :: "string option"

record container_statuses =
  css_count :: u16
  css_returned :: u16
  css_truncated :: bool
  css_items :: "container_status list"

type_synonym details = "(string, string) btree"

record resource =
  rs_kind :: resource_kind
  rs_api_version :: string
  rs_namespace :: "string option"
  rs_name :: string
  rs_uid :: "string option"
  rs_created_at :: "string option"
  rs_status :: "string option"
  rs_details :: details
  rs_details_truncated :: bool
  rs_conditions :: "condition list"
  rs_container_statuses :: "container_statuses option"

record resource_list =
  rl_kind :: resource_kind
  rl_items :: "resource list"
  rl_metadata :: list_metadata

record cluster =
  cl_name :: string
  cl_context :: string

record cluster_catalog =
  cc_clusters :: "cluster list"
  cc_metadata :: list_metadata

record capability =
  cap_kind :: resource_kind
  cap_api_version :: string
  cap_supported :: bool

record capability_catalog =
  capc_capabilities :: "capability list"
  capc_metadata :: list_metadata

record pod_logs =
  pl_cluster :: string
  pl_namespace :: string
  pl_pod :: string
  pl_pod_uid :: string
  pl_container :: string
  pl_instance :: string
  pl_timestamps :: bool
  pl_tail_lines :: u16
  pl_max_bytes :: u32
  pl_text :: string
  pl_line_count :: u16
  pl_tail_truncated :: bool
  pl_byte_truncated :: bool
  pl_redacted :: bool
  pl_truncated :: bool

datatype query_result =
    QR_Clusters cluster_catalog
  | QR_Capabilities capability_catalog
  | QR_Resources resource_list
  | QR_Resource resource
  | QR_PodLogs pod_logs

record exec_result =
  ex_status :: string
  ex_action :: string
  ex_namespace :: string
  ex_name :: string
  ex_dry_run :: bool

section \<open>Text filters\<close>

definition token :: "string \<Rightarrow> nat \<Rightarrow> bool" where
  "token value max_len \<longleftrightarrow>
     value \<noteq> [] \<and> length value \<le> max_len
     \<and> list_all (\<lambda>c. ascii_alphanumeric c \<or> c \<in> set (bytes ''-._/:'')) (chars value)"

definition token_text :: "json option \<Rightarrow> nat \<Rightarrow> string option" where
  "token_text value max_len = opt_filter (\<lambda>v. token v max_len) (opt_str value)"

definition safe :: "string \<Rightarrow> nat \<Rightarrow> bool" where
  "safe value max_len \<longleftrightarrow> length value \<le> max_len \<and> \<not> has_control value"

definition truncate_utf8 :: "string \<Rightarrow> nat \<Rightarrow> string" where
  "truncate_utf8 value max_len =
     (if length value \<le> max_len then value
      else take (floor_char_boundary value max_len) value)"

definition add_text :: "string \<Rightarrow> json option \<Rightarrow> nat \<Rightarrow> details \<Rightarrow> details" where
  "add_text key value max_len out' =
     (case opt_filter (\<lambda>v. safe v max_len) (opt_str value) of
        None \<Rightarrow> out' | Some v \<Rightarrow> bt_insert key v out')"

definition add_truncated_text :: "string \<Rightarrow> json option \<Rightarrow> nat \<Rightarrow> details \<Rightarrow> details \<times> bool" where
  "add_truncated_text key value max_len out' =
     (case opt_str value of
        None \<Rightarrow> (out', False)
      | Some v \<Rightarrow>
          let truncated = truncate_utf8 v max_len in
          if \<not> has_control truncated
          then (bt_insert key truncated out', length truncated < length v)
          else (out', False))"

definition add_token :: "string \<Rightarrow> json option \<Rightarrow> nat \<Rightarrow> details \<Rightarrow> details" where
  "add_token key value max_len out' =
     (case token_text value max_len of None \<Rightarrow> out' | Some v \<Rightarrow> bt_insert key v out')"

definition add_number :: "string \<Rightarrow> json option \<Rightarrow> details \<Rightarrow> details" where
  "add_number key value out' =
     (case opt_u64 value of None \<Rightarrow> out' | Some n \<Rightarrow> bt_insert key (show_nat (unat n)) out')"

definition add_bool :: "string \<Rightarrow> json option \<Rightarrow> details \<Rightarrow> details" where
  "add_bool key value out' =
     (case opt_bool value of None \<Rightarrow> out' | Some b \<Rightarrow> bt_insert key (show_bool b) out')"

text \<open>
  A Kubernetes quantity: a finite number, or one followed by a scale suffix.  The split point
  is the first ASCII letter, which is a whole character, so it is found byte by byte.
\<close>

definition quantity_suffixes :: "string list" where
  "quantity_suffixes =
     ['''', ''n'', ''u'', ''m'', ''k'', ''K'', ''M'', ''G'', ''T'', ''P'', ''E'',
      ''Ki'', ''Mi'', ''Gi'', ''Ti'', ''Pi'', ''Ei'']"

definition quantity :: "string \<Rightarrow> bool" where
  "quantity value \<longleftrightarrow>
     (if value = [] \<or> 64 < length value \<or> has_control value then False
      else if parses_finite_f64 value then True
      else
        let number = takeWhile (\<lambda>c. \<not> ascii_alphabetic (of_char c)) value;
            suffix = dropWhile (\<lambda>c. \<not> ascii_alphabetic (of_char c)) value
        in parses_finite_f64 number \<and> suffix \<in> set quantity_suffixes)"

definition add_quantity :: "string \<Rightarrow> json option \<Rightarrow> details \<Rightarrow> details" where
  "add_quantity key value out' =
     (case opt_filter quantity (opt_str value) of
        None \<Rightarrow> out' | Some v \<Rightarrow> bt_insert key v out')"

definition valid_metric_name :: "string \<Rightarrow> bool" where
  "valid_metric_name value \<longleftrightarrow>
     value \<noteq> [] \<and> length value \<le> 253 \<and> \<not> starts_with value ''-''
     \<and> list_all (\<lambda>c. ascii_lowercase c \<or> ascii_digit c \<or> c = of_char (CHR ''-'')) (chars value)"

section \<open>Conditions, containers and metrics\<close>

text \<open>\<open>i64::try_into::<i32>\<close> fails outside the range of \<open>i32\<close>.\<close>

definition signed_i32 :: "json option \<Rightarrow> i32 option" where
  "signed_i32 value =
     Option.bind (opt_i64 value) (\<lambda>n.
       if - (2 ^ 31) \<le> sint n \<and> sint n < 2 ^ 31 then Some (scast n) else None)"

definition normalize_condition :: "json \<Rightarrow> condition option" where
  "normalize_condition item =
     Option.bind (token_text (json_get item ''type'') 128) (\<lambda>condition_type.
     Option.bind (token_text (json_get item ''status'') 32) (\<lambda>status.
       Some \<lparr>cnd_type = condition_type, cnd_status = status,
             cnd_reason = token_text (json_get item ''reason'') 128,
             cnd_last_transition_time = token_text (json_get item ''lastTransitionTime'') 64\<rparr>))"

definition normalize_conditions :: "json \<Rightarrow> condition list" where
  "normalize_conditions value =
     List.map_filter normalize_condition
       (take 20 (opt_elems (opt_array (json_pointer value ''/status/conditions''))))"

definition container_state :: "json option \<Rightarrow> string \<times> json option" where
  "container_state current =
     (case opt_get current ''running'' of
        Some running \<Rightarrow> (''running'', Some running)
      | None \<Rightarrow> case opt_get current ''waiting'' of
        Some waiting \<Rightarrow> (''waiting'', Some waiting)
      | None \<Rightarrow> case opt_get current ''terminated'' of
        Some terminated \<Rightarrow> (''terminated'', Some terminated)
      | None \<Rightarrow> (''unknown'', None))"

definition normalize_container_status :: "container_kind \<Rightarrow> json \<Rightarrow> container_status option" where
  "normalize_container_status kind value =
     Option.bind (token_text (json_get value ''name'') 253) (\<lambda>name.
       let (state, state_value) = container_state (json_get value ''state'');
           last_state = json_pointer value ''/lastState/terminated''
       in Some
         \<lparr>cs_kind = kind, cs_name = name,
          cs_ready = opt_bool (json_get value ''ready''),
          cs_started = opt_bool (json_get value ''started''),
          cs_restart_count = (case opt_u64 (json_get value ''restartCount'') of None \<Rightarrow> 0 | Some n \<Rightarrow> n),
          cs_state = state,
          cs_reason = token_text (opt_get state_value ''reason'') 128,
          cs_exit_code = signed_i32 (opt_get state_value ''exitCode''),
          cs_signal = signed_i32 (opt_get state_value ''signal''),
          cs_started_at = token_text (opt_get state_value ''startedAt'') 64,
          cs_finished_at = token_text (opt_get state_value ''finishedAt'') 64,
          cs_last_reason = token_text (opt_get last_state ''reason'') 128,
          cs_last_exit_code = signed_i32 (opt_get last_state ''exitCode''),
          cs_last_signal = signed_i32 (opt_get last_state ''signal''),
          cs_last_started_at = token_text (opt_get last_state ''startedAt'') 64,
          cs_last_finished_at = token_text (opt_get last_state ''finishedAt'') 64\<rparr>)"

definition container_groups :: "(container_kind \<times> string) list" where
  "container_groups =
     [(CK_Init, ''/status/initContainerStatuses''),
      (CK_Application, ''/status/containerStatuses''),
      (CK_Ephemeral, ''/status/ephemeralContainerStatuses'')]"

definition max_container_statuses :: nat where
  "max_container_statuses = 32"

definition normalize_container_statuses :: "json \<Rightarrow> container_statuses" where
  "normalize_container_statuses value =
     (let count = sum_list (map (\<lambda>(_, pointer). length (opt_elems (opt_array (json_pointer value pointer))))
                    container_groups);
          entries = concat (map (\<lambda>(kind, pointer).
                      map (\<lambda>status. (kind, status)) (opt_elems (opt_array (json_pointer value pointer))))
                      container_groups);
          items = List.map_filter (\<lambda>(kind, status). normalize_container_status kind status)
                    (take max_container_statuses entries)
      in \<lparr>css_count = word_of_nat (min count 65535),
          css_returned = word_of_nat (length items),
          css_truncated = max_container_statuses < count,
          css_items = items\<rparr>)"

definition restart_count :: "json \<Rightarrow> u64" where
  "restart_count value =
     fold (\<lambda>n acc. u64_saturating_add acc n)
       (List.map_filter (\<lambda>v. opt_u64 (json_get v ''restartCount''))
         (concat (List.map_filter (\<lambda>pointer. opt_array (json_pointer value pointer))
           [''/status/initContainerStatuses'', ''/status/containerStatuses'',
            ''/status/ephemeralContainerStatuses''])))
       0"

definition status_pointer :: "resource_kind \<Rightarrow> string option" where
  "status_pointer kind =
     (case kind of
        RK_Pod \<Rightarrow> Some ''/status/phase''
      | RK_PersistentVolumeClaim \<Rightarrow> Some ''/status/phase''
      | RK_Certificate \<Rightarrow> Some ''/status/conditions/0/status''
      | RK_CnpgCluster \<Rightarrow> Some ''/status/phase''
      | RK_Kafka \<Rightarrow> Some ''/status/conditions/0/type''
      | RK_KafkaNodePool \<Rightarrow> Some ''/status/conditions/0/type''
      | RK_KafkaTopic \<Rightarrow> Some ''/status/conditions/0/type''
      | RK_CephCluster \<Rightarrow> Some ''/status/phase''
      | RK_CephFilesystem \<Rightarrow> Some ''/status/phase''
      | RK_CephBlockPool \<Rightarrow> Some ''/status/phase''
      | RK_CephObjectStore \<Rightarrow> Some ''/status/phase''
      | RK_VeleroBackup \<Rightarrow> Some ''/status/phase''
      | RK_BackupStorageLocation \<Rightarrow> Some ''/status/phase''
      | _ \<Rightarrow> None)"

definition status_for :: "resource_kind \<Rightarrow> json \<Rightarrow> string option" where
  "status_for kind value =
     Option.bind (status_pointer kind) (\<lambda>pointer.
       opt_filter (\<lambda>v. token v 128) (opt_str (json_pointer value pointer)))"

text \<open>The loop over the containers of a pod metric; a container without a valid name is skipped.\<close>

definition metric_key :: "nat \<Rightarrow> string \<Rightarrow> string" where
  "metric_key index field = ''container.'' @ show_nat index @ ''.'' @ field"

fun metric_containers :: "json list \<Rightarrow> nat \<Rightarrow> details \<Rightarrow> details \<times> nat" where
  "metric_containers [] returned details = (details, returned)"
| "metric_containers (container # rest) returned details =
     (case opt_filter valid_metric_name (opt_str (json_get container ''name'')) of
        None \<Rightarrow> metric_containers rest returned details
      | Some name \<Rightarrow>
          let details = bt_insert (metric_key returned ''name'') name details;
              details = add_quantity (metric_key returned ''cpu'') (json_pointer container ''/usage/cpu'') details;
              details = add_quantity (metric_key returned ''memory'') (json_pointer container ''/usage/memory'') details
          in metric_containers rest (returned + 1) details)"

definition max_containers :: nat where
  "max_containers = 20"

definition normalize_pod_metric :: "json \<Rightarrow> details \<Rightarrow> details" where
  "normalize_pod_metric value details =
     (let containers = opt_elems (opt_array (json_get value ''containers''));
          (details, returned) = metric_containers (take max_containers containers) 0 details;
          details = bt_insert ''container_count'' (show_nat (length containers)) details;
          details = bt_insert ''containers_returned'' (show_nat returned) details
      in bt_insert ''containers_truncated'' (show_bool (max_containers < length containers)) details)"

section \<open>The reviewed details of each kind\<close>

text \<open>
  One arm of the source's match per kind, split into three groups; each arm runs its
  insertions in the source's order on the map it is given.
\<close>

definition array_len :: "json option \<Rightarrow> json option" where
  "array_len v = map_option (\<lambda>a. JNum (PosInt (word_of_nat (length a)))) (opt_array v)"

definition workload_details :: "resource_kind \<Rightarrow> json \<Rightarrow> details \<Rightarrow> details" where
  "workload_details kind value details =
     (let replicas = (add_number ''available_replicas'' (json_pointer value ''/status/availableReplicas'')
                      \<circ> add_number ''ready_replicas'' (json_pointer value ''/status/readyReplicas'')
                      \<circ> add_number ''desired_replicas'' (json_pointer value ''/spec/replicas''))
      in case kind of
        RK_Deployment \<Rightarrow> replicas details
      | RK_StatefulSet \<Rightarrow> replicas details
      | RK_ReplicaSet \<Rightarrow> replicas details
      | RK_DaemonSet \<Rightarrow>
          (add_number ''ready_nodes'' (json_pointer value ''/status/numberReady'')
           \<circ> add_number ''desired_nodes'' (json_pointer value ''/status/desiredNumberScheduled'')) details
      | RK_Job \<Rightarrow>
          (add_number ''failed'' (json_pointer value ''/status/failed'')
           \<circ> add_number ''succeeded'' (json_pointer value ''/status/succeeded'')
           \<circ> add_number ''active'' (json_pointer value ''/status/active'')) details
      | RK_CronJob \<Rightarrow>
          (add_token ''last_schedule_time'' (json_pointer value ''/status/lastScheduleTime'') 64
           \<circ> add_text ''schedule'' (json_pointer value ''/spec/schedule'') 256
           \<circ> add_bool ''suspended'' (json_pointer value ''/spec/suspend'')) details
      | RK_Pod \<Rightarrow>
          (add_number ''restarts'' (Some (JNum (PosInt (restart_count value))))
           \<circ> add_token ''pod_ip'' (json_pointer value ''/status/podIP'') 64
           \<circ> add_token ''node'' (json_pointer value ''/spec/nodeName'') 253) details
      | _ \<Rightarrow> details)"

definition metric_details :: "resource_kind \<Rightarrow> json \<Rightarrow> details \<Rightarrow> details" where
  "metric_details kind value details =
     (case kind of
        RK_PodMetric \<Rightarrow>
          (add_token ''window'' (json_get value ''window'') 64
           \<circ> add_token ''timestamp'' (json_get value ''timestamp'') 64
           \<circ> normalize_pod_metric value) details
      | RK_NodeMetric \<Rightarrow>
          (let usage = json_pointer value ''/usage'' in
           (add_token ''window'' (json_get value ''window'') 64
            \<circ> add_token ''timestamp'' (json_get value ''timestamp'') 64
            \<circ> add_quantity ''memory'' (opt_get usage ''memory'')
            \<circ> add_quantity ''cpu'' (opt_get usage ''cpu'')) details)
      | _ \<Rightarrow> details)"

text \<open>The only arm that can truncate: the message of an event.\<close>

definition or_else :: "'a option \<Rightarrow> 'a option \<Rightarrow> 'a option" where
  "or_else a b = (case a of None \<Rightarrow> b | Some _ \<Rightarrow> a)"

definition event_details :: "json \<Rightarrow> details \<Rightarrow> details \<times> bool" where
  "event_details value details =
     (let details = add_token ''reason'' (json_get value ''reason'') 128 details;
          (details, truncated) = add_truncated_text ''message''
             (or_else (json_get value ''note'') (json_get value ''message'')) 1024 details
      in ((add_number ''count'' (json_pointer value ''/deprecatedCount'')
           \<circ> add_token ''regarding_name'' (json_pointer value ''/regarding/name'') 253
           \<circ> add_token ''regarding_kind'' (json_pointer value ''/regarding/kind'') 128) details,
          truncated))"

definition endpoint_ready :: "json \<Rightarrow> bool" where
  "endpoint_ready endpoint =
     (case json_pointer endpoint ''/conditions/ready'' of
        None \<Rightarrow> True | Some JNull \<Rightarrow> True | Some (JBool ready) \<Rightarrow> ready | Some _ \<Rightarrow> False)"

definition network_details :: "resource_kind \<Rightarrow> json \<Rightarrow> details \<Rightarrow> details" where
  "network_details kind value details =
     (case kind of
        RK_Service \<Rightarrow>
          (add_token ''cluster_ip'' (json_pointer value ''/spec/clusterIP'') 64
           \<circ> add_token ''type'' (json_pointer value ''/spec/type'') 64) details
      | RK_EndpointSlice \<Rightarrow>
          (let endpoints = opt_elems (opt_array (json_get value ''endpoints''));
               ready = length (filter endpoint_ready endpoints)
           in bt_insert ''ready_endpoints'' (show_nat ready)
                (bt_insert ''endpoints'' (show_nat (length endpoints)) details))
      | RK_Ingress \<Rightarrow> add_token ''class'' (json_pointer value ''/spec/ingressClassName'') 253 details
      | RK_Gateway \<Rightarrow> add_token ''class'' (json_pointer value ''/spec/gatewayClassName'') 253 details
      | RK_GatewayClass \<Rightarrow> add_token ''controller'' (json_pointer value ''/spec/controllerName'') 253 details
      | RK_HttpRoute \<Rightarrow> add_number ''rules'' (array_len (json_pointer value ''/spec/rules'')) details
      | RK_NetworkPolicy \<Rightarrow>
          (add_number ''egress_rules'' (array_len (json_pointer value ''/spec/egress''))
           \<circ> add_number ''ingress_rules'' (array_len (json_pointer value ''/spec/ingress''))) details
      | _ \<Rightarrow> details)"

definition policy_details :: "resource_kind \<Rightarrow> json \<Rightarrow> details \<Rightarrow> details" where
  "policy_details kind value details =
     (case kind of
        RK_PersistentVolumeClaim \<Rightarrow>
          (add_quantity ''capacity'' (json_pointer value ''/status/capacity/storage'')
           \<circ> add_token ''storage_class'' (json_pointer value ''/spec/storageClassName'') 253) details
      | RK_StorageClass \<Rightarrow>
          (add_token ''reclaim_policy'' (json_get value ''reclaimPolicy'') 64
           \<circ> add_token ''provisioner'' (json_get value ''provisioner'') 253) details
      | RK_HorizontalPodAutoscaler \<Rightarrow>
          (add_number ''desired_replicas'' (json_pointer value ''/status/desiredReplicas'')
           \<circ> add_number ''current_replicas'' (json_pointer value ''/status/currentReplicas'')) details
      | RK_PodDisruptionBudget \<Rightarrow>
          add_number ''disruptions_allowed'' (json_pointer value ''/status/disruptionsAllowed'') details
      | RK_VeleroBackup \<Rightarrow> add_token ''phase'' (json_pointer value ''/status/phase'') 64 details
      | RK_VeleroSchedule \<Rightarrow> add_text ''schedule'' (json_pointer value ''/spec/schedule'') 256 details
      | RK_BackupStorageLocation \<Rightarrow>
          (add_token ''phase'' (json_pointer value ''/status/phase'') 64
           \<circ> add_token ''provider'' (json_pointer value ''/spec/provider'') 128) details
      | _ \<Rightarrow> details)"

definition resource_details :: "resource_kind \<Rightarrow> json \<Rightarrow> details \<times> bool" where
  "resource_details kind value =
     (if kind = RK_Event then event_details value []
      else if kind \<in> {RK_PodMetric, RK_NodeMetric} then (metric_details kind value [], False)
      else if kind \<in> {RK_Service, RK_EndpointSlice, RK_Ingress, RK_Gateway, RK_GatewayClass,
                      RK_HttpRoute, RK_NetworkPolicy} then (network_details kind value [], False)
      else if kind \<in> {RK_Deployment, RK_StatefulSet, RK_ReplicaSet, RK_DaemonSet, RK_Job,
                      RK_CronJob, RK_Pod} then (workload_details kind value [], False)
      else (policy_details kind value [], False))"

section \<open>One resource\<close>

definition resource_scope :: "resource_kind \<Rightarrow> string option \<Rightarrow> kube_error + string option" where
  "resource_scope kind namespace =
     (if kind_namespaced kind then
        map_sum id Some (ok_or (opt_filter valid_namespace namespace) KE_InvalidResponse)
      else if namespace \<noteq> None then Inl KE_InvalidResponse
      else Inr None)"

definition resource_uid :: "resource_kind \<Rightarrow> json \<Rightarrow> kube_error + string option" where
  "resource_uid kind metadata =
     (if kind = RK_Pod
      then map_sum id Some (ok_or (token_text (json_get metadata ''uid'') 128) KE_InvalidResponse)
      else Inr None)"

definition resource_of :: "resource_kind \<Rightarrow> json \<Rightarrow> kube_error + resource" where
  "resource_of kind value =
     and_then (ok_or (json_get value ''metadata'') KE_InvalidResponse) (\<lambda>metadata.
     and_then (ok_or (opt_filter valid_object_name (opt_str (json_get metadata ''name''))) KE_InvalidResponse) (\<lambda>name.
     and_then (resource_scope kind (opt_str (json_get metadata ''namespace''))) (\<lambda>namespace.
     and_then (resource_uid kind metadata) (\<lambda>uid.
       let (details, details_truncated) = resource_details kind value in
       Inr \<lparr>rs_kind = kind, rs_api_version = kind_api_version kind, rs_namespace = namespace,
            rs_name = name, rs_uid = uid,
            rs_created_at = token_text (json_get metadata ''creationTimestamp'') 64,
            rs_status = status_for kind value,
            rs_details = details, rs_details_truncated = details_truncated,
            rs_conditions = normalize_conditions value,
            rs_container_statuses =
              (if kind = RK_Pod then Some (normalize_container_statuses value) else None)\<rparr>))))"

section \<open>The aggregate bound on event messages\<close>

text \<open>
  One pass over the resources with the bytes that remain; the subtraction never goes below
  zero (\<open>bound_messages_remaining\<close>).
\<close>

definition bound_message :: "nat \<Rightarrow> resource \<Rightarrow> resource \<times> nat \<times> bool" where
  "bound_message remaining r =
     (case bt_get (rs_details r) ''message'' of
        None \<Rightarrow> (r, remaining, False)
      | Some message \<Rightarrow>
          if remaining = 0 then
            (r\<lparr>rs_details := bt_remove ''message'' (rs_details r), rs_details_truncated := True\<rparr>, 0, True)
          else
            let retained = length (truncate_utf8 message remaining);
                cutoff = retained < length message
            in (r\<lparr>rs_details := bt_insert ''message'' (take retained message) (rs_details r),
                  rs_details_truncated := rs_details_truncated r \<or> cutoff\<rparr>,
                remaining - retained, cutoff))"

fun bound_messages :: "nat \<Rightarrow> resource list \<Rightarrow> resource list \<times> bool" where
  "bound_messages remaining [] = ([], False)"
| "bound_messages remaining (r # rs) =
     (let (r', remaining', cutoff) = bound_message remaining r;
          (rs', cutoff') = bound_messages remaining' rs
      in (r' # rs', cutoff \<or> cutoff'))"

definition bound_event_messages :: "resource list \<Rightarrow> resource list \<times> bool" where
  "bound_event_messages resources = bound_messages (32 * 1024) resources"

section \<open>Laws of the text filters\<close>

lemma length_truncate_utf8: "length (truncate_utf8 s n) \<le> n"
  using floor_char_boundary_le [of s n] by (auto simp: truncate_utf8_def)

lemma truncate_utf8_prefix: "truncate_utf8 s n = take (length (truncate_utf8 s n)) s"
  by (auto simp: truncate_utf8_def min_def)

lemma length_truncate_utf8_le: "length (truncate_utf8 s n) \<le> length s"
  by (simp add: truncate_utf8_def)

lemma truncate_utf8_zero [simp]: "truncate_utf8 s 0 = []"
  by (simp add: truncate_utf8_def)

lemma utf8_valid_truncate_utf8: "utf8_valid s \<Longrightarrow> utf8_valid (truncate_utf8 s n)"
  using utf8_valid_take [OF _ floor_char_boundary_boundary [of s n]] floor_char_boundary_le [of s n]
  by (auto simp: truncate_utf8_def)

lemma is_char_boundary_0_n [simp]: "is_char_boundary s (length s)"
  by (simp add: is_char_boundary_def)

text \<open>
  \<open>truncate_utf8\<close> cuts a string to a prefix of at most the given number of bytes that is
  still valid UTF-8; it keeps a string that fits, never splits a character, and it keeps the
  longest prefix that ends at a character boundary, at most three bytes below the limit.
\<close>

theorem truncate_utf8_correct:
  assumes "utf8_valid s"
  shows "utf8_valid (truncate_utf8 s n) \<and> length (truncate_utf8 s n) \<le> n
    \<and> (\<exists>rest. s = truncate_utf8 s n @ rest)
    \<and> (length s \<le> n \<longrightarrow> truncate_utf8 s n = s)
    \<and> (n < length s \<longrightarrow> n \<le> length (truncate_utf8 s n) + 3)
    \<and> (\<forall>i. i \<le> n \<and> i \<le> length s \<and> is_char_boundary s i \<longrightarrow> i \<le> length (truncate_utf8 s n))"
proof (intro conjI allI impI)
  show "\<exists>rest. s = truncate_utf8 s n @ rest"
    using truncate_utf8_prefix [of s n] append_take_drop_id by metis
  show "n \<le> length (truncate_utf8 s n) + 3" if "n < length s"
    using that assms floor_char_boundary_within_3 [of s n] floor_char_boundary_le [of s n]
    by (simp add: truncate_utf8_def)
  show "i \<le> length (truncate_utf8 s n)" if "i \<le> n \<and> i \<le> length s \<and> is_char_boundary s i" for i
    using that floor_char_boundary_max [of s i n] floor_char_boundary_le [of s n]
    by (auto simp: truncate_utf8_def)
qed (use assms in \<open>simp_all add: utf8_valid_truncate_utf8 length_truncate_utf8\<close>,
    simp add: truncate_utf8_def)

theorem truncate_utf8_correct_witness:
  "utf8_valid (truncate_utf8 (''ab'' @ replacement_char) 4) \<and> length (truncate_utf8 (''ab'' @ replacement_char) 4) \<le> 4"
  using truncate_utf8_correct [of "''ab'' @ replacement_char" 4]
  by (simp add: utf8_valid_Cons utf8_head_simps replacement_char_def)

section \<open>The bound on event messages\<close>

definition message_of :: "resource \<Rightarrow> string option" where
  "message_of r = bt_get (rs_details r) ''message''"

definition message_bytes :: "resource \<Rightarrow> nat" where
  "message_bytes r = (case message_of r of None \<Rightarrow> 0 | Some m \<Rightarrow> length m)"

text \<open>What the bound does to one resource: only the message may shrink, and then it is marked.\<close>

definition shortened :: "resource \<Rightarrow> resource \<Rightarrow> bool" where
  "shortened r r' \<longleftrightarrow>
     (\<exists>d t. r' = r\<lparr>rs_details := d, rs_details_truncated := t\<rparr>)
     \<and> (\<forall>k. k \<noteq> ''message'' \<longrightarrow> bt_get (rs_details r') k = bt_get (rs_details r) k)
     \<and> (\<forall>m'. message_of r' = Some m' \<longrightarrow> (\<exists>m n. message_of r = Some m \<and> m' = take n m \<and> (utf8_valid m \<longrightarrow> utf8_valid m')))
     \<and> (rs_details_truncated r' \<longleftrightarrow> rs_details_truncated r \<or> message_of r' \<noteq> message_of r)"

lemma bt_insert_same: "bt_ok m \<Longrightarrow> bt_get m k = Some v \<Longrightarrow> bt_insert k v m = m"
proof (induction k v m rule: bt_insert.induct)
  case (2 k v k' v' m)
  then have "k \<in> set (map fst ((k', v') # m))" by (metis bt_get_None option.distinct(1))
  with 2 show ?case by (auto simp: bt_ok_def split: if_splits)
qed simp

lemma truncate_utf8_eq_iff: "truncate_utf8 m n = m \<longleftrightarrow> \<not> length (truncate_utf8 m n) < length m"
  using length_truncate_utf8_le [of m n] truncate_utf8_prefix [of m n]
  by (metis nat_neq_iff not_le take_all order_refl)

lemma bound_message_None:
  "message_of r = None \<Longrightarrow> bound_message remaining r = (r, remaining, False)"
  by (simp add: bound_message_def message_of_def)

lemma bound_message_zero:
  "message_of r = Some m \<Longrightarrow> bound_message 0 r =
     (r\<lparr>rs_details := bt_remove ''message'' (rs_details r), rs_details_truncated := True\<rparr>, 0, True)"
  by (simp add: bound_message_def message_of_def)

lemma bound_message_some:
  "message_of r = Some m \<Longrightarrow> 0 < remaining \<Longrightarrow> bound_message remaining r =
     (r\<lparr>rs_details := bt_insert ''message'' (truncate_utf8 m remaining) (rs_details r),
        rs_details_truncated := rs_details_truncated r \<or> truncate_utf8 m remaining \<noteq> m\<rparr>,
      remaining - length (truncate_utf8 m remaining), truncate_utf8 m remaining \<noteq> m)"
  by (simp add: bound_message_def message_of_def Let_def truncate_utf8_prefix [symmetric]
      truncate_utf8_eq_iff)

lemma bound_message_cases [case_names none zero some]:
  assumes "message_of r = None \<Longrightarrow> P"
    and "\<And>m. message_of r = Some m \<Longrightarrow> remaining = (0 :: nat) \<Longrightarrow> P"
    and "\<And>m. message_of r = Some m \<Longrightarrow> 0 < remaining \<Longrightarrow> P"
  shows P
proof (cases "message_of r")
  case (Some m)
  then show ?thesis using assms(2) [of m] assms(3) [of m] by (cases "remaining = 0") simp_all
qed (rule assms(1))

lemma message_of_remove:
  "bt_ok (rs_details r) \<Longrightarrow>
     message_of (r\<lparr>rs_details := bt_remove ''message'' (rs_details r), rs_details_truncated := t\<rparr>) = None"
  by (simp add: message_of_def bt_get_remove)

lemma message_of_insert:
  "message_of (r\<lparr>rs_details := bt_insert ''message'' m d, rs_details_truncated := t\<rparr>) = Some m"
  "message_of (r\<lparr>rs_details := bt_insert ''message'' m d\<rparr>) = Some m"
  by (simp_all add: message_of_def bt_get_insert)

lemma bound_message_remaining:
  assumes "bound_message remaining r = (r', remaining', cutoff)" "bt_ok (rs_details r)"
  shows "message_bytes r' + remaining' = remaining"
proof (cases rule: bound_message_cases [of r _ remaining])
  case (some m)
  with assms length_truncate_utf8 [of m remaining] show ?thesis
    by (auto simp: bound_message_some message_bytes_def message_of_insert)
qed (use assms in \<open>auto simp: bound_message_None bound_message_zero message_bytes_def message_of_remove\<close>)

lemma bound_message_shortened:
  assumes "bound_message remaining r = (r', remaining', cutoff)" "bt_ok (rs_details r)"
  shows "shortened r r'"
proof (cases rule: bound_message_cases [of r _ remaining])
  case none
  with assms(1) have "r' = r" by (simp add: bound_message_None)
  with none show ?thesis
    unfolding shortened_def
    by (intro conjI exI [of _ "rs_details r"] exI [of _ "rs_details_truncated r"]) simp_all
next
  case (zero m)
  with assms have "r' = r\<lparr>rs_details := bt_remove ''message'' (rs_details r), rs_details_truncated := True\<rparr>"
    by (simp add: bound_message_zero)
  with zero assms(2) show ?thesis
    by (auto simp: shortened_def message_of_remove bt_get_remove)
next
  case (some m)
  let ?m = "truncate_utf8 m remaining"
  have r': "r' = r\<lparr>rs_details := bt_insert ''message'' ?m (rs_details r),
      rs_details_truncated := rs_details_truncated r \<or> ?m \<noteq> m\<rparr>"
    using assms(1) bound_message_some [OF some] by (metis fst_conv)
  have "\<exists>n. ?m = take n m" using truncate_utf8_prefix by blast
  with r' some utf8_valid_truncate_utf8 [of m remaining] show ?thesis
    unfolding shortened_def r' message_of_insert by (auto simp: bt_get_insert)
qed

lemma bound_message_flag:
  assumes "bound_message remaining r = (r', remaining', cutoff)" "bt_ok (rs_details r)"
  shows "cutoff \<longleftrightarrow> message_of r' \<noteq> message_of r"
  by (cases rule: bound_message_cases [of r _ remaining])
    (use assms in \<open>auto simp: bound_message_None bound_message_zero bound_message_some
      message_of_remove message_of_insert\<close>)

lemma bound_message_id:
  assumes "bound_message remaining r = (r', remaining', cutoff)" "bt_ok (rs_details r)"
    and "message_bytes r < remaining"
  shows "r' = r" "\<not> cutoff"
  using assms
  by (cases rule: bound_message_cases [of r _ remaining];
      auto simp: bound_message_None bound_message_some message_bytes_def truncate_utf8_def
        bt_insert_same message_of_def)+

lemma bound_messages_spec:
  assumes "bound_messages remaining rs = (rs', cutoff)" "\<forall>r\<in>set rs. bt_ok (rs_details r)"
  shows "list_all2 shortened rs rs' \<and> sum_list (map message_bytes rs') \<le> remaining
    \<and> (cutoff \<longleftrightarrow> map message_of rs' \<noteq> map message_of rs)"
  using assms
proof (induction remaining rs arbitrary: rs' cutoff rule: bound_messages.induct)
  case (2 remaining r rs)
  obtain r1 rem1 c1 where step: "bound_message remaining r = (r1, rem1, c1)"
    by (cases "bound_message remaining r")
  obtain rs2 c2 where rest: "bound_messages rem1 rs = (rs2, c2)"
    by (cases "bound_messages rem1 rs")
  have ok: "bt_ok (rs_details r)" "\<forall>r\<in>set rs. bt_ok (rs_details r)" using "2.prems" by simp_all
  have IH: "list_all2 shortened rs rs2 \<and> sum_list (map message_bytes rs2) \<le> rem1
    \<and> (c2 \<longleftrightarrow> map message_of rs2 \<noteq> map message_of rs)"
    using "2.IH" [of "(r1, rem1, c1)" r1 "(rem1, c1)" rem1 c1 rs2 c2] step rest ok(2) by simp
  have "rs' = r1 # rs2" "cutoff \<longleftrightarrow> c1 \<or> c2" using "2.prems"(1) step rest by auto
  with IH bound_message_shortened [OF step ok(1)] bound_message_remaining [OF step ok(1)]
    bound_message_flag [OF step ok(1)]
  show ?case by auto
qed auto

lemma bound_messages_id:
  assumes "\<forall>r\<in>set rs. bt_ok (rs_details r)" "sum_list (map message_bytes rs) < remaining"
  shows "bound_messages remaining rs = (rs, False)"
  using assms
proof (induction remaining rs rule: bound_messages.induct)
  case (2 remaining r rs)
  obtain r1 rem1 c1 where step: "bound_message remaining r = (r1, rem1, c1)"
    by (cases "bound_message remaining r")
  have ok: "bt_ok (rs_details r)" using "2.prems" by simp
  have id: "r1 = r" "\<not> c1" using bound_message_id [OF step ok] "2.prems" by simp_all
  have "message_bytes r + rem1 = remaining"
    using bound_message_remaining [OF step ok] id by simp
  with "2.prems" have "bound_messages rem1 rs = (rs, False)"
    using "2.IH" [of "(r1, rem1, c1)" r1 "(rem1, c1)" rem1 c1] step by simp
  with step id show ?case by simp
qed simp

text \<open>
  C9: after \<open>bound_event_messages\<close> the messages of all events together have at most 32 KiB;
  only messages change, each to a (valid UTF-8) prefix of what it was or to nothing, every
  resource whose message changed carries \<open>details_truncated\<close>, and the returned flag is set
  exactly when some message changed; a list below the bound is returned as it is.
\<close>

theorem bound_event_messages_correct:
  assumes "\<forall>r\<in>set rs. bt_ok (rs_details r)"
    and "bound_event_messages rs = (rs', cutoff)"
  shows "sum_list (map message_bytes rs') \<le> 32768 \<and> list_all2 shortened rs rs'
    \<and> (cutoff \<longleftrightarrow> map message_of rs' \<noteq> map message_of rs)
    \<and> (sum_list (map message_bytes rs) < 32768 \<longrightarrow> rs' = rs \<and> \<not> cutoff)"
  using bound_messages_spec [of "32 * 1024" rs rs' cutoff] bound_messages_id [of rs "32 * 1024"] assms
  by (auto simp: bound_event_messages_def)

definition sample_event :: "string \<Rightarrow> resource" where
  "sample_event message =
     \<lparr>rs_kind = RK_Event, rs_api_version = ''events.k8s.io/v1'', rs_namespace = Some ''default'',
      rs_name = ''backoff'', rs_uid = None, rs_created_at = None, rs_status = None,
      rs_details = [(''message'', message)], rs_details_truncated = False, rs_conditions = [],
      rs_container_statuses = None\<rparr>"

theorem bound_event_messages_correct_witness:
  "sum_list (map message_bytes (fst (bound_event_messages [sample_event ''crash loop'']))) \<le> 32768"
  using bound_event_messages_correct [of "[sample_event ''crash loop'']"
      "fst (bound_event_messages [sample_event ''crash loop''])" "snd (bound_event_messages [sample_event ''crash loop''])"]
  by (simp add: sample_event_def bt_ok_def)

section \<open>What a resource can contain\<close>

text \<open>
  A detail is printable: it has no control character, and it is at most 1 KiB long unless it is
  a decimal count.
\<close>

definition printable_detail :: "string \<Rightarrow> bool" where
  "printable_detail v \<longleftrightarrow> \<not> has_control v \<and> (length v \<le> 1024 \<or> all_digits v)"

definition details_ok :: "details \<Rightarrow> bool" where
  "details_ok d \<longleftrightarrow> bt_ok d \<and> (\<forall>(k, v)\<in>set d. printable_detail v)"

lemma details_ok_Nil [simp]: "details_ok []"
  by (simp add: details_ok_def bt_ok_def)

lemma details_ok_insert [intro]:
  "details_ok d \<Longrightarrow> printable_detail v \<Longrightarrow> details_ok (bt_insert k v d)"
  by (auto simp: details_ok_def bt_insert_ok dest!: bt_insert_set)

lemma token_printable: "token v n \<Longrightarrow> n \<le> 1024 \<Longrightarrow> printable_detail v"
  by (auto simp: token_def printable_detail_def has_control_def list_all_iff list_ex_iff
      is_control_def ascii_defs)

lemma safe_printable: "safe v n \<Longrightarrow> n \<le> 1024 \<Longrightarrow> printable_detail v"
  by (simp add: safe_def printable_detail_def)

lemma all_digits_no_control: "all_digits s \<Longrightarrow> \<not> has_control s"
proof -
  assume a: "all_digits s"
  then have "is_ascii s" by (auto simp: all_digits_def list_all_iff ascii_digit_def)
  then have "chars s = bytes s" by (rule chars_ascii)
  with a show ?thesis
    by (auto simp: has_control_def all_digits_def list_all_iff list_ex_iff is_control_def ascii_digit_def)
qed

lemma show_nat_printable [simp]: "printable_detail (show_nat n)"
  by (simp add: printable_detail_def all_digits_no_control)

lemma show_bool_printable [simp]: "printable_detail (show_bool b)"
  by (auto simp: printable_detail_def show_bool_def has_control_def chars_ascii is_control_def)

lemma quantity_printable: "quantity v \<Longrightarrow> printable_detail v"
  by (auto simp: quantity_def printable_detail_def split: if_splits)

lemma metric_name_printable: "valid_metric_name v \<Longrightarrow> printable_detail v"
  by (auto simp: valid_metric_name_def printable_detail_def has_control_def list_all_iff list_ex_iff
      is_control_def ascii_defs)

lemma token_text_Some: "token_text v n = Some t \<Longrightarrow> token t n"
  by (simp add: token_text_def)

lemma add_token_ok [simp]: "details_ok d \<Longrightarrow> n \<le> 1024 \<Longrightarrow> details_ok (add_token k v n d)"
  by (auto simp: add_token_def dest!: token_text_Some intro: token_printable split: option.splits)

lemma add_text_ok [simp]: "details_ok d \<Longrightarrow> n \<le> 1024 \<Longrightarrow> details_ok (add_text k v n d)"
  by (auto simp: add_text_def intro: safe_printable split: option.splits)

lemma add_number_ok [simp]: "details_ok d \<Longrightarrow> details_ok (add_number k v d)"
  by (auto simp: add_number_def split: option.splits)

lemma add_bool_ok [simp]: "details_ok d \<Longrightarrow> details_ok (add_bool k v d)"
  by (auto simp: add_bool_def split: option.splits)

lemma add_quantity_ok [simp]: "details_ok d \<Longrightarrow> details_ok (add_quantity k v d)"
  by (auto simp: add_quantity_def intro: quantity_printable split: option.splits)

lemma add_truncated_text_ok:
  "details_ok d \<Longrightarrow> n \<le> 1024 \<Longrightarrow> details_ok (fst (add_truncated_text k v n d))"
proof -
  assume a: "details_ok d" "n \<le> 1024"
  have "length (truncate_utf8 s n) \<le> 1024" for s
    using length_truncate_utf8 [of s n] a(2) by simp
  with a(1) show ?thesis
    by (auto simp: add_truncated_text_def printable_detail_def Let_def split: option.splits)
qed

lemma metric_containers_ok: "details_ok d \<Longrightarrow> details_ok (fst (metric_containers cs n d))"
  by (induction cs n d rule: metric_containers.induct)
    (auto simp: Let_def metric_name_printable details_ok_insert split: option.splits)

lemma metric_containers_count:
  "snd (metric_containers cs n d) \<le> n + length cs"
  by (induction cs n d rule: metric_containers.induct) (auto simp: Let_def split: option.splits)

lemma normalize_pod_metric_ok [simp]: "details_ok d \<Longrightarrow> details_ok (normalize_pod_metric v d)"
proof -
  assume a: "details_ok d"
  obtain d' n where m: "metric_containers (take max_containers (opt_elems (opt_array (json_get v ''containers'')))) 0 d = (d', n)"
    by fastforce
  then have "details_ok d'" using metric_containers_ok [OF a] by (metis fst_conv)
  then show ?thesis by (simp add: normalize_pod_metric_def Let_def m details_ok_insert)
qed

lemma workload_details_ok: "details_ok d \<Longrightarrow> details_ok (workload_details k v d)"
  by (cases k) (simp_all add: workload_details_def Let_def)

lemma metric_details_ok: "details_ok d \<Longrightarrow> details_ok (metric_details k v d)"
  by (cases k) (simp_all add: metric_details_def Let_def)

lemma network_details_ok: "details_ok d \<Longrightarrow> details_ok (network_details k v d)"
  by (cases k) (simp_all add: network_details_def Let_def details_ok_insert)

lemma policy_details_ok: "details_ok d \<Longrightarrow> details_ok (policy_details k v d)"
  by (cases k) (simp_all add: policy_details_def)

lemma event_details_ok: "details_ok d \<Longrightarrow> details_ok (fst (event_details v d))"
proof -
  assume a: "details_ok d"
  obtain d' t where m: "add_truncated_text ''message''
      (or_else (json_get v ''note'') (json_get v ''message'')) 1024
      (add_token ''reason'' (json_get v ''reason'') 128 d) = (d', t)"
    by fastforce
  have "details_ok (fst (d', t))"
    unfolding m [symmetric] by (rule add_truncated_text_ok) (simp_all add: a)
  then show ?thesis by (simp add: event_details_def Let_def m)
qed

lemma resource_details_ok: "details_ok (fst (resource_details k v))"
  by (simp add: resource_details_def workload_details_ok metric_details_ok network_details_ok
      policy_details_ok event_details_ok)

lemma resource_details_not_truncated: "k \<noteq> RK_Event \<Longrightarrow> \<not> snd (resource_details k v)"
  by (simp add: resource_details_def)

lemma length_normalize_conditions: "length (normalize_conditions v) \<le> 20"
proof -
  have "length (normalize_conditions v)
      \<le> length (take 20 (opt_elems (opt_array (json_pointer v ''/status/conditions''))))"
    unfolding normalize_conditions_def by (rule map_filter_Some_length)
  then show ?thesis by simp
qed

lemma length_container_statuses: "length (css_items (normalize_container_statuses v)) \<le> 32"
proof -
  have "length (List.map_filter f (take max_container_statuses xs)) \<le> 32"
    for f :: "container_kind \<times> json \<Rightarrow> container_status option" and xs
    by (rule order_trans [OF map_filter_Some_length]) (simp add: max_container_statuses_def)
  then show ?thesis by (simp add: normalize_container_statuses_def Let_def)
qed

lemma container_statuses_returned:
  "unat (css_returned (normalize_container_statuses v)) = length (css_items (normalize_container_statuses v))"
  using length_container_statuses [of v]
  by (auto simp: normalize_container_statuses_def Let_def intro!: unat_of_nat_u16)

lemma map_sum_Inr [simp]: "(map_sum id f r = Inr b) \<longleftrightarrow> (\<exists>a. r = Inr a \<and> b = f a)"
  by (cases r) auto

lemma resource_scope_Inr:
  "(resource_scope k ns = Inr s) \<longleftrightarrow>
     (if kind_namespaced k then \<exists>n. ns = Some n \<and> valid_namespace n \<and> s = Some n else ns = None \<and> s = None)"
  by (auto simp: resource_scope_def)

lemma resource_uid_Inr:
  "(resource_uid k metadata = Inr u) \<longleftrightarrow>
     (if k = RK_Pod then \<exists>t. token_text (json_get metadata ''uid'') 128 = Some t \<and> u = Some t else u = None)"
  by (auto simp: resource_uid_def)

lemma resource_of_Inr:
  assumes "resource_of k v = Inr r"
  obtains metadata d t where
    "json_get v ''metadata'' = Some metadata" "resource_details k v = (d, t)"
    "opt_str (json_get metadata ''name'') = Some (rs_name r)" "valid_object_name (rs_name r)"
    "resource_scope k (opt_str (json_get metadata ''namespace'')) = Inr (rs_namespace r)"
    "resource_uid k metadata = Inr (rs_uid r)"
    "r = \<lparr>rs_kind = k, rs_api_version = kind_api_version k, rs_namespace = rs_namespace r,
          rs_name = rs_name r, rs_uid = rs_uid r,
          rs_created_at = token_text (json_get metadata ''creationTimestamp'') 64,
          rs_status = status_for k v, rs_details = d, rs_details_truncated = t,
          rs_conditions = normalize_conditions v,
          rs_container_statuses = (if k = RK_Pod then Some (normalize_container_statuses v) else None)\<rparr>"
proof -
  obtain d t where d: "resource_details k v = (d, t)" by fastforce
  from assms obtain metadata name ns uid where
    "json_get v ''metadata'' = Some metadata" "opt_str (json_get metadata ''name'') = Some name"
    "valid_object_name name" "resource_scope k (opt_str (json_get metadata ''namespace'')) = Inr ns"
    "resource_uid k metadata = Inr uid"
    "r = \<lparr>rs_kind = k, rs_api_version = kind_api_version k, rs_namespace = ns,
          rs_name = name, rs_uid = uid,
          rs_created_at = token_text (json_get metadata ''creationTimestamp'') 64,
          rs_status = status_for k v, rs_details = d, rs_details_truncated = t,
          rs_conditions = normalize_conditions v,
          rs_container_statuses = (if k = RK_Pod then Some (normalize_container_statuses v) else None)\<rparr>"
    unfolding resource_of_def d Let_def split and_then_Inr ok_or_Inr opt_filter_Some sum.inject by blast
  with d that show thesis by simp
qed

text \<open>
  C13: a resource the server returns is one of the requested kind with a valid DNS name, with a
  valid namespace exactly when its kind is namespaced, with a UID and container statuses
  exactly when it is a pod; its details are printable and bounded, at most 20 conditions and 32
  container statuses are kept, and details are marked as truncated only on events.
\<close>

theorem resource_of_wellformed:
  assumes "resource_of k v = Inr r"
  shows "rs_kind r = k \<and> valid_object_name (rs_name r)
    \<and> (case rs_namespace r of None \<Rightarrow> \<not> kind_namespaced k | Some n \<Rightarrow> kind_namespaced k \<and> valid_namespace n)
    \<and> (rs_uid r \<noteq> None \<longleftrightarrow> k = RK_Pod) \<and> (\<forall>u. rs_uid r = Some u \<longrightarrow> token u 128)
    \<and> details_ok (rs_details r) \<and> (rs_details_truncated r \<longrightarrow> k = RK_Event)
    \<and> length (rs_conditions r) \<le> 20
    \<and> (case rs_container_statuses r of None \<Rightarrow> k \<noteq> RK_Pod
       | Some cs \<Rightarrow> k = RK_Pod \<and> length (css_items cs) \<le> 32 \<and> unat (css_returned cs) = length (css_items cs))"
proof -
  obtain metadata d t where d: "resource_details k v = (d, t)"
    and name: "valid_object_name (rs_name r)"
    and scope: "resource_scope k (opt_str (json_get metadata ''namespace'')) = Inr (rs_namespace r)"
    and uid: "resource_uid k metadata = Inr (rs_uid r)"
    and r: "rs_kind r = k" "rs_details r = d" "rs_details_truncated r = t"
      "rs_conditions r = normalize_conditions v"
      "rs_container_statuses r = (if k = RK_Pod then Some (normalize_container_statuses v) else None)"
  proof (rule resource_of_Inr [OF assms], goal_cases)
    case (1 metadata d t)
    note facts = 1
    have "rs_kind r = k" "rs_details r = d" "rs_details_truncated r = t"
      "rs_conditions r = normalize_conditions v"
      "rs_container_statuses r = (if k = RK_Pod then Some (normalize_container_statuses v) else None)"
      by (subst facts(8), simp)+
    with facts show ?case by blast
  qed
  have "details_ok d" "t \<longrightarrow> k = RK_Event"
    using resource_details_ok [of k v] resource_details_not_truncated [of k v] by (auto simp: d)
  moreover have "rs_uid r \<noteq> None \<longleftrightarrow> k = RK_Pod" "\<forall>u. rs_uid r = Some u \<longrightarrow> token u 128"
    using uid by (auto simp: resource_uid_Inr dest: token_text_Some split: if_splits)
  ultimately show ?thesis
    using name scope
    by (auto simp: r resource_scope_Inr length_normalize_conditions
        length_container_statuses container_statuses_returned split: option.splits if_splits)
qed

definition sample_namespace :: json where
  "sample_namespace = JObj [(''metadata'', JObj [(''name'', JStr ''shop'')])]"

theorem resource_of_wellformed_witness:
  "\<exists>r. resource_of RK_Namespace sample_namespace = Inr r \<and> rs_kind r = RK_Namespace"
proof -
  have "\<not> isl (resource_of RK_Namespace sample_namespace)"
    by (simp add: resource_of_def sample_namespace_def resource_uid_def resource_scope_def
        kind_namespaced_def opt_str_def opt_filter_def valid_object_name_def valid_dns_subdomain_def
        valid_dns_label_iff dns_byte_code ascii_defs split: prod.splits)
  then obtain r where "resource_of RK_Namespace sample_namespace = Inr r"
    by (cases "resource_of RK_Namespace sample_namespace") simp_all
  then show ?thesis using resource_of_wellformed by blast
qed

text \<open>
  The restart count of a pod is the sum of the counts of all its containers, capped at the
  largest \<open>u64\<close>.
\<close>

lemma unat_fold_saturating_add:
  "unat (fold (\<lambda>n acc. u64_saturating_add acc n) ns a) = min (unat a + sum_list (map unat ns)) (2 ^ 64 - 1)"
proof (induction ns arbitrary: a)
  case Nil
  have "unat a < 2 ^ 64" using unsigned_less [of a] by simp
  then show ?case by simp
next
  case (Cons n ns)
  then show ?case by (simp add: unat_u64_saturating_add)
qed

definition container_restarts :: "json \<Rightarrow> u64 list" where
  "container_restarts value =
     concat (map (\<lambda>(_, pointer). List.map_filter (\<lambda>c. opt_u64 (json_get c ''restartCount''))
                    (opt_elems (opt_array (json_pointer value pointer)))) container_groups)"

lemma map_filter_append: "List.map_filter f (xs @ ys) = List.map_filter f xs @ List.map_filter f ys"
  by (simp add: List.map_filter_def)

text \<open>
  The restart count shown for a pod is the sum of the restart counts of its init,
  application and ephemeral containers, capped at the largest \<open>u64\<close> instead of wrapping.
\<close>

theorem restart_count_saturates:
  "unat (restart_count value) = min (sum_list (map unat (container_restarts value))) (2 ^ 64 - 1)"
proof -
  have "List.map_filter (\<lambda>v. opt_u64 (json_get v ''restartCount''))
      (concat (List.map_filter (\<lambda>pointer. opt_array (json_pointer value pointer))
        [''/status/initContainerStatuses'', ''/status/containerStatuses'',
         ''/status/ephemeralContainerStatuses'']))
    = container_restarts value"
    by (simp add: container_restarts_def container_groups_def map_filter_append opt_elems_def
        List.map_filter_simps split: option.split)
  then show ?thesis
    by (simp add: restart_count_def unat_fold_saturating_add)
qed

section \<open>Unreviewed content does not reach the result\<close>

text \<open>
  \<open>reviewed\<close> removes from a document every top-level field, every metadata field and every spec
  field that the normalisation does not name: labels, annotations, container environments,
  secret data.
\<close>

definition metadata_fields :: "string list" where
  "metadata_fields = [''name'', ''namespace'', ''uid'', ''creationTimestamp'']"

definition spec_fields :: "string list" where
  "spec_fields =
     [''replicas'', ''suspend'', ''schedule'', ''nodeName'', ''type'', ''clusterIP'', ''ingressClassName'',
      ''gatewayClassName'', ''controllerName'', ''rules'', ''ingress'', ''egress'', ''storageClassName'',
      ''provider'']"

definition other_fields :: "string list" where
  "other_fields =
     [''status'', ''note'', ''message'', ''reason'', ''regarding'', ''deprecatedCount'', ''containers'',
      ''timestamp'', ''window'', ''usage'', ''endpoints'', ''provisioner'', ''reclaimPolicy'']"

fun keep_fields :: "string list \<Rightarrow> json \<Rightarrow> json" where
  "keep_fields fs (JObj m) = JObj (filter (\<lambda>(k, _). k \<in> set fs) m)"
| "keep_fields fs v = v"

definition reviewed_field :: "string \<times> json \<Rightarrow> (string \<times> json) option" where
  "reviewed_field e =
     (let (k, v) = e in
      if k = ''metadata'' then Some (k, keep_fields metadata_fields v)
      else if k = ''spec'' then Some (k, keep_fields spec_fields v)
      else if k \<in> set other_fields then Some (k, v)
      else None)"

fun reviewed :: "json \<Rightarrow> json" where
  "reviewed (JObj m) = JObj (List.map_filter reviewed_field m)"
| "reviewed v = v"

lemma map_of_keep: "k \<in> set fs \<Longrightarrow> map_of (filter (\<lambda>(k, _). k \<in> set fs) m) k = map_of m k"
  by (induction m) auto

lemma json_get_keep: "k \<in> set fs \<Longrightarrow> json_get (keep_fields fs v) k = json_get v k"
  by (cases v) (simp_all add: map_of_keep)

lemma json_step_keep: "k \<in> set fs \<Longrightarrow> json_step (keep_fields fs v) k = json_step v k"
  by (cases v) (simp_all add: map_of_keep)

lemma map_of_reviewed:
  "k \<in> set other_fields \<Longrightarrow> map_of (List.map_filter reviewed_field m) k = map_of m k"
  "map_of (List.map_filter reviewed_field m) ''metadata'' = map_option (keep_fields metadata_fields) (map_of m ''metadata'')"
  "map_of (List.map_filter reviewed_field m) ''spec'' = map_option (keep_fields spec_fields) (map_of m ''spec'')"
  by (induction m)
    (auto simp: List.map_filter_simps reviewed_field_def other_fields_def split: if_splits)

lemma json_get_reviewed:
  "k \<in> set other_fields \<Longrightarrow> json_get (reviewed v) k = json_get v k"
  "json_get (reviewed v) ''metadata'' = map_option (keep_fields metadata_fields) (json_get v ''metadata'')"
  by (cases v; simp add: map_of_reviewed)+

lemma json_walk_reviewed:
  "k \<in> set other_fields \<Longrightarrow> json_walk (reviewed v) (k # ks) = json_walk v (k # ks)"
  "k \<in> set spec_fields \<Longrightarrow> json_walk (reviewed v) (''spec'' # k # ks) = json_walk v (''spec'' # k # ks)"
  by (cases v; simp add: map_of_reviewed json_step_keep split: option.split)+

lemmas reviewed_simps = json_pointer_def json_get_reviewed json_walk_reviewed
  other_fields_def spec_fields_def

lemma map_filter_cong_on:
  "(\<And>x. x \<in> set xs \<Longrightarrow> f x = g x) \<Longrightarrow> List.map_filter f xs = List.map_filter g xs"
  by (induction xs) (auto simp: List.map_filter_simps split: option.splits)

lemma restart_count_reviewed: "restart_count (reviewed v) = restart_count v"
proof -
  have "List.map_filter (\<lambda>p. opt_array (json_pointer (reviewed v) p))
      [''/status/initContainerStatuses'', ''/status/containerStatuses'', ''/status/ephemeralContainerStatuses'']
    = List.map_filter (\<lambda>p. opt_array (json_pointer v p))
      [''/status/initContainerStatuses'', ''/status/containerStatuses'', ''/status/ephemeralContainerStatuses'']"
    by (rule map_filter_cong_on) (auto simp: reviewed_simps simp del: json_walk.simps)
  then show ?thesis by (simp add: restart_count_def)
qed

lemma workload_reviewed: "workload_details k (reviewed v) d = workload_details k v d"
  by (cases k) (simp_all add: workload_details_def restart_count_reviewed reviewed_simps del: json_walk.simps)

lemma metric_reviewed: "metric_details k (reviewed v) d = metric_details k v d"
  by (cases k) (simp_all add: metric_details_def normalize_pod_metric_def reviewed_simps del: json_walk.simps)

lemma network_reviewed: "network_details k (reviewed v) d = network_details k v d"
  by (cases k) (simp_all add: network_details_def reviewed_simps del: json_walk.simps)

lemma policy_reviewed: "policy_details k (reviewed v) d = policy_details k v d"
  by (cases k) (simp_all add: policy_details_def reviewed_simps del: json_walk.simps)

lemma event_reviewed: "event_details (reviewed v) d = event_details v d"
  by (simp add: event_details_def reviewed_simps del: json_walk.simps)

lemma resource_details_reviewed: "resource_details k (reviewed v) = resource_details k v"
  by (simp only: resource_details_def workload_reviewed metric_reviewed network_reviewed
      policy_reviewed event_reviewed)

lemma status_for_reviewed: "status_for k (reviewed v) = status_for k v"
  by (cases k) (simp_all add: status_for_def status_pointer_def reviewed_simps del: json_walk.simps)

lemma conditions_reviewed: "normalize_conditions (reviewed v) = normalize_conditions v"
  by (simp add: normalize_conditions_def reviewed_simps del: json_walk.simps)

lemma container_statuses_reviewed:
  "normalize_container_statuses (reviewed v) = normalize_container_statuses v"
  by (simp add: normalize_container_statuses_def container_groups_def reviewed_simps del: json_walk.simps)

lemma and_then_ok_or_map_option:
  "and_then (ok_or (map_option g x) e) f = and_then (ok_or x e) (\<lambda>a. f (g a))"
  by (cases x) simp_all

text \<open>
  The result of normalising a document depends on the reviewed fields alone: labels,
  annotations, unreviewed spec fields such as container environments, and other top-level
  content such as the data of a secret can be removed without any change to the result or to
  the error.
\<close>

theorem unreviewed_content_omitted:
  "resource_of kind (reviewed value) = resource_of kind value"
  by (simp only: resource_of_def json_get_reviewed and_then_ok_or_map_option resource_uid_def
      resource_details_reviewed status_for_reviewed conditions_reviewed container_statuses_reviewed)
    (simp add: json_get_keep metadata_fields_def)

end
