(* ===== verification/Kube_Runner.thy ===== *)
theory Kube_Runner
  imports Kube_Actions
begin

text \<open>
  The process runner of one cluster client (\<open>src/integrations/kubernetes/runner.rs\<close>).

  A run is one \<open>kubectl\<close> process.  What the operating system and the process do is the
  environment of the run, a \<open>process_env\<close>: whether the cancellation receiver is already closed,
  whether the process and its pipes could be created, and the sequence of polls of the
  worker's \<open>select!\<close> loop up to the deadline.  A poll says which of the awaited futures are
  ready; the loop takes the first ready one in the order of the source (\<open>biased\<close>).  After the
  last poll the deadline timer is the future that becomes ready, so that the worker always
  returns.  Whether a killed process is gone when the worker returns is not modelled: \<open>terminate\<close> does
  not say.  The semaphore is the number of permits that are free when a run starts.  A \<open>Duration\<close> is a
  number of nanoseconds.
\<close>

section \<open>Configuration\<close>

type_synonym duration = nat

definition from_millis :: "nat \<Rightarrow> duration" where
  "from_millis n = n * 1000000"

definition from_secs :: "nat \<Rightarrow> duration" where
  "from_secs n = n * 1000000000"

definition as_millis :: "duration \<Rightarrow> nat" where
  "as_millis d = d div 1000000"

definition is_absolute :: "string \<Rightarrow> bool" where
  "is_absolute path = starts_with path ''/''"

definition max_stdout_bytes :: nat where
  "max_stdout_bytes = 4 * 1024 * 1024"

definition max_stderr_bytes :: nat where
  "max_stderr_bytes = 32 * 1024"

record kube_runner =
  kr_executable :: string
  kr_kubeconfig :: string
  kr_cache_dir :: string
  kr_context :: string
  kr_request_timeout :: string
  kr_initial_permits :: nat
  kr_deadline :: duration

definition clamp :: "nat \<Rightarrow> nat \<Rightarrow> nat \<Rightarrow> nat" where
  "clamp lo hi x = (if x < lo then lo else if x > hi then hi else x)"

definition kube_runner_new ::
  "string \<Rightarrow> string \<Rightarrow> string \<Rightarrow> string \<Rightarrow> duration \<Rightarrow> string + kube_runner" where
  "kube_runner_new executable kubeconfig cache_dir context deadline =
     (if \<not> is_absolute executable \<or> \<not> is_absolute kubeconfig \<or> \<not> is_absolute cache_dir
         \<or> \<not> valid_context context
         \<or> deadline < from_millis 2 \<or> deadline > from_secs 30
      then Inl ''invalid Kubernetes runner configuration''
      else
        let outer_millis = as_millis deadline;
            margin = clamp 1 5000 (outer_millis div 6);
            request_timeout = show_nat (outer_millis - margin) @ ''ms''
        in Inr \<lparr>kr_executable = executable, kr_kubeconfig = kubeconfig, kr_cache_dir = cache_dir,
                kr_context = context, kr_request_timeout = request_timeout,
                kr_initial_permits = 2, kr_deadline = deadline\<rparr>)"

text \<open>The command line of the worker; the process environment holds one variable only.\<close>

definition kubectl_command :: "kube_runner \<Rightarrow> string list \<Rightarrow> string list" where
  "kubectl_command r arguments =
     [kr_executable r, ''--kubeconfig'', kr_kubeconfig r, ''--cache-dir'', kr_cache_dir r,
      ''--context'', kr_context r, ''--request-timeout'', kr_request_timeout r] @ arguments"

definition kubectl_environment :: "(string \<times> string) list" where
  "kubectl_environment = [(''KUBECTL_KUBERC'', ''false'')]"

section \<open>Failures\<close>

datatype kube_operation = KOp_Query | KOp_Mutation

fun operation_failure :: "kube_operation \<Rightarrow> bool \<Rightarrow> kube_error" where
  "operation_failure KOp_Mutation True = KE_MutationOutcomeUnknown"
| "operation_failure KOp_Mutation False = KE_MutationRejected"
| "operation_failure KOp_Query _ = KE_UpstreamUnavailable"

fun stream_failure :: "kube_operation \<Rightarrow> kube_error" where
  "stream_failure KOp_Mutation = KE_MutationOutcomeUnknown"
| "stream_failure KOp_Query = KE_ResponseTooLarge"

definition classify_exit :: "i32 option \<Rightarrow> string \<Rightarrow> kube_error" where
  "classify_exit code stderr =
     (let message = to_ascii_lowercase (from_utf8_lossy stderr) in
      if str_contains message ''forbidden'' \<or> str_contains message ''unauthorized'' then KE_Unauthorized
      else if str_contains message ''the server could not find the requested resource''
        \<or> str_contains message (''doesn'' @ [CHR 0x27] @ ''t have a resource type'') then KE_UnsupportedApi
      else if str_contains message ''notfound'' \<or> str_contains message ''not found'' then KE_NotFound
      else if code = Some 1 then KE_QueryRejected
      else if code = Some 2 then KE_InvalidArguments
      else KE_UpstreamUnavailable)"

section \<open>Draining a stream\<close>

datatype read_event = ReadErr | ReadBytes string

text \<open>
  The reads of one stream, in order: a failed read, or the bytes read, none of them at the end
  of the stream.  The end of the list is the end of the stream.
\<close>

fun drain_from :: "nat \<Rightarrow> string \<Rightarrow> read_event list \<Rightarrow> string option" where
  "drain_from limit acc [] = Some acc"
| "drain_from limit acc (ReadErr # rs) = None"
| "drain_from limit acc (ReadBytes b # rs) =
     (if b = [] then Some acc
      else if length b > limit - length acc then None
      else drain_from limit (acc @ b) rs)"

definition drain :: "nat \<Rightarrow> read_event list \<Rightarrow> string option" where
  "drain limit reads = drain_from limit [] reads"

section \<open>The worker\<close>

datatype wait_result = WaitOk "i32 option" | WaitErr

datatype stream_end = StreamReads "read_event list" | TaskFailed

fun stream_result :: "nat \<Rightarrow> stream_end \<Rightarrow> string option" where
  "stream_result limit (StreamReads rs) = drain limit rs"
| "stream_result limit TaskFailed = None"

record worker_poll =
  wp_cancelled :: bool
  wp_exit :: "wait_result option"
  wp_stdout :: "stream_end option"
  wp_stderr :: "stream_end option"

record process_env =
  pe_cancelled_before :: bool
  pe_spawned :: bool
  pe_stdout_pipe :: bool
  pe_stderr_pipe :: bool
  pe_polls :: "worker_poll list"

record worker_state =
  ws_status :: "(i32 option) option"
  ws_stdout_task :: bool
  ws_stderr_task :: bool
  ws_stdout :: "string option"
  ws_stderr :: "string option"

record worker_end =
  we_result :: "kube_error + string"
  we_spawned :: bool

text \<open>
  \<open>terminate\<close> kills the child and waits for it, and ignores the errors of both; \<open>ended_by_kill\<close> is an
  early return after it.
\<close>

definition ended_by_kill :: "kube_error \<Rightarrow> worker_end" where
  "ended_by_kill e = \<lparr>we_result = Inl e, we_spawned = True\<rparr>"

definition worker_start :: worker_state where
  "worker_start = \<lparr>ws_status = None, ws_stdout_task = True, ws_stderr_task = True,
     ws_stdout = None, ws_stderr = None\<rparr>"

definition exit_success :: "i32 option \<Rightarrow> bool" where
  "exit_success code \<longleftrightarrow> code = Some 0"

text \<open>The check at the top of the loop: the process has exited and both streams are drained.\<close>

definition worker_complete :: "kube_operation \<Rightarrow> worker_state \<Rightarrow> worker_end option" where
  "worker_complete op st =
     (case (ws_status st, ws_stdout st, ws_stderr st) of
        (Some status, Some stdout, Some stderr) \<Rightarrow>
          Some \<lparr>we_result =
                  (if exit_success status then Inr stdout
                   else Inl (if op = KOp_Mutation then KE_MutationOutcomeUnknown
                             else classify_exit status stderr)),
                we_spawned = True\<rparr>
      | _ \<Rightarrow> None)"

definition worker_expired :: "kube_operation \<Rightarrow> worker_end" where
  "worker_expired op =
     ended_by_kill (if op = KOp_Mutation then KE_MutationOutcomeUnknown else KE_Timeout)"

definition worker_select :: "kube_operation \<Rightarrow> worker_state \<Rightarrow> worker_poll \<Rightarrow> worker_state + worker_end" where
  "worker_select op st p =
     (if wp_cancelled p then Inr (ended_by_kill (operation_failure op True))
      else if ws_status st = None \<and> wp_exit p \<noteq> None then
        (case the (wp_exit p) of
           WaitOk status \<Rightarrow> Inl (st\<lparr>ws_status := Some status\<rparr>)
         | WaitErr \<Rightarrow> Inr (ended_by_kill (operation_failure op True)))
      else if ws_stdout_task st \<and> wp_stdout p \<noteq> None then
        (case stream_result max_stdout_bytes (the (wp_stdout p)) of
           Some b \<Rightarrow> Inl (st\<lparr>ws_stdout_task := False, ws_stdout := Some b\<rparr>)
         | None \<Rightarrow> Inr (ended_by_kill (stream_failure op)))
      else if ws_stderr_task st \<and> wp_stderr p \<noteq> None then
        (case stream_result max_stderr_bytes (the (wp_stderr p)) of
           Some b \<Rightarrow> Inl (st\<lparr>ws_stderr_task := False, ws_stderr := Some b\<rparr>)
         | None \<Rightarrow> Inr (ended_by_kill (stream_failure op)))
      else Inl st)"

text \<open>
  \<open>worker_run\<close> is the loop up to the end of the polls: the worker has ended or is still
  waiting.  If it is still waiting, the deadline is what happens next.
\<close>

fun worker_run :: "kube_operation \<Rightarrow> worker_state \<Rightarrow> worker_poll list \<Rightarrow> worker_state + worker_end" where
  "worker_run op st [] =
     (case worker_complete op st of Some e \<Rightarrow> Inr e | None \<Rightarrow> Inl st)"
| "worker_run op st (p # ps) =
     (case worker_complete op st of
        Some e \<Rightarrow> Inr e
      | None \<Rightarrow> (case worker_select op st p of
                  Inl st' \<Rightarrow> worker_run op st' ps
                | Inr e \<Rightarrow> Inr e))"

definition worker_loop :: "kube_operation \<Rightarrow> worker_state \<Rightarrow> worker_poll list \<Rightarrow> worker_end" where
  "worker_loop op st ps =
     (case worker_run op st ps of Inr e \<Rightarrow> e | Inl st' \<Rightarrow> worker_expired op)"

definition worker :: "kube_operation \<Rightarrow> process_env \<Rightarrow> worker_end" where
  "worker op env =
     (if pe_cancelled_before env then
        \<lparr>we_result = Inl (operation_failure op False), we_spawned = False\<rparr>
      else if \<not> pe_spawned env then
        \<lparr>we_result = Inl (operation_failure op False), we_spawned = False\<rparr>
      else if \<not> pe_stdout_pipe env then ended_by_kill (operation_failure op True)
      else if \<not> pe_stderr_pipe env then ended_by_kill (operation_failure op True)
      else worker_loop op worker_start (pe_polls env))"

section \<open>A cancellable run\<close>

text \<open>
  The environment of \<open>run_cancelled\<close>: the permits that are free when it starts, whether the
  spawned worker task delivers its result, and the number of polls after which the caller's
  cancellation future resolves, if it does.  The outer \<open>select!\<close> prefers the worker's result;
  on cancellation it signals the worker, waits for it and reports the cancellation.
\<close>

record run_env =
  re_permits :: nat
  re_delivered :: bool
  re_cancel_at :: "nat option"
  re_process :: process_env

fun cancellation_error :: "kube_operation \<Rightarrow> kube_error" where
  "cancellation_error KOp_Query = KE_RequestCancelled"
| "cancellation_error KOp_Mutation = KE_MutationOutcomeUnknown"

definition worker_before :: "kube_operation \<Rightarrow> process_env \<Rightarrow> nat \<Rightarrow> worker_end option" where
  "worker_before op env n =
     (if pe_cancelled_before env then None
      else if \<not> pe_spawned env \<or> \<not> pe_stdout_pipe env \<or> \<not> pe_stderr_pipe env
      then Some (worker op env)
      else (case worker_run op worker_start (take n (pe_polls env)) of
              Inr e \<Rightarrow> Some e
            | Inl st \<Rightarrow> if length (pe_polls env) < n then Some (worker_expired op) else None))"

definition run_cancelled :: "kube_operation \<Rightarrow> run_env \<Rightarrow> kube_error + string" where
  "run_cancelled op env =
     (if re_permits env = 0 then Inl KE_CapacityExhausted
      else
        (case (case re_cancel_at env of
                 None \<Rightarrow> Some (worker op (re_process env))
               | Some n \<Rightarrow> worker_before op (re_process env) n) of
           None \<Rightarrow> Inl (cancellation_error op)
         | Some e \<Rightarrow> if re_delivered env then we_result e else Inl (operation_failure op True)))"

text \<open>
  How the worker itself ends when the cancellation reaches it after \<open>n\<close> polls: it sees the
  signal at its next poll.
\<close>

definition cancelled_after :: "nat \<Rightarrow> process_env \<Rightarrow> process_env" where
  "cancelled_after n env =
     env\<lparr>pe_polls := take n (pe_polls env)
           @ [\<lparr>wp_cancelled = True, wp_exit = None, wp_stdout = None, wp_stderr = None\<rparr>]\<rparr>"

text \<open>
  The client's view of its runner: \<open>world\<close> is the outside world, which answers a command line
  with the environment of the run it causes and a new state of the world.
\<close>

definition runner_io ::
  "kube_runner \<Rightarrow> ('s \<Rightarrow> string list \<Rightarrow> run_env \<times> 's)
     \<Rightarrow> string list \<Rightarrow> kube_operation \<Rightarrow> ('s, kube_error, string) io" where
  "runner_io r world arguments op = (\<lambda>s.
     (let (env, s') = world s (kubectl_command r arguments) in (run_cancelled op env, s')))"

section \<open>Laws of the runner\<close>

lemma request_timeout_inside_deadline:
  assumes "kube_runner_new e k c ctx d = Inr r"
  shows "\<exists>t. kr_request_timeout r = show_nat t @ ''ms'' \<and> 0 < t \<and> t < as_millis d
           \<and> as_millis d \<le> t + 5000 \<and> as_millis d \<le> 30000"
proof -
  let ?m = "as_millis d"
  let ?g = "clamp 1 5000 (?m div 6)"
  from assms have d: "2000000 \<le> d" "d \<le> 30000000000"
    and t: "kr_request_timeout r = show_nat (?m - ?g) @ ''ms''"
    by (auto simp: kube_runner_new_def Let_def from_millis_def from_secs_def split: if_splits)
  from d have m: "2 \<le> ?m" "?m \<le> 30000"
    using div_le_mono [of 2000000 d 1000000] div_le_mono [of d 30000000000 1000000]
    by (simp_all add: as_millis_def)
  have "?g \<ge> 1" "?g \<le> 5000" "?g < ?m"
    using m by (auto simp: clamp_def)
  with t m show ?thesis
    by (intro exI [of _ "?m - ?g"]) auto
qed

lemma drain_from_bound:
  "drain_from limit acc reads = Some b \<Longrightarrow> length acc \<le> limit \<Longrightarrow> length b \<le> limit"
  by (induction limit acc reads rule: drain_from.induct) (auto split: if_splits)

lemma drain_bound: "drain limit reads = Some b \<Longrightarrow> length b \<le> limit"
  by (simp add: drain_def drain_from_bound)

text \<open>What a drained stream is: the bytes read before its end.\<close>

fun stream_bytes :: "read_event list \<Rightarrow> string" where
  "stream_bytes [] = []"
| "stream_bytes (ReadErr # rs) = []"
| "stream_bytes (ReadBytes b # rs) = (if b = [] then [] else b @ stream_bytes rs)"

lemma drain_from_bytes:
  "drain_from limit acc reads = Some b \<Longrightarrow> b = acc @ stream_bytes reads"
  by (induction limit acc reads rule: drain_from.induct) (auto split: if_splits)

lemma drain_bytes: "drain limit reads = Some b \<Longrightarrow> b = stream_bytes reads"
  unfolding drain_def by (drule drain_from_bytes) simp

text \<open>The errors of a worker, by operation and by whether its process was spawned.\<close>

definition dispatched_error_ok :: "kube_operation \<Rightarrow> kube_error + string \<Rightarrow> bool" where
  "dispatched_error_ok op r \<longleftrightarrow> (case r of
     Inr b \<Rightarrow> length b \<le> max_stdout_bytes
   | Inl e \<Rightarrow> (op = KOp_Mutation \<longrightarrow> e = KE_MutationOutcomeUnknown)
            \<and> (op = KOp_Query \<longrightarrow> e \<notin> {KE_MutationOutcomeUnknown, KE_MutationRejected, KE_RequestCancelled, KE_CapacityExhausted}))"

definition worker_end_ok :: "kube_operation \<Rightarrow> worker_end \<Rightarrow> bool" where
  "worker_end_ok op e \<longleftrightarrow> we_spawned e \<and> dispatched_error_ok op (we_result e)"

definition worker_state_ok :: "worker_state \<Rightarrow> bool" where
  "worker_state_ok st \<longleftrightarrow> (\<forall>b. ws_stdout st = Some b \<longrightarrow> length b \<le> max_stdout_bytes)"

lemma classify_exit_query:
  "classify_exit code stderr \<notin>
     {KE_MutationOutcomeUnknown, KE_MutationRejected, KE_RequestCancelled, KE_CapacityExhausted}"
  by (simp add: classify_exit_def Let_def)

lemma ended_by_kill_ok:
  "dispatched_error_ok op (Inl e) \<Longrightarrow> worker_end_ok op (ended_by_kill e)"
  by (simp add: worker_end_ok_def ended_by_kill_def)

lemma operation_failure_ok: "dispatched_error_ok op (Inl (operation_failure op True))"
  by (cases op) (simp_all add: dispatched_error_ok_def)

lemma stream_failure_ok: "dispatched_error_ok op (Inl (stream_failure op))"
  by (cases op) (simp_all add: dispatched_error_ok_def)

lemma worker_complete_ok:
  assumes "worker_state_ok st" "worker_complete op st = Some e"
  shows "worker_end_ok op e"
proof -
  from assms(2) obtain status so se where st: "ws_status st = Some status"
      "ws_stdout st = Some so" "ws_stderr st = Some se"
    and e: "e = \<lparr>we_result = (if exit_success status then Inr so
              else Inl (if op = KOp_Mutation then KE_MutationOutcomeUnknown
                        else classify_exit status se)),
            we_spawned = True\<rparr>"
    by (auto simp: worker_complete_def split: option.splits)
  with assms(1) classify_exit_query [of status se] show ?thesis
    by (cases op) (auto simp: worker_end_ok_def dispatched_error_ok_def worker_state_ok_def)
qed

lemma stream_result_bound: "stream_result limit s = Some b \<Longrightarrow> length b \<le> limit"
  by (cases s) (auto dest: drain_bound)

lemma worker_select_ok:
  assumes "worker_state_ok st"
  shows "case worker_select op st p of
           Inl st' \<Rightarrow> worker_state_ok st' | Inr e \<Rightarrow> worker_end_ok op e"
  using assms
  by (auto simp: worker_select_def worker_state_ok_def
      intro!: ended_by_kill_ok operation_failure_ok stream_failure_ok
      dest: stream_result_bound
      split: wait_result.splits option.splits)

lemma worker_run_ok:
  "worker_state_ok st \<Longrightarrow> worker_run op st ps = Inr e \<Longrightarrow> worker_end_ok op e"
proof (induction ps arbitrary: st)
  case Nil
  then show ?case by (auto split: option.splits intro: worker_complete_ok)
next
  case (Cons p ps)
  show ?case
  proof (cases "worker_complete op st")
    case (Some e')
    with Cons.prems show ?thesis by (auto intro: worker_complete_ok)
  next
    case None
    with Cons worker_select_ok [of st op p] show ?thesis
      by (auto split: sum.splits)
  qed
qed

lemma worker_state_ok_start: "worker_state_ok worker_start"
  by (simp add: worker_state_ok_def worker_start_def)

lemma worker_expired_ok: "worker_end_ok op (worker_expired op)"
  by (cases op) (simp_all add: worker_expired_def ended_by_kill_def worker_end_ok_def
      dispatched_error_ok_def)

lemma worker_loop_ok: "worker_end_ok op (worker_loop op worker_start ps)"
  using worker_run_ok [OF worker_state_ok_start]
  by (auto simp: worker_loop_def intro: worker_expired_ok split: sum.splits)

lemma worker_ok:
  "worker_end_ok op (worker op env)
   \<or> (\<not> we_spawned (worker op env) \<and> we_result (worker op env) = Inl (operation_failure op False))"
  by (auto simp: worker_def intro: ended_by_kill_ok operation_failure_ok worker_loop_ok)

text \<open>What a successful run has seen of its process.\<close>

definition stdout_seen :: "worker_poll list \<Rightarrow> string \<Rightarrow> bool" where
  "stdout_seen ps b \<longleftrightarrow>
     (\<exists>p\<in>set ps. \<exists>rs. wp_stdout p = Some (StreamReads rs) \<and> b = stream_bytes rs)"

definition clean_exit_seen :: "worker_poll list \<Rightarrow> string \<Rightarrow> bool" where
  "clean_exit_seen ps b \<longleftrightarrow>
     (\<exists>p\<in>set ps. wp_exit p = Some (WaitOk (Some 0))) \<and> stdout_seen ps b"

lemma stdout_seenI: "p \<in> set ps \<Longrightarrow> wp_stdout p = Some (StreamReads rs) \<Longrightarrow> stdout_seen ps (stream_bytes rs)"
  by (auto simp: stdout_seen_def)

definition worker_state_seen :: "worker_poll list \<Rightarrow> worker_state \<Rightarrow> bool" where
  "worker_state_seen ps st \<longleftrightarrow>
     (\<forall>c. ws_status st = Some c \<longrightarrow> (\<exists>p\<in>set ps. wp_exit p = Some (WaitOk c)))
     \<and> (\<forall>b. ws_stdout st = Some b \<longrightarrow> stdout_seen ps b)"

lemma stream_result_reads:
  "stream_result limit s = Some b \<Longrightarrow> \<exists>rs. s = StreamReads rs \<and> b = stream_bytes rs"
  by (cases s) (auto dest: drain_bytes)

lemma worker_select_seen:
  assumes "worker_state_seen ps st" "p \<in> set ps" "worker_select op st p = Inl st'"
  shows "worker_state_seen ps st'"
  using assms
  by (auto simp: worker_select_def worker_state_seen_def split: if_splits wait_result.splits
      option.splits dest!: stream_result_reads intro: stdout_seenI)

lemma worker_complete_seen:
  "worker_state_seen ps st \<Longrightarrow> worker_complete op st = Some e \<Longrightarrow> we_result e = Inr b
     \<Longrightarrow> clean_exit_seen ps b"
  by (auto simp: worker_complete_def worker_state_seen_def clean_exit_seen_def exit_success_def
      split: option.splits if_splits)

lemma worker_select_no_success: "worker_select op st p = Inr e \<Longrightarrow> we_result e \<noteq> Inr b"
  by (auto simp: worker_select_def ended_by_kill_def split: if_splits wait_result.splits option.splits)

lemma worker_run_seen:
  "worker_state_seen qs st \<Longrightarrow> set ps \<subseteq> set qs \<Longrightarrow> worker_run op st ps = Inr e
     \<Longrightarrow> we_result e = Inr b \<Longrightarrow> clean_exit_seen qs b"
proof (induction ps arbitrary: st)
  case Nil
  then show ?case by (auto split: option.splits intro: worker_complete_seen)
next
  case (Cons p ps)
  show ?case
  proof (cases "worker_complete op st")
    case (Some e')
    with Cons.prems show ?thesis by (auto intro: worker_complete_seen)
  next
    case None
    with Cons.prems obtain st' where "worker_select op st p = Inl st'" "worker_run op st' ps = Inr e"
      using worker_select_no_success by (auto split: sum.splits)
    with Cons show ?thesis using worker_select_seen [of qs st p op st'] by auto
  qed
qed

lemma worker_start_seen: "worker_state_seen ps worker_start"
  by (simp add: worker_state_seen_def worker_start_def)

lemma worker_success_seen:
  assumes "we_result (worker op env) = Inr b"
  shows "clean_exit_seen (pe_polls env) b"
proof -
  from assms have "we_result (worker_loop op worker_start (pe_polls env)) = Inr b"
    by (auto simp: worker_def ended_by_kill_def split: if_splits)
  then obtain e where "worker_run op worker_start (pe_polls env) = Inr e" "we_result e = Inr b"
    by (auto simp: worker_loop_def worker_expired_def ended_by_kill_def split: sum.splits)
  then show ?thesis by (intro worker_run_seen [OF worker_start_seen subset_refl])
qed

text \<open>A run that is cancelled late enough has the result of the uncancelled run.\<close>

lemma worker_run_take: "worker_run op st (take n ps) = Inr e \<Longrightarrow> worker_run op st ps = Inr e"
proof (induction ps arbitrary: st n)
  case (Cons p ps)
  show ?case
  proof (cases n)
    case 0
    with Cons.prems show ?thesis by (auto split: option.splits)
  next
    case (Suc m)
    with Cons show ?thesis by (auto split: option.splits sum.splits)
  qed
qed simp

lemma worker_before_worker:
  assumes "worker_before op env n = Some e"
  shows "worker op env = e"
proof (cases "\<not> pe_spawned env \<or> \<not> pe_stdout_pipe env \<or> \<not> pe_stderr_pipe env")
  case True
  with assms show ?thesis by (simp add: worker_before_def split: if_splits)
next
  case False
  with assms have c: "\<not> pe_cancelled_before env" by (auto simp: worker_before_def)
  with False have w: "worker op env = worker_loop op worker_start (pe_polls env)"
    by (simp add: worker_def)
  show ?thesis
  proof (cases "worker_run op worker_start (take n (pe_polls env))")
    case (Inr e')
    with assms False c have "e' = e" by (simp add: worker_before_def)
    with worker_run_take [OF Inr] w show ?thesis by (simp add: worker_loop_def)
  next
    case (Inl st)
    with assms False c have "length (pe_polls env) < n" "e = worker_expired op"
      by (simp_all add: worker_before_def split: if_splits)
    with Inl w show ?thesis by (simp add: worker_loop_def)
  qed
qed

lemma run_cancelled_cases:
  obtains (exhausted) "re_permits env = 0" "run_cancelled op env = Inl KE_CapacityExhausted"
  | (cancelled) n where "re_cancel_at env = Some n" "run_cancelled op env = Inl (cancellation_error op)"
  | (lost) "run_cancelled op env = Inl (operation_failure op True)"
  | (delivered) "0 < re_permits env" "run_cancelled op env = we_result (worker op (re_process env))"
proof (cases "re_permits env = 0")
  case True
  then show ?thesis using exhausted by (simp add: run_cancelled_def)
next
  case False
  show ?thesis
  proof (cases "re_cancel_at env")
    case None
    with False lost delivered show ?thesis
      by (cases "re_delivered env") (simp_all add: run_cancelled_def)
  next
    case (Some n)
    show ?thesis
    proof (cases "worker_before op (re_process env) n")
      case None
      with False Some cancelled show ?thesis by (simp add: run_cancelled_def)
    next
      case (Some e)
      with worker_before_worker [OF this] \<open>re_cancel_at env = Some n\<close> False lost delivered show ?thesis
        by (cases "re_delivered env") (simp_all add: run_cancelled_def)
    qed
  qed
qed

lemma run_cancelled_query_errors:
  assumes "run_cancelled KOp_Query env = Inl e"
  shows "e \<notin> {KE_MutationOutcomeUnknown, KE_MutationRejected}"
  using assms
proof (cases rule: run_cancelled_cases [of env KOp_Query])
  case delivered
  with assms worker_ok [of KOp_Query "re_process env"] show ?thesis
    by (auto simp: worker_end_ok_def dispatched_error_ok_def)
qed auto

lemma run_cancelled_mutation_errors:
  assumes "run_cancelled KOp_Mutation env = Inl e"
  shows "e = KE_CapacityExhausted \<and> re_permits env = 0
       \<or> e = KE_MutationRejected \<and> \<not> we_spawned (worker KOp_Mutation (re_process env))
       \<or> e = KE_MutationOutcomeUnknown"
  using assms
proof (cases rule: run_cancelled_cases [of env KOp_Mutation])
  case delivered
  with assms worker_ok [of KOp_Mutation "re_process env"] show ?thesis
    by (auto simp: worker_end_ok_def dispatched_error_ok_def)
qed auto

lemma run_cancelled_success:
  assumes "run_cancelled op env = Inr b"
  shows "clean_exit_seen (pe_polls (re_process env)) b \<and> length b \<le> max_stdout_bytes"
  using assms
proof (cases rule: run_cancelled_cases [of env op])
  case delivered
  with assms worker_success_seen [of op "re_process env" b] worker_ok [of op "re_process env"]
  show ?thesis by (auto simp: worker_end_ok_def dispatched_error_ok_def)
qed auto

section \<open>The interface of a client to its runner\<close>

text \<open>
  What the Kubernetes client relies on: a query never ends with a mutation's error, a mutation
  ends with one of three errors only, and an output is bounded.
\<close>

locale kubectl =
  fixes run :: "string list \<Rightarrow> kube_operation \<Rightarrow> ('s, kube_error, string) io"
  assumes query_error: "run args KOp_Query s = (Inl e, s') \<Longrightarrow>
      e \<noteq> KE_MutationOutcomeUnknown \<and> e \<noteq> KE_MutationRejected"
    and mutation_error: "run args KOp_Mutation s = (Inl e, s') \<Longrightarrow>
      e = KE_CapacityExhausted \<or> e = KE_MutationRejected \<or> e = KE_MutationOutcomeUnknown"
    and output_bound: "run args op s = (Inr b, s') \<Longrightarrow> length b \<le> max_stdout_bytes"

interpretation kubectl_process: kubectl "runner_io r world"
  for r :: kube_runner and world
proof (unfold_locales, goal_cases)
  case (1 args s e s')
  then show ?case
    using run_cancelled_query_errors by (fastforce simp: runner_io_def split: prod.splits)
next
  case (2 args s e s')
  then show ?case
    using run_cancelled_mutation_errors by (fastforce simp: runner_io_def split: prod.splits)
next
  case (3 args op s b s')
  then show ?case
    using run_cancelled_success by (fastforce simp: runner_io_def split: prod.splits)
qed

section \<open>Progress: a clean exit is delivered\<close>

text \<open>
  \<open>clean_poll\<close> allows only good news at a poll; \<open>ready_poll\<close> has all three awaited futures ready.
\<close>

definition clean_poll :: "string \<Rightarrow> worker_poll \<Rightarrow> bool" where
  "clean_poll b p \<longleftrightarrow> \<not> wp_cancelled p
     \<and> (\<forall>w. wp_exit p = Some w \<longrightarrow> w = WaitOk (Some 0))
     \<and> (\<forall>e. wp_stdout p = Some e \<longrightarrow> stream_result max_stdout_bytes e = Some b)
     \<and> (\<forall>e. wp_stderr p = Some e \<longrightarrow> stream_result max_stderr_bytes e \<noteq> None)"

definition ready_poll :: "worker_poll \<Rightarrow> bool" where
  "ready_poll p \<longleftrightarrow> wp_exit p \<noteq> None \<and> wp_stdout p \<noteq> None \<and> wp_stderr p \<noteq> None"

definition worker_pending :: "worker_state \<Rightarrow> nat" where
  "worker_pending st = of_bool (ws_status st = None) + of_bool (ws_stdout_task st)
     + of_bool (ws_stderr_task st)"

definition worker_clean :: "string \<Rightarrow> worker_state \<Rightarrow> bool" where
  "worker_clean b st \<longleftrightarrow>
     (\<forall>c. ws_status st = Some c \<longrightarrow> c = Some 0)
     \<and> ws_stdout st = (if ws_stdout_task st then None else Some b)
     \<and> (ws_stderr_task st \<longleftrightarrow> ws_stderr st = None)"

lemma worker_complete_clean:
  assumes "worker_clean b st"
  shows "worker_complete op st =
    (if worker_pending st = 0
     then Some \<lparr>we_result = Inr b, we_spawned = True\<rparr> else None)"
  using assms
  by (auto simp: worker_complete_def worker_clean_def worker_pending_def exit_success_def
      split: option.splits if_splits)

lemma worker_select_clean:
  assumes "worker_clean b st" "clean_poll b p"
  obtains st' where "worker_select op st p = Inl st'" "worker_clean b st'"
    "worker_pending st' \<le> worker_pending st"
    "ready_poll p \<Longrightarrow> worker_pending st' = worker_pending st - 1"
proof (cases "worker_select op st p")
  case (Inl st')
  with assms have "worker_clean b st'" "worker_pending st' \<le> worker_pending st"
    "ready_poll p \<Longrightarrow> worker_pending st' = worker_pending st - 1"
    by (auto simp: worker_select_def worker_clean_def clean_poll_def worker_pending_def
        ready_poll_def split: if_splits wait_result.splits option.splits)
  with Inl that show ?thesis by blast
next
  case (Inr e)
  with assms show ?thesis
    by (auto simp: worker_select_def clean_poll_def split: if_splits wait_result.splits option.splits)
qed

lemma worker_run_clean:
  "worker_clean b st \<Longrightarrow> list_all (clean_poll b) ps \<Longrightarrow>
     worker_pending st \<le> length (filter ready_poll ps) \<Longrightarrow>
     \<exists>e. worker_run op st ps = Inr e \<and> we_result e = Inr b"
proof (induction ps arbitrary: st)
  case Nil
  then show ?case by (simp add: worker_complete_clean)
next
  case (Cons p ps)
  show ?case
  proof (cases "worker_pending st = 0")
    case True
    with Cons.prems show ?thesis by (simp add: worker_complete_clean)
  next
    case False
    from Cons.prems obtain st' where st': "worker_select op st p = Inl st'" "worker_clean b st'"
      "worker_pending st' \<le> worker_pending st"
      "ready_poll p \<Longrightarrow> worker_pending st' = worker_pending st - 1"
      by (auto elim: worker_select_clean [where op = op])
    have "worker_pending st' \<le> length (filter ready_poll ps)"
      using st'(3,4) Cons.prems(3) by (cases "ready_poll p") auto
    with Cons.IH [OF st'(2)] Cons.prems(2) st'(1) False Cons.prems(1) show ?thesis
      by (simp add: worker_complete_clean)
  qed
qed

lemma worker_clean_start: "worker_clean b worker_start" "worker_pending worker_start = 3"
  by (simp_all add: worker_clean_def worker_start_def worker_pending_def)

section \<open>Properties\<close>

text \<open>
  C5: A mutation never ends in an ambiguous way that looks definite.  It fails with capacity
  exhaustion only when no permit was free, with a rejection only when its process was never
  spawned, and otherwise with the unknown-outcome error, whatever the process did.
\<close>

theorem mutation_run_outcome:
  assumes "run_cancelled KOp_Mutation env = Inl e"
  shows "e = KE_CapacityExhausted \<and> re_permits env = 0
       \<or> e = KE_MutationRejected \<and> \<not> we_spawned (worker KOp_Mutation (re_process env))
       \<or> e = KE_MutationOutcomeUnknown"
  using assms by (rule run_cancelled_mutation_errors)

theorem mutation_run_outcome_witness:
  "\<exists>env. run_cancelled KOp_Mutation env = Inl KE_MutationOutcomeUnknown
     \<and> we_spawned (worker KOp_Mutation (re_process env)) \<and> re_permits env = 1"
proof -
  let ?p = "\<lparr>wp_cancelled = False, wp_exit = Some (WaitOk (Some 1)),
     wp_stdout = Some (StreamReads []), wp_stderr = Some (StreamReads [ReadBytes ''forbidden''])\<rparr>"
  let ?env = "\<lparr>re_permits = 1, re_delivered = True, re_cancel_at = None,
     re_process = \<lparr>pe_cancelled_before = False, pe_spawned = True, pe_stdout_pipe = True,
       pe_stderr_pipe = True, pe_polls = [?p, ?p, ?p]\<rparr>\<rparr>"
  have spawned: "we_spawned (worker KOp_Mutation (re_process ?env))"
    by (simp add: worker_def worker_loop_def worker_start_def worker_complete_def
        worker_select_def drain_def max_stdout_bytes_def max_stderr_bytes_def exit_success_def)
  have "\<exists>e. run_cancelled KOp_Mutation ?env = Inl e"
    by (simp add: run_cancelled_def worker_def worker_loop_def worker_start_def worker_complete_def
        worker_select_def drain_def max_stdout_bytes_def max_stderr_bytes_def exit_success_def)
  then obtain e where e: "run_cancelled KOp_Mutation ?env = Inl e" ..
  with mutation_run_outcome [OF e] spawned have "e = KE_MutationOutcomeUnknown" by auto
  with e spawned show ?thesis by (intro exI [of _ ?env]) simp
qed

text \<open>
  A run reports success only after its process exited with status zero and its standard
  output was read to the end; the bytes returned are exactly the process's output, at most
  four mebibytes of it.
\<close>

theorem run_success_is_complete_output:
  assumes "run_cancelled op env = Inr b"
  shows "clean_exit_seen (pe_polls (re_process env)) b \<and> length b \<le> 4194304"
  using run_cancelled_success [OF assms] by (simp add: max_stdout_bytes_def)

theorem run_success_is_complete_output_witness:
  "\<exists>env. run_cancelled KOp_Query env = Inr ''pods'' \<and> clean_exit_seen (pe_polls (re_process env)) ''pods''"
proof -
  let ?p = "\<lparr>wp_cancelled = False, wp_exit = Some (WaitOk (Some 0)),
     wp_stdout = Some (StreamReads [ReadBytes ''po'', ReadBytes ''ds'']), wp_stderr = Some (StreamReads [])\<rparr>"
  let ?env = "\<lparr>re_permits = 2, re_delivered = True, re_cancel_at = Some 7,
     re_process = \<lparr>pe_cancelled_before = False, pe_spawned = True, pe_stdout_pipe = True,
       pe_stderr_pipe = True, pe_polls = [?p, ?p, ?p]\<rparr>\<rparr>"
  have r: "run_cancelled KOp_Query ?env = Inr ''pods''"
    by (simp add: run_cancelled_def worker_before_def worker_start_def worker_complete_def
        worker_select_def drain_def max_stdout_bytes_def max_stderr_bytes_def exit_success_def)
  from run_success_is_complete_output [OF r] r show ?thesis by (intro exI [of _ ?env]) simp
qed

text \<open>
  C12: Progress of the worker loop: when the process exits with status zero, both its streams
  end within their bounds, and the exit and both streams stay ready for three polls before
  the deadline with no cancellation, the run returns the process's output.
\<close>

theorem clean_run_delivers:
  assumes "re_permits env > 0" "re_delivered env" "re_cancel_at env = None"
    and "\<not> pe_cancelled_before (re_process env)" "pe_spawned (re_process env)"
    and "pe_stdout_pipe (re_process env)" "pe_stderr_pipe (re_process env)"
    and clean: "list_all (clean_poll b) (pe_polls (re_process env))"
    and ready: "3 \<le> length (filter ready_poll (pe_polls (re_process env)))"
  shows "run_cancelled op env = Inr b"
proof -
  obtain e where "worker_run op worker_start (pe_polls (re_process env)) = Inr e"
    "we_result e = Inr b"
    using worker_run_clean [OF worker_clean_start(1) clean, of op] ready worker_clean_start(2)
    by auto
  with assms show ?thesis by (simp add: run_cancelled_def worker_def worker_loop_def)
qed

theorem clean_run_delivers_witness:
  "run_cancelled KOp_Mutation
     \<lparr>re_permits = 1, re_delivered = True, re_cancel_at = None,
      re_process = \<lparr>pe_cancelled_before = False, pe_spawned = True, pe_stdout_pipe = True,
        pe_stderr_pipe = True, pe_polls = replicate 3
          \<lparr>wp_cancelled = False, wp_exit = Some (WaitOk (Some 0)),
           wp_stdout = Some (StreamReads [ReadBytes ''ok'']), wp_stderr = Some (StreamReads [])\<rparr>\<rparr>\<rparr>
   = Inr ''ok''"
  by (rule clean_run_delivers)
     (simp_all add: clean_poll_def ready_poll_def drain_def max_stdout_bytes_def max_stderr_bytes_def
        numeral_3_eq_3)

text \<open>
  The timeout given to kubectl is positive and strictly inside the outer deadline, by at
  most five seconds, for every configuration the runner accepts.
\<close>

theorem kube_request_timeout_bounds:
  assumes "kube_runner_new executable kubeconfig cache_dir context deadline = Inr r"
  shows "\<exists>t. kr_request_timeout r = show_nat t @ ''ms'' \<and> 0 < t \<and> t < as_millis deadline
           \<and> as_millis deadline \<le> t + 5000 \<and> as_millis deadline \<le> 30000"
  using assms by (rule request_timeout_inside_deadline)

theorem kube_request_timeout_bounds_witness:
  "\<exists>r t. kube_runner_new ''/usr/bin/kubectl'' ''/tmp/kubeconfig'' ''/tmp/cache'' ''context'' (from_millis 2) = Inr r
     \<and> kr_request_timeout r = show_nat t @ ''ms'' \<and> 0 < t \<and> t < 2"
proof -
  have "valid_context ''context''"
    by (simp add: valid_context_def starts_with_def chars_ascii ascii_defs is_control_def is_whitespace_def)
  then obtain r where r: "kube_runner_new ''/usr/bin/kubectl'' ''/tmp/kubeconfig'' ''/tmp/cache'' ''context'' (from_millis 2) = Inr r"
    by (simp add: kube_runner_new_def is_absolute_def starts_with_def from_millis_def from_secs_def Let_def)
  from kube_request_timeout_bounds [OF r] r show ?thesis
    by (auto simp: as_millis_def from_millis_def)
qed

end
