(* ===== verification/Redaction.thy ===== *)
theory Redaction
  imports Rust_Str
begin

text \<open>
  Replacing secrets in a text by the mark \<open>[REDACTED]\<close>, as the Kubernetes and the Tekton clients do
  before they return text of a workload, and why a secret does not survive it.
\<close>

definition redaction_mark :: string where
  "redaction_mark = ''[REDACTED]''"

text \<open>The plain loop \<open>for secret in secrets { text = text.replace(secret, "[REDACTED]") }\<close>.\<close>

definition redact_all :: "string list \<Rightarrow> string \<Rightarrow> string" where
  "redact_all secrets text = fold (\<lambda>secret text. str_replace text secret redaction_mark) secrets text"

text \<open>
  A secret the mark \<open>[REDACTED]\<close> cannot hide or produce: it has no bracket and does not occur
  in the word between them.
\<close>

definition redactable :: "string \<Rightarrow> bool" where
  "redactable secret \<longleftrightarrow> secret \<noteq> [] \<and> CHR ''['' \<notin> set secret \<and> CHR '']'' \<notin> set secret
     \<and> \<not> str_contains ''REDACTED'' secret"

lemma redaction_mark_split: "redaction_mark = CHR ''['' # ''REDACTED'' @ [CHR '']'']"
  by (simp add: redaction_mark_def)

lemma str_replace_redacts:
  assumes "str_contains (str_replace text secret redaction_mark) q" "secret \<noteq> []" "redactable q"
  shows "str_contains text q \<and> q \<noteq> secret"
  using str_contains_replaced [of secret "CHR ''[''" "''REDACTED''" "CHR '']''" "text" q] assms
  by (simp add: str_replace_def redaction_mark_split redactable_def)

lemma redact_all_keeps_absent:
  "redactable q \<Longrightarrow> \<not> str_contains text q \<Longrightarrow> \<forall>s\<in>set secrets. s \<noteq> [] \<Longrightarrow>
     \<not> str_contains (redact_all secrets text) q"
proof (induction secrets arbitrary: "text")
  case (Cons secret secrets)
  then have "\<not> str_contains (str_replace text secret redaction_mark) q"
    using str_replace_redacts by (metis list.set_intros(1))
  with Cons show ?case by (simp add: redact_all_def)
qed (simp add: redact_all_def)

lemma redact_all_removes:
  "redactable q \<Longrightarrow> q \<in> set secrets \<Longrightarrow> \<forall>s\<in>set secrets. s \<noteq> [] \<Longrightarrow>
     \<not> str_contains (redact_all secrets text) q"
proof (induction secrets arbitrary: "text")
  case (Cons secret secrets)
  show ?case
  proof (cases "q = secret")
    case True
    then have "\<not> str_contains (str_replace text secret redaction_mark) q"
      using str_replace_redacts [of "text" secret q] Cons.prems by auto
    then show ?thesis
      using redact_all_keeps_absent [of q _ secrets] Cons.prems by (simp add: redact_all_def)
  next
    case False
    with Cons show ?thesis by (simp add: redact_all_def)
  qed
qed simp

end
