(* ===== verification/Kube_Client.thy ===== *)
theory Kube_Client
  imports Kube_Normalize Kube_Runner Redaction
begin

text \<open>
  The client of one Kubernetes cluster (\<open>src/integrations/kubernetes/client.rs\<close>): capability
  discovery, single resources, paged lists, pod logs and mutations, each as a computation over
  the runner.

  Every operation takes \<open>run\<close>, the client's \<open>Runner::run_cancelled\<close>: a command line and an
  operation to an output or an error, in a state of the outside world.  The concrete runner is
  \<open>runner_io\<close>; what the operations need of it is the locale \<open>kubectl\<close>.  The JSON parser and the
  percent-encoder are third-party code and are the parameters \<open>parse\<close> and \<open>encode\<close>.
\<close>

type_synonym 's kubectl_run = "string list \<Rightarrow> kube_operation \<Rightarrow> ('s, kube_error, string) io"
type_synonym json_parser = "string \<Rightarrow> json option"

section \<open>Configuration\<close>

definition max_pages :: nat where
  "max_pages = 5"

definition max_inspected :: nat where
  "max_inspected = 500"

record kubernetes_config =
  kc_kubectl_executable :: string
  kc_kubeconfig :: string
  kc_cache_dir :: string
  kc_context :: string
  kc_cluster_name :: string
  kc_deadline :: duration
  kc_redactions :: "string list"

definition kubernetes_config_new ::
  "string \<Rightarrow> string \<Rightarrow> string \<Rightarrow> string \<Rightarrow> string \<Rightarrow> kubernetes_config" where
  "kubernetes_config_new kubectl_executable kubeconfig cache_dir context cluster_name =
     \<lparr>kc_kubectl_executable = kubectl_executable, kc_kubeconfig = kubeconfig,
      kc_cache_dir = cache_dir, kc_context = context, kc_cluster_name = cluster_name,
      kc_deadline = from_secs 30, kc_redactions = []\<rparr>"

definition with_redactions :: "kubernetes_config \<Rightarrow> string list \<Rightarrow> kubernetes_config" where
  "with_redactions config redactions = config\<lparr>kc_redactions := redactions\<rparr>"

record kubernetes_client =
  kcl_runner :: kube_runner
  kcl_context :: string
  kcl_cluster_name :: string
  kcl_redactions :: "string list"

text \<open>
  The kubeconfig file as a document, \<open>None\<close> when it cannot be read or is not YAML: reading and
  YAML parsing are outside the model.
\<close>

definition static_kubeconfig_tokens :: "json option \<Rightarrow> string list" where
  "static_kubeconfig_tokens kubeconfig =
     (case kubeconfig of
        None \<Rightarrow> []
      | Some value \<Rightarrow>
          List.map_filter (\<lambda>entry. opt_str (json_pointer entry ''/user/token''))
            (opt_elems (opt_array (json_get value ''users''))))"

definition kubernetes_client_new ::
  "json option \<Rightarrow> kubernetes_config \<Rightarrow> string + kubernetes_client" where
  "kubernetes_client_new kubeconfig config =
     (if \<not> valid_catalog_name (kc_cluster_name config) then Inl ''invalid Kubernetes cluster name''
      else
        let redactions = kc_redactions config @ static_kubeconfig_tokens kubeconfig;
            redactions = filter (\<lambda>value. value \<noteq> []) redactions;
            redactions = sort_key (\<lambda>value. - int (length value)) redactions;
            redactions = remdups_adj redactions
        in map_sum id (\<lambda>runner.
             \<lparr>kcl_runner = runner, kcl_context = kc_context config,
              kcl_cluster_name = kc_cluster_name config, kcl_redactions = redactions\<rparr>)
           (kube_runner_new (kc_kubectl_executable config) (kc_kubeconfig config)
              (kc_cache_dir config) (kc_context config) (kc_deadline config)))"

definition client_cluster :: "kubernetes_client \<Rightarrow> cluster" where
  "client_cluster c = \<lparr>cl_name = kcl_cluster_name c, cl_context = kcl_context c\<rparr>"

section \<open>Paths and documents\<close>

definition object_path :: "resource_kind \<Rightarrow> string option \<Rightarrow> string option \<Rightarrow> kube_error + string" where
  "object_path kind namespace name =
     (if kind_namespaced kind \<and> namespace = None \<and> name \<noteq> None then Inl KE_InvalidArguments
      else
        let (prefix, version, resource) = kind_mapping kind;
            path = ''/'' @ prefix @ ''/'' @ version;
            path = (case namespace of
                      Some ns \<Rightarrow> if kind_namespaced kind then path @ ''/namespaces/'' @ ns else path
                    | None \<Rightarrow> path);
            path = path @ ''/'' @ resource
        in Inr (case name of Some n \<Rightarrow> path @ ''/'' @ n | None \<Rightarrow> path))"

definition selector :: "(string, string) btree \<Rightarrow> string option" where
  "selector labels =
     (if labels = [] then None
      else Some (join_with '','' (map (\<lambda>(key, value). key @ ''='' @ value) labels)))"

definition parse_json :: "json_parser \<Rightarrow> string \<Rightarrow> kube_error + json" where
  "parse_json parse bytes' = ok_or (parse bytes') KE_InvalidResponse"

definition raw_cancelled ::
  "'s kubectl_run \<Rightarrow> string \<Rightarrow> kube_operation \<Rightarrow> ('s, kube_error, string) io" where
  "raw_cancelled run path operation = run [''get'', ''--raw='' @ path] operation"

record discovered_resource =
  dr_name :: string
  dr_namespaced :: bool

text \<open>The entries in order; \<open>seen\<close> are the names of the entries before.\<close>

fun discovered :: "string list \<Rightarrow> json list \<Rightarrow> kube_error + discovered_resource list" where
  "discovered seen [] = Inr []"
| "discovered seen (resource # rest) =
     and_then (ok_or (opt_filter (\<lambda>name. name \<noteq> [] \<and> length name \<le> 253 \<and> \<not> has_control name)
                 (opt_str (json_get resource ''name''))) KE_InvalidResponse) (\<lambda>name.
     and_then (ok_or (opt_bool (json_get resource ''namespaced'')) KE_InvalidResponse) (\<lambda>namespaced.
       if name \<in> set seen then Inl KE_InvalidResponse
       else and_then (discovered (name # seen) rest)
              (\<lambda>ds. Inr (\<lparr>dr_name = name, dr_namespaced = namespaced\<rparr> # ds))))"

definition parse_discovery ::
  "json_parser \<Rightarrow> string \<Rightarrow> string \<Rightarrow> kube_error + discovered_resource list" where
  "parse_discovery parse bytes' expected_version =
     and_then (parse_json parse bytes') (\<lambda>value.
       if opt_str (json_get value ''groupVersion'') \<noteq> Some expected_version then Inl KE_InvalidResponse
       else and_then (ok_or (opt_array (json_get value ''resources'')) KE_InvalidResponse) (\<lambda>resources.
         if 1000 < length resources then Inl KE_InvalidResponse
         else discovered [] resources))"

section \<open>Capabilities\<close>

type_synonym endpoints = "(string, discovered_resource list option) btree"

definition capability_path :: "resource_kind \<Rightarrow> string" where
  "capability_path kind =
     (let (prefix, version, _) = kind_mapping kind in ''/'' @ prefix @ ''/'' @ version)"

text \<open>
  One discovery request; a rejected or unknown API group is remembered as absent, any other
  error ends the query.
\<close>

definition discover ::
  "json_parser \<Rightarrow> 's kubectl_run \<Rightarrow> resource_kind \<Rightarrow> ('s, kube_error, discovered_resource list option) io" where
  "discover parse run kind = (\<lambda>s.
     (case raw_cancelled run (capability_path kind) KOp_Query s of
        (Inr bytes', s') \<Rightarrow> (map_sum id Some (parse_discovery parse bytes' (kind_api_version kind)), s')
      | (Inl e, s') \<Rightarrow>
          if e \<in> {KE_QueryRejected, KE_NotFound, KE_UnsupportedApi} then (Inr None, s')
          else (Inl e, s')))"

definition kind_supported :: "endpoints \<Rightarrow> resource_kind \<Rightarrow> bool" where
  "kind_supported endpoints kind =
     (let (_, _, resource_name) = kind_mapping kind in
      is_some_and (\<lambda>resources.
          list_ex (\<lambda>r. dr_name r = resource_name \<and> dr_namespaced r = kind_namespaced kind) resources)
        (Option.bind (bt_get endpoints (capability_path kind)) id))"

fun capability_loop ::
  "json_parser \<Rightarrow> 's kubectl_run \<Rightarrow> resource_kind list \<Rightarrow> endpoints \<Rightarrow> u8 \<Rightarrow> capability list
     \<Rightarrow> ('s, kube_error, u8 \<times> capability list) io" where
  "capability_loop parse run [] endpoints pages capabilities = io_return (pages, capabilities)"
| "capability_loop parse run (kind # kinds) endpoints pages capabilities =
     io_bind
       (if bt_get endpoints (capability_path kind) \<noteq> None then io_return (endpoints, pages)
        else io_bind (discover parse run kind) (\<lambda>resources.
          io_return (bt_insert (capability_path kind) resources endpoints, pages + 1)))
       (\<lambda>(endpoints, pages).
          capability_loop parse run kinds endpoints pages
            (capabilities @ [\<lparr>cap_kind = kind, cap_api_version = kind_api_version kind,
                              cap_supported = kind_supported endpoints kind\<rparr>]))"

definition capabilities_cancelled ::
  "json_parser \<Rightarrow> 's kubectl_run \<Rightarrow> capabilities_query \<Rightarrow> ('s, kube_error, query_result) io" where
  "capabilities_cancelled parse run q =
     io_bind (io_guard (capabilities_query_is_valid q) KE_InvalidArguments) (\<lambda>_.
     io_bind (capability_loop parse run (cq_kinds q) [] 0 []) (\<lambda>(pages, capabilities).
       let count = word_of_nat (length capabilities) in
       io_return (QR_Capabilities
         \<lparr>capc_capabilities = capabilities,
          capc_metadata = \<lparr>lm_pages = pages, lm_inspected = count, lm_returned = count,
            lm_source_truncated = False, lm_result_truncated = False,
            lm_aggregate_truncated = False, lm_truncated = False\<rparr>\<rparr>)))"

section \<open>Paged lists\<close>

record list_state =
  ls_continuation :: "string option"
  ls_seen :: "string list"
  ls_items :: "json list"
  ls_pages :: nat
  ls_source_truncated :: bool

definition list_start :: list_state where
  "list_start = \<lparr>ls_continuation = None, ls_seen = [], ls_items = [], ls_pages = 0,
     ls_source_truncated = False\<rparr>"

definition list_path ::
  "(string \<Rightarrow> string) \<Rightarrow> string \<Rightarrow> string option \<Rightarrow> nat \<Rightarrow> string option \<Rightarrow> string" where
  "list_path encode base sel requested continuation =
     base @ ''?limit='' @ show_nat requested
     @ (case sel of None \<Rightarrow> [] | Some s \<Rightarrow> ''&labelSelector='' @ encode s)
     @ (case continuation of None \<Rightarrow> [] | Some tok \<Rightarrow> ''&continue='' @ encode tok)"

definition continuation_of :: "(string \<times> json) list \<Rightarrow> kube_error + string option" where
  "continuation_of metadata =
     (case map_of metadata ''continue'' of
        None \<Rightarrow> Inr None
      | Some JNull \<Rightarrow> Inr None
      | Some (JStr value) \<Rightarrow>
          if value = [] then Inr None
          else if length value \<le> 4096 \<and> \<not> has_control value then Inr (Some value)
          else Inl KE_InvalidResponse
      | Some _ \<Rightarrow> Inl KE_InvalidResponse)"

text \<open>
  What the loop does with one page: an error, or a new state and whether the loop ends
  (\<open>break\<close>).
\<close>

definition list_advance :: "list_state \<Rightarrow> kube_error + list_state \<times> bool" where
  "list_advance st =
     (case ls_continuation st of
        None \<Rightarrow> Inr (st, True)
      | Some tok \<Rightarrow>
          if tok \<in> set (ls_seen st) then Inl KE_InvalidResponse
          else
            let st = st\<lparr>ls_seen := tok # ls_seen st\<rparr> in
            if max_pages \<le> ls_pages st then Inr (st\<lparr>ls_source_truncated := True\<rparr>, True)
            else Inr (st, False))"

definition list_page :: "list_state \<Rightarrow> nat \<Rightarrow> json \<Rightarrow> kube_error + list_state \<times> bool" where
  "list_page st requested wrapper =
     and_then (ok_or (opt_array (json_get wrapper ''items'')) KE_InvalidResponse) (\<lambda>page.
     and_then (ok_or (Option.bind (json_get wrapper ''metadata'') as_object) KE_InvalidResponse) (\<lambda>metadata.
       if requested < length page then Inl KE_InvalidResponse
       else
         and_then (continuation_of metadata) (\<lambda>continuation.
           list_advance (st\<lparr>ls_items := ls_items st @ take (max_inspected - length (ls_items st)) page,
             ls_continuation := continuation, ls_pages := ls_pages st + 1\<rparr>))))"

lemma list_advance_Inr:
  assumes "list_advance st = Inr (st', finished)"
  shows "ls_pages st' = ls_pages st" "ls_items st' = ls_items st"
    "\<not> finished \<Longrightarrow> ls_pages st' < max_pages \<and> ls_continuation st' \<noteq> None"
    "ls_source_truncated st' \<longleftrightarrow> ls_source_truncated st \<or> (ls_continuation st' \<noteq> None \<and> finished)"
  using assms by (auto simp: list_advance_def Let_def split: option.splits if_splits)

lemma list_page_Inr:
  assumes "list_page st requested wrapper = Inr (st', finished)"
  shows "ls_pages st' = Suc (ls_pages st)"
    "\<exists>page. length page \<le> requested \<and> ls_items st' = ls_items st @ take (max_inspected - length (ls_items st)) page"
    "\<not> finished \<Longrightarrow> ls_pages st' < max_pages \<and> ls_continuation st' \<noteq> None"
    "ls_source_truncated st' \<longleftrightarrow> ls_source_truncated st \<or> (ls_continuation st' \<noteq> None \<and> finished)"
proof -
  from assms obtain page metadata where
    body: "(if requested < length page then Inl KE_InvalidResponse
       else and_then (continuation_of metadata) (\<lambda>continuation.
           list_advance (st\<lparr>ls_items := ls_items st @ take (max_inspected - length (ls_items st)) page,
             ls_continuation := continuation, ls_pages := ls_pages st + 1\<rparr>))) = Inr (st', finished)"
    unfolding list_page_def and_then_Inr ok_or_Inr by blast
  then have page: "length page \<le> requested" by (auto split: if_splits)
  with body obtain c where
    adv: "list_advance (st\<lparr>ls_items := ls_items st @ take (max_inspected - length (ls_items st)) page,
             ls_continuation := c, ls_pages := ls_pages st + 1\<rparr>) = Inr (st', finished)"
    by (auto split: if_splits)
  note facts = list_advance_Inr [OF adv]
  show "\<exists>page. length page \<le> requested \<and> ls_items st' = ls_items st @ take (max_inspected - length (ls_items st)) page"
    using page facts by auto
  show "ls_pages st' = Suc (ls_pages st)" using facts by simp
  show "\<not> finished \<Longrightarrow> ls_pages st' < max_pages \<and> ls_continuation st' \<noteq> None" using facts by simp
  show "ls_source_truncated st' \<longleftrightarrow> ls_source_truncated st \<or> (ls_continuation st' \<noteq> None \<and> finished)"
    using facts by simp
qed

lemma list_page_continues:
  "list_page st requested wrapper = Inr (st', False) \<Longrightarrow>
     ls_pages st' = Suc (ls_pages st) \<and> ls_pages st' < max_pages"
  using list_page_Inr [of st requested wrapper st' False] by simp

function list_loop ::
  "json_parser \<Rightarrow> (string \<Rightarrow> string) \<Rightarrow> 's kubectl_run \<Rightarrow> string \<Rightarrow> string option \<Rightarrow> list_state \<Rightarrow> 's
     \<Rightarrow> (kube_error + list_state) \<times> 's" where
  "list_loop parse encode run base sel st s =
     (let remaining = max_inspected - length (ls_items st) in
      if remaining = 0 then
        (Inr (st\<lparr>ls_source_truncated := ls_continuation st \<noteq> None\<rparr>), s)
      else
        let requested = min remaining 100;
            path = list_path encode base sel requested (ls_continuation st)
        in case io_bind (raw_cancelled run path KOp_Query)
                  (\<lambda>bytes'. io_lift (and_then (parse_json parse bytes') (list_page st requested))) s of
             (Inl e, s') \<Rightarrow> (Inl e, s')
           | (Inr (st', True), s') \<Rightarrow> (Inr st', s')
           | (Inr (st', False), s') \<Rightarrow> list_loop parse encode run base sel st' s')"
  by pat_completeness auto
termination
  by (relation "measure (\<lambda>(_, _, _, _, _, st, _). max_pages - ls_pages st)")
    (auto simp: io_simps eq_commute [of "(Inr _, _)"]
      dest!: list_page_continues)

declare list_loop.simps [simp del]

definition sort_resources :: "resource list \<Rightarrow> resource list" where
  "sort_resources = sort_key (\<lambda>r. (rs_namespace r, rs_name r))"

text \<open>From the collected items to the result.\<close>

definition finish_list :: "resource_query \<Rightarrow> list_state \<Rightarrow> kube_error + resource_list" where
  "finish_list q st =
     and_then (collect_results (map (resource_of (rq_kind q)) (ls_items st))) (\<lambda>normalized.
       let inspected = length (ls_items st);
           normalized = sort_resources normalized;
           result_truncated = unat (rq_limit q) < length normalized;
           normalized = take (unat (rq_limit q)) normalized;
           (normalized, aggregate_truncated) =
             (if rq_kind q = RK_Event then bound_event_messages normalized else (normalized, False))
       in Inr \<lparr>rl_kind = rq_kind q, rl_items = normalized,
               rl_metadata = \<lparr>lm_pages = word_of_nat (ls_pages st),
                 lm_inspected = word_of_nat inspected,
                 lm_returned = word_of_nat (length normalized),
                 lm_source_truncated = ls_source_truncated st,
                 lm_result_truncated = result_truncated,
                 lm_aggregate_truncated = aggregate_truncated,
                 lm_truncated = ls_source_truncated st \<or> result_truncated \<or> aggregate_truncated\<rparr>\<rparr>)"

definition list_cancelled ::
  "json_parser \<Rightarrow> (string \<Rightarrow> string) \<Rightarrow> 's kubectl_run \<Rightarrow> resource_query
     \<Rightarrow> ('s, kube_error, resource_list) io" where
  "list_cancelled parse encode run q =
     io_bind (io_lift (object_path (rq_kind q) (rq_namespace q) None)) (\<lambda>base.
     io_bind (list_loop parse encode run base (selector (rq_labels q)) list_start) (\<lambda>st.
       io_lift (finish_list q st)))"

section \<open>Single resources\<close>

definition query_cancelled ::
  "json_parser \<Rightarrow> (string \<Rightarrow> string) \<Rightarrow> 's kubectl_run \<Rightarrow> resource_query
     \<Rightarrow> ('s, kube_error, query_result) io" where
  "query_cancelled parse encode run q =
     io_bind (io_guard (resource_query_is_valid q) KE_InvalidArguments) (\<lambda>_.
       case rq_name q of
         Some name \<Rightarrow>
           io_bind (io_lift (object_path (rq_kind q) (rq_namespace q) (Some name))) (\<lambda>path.
           io_bind (raw_cancelled run path KOp_Query) (\<lambda>bytes'.
             io_lift (and_then (parse_json parse bytes') (\<lambda>value.
               and_then (resource_of (rq_kind q) value) (\<lambda>resource.
                 if rs_name resource \<noteq> name \<or> rs_namespace resource \<noteq> rq_namespace q
                 then Inl KE_InvalidResponse
                 else Inr (QR_Resource resource))))))
       | None \<Rightarrow>
           io_bind (list_cancelled parse encode run q) (\<lambda>l. io_return (QR_Resources l)))"

section \<open>Pod logs\<close>

definition pod_has_container :: "json \<Rightarrow> string \<Rightarrow> bool" where
  "pod_has_container pod name \<longleftrightarrow>
     list_ex (\<lambda>container. opt_str (json_get container ''name'') = Some name)
       (concat (List.map_filter (\<lambda>pointer. opt_array (json_pointer pod pointer))
         [''/spec/initContainers'', ''/spec/containers'', ''/spec/ephemeralContainers'',
          ''/status/initContainerStatuses'', ''/status/containerStatuses'',
          ''/status/ephemeralContainerStatuses'']))"

definition pod_matches_log_query :: "json \<Rightarrow> pod_logs_query \<Rightarrow> bool" where
  "pod_matches_log_query pod q \<longleftrightarrow>
     opt_str (json_pointer pod ''/metadata/name'') = Some (plq_pod q)
     \<and> opt_str (json_pointer pod ''/metadata/namespace'') = Some (plq_namespace q)
     \<and> opt_str (json_pointer pod ''/metadata/uid'') = Some (plq_pod_uid q)
     \<and> pod_has_container pod (plq_container q)"

definition truncate_string_utf8 :: "string \<Rightarrow> nat \<Rightarrow> string \<times> bool" where
  "truncate_string_utf8 value maximum =
     (if length value \<le> maximum then (value, False)
      else (take (floor_char_boundary value maximum) value, True))"

definition log_path :: "pod_logs_query \<Rightarrow> string" where
  "log_path q =
     ''/api/v1/namespaces/'' @ plq_namespace q @ ''/pods/'' @ plq_pod q @ ''/log?container='' @ plq_container q
     @ ''&tailLines='' @ show_nat (unat (plq_tail_lines q))
     @ ''&limitBytes='' @ show_nat (unat (plq_max_bytes q)) @ ''&timestamps=true''
     @ (if plq_instance q = PreviousInstance then ''&previous=true'' else [])"

text \<open>The loop over the client's secrets, the longest first.\<close>

fun redact :: "string list \<Rightarrow> string \<Rightarrow> bool \<Rightarrow> string \<times> bool" where
  "redact [] text redacted = (text, redacted)"
| "redact (secret # secrets) text redacted =
     (if str_contains text secret
      then redact secrets (str_replace text secret redaction_mark) True
      else redact secrets text redacted)"

definition pod_logs_result :: "string \<Rightarrow> string list \<Rightarrow> pod_logs_query \<Rightarrow> string \<Rightarrow> pod_logs" where
  "pod_logs_result cluster_name redactions q bytes' =
     (let maximum = unat (plq_max_bytes q);
          byte_truncated = maximum \<le> length bytes';
          (text, redacted) = redact redactions (from_utf8_lossy bytes') False;
          (text, shortened) = truncate_string_utf8 text maximum;
          byte_truncated = byte_truncated \<or> shortened;
          line_count = length (str_lines text);
          tail_truncated = unat (plq_tail_lines q) \<le> line_count
      in \<lparr>pl_cluster = cluster_name, pl_namespace = plq_namespace q, pl_pod = plq_pod q,
          pl_pod_uid = plq_pod_uid q, pl_container = plq_container q,
          pl_instance = (if plq_instance q = PreviousInstance then ''previous'' else ''current''),
          pl_timestamps = True, pl_tail_lines = plq_tail_lines q, pl_max_bytes = plq_max_bytes q,
          pl_text = text, pl_line_count = word_of_nat (min line_count 65535),
          pl_tail_truncated = tail_truncated, pl_byte_truncated = byte_truncated,
          pl_redacted = redacted, pl_truncated = tail_truncated \<or> byte_truncated\<rparr>)"

definition check_pod ::
  "json_parser \<Rightarrow> 's kubectl_run \<Rightarrow> pod_logs_query \<Rightarrow> string \<Rightarrow> ('s, kube_error, unit) io" where
  "check_pod parse run q pod_path =
     io_bind (raw_cancelled run pod_path KOp_Query) (\<lambda>bytes'.
     io_bind (io_lift (parse_json parse bytes')) (\<lambda>pod.
       io_guard (pod_matches_log_query pod q) KE_NotFound))"

definition pod_logs_cancelled ::
  "json_parser \<Rightarrow> 's kubectl_run \<Rightarrow> string \<Rightarrow> string list \<Rightarrow> pod_logs_query
     \<Rightarrow> ('s, kube_error, query_result) io" where
  "pod_logs_cancelled parse run cluster_name redactions q =
     io_bind (io_guard (pod_logs_query_is_valid q) KE_InvalidArguments) (\<lambda>_.
     io_bind (io_lift (object_path RK_Pod (Some (plq_namespace q)) (Some (plq_pod q)))) (\<lambda>pod_path.
     io_bind (check_pod parse run q pod_path) (\<lambda>_.
     io_bind (raw_cancelled run (log_path q) KOp_Query) (\<lambda>bytes'.
     io_bind (check_pod parse run q pod_path) (\<lambda>_.
       io_return (QR_PodLogs (pod_logs_result cluster_name redactions q bytes')))))))"

section \<open>Mutations\<close>

definition quoted :: "string \<Rightarrow> string" where
  "quoted s = [CHR 0x22] @ s @ [CHR 0x22]"

definition base_mutation :: "string \<Rightarrow> string \<Rightarrow> bool \<Rightarrow> string list" where
  "base_mutation first second dry_run =
     [first, second] @ (if dry_run then [''--dry-run=server''] else []) @ [''--output=name'']"

definition restart_patch :: "string \<Rightarrow> string" where
  "restart_patch restarted_at =
     ''{'' @ quoted ''spec'' @ '':{'' @ quoted ''template'' @ '':{'' @ quoted ''metadata'' @ '':{''
     @ quoted ''annotations'' @ '':{'' @ quoted ''kubectl.kubernetes.io/restartedAt'' @ '':''
     @ quoted restarted_at @ ''}}}}}''"

definition trigger_suffix :: "u64 \<Rightarrow> u64 \<Rightarrow> string" where
  "trigger_suffix secs sequence =
     ''-manual-'' @ pad_zero 9 (show_nat (unat secs mod 1000000000))
     @ ''-'' @ pad_zero 4 (show_nat (unat sequence mod 10000))"

definition trigger_name :: "string \<Rightarrow> u64 \<Rightarrow> u64 \<Rightarrow> string" where
  "trigger_name name secs sequence =
     (let suffix = trigger_suffix secs sequence;
          prefix_len = 63 - length suffix;
          prefix = trim_end_matches [CHR ''-'', CHR ''.''] (take (min (length name) prefix_len) name)
      in prefix @ suffix)"

text \<open>
  The process arguments, the action, the namespace, the name and the dry-run flag, and the new
  value of \<open>TRIGGER_SEQUENCE\<close>.  The clock is read as an RFC 3339 timestamp and as the seconds
  since the epoch.
\<close>

fun mutation_arguments ::
  "string \<Rightarrow> u64 \<Rightarrow> u64 \<Rightarrow> kube_exec_command
     \<Rightarrow> (string list \<times> string \<times> string \<times> string \<times> bool) \<times> u64" where
  "mutation_arguments now secs sequence (KX_WorkloadRestart cluster kind namespace name dry_run) =
     (let args =
        (if dry_run then
           base_mutation ''patch'' (restart_kind_argument kind @ ''/'' @ name) True
           @ [''--namespace='' @ namespace, ''--type=merge'', ''--patch='' @ restart_patch now]
         else
           base_mutation ''rollout'' ''restart'' False
           @ [restart_kind_argument kind @ ''/'' @ name, ''--namespace='' @ namespace])
      in ((args, ''workload_restart'', namespace, name, dry_run), sequence))"
| "mutation_arguments now secs sequence (KX_WorkloadScale cluster kind namespace name replicas dry_run) =
     ((base_mutation ''scale'' (scalable_kind_argument kind @ ''/'' @ name) dry_run
       @ [''--namespace='' @ namespace, ''--replicas='' @ show_nat (unat replicas)],
       ''workload_scale'', namespace, name, dry_run), sequence)"
| "mutation_arguments now secs sequence (KX_CronjobSuspend cluster namespace name suspended dry_run) =
     ((base_mutation ''patch'' (''cronjob/'' @ name) dry_run
       @ [''--namespace='' @ namespace, ''--type=merge'',
          ''--patch={'' @ quoted ''spec'' @ '':{'' @ quoted ''suspend'' @ '':'' @ show_bool suspended @ ''}}''],
       ''cronjob_suspend'', namespace, name, dry_run), sequence)"
| "mutation_arguments now secs sequence (KX_CronjobTrigger cluster namespace name dry_run) =
     (let generated = trigger_name name secs sequence in
      ((base_mutation ''create'' ''job'' dry_run
        @ [generated, ''--from=cronjob/'' @ name, ''--namespace='' @ namespace],
        ''cronjob_trigger'', namespace, generated, dry_run), sequence + 1))"
| "mutation_arguments now secs sequence (KX_PodDelete cluster namespace name dry_run) =
     ((base_mutation ''delete'' (''pod/'' @ name) dry_run
       @ [''--namespace='' @ namespace, ''--wait=false''],
       ''pod_delete'', namespace, name, dry_run), sequence)"

text \<open>The state pairs the trigger sequence with the outside world.\<close>

definition execute_cancelled ::
  "'s kubectl_run \<Rightarrow> string \<Rightarrow> string \<Rightarrow> u64 \<Rightarrow> kube_exec_command
     \<Rightarrow> (u64 \<times> 's, kube_error, exec_result) io" where
  "execute_cancelled run cluster_name now secs command = (\<lambda>(sequence, s).
     (if \<not> kube_exec_is_valid command \<or> kube_exec_cluster command \<noteq> cluster_name
      then (Inl KE_MutationRejected, (sequence, s))
      else
        let ((arguments, action, namespace, name, dry_run), sequence') =
              mutation_arguments now secs sequence command
        in case run arguments KOp_Mutation s of
             (Inl e, s') \<Rightarrow> (Inl e, (sequence', s'))
           | (Inr _, s') \<Rightarrow>
               (Inr \<lparr>ex_status = (if dry_run then ''validated'' else ''accepted''),
                     ex_action = action, ex_namespace = namespace, ex_name = name,
                     ex_dry_run = dry_run\<rparr>, (sequence', s'))))"

section \<open>Laws of the paged list\<close>

text \<open>
  At the head of the loop fewer than five pages were read, of at most a hundred items each: the
  limit of 500 items is never reached there, so every request asks for a hundred.
\<close>

definition list_inv :: "list_state \<Rightarrow> bool" where
  "list_inv st \<longleftrightarrow> ls_pages st < 5 \<and> length (ls_items st) \<le> 100 * ls_pages st \<and> \<not> ls_source_truncated st"

lemma list_inv_start: "list_inv list_start"
  by (simp add: list_inv_def list_start_def)

lemma list_inv_request: "list_inv st \<Longrightarrow> min (max_inspected - length (ls_items st)) 100 = 100"
  by (auto simp: list_inv_def max_inspected_def min_def)

lemma list_page_inv:
  assumes "list_page st 100 wrapper = Inr (st', finished)" "list_inv st"
  shows "length (ls_items st') \<le> 100 * ls_pages st'" "ls_pages st' \<le> 5"
    "\<not> finished \<Longrightarrow> list_inv st'"
    "finished \<Longrightarrow> ls_source_truncated st' \<longleftrightarrow> ls_continuation st' \<noteq> None"
  using list_page_Inr [OF assms(1)] assms(2) by (auto simp: list_inv_def max_pages_def)

text \<open>One round of the loop, without its dead branch.\<close>

lemma list_loop_round:
  assumes "list_inv st"
  shows "list_loop parse encode run base sel st s =
     (case io_bind (raw_cancelled run (list_path encode base sel 100 (ls_continuation st)) KOp_Query)
             (\<lambda>bytes'. io_lift (and_then (parse_json parse bytes') (list_page st 100))) s of
        (Inl e, s') \<Rightarrow> (Inl e, s')
      | (Inr (st', True), s') \<Rightarrow> (Inr st', s')
      | (Inr (st', False), s') \<Rightarrow> list_loop parse encode run base sel st' s')"
  using assms list_inv_request [OF assms]
  by (subst list_loop.simps) (simp add: Let_def list_inv_def max_inspected_def)

lemma list_loop_result:
  "list_inv st \<Longrightarrow> list_loop parse encode run base sel st s = (Inr st', s') \<Longrightarrow>
     ls_pages st' \<le> 5 \<and> length (ls_items st') \<le> 500
     \<and> (ls_source_truncated st' \<longleftrightarrow> ls_continuation st' \<noteq> None)"
proof (induction "max_pages - ls_pages st" arbitrary: st s rule: less_induct)
  case less
  let ?round = "io_bind (raw_cancelled run (list_path encode base sel 100 (ls_continuation st)) KOp_Query)
      (\<lambda>bytes'. io_lift (and_then (parse_json parse bytes') (list_page st 100))) s"
  from less.prems(2) obtain st1 finished s1 where r: "?round = (Inr (st1, finished), s1)"
    and rest: "if finished then st' = st1 else list_loop parse encode run base sel st1 s1 = (Inr st', s')"
    unfolding list_loop_round [OF less.prems(1)]
    by (auto split: prod.splits sum.splits bool.splits)
  from r obtain w where page: "list_page st 100 w = Inr (st1, finished)"
    by (auto simp: io_simps)
  note inv = list_page_inv [OF page less.prems(1)]
  show ?case
  proof (cases finished)
    case True
    with rest inv show ?thesis by auto
  next
    case False
    with inv have "list_inv st1" by simp
    moreover have "max_pages - ls_pages st1 < max_pages - ls_pages st"
      using list_page_Inr(1,3) [OF page] False by (simp add: diff_less_mono2)
    ultimately show ?thesis using less.hyps rest False by auto
  qed
qed

text \<open>The same computation with a counter of the processes it runs.\<close>

definition counted :: "'s kubectl_run \<Rightarrow> (nat \<times> 's) kubectl_run" where
  "counted run args op = (\<lambda>(n, s). let (r, s') = run args op s in (r, (Suc n, s')))"

lemma counted_eq:
  "(counted run args op (n, s) = (r, (n', s'))) \<longleftrightarrow> run args op s = (r, s') \<and> n' = Suc n"
  by (auto simp: counted_def split: prod.splits)

section \<open>Laws of the operations\<close>

definition list_order :: "resource \<Rightarrow> string option \<times> string" where
  "list_order r = (rs_namespace r, rs_name r)"

text \<open>What \<open>resource_of\<close> guarantees of the identity of a resource, which bounding keeps.\<close>

definition resource_identified :: "resource_kind \<Rightarrow> resource \<Rightarrow> bool" where
  "resource_identified k r \<longleftrightarrow> rs_kind r = k \<and> valid_object_name (rs_name r)
     \<and> (case rs_namespace r of None \<Rightarrow> \<not> kind_namespaced k | Some n \<Rightarrow> kind_namespaced k \<and> valid_namespace n)"

lemma resource_of_identified:
  assumes "resource_of k v = Inr r"
  shows "resource_identified k r" "bt_ok (rs_details r)"
proof -
  obtain metadata d t where d: "resource_details k v = (d, t)"
    and name: "valid_object_name (rs_name r)"
    and scope: "resource_scope k (opt_str (json_get metadata ''namespace'')) = Inr (rs_namespace r)"
    and r: "rs_kind r = k" "rs_details r = d"
  proof (rule resource_of_Inr [OF assms], goal_cases)
    case (1 metadata d t)
    note facts = 1
    have "rs_kind r = k" "rs_details r = d" by (subst facts(8), simp)+
    with facts show ?case by blast
  qed
  from name scope r show "resource_identified k r"
    by (auto simp: resource_identified_def resource_scope_Inr split: option.splits if_splits)
  from d r show "bt_ok (rs_details r)"
    using resource_details_ok [of k v] by (simp add: details_ok_def)
qed

lemma shortened_identity:
  "shortened r r' \<Longrightarrow> list_order r' = list_order r \<and> (resource_identified k r' \<longleftrightarrow> resource_identified k r)"
  by (auto simp: shortened_def list_order_def resource_identified_def)

lemma shortened_list_identity:
  "list_all2 shortened rs rs' \<Longrightarrow> map list_order rs' = map list_order rs
     \<and> (list_all (resource_identified k) rs' \<longleftrightarrow> list_all (resource_identified k) rs)"
  by (induction rs rs' rule: list_all2_induct) (auto dest: shortened_identity)

lemma sort_resources_sorted: "sorted (map list_order (sort_resources rs))"
  by (simp add: sort_resources_def list_order_def [abs_def])

lemma finish_list_Inr:
  assumes "finish_list q st = Inr l"
  obtains all shown cutoff where
    "map (resource_of (rq_kind q)) (ls_items st) = map Inr all"
    "shown = take (unat (rq_limit q)) (sort_resources all)"
    "(rl_items l, cutoff) = (if rq_kind q = RK_Event then bound_event_messages shown else (shown, False))"
    "rl_kind l = rq_kind q"
    "rl_metadata l = \<lparr>lm_pages = word_of_nat (ls_pages st), lm_inspected = word_of_nat (length (ls_items st)),
       lm_returned = word_of_nat (length (rl_items l)), lm_source_truncated = ls_source_truncated st,
       lm_result_truncated = (unat (rq_limit q) < length all), lm_aggregate_truncated = cutoff,
       lm_truncated = (ls_source_truncated st \<or> unat (rq_limit q) < length all \<or> cutoff)\<rparr>"
proof -
  from assms obtain all where "map (resource_of (rq_kind q)) (ls_items st) = map Inr all"
    by (auto simp: finish_list_def collect_results_Inr)
  moreover from this have "collect_results (map (resource_of (rq_kind q)) (ls_items st)) = Inr all"
    by (simp add: collect_results_Inr)
  with assms show thesis
    by (auto simp: finish_list_def Let_def sort_resources_def split: prod.splits intro!: that calculation)
qed

lemma finish_list_wellformed:
  assumes "finish_list q st = Inr l"
  shows "length (rl_items l) \<le> unat (rq_limit q)"
    "sorted (map list_order (rl_items l))"
    "list_all (resource_identified (rq_kind q)) (rl_items l)"
    "rq_kind q = RK_Event \<Longrightarrow> sum_list (map message_bytes (rl_items l)) \<le> 32768"
proof -
  obtain all shown cutoff where
    all: "map (resource_of (rq_kind q)) (ls_items st) = map Inr all"
    and shown: "shown = take (unat (rq_limit q)) (sort_resources all)"
    and items: "(rl_items l, cutoff) = (if rq_kind q = RK_Event then bound_event_messages shown else (shown, False))"
    using assms by (rule finish_list_Inr)
  have each: "resource_identified (rq_kind q) r \<and> bt_ok (rs_details r)" if "r \<in> set all" for r
  proof -
    from that have "Inr r \<in> set (map (resource_of (rq_kind q)) (ls_items st))" by (simp add: all)
    then show ?thesis using resource_of_identified by (metis image_iff list.set_map)
  qed
  have sub: "set shown \<subseteq> set all"
    using set_take_subset by (fastforce simp: shown sort_resources_def)
  then have shown_ok: "list_all (resource_identified (rq_kind q)) shown"
    "\<forall>r\<in>set shown. bt_ok (rs_details r)"
    using each by (auto simp: list_all_iff)
  have sorted: "sorted (map list_order shown)"
    unfolding shown take_map [symmetric] using sort_resources_sorted by (rule sorted_wrt_take)
  have len: "length shown \<le> unat (rq_limit q)" by (simp add: shown)
  have "length (rl_items l) = length shown \<and> map list_order (rl_items l) = map list_order shown
    \<and> list_all (resource_identified (rq_kind q)) (rl_items l)
    \<and> (rq_kind q = RK_Event \<longrightarrow> sum_list (map message_bytes (rl_items l)) \<le> 32768)"
  proof (cases "rq_kind q = RK_Event")
    case True
    with items have "bound_event_messages shown = (rl_items l, cutoff)" by simp
    then have "bound_messages 32768 shown = (rl_items l, cutoff)" by (simp add: bound_event_messages_def)
    note spec = bound_messages_spec [OF this shown_ok(2)]
    then have "list_all2 shortened shown (rl_items l)" by simp
    then have "length (rl_items l) = length shown" "map list_order (rl_items l) = map list_order shown"
      "list_all (resource_identified (rq_kind q)) (rl_items l)"
      using shortened_list_identity [of shown "rl_items l" "rq_kind q"] shown_ok(1)
      by (simp_all add: list_all2_lengthD)
    with spec show ?thesis by simp
  qed (use items shown_ok in auto)
  with len sorted show "length (rl_items l) \<le> unat (rq_limit q)" "sorted (map list_order (rl_items l))"
    "list_all (resource_identified (rq_kind q)) (rl_items l)"
    "rq_kind q = RK_Event \<Longrightarrow> sum_list (map message_bytes (rl_items l)) \<le> 32768"
    by simp_all
qed

lemma list_cancelled_Inr:
  "(list_cancelled parse encode run q s = (Inr l, s')) \<longleftrightarrow>
     (\<exists>base st. object_path (rq_kind q) (rq_namespace q) None = Inr base
        \<and> list_loop parse encode run base (selector (rq_labels q)) list_start s = (Inr st, s')
        \<and> finish_list q st = Inr l)"
  by (auto simp: list_cancelled_def io_simps)

section \<open>Redaction\<close>

lemma redact_keeps_absent:
  "redactable q \<Longrightarrow> \<not> str_contains text q \<Longrightarrow> \<forall>s\<in>set secrets. s \<noteq> [] \<Longrightarrow>
     \<not> str_contains (fst (redact secrets text redacted)) q"
proof (induction secrets "text" redacted rule: redact.induct)
  case (2 secret secrets doc redacted)
  then show ?case using str_replace_redacts [of doc secret q] by auto
qed simp

lemma redact_removes:
  "redactable q \<Longrightarrow> q \<in> set secrets \<Longrightarrow> \<forall>s\<in>set secrets. s \<noteq> [] \<Longrightarrow>
     \<not> str_contains (fst (redact secrets text redacted)) q"
proof (induction secrets "text" redacted rule: redact.induct)
  case (2 secret secrets doc redacted)
  show ?case
  proof (cases "q = secret")
    case True
    with 2 have "\<not> str_contains (if str_contains doc secret then str_replace doc secret redaction_mark else doc) q"
      using str_replace_redacts [of doc secret q] by auto
    with redact_keeps_absent [of q _ secrets] 2(3,5) show ?thesis by auto
  qed (use 2 in auto)
qed simp

lemma truncate_string_utf8_eq:
  "truncate_string_utf8 s n = (truncate_utf8 s n, n < length s)"
  by (auto simp: truncate_string_utf8_def truncate_utf8_def)

lemma pod_logs_text:
  "pl_text (pod_logs_result cluster_name redactions q bytes') =
     truncate_utf8 (fst (redact redactions (from_utf8_lossy bytes') False)) (unat (plq_max_bytes q))"
  by (simp add: pod_logs_result_def Let_def truncate_string_utf8_eq split: prod.splits)

lemma pod_logs_redacted:
  assumes "redactable secret" "secret \<in> set redactions" "\<forall>s\<in>set redactions. s \<noteq> []"
  shows "\<not> str_contains (pl_text (pod_logs_result cluster_name redactions q bytes')) secret"
  unfolding pod_logs_text
  using redact_removes [OF assms] truncate_utf8_prefix str_contains_take by metis

section \<open>Generated job names\<close>

lemma length_trigger_numbers:
  "length (pad_zero 9 (show_nat (n mod 1000000000))) = 9"
  "length (pad_zero 4 (show_nat (n mod 10000))) = 4"
  using length_show_nat_le [of "n mod 1000000000" 8] length_show_nat_le [of "n mod 10000" 3]
  by (simp_all add: length_pad_zero)

lemma length_trigger_suffix: "length (trigger_suffix secs sequence) = 22"
  by (simp add: trigger_suffix_def length_trigger_numbers)

lemma all_digits_dns: "all_digits s \<Longrightarrow> c \<in> set s \<Longrightarrow> dns_byte c"
  by (auto simp: all_digits_def list_all_iff dns_byte_def)

lemma trigger_suffix_bytes: "c \<in> set (trigger_suffix secs sequence) \<Longrightarrow> dns_byte c"
proof -
  assume "c \<in> set (trigger_suffix secs sequence)"
  then consider "c \<in> set ''-manual-''" | "c \<in> set (pad_zero 9 (show_nat (unat secs mod 1000000000)))"
    | "c \<in> set (pad_zero 4 (show_nat (unat sequence mod 10000)))"
    by (auto simp: trigger_suffix_def)
  then show ?thesis
  proof cases
    case 1
    then show ?thesis by (auto simp: dns_byte_def ascii_defs)
  qed (simp_all add: all_digits_dns [OF all_digits_pad_zero [OF all_digits_show_nat]])
qed

lemma all_digits_last: "all_digits s \<Longrightarrow> s \<noteq> [] \<Longrightarrow> ascii_alphanumeric (of_char (last s))"
  by (auto simp: all_digits_def list_all_iff ascii_defs)

lemma trigger_suffix_last:
  "trigger_suffix secs sequence \<noteq> []" "ascii_alphanumeric (of_char (last (trigger_suffix secs sequence)))"
proof -
  have "pad_zero 4 (show_nat (unat sequence mod 10000)) \<noteq> []"
    using length_trigger_numbers(2) by (metis list.size(3) zero_neq_numeral)
  then show "ascii_alphanumeric (of_char (last (trigger_suffix secs sequence)))"
    by (simp add: trigger_suffix_def all_digits_last all_digits_pad_zero)
qed (simp add: trigger_suffix_def)

lemma split_char_append:
  "split_char d (a @ b) =
     butlast (split_char d a) @ [last (split_char d a) @ hd (split_char d b)] @ tl (split_char d b)"
proof (induction a)
  case Nil
  show ?case by (simp add: hd_Cons_tl)
next
  case (Cons c cs)
  obtain w ws where w: "split_char d cs = w # ws"
    using split_char_nonempty [of d cs] by (cases "split_char d cs") auto
  obtain x xs where x: "split_char d (cs @ b) = x # xs"
    using split_char_nonempty [of d "cs @ b"] by (cases "split_char d (cs @ b)") auto
  from Cons.IH w x show ?case by (cases ws) auto
qed

lemma last_split_char_Nil: "last (split_char d s) = [] \<Longrightarrow> s \<noteq> [] \<Longrightarrow> last s = d"
proof (induction s)
  case (Cons c cs)
  obtain w ws where "split_char d cs = w # ws"
    using split_char_nonempty [of d cs] by (cases "split_char d cs") auto
  with Cons show ?case by (cases cs; cases ws) (auto split: if_splits)
qed simp

text \<open>Putting a suffix behind a non-empty start of a DNS name that does not end in a dot.\<close>

lemma valid_dns_subdomain_with_suffix:
  assumes valid: "valid_dns_subdomain (p @ rest) n"
    and p: "p \<noteq> []" "last p \<noteq> CHR ''.''"
    and suffix: "\<forall>c\<in>set sfx. dns_byte c" "sfx \<noteq> []" "ascii_alphanumeric (of_char (last sfx))"
    and len: "length p + length sfx \<le> 63"
  shows "valid_dns_subdomain (p @ sfx) 63"
proof -
  let ?split = "split_char (CHR ''.'')"
  let ?l = "last (?split p)"
  have labels: "list_all valid_dns_label (?split (p @ rest))"
    using valid by (simp add: valid_dns_subdomain_def)
  then have before: "list_all valid_dns_label (butlast (?split p))"
    and label: "valid_dns_label (?l @ hd (?split rest))"
    by (simp_all add: split_char_append)
  have l: "?l \<noteq> []" using last_split_char_Nil p by blast
  have "length ?l \<le> length p" by (rule split_char_length [of _ "CHR ''.''"]) simp
  then have "valid_dns_label (?l @ sfx)"
    using label l suffix len by (auto simp: valid_dns_label_iff)
  moreover have "CHR ''.'' \<notin> set sfx" using suffix(1) not_dns_byte_dot by blast
  ultimately have "list_all valid_dns_label (?split (p @ sfx))"
    using before by (simp add: split_char_append split_char_single)
  with p len show ?thesis by (simp add: valid_dns_subdomain_def)
qed

lemma trigger_name_split:
  assumes "valid_object_name name"
  obtains p rest where "name = p @ rest" "p \<noteq> []" "last p \<noteq> CHR ''.''" "length p \<le> 41"
    "trigger_name name secs sequence = p @ trigger_suffix secs sequence"
proof -
  let ?c = "take (min (length name) 41) name"
  let ?p = "trim_end_matches [CHR ''-'', CHR ''.''] ?c"
  obtain v where v: "?c = ?p @ v" "set v \<subseteq> {CHR ''-'', CHR ''.''}"
    using trim_end_matches_prefix [of ?c "[CHR ''-'', CHR ''.'']"] by auto
  have hd: "name \<noteq> []" "ascii_alphanumeric (of_char (hd name))"
    using assms valid_dns_subdomain_hd by (simp_all add: valid_object_name_def)
  have "?p \<noteq> []"
  proof
    assume "?p = []"
    with v hd(1) have "hd name \<in> {CHR ''-'', CHR ''.''}"
      by (cases name) auto
    with hd(2) show False by (auto simp: ascii_defs)
  qed
  moreover from this have "last ?p \<noteq> CHR ''.''" using trim_end_matches_last by fastforce
  moreover have "name = ?p @ (v @ drop (min (length name) 41) name)"
    using v(1) by (metis append.assoc append_take_drop_id)
  moreover have "length ?p \<le> 41"
    using arg_cong [OF v(1), of length] by simp
  moreover have "trigger_name name secs sequence = ?p @ trigger_suffix secs sequence"
    by (simp add: trigger_name_def length_trigger_suffix)
  ultimately show thesis using that by blast
qed

lemma trigger_name_valid:
  assumes "valid_object_name name"
  shows "valid_object_name (trigger_name name secs sequence)" "length (trigger_name name secs sequence) \<le> 63"
proof -
  obtain p rest where n: "name = p @ rest" "p \<noteq> []" "last p \<noteq> CHR ''.''" "length p \<le> 41"
    and t: "trigger_name name secs sequence = p @ trigger_suffix secs sequence"
    using trigger_name_split [OF assms] by blast
  have "valid_dns_subdomain (p @ trigger_suffix secs sequence) 63"
    using assms n trigger_suffix_last
    by (intro valid_dns_subdomain_with_suffix [where rest = rest and n = 253])
      (auto simp: valid_object_name_def trigger_suffix_bytes length_trigger_suffix)
  then show "valid_object_name (trigger_name name secs sequence)"
    by (simp add: t valid_object_name_def valid_dns_subdomain_def)
  show "length (trigger_name name secs sequence) \<le> 63"
    using n(4) by (simp add: t length_trigger_suffix)
qed

lemma trigger_suffix_inj:
  assumes "trigger_suffix secs sequence = trigger_suffix secs' sequence'"
  shows "unat secs mod 1000000000 = unat secs' mod 1000000000 \<and> unat sequence mod 10000 = unat sequence' mod 10000"
proof -
  have "pad_zero 9 (show_nat (unat secs mod 1000000000)) = pad_zero 9 (show_nat (unat secs' mod 1000000000))
    \<and> pad_zero 4 (show_nat (unat sequence mod 10000)) = pad_zero 4 (show_nat (unat sequence' mod 10000))"
    using assms by (simp add: trigger_suffix_def append_eq_append_conv length_trigger_numbers)
  then show ?thesis by (metis parse_digits_pad_zero parse_digits_show_nat)
qed

text \<open>
  The job a cron-job trigger creates has a valid Kubernetes object name of at most 63
  characters, whatever the name of the cron job, the time and the trigger sequence; and two
  triggers produce the same name only if they agree on the second (modulo 10^9) and on the
  trigger sequence (modulo 10^4).
\<close>

theorem trigger_name_valid_and_unique:
  assumes "valid_object_name name" "valid_object_name name'"
  shows "valid_object_name (trigger_name name secs sequence)
    \<and> length (trigger_name name secs sequence) \<le> 63
    \<and> (trigger_name name secs sequence = trigger_name name' secs' sequence' \<longrightarrow>
         unat secs mod 1000000000 = unat secs' mod 1000000000
         \<and> unat sequence mod 10000 = unat sequence' mod 10000)"
proof (intro conjI impI trigger_name_valid assms(1))
  assume eq: "trigger_name name secs sequence = trigger_name name' secs' sequence'"
  obtain p p' where "trigger_name name secs sequence = p @ trigger_suffix secs sequence"
    "trigger_name name' secs' sequence' = p' @ trigger_suffix secs' sequence'"
    using trigger_name_split assms by metis
  with eq have "trigger_suffix secs sequence = trigger_suffix secs' sequence'"
    by (metis append_eq_append_conv length_trigger_suffix)
  from trigger_suffix_inj [OF this]
  show "unat secs mod 1000000000 = unat secs' mod 1000000000"
    "unat sequence mod 10000 = unat sequence' mod 10000" by simp_all
qed

theorem trigger_name_valid_and_unique_witness:
  "valid_object_name (trigger_name ''nightly.backup'' 5 7) \<and> length (trigger_name ''nightly.backup'' 5 7) \<le> 63
   \<and> trigger_name ''nightly.backup'' 5 7 \<noteq> trigger_name ''nightly.backup'' 5 8"
proof -
  have v: "valid_object_name ''nightly.backup''"
    by (simp add: valid_object_name_def valid_dns_subdomain_def valid_dns_label_iff dns_byte_code ascii_defs)
  show ?thesis
    using trigger_name_valid_and_unique [OF v v, of 5 7] trigger_name_valid_and_unique [OF v v, of 5 7 5 8]
    by auto
qed

section \<open>Command lines\<close>

text \<open>The options a mutation's command line may carry, given its namespace.\<close>

definition known_flag :: "string \<Rightarrow> string \<Rightarrow> bool" where
  "known_flag namespace a \<longleftrightarrow>
     a \<in> {''--dry-run=server'', ''--output=name'', ''--wait=false'', ''--type=merge'', ''--namespace='' @ namespace}
     \<or> starts_with a ''--replicas='' \<or> starts_with a ''--patch='' \<or> starts_with a ''--from=cronjob/''"

lemma base_mutation_set:
  "set (base_mutation a b d) = {a, b, ''--output=name''} \<union> (if d then {''--dry-run=server''} else {})"
  by (auto simp: base_mutation_def)

lemma starts_with_Cons [simp]: "starts_with (c # s) (d # p) \<longleftrightarrow> c = d \<and> starts_with s p"
  by (auto simp: starts_with_def)

lemma starts_with_kind [simp]:
  "\<not> starts_with (restart_kind_argument k @ v) ''-''" "\<not> starts_with (scalable_kind_argument j @ v) ''-''"
  by (cases k; simp) (cases j; simp)

lemma kind_not_flag:
  "restart_kind_argument k @ v \<noteq> CHR ''-'' # w" "scalable_kind_argument j @ v \<noteq> CHR ''-'' # w"
  by (cases k; simp) (cases j; simp)

lemma valid_object_name_not_flag:
  assumes "valid_object_name n"
  shows "\<not> starts_with n ''-''" "n \<noteq> CHR ''-'' # w"
proof -
  show "\<not> starts_with n ''-''" using valid_object_name_inert [OF assms] by (simp add: inert_in_path_def)
  then show "n \<noteq> CHR ''-'' # w" by auto
qed

lemma mutation_arguments_shape:
  assumes "kube_exec_is_valid c"
    and "mutation_arguments now secs sequence c = ((args, action, namespace, name, dry_run), sequence')"
  shows "(''--dry-run=server'' \<in> set args \<longleftrightarrow> dry_run)
    \<and> ''--namespace='' @ namespace \<in> set args
    \<and> valid_namespace namespace \<and> valid_object_name name
    \<and> (\<forall>a\<in>set args. starts_with a ''-'' \<longrightarrow> known_flag namespace a)"
proof (cases c)
  case (KX_WorkloadRestart cluster k ns n d)
  have facts: "valid_namespace namespace" "valid_object_name name" "dry_run = d"
    and args: "args = (if d then base_mutation ''patch'' (restart_kind_argument k @ ''/'' @ name) True
           @ [''--namespace='' @ namespace, ''--type=merge'', ''--patch='' @ restart_patch now]
         else base_mutation ''rollout'' ''restart'' False
           @ [restart_kind_argument k @ ''/'' @ name, ''--namespace='' @ namespace])"
    using assms unfolding KX_WorkloadRestart
    by (auto simp: kube_exec_is_valid_def valid_pair_def Let_def)
  show ?thesis
    using facts(1,2) unfolding args facts(3)
    by (cases d) (simp_all add: base_mutation_set known_flag_def kind_not_flag kind_not_flag [symmetric])
next
  case (KX_WorkloadScale cluster k ns n r d)
  with assms have "valid_namespace namespace" "valid_object_name name"
    "args = base_mutation ''scale'' (scalable_kind_argument k @ ''/'' @ name) dry_run
       @ [''--namespace='' @ namespace, ''--replicas='' @ show_nat (unat r)]"
    by (auto simp: kube_exec_is_valid_def valid_pair_def)
  then show ?thesis by (simp add: base_mutation_set known_flag_def kind_not_flag kind_not_flag [symmetric])
next
  case (KX_CronjobSuspend cluster ns n b d)
  with assms have "valid_namespace namespace" "valid_object_name name"
    "args = base_mutation ''patch'' (''cronjob/'' @ name) dry_run
       @ [''--namespace='' @ namespace, ''--type=merge'',
          ''--patch={'' @ quoted ''spec'' @ '':{'' @ quoted ''suspend'' @ '':'' @ show_bool b @ ''}}'']"
    by (auto simp: kube_exec_is_valid_def valid_pair_def)
  then show ?thesis by (simp add: base_mutation_set known_flag_def)
next
  case (KX_CronjobTrigger cluster ns n d)
  with assms have v: "valid_object_name n" by (simp add: kube_exec_is_valid_def valid_pair_def)
  note t = trigger_name_valid(1) [OF v, of secs sequence]
  define g where "g = trigger_name n secs sequence"
  have args: "args = base_mutation ''create'' ''job'' d @ [g, ''--from=cronjob/'' @ n, ''--namespace='' @ ns]"
    "namespace = ns" "name = g" "dry_run = d" "valid_namespace ns"
    using KX_CronjobTrigger assms
    by (auto simp: Let_def g_def kube_exec_is_valid_def valid_pair_def)
  have g: "valid_object_name g" "\<not> starts_with g ''-''"
    using t valid_object_name_not_flag(1) by (simp_all add: g_def)
  then have "g \<noteq> ''--dry-run=server''" by auto
  with args(5) g show ?thesis
    unfolding args(1-4) by (simp add: base_mutation_set known_flag_def)
next
  case (KX_PodDelete cluster ns n d)
  with assms have "valid_namespace namespace" "valid_object_name name"
    "args = base_mutation ''delete'' (''pod/'' @ name) dry_run @ [''--namespace='' @ namespace, ''--wait=false'']"
    by (auto simp: kube_exec_is_valid_def valid_pair_def)
  then show ?thesis by (simp add: base_mutation_set known_flag_def)
qed

section \<open>Properties of the reads\<close>

definition empty_list :: json where
  "empty_list = JObj [(''items'', JArr []), (''metadata'', JObj [])]"

definition quiet_run :: "unit kubectl_run" where
  "quiet_run args op s = (Inr ''{}'', s)"

definition sample_query :: resource_query where
  "sample_query = \<lparr>rq_kind = RK_Node, rq_namespace = None, rq_name = None, rq_labels = [], rq_limit = 50\<rparr>"

lemma empty_page:
  "list_page list_start 100 empty_list = Inr (list_start\<lparr>ls_pages := 1\<rparr>, True)"
  by (simp add: list_page_def empty_list_def opt_array_def continuation_of_def list_advance_def
      list_start_def)

lemma empty_loop:
  assumes "run [''get'', ''--raw='' @ list_path id base sel 100 None] KOp_Query s = (Inr b, s')"
  shows "list_loop (\<lambda>_. Some empty_list) id run base sel list_start s = (Inr (list_start\<lparr>ls_pages := 1\<rparr>), s')"
proof -
  have "ls_continuation list_start = None" by (simp add: list_start_def)
  with assms show ?thesis
    by (simp add: list_loop_round [OF list_inv_start] io_bind_def raw_cancelled_def io_lift_def
        parse_json_def empty_page)
qed

lemma empty_finish: "\<exists>l. finish_list sample_query (list_start\<lparr>ls_pages := 1\<rparr>) = Inr l"
  by (simp add: finish_list_def sample_query_def list_start_def Let_def)

lemma empty_list_cancelled:
  assumes "\<And>p. run [''get'', ''--raw='' @ p] KOp_Query s = (Inr b, s')"
  shows "\<exists>l. list_cancelled (\<lambda>_. Some empty_list) id run sample_query s = (Inr l, s')"
proof -
  have "object_path (rq_kind sample_query) (rq_namespace sample_query) None = Inr ''/api/v1/nodes''"
    by (simp add: sample_query_def object_path_def kind_namespaced_def)
  moreover obtain l where "finish_list sample_query (list_start\<lparr>ls_pages := 1\<rparr>) = Inr l"
    using empty_finish by blast
  ultimately show ?thesis
    unfolding list_cancelled_Inr using empty_loop [of run _ _ s b s', OF assms] by blast
qed

lemma sample_list: "\<exists>l. list_cancelled (\<lambda>_. Some empty_list) id quiet_run sample_query () = (Inr l, ())"
  by (rule empty_list_cancelled) (simp add: quiet_run_def)

section \<open>Error discipline\<close>

definition read_error :: "kube_error \<Rightarrow> bool" where
  "read_error e \<longleftrightarrow> e \<noteq> KE_MutationOutcomeUnknown \<and> e \<noteq> KE_MutationRejected"

lemma object_path_error: "object_path k ns n = Inl e \<Longrightarrow> read_error e"
  by (auto simp: object_path_def read_error_def Let_def split: prod.splits if_splits)

lemma discovered_error: "discovered seen rs = Inl e \<Longrightarrow> e = KE_InvalidResponse"
  by (induction seen rs rule: discovered.induct) (auto simp: and_then_Inl split: if_splits)

lemma parse_discovery_error: "parse_discovery parse b v = Inl e \<Longrightarrow> e = KE_InvalidResponse"
  by (auto simp: parse_discovery_def parse_json_def and_then_Inl split: if_splits dest: discovered_error)

lemma continuation_of_error: "continuation_of m = Inl e \<Longrightarrow> e = KE_InvalidResponse"
  by (auto simp: continuation_of_def split: option.splits json.splits if_splits)

lemma list_advance_error: "list_advance st = Inl e \<Longrightarrow> e = KE_InvalidResponse"
  by (auto simp: list_advance_def Let_def split: option.splits if_splits)

lemma list_page_error: "list_page st n w = Inl e \<Longrightarrow> e = KE_InvalidResponse"
  by (auto simp: list_page_def and_then_Inl split: if_splits
      dest: continuation_of_error list_advance_error)

lemma map_sum_Inl: "(map_sum id f r = Inl e) \<longleftrightarrow> r = Inl e"
  by (cases r) auto

lemma resource_of_error: "resource_of k v = Inl e \<Longrightarrow> e = KE_InvalidResponse"
  by (auto simp: resource_of_def and_then_Inl resource_scope_def resource_uid_def map_sum_Inl
      split: prod.splits if_splits)

lemma finish_list_error: "finish_list q st = Inl e \<Longrightarrow> e = KE_InvalidResponse"
proof -
  assume "finish_list q st = Inl e"
  then have "collect_results (map (resource_of (rq_kind q)) (ls_items st)) = Inl e"
    by (auto simp: finish_list_def and_then_Inl Let_def split: prod.splits)
  then have "Inl e \<in> set (map (resource_of (rq_kind q)) (ls_items st))"
    by (rule collect_results_Inl)
  then show ?thesis by (auto dest: resource_of_error [OF sym])
qed

lemma read_error_simps [simp]:
  "read_error KE_InvalidResponse" "read_error KE_InvalidArguments" "read_error KE_NotFound"
  by (simp_all add: read_error_def)

lemma pure_read_errors:
  "discovered seen rs = Inl e \<Longrightarrow> read_error e" "parse_discovery parse b v = Inl e \<Longrightarrow> read_error e"
  "parse_json parse b = Inl e \<Longrightarrow> read_error e"
  "list_page st n w = Inl e \<Longrightarrow> read_error e" "resource_of k j = Inl e \<Longrightarrow> read_error e"
  "finish_list q st = Inl e \<Longrightarrow> read_error e" "object_path k ns name = Inl e \<Longrightarrow> read_error e"
  using discovered_error parse_discovery_error list_page_error resource_of_error finish_list_error
    object_path_error by (fastforce simp: parse_json_def)+

context kubectl
begin

lemma raw_error [io_errors]: "errors_in read_error (raw_cancelled run path KOp_Query)"
  using query_error by (auto intro!: errors_inI simp: raw_cancelled_def read_error_def)

lemma discover_error [io_errors]: "errors_in read_error (discover parse run kind)"
proof (rule errors_inI)
  fix s e s'
  assume "discover parse run kind s = (Inl e, s')"
  then show "read_error e"
    using errors_inD [OF raw_error]
    by (auto simp: discover_def map_sum_Inl split: prod.splits sum.splits if_splits
        dest: pure_read_errors(2))
qed

lemma capability_loop_error [io_errors]:
  "errors_in read_error (capability_loop parse run kinds endpoints pages caps)"
  by (induction kinds arbitrary: endpoints pages caps)
    (auto intro!: io_errors split: prod.split)

lemma list_loop_error:
  "list_inv st \<Longrightarrow> list_loop parse encode run base sel st s = (Inl e, s') \<Longrightarrow> read_error e"
proof (induction "max_pages - ls_pages st" arbitrary: st s rule: less_induct)
  case less
  let ?step = "\<lambda>bytes'. io_lift (and_then (parse_json parse bytes') (list_page st 100))"
  let ?round = "io_bind (raw_cancelled run (list_path encode base sel 100 (ls_continuation st)) KOp_Query) ?step"
  have round: "errors_in read_error ?round"
    by (intro io_errors) (auto simp: and_then_Inl dest: pure_read_errors)
  consider (error) "?round s = (Inl e, s')" | (again) st1 s1 where "?round s = (Inr (st1, False), s1)"
    "list_loop parse encode run base sel st1 s1 = (Inl e, s')"
    using less.prems(2) unfolding list_loop_round [OF less.prems(1)]
    by (auto split: prod.splits sum.splits bool.splits)
  then show ?case
  proof cases
    case error
    then show ?thesis by (rule errors_inD [OF round])
  next
    case (again st1 s1)
    then obtain w where page: "list_page st 100 w = Inr (st1, False)" by (auto simp: io_simps)
    have "max_pages - ls_pages st1 < max_pages - ls_pages st"
      using list_page_Inr(1,3) [OF page] by (simp add: diff_less_mono2)
    then show ?thesis using less.hyps list_page_inv(3) [OF page less.prems(1)] again by blast
  qed
qed

lemma list_error [io_errors]: "errors_in read_error (list_cancelled parse encode run q)"
  unfolding list_cancelled_def
  using list_loop_error [OF list_inv_start]
  by (intro io_errors) (auto intro!: errors_inI dest: pure_read_errors)

lemma check_pod_error [io_errors]: "errors_in read_error (check_pod parse run q path)"
  unfolding check_pod_def by (intro io_errors) (auto dest: pure_read_errors)

lemma query_error_kinds: "errors_in read_error (query_cancelled parse encode run q)"
  unfolding query_cancelled_def
  by (auto intro!: io_errors simp: and_then_Inl dest: pure_read_errors split: option.split if_splits)

lemma capabilities_error: "errors_in read_error (capabilities_cancelled parse run q)"
  unfolding capabilities_cancelled_def
  by (auto intro!: io_errors simp: Let_def split: prod.split)

lemma pod_logs_error: "errors_in read_error (pod_logs_cancelled parse run cn red q)"
  unfolding pod_logs_cancelled_def by (auto intro!: io_errors dest: pure_read_errors)

lemma execute_error:
  assumes "execute_cancelled run cn now secs c (sq, s) = (Inl e, (sq', s'))"
  shows "e = KE_CapacityExhausted \<or> e = KE_MutationRejected \<or> e = KE_MutationOutcomeUnknown"
    "\<not> kube_exec_is_valid c \<or> kube_exec_cluster c \<noteq> cn \<Longrightarrow> e = KE_MutationRejected \<and> s' = s"
  using assms mutation_error
  by (auto simp: execute_cancelled_def Let_def split: prod.splits sum.splits if_splits)

end

section \<open>Properties of the operations on the real runner\<close>

text \<open>
  Queries, capability discovery and pod logs never end in one of the two mutation errors:
  a read cannot be mistaken for a change whose outcome is unknown.
\<close>

theorem reads_never_report_mutations:
  assumes "query_cancelled parse encode (runner_io r world) rq s = (Inl e, s')
    \<or> capabilities_cancelled parse (runner_io r world) cq s = (Inl e, s')
    \<or> pod_logs_cancelled parse (runner_io r world) cluster_name redactions lq s = (Inl e, s')"
  shows "e \<noteq> KE_MutationOutcomeUnknown \<and> e \<noteq> KE_MutationRejected"
proof -
  have "read_error e"
    using assms
  proof (elim disjE)
    assume "query_cancelled parse encode (runner_io r world) rq s = (Inl e, s')"
    then show ?thesis by (rule errors_inD [OF kubectl_process.query_error_kinds])
  next
    assume "capabilities_cancelled parse (runner_io r world) cq s = (Inl e, s')"
    then show ?thesis by (rule errors_inD [OF kubectl_process.capabilities_error])
  next
    assume "pod_logs_cancelled parse (runner_io r world) cluster_name redactions lq s = (Inl e, s')"
    then show ?thesis by (rule errors_inD [OF kubectl_process.pod_logs_error])
  qed
  then show ?thesis by (simp add: read_error_def)
qed

text \<open>An environment in which kubectl prints a given document and exits with status zero.\<close>

definition printing_env :: "string \<Rightarrow> run_env" where
  "printing_env doc =
     \<lparr>re_permits = 2, re_delivered = True, re_cancel_at = None,
      re_process = \<lparr>pe_cancelled_before = False, pe_spawned = True, pe_stdout_pipe = True,
        pe_stderr_pipe = True, pe_polls = replicate 3
          \<lparr>wp_cancelled = False, wp_exit = Some (WaitOk (Some 0)),
           wp_stdout = Some (StreamReads [ReadBytes doc]), wp_stderr = Some (StreamReads [])\<rparr>\<rparr>\<rparr>"

definition busy_env :: run_env where
  "busy_env = (printing_env []) \<lparr>re_permits := 0\<rparr>"

definition sample_runner :: kube_runner where
  "sample_runner = \<lparr>kr_executable = ''/usr/bin/kubectl'', kr_kubeconfig = ''/etc/kubeconfig'',
     kr_cache_dir = ''/tmp/cache'', kr_context = ''lab'', kr_request_timeout = ''25000ms'',
     kr_initial_permits = 2, kr_deadline = from_secs 30\<rparr>"

definition sample_command :: kube_exec_command where
  "sample_command = KX_PodDelete ''lab'' ''default'' ''web-0'' True"

lemma sample_command_valid: "kube_exec_is_valid sample_command"
  by (simp add: sample_command_def kube_exec_is_valid_def valid_pair_def valid_namespace_def valid_object_name_def
      valid_dns_subdomain_def valid_dns_label_iff dns_byte_code ascii_defs valid_catalog_name_def
      valid_identifier_def starts_with_def chars_ascii is_control_def is_whitespace_def)

theorem reads_never_report_mutations_witness:
  "\<exists>e. query_cancelled (\<lambda>_. None) id (runner_io sample_runner (\<lambda>s _. (busy_env, s))) sample_query () = (Inl e, ())
     \<and> e \<noteq> KE_MutationOutcomeUnknown"
proof -
  let ?run = "query_cancelled (\<lambda>_. None) id (runner_io sample_runner (\<lambda>s _. (busy_env, s))) sample_query ()"
  have path: "object_path (rq_kind sample_query) (rq_namespace sample_query) None = Inr ''/api/v1/nodes''"
    by (simp add: sample_query_def object_path_def kind_namespaced_def)
  have "rq_name sample_query = None" "resource_query_is_valid sample_query"
    by (simp_all add: sample_query_def resource_query_is_valid_def is_none_or_def kind_namespaced_def
        max_selectors_def)
  then have "?run = (Inl KE_CapacityExhausted, ())"
    by (simp add: query_cancelled_def list_cancelled_def path list_loop_round [OF list_inv_start]
        io_bind_def io_guard_def guard_or_def io_lift_def raw_cancelled_def runner_io_def
        run_cancelled_def busy_env_def)
  with reads_never_report_mutations [of "\<lambda>_. None" id sample_runner "\<lambda>s _. (busy_env, s)" sample_query "()"]
  show ?thesis by simp
qed

text \<open>
  A single resource is returned only if the document has the requested kind, name and
  namespace; a document of another object is an invalid response.
\<close>

theorem get_returns_requested_object:
  assumes "query_cancelled parse encode run q s = (Inr (QR_Resource r), s')"
  shows "rq_name q = Some (rs_name r) \<and> rs_namespace r = rq_namespace q \<and> rs_kind r = rq_kind q
    \<and> resource_query_is_valid q
    \<and> (\<exists>path b v. object_path (rq_kind q) (rq_namespace q) (rq_name q) = Inr path
         \<and> run [''get'', ''--raw='' @ path] KOp_Query s = (Inr b, s') \<and> parse b = Some v
         \<and> resource_of (rq_kind q) v = Inr r)"
proof (cases "rq_name q")
  case None
  with assms show ?thesis by (auto simp: query_cancelled_def io_simps)
next
  case (Some name)
  with assms obtain path b v where f: "resource_query_is_valid q"
    "object_path (rq_kind q) (rq_namespace q) (Some name) = Inr path"
    "run [''get'', ''--raw='' @ path] KOp_Query s = (Inr b, s')" "parse b = Some v"
    "resource_of (rq_kind q) v = Inr r" "rs_name r = name" "rs_namespace r = rq_namespace q"
    by (auto simp: query_cancelled_def io_simps raw_cancelled_def parse_json_def split: if_splits)
  with Some resource_of_identified(1) [OF f(5)] show ?thesis
    by (auto simp: resource_identified_def)
qed

definition sample_logs_query :: pod_logs_query where
  "sample_logs_query = \<lparr>plq_namespace = ''shop'', plq_pod = ''web-0'', plq_pod_uid = ''u-1'',
     plq_container = ''app'', plq_instance = CurrentInstance, plq_tail_lines = 10, plq_max_bytes = 64\<rparr>"

definition sample_pod :: json where
  "sample_pod =
     JObj [(''metadata'', JObj [(''name'', JStr ''web-0''), (''namespace'', JStr ''shop''), (''uid'', JStr ''u-1'')]),
           (''spec'', JObj [(''containers'', JArr [JObj [(''name'', JStr ''app'')]])])]"

lemma sample_pod_logs:
  "pod_logs_cancelled (\<lambda>_. Some sample_pod) quiet_run cluster_name redactions sample_logs_query ()
     = (Inr (QR_PodLogs (pod_logs_result cluster_name redactions sample_logs_query ''{}'')), ())"
proof -
  have "pod_logs_query_is_valid sample_logs_query"
    by (simp add: pod_logs_query_is_valid_def sample_logs_query_def valid_namespace_def
        valid_object_name_def valid_dns_subdomain_def valid_dns_label_iff dns_byte_code ascii_defs
        valid_uid_def)
  moreover have "pod_matches_log_query sample_pod sample_logs_query"
    by (simp add: pod_matches_log_query_def sample_pod_def sample_logs_query_def json_pointer_def
        opt_str_def pod_has_container_def opt_array_def List.map_filter_simps)
  moreover have "object_path RK_Pod (Some n) (Some m) = Inr (''/api/v1/namespaces/'' @ n @ ''/pods/'' @ m)" for n m
    by (simp add: object_path_def kind_namespaced_def)
  ultimately show ?thesis
    by (simp add: pod_logs_cancelled_def check_pod_def io_bind_def io_guard_def guard_or_def io_lift_def
        raw_cancelled_def quiet_run_def parse_json_def io_return_def)
qed

theorem get_returns_requested_object_witness:
  "\<exists>r. query_cancelled (\<lambda>_. Some sample_namespace) id quiet_run
          \<lparr>rq_kind = RK_Namespace, rq_namespace = None, rq_name = Some ''shop'', rq_labels = [], rq_limit = 1\<rparr> ()
        = (Inr (QR_Resource r), ()) \<and> rs_name r = ''shop''"
proof -
  let ?q = "\<lparr>rq_kind = RK_Namespace, rq_namespace = None, rq_name = Some ''shop'', rq_labels = [], rq_limit = 1\<rparr>"
  obtain d t where d: "resource_details RK_Namespace sample_namespace = (d, t)" by fastforce
  have "json_get sample_namespace ''metadata'' = Some (JObj [(''name'', JStr ''shop'')])"
    by (simp add: sample_namespace_def)
  moreover have "valid_object_name ''shop''"
    by (simp add: valid_object_name_def valid_dns_subdomain_def valid_dns_label_iff dns_byte_code ascii_defs)
  ultimately obtain r where r: "resource_of RK_Namespace sample_namespace = Inr r" "rs_name r = ''shop''"
    "rs_namespace r = None"
    by (simp add: resource_of_def d resource_uid_def resource_scope_def kind_namespaced_def opt_str_def
        opt_filter_def)
  have "resource_query_is_valid ?q"
    by (simp add: resource_query_is_valid_def is_none_or_def kind_namespaced_def max_selectors_def
        valid_object_name_def valid_dns_subdomain_def valid_dns_label_iff dns_byte_code ascii_defs)
  then have q: "query_cancelled (\<lambda>_. Some sample_namespace) id quiet_run ?q () = (Inr (QR_Resource r), ())"
    using r by (simp add: query_cancelled_def object_path_def kind_namespaced_def io_bind_def io_guard_def
        guard_or_def io_lift_def raw_cancelled_def quiet_run_def parse_json_def)
  from get_returns_requested_object [OF q] q show ?thesis by auto
qed

section \<open>Secrets\<close>

lemma redactions_of_client:
  assumes "kubernetes_client_new kubeconfig config = Inr c"
  shows "set (kcl_redactions c) = set (kc_redactions config @ static_kubeconfig_tokens kubeconfig) - {[]}"
  using assms by (auto simp: kubernetes_client_new_def Let_def split: if_splits)

section \<open>Discovery\<close>

definition missing_paths :: "resource_kind list \<Rightarrow> endpoints \<Rightarrow> string set" where
  "missing_paths kinds endpoints = capability_path ` set kinds - set (bt_keys endpoints)"

lemma missing_paths_Cons:
  assumes "bt_ok endpoints"
  shows "bt_get endpoints (capability_path k) \<noteq> None \<Longrightarrow> missing_paths (k # ks) endpoints = missing_paths ks endpoints"
    "bt_get endpoints (capability_path k) = None \<Longrightarrow>
       card (missing_paths (k # ks) endpoints) = Suc (card (missing_paths ks (bt_insert (capability_path k) v endpoints)))"
proof -
  show "missing_paths (k # ks) endpoints = missing_paths ks endpoints"
    if "bt_get endpoints (capability_path k) \<noteq> None"
    using that bt.keys_lookup [OF assms] by (auto simp: missing_paths_def)
  assume "bt_get endpoints (capability_path k) = None"
  then have "missing_paths (k # ks) endpoints
      = insert (capability_path k) (missing_paths ks (bt_insert (capability_path k) v endpoints))"
    "capability_path k \<notin> missing_paths ks (bt_insert (capability_path k) v endpoints)"
    using bt.keys_lookup [OF assms] bt.keys_insert [OF assms] by (auto simp: missing_paths_def)
  moreover have "finite (missing_paths ks (bt_insert (capability_path k) v endpoints))"
    by (simp add: missing_paths_def)
  ultimately show "card (missing_paths (k # ks) endpoints)
      = Suc (card (missing_paths ks (bt_insert (capability_path k) v endpoints)))" by simp
qed

lemma discover_counted:
  "discover parse (counted run) kind (n, s) = (r, (n', s')) \<Longrightarrow> n' = Suc n"
  by (auto simp: discover_def raw_cancelled_def counted_def split: prod.splits sum.splits if_splits)

lemma capability_loop_counted:
  assumes "bt_ok endpoints"
    and "capability_loop parse (counted run) kinds endpoints pages caps (n, s) = (Inr (pages', caps'), (n', s'))"
  shows "n' = n + card (missing_paths kinds endpoints)
    \<and> pages' = pages + word_of_nat (card (missing_paths kinds endpoints))
    \<and> map cap_kind caps' = map cap_kind caps @ kinds"
  using assms
proof (induction kinds arbitrary: endpoints pages caps n s)
  case Nil
  then show ?case by (simp add: io_simps missing_paths_def)
next
  case (Cons k ks)
  show ?case
  proof (cases "bt_get endpoints (capability_path k)")
    case None
    with Cons.prems(2) obtain v n1 s1 where d: "discover parse (counted run) k (n, s) = (Inr v, (n1, s1))"
      and rest: "capability_loop parse (counted run) ks (bt_insert (capability_path k) v endpoints) (pages + 1)
        (caps @ [\<lparr>cap_kind = k, cap_api_version = kind_api_version k,
                 cap_supported = kind_supported (bt_insert (capability_path k) v endpoints) k\<rparr>]) (n1, s1)
        = (Inr (pages', caps'), (n', s'))"
      by (auto simp: io_simps)
    from Cons.IH [OF bt.invar_insert [OF Cons.prems(1)] rest] discover_counted [OF d]
      missing_paths_Cons(2) [OF Cons.prems(1) None, of ks v]
    show ?thesis by (simp add: algebra_simps)
  next
    case (Some v)
    with Cons.prems(2) have rest: "capability_loop parse (counted run) ks endpoints pages
        (caps @ [\<lparr>cap_kind = k, cap_api_version = kind_api_version k,
                 cap_supported = kind_supported endpoints k\<rparr>]) (n, s) = (Inr (pages', caps'), (n', s'))"
      by (simp add: io_simps)
    from Cons.IH [OF Cons.prems(1) rest] missing_paths_Cons(1) [OF Cons.prems(1)] Some
    show ?thesis by simp
  qed
qed

text \<open>
  Capability discovery answers for exactly the requested kinds, in the requested order, and
  starts one kubectl process per distinct API group version among them, which is the page count
  it reports.
\<close>

theorem discovery_once_per_group:
  assumes "capabilities_cancelled parse (counted run) q (n, s) = (Inr (QR_Capabilities c), (n', s'))"
  shows "map cap_kind (capc_capabilities c) = cq_kinds q
    \<and> n' = n + card (capability_path ` set (cq_kinds q))
    \<and> unat (lm_pages (capc_metadata c)) = card (capability_path ` set (cq_kinds q))
    \<and> unat (lm_returned (capc_metadata c)) = length (cq_kinds q)"
proof -
  from assms obtain pages caps where valid: "capabilities_query_is_valid q"
    and loop: "capability_loop parse (counted run) (cq_kinds q) [] 0 [] (n, s) = (Inr (pages, caps), (n', s'))"
    and c: "capc_capabilities c = caps" "lm_pages (capc_metadata c) = pages"
      "lm_returned (capc_metadata c) = word_of_nat (length caps)"
    by (auto simp: capabilities_cancelled_def io_simps Let_def split: prod.splits)
  have "length (cq_kinds q) \<le> 36"
    using valid by (auto simp: capabilities_query_is_valid_def Let_def length_all_resource_kinds)
  moreover have "card (capability_path ` set (cq_kinds q)) \<le> length (cq_kinds q)"
    by (rule order_trans [OF card_image_le card_length]) simp
  moreover have caps: "n' = n + card (capability_path ` set (cq_kinds q))"
    "pages = word_of_nat (card (capability_path ` set (cq_kinds q)))" "map cap_kind caps = cq_kinds q"
    using capability_loop_counted [OF bt.invar_empty loop]
    by (simp_all add: missing_paths_def bt_keys_def)
  moreover have "length caps = length (cq_kinds q)" using caps(3) by (metis length_map)
  ultimately show ?thesis by (simp add: c unat_of_nat_u8 unat_of_nat_u16)
qed

theorem discovery_once_per_group_witness:
  "\<exists>c. capabilities_cancelled
      (\<lambda>_. Some (JObj [(''groupVersion'', JStr ''v1''), (''resources'', JArr [])])) (counted quiet_run)
      \<lparr>cq_kinds = [RK_Pod, RK_Node]\<rparr> (0, ()) = (Inr (QR_Capabilities c), (1, ()))
    \<and> map cap_kind (capc_capabilities c) = [RK_Pod, RK_Node]"
proof -
  let ?q = "\<lparr>cq_kinds = [RK_Pod, RK_Node]\<rparr>"
  let ?run = "capabilities_cancelled
      (\<lambda>_. Some (JObj [(''groupVersion'', JStr ''v1''), (''resources'', JArr [])])) (counted quiet_run) ?q (0, ())"
  have "capabilities_query_is_valid ?q" by (simp add: capabilities_query_is_valid_iff)
  moreover have "capability_path RK_Pod = ''/api/v1''" "capability_path RK_Node = ''/api/v1''"
    by (simp_all add: capability_path_def)
  ultimately obtain c where run: "?run = (Inr (QR_Capabilities c), (1, ()))"
    by (simp add: capabilities_cancelled_def io_bind_def io_guard_def guard_or_def io_lift_def
        io_return_def discover_def raw_cancelled_def counted_def quiet_run_def parse_discovery_def
        parse_json_def opt_str_def opt_array_def kind_api_version_def Let_def)
  from discovery_once_per_group [OF run] run show ?thesis by auto
qed

end
