(* ===== verification/Kube_Catalog.thy ===== *)
theory Kube_Catalog
  imports Kube_Client
begin

text \<open>
  The catalog of the configured clusters (\<open>src/integrations/kubernetes/catalog.rs\<close>): it is
  built from one configuration per cluster, lists the clusters, and routes a command to the
  client its cluster names.  \<open>kubeconfig_of\<close> gives the document each client's kubeconfig holds,
  and \<open>run_of\<close> the runner of each client.
\<close>

definition max_clusters :: nat where
  "max_clusters = 32"

type_synonym kubernetes_catalog = "(string, kubernetes_client) btree"

fun insert_clients ::
  "(kubernetes_config \<Rightarrow> json option) \<Rightarrow> kubernetes_config list \<Rightarrow> kubernetes_catalog
     \<Rightarrow> string + kubernetes_catalog" where
  "insert_clients kubeconfig_of [] clients = Inr clients"
| "insert_clients kubeconfig_of (config # configs) clients =
     and_then (kubernetes_client_new (kubeconfig_of config) config) (\<lambda>client.
       if bt_get clients (kc_cluster_name config) \<noteq> None then Inl ''duplicate Kubernetes cluster name''
       else insert_clients kubeconfig_of configs (bt_insert (kc_cluster_name config) client clients))"

definition kubernetes_catalog_new ::
  "(kubernetes_config \<Rightarrow> json option) \<Rightarrow> kubernetes_config list \<Rightarrow> string + kubernetes_catalog" where
  "kubernetes_catalog_new kubeconfig_of configs =
     (if configs = [] \<or> max_clusters < length configs then Inl ''invalid Kubernetes cluster catalog''
      else insert_clients kubeconfig_of configs [])"

definition catalog_clusters :: "kubernetes_catalog \<Rightarrow> query_result" where
  "catalog_clusters catalog =
     (let clusters = map (\<lambda>(_, client). client_cluster client) catalog;
          count = word_of_nat (length clusters)
      in QR_Clusters
           \<lparr>cc_clusters = clusters,
            cc_metadata = \<lparr>lm_pages = 0, lm_inspected = count, lm_returned = count,
              lm_source_truncated = False, lm_result_truncated = False,
              lm_aggregate_truncated = False, lm_truncated = False\<rparr>\<rparr>)"

definition catalog_client :: "kubernetes_catalog \<Rightarrow> string \<Rightarrow> kube_error + kubernetes_client" where
  "catalog_client catalog cluster_name = ok_or (bt_get catalog cluster_name) KE_InvalidArguments"

fun dispatch_cancelled ::
  "json_parser \<Rightarrow> (string \<Rightarrow> string) \<Rightarrow> (kubernetes_client \<Rightarrow> 's kubectl_run) \<Rightarrow> kubernetes_catalog
     \<Rightarrow> kube_query_command \<Rightarrow> ('s, kube_error, query_result) io" where
  "dispatch_cancelled parse encode run_of catalog KQ_ClusterList = io_return (catalog_clusters catalog)"
| "dispatch_cancelled parse encode run_of catalog (KQ_CapabilityList cluster_name q) =
     io_bind (io_lift (catalog_client catalog cluster_name)) (\<lambda>client.
       capabilities_cancelled parse (run_of client) q)"
| "dispatch_cancelled parse encode run_of catalog (KQ_Resource cluster_name q) =
     io_bind (io_lift (catalog_client catalog cluster_name)) (\<lambda>client.
       query_cancelled parse encode (run_of client) q)"
| "dispatch_cancelled parse encode run_of catalog (KQ_PodLogs cluster_name q) =
     io_bind (io_lift (catalog_client catalog cluster_name)) (\<lambda>client.
       pod_logs_cancelled parse (run_of client) (kcl_cluster_name client) (kcl_redactions client) q)"

definition catalog_execute_cancelled ::
  "(kubernetes_client \<Rightarrow> 's kubectl_run) \<Rightarrow> string \<Rightarrow> u64 \<Rightarrow> kubernetes_catalog
     \<Rightarrow> kube_exec_command \<Rightarrow> (u64 \<times> 's, kube_error, exec_result) io" where
  "catalog_execute_cancelled run_of now secs catalog command =
     io_bind (io_lift (ok_or (bt_get catalog (kube_exec_cluster command)) KE_MutationRejected)) (\<lambda>client.
       execute_cancelled (run_of client) (kcl_cluster_name client) now secs command)"

section \<open>Laws\<close>

lemma client_new_name:
  "kubernetes_client_new k config = Inr c \<Longrightarrow>
     kcl_cluster_name c = kc_cluster_name config \<and> valid_catalog_name (kcl_cluster_name c)"
  by (auto simp: kubernetes_client_new_def Let_def split: if_splits)

text \<open>Every client is stored under its own cluster name.\<close>

definition catalog_inv :: "kubernetes_catalog \<Rightarrow> bool" where
  "catalog_inv catalog \<longleftrightarrow> bt_ok catalog
     \<and> (\<forall>(name, client)\<in>set catalog. kcl_cluster_name client = name \<and> valid_catalog_name name)"

lemma catalog_inv_insert:
  assumes "catalog_inv m" "kcl_cluster_name c = n" "valid_catalog_name n"
  shows "catalog_inv (bt_insert n c m)"
  unfolding catalog_inv_def
proof (intro conjI ballI)
  show "bt_ok (bt_insert n c m)" using assms(1) by (simp add: catalog_inv_def bt_insert_ok)
  fix x assume "x \<in> set (bt_insert n c m)"
  then have "x = (n, c) \<or> x \<in> set m" by (rule bt_insert_set)
  with assms show "case x of (name, client) \<Rightarrow> kcl_cluster_name client = name \<and> valid_catalog_name name"
    by (auto simp: catalog_inv_def)
qed

lemma length_bt_insert_new: "bt_ok m \<Longrightarrow> bt_get m k = None \<Longrightarrow> length (bt_insert k v m) = Suc (length m)"
  using bt.length_keys_insert [of m k v] by (simp add: bt_keys_def)

lemma insert_clients_Inr:
  assumes "insert_clients kubeconfig_of configs m = Inr catalog" "catalog_inv m"
  shows "catalog_inv catalog \<and> length catalog = length m + length configs
    \<and> set (bt_keys catalog) = set (bt_keys m) \<union> kc_cluster_name ` set configs"
  using assms
proof (induction kubeconfig_of configs m rule: insert_clients.induct)
  case (2 kubeconfig_of config configs m)
  then obtain client where c: "kubernetes_client_new (kubeconfig_of config) config = Inr client"
    and n: "bt_get m (kc_cluster_name config) = None"
    and rest: "insert_clients kubeconfig_of configs (bt_insert (kc_cluster_name config) client m) = Inr catalog"
    by (auto split: if_splits)
  have ok: "bt_ok m" using "2.prems"(2) by (simp add: catalog_inv_def)
  have "catalog_inv (bt_insert (kc_cluster_name config) client m)"
    using client_new_name [OF c] by (intro catalog_inv_insert "2.prems"(2)) auto
  with "2.IH" [OF _ rest] n length_bt_insert_new [OF ok n] bt.keys_insert [OF ok]
  show ?case by auto
qed simp

lemma catalog_inv_get: "catalog_inv m \<Longrightarrow> bt_get m n = Some c \<Longrightarrow> kcl_cluster_name c = n"
  using bt_get_in_set [of m n c] by (auto simp: catalog_inv_def)

text \<open>
  A Kubernetes catalog holds between one and 32 clients, one per configuration, each under
  its own valid cluster name; duplicate names are rejected; and the cluster list names them in
  ascending order without repetition.
\<close>

theorem catalog_sorted_and_complete:
  assumes "kubernetes_catalog_new kubeconfig_of configs = Inr catalog"
  shows "catalog_inv catalog \<and> length catalog = length configs \<and> 1 \<le> length catalog \<and> length catalog \<le> 32
    \<and> distinct (map kc_cluster_name configs)
    \<and> (\<exists>cc. catalog_clusters catalog = QR_Clusters cc
         \<and> sorted_wrt (<) (map cl_name (cc_clusters cc))
         \<and> set (map cl_name (cc_clusters cc)) = kc_cluster_name ` set configs)"
proof -
  have c: "configs \<noteq> []" "length configs \<le> 32"
    and ins: "insert_clients kubeconfig_of configs [] = Inr catalog"
    using assms by (auto simp: kubernetes_catalog_new_def max_clusters_def split: if_splits)
  have "catalog_inv []" by (simp add: catalog_inv_def bt_ok_def)
  note facts = insert_clients_Inr [OF ins this]
  have names: "map (\<lambda>(_, client). cl_name (client_cluster client)) catalog = map fst catalog"
    using facts by (auto simp: catalog_inv_def client_cluster_def)
  have sorted: "sorted_wrt (<) (map fst catalog)" using facts by (simp add: catalog_inv_def bt_ok_def)
  have keys: "set (map fst catalog) = set (map kc_cluster_name configs)"
    using facts by (simp add: bt_keys_def)
  have "distinct (map fst catalog)" using sorted strict_sorted_iff by blast
  then have "card (set (map kc_cluster_name configs)) = length (map kc_cluster_name configs)"
    using keys facts by (metis distinct_card length_map list.size(3) add_0)
  then have "distinct (map kc_cluster_name configs)" by (rule card_distinct)
  moreover have "catalog_clusters catalog = QR_Clusters cc \<Longrightarrow> map cl_name (cc_clusters cc) = map fst catalog" for cc
    using names by (auto simp: catalog_clusters_def Let_def comp_def case_prod_beta)
  moreover obtain cc where "catalog_clusters catalog = QR_Clusters cc"
    by (simp add: catalog_clusters_def Let_def)
  ultimately show ?thesis using facts c sorted keys
    by (auto simp: Suc_le_eq simp del: set_map) auto
qed

definition sample_config :: "string \<Rightarrow> kubernetes_config" where
  "sample_config name = kubernetes_config_new ''/usr/bin/kubectl'' ''/etc/kubeconfig'' ''/tmp/cache'' ''lab'' name"

lemma sample_client:
  assumes "valid_catalog_name name"
  obtains c where "kubernetes_client_new None (sample_config name) = Inr c"
proof -
  have "valid_context ''lab''"
    by (simp add: valid_context_def starts_with_def chars_ascii ascii_defs is_control_def is_whitespace_def)
  with assms that show thesis
    by (simp add: kubernetes_client_new_def sample_config_def kubernetes_config_new_def Let_def
        kube_runner_new_def is_absolute_def from_millis_def from_secs_def)
qed

lemma sample_names: "valid_catalog_name ''zeus''" "valid_catalog_name ''apollo''"
  by (simp_all add: valid_catalog_name_def valid_identifier_def starts_with_def chars_ascii ascii_defs
      is_control_def is_whitespace_def)

lemma sample_catalog:
  obtains catalog where
    "kubernetes_catalog_new (\<lambda>_. None) [sample_config ''zeus'', sample_config ''apollo''] = Inr catalog"
proof -
  obtain z a where "kubernetes_client_new None (sample_config ''zeus'') = Inr z"
    "kubernetes_client_new None (sample_config ''apollo'') = Inr a"
    using sample_client [OF sample_names(1)] sample_client [OF sample_names(2)] by metis
  with that show thesis
    by (simp add: kubernetes_catalog_new_def max_clusters_def)
      (simp add: sample_config_def kubernetes_config_new_def)
qed

theorem catalog_sorted_and_complete_witness:
  "\<exists>catalog. kubernetes_catalog_new (\<lambda>_. None) [sample_config ''zeus'', sample_config ''apollo''] = Inr catalog
     \<and> length catalog = 2"
proof -
  obtain catalog where c: "kubernetes_catalog_new (\<lambda>_. None) [sample_config ''zeus'', sample_config ''apollo''] = Inr catalog"
    by (rule sample_catalog)
  from catalog_sorted_and_complete [OF c] c show ?thesis by auto
qed

text \<open>
  A mutation reaches only the client of the cluster it names; for a cluster that is not in
  the catalog it is rejected and nothing happens.
\<close>

theorem catalog_routes_mutations:
  assumes "catalog_inv catalog"
  shows "catalog_execute_cancelled run_of now secs catalog command st =
    (case bt_get catalog (kube_exec_cluster command) of
       None \<Rightarrow> (Inl KE_MutationRejected, st)
     | Some client \<Rightarrow> execute_cancelled (run_of client) (kube_exec_cluster command) now secs command st)"
  using catalog_inv_get [OF assms]
  by (auto simp: catalog_execute_cancelled_def io_bind_def io_lift_def split: option.split)

theorem catalog_routes_mutations_witness:
  "catalog_execute_cancelled (\<lambda>_. quiet_run) ''now'' 1 [] sample_command (7, ()) = (Inl KE_MutationRejected, (7, ()))"
proof -
  have "catalog_inv []" by (simp add: catalog_inv_def bt_ok_def)
  from catalog_routes_mutations [OF this, of "\<lambda>_. quiet_run" "''now''" 1 sample_command "(7, ())"]
  show ?thesis by simp
qed

end
