(* ===== verification/Kube_Laws.thy ===== *)
theory Kube_Laws
  imports Kube_Catalog
begin

text \<open>
  What the operations of the Kubernetes client guarantee, stated over the \<open>kubectl\<close> processes they run and
  what those have printed.
\<close>

section \<open>Recorded runs\<close>

text \<open>The same runner with the list of its runs: the arguments and what came back.\<close>

type_synonym kubectl_log = "(string list \<times> (kube_error + string)) list"

definition recorded :: "'s kubectl_run \<Rightarrow> (kubectl_log \<times> 's) kubectl_run" where
  "recorded run args op = (\<lambda>(tr, s). let (r, s') = run args op s in (r, (tr @ [(args, r)], s')))"

lemma recorded_eq:
  "(recorded run args op (tr, s) = (r, (tr', s'))) \<longleftrightarrow> run args op s = (r, s') \<and> tr' = tr @ [(args, r)]"
  by (auto simp: recorded_def split: prod.splits)

section \<open>Pages\<close>

text \<open>What a page of a listing says, read off the JSON: its items and the token of the next page.\<close>

definition page_items :: "json \<Rightarrow> json list" where
  "page_items w = (case json_get w ''items'' of Some (JArr xs) \<Rightarrow> xs | _ \<Rightarrow> [])"

definition page_token :: "json \<Rightarrow> string option" where
  "page_token w =
     (case json_get w ''metadata'' of
        Some m \<Rightarrow> (case json_get m ''continue'' of Some (JStr t) \<Rightarrow> if t = [] then None else Some t | _ \<Rightarrow> None)
      | None \<Rightarrow> None)"

definition doc_of :: "json_parser \<Rightarrow> kube_error + string \<Rightarrow> json" where
  "doc_of parse out = (case out of Inr b \<Rightarrow> (case parse b of Some w \<Rightarrow> w | None \<Rightarrow> JNull) | Inl _ \<Rightarrow> JNull)"

definition page_request ::
  "(string \<Rightarrow> string) \<Rightarrow> string \<Rightarrow> string option \<Rightarrow> string option \<Rightarrow> string list" where
  "page_request encode base sel tok = [''get'', ''--raw='' @ list_path encode base sel 100 tok]"

text \<open>
  The log of a listing: the first request has no token, every other one the token of the page before it,
  and no token is used twice.
\<close>

definition pages_read ::
  "json_parser \<Rightarrow> (string \<Rightarrow> string) \<Rightarrow> string \<Rightarrow> string option \<Rightarrow> string option \<Rightarrow> string list
     \<Rightarrow> (kube_error + string) list \<Rightarrow> kubectl_log \<Rightarrow> bool" where
  "pages_read parse encode base sel first tokens outs tr \<longleftrightarrow>
     tr = map2 (\<lambda>tok out. (page_request encode base sel tok, out)) (first # map Some tokens) outs
     \<and> length outs = Suc (length tokens) \<and> distinct tokens
     \<and> map (\<lambda>out. page_token (doc_of parse out)) (butlast outs) = map Some tokens"

lemma pages_read_one:
  "pages_read parse encode base sel first [] [out] [(page_request encode base sel first, out)]"
  by (simp add: pages_read_def)

lemma pages_read_Cons:
  assumes "pages_read parse encode base sel (Some t) tokens outs tr" "page_token (doc_of parse out) = Some t"
    "t \<notin> set tokens"
  shows "pages_read parse encode base sel first (t # tokens) (out # outs) ((page_request encode base sel first, out) # tr)"
  using assms by (auto simp: pages_read_def)

lemma continuation_of_token:
  assumes "continuation_of metadata = Inr c"
  shows "c = (case map_of metadata ''continue'' of Some (JStr t) \<Rightarrow> if t = [] then None else Some t | _ \<Rightarrow> None)"
  using assms by (auto simp: continuation_of_def split: option.splits json.splits if_splits)

lemma as_object_Some: "as_object v = Some m \<longleftrightarrow> v = JObj m"
  by (cases v) auto

lemma as_array_Some: "as_array v = Some xs \<longleftrightarrow> v = JArr xs"
  by (cases v) auto

text \<open>A page the loop takes: its items and its token, which was not seen before.\<close>

lemma list_page_takes:
  assumes "list_page st 100 w = Inr (st', finished)" "list_inv st"
  shows "ls_items st' = ls_items st @ page_items w" "ls_continuation st' = page_token w"
    "page_token w = None \<Longrightarrow> finished"
    "page_token w = Some t \<Longrightarrow> t \<notin> set (ls_seen st) \<and> ls_seen st' = t # ls_seen st"
proof -
  from assms(1) obtain page metadata c where page: "json_get w ''items'' = Some (JArr page)"
    and metadata: "json_get w ''metadata'' = Some (JObj metadata)"
    and c: "continuation_of metadata = Inr c" and len: "length page \<le> 100"
    and adv: "list_advance (st\<lparr>ls_items := ls_items st @ take (max_inspected - length (ls_items st)) page,
             ls_continuation := c, ls_pages := ls_pages st + 1\<rparr>) = Inr (st', finished)"
    by (auto simp: list_page_def opt_array_def as_object_Some as_array_Some bind_eq_Some_conv split: if_splits)
  have tok: "page_token w = c"
    using continuation_of_token [OF c] by (simp add: page_token_def metadata)
  have "length page \<le> max_inspected - length (ls_items st)"
    using len assms(2) unfolding list_inv_def max_inspected_def by linarith
  then have "take (max_inspected - length (ls_items st)) page = page_items w"
    by (simp add: page page_items_def)
  with adv tok show "ls_items st' = ls_items st @ page_items w" "ls_continuation st' = page_token w"
    "page_token w = None \<Longrightarrow> finished"
    "page_token w = Some t \<Longrightarrow> t \<notin> set (ls_seen st) \<and> ls_seen st' = t # ls_seen st"
    by (auto simp: list_advance_def Let_def split: option.splits if_splits)
qed

lemma list_page_refuses:
  assumes "list_page st 100 w = Inl e"
  shows "e = KE_InvalidResponse"
  using assms by (rule list_page_error)

lemma page_token_JNull [simp]: "page_token JNull = None"
  by (simp add: page_token_def)

text \<open>What a run of the loop has read.\<close>

definition loop_facts ::
  "json_parser \<Rightarrow> list_state \<Rightarrow> string list \<Rightarrow> (kube_error + string) list \<Rightarrow> kube_error + list_state \<Rightarrow> bool" where
  "loop_facts parse st tokens outs r \<longleftrightarrow>
     ls_pages st + length outs \<le> 5 \<and> set tokens \<inter> set (ls_seen st) = {}
     \<and> (\<forall>t. page_token (doc_of parse (last outs)) = Some t \<longrightarrow> t \<in> set tokens \<union> set (ls_seen st) \<longrightarrow> r = Inl KE_InvalidResponse)
     \<and> (\<forall>st'. r = Inr st' \<longrightarrow> ls_pages st' = ls_pages st + length outs
          \<and> ls_items st' = ls_items st @ concat (map (\<lambda>out. page_items (doc_of parse out)) outs)
          \<and> (ls_source_truncated st' \<longleftrightarrow> page_token (doc_of parse (last outs)) \<noteq> None))"

lemma list_loop_pages:
  "list_inv st \<Longrightarrow> list_loop parse encode (recorded run) base sel st (tr, s) = (r, (tr', s')) \<Longrightarrow>
     list_loop parse encode run base sel st s = (r, s')
     \<and> (\<exists>tokens outs. pages_read parse encode base sel (ls_continuation st) tokens outs (drop (length tr) tr')
          \<and> take (length tr) tr' = tr \<and> loop_facts parse st tokens outs r)"
proof (induction "max_pages - ls_pages st" arbitrary: st tr s rule: less_induct)
  case less
  let ?req = "page_request encode base sel (ls_continuation st)"
  obtain out s1 where run: "run ?req KOp_Query s = (out, s1)" by fastforce
  then have rrun: "recorded run ?req KOp_Query (tr, s) = (out, (tr @ [(?req, out)], s1))" by (simp add: recorded_eq)
  note rounds = list_loop_round [OF less.prems(1)]
  have n5: "ls_pages st < 5" using less.prems(1) by (simp add: list_inv_def)
  have one: "(\<exists>tokens outs. pages_read parse encode base sel (ls_continuation st) tokens outs (drop (length tr) (tr @ [(?req, out)]))
          \<and> take (length tr) (tr @ [(?req, out)]) = tr \<and> loop_facts parse st tokens outs r)"
    if "loop_facts parse st [] [out] r"
    using that by (intro exI [of _ "[]"] exI [of _ "[out]"]) (simp add: pages_read_one)
  show ?case
  proof (cases out)
    case (Inl e)
    with less.prems(2) rrun run have "r = Inl e" "tr' = tr @ [(?req, out)]" "s' = s1"
      "list_loop parse encode run base sel st s = (r, s')"
      unfolding rounds by (auto simp: io_bind_def raw_cancelled_def page_request_def)
    moreover have "loop_facts parse st [] [out] (Inl e)"
      using n5 Inl by (simp add: loop_facts_def doc_of_def)
    ultimately show ?thesis using one by simp
  next
    case (Inr b)
    note out = this
    show ?thesis
    proof (cases "and_then (parse_json parse b) (list_page st 100)")
      case (Inl e)
      with out less.prems(2) rrun run have "r = Inl e" "tr' = tr @ [(?req, out)]" "s' = s1"
        "list_loop parse encode run base sel st s = (r, s')"
        unfolding rounds by (auto simp: io_bind_def raw_cancelled_def io_lift_def page_request_def)
      moreover have "e = KE_InvalidResponse"
        using Inl by (auto simp: and_then_Inl parse_json_def dest: list_page_refuses)
      then have "loop_facts parse st [] [out] (Inl e)" using n5 by (simp add: loop_facts_def)
      ultimately show ?thesis using one by simp
    next
      case (Inr sf)
      obtain st1 finished where sf: "sf = (st1, finished)" by fastforce
      with Inr obtain w where w: "parse b = Some w" and page: "list_page st 100 w = Inr (st1, finished)"
        by (auto simp: parse_json_def)
      have doc: "doc_of parse out = w" by (simp add: doc_of_def out w)
      note takes = list_page_takes [OF page less.prems(1)]
      note inv = list_page_inv [OF page less.prems(1)] and pages = list_page_Inr(1) [OF page]
      show ?thesis
      proof (cases finished)
        case True
        with out Inr sf less.prems(2) rrun run have r: "r = Inr st1" "tr' = tr @ [(?req, out)]" "s' = s1"
          "list_loop parse encode run base sel st s = (r, s')"
          unfolding rounds by (auto simp: io_bind_def raw_cancelled_def io_lift_def page_request_def)
        have "loop_facts parse st [] [out] r"
          using n5 pages takes(1,2,4) inv(4) True by (auto simp: loop_facts_def doc r(1))
        with r one show ?thesis by simp
      next
        case False
        with inv have li: "list_inv st1" by simp
        have "max_pages - ls_pages st1 < max_pages - ls_pages st"
          using list_page_Inr(1,3) [OF page] False by (simp add: diff_less_mono2)
        moreover have "list_loop parse encode (recorded run) base sel st1 (tr @ [(?req, out)], s1) = (r, (tr', s'))"
          and cont: "list_loop parse encode run base sel st s = list_loop parse encode run base sel st1 s1"
          using out Inr sf less.prems(2) rrun run False
          unfolding rounds by (auto simp: io_bind_def raw_cancelled_def io_lift_def page_request_def)
        ultimately obtain tokens outs where same: "list_loop parse encode run base sel st1 s1 = (r, s')"
          and read: "pages_read parse encode base sel (ls_continuation st1) tokens outs (drop (length (tr @ [(?req, out)])) tr')"
          and tr: "take (length (tr @ [(?req, out)])) tr' = tr @ [(?req, out)]"
          and facts: "loop_facts parse st1 tokens outs r"
          using less.hyps [OF _ li] by blast
        obtain t where t: "page_token w = Some t" using takes(3) False by fastforce
        with takes have st1: "ls_continuation st1 = Some t" "ls_seen st1 = t # ls_seen st" "t \<notin> set (ls_seen st)"
          by auto
        have outs: "outs \<noteq> []" using read by (auto simp: pages_read_def)
        have fresh: "t \<notin> set tokens" using facts st1(2) by (auto simp: loop_facts_def)
        have "tr' = (tr @ [(?req, out)]) @ drop (length (tr @ [(?req, out)])) tr'"
          using tr by (metis append_take_drop_id)
        then have drop: "drop (length tr) tr' = (?req, out) # drop (length (tr @ [(?req, out)])) tr'"
          and keep: "take (length tr) tr' = tr"
          by (metis append.assoc append_Cons append_Nil append_eq_conv_conj)+
        have "pages_read parse encode base sel (ls_continuation st) (t # tokens) (out # outs) (drop (length tr) tr')"
          unfolding drop using pages_read_Cons [OF read [unfolded st1(1)] _ fresh] doc t by simp
        moreover have "loop_facts parse st (t # tokens) (out # outs) r"
          using facts outs pages takes(1) st1(2,3) by (auto simp: loop_facts_def doc)
        ultimately show ?thesis using same cont keep by auto
      qed
    qed
  qed
qed

lemma list_cancelled_pages:
  assumes "list_cancelled parse encode (recorded run) q (tr, s) = (r, (tr', s'))"
  shows "list_cancelled parse encode run q s = (r, s')"
    and "object_path (rq_kind q) (rq_namespace q) None = Inr base \<Longrightarrow>
      \<exists>new tokens outs looped. tr' = tr @ new
        \<and> (\<exists>s1. list_loop parse encode run base (selector (rq_labels q)) list_start s = (looped, s1))
        \<and> pages_read parse encode base (selector (rq_labels q)) None tokens outs new
        \<and> loop_facts parse list_start tokens outs looped
        \<and> r = (case looped of Inl e \<Rightarrow> Inl e | Inr st \<Rightarrow> finish_list q st)"
    and "object_path (rq_kind q) (rq_namespace q) None = Inl e \<Longrightarrow> tr' = tr"
proof -
  show "tr' = tr" if "object_path (rq_kind q) (rq_namespace q) None = Inl e"
    using assms that by (simp add: list_cancelled_def io_bind_def io_lift_def)
  have first: "ls_continuation list_start = None" by (simp add: list_start_def)
  show "\<exists>new tokens outs looped. tr' = tr @ new
        \<and> (\<exists>s1. list_loop parse encode run base (selector (rq_labels q)) list_start s = (looped, s1))
        \<and> pages_read parse encode base (selector (rq_labels q)) None tokens outs new
        \<and> loop_facts parse list_start tokens outs looped
        \<and> r = (case looped of Inl e \<Rightarrow> Inl e | Inr st \<Rightarrow> finish_list q st)"
    if base: "object_path (rq_kind q) (rq_namespace q) None = Inr base" for base
  proof -
    obtain looped tr1 s1 where loop: "list_loop parse encode (recorded run) base (selector (rq_labels q)) list_start (tr, s)
        = (looped, (tr1, s1))"
      by (metis surj_pair)
    with assms base have "tr1 = tr'" "r = (case looped of Inl e \<Rightarrow> Inl e | Inr st \<Rightarrow> finish_list q st)"
      by (auto simp: list_cancelled_def io_bind_def io_lift_def split: sum.splits)
    with list_loop_pages [OF list_inv_start loop] first show ?thesis
      by (metis append_take_drop_id)
  qed
  show "list_cancelled parse encode run q s = (r, s')"
  proof (cases "object_path (rq_kind q) (rq_namespace q) None")
    case (Inl e)
    with assms show ?thesis by (simp add: list_cancelled_def io_bind_def io_lift_def)
  next
    case (Inr base)
    obtain looped tr1 s1 where loop: "list_loop parse encode (recorded run) base (selector (rq_labels q)) list_start (tr, s)
        = (looped, (tr1, s1))"
      by (metis surj_pair)
    with assms Inr list_loop_pages [OF list_inv_start loop] show ?thesis
      by (auto simp: list_cancelled_def io_bind_def io_lift_def split: sum.splits)
  qed
qed

section \<open>Lists\<close>

lemma shortened_refl: "shortened r r"
proof -
  have "\<exists>d t. r = r\<lparr>rs_details := d, rs_details_truncated := t\<rparr>"
    by (rule exI [of _ "rs_details r"], rule exI [of _ "rs_details_truncated r"]) simp
  moreover have "\<exists>n. m = take n m" for m :: string by (rule exI [of _ "length m"]) simp
  ultimately show ?thesis by (auto simp: shortened_def)
qed

lemma finish_list_result:
  assumes "finish_list q st = Inr l" "length (ls_items st) \<le> 500" "ls_pages st \<le> 5"
  shows "\<exists>all. map (resource_of (rq_kind q)) (ls_items st) = map Inr all
    \<and> (let shown = take (unat (rq_limit q)) (sort_key list_order all); m = rl_metadata l in
        rl_kind l = rq_kind q \<and> list_all2 shortened shown (rl_items l) \<and> (rq_kind q \<noteq> RK_Event \<longrightarrow> rl_items l = shown)
        \<and> sorted (map list_order (rl_items l)) \<and> list_all (resource_identified (rq_kind q)) (rl_items l)
        \<and> (rq_kind q = RK_Event \<longrightarrow> sum_list (map message_bytes (rl_items l)) \<le> 32768)
        \<and> unat (lm_pages m) = ls_pages st
        \<and> unat (lm_inspected m) = length all \<and> length all \<le> 500 \<and> unat (lm_returned m) = length shown
        \<and> (lm_source_truncated m \<longleftrightarrow> ls_source_truncated st)
        \<and> (lm_result_truncated m \<longleftrightarrow> unat (rq_limit q) < length all)
        \<and> (lm_aggregate_truncated m \<longleftrightarrow> map message_of (rl_items l) \<noteq> map message_of shown)
        \<and> (lm_truncated m \<longleftrightarrow> lm_source_truncated m \<or> lm_result_truncated m \<or> lm_aggregate_truncated m))"
proof -
  obtain all shown cutoff where all: "map (resource_of (rq_kind q)) (ls_items st) = map Inr all"
    and shown: "shown = take (unat (rq_limit q)) (sort_resources all)"
    and items: "(rl_items l, cutoff) = (if rq_kind q = RK_Event then bound_event_messages shown else (shown, False))"
    and kind: "rl_kind l = rq_kind q"
    and m: "rl_metadata l = \<lparr>lm_pages = word_of_nat (ls_pages st), lm_inspected = word_of_nat (length (ls_items st)),
       lm_returned = word_of_nat (length (rl_items l)), lm_source_truncated = ls_source_truncated st,
       lm_result_truncated = (unat (rq_limit q) < length all), lm_aggregate_truncated = cutoff,
       lm_truncated = (ls_source_truncated st \<or> unat (rq_limit q) < length all \<or> cutoff)\<rparr>"
    by (rule finish_list_Inr [OF assms(1)])
  have len: "length all = length (ls_items st)" using arg_cong [OF all, of length] by simp
  have "bt_ok (rs_details r)" if "r \<in> set shown" for r
  proof -
    have "r \<in> set all" using that in_set_takeD by (fastforce simp: shown sort_resources_def)
    then have "Inr r \<in> resource_of (rq_kind q) ` set (ls_items st)" by (metis all image_eqI list.set_map)
    then show ?thesis using resource_of_identified(2) by (metis imageE)
  qed
  then have "list_all2 shortened shown (rl_items l) \<and> (cutoff \<longleftrightarrow> map message_of (rl_items l) \<noteq> map message_of shown)"
    using items bound_messages_spec [of "32 * 1024" shown "rl_items l" cutoff]
    by (cases "rq_kind q = RK_Event") (simp_all add: bound_event_messages_def list.rel_refl shortened_refl)
  moreover from this have "length (rl_items l) = length shown" using list_all2_lengthD by metis
  moreover have "length shown \<le> 500" using len assms(2) by (simp add: shown sort_resources_def)
  moreover have "rq_kind q \<noteq> RK_Event \<Longrightarrow> rl_items l = shown" using items by simp
  moreover have "shown = take (unat (rq_limit q)) (sort_key list_order all)"
    by (simp add: shown sort_resources_def list_order_def [abs_def])
  ultimately show ?thesis
    using all kind len assms(2,3) finish_list_wellformed [OF assms(1)]
    by (intro exI [of _ all]) (simp add: m unat_of_nat_u8 unat_of_nat_u16 Let_def)
qed


text \<open>
  C11: Listing always ends, after at most five \<open>kubectl\<close> processes whatever the API answers.  Each asks for a
  hundred items, the first without a continuation token and every other one with the token of the page
  before it; no token is used twice, and a listing whose last page repeats a token that was used ends with
  the error for an invalid response.  Recording the processes changes nothing else.
\<close>

theorem list_at_most_five_requests:
  assumes "list_cancelled parse encode (recorded run) q (tr, s) = (r, (tr', s'))"
  shows "list_cancelled parse encode run q s = (r, s')
    \<and> (\<exists>new. tr' = tr @ new \<and> length new \<le> 5
         \<and> (\<forall>base. object_path (rq_kind q) (rq_namespace q) None = Inr base \<longrightarrow>
              (\<exists>tokens outs. pages_read parse encode base (selector (rq_labels q)) None tokens outs new
                 \<and> (\<forall>t\<in>set tokens. page_token (doc_of parse (last outs)) = Some t \<longrightarrow> r = Inl KE_InvalidResponse))))"
proof (cases "object_path (rq_kind q) (rq_namespace q) None")
  case (Inl e)
  with list_cancelled_pages [OF assms] show ?thesis by simp
next
  case (Inr base)
  with list_cancelled_pages [OF assms] obtain new tokens outs looped where
    "list_cancelled parse encode run q s = (r, s')"
    and new: "tr' = tr @ new" and read: "pages_read parse encode base (selector (rq_labels q)) None tokens outs new"
    and facts: "loop_facts parse list_start tokens outs looped"
    and r: "r = (case looped of Inl e \<Rightarrow> Inl e | Inr st \<Rightarrow> finish_list q st)"
    by blast
  moreover have "length new \<le> 5" using read facts by (simp add: pages_read_def loop_facts_def)
  moreover have "r = Inl KE_InvalidResponse" if "t \<in> set tokens" "page_token (doc_of parse (last outs)) = Some t" for t
    using facts that r by (auto simp: loop_facts_def)
  ultimately show ?thesis using Inr by auto
qed

text \<open>
  C7: A list result is what the pages that were read say, and its metadata says what was left out.  Its items
  are the items of all pages, normalised, in the order of namespace and name, cut after the requested number;
  only the messages of events may be shortened, to at most 32 KiB together.  The metadata counts the pages,
  the items on them and the items returned; the source is marked as truncated exactly when the last page
  has a continuation token, the result exactly when there were more items than asked for, the
  messages exactly when one was shortened, and the whole exactly when one of the three was.
\<close>

theorem list_result_bounded_and_sorted:
  assumes "list_cancelled parse encode (recorded run) q (tr, s) = (Inr l, (tr', s'))"
  shows "\<exists>base tokens outs all. object_path (rq_kind q) (rq_namespace q) None = Inr base
    \<and> pages_read parse encode base (selector (rq_labels q)) None tokens outs (drop (length tr) tr')
    \<and> map (resource_of (rq_kind q)) (concat (map (\<lambda>out. page_items (doc_of parse out)) outs)) = map Inr all
    \<and> (let shown = take (unat (rq_limit q)) (sort_key list_order all); m = rl_metadata l in
        rl_kind l = rq_kind q \<and> list_all2 shortened shown (rl_items l) \<and> (rq_kind q \<noteq> RK_Event \<longrightarrow> rl_items l = shown)
        \<and> sorted (map list_order (rl_items l)) \<and> list_all (resource_identified (rq_kind q)) (rl_items l)
        \<and> (rq_kind q = RK_Event \<longrightarrow> sum_list (map message_bytes (rl_items l)) \<le> 32768)
        \<and> unat (lm_pages m) = length outs \<and> length outs \<le> 5
        \<and> unat (lm_inspected m) = length all \<and> length all \<le> 500 \<and> unat (lm_returned m) = length shown
        \<and> (lm_source_truncated m \<longleftrightarrow> page_token (doc_of parse (last outs)) \<noteq> None)
        \<and> (lm_result_truncated m \<longleftrightarrow> unat (rq_limit q) < length all)
        \<and> (lm_aggregate_truncated m \<longleftrightarrow> map message_of (rl_items l) \<noteq> map message_of shown)
        \<and> (lm_truncated m \<longleftrightarrow> lm_source_truncated m \<or> lm_result_truncated m \<or> lm_aggregate_truncated m))"
proof -
  from list_cancelled_pages(1) [OF assms] obtain base where
    base: "object_path (rq_kind q) (rq_namespace q) None = Inr base"
    by (auto simp: list_cancelled_Inr)
  from list_cancelled_pages(2) [OF assms base] obtain new tokens outs looped s1 where new: "tr' = tr @ new"
    and loop: "list_loop parse encode run base (selector (rq_labels q)) list_start s = (looped, s1)"
    and read: "pages_read parse encode base (selector (rq_labels q)) None tokens outs new"
    and facts: "loop_facts parse list_start tokens outs looped"
    and r: "(Inr l :: kube_error + resource_list) = (case looped of Inl e \<Rightarrow> Inl e | Inr st \<Rightarrow> finish_list q st)"
    by blast
  from r obtain st where st: "looped = Inr st" and fin: "finish_list q st = Inr l"
    by (cases looped) auto
  have outs: "length outs \<le> 5" "ls_pages st = length outs"
    and items: "ls_items st = concat (map (\<lambda>out. page_items (doc_of parse out)) outs)"
    and source: "ls_source_truncated st \<longleftrightarrow> page_token (doc_of parse (last outs)) \<noteq> None"
    using facts by (auto simp: loop_facts_def st list_start_def)
  have "length (ls_items st) \<le> 500" "ls_pages st \<le> 5"
    using list_loop_result [OF list_inv_start loop [unfolded st]] by simp_all
  from finish_list_result [OF fin this] show ?thesis
  proof (elim exE, goal_cases)
    case (1 all)
    then show ?case
      using base read outs(1) unfolding items outs(2) source new
      by (intro exI [of _ base] exI [of _ tokens] exI [of _ outs] exI [of _ all]) (simp add: Let_def)
  qed
qed

lemma recorded_sample_list:
  "\<exists>l tr. list_cancelled (\<lambda>_. Some empty_list) id (recorded quiet_run) sample_query ([], ()) = (Inr l, (tr, ()))"
proof -
  obtain r tr s' where run: "list_cancelled (\<lambda>_. Some empty_list) id (recorded quiet_run) sample_query ([], ()) = (r, (tr, s'))"
    by (metis surj_pair)
  with list_cancelled_pages(1) [OF run] sample_list show ?thesis by auto
qed

lemma list_at_most_five_requests_witness:
  "\<exists>l tr. list_cancelled (\<lambda>_. Some empty_list) id (recorded quiet_run) sample_query ([], ()) = (Inr l, (tr, ()))
    \<and> length tr \<le> 5"
  using recorded_sample_list list_at_most_five_requests by fastforce

lemma list_result_bounded_and_sorted_witness:
  "\<exists>l tr. list_cancelled (\<lambda>_. Some empty_list) id (recorded quiet_run) sample_query ([], ()) = (Inr l, (tr, ()))
    \<and> rl_kind l = RK_Node \<and> sorted (map list_order (rl_items l))"
proof -
  obtain l tr where run: "list_cancelled (\<lambda>_. Some empty_list) id (recorded quiet_run) sample_query ([], ()) = (Inr l, (tr, ()))"
    using recorded_sample_list by blast
  have "rl_kind l = rq_kind sample_query \<and> sorted (map list_order (rl_items l))"
    using list_result_bounded_and_sorted [OF run] unfolding Let_def by blast
  with run show ?thesis by (auto simp: sample_query_def)
qed

section \<open>Pod logs\<close>

text \<open>
  The document of the pod a log query names: its name, namespace and UID, and a container of that name in one
  of the lists of its specification or status.
\<close>

definition container_lists :: "string list" where
  "container_lists = [''/spec/initContainers'', ''/spec/containers'', ''/spec/ephemeralContainers'',
     ''/status/initContainerStatuses'', ''/status/containerStatuses'', ''/status/ephemeralContainerStatuses'']"

definition names_pod :: "pod_logs_query \<Rightarrow> json \<Rightarrow> bool" where
  "names_pod q pod \<longleftrightarrow>
     json_pointer pod ''/metadata/name'' = Some (JStr (plq_pod q))
     \<and> json_pointer pod ''/metadata/namespace'' = Some (JStr (plq_namespace q))
     \<and> json_pointer pod ''/metadata/uid'' = Some (JStr (plq_pod_uid q))
     \<and> (\<exists>pointer\<in>set container_lists. \<exists>containers. json_pointer pod pointer = Some (JArr containers)
          \<and> (\<exists>container\<in>set containers. json_get container ''name'' = Some (JStr (plq_container q))))"

lemma opt_str_Some: "opt_str v = Some t \<longleftrightarrow> v = Some (JStr t)"
  by (cases v; cases "the v") (auto simp: opt_str_def)

lemma opt_array_Some: "opt_array v = Some xs \<longleftrightarrow> v = Some (JArr xs)"
  by (auto simp: opt_array_def as_array_Some bind_eq_Some_conv)

lemma pod_matches_iff: "pod_matches_log_query pod q \<longleftrightarrow> names_pod q pod"
  unfolding pod_matches_log_query_def names_pod_def pod_has_container_def list_ex_iff set_concat set_map_filter
    opt_str_Some opt_array_Some container_lists_def
  by (intro conj_cong refl) blast

definition pod_request :: "pod_logs_query \<Rightarrow> string list" where
  "pod_request q = [''get'', ''--raw=/api/v1/namespaces/'' @ plq_namespace q @ ''/pods/'' @ plq_pod q]"

definition log_request :: "pod_logs_query \<Rightarrow> string list" where
  "log_request q = [''get'', ''--raw='' @ log_path q]"

text \<open>A document that was read names the pod.\<close>

definition reads_pod :: "json_parser \<Rightarrow> pod_logs_query \<Rightarrow> kube_error + string \<Rightarrow> bool" where
  "reads_pod parse q out \<longleftrightarrow> (\<exists>b pod. out = Inr b \<and> parse b = Some pod \<and> names_pod q pod)"

lemma check_pod_recorded:
  assumes "check_pod parse (recorded run) q (''/api/v1/namespaces/'' @ plq_namespace q @ ''/pods/'' @ plq_pod q) (tr, s) = (r, (tr', s'))"
  shows "\<exists>out. tr' = tr @ [(pod_request q, out)] \<and> (r = Inr () \<longleftrightarrow> reads_pod parse q out)
    \<and> (\<forall>b pod. out = Inr b \<longrightarrow> parse b = Some pod \<longrightarrow> \<not> names_pod q pod \<longrightarrow> r = Inl KE_NotFound)"
proof -
  let ?args = "pod_request q"
  obtain out s1 where run: "run ?args KOp_Query s = (out, s1)" by fastforce
  then have rrun: "recorded run ?args KOp_Query (tr, s) = (out, (tr @ [(?args, out)], s1))" by (simp add: recorded_eq)
  with assms show ?thesis
    by (cases out) (auto simp: check_pod_def raw_cancelled_def io_bind_def io_lift_def io_guard_def guard_or_def
        pod_request_def parse_json_def pod_matches_iff reads_pod_def ok_or_Inr split: sum.splits if_splits)
qed

text \<open>
  How a log query can go: it stops before the first request, after the first check, after the log, or after
  the second check.
\<close>

lemma pod_logs_recorded:
  assumes "pod_logs_cancelled parse (recorded run) cluster_name redactions q (tr, s) = (r, (tr', s'))"
  obtains (refused) e where "tr' = tr" "r = Inl e"
  | (other_pod) e first where "tr' = tr @ [(pod_request q, first)]" "r = Inl e" "\<not> reads_pod parse q first"
      "\<forall>b pod. first = Inr b \<longrightarrow> parse b = Some pod \<longrightarrow> \<not> names_pod q pod \<longrightarrow> e = KE_NotFound"
  | (no_log) e first where "tr' = tr @ [(pod_request q, first), (log_request q, Inl e)]" "r = Inl e" "reads_pod parse q first"
  | (checked) first b second where
      "tr' = tr @ [(pod_request q, first), (log_request q, Inr b), (pod_request q, second)]" "reads_pod parse q first"
      "\<forall>b pod. second = Inr b \<longrightarrow> parse b = Some pod \<longrightarrow> \<not> names_pod q pod \<longrightarrow> r = Inl KE_NotFound"
      "if reads_pod parse q second then r = Inr (QR_PodLogs (pod_logs_result cluster_name redactions q b)) else \<exists>e. r = Inl e"
proof (cases "pod_logs_query_is_valid q")
  case False
  with assms show ?thesis
    by (intro refused) (auto simp: pod_logs_cancelled_def io_bind_def io_guard_def guard_or_def io_lift_def)
next
  case True
  let ?path = "''/api/v1/namespaces/'' @ plq_namespace q @ ''/pods/'' @ plq_pod q"
  have path: "object_path RK_Pod (Some (plq_namespace q)) (Some (plq_pod q)) = Inr ?path"
    by (simp add: object_path_def kind_namespaced_def)
  obtain r1 tr1 s1 where c1: "check_pod parse (recorded run) q ?path (tr, s) = (r1, (tr1, s1))"
    by (metis surj_pair)
  from check_pod_recorded [OF this] obtain first where tr1: "tr1 = tr @ [(pod_request q, first)]"
    and r1: "r1 = Inr () \<longleftrightarrow> reads_pod parse q first"
    and nf1: "\<forall>b pod. first = Inr b \<longrightarrow> parse b = Some pod \<longrightarrow> \<not> names_pod q pod \<longrightarrow> r1 = Inl KE_NotFound" by blast
  have start: "pod_logs_cancelled parse (recorded run) cluster_name redactions q (tr, s) =
      io_bind (check_pod parse (recorded run) q ?path) (\<lambda>_.
      io_bind (raw_cancelled (recorded run) (log_path q) KOp_Query) (\<lambda>bytes'.
      io_bind (check_pod parse (recorded run) q ?path) (\<lambda>_.
        io_return (QR_PodLogs (pod_logs_result cluster_name redactions q bytes'))))) (tr, s)"
    by (simp add: pod_logs_cancelled_def path True io_bind_def io_guard_def guard_or_def io_lift_def)
  show ?thesis
  proof (cases r1)
    case (Inl e)
    with start c1 assms have "r = Inl e" "tr' = tr1" by (auto simp: io_bind_def)
    with Inl tr1 r1 nf1 show ?thesis by (intro other_pod) auto
  next
    case (Inr u)
    obtain out s2 where run: "run (log_request q) KOp_Query s1 = (out, s2)" by fastforce
    then have log: "raw_cancelled (recorded run) (log_path q) KOp_Query (tr1, s1) = (out, (tr1 @ [(log_request q, out)], s2))"
      by (simp add: recorded_eq raw_cancelled_def log_request_def)
    show ?thesis
    proof (cases out)
      case (Inl e)
      with Inr start c1 log assms have "r = Inl e" "tr' = tr1 @ [(log_request q, Inl e)]" by (auto simp: io_bind_def)
      with tr1 r1 Inr show ?thesis by (intro no_log) auto
    next
      case (Inr b)
      obtain r2 tr2 s3 where c2: "check_pod parse (recorded run) q ?path (tr1 @ [(log_request q, Inr b)], s2) = (r2, (tr2, s3))"
        by (metis surj_pair)
      from check_pod_recorded [OF this] obtain second where tr2: "tr2 = tr1 @ [(log_request q, Inr b)] @ [(pod_request q, second)]"
        and r2: "r2 = Inr () \<longleftrightarrow> reads_pod parse q second"
        and nf2: "\<forall>b pod. second = Inr b \<longrightarrow> parse b = Some pod \<longrightarrow> \<not> names_pod q pod \<longrightarrow> r2 = Inl KE_NotFound" by auto
      from \<open>r1 = Inr u\<close> Inr start c1 log c2 assms have
        r: "r = (case r2 of Inl e \<Rightarrow> Inl e | Inr _ \<Rightarrow> Inr (QR_PodLogs (pod_logs_result cluster_name redactions q b)))"
        and "tr' = tr2"
        by (auto simp: io_bind_def io_return_def split: sum.splits)
      with tr1 tr2 have "tr' = tr @ [(pod_request q, first), (log_request q, Inr b), (pod_request q, second)]" by simp
      then show ?thesis
      proof (rule checked)
        show "reads_pod parse q first" using r1 \<open>r1 = Inr u\<close> by simp
        show "\<forall>b pod. second = Inr b \<longrightarrow> parse b = Some pod \<longrightarrow> \<not> names_pod q pod \<longrightarrow> r = Inl KE_NotFound"
          using nf2 r by simp
        show "if reads_pod parse q second then r = Inr (QR_PodLogs (pod_logs_result cluster_name redactions q b)) else \<exists>e. r = Inl e"
          using r2 r by (cases r2) auto
      qed
    qed
  qed
qed

text \<open>
  C6: Pod logs are returned only between two checks of the pod's identity.  A log query runs at most three
  processes: it reads the pod, then its log, then the pod again.  The log is read only after a document with
  the name, namespace, UID and a container of that name, and it is returned exactly when the second
  document has them as well; a document of another pod, also of one with the same name and another UID,
  ends the query with the error for what is not there.
\<close>

theorem pod_logs_between_identity_checks:
  assumes "pod_logs_cancelled parse (recorded run) cluster_name redactions q (tr, s) = (r, (tr', s'))"
  shows "\<exists>new. tr' = tr @ new \<and> map fst new = take (length new) [pod_request q, log_request q, pod_request q]
    \<and> (1 < length new \<longrightarrow> reads_pod parse q (snd (new ! 0)))
    \<and> ((\<exists>res. r = Inr res) \<longleftrightarrow> length new = 3 \<and> reads_pod parse q (snd (new ! 2)))
    \<and> (\<forall>res. r = Inr res \<longrightarrow> (\<exists>b. snd (new ! 1) = Inr b \<and> res = QR_PodLogs (pod_logs_result cluster_name redactions q b)))
    \<and> (\<forall>(args, out)\<in>set new. \<forall>b pod. args = pod_request q \<longrightarrow> out = Inr b \<longrightarrow> parse b = Some pod \<longrightarrow> \<not> names_pod q pod
         \<longrightarrow> r = Inl KE_NotFound)"
  using assms
proof (cases rule: pod_logs_recorded)
  case refused
  then show ?thesis by (intro exI [of _ "[]"]) simp
next
  case (other_pod e first)
  then show ?thesis by (intro exI [of _ "[(pod_request q, first)]"]) simp
next
  case (no_log e first)
  then show ?thesis
    by (intro exI [of _ "[(pod_request q, first), (log_request q, Inl e)]"]) (auto simp: reads_pod_def)
next
  case (checked first b second)
  then show ?thesis
    by (intro exI [of _ "[(pod_request q, first), (log_request q, Inr b), (pod_request q, second)]"])
      (auto simp: reads_pod_def numeral_2_eq_2 numeral_3_eq_3 log_request_def pod_request_def log_path_def split: if_splits)
qed

lemma recorded_sample_logs:
  "pod_logs_cancelled (\<lambda>_. Some sample_pod) (recorded quiet_run) cluster_name redactions sample_logs_query ([], ())
     = (Inr (QR_PodLogs (pod_logs_result cluster_name redactions sample_logs_query ''{}'')),
        ([(pod_request sample_logs_query, Inr ''{}''), (log_request sample_logs_query, Inr ''{}''),
          (pod_request sample_logs_query, Inr ''{}'')], ()))"
proof -
  have "pod_logs_query_is_valid sample_logs_query"
    by (simp add: pod_logs_query_is_valid_def sample_logs_query_def valid_namespace_def
        valid_object_name_def valid_dns_subdomain_def valid_dns_label_iff dns_byte_code ascii_defs valid_uid_def)
  moreover have "pod_matches_log_query sample_pod sample_logs_query"
    by (simp add: pod_matches_log_query_def sample_pod_def sample_logs_query_def json_pointer_def
        opt_str_def pod_has_container_def opt_array_def List.map_filter_simps)
  moreover have "object_path RK_Pod (Some n) (Some m) = Inr (''/api/v1/namespaces/'' @ n @ ''/pods/'' @ m)" for n m
    by (simp add: object_path_def kind_namespaced_def)
  ultimately show ?thesis
    by (simp add: pod_logs_cancelled_def check_pod_def io_bind_def io_guard_def guard_or_def io_lift_def
        raw_cancelled_def quiet_run_def parse_json_def io_return_def recorded_def pod_request_def log_request_def)
qed

lemma pod_logs_between_identity_checks_witness:
  "\<exists>res new. pod_logs_cancelled (\<lambda>_. Some sample_pod) (recorded quiet_run) ''lab'' [] sample_logs_query ([], ()) = (Inr res, (new, ()))
    \<and> reads_pod (\<lambda>_. Some sample_pod) sample_logs_query (snd (new ! 2))"
  using pod_logs_between_identity_checks [OF recorded_sample_logs [of "''lab''" "[]"]] recorded_sample_logs [of "''lab''" "[]"]
  by auto

section \<open>Secrets\<close>

lemma replace_from_absent: "pat \<noteq> [] \<Longrightarrow> \<not> str_contains s pat \<Longrightarrow> replace_from pat rep 0 s = s"
  by (induction s) (simp_all add: replace_from_0_Cons)

lemma redact_is_redact_all:
  "\<forall>s\<in>set secrets. s \<noteq> [] \<Longrightarrow> fst (redact secrets text redacted) = redact_all secrets text"
  by (induction secrets "text" redacted rule: redact.induct)
    (auto simp: redact_all_def str_replace_def replace_from_absent)

lemma redact_flag_stays: "snd (redact secrets text True)"
  by (induction secrets "text" True rule: redact.induct) auto

lemma redact_flag: "snd (redact secrets text redacted) \<longleftrightarrow> redacted \<or> (\<exists>s\<in>set secrets. str_contains text s)"
  by (induction secrets "text" redacted rule: redact.induct) (auto simp: redact_flag_stays)

text \<open>
  C10: The text of pod logs is the output of the log request, with every secret of the client's configuration
  and of its kubeconfig replaced and then cut at a character boundary to the requested number of bytes; no
  such secret occurs in it, unless it has a bracket in it or is a part of the word \<open>REDACTED\<close>.  The flags
  say what was done: cut by bytes exactly when the output has reached the limit or the redacted text is
  longer, cut at the tail exactly when the text has as many lines as were asked for, truncated when either
  was, and redacted exactly when the output contains a secret.
\<close>

theorem pod_logs_hide_secrets:
  assumes "kubernetes_client_new kubeconfig config = Inr c"
    and "pod_logs_cancelled parse (recorded run) (kcl_cluster_name c) (kcl_redactions c) q (tr, s)
      = (Inr (QR_PodLogs l), (tr', s'))"
  shows "\<exists>b. tr' ! (length tr + 1) = (log_request q, Inr b)
    \<and> (let secrets = kc_redactions config @ static_kubeconfig_tokens kubeconfig;
           output = from_utf8_lossy b; clean = redact_all (kcl_redactions c) output; limit = unat (plq_max_bytes q) in
        pl_text l = truncate_utf8 clean limit \<and> length (pl_text l) \<le> limit
        \<and> (\<forall>secret\<in>set secrets. redactable secret \<longrightarrow> \<not> str_contains (pl_text l) secret)
        \<and> (pl_byte_truncated l \<longleftrightarrow> limit \<le> length b \<or> limit < length clean)
        \<and> (pl_tail_truncated l \<longleftrightarrow> unat (plq_tail_lines q) \<le> length (str_lines (pl_text l)))
        \<and> (pl_truncated l \<longleftrightarrow> pl_tail_truncated l \<or> pl_byte_truncated l)
        \<and> (pl_redacted l \<longleftrightarrow> (\<exists>secret\<in>set secrets. secret \<noteq> [] \<and> str_contains output secret)))"
  using assms(2)
proof (cases rule: pod_logs_recorded)
  case (checked first b second)
  from checked(4) have l: "l = pod_logs_result (kcl_cluster_name c) (kcl_redactions c) q b"
    by (auto split: if_splits)
  have secrets: "set (kcl_redactions c) = set (kc_redactions config @ static_kubeconfig_tokens kubeconfig) - {[]}"
    by (rule redactions_of_client [OF assms(1)])
  then have ne: "\<forall>s\<in>set (kcl_redactions c). s \<noteq> []" by auto
  have "redactable secret \<Longrightarrow> secret \<noteq> []" for secret by (simp add: redactable_def)
  then have hidden: "\<forall>secret\<in>set (kc_redactions config @ static_kubeconfig_tokens kubeconfig).
      redactable secret \<longrightarrow> \<not> str_contains (pl_text l) secret"
    unfolding l using pod_logs_redacted [OF _ _ ne] secrets by blast
  have "tr' ! (length tr + 1) = (log_request q, Inr b)" by (simp add: checked(1) nth_append)
  moreover have out: "pl_text l = truncate_utf8 (redact_all (kcl_redactions c) (from_utf8_lossy b)) (unat (plq_max_bytes q))"
    by (simp add: l pod_logs_text redact_is_redact_all [OF ne])
  moreover have "pl_byte_truncated l \<longleftrightarrow> unat (plq_max_bytes q) \<le> length b
      \<or> unat (plq_max_bytes q) < length (redact_all (kcl_redactions c) (from_utf8_lossy b))"
    "pl_tail_truncated l \<longleftrightarrow> unat (plq_tail_lines q) \<le> length (str_lines (pl_text l))"
    "pl_truncated l \<longleftrightarrow> pl_tail_truncated l \<or> pl_byte_truncated l"
    "pl_redacted l \<longleftrightarrow> snd (redact (kcl_redactions c) (from_utf8_lossy b) False)"
    unfolding redact_is_redact_all [OF ne, of _ False, symmetric]
    by (simp_all add: l pod_logs_result_def Let_def truncate_string_utf8_eq split: prod.splits)
  moreover from this(4) have "pl_redacted l
      \<longleftrightarrow> (\<exists>secret\<in>set (kc_redactions config @ static_kubeconfig_tokens kubeconfig). secret \<noteq> [] \<and> str_contains (from_utf8_lossy b) secret)"
    unfolding redact_flag secrets by auto
  moreover have "length (pl_text l) \<le> unat (plq_max_bytes q)" unfolding out by (rule length_truncate_utf8)
  ultimately show ?thesis using hidden unfolding Let_def by blast
qed simp_all

lemma pod_logs_hide_secrets_witness:
  "\<exists>c l tr. kubernetes_client_new None
        (with_redactions (kubernetes_config_new ''/usr/bin/kubectl'' ''/etc/kubeconfig'' ''/tmp/cache'' ''lab'' ''lab'') [''s3cret''])
      = Inr c
    \<and> pod_logs_cancelled (\<lambda>_. Some sample_pod) (recorded quiet_run) (kcl_cluster_name c) (kcl_redactions c) sample_logs_query ([], ())
      = (Inr (QR_PodLogs l), (tr, ()))
    \<and> \<not> str_contains (pl_text l) ''s3cret''"
proof -
  let ?config = "with_redactions (kubernetes_config_new ''/usr/bin/kubectl'' ''/etc/kubeconfig'' ''/tmp/cache'' ''lab'' ''lab'') [''s3cret'']"
  have "valid_context ''lab''" "valid_catalog_name ''lab''"
    by (simp_all add: valid_context_def valid_catalog_name_def valid_identifier_def starts_with_def
        chars_ascii ascii_defs is_control_def is_whitespace_def)
  then obtain c where c: "kubernetes_client_new None ?config = Inr c"
    by (simp add: kubernetes_client_new_def with_redactions_def kubernetes_config_new_def Let_def
        kube_runner_new_def is_absolute_def from_millis_def from_secs_def)
  have "redactable ''s3cret''" by (simp add: redactable_def)
  moreover have "''s3cret'' \<in> set (kc_redactions ?config @ static_kubeconfig_tokens None)" by (simp add: with_redactions_def)
  ultimately have "\<not> str_contains (pl_text (pod_logs_result (kcl_cluster_name c) (kcl_redactions c) sample_logs_query ''{}'')) ''s3cret''"
    using pod_logs_hide_secrets [OF c recorded_sample_logs] unfolding Let_def by blast
  with c recorded_sample_logs show ?thesis by blast
qed

section \<open>Mutations\<close>

text \<open>What a command asks for: the action, the namespace, the name of the object and whether it is a dry run.\<close>

fun command_asks :: "kube_exec_command \<Rightarrow> string \<times> string \<times> string \<times> bool" where
  "command_asks (KX_WorkloadRestart _ _ ns n d) = (''workload_restart'', ns, n, d)"
| "command_asks (KX_WorkloadScale _ _ ns n _ d) = (''workload_scale'', ns, n, d)"
| "command_asks (KX_CronjobSuspend _ ns n _ d) = (''cronjob_suspend'', ns, n, d)"
| "command_asks (KX_CronjobTrigger _ ns n d) = (''cronjob_trigger'', ns, n, d)"
| "command_asks (KX_PodDelete _ ns n d) = (''pod_delete'', ns, n, d)"

text \<open>The subcommand and the words that say which object is changed, and to what.\<close>

fun command_words :: "kube_exec_command \<Rightarrow> string list" where
  "command_words (KX_WorkloadRestart _ k _ n d) = [if d then ''patch'' else ''rollout'', restart_kind_argument k @ ''/'' @ n]"
| "command_words (KX_WorkloadScale _ k _ n r _) = [''scale'', scalable_kind_argument k @ ''/'' @ n, ''--replicas='' @ show_nat (unat r)]"
| "command_words (KX_CronjobSuspend _ _ n b _) = [''patch'', ''cronjob/'' @ n,
     ''--patch={'' @ quoted ''spec'' @ '':{'' @ quoted ''suspend'' @ '':'' @ show_bool b @ ''}}'']"
| "command_words (KX_CronjobTrigger _ _ n _) = [''create'', ''job'', ''--from=cronjob/'' @ n]"
| "command_words (KX_PodDelete _ _ n _) = [''delete'', ''pod/'' @ n]"

text \<open>The object a successful command reports: the one it names, or the job that a trigger creates.\<close>

definition reported_name :: "kube_exec_command \<Rightarrow> string \<Rightarrow> u64 \<Rightarrow> u64 \<Rightarrow> string" where
  "reported_name c name secs sequence =
     (case c of KX_CronjobTrigger _ _ _ _ \<Rightarrow> trigger_name name secs sequence | _ \<Rightarrow> name)"

lemma mutation_arguments_ask:
  assumes "command_asks c = (action, ns, name, dry)"
    and "mutation_arguments now secs sequence c = ((args, action', ns', name', dry'), sequence')"
  shows "action' = action \<and> ns' = ns \<and> name' = reported_name c name secs sequence \<and> dry' = dry
    \<and> hd args = hd (command_words c) \<and> set (command_words c) \<subseteq> set args"
  using assms by (cases c) (auto simp: reported_name_def Let_def base_mutation_def split: if_splits)

text \<open>
  C8: The command line of a validated mutation does what the command asks for: it begins with its
  subcommand, names its object and the new value, carries \<open>--dry-run=server\<close> exactly when the command is
  a dry run, and has the command's namespace and no other.  What is reported with it are the command's
  action, namespace, dry-run flag and name, or for a trigger the name of the job, which is valid.  Every
  argument that begins with a dash is one of the fixed options of the client: no name or namespace a caller
  supplies can be read by \<open>kubectl\<close> as an option.
\<close>

theorem mutation_arguments_safe:
  assumes "kube_exec_is_valid c" "command_asks c = (action, ns, name, dry)"
    and "mutation_arguments now secs sequence c = ((args, action', ns', name', dry'), sequence')"
  shows "hd args = hd (command_words c) \<and> set (command_words c) \<subseteq> set args
    \<and> (''--dry-run=server'' \<in> set args \<longleftrightarrow> dry)
    \<and> (\<forall>other. ''--namespace='' @ other \<in> set args \<longleftrightarrow> other = ns)
    \<and> action' = action \<and> ns' = ns \<and> dry' = dry \<and> name' = reported_name c name secs sequence
    \<and> valid_namespace ns \<and> valid_object_name name'
    \<and> (\<forall>a\<in>set args. starts_with a ''-'' \<longrightarrow> known_flag ns a)"
proof -
  note ask = mutation_arguments_ask [OF assms(2,3)]
  note shape = mutation_arguments_shape [OF assms(1,3)]
  have "other = ns" if "''--namespace='' @ other \<in> set args" for other
  proof -
    from that shape ask have "known_flag ns (''--namespace='' @ other)" by (auto simp: starts_with_def)
    then show ?thesis by (auto simp: known_flag_def starts_with_def)
  qed
  with ask shape show ?thesis by blast
qed

lemma sample_command_words:
  "command_asks sample_command = (''pod_delete'', ''default'', ''web-0'', True)"
  by (simp add: sample_command_def)

lemma mutation_arguments_safe_witness:
  "\<exists>args. fst (mutation_arguments ''now'' 1 2 sample_command) = (args, ''pod_delete'', ''default'', ''web-0'', True)
    \<and> ''--dry-run=server'' \<in> set args"
proof -
  obtain args action ns name dry sq where m:
    "mutation_arguments ''now'' 1 2 sample_command = ((args, action, ns, name, dry), sq)"
    by (metis surj_pair)
  note safe = mutation_arguments_safe [OF sample_command_valid sample_command_words m]
  from safe have "action = ''pod_delete''" "ns = ''default''" "dry = True" "''--dry-run=server'' \<in> set args" by blast+
  moreover from safe have "name = ''web-0''" by (simp add: reported_name_def sample_command_def)
  ultimately show ?thesis using m by simp
qed

text \<open>
  C4: A mutation request that is not valid or names another cluster is rejected without any effect on the
  outside world.  Any other failure is capacity exhaustion, an unknown outcome, or a rejection whose
  \<open>kubectl\<close> process was never spawned.  A success has been seen: the process of exactly this command line
  exited with status zero; and it reports the action, the namespace, the name and the dry-run flag of the
  command, as validated for a dry run and as accepted otherwise.
\<close>

theorem execute_outcome:
  assumes "execute_cancelled (runner_io r world) cluster_name now secs c (sequence, s) = (result, (sequence', s'))"
    and asks: "command_asks c = (action, ns, name, dry)"
  shows "(\<not> kube_exec_is_valid c \<or> kube_exec_cluster c \<noteq> cluster_name
            \<longrightarrow> result = Inl KE_MutationRejected \<and> s' = s \<and> sequence' = sequence)
    \<and> (kube_exec_is_valid c \<and> kube_exec_cluster c = cluster_name \<longrightarrow>
         (\<exists>env. world s (kubectl_command r (fst (fst (mutation_arguments now secs sequence c)))) = (env, s')
            \<and> (case result of
                 Inl e \<Rightarrow> e = KE_CapacityExhausted \<or> e = KE_MutationOutcomeUnknown
                   \<or> e = KE_MutationRejected \<and> \<not> we_spawned (worker KOp_Mutation (re_process env))
               | Inr x \<Rightarrow> (\<exists>b. clean_exit_seen (pe_polls (re_process env)) b)
                   \<and> ex_action x = action \<and> ex_namespace x = ns \<and> ex_name x = reported_name c name secs sequence
                   \<and> ex_dry_run x = dry \<and> ex_status x = (if dry then ''validated'' else ''accepted'')
                   \<and> valid_namespace ns \<and> valid_object_name (ex_name x))))"
proof (cases "kube_exec_is_valid c \<and> kube_exec_cluster c = cluster_name")
  case False
  with assms show ?thesis by (auto simp: execute_cancelled_def)
next
  case True
  obtain args action' ns' name' dry' sq where m:
    "mutation_arguments now secs sequence c = ((args, action', ns', name', dry'), sq)"
    by (metis surj_pair)
  obtain env s1 where w: "world s (kubectl_command r args) = (env, s1)" by fastforce
  have run: "runner_io r world args KOp_Mutation s = (run_cancelled KOp_Mutation env, s1)"
    by (simp add: runner_io_def w)
  note ask = mutation_arguments_ask [OF asks m]
  from True m have safe: "valid_namespace ns'" "valid_object_name name'"
    using mutation_arguments_shape [OF _ m] by blast+
  show ?thesis
  proof (cases "run_cancelled KOp_Mutation env")
    case (Inl e)
    with True m run assms have "result = Inl e" "s' = s1" by (auto simp: execute_cancelled_def)
    with True m w run_cancelled_mutation_errors [OF Inl] show ?thesis by auto
  next
    case (Inr b)
    with True m run assms(1) have "s' = s1" and result: "result = Inr \<lparr>ex_status = (if dry' then ''validated'' else ''accepted''),
        ex_action = action', ex_namespace = ns', ex_name = name', ex_dry_run = dry'\<rparr>"
      by (simp_all add: execute_cancelled_def)
    moreover have "\<exists>b. clean_exit_seen (pe_polls (re_process env)) b" using run_cancelled_success [OF Inr] by blast
    ultimately show ?thesis using True m w ask safe by simp
  qed
qed

lemma execute_outcome_witness:
  "\<exists>x. execute_cancelled (runner_io sample_runner (\<lambda>s _. (printing_env ''pod/web-0'', s))) ''lab'' ''now'' 1
         sample_command (7, ()) = (Inr x, (7, ())) \<and> ex_status x = ''validated'' \<and> ex_name x = ''web-0''"
proof -
  let ?run = "execute_cancelled (runner_io sample_runner (\<lambda>s _. (printing_env ''pod/web-0'', s))) ''lab'' ''now'' 1
         sample_command (7, ())"
  have "run_cancelled KOp_Mutation (printing_env ''pod/web-0'') = Inr ''pod/web-0''"
    by (simp add: printing_env_def run_cancelled_def worker_def worker_loop_def worker_start_def
        worker_complete_def worker_select_def drain_def max_stdout_bytes_def max_stderr_bytes_def
        exit_success_def numeral_3_eq_3)
  then obtain x where run: "?run = (Inr x, (7, ()))"
    using sample_command_valid by (auto simp: execute_cancelled_def runner_io_def sample_command_def)
  have "kube_exec_cluster sample_command = ''lab''" by (simp add: sample_command_def)
  with execute_outcome [OF run sample_command_words] sample_command_valid
  have "ex_status x = ''validated''" "ex_name x = reported_name sample_command ''web-0'' 1 7" by auto
  with run show ?thesis by (auto simp: reported_name_def sample_command_def)
qed

end
