(* ===== verification/Ceph_Error.thy ===== *)
theory Ceph_Error
  imports Tool_Error
begin

text \<open>
  The semantic errors of the Ceph integration (\<open>src/integrations/ceph/error.rs\<close>), their stable
  codes and messages, and which of them the caller may retry.
\<close>

datatype ceph_error =
    CE_InvalidArguments
  | CE_CapacityExhausted
  | CE_Timeout
  | CE_Unauthorized
  | CE_NotFound
  | CE_UnsupportedAction
  | CE_QueryRejected
  | CE_MutationRejected
  | CE_MutationOutcomeUnknown
  | CE_UnsafeToDestroy
  | CE_UpstreamUnavailable
  | CE_InvalidResponse
  | CE_ResponseTooLarge

fun ceph_error_code :: "ceph_error \<Rightarrow> string" where
  "ceph_error_code CE_InvalidArguments = ''invalid_arguments''"
| "ceph_error_code CE_CapacityExhausted = ''capacity_exhausted''"
| "ceph_error_code CE_Timeout = ''timeout''"
| "ceph_error_code CE_Unauthorized = ''ceph_unauthorized''"
| "ceph_error_code CE_NotFound = ''not_found''"
| "ceph_error_code CE_UnsupportedAction = ''unsupported_action''"
| "ceph_error_code CE_QueryRejected = ''query_rejected''"
| "ceph_error_code CE_MutationRejected = ''mutation_rejected''"
| "ceph_error_code CE_MutationOutcomeUnknown = ''mutation_outcome_unknown''"
| "ceph_error_code CE_UnsafeToDestroy = ''unsafe_to_destroy''"
| "ceph_error_code CE_UpstreamUnavailable = ''upstream_unavailable''"
| "ceph_error_code CE_InvalidResponse = ''invalid_response''"
| "ceph_error_code CE_ResponseTooLarge = ''response_too_large''"

fun ceph_error_message :: "ceph_error \<Rightarrow> string \<Rightarrow> string \<times> bool" where
  "ceph_error_message CE_InvalidArguments subject =
     (''The Ceph '' @ subject @ '' arguments are invalid.'', False)"
| "ceph_error_message CE_CapacityExhausted subject =
     (''Ceph request capacity is currently exhausted.'', True)"
| "ceph_error_message CE_Timeout subject = (''The Ceph query timed out.'', True)"
| "ceph_error_message CE_Unauthorized subject =
     (''Ceph Dashboard rejected the service credentials.'', False)"
| "ceph_error_message CE_NotFound subject =
     (''The requested Ceph '' @ subject @ '' was not found.'', False)"
| "ceph_error_message CE_UnsupportedAction subject =
     (''The requested action has no verified Ceph Squid Dashboard endpoint.'', False)"
| "ceph_error_message CE_QueryRejected subject =
     (''Ceph Dashboard rejected the '' @ subject @ '' query.'', False)"
| "ceph_error_message CE_MutationRejected subject =
     (''Ceph Dashboard rejected the requested mutation.'', False)"
| "ceph_error_message CE_MutationOutcomeUnknown subject =
     (''The Ceph mutation did not complete cleanly; its outcome may be uncertain. Inspect the cluster before retrying.'', False)"
| "ceph_error_message CE_UnsafeToDestroy subject =
     (''Ceph reports that the OSD is not safe to destroy.'', False)"
| "ceph_error_message CE_UpstreamUnavailable subject =
     (''Ceph Dashboard is currently unavailable.'', True)"
| "ceph_error_message CE_InvalidResponse subject =
     (''Ceph Dashboard returned an invalid response.'', False)"
| "ceph_error_message CE_ResponseTooLarge subject =
     (''The Ceph Dashboard response exceeded the safe size limit.'', False)"

definition ceph_into_tool_error :: "ceph_error \<Rightarrow> string \<Rightarrow> tool_error" where
  "ceph_into_tool_error e subject =
     (let (message, retryable) = ceph_error_message e subject
      in tool_error_new (ceph_error_code e) message retryable)"

lemma ceph_error_code_inj: "ceph_error_code a = ceph_error_code b \<longleftrightarrow> a = b"
  by (cases a; cases b) simp_all

lemma ceph_retryable_iff:
  "te_retryable (ceph_into_tool_error e subject) \<longleftrightarrow>
     e \<in> {CE_CapacityExhausted, CE_Timeout, CE_UpstreamUnavailable}"
  by (cases e) (simp_all add: ceph_into_tool_error_def tool_error_new_def)

end
