(* ===== verification/Ceph_Actions.thy ===== *)
theory Ceph_Actions
  imports Ceph_Error Rust_Float
begin

text \<open>
  The typed inputs and the validated commands of the Ceph integration
  (\<open>src/integrations/ceph/actions.rs\<close>).  An input is what a caller sends; \<open>validate\<close> turns it into
  a command or rejects it.  Destroying and purging an OSD need a confirmation text that repeats
  the action, the OSD and the cluster, and the command carries no trace of it: holding such a
  command is the evidence that it was confirmed.
\<close>

datatype ceph_validation_error = CephValidationError

section \<open>Identifiers and bounds\<close>

definition max_limit :: u16 where
  "max_limit = 100"

definition max_device_id_bytes :: nat where
  "max_device_id_bytes = 512"

definition valid_ceph_cluster :: "string \<Rightarrow> bool" where
  "valid_ceph_cluster value \<longleftrightarrow>
     value \<noteq> [] \<and> length value \<le> 63
     \<and> list_all (\<lambda>b. ascii_lowercase b \<or> ascii_digit b \<or> b = of_char (CHR ''-'')) (bytes value)
     \<and> ascii_alphanumeric (hd (bytes value)) \<and> ascii_alphanumeric (last (bytes value))"

definition valid_device_id :: "string \<Rightarrow> bool" where
  "valid_device_id value \<longleftrightarrow>
     trim value \<noteq> [] \<and> length value \<le> max_device_id_bytes \<and> \<not> has_control value"

definition bounded_limit :: "u16 option \<Rightarrow> ceph_validation_error + u16" where
  "bounded_limit value =
     (let value = (case value of None \<Rightarrow> 50 | Some v \<Rightarrow> v) in
      if 0 < value \<and> value \<le> max_limit then Inr value else Inl CephValidationError)"

definition destructive_confirmation :: "string \<Rightarrow> string \<Rightarrow> u32 \<Rightarrow> string" where
  "destructive_confirmation action cluster osd_id =
     action @ '' osd.'' @ show_nat (unat osd_id) @ '' on '' @ cluster"

definition curated_flags :: "string list" where
  "curated_flags = [''noout'', ''noin'', ''noup'', ''nodown'', ''norebalance'', ''norecover'',
     ''nobackfill'', ''noscrub'', ''nodeep-scrub'']"

definition is_curated_flag :: "string \<Rightarrow> bool" where
  "is_curated_flag value \<longleftrightarrow> value \<in> set curated_flags"

section \<open>Queries\<close>

datatype ceph_query_input =
    CQI_ClusterList
  | CQI_StatusGet string
  | CQI_MetricsSummary string
  | CQI_OsdList string "u16 option"
  | CQI_OsdGet string u32
  | CQI_OsdSafeToDestroy string u32
  | CQI_DeviceList string u32 "u16 option"
  | CQI_DeviceGet string u32 string
  | CQI_FlagsGet string
  | CQI_TaskList string "u16 option"

datatype ceph_query_command =
    CQ_ClusterList
  | CQ_StatusGet string
  | CQ_MetricsSummary string
  | CQ_OsdList string u16
  | CQ_OsdGet string u32
  | CQ_OsdSafeToDestroy string u32
  | CQ_DeviceList string u32 u16
  | CQ_DeviceGet string u32 string
  | CQ_FlagsGet string
  | CQ_TaskList string u16

fun ceph_query_input_validate :: "ceph_query_input \<Rightarrow> ceph_validation_error + ceph_query_command" where
  "ceph_query_input_validate CQI_ClusterList = Inr CQ_ClusterList"
| "ceph_query_input_validate (CQI_StatusGet cluster) =
     (if valid_ceph_cluster cluster then Inr (CQ_StatusGet cluster) else Inl CephValidationError)"
| "ceph_query_input_validate (CQI_MetricsSummary cluster) =
     (if valid_ceph_cluster cluster then Inr (CQ_MetricsSummary cluster) else Inl CephValidationError)"
| "ceph_query_input_validate (CQI_OsdList cluster limit) =
     (if valid_ceph_cluster cluster
      then and_then (bounded_limit limit) (\<lambda>limit. Inr (CQ_OsdList cluster limit))
      else Inl CephValidationError)"
| "ceph_query_input_validate (CQI_OsdGet cluster osd_id) =
     (if valid_ceph_cluster cluster then Inr (CQ_OsdGet cluster osd_id) else Inl CephValidationError)"
| "ceph_query_input_validate (CQI_OsdSafeToDestroy cluster osd_id) =
     (if valid_ceph_cluster cluster then Inr (CQ_OsdSafeToDestroy cluster osd_id)
      else Inl CephValidationError)"
| "ceph_query_input_validate (CQI_DeviceList cluster osd_id limit) =
     (if valid_ceph_cluster cluster
      then and_then (bounded_limit limit) (\<lambda>limit. Inr (CQ_DeviceList cluster osd_id limit))
      else Inl CephValidationError)"
| "ceph_query_input_validate (CQI_DeviceGet cluster osd_id device_id) =
     (if valid_ceph_cluster cluster \<and> valid_device_id device_id
      then Inr (CQ_DeviceGet cluster osd_id device_id) else Inl CephValidationError)"
| "ceph_query_input_validate (CQI_FlagsGet cluster) =
     (if valid_ceph_cluster cluster then Inr (CQ_FlagsGet cluster) else Inl CephValidationError)"
| "ceph_query_input_validate (CQI_TaskList cluster limit) =
     (if valid_ceph_cluster cluster
      then and_then (bounded_limit limit) (\<lambda>limit. Inr (CQ_TaskList cluster limit))
      else Inl CephValidationError)"

fun ceph_query_cluster :: "ceph_query_command \<Rightarrow> string option" where
  "ceph_query_cluster CQ_ClusterList = None"
| "ceph_query_cluster (CQ_StatusGet cluster) = Some cluster"
| "ceph_query_cluster (CQ_MetricsSummary cluster) = Some cluster"
| "ceph_query_cluster (CQ_OsdList cluster _) = Some cluster"
| "ceph_query_cluster (CQ_OsdGet cluster _) = Some cluster"
| "ceph_query_cluster (CQ_OsdSafeToDestroy cluster _) = Some cluster"
| "ceph_query_cluster (CQ_DeviceList cluster _ _) = Some cluster"
| "ceph_query_cluster (CQ_DeviceGet cluster _ _) = Some cluster"
| "ceph_query_cluster (CQ_FlagsGet cluster) = Some cluster"
| "ceph_query_cluster (CQ_TaskList cluster _) = Some cluster"

text \<open>The input structs of the individual tools; each validates through the enum.\<close>

definition ceph_cluster_list_input_validate :: "ceph_validation_error + ceph_query_command" where
  "ceph_cluster_list_input_validate = ceph_query_input_validate CQI_ClusterList"

definition status_get_input_validate :: "string \<Rightarrow> ceph_validation_error + ceph_query_command" where
  "status_get_input_validate cluster = ceph_query_input_validate (CQI_StatusGet cluster)"

definition metrics_summary_input_validate :: "string \<Rightarrow> ceph_validation_error + ceph_query_command" where
  "metrics_summary_input_validate cluster = ceph_query_input_validate (CQI_MetricsSummary cluster)"

definition flags_get_input_validate :: "string \<Rightarrow> ceph_validation_error + ceph_query_command" where
  "flags_get_input_validate cluster = ceph_query_input_validate (CQI_FlagsGet cluster)"

definition osd_list_input_validate ::
  "string \<Rightarrow> u16 option \<Rightarrow> ceph_validation_error + ceph_query_command" where
  "osd_list_input_validate cluster limit = ceph_query_input_validate (CQI_OsdList cluster limit)"

definition osd_get_input_validate ::
  "string \<Rightarrow> u32 \<Rightarrow> ceph_validation_error + ceph_query_command" where
  "osd_get_input_validate cluster osd_id = ceph_query_input_validate (CQI_OsdGet cluster osd_id)"

definition osd_safe_to_destroy_input_validate ::
  "string \<Rightarrow> u32 \<Rightarrow> ceph_validation_error + ceph_query_command" where
  "osd_safe_to_destroy_input_validate cluster osd_id =
     ceph_query_input_validate (CQI_OsdSafeToDestroy cluster osd_id)"

definition device_list_input_validate ::
  "string \<Rightarrow> u32 \<Rightarrow> u16 option \<Rightarrow> ceph_validation_error + ceph_query_command" where
  "device_list_input_validate cluster osd_id limit =
     ceph_query_input_validate (CQI_DeviceList cluster osd_id limit)"

definition device_get_input_validate ::
  "string \<Rightarrow> u32 \<Rightarrow> string \<Rightarrow> ceph_validation_error + ceph_query_command" where
  "device_get_input_validate cluster osd_id device_id =
     ceph_query_input_validate (CQI_DeviceGet cluster osd_id device_id)"

definition task_list_input_validate ::
  "string \<Rightarrow> u16 option \<Rightarrow> ceph_validation_error + ceph_query_command" where
  "task_list_input_validate cluster limit = ceph_query_input_validate (CQI_TaskList cluster limit)"

section \<open>Mutations\<close>

datatype mark_state = Mark_In | Mark_Out | Mark_Down

datatype scrub_kind = Scrub_Normal | Scrub_Deep

datatype ceph_exec_input =
    CXI_Mark string u32 mark_state
  | CXI_Reweight string u32 f64
  | CXI_Scrub string u32 scrub_kind
  | CXI_Destroy string u32 string
  | CXI_Purge string u32 string

datatype ceph_exec_command =
    CX_Mark string u32 mark_state
  | CX_Reweight string u32 f64
  | CX_Scrub string u32 scrub_kind
  | CX_Destroy string u32
  | CX_Purge string u32

fun ceph_exec_input_validate :: "ceph_exec_input \<Rightarrow> ceph_validation_error + ceph_exec_command" where
  "ceph_exec_input_validate (CXI_Mark cluster osd_id state) =
     (if valid_ceph_cluster cluster then Inr (CX_Mark cluster osd_id state)
      else Inl CephValidationError)"
| "ceph_exec_input_validate (CXI_Reweight cluster osd_id weight) =
     (if valid_ceph_cluster cluster \<and> f64_is_finite weight \<and> f64_in_unit_interval weight
      then Inr (CX_Reweight cluster osd_id weight) else Inl CephValidationError)"
| "ceph_exec_input_validate (CXI_Scrub cluster osd_id kind) =
     (if valid_ceph_cluster cluster then Inr (CX_Scrub cluster osd_id kind)
      else Inl CephValidationError)"
| "ceph_exec_input_validate (CXI_Destroy cluster osd_id confirmation) =
     (if valid_ceph_cluster cluster
         \<and> confirmation = destructive_confirmation ''destroy'' cluster osd_id
      then Inr (CX_Destroy cluster osd_id) else Inl CephValidationError)"
| "ceph_exec_input_validate (CXI_Purge cluster osd_id confirmation) =
     (if valid_ceph_cluster cluster
         \<and> confirmation = destructive_confirmation ''purge'' cluster osd_id
      then Inr (CX_Purge cluster osd_id) else Inl CephValidationError)"

fun ceph_exec_cluster :: "ceph_exec_command \<Rightarrow> string" where
  "ceph_exec_cluster (CX_Mark cluster _ _) = cluster"
| "ceph_exec_cluster (CX_Reweight cluster _ _) = cluster"
| "ceph_exec_cluster (CX_Scrub cluster _ _) = cluster"
| "ceph_exec_cluster (CX_Destroy cluster _) = cluster"
| "ceph_exec_cluster (CX_Purge cluster _) = cluster"

definition osd_mark_input_validate ::
  "string \<Rightarrow> u32 \<Rightarrow> mark_state \<Rightarrow> ceph_validation_error + ceph_exec_command" where
  "osd_mark_input_validate cluster osd_id state =
     ceph_exec_input_validate (CXI_Mark cluster osd_id state)"

definition osd_reweight_input_validate ::
  "string \<Rightarrow> u32 \<Rightarrow> f64 \<Rightarrow> ceph_validation_error + ceph_exec_command" where
  "osd_reweight_input_validate cluster osd_id weight =
     ceph_exec_input_validate (CXI_Reweight cluster osd_id weight)"

definition osd_scrub_input_validate ::
  "string \<Rightarrow> u32 \<Rightarrow> scrub_kind \<Rightarrow> ceph_validation_error + ceph_exec_command" where
  "osd_scrub_input_validate cluster osd_id kind =
     ceph_exec_input_validate (CXI_Scrub cluster osd_id kind)"

definition osd_destroy_input_validate ::
  "string \<Rightarrow> u32 \<Rightarrow> string \<Rightarrow> ceph_validation_error + ceph_exec_command" where
  "osd_destroy_input_validate cluster osd_id confirmation =
     ceph_exec_input_validate (CXI_Destroy cluster osd_id confirmation)"

definition osd_purge_input_validate ::
  "string \<Rightarrow> u32 \<Rightarrow> string \<Rightarrow> ceph_validation_error + ceph_exec_command" where
  "osd_purge_input_validate cluster osd_id confirmation =
     ceph_exec_input_validate (CXI_Purge cluster osd_id confirmation)"

section \<open>Laws\<close>

lemma valid_ceph_cluster_ascii:
  assumes "valid_ceph_cluster c"
  shows "is_ascii c"
  using assms by (fastforce simp: valid_ceph_cluster_def list_all_iff ascii_defs)

lemma valid_ceph_cluster_no_control:
  assumes "valid_ceph_cluster c"
  shows "\<not> has_control c"
  using assms chars_ascii [OF valid_ceph_cluster_ascii [OF assms]]
  by (fastforce simp: valid_ceph_cluster_def has_control_def list_all_iff list_ex_iff is_control_def
      ascii_defs)

lemma bounded_limit_Inr:
  "bounded_limit v = Inr l \<longleftrightarrow>
     l = (case v of None \<Rightarrow> 50 | Some n \<Rightarrow> n) \<and> 1 \<le> unat l \<and> unat l \<le> 100"
proof -
  have pos: "0 < w \<longleftrightarrow> 1 \<le> unat w" for w :: u16 by (auto simp: word_less_nat_alt)
  have le: "w \<le> 100 \<longleftrightarrow> unat w \<le> 100" for w :: u16 by (simp add: word_le_nat_alt)
  show ?thesis by (auto simp: bounded_limit_def Let_def max_limit_def pos le)
qed

lemma append_sep_eq:
  assumes "a @ d # x = b @ d # y" "d \<notin> set a" "d \<notin> set b"
  shows "a = b \<and> x = y"
  using assms by (induction a arbitrary: b) (auto simp: Cons_eq_append_conv append_eq_Cons_conv)

lemma show_nat_no_space: "CHR '' '' \<notin> set (show_nat n)"
  using all_digits_show_nat [of n] by (auto simp: all_digits_def list_all_iff ascii_digit_def)

lemma destructive_confirmation_inj:
  assumes "destructive_confirmation a c n = destructive_confirmation b d m"
    and "CHR '' '' \<notin> set a" "CHR '' '' \<notin> set b"
  shows "a = b \<and> c = d \<and> n = m"
proof -
  have "a @ CHR '' '' # (''osd.'' @ show_nat (unat n) @ '' on '' @ c)
    = b @ CHR '' '' # (''osd.'' @ show_nat (unat m) @ '' on '' @ d)"
    using assms(1) by (simp add: destructive_confirmation_def)
  from append_sep_eq [OF this assms(2,3)]
  have "a = b" and rest: "show_nat (unat n) @ CHR '' '' # (''on '' @ c)
    = show_nat (unat m) @ CHR '' '' # (''on '' @ d)" by simp_all
  moreover from append_sep_eq [OF rest show_nat_no_space show_nat_no_space]
  have "n = m \<and> c = d" by (simp add: inj_show_nat word_unat_eq_iff)
  ultimately show ?thesis by simp
qed

section \<open>Confirmed destruction\<close>

text \<open>What a destructive command destroys, and the confirmation an input carries.\<close>

fun ceph_destructive :: "ceph_exec_command \<Rightarrow> (string \<times> string \<times> u32) option" where
  "ceph_destructive (CX_Destroy cluster osd_id) = Some (''destroy'', cluster, osd_id)"
| "ceph_destructive (CX_Purge cluster osd_id) = Some (''purge'', cluster, osd_id)"
| "ceph_destructive _ = None"

fun ceph_confirmation :: "ceph_exec_input \<Rightarrow> string option" where
  "ceph_confirmation (CXI_Destroy _ _ confirmation) = Some confirmation"
| "ceph_confirmation (CXI_Purge _ _ confirmation) = Some confirmation"
| "ceph_confirmation _ = None"

lemma ceph_destructive_actions:
  "ceph_destructive c = Some (a, x) \<Longrightarrow> CHR '' '' \<notin> set a"
  by (cases c) auto

lemma ceph_destructive_inj:
  "ceph_destructive c = Some x \<Longrightarrow> ceph_destructive c' = Some x \<Longrightarrow> c = c'"
  by (cases c; cases c') auto

lemma ceph_exec_confirmed:
  assumes "ceph_exec_input_validate i = Inr c" "ceph_destructive c = Some (action, cluster, osd_id)"
  shows "ceph_confirmation i = Some (destructive_confirmation action cluster osd_id)"
  using assms by (cases i) (auto split: if_splits)

text \<open>
  An OSD is destroyed or purged only for an input that carries the confirmation of exactly
  this action on exactly this OSD of exactly this cluster: one confirmation text never authorises
  two different destructive commands.
\<close>

theorem destructive_commands_confirmed:
  assumes "ceph_exec_input_validate i = Inr c" "ceph_destructive c = Some (action, cluster, osd_id)"
    and "ceph_exec_input_validate i' = Inr c'" "ceph_destructive c' = Some (action', cluster', osd_id')"
  shows "ceph_confirmation i = Some (destructive_confirmation action cluster osd_id)
    \<and> (ceph_confirmation i = ceph_confirmation i' \<longrightarrow> c = c')"
  using ceph_exec_confirmed [OF assms(1,2)] ceph_exec_confirmed [OF assms(3,4)] assms(2,4)
    ceph_destructive_inj [of c _ c']
  by (auto dest: destructive_confirmation_inj ceph_destructive_actions)

theorem destructive_commands_confirmed_witness:
  "ceph_confirmation (CXI_Destroy ''a'' 7 ''destroy osd.7 on a'') =
     Some (destructive_confirmation ''destroy'' ''a'' 7)"
proof -
  have s: "show_nat 7 = ''7''" by code_simp
  have "ceph_exec_input_validate (CXI_Destroy ''a'' 7 ''destroy osd.7 on a'') = Inr (CX_Destroy ''a'' 7)"
    by (simp add: valid_ceph_cluster_def ascii_defs destructive_confirmation_def s)
  from destructive_commands_confirmed [OF this _ this, of "''destroy''" "''a''" 7 "''destroy''" "''a''" 7]
  show ?thesis by simp
qed

end
