(* ===== verification/Json_Build.thy ===== *)
theory Json_Build
  imports Rust_Float
begin

text \<open>
  Building results with \<open>serde_json::json!\<close>: how Rust values become JSON values.  The order of
  an object's members is the order of the macro; results are read only through lookups.
  \<open>bounded_json\<close> is the size discipline of the results: no string of a document is longer than
  4,096 bytes or contains a control character, and no array has more than 100 elements.
\<close>

definition json_option :: "('a \<Rightarrow> json) \<Rightarrow> 'a option \<Rightarrow> json" where
  "json_option f v = (case v of None \<Rightarrow> JNull | Some a \<Rightarrow> f a)"

definition json_nat :: "nat \<Rightarrow> json" where
  "json_nat n = JNum (PosInt (word_of_nat n))"

definition json_u32 :: "u32 \<Rightarrow> json" where
  "json_u32 n = JNum (PosInt (ucast n))"

definition json_u64 :: "u64 \<Rightarrow> json" where
  "json_u64 n = JNum (PosInt n)"

definition json_i64 :: "i64 \<Rightarrow> json" where
  "json_i64 n = JNum (if 0 \<le> sint n then PosInt n else NegInt n)"

definition json_f64 :: "f64 \<Rightarrow> json" where
  "json_f64 w = (if f64_is_finite w then JNum (Float w) else JNull)"

definition json_strings :: "string list \<Rightarrow> json" where
  "json_strings ss = JArr (map JStr ss)"

definition plain_text :: "string \<Rightarrow> bool" where
  "plain_text s \<longleftrightarrow> length s \<le> 4096 \<and> \<not> has_control s"

fun bounded_json :: "json \<Rightarrow> bool" where
  "bounded_json (JStr s) = plain_text s"
| "bounded_json (JArr xs) = (length xs \<le> 100 \<and> list_all bounded_json xs)"
| "bounded_json (JObj m) = list_all (\<lambda>p. bounded_json (snd p)) m"
| "bounded_json JNull = True"
| "bounded_json (JBool b) = True"
| "bounded_json (JNum n) = True"

lemma bounded_json_option [simp]:
  "bounded_json (json_option f v) \<longleftrightarrow> (\<forall>a. v = Some a \<longrightarrow> bounded_json (f a))"
  by (simp add: json_option_def split: option.splits)

lemma bounded_json_numbers [simp]:
  "bounded_json (json_nat n)" "bounded_json (json_u32 w)" "bounded_json (json_u64 x)"
  "bounded_json (json_i64 i)" "bounded_json (json_f64 d)"
  by (simp_all add: json_nat_def json_u32_def json_u64_def json_i64_def json_f64_def)

lemma bounded_json_strings [simp]:
  "bounded_json (json_strings ss) \<longleftrightarrow> length ss \<le> 100 \<and> list_all plain_text ss"
  by (simp add: json_strings_def list.pred_map comp_def)

lemma as_u64_json_u32 [simp]: "as_u64 (json_u32 n) = Some (ucast n)"
  by (simp add: json_u32_def)

end
