(* ===== verification/Ceph_Normalize.thy ===== *)
theory Ceph_Normalize
  imports Ceph_Actions Json_Build
begin

text \<open>
  Normalisation of Ceph Dashboard responses (\<open>src/integrations/ceph/normalize.rs\<close>): each
  operation extracts a reviewed set of fields from an untrusted document and builds the result
  from them, rejecting a document whose fields have the wrong type or exceed their bounds.
\<close>

definition max_health_checks :: nat where
  "max_health_checks = 100"

definition max_text_bytes :: nat where
  "max_text_bytes = 4096"

definition max_tasks_per_state :: nat where
  "max_tasks_per_state = 100"

section \<open>Bounded extraction\<close>

definition bounded_plain :: "string \<Rightarrow> nat \<Rightarrow> string option" where
  "bounded_plain value max_len =
     (if length value \<le> max_len \<and> \<not> has_control value then Some value else None)"

definition bounded_string :: "json option \<Rightarrow> nat \<Rightarrow> ceph_error + string option" where
  "bounded_string value max_len =
     (case value of
        None \<Rightarrow> Inr None
      | Some JNull \<Rightarrow> Inr None
      | Some v \<Rightarrow> map_sum id Some
          (ok_or (Option.bind (as_str v) (\<lambda>s. bounded_plain s max_len)) CE_InvalidResponse))"

text \<open>
  The three list extractions share their shape: an absent list is empty, anything but an array
  of at most \<open>maximum\<close> elements is rejected, and the first bad element rejects the list.
\<close>

definition bounded_array ::
  "json option \<Rightarrow> nat \<Rightarrow> (json \<Rightarrow> ceph_error + 'a) \<Rightarrow> ceph_error + 'a list" where
  "bounded_array value maximum f =
     (case value of
        None \<Rightarrow> Inr []
      | Some v \<Rightarrow>
          and_then (ok_or (as_array v) CE_InvalidResponse) (\<lambda>values.
            if maximum < length values then Inl CE_InvalidResponse
            else collect_results (map f values)))"

definition bounded_strings :: "json option \<Rightarrow> nat \<Rightarrow> nat \<Rightarrow> ceph_error + string list" where
  "bounded_strings value maximum max_len =
     bounded_array value maximum (\<lambda>v.
       ok_or (Option.bind (as_str v) (\<lambda>s. bounded_plain s max_len)) CE_InvalidResponse)"

fun bounded_scalar :: "json \<Rightarrow> nat \<Rightarrow> ceph_error + json option" where
  "bounded_scalar JNull max_len = Inr None"
| "bounded_scalar (JBool b) max_len = Inr (Some (JBool b))"
| "bounded_scalar (JNum n) max_len = Inr (Some (JNum n))"
| "bounded_scalar (JStr s) max_len =
     map_sum id (\<lambda>s. Some (JStr s)) (ok_or (bounded_plain s max_len) CE_InvalidResponse)"
| "bounded_scalar v max_len = Inl CE_InvalidResponse"

definition bounded_scalars :: "json option \<Rightarrow> nat \<Rightarrow> nat \<Rightarrow> ceph_error + json list" where
  "bounded_scalars value maximum max_len =
     bounded_array value maximum (\<lambda>v.
       and_then (bounded_scalar v max_len) (\<lambda>s. ok_or s CE_InvalidResponse))"

definition device_location :: "json \<Rightarrow> ceph_error + json" where
  "device_location value =
     and_then (ok_or (as_object value) CE_InvalidResponse) (\<lambda>_.
     and_then (bounded_string (json_get value ''host'') 256) (\<lambda>host.
     and_then (bounded_string (json_get value ''dev'') 256) (\<lambda>dev.
     and_then (bounded_string (json_get value ''path'') 256) (\<lambda>path.
       Inr (JObj [(''host'', json_option JStr host), (''dev'', json_option JStr dev),
                  (''path'', json_option JStr path)])))))"

definition device_locations :: "json option \<Rightarrow> ceph_error + json list" where
  "device_locations value = bounded_array value 32 device_location"

definition integer :: "json option \<Rightarrow> ceph_error + i64 option" where
  "integer value =
     (case value of
        None \<Rightarrow> Inr None
      | Some JNull \<Rightarrow> Inr None
      | Some v \<Rightarrow> map_sum id Some (ok_or (as_i64 v) CE_InvalidResponse))"

definition number_f64 :: "json option \<Rightarrow> ceph_error + f64 option" where
  "number_f64 value =
     (case value of
        None \<Rightarrow> Inr None
      | Some JNull \<Rightarrow> Inr None
      | Some v \<Rightarrow> map_sum id Some (ok_or (opt_filter f64_is_finite (as_f64 v)) CE_InvalidResponse))"

definition flag :: "json option \<Rightarrow> bool option" where
  "flag value =
     Option.bind value (\<lambda>v.
       case as_bool v of
         Some b \<Rightarrow> Some b
       | None \<Rightarrow> map_option (\<lambda>n. n = 1) (as_i64 v))"

definition opt_f64 :: "json option \<Rightarrow> f64 option" where
  "opt_f64 value = Option.bind value as_f64"

definition get_or :: "json \<Rightarrow> string \<Rightarrow> string \<Rightarrow> json option" where
  "get_or value k k' = (case json_get value k of Some v \<Rightarrow> Some v | None \<Rightarrow> json_get value k')"

definition osd_id_of :: "json \<Rightarrow> u64 option" where
  "osd_id_of value = opt_u64 (get_or value ''id'' ''osd'')"

definition device_id_of :: "json \<Rightarrow> string option" where
  "device_id_of value = opt_str (get_or value ''devid'' ''device_id'')"

definition numeric_osd_id :: "json \<Rightarrow> u32 option" where
  "numeric_osd_id value =
     (case as_u64 value of
        Some n \<Rightarrow> if unat n < 2 ^ 32 then Some (ucast n) else None
      | None \<Rightarrow>
          Option.bind (as_str value) (\<lambda>s.
            if s \<noteq> [] \<and> length s \<le> 10 \<and> list_all ascii_digit (bytes s)
            then (if parse_digits s < 2 ^ 32 then Some (word_of_nat (parse_digits s)) else None)
            else None))"

section \<open>Status and metrics\<close>

definition health_check :: "json \<Rightarrow> ceph_error + json" where
  "health_check check =
     and_then (bounded_string (json_get check ''type'') 256) (\<lambda>type.
     and_then (bounded_string (json_get check ''severity'') 128) (\<lambda>severity.
     and_then (bounded_string (json_pointer check ''/summary/message'') max_text_bytes) (\<lambda>summary.
       Inr (JObj [(''type'', json_option JStr type), (''severity'', json_option JStr severity),
                  (''summary'', json_option JStr summary)]))))"

definition ceph_status :: "string \<Rightarrow> json \<Rightarrow> ceph_error + json" where
  "ceph_status cluster value =
     and_then (ok_or (Option.bind (json_get value ''health'') as_object) CE_InvalidResponse) (\<lambda>health.
     and_then (bounded_string (map_of health ''status'') 128) (\<lambda>status.
     and_then (ok_or status CE_InvalidResponse) (\<lambda>status.
     and_then (ok_or (opt_array (map_of health ''checks'')) CE_InvalidResponse) (\<lambda>checks.
       let truncated = max_health_checks < length checks in
       and_then (collect_results (map health_check (take max_health_checks checks))) (\<lambda>checks.
         Inr (JObj [(''cluster'', JStr cluster), (''status'', JStr status),
                    (''checks'', JArr checks), (''truncated'', JBool truncated)]))))))"

definition count_set :: "json list \<Rightarrow> string \<Rightarrow> nat" where
  "count_set osds key = length (filter (\<lambda>osd. opt_i64 (json_get osd key) = Some 1) osds)"

text \<open>An object of optional integers or rates, each member named with the pointer it is read from.\<close>

definition integers_at :: "json \<Rightarrow> (string \<times> string) list \<Rightarrow> ceph_error + json" where
  "integers_at value named =
     map_sum id JObj (collect_results (map (\<lambda>(name, pointer).
       map_sum id (\<lambda>n. (name, json_option json_i64 n)) (integer (json_pointer value pointer))) named))"

definition rates_at :: "json \<Rightarrow> (string \<times> string) list \<Rightarrow> ceph_error + json" where
  "rates_at value named =
     map_sum id JObj (collect_results (map (\<lambda>(name, pointer).
       map_sum id (\<lambda>n. (name, json_option json_f64 n)) (number_f64 (json_pointer value pointer))) named))"

definition ceph_metrics :: "string \<Rightarrow> json \<Rightarrow> ceph_error + json" where
  "ceph_metrics cluster value =
     and_then (ok_or (opt_array (json_pointer value ''/osd_map/osds'')) CE_InvalidResponse) (\<lambda>osds.
     and_then (integers_at value
       [(''total_bytes'', ''/df/stats/total_bytes''),
        (''available_bytes'', ''/df/stats/total_avail_bytes''),
        (''used_raw_bytes'', ''/df/stats/total_used_raw_bytes'')]) (\<lambda>capacity.
     and_then (rates_at value
       [(''read_bytes_per_second'', ''/client_perf/read_bytes_sec''),
        (''write_bytes_per_second'', ''/client_perf/write_bytes_sec''),
        (''read_ops_per_second'', ''/client_perf/read_op_per_sec''),
        (''write_ops_per_second'', ''/client_perf/write_op_per_sec''),
        (''recovering_bytes_per_second'', ''/client_perf/recovering_bytes_per_sec'')]) (\<lambda>client_io.
     and_then (integers_at value
       [(''total'', ''/pg_info/object_stats/num_objects''),
        (''degraded'', ''/pg_info/object_stats/num_objects_degraded''),
        (''misplaced'', ''/pg_info/object_stats/num_objects_misplaced''),
        (''unfound'', ''/pg_info/object_stats/num_objects_unfound'')]) (\<lambda>objects.
       Inr (JObj [(''cluster'', JStr cluster), (''capacity'', capacity), (''client_io'', client_io),
                  (''objects'', objects),
                  (''osds'', JObj [(''total'', json_nat (length osds)),
                                   (''up'', json_nat (count_set osds ''up'')),
                                   (''in'', json_nat (count_set osds ''in''))]),
                  (''truncated'', JBool False)])))))"

section \<open>OSDs\<close>

definition ceph_osd :: "string \<Rightarrow> json \<Rightarrow> json \<Rightarrow> ceph_error + json" where
  "ceph_osd cluster value inventory =
     (let osd_map = (case json_get value ''osd_map'' of Some m \<Rightarrow> m | None \<Rightarrow> value) in
      and_then (ok_or (osd_id_of osd_map) CE_InvalidResponse) (\<lambda>id.
      if osd_id_of inventory \<noteq> Some id then Inl CE_InvalidResponse
      else
      and_then (bounded_strings (json_get osd_map ''state'') 16 128) (\<lambda>state.
      and_then (bounded_string (json_pointer inventory ''/tree/device_class'') 128) (\<lambda>device_class.
      and_then (bounded_string (json_pointer value ''/osd_metadata/default_device_class'') 128) (\<lambda>default_class.
      and_then (bounded_string (json_pointer value ''/osd_metadata/hostname'') 256) (\<lambda>host.
      and_then (bounded_string (json_get value ''operational_status'') 128) (\<lambda>operational_status.
        Inr (JObj [(''cluster'', JStr cluster), (''osd_id'', json_u64 id),
          (''up'', json_option JBool (flag (json_get osd_map ''up''))),
          (''in'', json_option JBool (flag (json_get osd_map ''in''))),
          (''state'', json_strings state),
          (''weight'', json_option json_f64 (opt_f64 (json_get osd_map ''weight''))),
          (''primary_affinity'', json_option json_f64 (opt_f64 (json_get osd_map ''primary_affinity''))),
          (''device_class'', json_option JStr device_class),
          (''default_device_class'', json_option JStr default_class),
          (''host'', json_option JStr host),
          (''operational_status'', json_option JStr operational_status)]))))))))"

definition osd_summary :: "string \<Rightarrow> json \<Rightarrow> ceph_error + json" where
  "osd_summary cluster value =
     and_then (ok_or (osd_id_of value) CE_InvalidResponse) (\<lambda>id.
     and_then (bounded_strings (json_get value ''state'') 16 128) (\<lambda>state.
     and_then (bounded_string (json_pointer value ''/tree/device_class'') 128) (\<lambda>device_class.
     and_then (bounded_string (json_pointer value ''/host/name'') 256) (\<lambda>host.
     and_then (bounded_string (json_get value ''operational_status'') 128) (\<lambda>operational_status.
       Inr (JObj [(''cluster'', JStr cluster), (''osd_id'', json_u64 id),
         (''up'', json_option JBool (flag (json_get value ''up''))),
         (''in'', json_option JBool (flag (json_get value ''in''))),
         (''state'', json_strings state),
         (''weight'', json_option json_f64 (opt_f64 (json_get value ''weight''))),
         (''primary_affinity'', json_option json_f64 (opt_f64 (json_get value ''primary_affinity''))),
         (''device_class'', json_option JStr device_class),
         (''default_device_class'', JNull),
         (''host'', json_option JStr host),
         (''operational_status'', json_option JStr operational_status)]))))))"

definition ceph_osd_list :: "string \<Rightarrow> json \<Rightarrow> u16 \<Rightarrow> ceph_error + json" where
  "ceph_osd_list cluster value limit =
     and_then (ok_or (as_array value) CE_InvalidResponse) (\<lambda>values.
     and_then (collect_results (map (osd_summary cluster) (take (unat limit) values))) (\<lambda>result.
       Inr (JObj [(''cluster'', JStr cluster), (''result'', JArr result),
                  (''truncated'', JBool (unat limit < length values))])))"

definition ceph_safe_to_destroy :: "string \<Rightarrow> u32 \<Rightarrow> json \<Rightarrow> ceph_error + json" where
  "ceph_safe_to_destroy cluster osd_id value =
     and_then (ok_or (opt_bool (json_get value ''is_safe_to_destroy'')) CE_InvalidResponse) (\<lambda>safe_flag.
     and_then (bounded_scalars (json_get value ''active'') 100 128) (\<lambda>active.
     and_then (bounded_scalars (json_get value ''missing_stats'') 100 128) (\<lambda>missing_stats.
     and_then (bounded_scalars (json_get value ''stored_pgs'') 100 128) (\<lambda>stored_pgs.
     and_then (bounded_string (json_get value ''message'') max_text_bytes) (\<lambda>message.
       Inr (JObj [(''cluster'', JStr cluster), (''osd_id'', json_u32 osd_id),
         (''safe_to_destroy'', JBool safe_flag), (''active'', JArr active),
         (''missing_stats'', JArr missing_stats), (''stored_pgs'', JArr stored_pgs),
         (''message'', json_option JStr message), (''truncated'', JBool False)]))))))"

section \<open>Devices\<close>

definition ceph_device :: "string \<Rightarrow> u32 \<Rightarrow> json \<Rightarrow> ceph_error + json" where
  "ceph_device cluster osd_id value =
     and_then (ok_or (Option.bind (device_id_of value) (\<lambda>v. bounded_plain v 512)) CE_InvalidResponse) (\<lambda>device_id.
     and_then (bounded_strings (json_get value ''daemons'') 32 256) (\<lambda>daemons.
     and_then (device_locations (json_get value ''location'')) (\<lambda>location.
     and_then (bounded_string (json_get value ''life_expectancy_min'') 128) (\<lambda>life_min.
     and_then (bounded_string (json_get value ''life_expectancy_max'') 128) (\<lambda>life_max.
       Inr (JObj [(''cluster'', JStr cluster), (''osd_id'', json_u32 osd_id),
         (''device_id'', JStr device_id), (''daemons'', json_strings daemons),
         (''location'', JArr location),
         (''life_expectancy_enabled'',
            json_option JBool (opt_bool (json_get value ''life_expectancy_enabled''))),
         (''life_expectancy_min'', json_option JStr life_min),
         (''life_expectancy_max'', json_option JStr life_max)]))))))"

definition ceph_devices :: "string \<Rightarrow> u32 \<Rightarrow> json \<Rightarrow> u16 \<Rightarrow> ceph_error + json" where
  "ceph_devices cluster osd_id value limit =
     and_then (ok_or (as_array value) CE_InvalidResponse) (\<lambda>values.
     and_then (collect_results (map (ceph_device cluster osd_id) (take (unat limit) values))) (\<lambda>result.
       Inr (JObj [(''cluster'', JStr cluster), (''osd_id'', json_u32 osd_id), (''result'', JArr result),
                  (''truncated'', JBool (unat limit < length values))])))"

definition find_device :: "json \<Rightarrow> string \<Rightarrow> ceph_error + json" where
  "find_device value expected =
     and_then (ok_or (as_array value) CE_InvalidResponse) (\<lambda>values.
       ok_or (List.find (\<lambda>item. device_id_of item = Some expected) values) CE_NotFound)"

section \<open>Flags and tasks\<close>

definition ceph_flags :: "string \<Rightarrow> json \<Rightarrow> ceph_error + json" where
  "ceph_flags cluster value =
     and_then (bounded_strings (Some value) 64 128) (\<lambda>flags.
       Inr (JObj [(''cluster'', JStr cluster), (''flags'', json_strings (filter is_curated_flag flags)),
                  (''truncated'', JBool False)]))"

definition ceph_task :: "json \<Rightarrow> ceph_error + json option" where
  "ceph_task value =
     (case opt_str (json_get value ''name'') of
        None \<Rightarrow> Inr None
      | Some name \<Rightarrow>
          if name = ''osd/delete'' then
            and_then (ok_or (Option.bind (json_get value ''metadata'') as_object) CE_InvalidResponse) (\<lambda>metadata.
            and_then (ok_or (Option.bind (map_of metadata ''svc_id'') numeric_osd_id) CE_InvalidResponse) (\<lambda>svc_id.
              Inr (Some (JObj [(''name'', JStr ''osd/delete''),
                               (''metadata'', JObj [(''svc_id'', json_u32 svc_id)])]))))
          else Inr None)"

definition task_results :: "json list \<Rightarrow> ceph_error + json list" where
  "task_results values = map_sum id (List.map_filter id) (collect_results (map ceph_task values))"

definition ceph_tasks :: "string \<Rightarrow> json \<Rightarrow> u16 \<Rightarrow> ceph_error + json" where
  "ceph_tasks cluster value limit =
     and_then (ok_or (opt_array (json_get value ''executing_tasks'')) CE_InvalidResponse) (\<lambda>executing.
     and_then (ok_or (opt_array (json_get value ''finished_tasks'')) CE_InvalidResponse) (\<lambda>finished.
       let limit = min (unat limit) max_tasks_per_state in
       and_then (task_results executing) (\<lambda>executing.
       and_then (task_results finished) (\<lambda>finished.
         let truncated = limit < length executing \<or> limit < length finished in
         Inr (JObj [(''cluster'', JStr cluster), (''executing'', JArr (take limit executing)),
                    (''finished'', JArr (take limit finished)), (''truncated'', JBool truncated)])))))"

definition mutation_task :: "json \<Rightarrow> string \<Rightarrow> u32 option \<Rightarrow> ceph_error + json" where
  "mutation_task value action expected_osd_id =
     and_then (if action = ''osd.destroy'' \<or> action = ''osd.purge'' then Inr ''osd/delete''
               else Inl CE_InvalidResponse) (\<lambda>expected_name.
     and_then (ceph_task value) (\<lambda>task.
     and_then (ok_or task CE_InvalidResponse) (\<lambda>task.
       if opt_str (json_get task ''name'') \<noteq> Some expected_name
          \<or> opt_u64 (json_pointer task ''/metadata/svc_id'') \<noteq> map_option ucast expected_osd_id
       then Inl CE_InvalidResponse
       else Inr task)))"

section \<open>Bounds of the results\<close>

named_theorems ceph_bounded
  \<open>every value an extraction of this component returns is bounded\<close>

lemma bounded_plain_Some [simp]:
  "bounded_plain s n = Some t \<longleftrightarrow> t = s \<and> length s \<le> n \<and> \<not> has_control s"
  by (auto simp: bounded_plain_def)

lemma map_sum_id_Inr [simp]: "(map_sum id f r = Inr b) \<longleftrightarrow> (\<exists>a. r = Inr a \<and> b = f a)"
  by (cases r) auto

lemma collect_results_list_all:
  assumes "collect_results (map f xs) = Inr ys" "\<And>x y. f x = Inr y \<Longrightarrow> P y"
  shows "list_all P ys \<and> length ys = length xs"
  using assms(1)
proof (induction xs arbitrary: ys)
  case (Cons x xs)
  then show ?case using assms(2) by (auto split: sum.splits)
qed simp

lemma bounded_array_list_all:
  assumes "bounded_array v m f = Inr ys" "\<And>x y. f x = Inr y \<Longrightarrow> P y"
  shows "list_all P ys \<and> length ys \<le> m"
proof (cases v)
  case (Some w)
  with assms(1) obtain vs where "collect_results (map f vs) = Inr ys" "length vs \<le> m"
    by (auto simp: bounded_array_def split: if_splits)
  with collect_results_list_all [of f vs ys P] assms(2) show ?thesis by auto
qed (use assms(1) in \<open>simp add: bounded_array_def\<close>)

lemma bounded_string_Inr:
  "bounded_string v n = Inr r \<longleftrightarrow>
     (r = None \<and> (v = None \<or> v = Some JNull))
     \<or> (\<exists>s. v = Some (JStr s) \<and> r = Some s \<and> length s \<le> n \<and> \<not> has_control s)"
proof (cases v)
  case (Some w)
  then show ?thesis by (cases w) (auto simp: bounded_string_def)
qed (auto simp: bounded_string_def)

lemma bounded_string_bounded [ceph_bounded]:
  "bounded_string v n = Inr r \<Longrightarrow> n \<le> 4096 \<longrightarrow> bounded_json (json_option JStr r)"
  by (auto simp: bounded_string_Inr plain_text_def)

lemma bounded_strings_bounded [ceph_bounded]:
  assumes "bounded_strings v m n = Inr ss"
  shows "n \<le> 4096 \<and> m \<le> 100 \<longrightarrow> bounded_json (json_strings ss)"
proof -
  have "list_all (\<lambda>s. length s \<le> n \<and> \<not> has_control s) ss \<and> length ss \<le> m"
    by (rule bounded_array_list_all [OF assms [unfolded bounded_strings_def]])
      (auto simp: bind_eq_Some_conv)
  then show ?thesis by (auto simp: list_all_iff plain_text_def)
qed

lemma bounded_scalar_bounded: "bounded_scalar v n = Inr (Some j) \<Longrightarrow> n \<le> 4096 \<Longrightarrow> bounded_json j"
  by (cases v) (auto simp: plain_text_def)

lemma bounded_scalars_bounded [ceph_bounded]:
  assumes "bounded_scalars v m n = Inr js"
  shows "n \<le> 4096 \<and> m \<le> 100 \<longrightarrow> bounded_json (JArr js)"
proof
  assume n: "n \<le> 4096 \<and> m \<le> 100"
  have "list_all bounded_json js \<and> length js \<le> m"
    by (rule bounded_array_list_all [OF assms [unfolded bounded_scalars_def]])
      (use n in \<open>auto intro: bounded_scalar_bounded\<close>)
  with n show "bounded_json (JArr js)" by auto
qed

lemma device_location_bounded: "device_location v = Inr j \<Longrightarrow> bounded_json j"
  by (auto simp: device_location_def dest!: ceph_bounded)

lemma device_locations_bounded [ceph_bounded]:
  assumes "device_locations v = Inr js"
  shows "bounded_json (JArr js)"
proof -
  have "list_all bounded_json js \<and> length js \<le> 32"
    by (rule bounded_array_list_all [OF assms [unfolded device_locations_def] device_location_bounded])
  then show ?thesis by auto
qed

text \<open>The results themselves, for a valid cluster name and a limit of at most 100.\<close>

lemma cluster_plain: "valid_ceph_cluster c \<Longrightarrow> plain_text c"
  by (simp add: plain_text_def valid_ceph_cluster_no_control) (simp add: valid_ceph_cluster_def)

lemma plain_textI: "length s \<le> 512 \<Longrightarrow> \<not> has_control s \<Longrightarrow> plain_text s"
  by (simp add: plain_text_def)

lemma health_check_bounded: "health_check v = Inr j \<Longrightarrow> bounded_json j"
  by (auto simp: health_check_def max_text_bytes_def dest!: ceph_bounded)

lemma ceph_status_bounded:
  assumes "ceph_status c v = Inr j" "valid_ceph_cluster c"
  shows "bounded_json j"
proof -
  from assms(1) obtain health s checks js where s: "bounded_string (map_of health ''status'') 128 = Inr (Some s)"
    and js: "collect_results (map health_check (take 100 checks)) = Inr js"
    and j: "j = JObj [(''cluster'', JStr c), (''status'', JStr s), (''checks'', JArr js),
      (''truncated'', JBool (100 < length checks))]"
    by (auto simp: ceph_status_def max_health_checks_def Let_def)
  have "list_all bounded_json js \<and> length js = length (take 100 checks)"
    by (rule collect_results_list_all [OF js health_check_bounded])
  with bounded_string_bounded [OF s] cluster_plain [OF assms(2)] show ?thesis by (simp add: j)
qed

lemma integers_at_bounded: "integers_at v named = Inr j \<Longrightarrow> bounded_json j"
  by (auto simp: integers_at_def dest!: collect_results_list_all [of _ _ _ "\<lambda>p. bounded_json (snd p)"])

lemma rates_at_bounded: "rates_at v named = Inr j \<Longrightarrow> bounded_json j"
  by (auto simp: rates_at_def dest!: collect_results_list_all [of _ _ _ "\<lambda>p. bounded_json (snd p)"])

lemma ceph_metrics_bounded:
  "ceph_metrics c v = Inr j \<Longrightarrow> valid_ceph_cluster c \<Longrightarrow> bounded_json j"
  by (auto simp: ceph_metrics_def cluster_plain dest: integers_at_bounded rates_at_bounded)

lemma ceph_osd_bounded:
  "ceph_osd c v w = Inr j \<Longrightarrow> valid_ceph_cluster c \<Longrightarrow> bounded_json j"
  by (auto simp: ceph_osd_def Let_def cluster_plain split: if_splits dest!: ceph_bounded)

lemma osd_summary_bounded:
  "osd_summary c v = Inr j \<Longrightarrow> valid_ceph_cluster c \<Longrightarrow> bounded_json j"
  by (auto simp: osd_summary_def cluster_plain dest!: ceph_bounded)

lemma ceph_osd_list_bounded:
  assumes "ceph_osd_list c v l = Inr j" "valid_ceph_cluster c" "unat l \<le> 100"
  shows "bounded_json j"
  using assms by (auto simp: ceph_osd_list_def cluster_plain
      dest!: collect_results_list_all [of "osd_summary c" _ _ bounded_json] osd_summary_bounded)

lemma ceph_safe_to_destroy_bounded:
  "ceph_safe_to_destroy c n v = Inr j \<Longrightarrow> valid_ceph_cluster c \<Longrightarrow> bounded_json j"
  by (auto simp: ceph_safe_to_destroy_def cluster_plain max_text_bytes_def dest!: ceph_bounded)

lemma ceph_device_bounded:
  "ceph_device c n v = Inr j \<Longrightarrow> valid_ceph_cluster c \<Longrightarrow> bounded_json j"
  by (auto simp: ceph_device_def cluster_plain bind_eq_Some_conv intro: plain_textI dest!: ceph_bounded)

lemma ceph_devices_bounded:
  assumes "ceph_devices c n v l = Inr j" "valid_ceph_cluster c" "unat l \<le> 100"
  shows "bounded_json j"
  using assms by (auto simp: ceph_devices_def cluster_plain
      dest!: collect_results_list_all [of "ceph_device c n" _ _ bounded_json] ceph_device_bounded)

lemma ceph_flags_bounded:
  assumes "ceph_flags c v = Inr j" "valid_ceph_cluster c"
  shows "bounded_json j"
proof -
  from assms(1) obtain ss where ss: "bounded_strings (Some v) 64 128 = Inr ss"
    and j: "j = JObj [(''cluster'', JStr c), (''flags'', json_strings (filter is_curated_flag ss)),
      (''truncated'', JBool False)]"
    by (auto simp: ceph_flags_def)
  have ss: "length ss \<le> 100 \<and> list_all plain_text ss" using bounded_strings_bounded [OF ss] by simp
  then have "length (filter is_curated_flag ss) \<le> 100"
    by (intro order_trans [OF length_filter_le]) simp
  with ss show ?thesis by (auto simp: j cluster_plain [OF assms(2)] list_all_iff)
qed

lemma ceph_task_Some:
  "ceph_task v = Inr (Some t) \<Longrightarrow>
     \<exists>n. t = JObj [(''name'', JStr ''osd/delete''), (''metadata'', JObj [(''svc_id'', json_u32 n)])]"
  by (auto simp: ceph_task_def split: option.splits if_splits)

lemma ceph_task_bounded: "ceph_task v = Inr (Some t) \<Longrightarrow> bounded_json t"
  by (auto simp: plain_text_def has_control_def chars_ascii is_control_def dest!: ceph_task_Some)

lemma list_all_take: "list_all P xs \<Longrightarrow> list_all P (take n xs)"
  by (auto simp: list_all_iff dest: in_set_takeD)

lemma task_results_bounded:
  assumes "task_results vs = Inr ts"
  shows "list_all bounded_json ts"
proof -
  from assms obtain os where os: "collect_results (map ceph_task vs) = Inr os"
    and ts: "ts = List.map_filter id os"
    by (auto simp: task_results_def)
  have "list_all (\<lambda>t. \<forall>j. t = Some j \<longrightarrow> bounded_json j) os"
    using collect_results_list_all [OF os, of "\<lambda>t. \<forall>j. t = Some j \<longrightarrow> bounded_json j"]
    by (auto intro: ceph_task_bounded)
  then show ?thesis by (auto simp: ts list_all_iff set_map_filter)
qed

lemma ceph_tasks_bounded:
  "ceph_tasks c v l = Inr j \<Longrightarrow> valid_ceph_cluster c \<Longrightarrow> bounded_json j"
  by (auto simp: ceph_tasks_def Let_def cluster_plain max_tasks_per_state_def
      dest!: task_results_bounded intro: list_all_take)

lemma mutation_task_bounded: "mutation_task v a n = Inr j \<Longrightarrow> bounded_json j"
  by (auto simp: mutation_task_def split: if_splits intro: ceph_task_bounded)

section \<open>Content of the results\<close>

lemma safe_to_destroy_flag:
  assumes "ceph_safe_to_destroy c n v = Inr j"
  shows "opt_bool (json_get j ''safe_to_destroy'') = opt_bool (json_get v ''is_safe_to_destroy'')
    \<and> opt_bool (json_get v ''is_safe_to_destroy'') \<noteq> None"
  using assms by (auto simp: ceph_safe_to_destroy_def opt_bool_def)

lemma find_device_Inr:
  "find_device v d = Inr w \<Longrightarrow> device_id_of w = Some d \<and> (\<exists>ws. v = JArr ws \<and> w \<in> set ws)"
  by (cases v) (auto simp: find_device_def find_Some_iff)

lemma unat_u64_ucast: "unat (ucast (n :: u32) :: u64) = unat n"
proof -
  have "unat n < 2 ^ LENGTH(32)" by (rule unsigned_less)
  then show ?thesis by (simp add: unsigned_ucast_eq take_bit_nat_eq_self_iff)
qed

lemma mutation_task_names_osd:
  assumes "mutation_task v a (Some n) = Inr j"
  shows "(a = ''osd.destroy'' \<or> a = ''osd.purge'')
    \<and> j = JObj [(''name'', JStr ''osd/delete''), (''metadata'', JObj [(''svc_id'', json_u32 n)])]"
proof -
  from assms have a: "a = ''osd.destroy'' \<or> a = ''osd.purge''" and t: "ceph_task v = Inr (Some j)"
    and id: "opt_u64 (json_pointer j ''/metadata/svc_id'') = Some (ucast n)"
    by (auto simp: mutation_task_def split: if_splits)
  from ceph_task_Some [OF t] obtain m
    where j: "j = JObj [(''name'', JStr ''osd/delete''), (''metadata'', JObj [(''svc_id'', json_u32 m)])]"
    by blast
  with id have "(ucast m :: u64) = ucast n" by (simp add: json_pointer_def opt_u64_def)
  then have "m = n" by (simp add: word_unat_eq_iff unat_u64_ucast)
  with a j show ?thesis by simp
qed

lemma numeric_osd_id_show:
  "numeric_osd_id (JStr (show_nat (unat n))) = Some n"
proof -
  have "unat n < 2 ^ LENGTH(32)" by (rule unsigned_less)
  then have n: "unat n < 2 ^ 32" by simp
  then have "unat n < 10 ^ Suc 9" by simp
  then have "length (show_nat (unat n)) \<le> 10" using length_show_nat_le [of "unat n" 9] by simp
  moreover have "list_all ascii_digit (bytes (show_nat (unat n)))"
    using all_digits_show_nat [of "unat n"] by (auto simp: all_digits_def list_all_iff)
  ultimately show ?thesis using n by (simp add: numeric_osd_id_def)
qed

end
