(* ===== verification/Http.thy ===== *)
theory Http
  imports Json_Build
begin

text \<open>
  HTTP as the integrations see it through \<open>reqwest\<close>.  A request is what the program hands to the
  library; an exchange is what comes back: the operation's future was dropped by an outer deadline
  while it waited, the request's own timer fired, the transport failed, or a response arrived with
  its status, its announced length and the chunks of its body as they are read, a failed read
  being \<open>Inl ()\<close>.
\<close>

datatype http_method = M_Get | M_Post | M_Put | M_Patch | M_Delete

text \<open>A parsed URL (the \<open>url\<close> crate), as far as the sources look into it.\<close>

record url =
  url_scheme :: string
  url_host :: "string option"
  url_username :: string
  url_password :: "string option"
  url_query :: "string option"
  url_fragment :: "string option"
  url_path :: string

record http_request =
  hq_method :: http_method
  hq_path :: string
  hq_query :: "(string \<times> string) list"
  hq_body :: "json option"
  hq_accept :: string
  hq_token :: "string option"

record http_response =
  hs_status :: u16
  hs_length :: "u64 option"
  hs_chunks :: "(unit + string) list"

datatype http_exchange = HX_Dropped | HX_TimedOut | HX_Failed | HX_Response http_response

definition status_success :: "u16 \<Rightarrow> bool" where
  "status_success s \<longleftrightarrow> 200 \<le> s \<and> s < 300"

definition status_client_error :: "u16 \<Rightarrow> bool" where
  "status_client_error s \<longleftrightarrow> 400 \<le> s \<and> s < 500"

text \<open>
  Reading a body chunk by chunk up to \<open>maximum\<close> bytes: a chunk that does not fit into what is
  left ends the reading before it is stored.
\<close>

fun read_chunks :: "nat \<Rightarrow> 'e \<Rightarrow> 'e \<Rightarrow> string \<Rightarrow> (unit + string) list \<Rightarrow> 'e + string" where
  "read_chunks maximum failed large buffer [] = Inr buffer"
| "read_chunks maximum failed large buffer (Inl u # pieces) = Inl failed"
| "read_chunks maximum failed large buffer (Inr chunk # pieces) =
     (if maximum - length buffer < length chunk then Inl large
      else read_chunks maximum failed large (buffer @ chunk) pieces)"

definition chunk_bytes :: "(unit + string) list \<Rightarrow> string" where
  "chunk_bytes pieces = concat (map (\<lambda>c. case c of Inr b \<Rightarrow> b | Inl _ \<Rightarrow> []) pieces)"

lemma read_chunks_Inr:
  "length buffer \<le> maximum \<Longrightarrow> read_chunks maximum failed large buffer pieces = Inr b \<Longrightarrow>
     b = buffer @ chunk_bytes pieces \<and> length b \<le> maximum"
proof (induction maximum failed large buffer pieces rule: read_chunks.induct)
  case (3 maximum failed large buffer chunk pieces)
  then have fits: "length (buffer @ chunk) \<le> maximum" "\<not> maximum - length buffer < length chunk"
    by (auto split: if_splits)
  with "3.prems" have "read_chunks maximum failed large (buffer @ chunk) pieces = Inr b" by simp
  from "3.IH" [OF fits(2,1) this]
  have "b = (buffer @ chunk) @ chunk_bytes pieces \<and> length b \<le> maximum" .
  moreover have "chunk_bytes (Inr chunk # pieces) = chunk @ chunk_bytes pieces" by (simp add: chunk_bytes_def)
  ultimately show ?case by auto
qed (auto simp: chunk_bytes_def)

lemma read_chunks_Inl:
  "read_chunks maximum failed large buffer pieces = Inl e \<Longrightarrow> e = failed \<or> e = large"
  by (induction maximum failed large buffer pieces rule: read_chunks.induct) (auto split: if_splits)

end
