(* ===== verification/Ceph_Client.thy ===== *)
theory Ceph_Client
  imports Ceph_Normalize Http
begin

text \<open>
  The client of one Ceph Dashboard (\<open>src/integrations/ceph/client.rs\<close>).

  What the client does not decide is its environment, a \<open>dashboard\<close>: whether \<open>Url::join\<close> accepts a
  path, whether one of the four request permits is free, what the other operations of the same
  client left in the shared token cell when this one gets its lock, and the answer to a request.
  The state of one operation is a \<open>ceph_sys\<close>: the token cell, the operation's dispatch-progress
  flag, the trace of its exchanges (a history variable), and the world outside.  Both a lock and
  an exchange can end with the operation dropped, which is how the outer deadline of the catalog
  reaches it; \<open>CS_Dropped\<close> passes through every operation without being handled, as a dropped
  future does.
\<close>

section \<open>Environment and state\<close>

datatype ceph_stop = CS_Dropped | CS_Error ceph_error

record 's dashboard =
  cd_joins :: "string \<Rightarrow> bool"
  cd_permit :: "'s \<Rightarrow> bool \<times> 's"
  cd_lock :: "string option \<Rightarrow> 's \<Rightarrow> string option option \<times> 's"
  cd_exchange :: "http_request \<Rightarrow> 's \<Rightarrow> http_exchange \<times> 's"

record 's ceph_sys =
  cs_token :: "string option"
  cs_progress :: bool
  cs_trace :: "(http_request \<times> http_exchange) list"
  cs_world :: 's

type_synonym ('s, 'a) ceph_io = "('s ceph_sys, ceph_stop, 'a) io"

definition lock_token :: "'s dashboard \<Rightarrow> ('s, string option) ceph_io" where
  "lock_token db = (\<lambda>s.
     let (seen, w) = cd_lock db (cs_token s) (cs_world s) in
     case seen of
       None \<Rightarrow> (Inl CS_Dropped, s\<lparr>cs_world := w\<rparr>)
     | Some cached \<Rightarrow> (Inr cached, s\<lparr>cs_token := cached, cs_world := w\<rparr>))"

definition set_token :: "string option \<Rightarrow> ('s, unit) ceph_io" where
  "set_token cached = (\<lambda>s. (Inr (), s\<lparr>cs_token := cached\<rparr>))"

definition store_progress :: "('s, unit) ceph_io" where
  "store_progress = (\<lambda>s. (Inr (), s\<lparr>cs_progress := True\<rparr>))"

definition acquire_permit :: "'s dashboard \<Rightarrow> ('s, unit) ceph_io" where
  "acquire_permit db = (\<lambda>s.
     let (free, w) = cd_permit db (cs_world s) in
     (if free then Inr () else Inl (CS_Error CE_CapacityExhausted), s\<lparr>cs_world := w\<rparr>))"

definition exchange :: "'s dashboard \<Rightarrow> http_request \<Rightarrow> ('s, http_exchange) ceph_io" where
  "exchange db request = (\<lambda>s.
     let (x, w) = cd_exchange db request (cs_world s) in
     (Inr x, s\<lparr>cs_trace := cs_trace s @ [(request, x)], cs_world := w\<rparr>))"

section \<open>Construction\<close>

record ceph_client =
  ccl_origin :: url
  ccl_username :: string
  ccl_password :: string

definition validate_origin :: "url \<Rightarrow> bool \<Rightarrow> string + unit" where
  "validate_origin origin allow_http =
     (if (\<not> allow_http \<and> url_scheme origin \<noteq> ''https'')
         \<or> (allow_http \<and> url_scheme origin \<notin> {''http'', ''https''})
         \<or> url_host origin = None
         \<or> url_username origin \<noteq> []
         \<or> url_password origin \<noteq> None
         \<or> url_query origin \<noteq> None
         \<or> url_fragment origin \<noteq> None
         \<or> url_path origin \<noteq> ''/''
      then Inl ''invalid Ceph Dashboard origin'' else Inr ())"

text \<open>\<open>http_built\<close> says whether \<open>reqwest\<close> could build its client.\<close>

definition ceph_client_new :: "bool \<Rightarrow> url \<Rightarrow> string \<Rightarrow> string \<Rightarrow> string + ceph_client" where
  "ceph_client_new http_built origin username password =
     and_then (validate_origin origin False) (\<lambda>_.
     if username = [] \<or> password = [] then Inl ''Ceph Dashboard credentials must not be empty''
     else if \<not> http_built then Inl ''failed to initialize Ceph Dashboard client''
     else Inr \<lparr>ccl_origin = origin, ccl_username = username, ccl_password = password\<rparr>)"

section \<open>Requests\<close>

datatype ceph_operation = CO_Query | CO_Mutation

record upstream_response =
  up_status :: u16
  up_body :: json

definition max_response_bytes :: nat where
  "max_response_bytes = 4 * 1024 * 1024"

definition api_v1 :: string where
  "api_v1 = ''application/vnd.ceph.api.v1.0+json''"

definition api_v1_1 :: string where
  "api_v1_1 = ''application/vnd.ceph.api.v1.1+json''"

fun failure :: "ceph_operation \<Rightarrow> ceph_error" where
  "failure CO_Query = CE_UpstreamUnavailable"
| "failure CO_Mutation = CE_MutationOutcomeUnknown"

fun too_large :: "ceph_operation \<Rightarrow> ceph_error" where
  "too_large CO_Query = CE_ResponseTooLarge"
| "too_large CO_Mutation = CE_MutationOutcomeUnknown"

fun unparsable :: "ceph_operation \<Rightarrow> ceph_error" where
  "unparsable CO_Query = CE_InvalidResponse"
| "unparsable CO_Mutation = CE_MutationOutcomeUnknown"

fun timed_out :: "ceph_operation \<Rightarrow> ceph_error" where
  "timed_out CO_Query = CE_Timeout"
| "timed_out CO_Mutation = CE_MutationOutcomeUnknown"

definition read_limited :: "http_response \<Rightarrow> ceph_operation \<Rightarrow> ceph_error + string" where
  "read_limited response operation =
     (if (case hs_length response of None \<Rightarrow> False | Some n \<Rightarrow> max_response_bytes < unat n)
      then Inl (too_large operation)
      else read_chunks max_response_bytes (failure operation) (too_large operation) [] (hs_chunks response))"

definition parse_bytes :: "(string \<Rightarrow> json option) \<Rightarrow> string \<Rightarrow> ceph_operation \<Rightarrow> ceph_error + json" where
  "parse_bytes parse bytes' operation =
     (if bytes' = [] then Inr JNull else ok_or (parse bytes') (unparsable operation))"

definition token_acceptable :: "string \<Rightarrow> bool" where
  "token_acceptable t \<longleftrightarrow> t \<noteq> [] \<and> length t \<le> 16 * 1024 \<and> \<not> has_control t"

definition auth_request :: "ceph_client \<Rightarrow> http_request" where
  "auth_request c = \<lparr>hq_method = M_Post, hq_path = ''api/auth'', hq_query = [],
     hq_body = Some (JObj [(''username'', JStr (ccl_username c)), (''password'', JStr (ccl_password c))]),
     hq_accept = api_v1, hq_token = None\<rparr>"

definition auth_response :: "(string \<Rightarrow> json option) \<Rightarrow> http_response \<Rightarrow> ceph_error + string" where
  "auth_response parse response =
     (if hs_status response = 401 \<or> hs_status response = 403 then Inl CE_Unauthorized
      else if \<not> status_success (hs_status response) then Inl CE_UpstreamUnavailable
      else
        and_then (read_limited response CO_Query) (\<lambda>b.
        and_then (parse_bytes parse b CO_Query) (\<lambda>value.
          ok_or (opt_filter token_acceptable (opt_str (json_get value ''token''))) CE_InvalidResponse)))"

fun auth_outcome :: "(string \<Rightarrow> json option) \<Rightarrow> http_exchange \<Rightarrow> ceph_stop + string" where
  "auth_outcome parse HX_Dropped = Inl CS_Dropped"
| "auth_outcome parse HX_TimedOut = Inl (CS_Error CE_Timeout)"
| "auth_outcome parse HX_Failed = Inl (CS_Error CE_UpstreamUnavailable)"
| "auth_outcome parse (HX_Response response) = map_err CS_Error (auth_response parse response)"

definition authenticate ::
  "(string \<Rightarrow> json option) \<Rightarrow> 's dashboard \<Rightarrow> ceph_client \<Rightarrow> ('s, string) ceph_io" where
  "authenticate parse db c =
     io_bind (lock_token db) (\<lambda>cached.
       case cached of
         Some tok \<Rightarrow> io_return tok
       | None \<Rightarrow>
           io_bind (io_guard (cd_joins db ''api/auth'') (CS_Error CE_InvalidArguments)) (\<lambda>_.
           io_bind (acquire_permit db) (\<lambda>_.
           io_bind (exchange db (auth_request c)) (\<lambda>x.
           io_bind (io_lift (auth_outcome parse x)) (\<lambda>tok.
           io_bind (set_token (Some tok)) (\<lambda>_.
             io_return tok))))))"

definition send_response ::
  "(string \<Rightarrow> json option) \<Rightarrow> ceph_operation \<Rightarrow> http_response \<Rightarrow> ceph_error + upstream_response" where
  "send_response parse operation response =
     (let status = hs_status response in
      if status = 401 then Inl CE_Unauthorized
      else if status = 403 then
        Inl (case operation of CO_Query \<Rightarrow> CE_Unauthorized | CO_Mutation \<Rightarrow> CE_MutationRejected)
      else if status = 404 then Inl CE_NotFound
      else if \<not> status_success status then
        Inl (case operation of
               CO_Query \<Rightarrow> if status_client_error status then CE_QueryRejected else CE_UpstreamUnavailable
             | CO_Mutation \<Rightarrow> if status_client_error status then CE_MutationRejected
                 else CE_MutationOutcomeUnknown)
      else
        and_then (read_limited response operation) (\<lambda>b.
        and_then (parse_bytes parse b operation) (\<lambda>body.
          Inr \<lparr>up_status = status, up_body = body\<rparr>)))"

fun send_outcome ::
  "(string \<Rightarrow> json option) \<Rightarrow> ceph_operation \<Rightarrow> http_exchange \<Rightarrow> ceph_stop + upstream_response" where
  "send_outcome parse operation HX_Dropped = Inl CS_Dropped"
| "send_outcome parse operation HX_TimedOut = Inl (CS_Error (timed_out operation))"
| "send_outcome parse operation HX_Failed = Inl (CS_Error (failure operation))"
| "send_outcome parse operation (HX_Response response) =
     map_err CS_Error (send_response parse operation response)"

definition send ::
  "(string \<Rightarrow> json option) \<Rightarrow> 's dashboard \<Rightarrow> http_request \<Rightarrow> ceph_operation
     \<Rightarrow> ('s, upstream_response) ceph_io" where
  "send parse db request operation =
     io_bind (io_guard (cd_joins db (hq_path request)) (CS_Error (failure operation))) (\<lambda>_.
     io_bind (acquire_permit db) (\<lambda>_.
     io_bind (if operation = CO_Mutation then store_progress else io_return ()) (\<lambda>_.
     io_bind (exchange db request) (\<lambda>x.
       io_lift (send_outcome parse operation x)))))"

text \<open>
  \<open>query\<close> clears the cached token after a 401, but only if it is still the rejected one, gets a
  token again and sends the request a second time; whatever the second attempt says is final.
\<close>

definition forget_token :: "'s dashboard \<Rightarrow> string \<Rightarrow> ('s, unit) ceph_io" where
  "forget_token db rejected =
     io_bind (lock_token db) (\<lambda>cached.
       if cached = Some rejected then set_token None else io_return ())"

definition io_try :: "('s, 'e, 'a) io \<Rightarrow> ('s, 'e, 'e + 'a) io" where
  "io_try m = (\<lambda>s. let (r, s') = m s in (Inr r, s'))"

type_synonym 's dashboard_query =
  "http_method \<Rightarrow> string \<Rightarrow> (string \<times> string) list \<Rightarrow> json option \<Rightarrow> string \<Rightarrow> ('s, ceph_stop, json) io"

type_synonym 's dashboard_mutate =
  "http_method \<Rightarrow> string \<Rightarrow> (string \<times> string) list \<Rightarrow> json option
     \<Rightarrow> ('s, ceph_stop, upstream_response) io"

definition request_with ::
  "http_method \<Rightarrow> string \<Rightarrow> (string \<times> string) list \<Rightarrow> json option \<Rightarrow> string \<Rightarrow> string \<Rightarrow> http_request" where
  "request_with method path query body accept tok =
     \<lparr>hq_method = method, hq_path = path, hq_query = query, hq_body = body, hq_accept = accept,
      hq_token = Some tok\<rparr>"

definition ceph_query ::
  "(string \<Rightarrow> json option) \<Rightarrow> 's dashboard \<Rightarrow> ceph_client \<Rightarrow> 's ceph_sys dashboard_query" where
  "ceph_query parse db c method path query body accept =
     io_bind (authenticate parse db c) (\<lambda>tok.
     io_bind (io_try (send parse db (request_with method path query body accept tok) CO_Query)) (\<lambda>first.
       if first = Inl (CS_Error CE_Unauthorized) then
         io_bind (forget_token db tok) (\<lambda>_.
         io_bind (authenticate parse db c) (\<lambda>tok.
         io_bind (send parse db (request_with method path query body accept tok) CO_Query) (\<lambda>response.
           io_return (up_body response))))
       else io_bind (io_lift first) (\<lambda>response. io_return (up_body response))))"

definition ceph_mutate ::
  "(string \<Rightarrow> json option) \<Rightarrow> 's dashboard \<Rightarrow> ceph_client \<Rightarrow> 's ceph_sys dashboard_mutate" where
  "ceph_mutate parse db c method path query body =
     io_bind (authenticate parse db c) (\<lambda>tok.
       send parse db (request_with method path query body api_v1 tok) CO_Mutation)"

section \<open>Queries\<close>

text \<open>The operations take the client's \<open>query\<close> and \<open>mutate\<close>.\<close>

definition lift_ceph :: "ceph_error + 'a \<Rightarrow> ('s, ceph_stop, 'a) io" where
  "lift_ceph r = io_lift (map_err CS_Error r)"

definition osd_path :: "u32 \<Rightarrow> string \<Rightarrow> string" where
  "osd_path osd_id suffix = ''api/osd/'' @ show_nat (unat osd_id) @ suffix"

definition client_status :: "'s dashboard_query \<Rightarrow> string \<Rightarrow> ('s, ceph_stop, json) io" where
  "client_status query cluster =
     io_bind (query M_Get ''api/health/minimal'' [] None api_v1) (\<lambda>v. lift_ceph (ceph_status cluster v))"

definition client_metrics_summary :: "'s dashboard_query \<Rightarrow> string \<Rightarrow> ('s, ceph_stop, json) io" where
  "client_metrics_summary query cluster =
     io_bind (query M_Get ''api/health/minimal'' [] None api_v1) (\<lambda>v. lift_ceph (ceph_metrics cluster v))"

definition client_osds :: "'s dashboard_query \<Rightarrow> string \<Rightarrow> u16 \<Rightarrow> ('s, ceph_stop, json) io" where
  "client_osds query cluster limit =
     (let requested = unat limit + 1 in
      io_bind (query M_Get ''api/osd'' [(''offset'', ''0''), (''limit'', show_nat requested)] None api_v1_1) (\<lambda>value.
        lift_ceph (ceph_osd_list cluster value limit)))"

definition osd_inventory_page_size :: nat where
  "osd_inventory_page_size = 100"

definition osd_inventory_max_pages :: nat where
  "osd_inventory_max_pages = 5"

fun find_osd :: "'s dashboard_query \<Rightarrow> u32 \<Rightarrow> nat list \<Rightarrow> ('s, ceph_stop, json option) io" where
  "find_osd query osd_id [] = io_return None"
| "find_osd query osd_id (page # pages) =
     io_bind (query M_Get ''api/osd''
         [(''offset'', show_nat (page * osd_inventory_page_size)),
          (''limit'', show_nat osd_inventory_page_size)] None api_v1_1) (\<lambda>value.
     io_bind (lift_ceph (ok_or (as_array value) CE_InvalidResponse)) (\<lambda>values.
       if osd_inventory_page_size < length values then lift_ceph (Inl CE_InvalidResponse)
       else
         (case List.find (\<lambda>value. opt_u64 (json_get value ''id'') = Some (ucast osd_id)) values of
            Some value \<Rightarrow> io_return (Some value)
          | None \<Rightarrow>
              if length values < osd_inventory_page_size then io_return None
              else find_osd query osd_id pages)))"

definition client_osd :: "'s dashboard_query \<Rightarrow> string \<Rightarrow> u32 \<Rightarrow> ('s, ceph_stop, json) io" where
  "client_osd query cluster osd_id =
     io_bind (query M_Get (osd_path osd_id []) [] None api_v1) (\<lambda>detail.
     io_bind (find_osd query osd_id [0..<osd_inventory_max_pages]) (\<lambda>inventory.
       lift_ceph (and_then (ok_or inventory CE_InvalidResponse) (\<lambda>inventory.
         ceph_osd cluster detail inventory))))"

definition client_safe_to_destroy :: "'s dashboard_query \<Rightarrow> string \<Rightarrow> u32 \<Rightarrow> ('s, ceph_stop, json) io" where
  "client_safe_to_destroy query cluster osd_id =
     (let ids = ''['' @ show_nat (unat osd_id) @ '']'' in
      io_bind (query M_Get ''api/osd/safe_to_destroy'' [(''ids'', ids)] None api_v1) (\<lambda>value.
        lift_ceph (ceph_safe_to_destroy cluster osd_id value)))"

definition client_devices :: "'s dashboard_query \<Rightarrow> string \<Rightarrow> u32 \<Rightarrow> u16 \<Rightarrow> ('s, ceph_stop, json) io" where
  "client_devices query cluster osd_id limit =
     io_bind (query M_Get (osd_path osd_id ''/devices'') [] None api_v1) (\<lambda>value.
       lift_ceph (ceph_devices cluster osd_id value limit))"

definition client_device :: "'s dashboard_query \<Rightarrow> string \<Rightarrow> u32 \<Rightarrow> string \<Rightarrow> ('s, ceph_stop, json) io" where
  "client_device query cluster osd_id device_id =
     io_bind (query M_Get (osd_path osd_id ''/devices'') [] None api_v1) (\<lambda>value.
       lift_ceph (and_then (find_device value device_id) (\<lambda>device. ceph_device cluster osd_id device)))"

definition client_flags :: "'s dashboard_query \<Rightarrow> string \<Rightarrow> ('s, ceph_stop, json) io" where
  "client_flags query cluster =
     io_bind (query M_Get ''api/osd/flags'' [] None api_v1) (\<lambda>v. lift_ceph (ceph_flags cluster v))"

definition client_tasks :: "'s dashboard_query \<Rightarrow> string \<Rightarrow> u16 \<Rightarrow> ('s, ceph_stop, json) io" where
  "client_tasks query cluster limit =
     io_bind (query M_Get ''api/task'' [] None api_v1) (\<lambda>v. lift_ceph (ceph_tasks cluster v limit))"

section \<open>Mutations\<close>

definition mutation_result ::
  "string \<Rightarrow> string \<Rightarrow> u32 option \<Rightarrow> upstream_response \<Rightarrow> ceph_error + json" where
  "mutation_result cluster action osd_id response =
     (if up_status response = 200 then
        Inr (JObj [(''cluster'', JStr cluster), (''action'', JStr action),
                   (''osd_id'', json_option json_u32 osd_id), (''status'', JStr ''completed'')])
      else if up_status response = 202 then
        and_then (map_err (\<lambda>_. CE_MutationOutcomeUnknown) (mutation_task (up_body response) action osd_id)) (\<lambda>task.
          Inr (JObj [(''cluster'', JStr cluster), (''action'', JStr action),
                     (''osd_id'', json_option json_u32 osd_id), (''status'', JStr ''accepted''),
                     (''task'', task)]))
      else Inl CE_MutationOutcomeUnknown)"

fun mark_action :: "mark_state \<Rightarrow> string" where
  "mark_action Mark_In = ''in''"
| "mark_action Mark_Out = ''out''"
| "mark_action Mark_Down = ''down''"

definition mark_with_progress ::
  "'s dashboard_mutate \<Rightarrow> string \<Rightarrow> u32 \<Rightarrow> mark_state \<Rightarrow> ('s, ceph_stop, json) io" where
  "mark_with_progress mutate cluster osd_id state =
     io_bind (mutate M_Put (osd_path osd_id ''/mark'') []
         (Some (JObj [(''action'', JStr (mark_action state))]))) (\<lambda>response.
       lift_ceph (mutation_result cluster ''osd.mark'' (Some osd_id) response))"

definition reweight_with_progress ::
  "'s dashboard_mutate \<Rightarrow> string \<Rightarrow> u32 \<Rightarrow> f64 \<Rightarrow> ('s, ceph_stop, json) io" where
  "reweight_with_progress mutate cluster osd_id weight =
     io_bind (mutate M_Post (osd_path osd_id ''/reweight'') []
         (Some (JObj [(''weight'', json_f64 weight)]))) (\<lambda>response.
       lift_ceph (mutation_result cluster ''osd.reweight'' (Some osd_id) response))"

definition scrub_with_progress ::
  "'s dashboard_mutate \<Rightarrow> string \<Rightarrow> u32 \<Rightarrow> scrub_kind \<Rightarrow> ('s, ceph_stop, json) io" where
  "scrub_with_progress mutate cluster osd_id kind =
     (let deep = show_bool (kind = Scrub_Deep) in
      io_bind (mutate M_Post (osd_path osd_id ''/scrub'') [(''deep'', deep)] (Some JNull)) (\<lambda>response.
        lift_ceph (mutation_result cluster ''osd.scrub'' (Some osd_id) response)))"

definition require_safe :: "'s dashboard_query \<Rightarrow> string \<Rightarrow> u32 \<Rightarrow> ('s, ceph_stop, unit) io" where
  "require_safe query cluster osd_id =
     io_bind (client_safe_to_destroy query cluster osd_id) (\<lambda>result.
       if opt_bool (json_get result ''safe_to_destroy'') \<noteq> Some True
       then lift_ceph (Inl CE_UnsafeToDestroy) else io_return ())"

definition destroy_with_progress ::
  "'s dashboard_query \<Rightarrow> 's dashboard_mutate \<Rightarrow> string \<Rightarrow> u32 \<Rightarrow> ('s, ceph_stop, json) io" where
  "destroy_with_progress query mutate cluster osd_id =
     io_bind (require_safe query cluster osd_id) (\<lambda>_.
     io_bind (mutate M_Post (osd_path osd_id ''/destroy'') [] (Some JNull)) (\<lambda>response.
       lift_ceph (mutation_result cluster ''osd.destroy'' (Some osd_id) response)))"

definition purge_with_progress ::
  "'s dashboard_query \<Rightarrow> 's dashboard_mutate \<Rightarrow> string \<Rightarrow> u32 \<Rightarrow> ('s, ceph_stop, json) io" where
  "purge_with_progress query mutate cluster osd_id =
     io_bind (require_safe query cluster osd_id) (\<lambda>_.
     io_bind (mutate M_Post (osd_path osd_id ''/purge'') [] (Some JNull)) (\<lambda>response.
       lift_ceph (mutation_result cluster ''osd.purge'' (Some osd_id) response)))"

section \<open>What an operation does to the trace\<close>

text \<open>
  A request changes the cluster unless it is a GET or the login.  An operation is quiet if it
  leaves the progress flag alone and only adds requests that change nothing.
\<close>

definition changes_cluster :: "http_request \<Rightarrow> bool" where
  "changes_cluster q \<longleftrightarrow> hq_method q \<noteq> M_Get \<and> hq_path q \<noteq> ''api/auth''"

definition quiet :: "'s ceph_sys \<Rightarrow> 's ceph_sys \<Rightarrow> bool" where
  "quiet s s' \<longleftrightarrow> cs_progress s' = cs_progress s
     \<and> (\<exists>tr. cs_trace s' = cs_trace s @ tr \<and> list_all (\<lambda>(q, x). \<not> changes_cluster q) tr)"

lemma quiet_refl: "quiet s s"
  by (simp add: quiet_def)

lemma quiet_trans:
  assumes "quiet s t" "quiet t u"
  shows "quiet s u"
proof -
  from assms obtain a b where "cs_trace t = cs_trace s @ a" "cs_trace u = cs_trace t @ b"
    "list_all (\<lambda>(q, x). \<not> changes_cluster q) a" "list_all (\<lambda>(q, x). \<not> changes_cluster q) b"
    "cs_progress u = cs_progress s"
    by (auto simp: quiet_def)
  then show ?thesis by (auto simp: quiet_def intro!: exI [of _ "a @ b"])
qed

interpretation qs: step_preorder quiet
  by unfold_locales (fact quiet_refl, fact quiet_trans)

lemma lock_token_quiet [io_rels]: "io_rel quiet (lock_token db)"
  by (auto simp: io_rel_def lock_token_def quiet_def split: prod.splits option.splits)

lemma set_token_quiet [io_rels]: "io_rel quiet (set_token t)"
  by (auto simp: io_rel_def set_token_def quiet_def)

lemma acquire_permit_quiet [io_rels]: "io_rel quiet (acquire_permit db)"
  by (auto simp: io_rel_def acquire_permit_def quiet_def split: prod.splits)

lemma exchange_quiet [io_rels]: "\<not> changes_cluster q \<Longrightarrow> io_rel quiet (exchange db q)"
  by (auto simp: io_rel_def exchange_def quiet_def split: prod.splits)

lemma auth_request_reads [simp]: "\<not> changes_cluster (auth_request c)"
  by (simp add: changes_cluster_def auth_request_def)

lemma authenticate_quiet [io_rels]: "io_rel quiet (authenticate parse db c)"
  unfolding authenticate_def by (intro qs.step_rules io_rels) simp_all

lemma io_try_rel: "io_rel R m \<Longrightarrow> io_rel R (io_try m)"
  unfolding io_rel_def io_try_def by (auto split: prod.splits)

lemma send_query_quiet [io_rels]:
  "\<not> changes_cluster q \<Longrightarrow> io_rel quiet (send parse db q CO_Query)"
  unfolding send_def by (intro qs.step_rules io_rels) simp_all

lemma forget_token_quiet [io_rels]: "io_rel quiet (forget_token db t)"
  unfolding forget_token_def by (intro qs.step_rules io_rels)

lemma request_with_reads [simp]: "\<not> changes_cluster (request_with M_Get path query body accept t)"
  by (simp add: changes_cluster_def request_with_def)

lemma ceph_query_quiet: "io_rel quiet (ceph_query parse db c M_Get path query body accept)"
  unfolding ceph_query_def by (intro qs.step_rules io_rels io_try_rel) simp_all

section \<open>The interface of the operations\<close>

text \<open>
  What the operations need of \<open>query\<close> and \<open>mutate\<close>: a GET query is quiet, and if it returns a
  value then the dashboard answered that very request with it; a mutation either fails before
  anything was sent, quietly, or it sent its one request and its result is what the answer says.
\<close>

locale dashboard_api = step_preorder quiet_step
  for quiet_step :: "'s \<Rightarrow> 's \<Rightarrow> bool" +
  fixes query :: "'s dashboard_query"
    and mutate :: "'s dashboard_mutate"
    and answered :: "string \<Rightarrow> (string \<times> string) list \<Rightarrow> json \<Rightarrow> 's \<Rightarrow> 's \<Rightarrow> bool"
    and sent :: "http_method \<Rightarrow> string \<Rightarrow> (string \<times> string) list \<Rightarrow> json option
      \<Rightarrow> ceph_stop + upstream_response \<Rightarrow> 's \<Rightarrow> 's \<Rightarrow> bool"
  assumes query_quiet: "io_rel quiet_step (query M_Get p q None a)"
    and query_answered: "query M_Get p q None a s = (Inr v, t) \<Longrightarrow> answered p q v s t"
    and quiet_sent: "quiet_step s t \<Longrightarrow> sent m p q b r t u \<Longrightarrow> sent m p q b r s u"
    and mutate_cases: "mutate m p q b s = (r, s') \<Longrightarrow>
      (\<exists>e. r = Inl e \<and> quiet_step s s') \<or> sent m p q b r s s'"
begin

lemma rel_lift_ceph: "io_rel quiet_step (lift_ceph r)"
  by (simp add: lift_ceph_def rel_lift)

lemmas client_rules = step_rules rel_lift_ceph query_quiet

lemma client_status_quiet: "io_rel quiet_step (client_status query c)"
  unfolding client_status_def by (intro client_rules)

lemma client_metrics_summary_quiet: "io_rel quiet_step (client_metrics_summary query c)"
  unfolding client_metrics_summary_def by (intro client_rules)

lemma client_osds_quiet: "io_rel quiet_step (client_osds query c l)"
  unfolding client_osds_def Let_def by (intro client_rules)

lemma find_osd_quiet: "io_rel quiet_step (find_osd query n pages)"
  by (induction pages) (simp_all only: find_osd.simps, intro client_rules, intro client_rules)

lemma client_osd_quiet: "io_rel quiet_step (client_osd query c n)"
  unfolding client_osd_def by (intro client_rules find_osd_quiet)

lemma client_safe_to_destroy_quiet: "io_rel quiet_step (client_safe_to_destroy query c n)"
  unfolding client_safe_to_destroy_def Let_def by (intro client_rules)

lemma client_devices_quiet: "io_rel quiet_step (client_devices query c n l)"
  unfolding client_devices_def by (intro client_rules)

lemma client_device_quiet: "io_rel quiet_step (client_device query c n d)"
  unfolding client_device_def by (intro client_rules)

lemma client_flags_quiet: "io_rel quiet_step (client_flags query c)"
  unfolding client_flags_def by (intro client_rules)

lemma client_tasks_quiet: "io_rel quiet_step (client_tasks query c l)"
  unfolding client_tasks_def by (intro client_rules)

lemma require_safe_quiet: "io_rel quiet_step (require_safe query c n)"
  unfolding require_safe_def by (intro client_rules client_safe_to_destroy_quiet)

lemmas client_quiet =
  client_status_quiet client_metrics_summary_quiet client_osds_quiet client_osd_quiet
  client_safe_to_destroy_quiet client_devices_quiet client_device_quiet client_flags_quiet
  client_tasks_quiet

lemma require_safe_answered:
  assumes "require_safe query c n s = (Inr u, t)"
  shows "\<exists>v. answered ''api/osd/safe_to_destroy'' [(''ids'', ''['' @ show_nat (unat n) @ '']'')] v s t
    \<and> opt_bool (json_get v ''is_safe_to_destroy'') = Some True"
proof -
  from assms obtain v j where
    "query M_Get ''api/osd/safe_to_destroy'' [(''ids'', ''['' @ show_nat (unat n) @ '']'')] None api_v1 s = (Inr v, t)"
    and "ceph_safe_to_destroy c n v = Inr j" "opt_bool (json_get j ''safe_to_destroy'') = Some True"
    by (auto simp: require_safe_def client_safe_to_destroy_def lift_ceph_def io_simps split: if_splits)
  then show ?thesis using safe_to_destroy_flag [of c n v j] by (metis query_answered)
qed

lemma mutate_then:
  assumes "io_bind (mutate m p q b) (\<lambda>response. lift_ceph (f response)) s = (r, s')"
  shows "(\<exists>e. r = Inl e \<and> quiet_step s s')
    \<or> (\<exists>a. sent m p q b a s s' \<and> r = and_then a (\<lambda>response. map_err CS_Error (f response)))"
proof -
  obtain a t where a: "mutate m p q b s = (a, t)" by fastforce
  show ?thesis
  proof (cases a)
    case (Inl e)
    with assms a have "r = Inl e" "t = s'" by (auto simp: io_bind_def)
    with mutate_cases [OF a] Inl show ?thesis by auto
  next
    case (Inr response)
    with assms a have "r = map_err CS_Error (f response)" "t = s'"
      by (auto simp: io_bind_def lift_ceph_def io_lift_def)
    with mutate_cases [OF a] Inr show ?thesis by auto
  qed
qed

lemma safe_then_mutate:
  assumes "io_bind (require_safe query c n) (\<lambda>_. io_bind (mutate m p q b) (\<lambda>response. lift_ceph (f response))) s = (r, s')"
  shows "(\<exists>e. r = Inl e \<and> quiet_step s s')
    \<or> (\<exists>a t v. answered ''api/osd/safe_to_destroy'' [(''ids'', ''['' @ show_nat (unat n) @ '']'')] v s t
         \<and> opt_bool (json_get v ''is_safe_to_destroy'') = Some True \<and> quiet_step s t
         \<and> sent m p q b a t s' \<and> r = and_then a (\<lambda>response. map_err CS_Error (f response)))"
proof -
  obtain x t where x: "require_safe query c n s = (x, t)" by fastforce
  have q: "quiet_step s t" using io_relD [OF require_safe_quiet x] .
  show ?thesis
  proof (cases x)
    case (Inl e)
    with assms x q show ?thesis by (auto simp: io_bind_def)
  next
    case (Inr u)
    with assms x have "io_bind (mutate m p q b) (\<lambda>response. lift_ceph (f response)) t = (r, s')"
      by (simp add: io_bind_def)
    from mutate_then [OF this] require_safe_answered [OF x [unfolded Inr]] q
    show ?thesis by (blast intro: step_trans)
  qed
qed

end

section \<open>The client's own query and mutate\<close>

definition reads_answered ::
  "(string \<Rightarrow> json option) \<Rightarrow> string \<Rightarrow> (string \<times> string) list \<Rightarrow> json \<Rightarrow> 's ceph_sys \<Rightarrow> 's ceph_sys \<Rightarrow> bool" where
  "reads_answered parse p q v s t \<longleftrightarrow>
     (\<exists>tr a tok x response. cs_trace t = cs_trace s @ tr @ [(request_with M_Get p q None a tok, x)]
        \<and> list_all (\<lambda>(q, x). \<not> changes_cluster q) tr
        \<and> send_outcome parse CO_Query x = Inr response \<and> up_body response = v)"

definition change_sent ::
  "(string \<Rightarrow> json option) \<Rightarrow> http_method \<Rightarrow> string \<Rightarrow> (string \<times> string) list \<Rightarrow> json option
     \<Rightarrow> ceph_stop + upstream_response \<Rightarrow> 's ceph_sys \<Rightarrow> 's ceph_sys \<Rightarrow> bool" where
  "change_sent parse m p q b r s s' \<longleftrightarrow>
     (\<exists>t tok x. quiet s t \<and> cs_progress s'
        \<and> cs_trace s' = cs_trace t @ [(request_with m p q b api_v1 tok, x)]
        \<and> r = send_outcome parse CO_Mutation x)"

lemma io_try_Inr [io_simps]: "(io_try m s = (Inr r, s')) \<longleftrightarrow> m s = (r, s')"
  by (auto simp: io_try_def split: prod.splits)

lemma io_try_Inl [io_simps]: "(io_try m s = (Inl e, s')) \<longleftrightarrow> False"
  by (auto simp: io_try_def split: prod.splits)

lemmas send_simps = send_def io_bind_def io_guard_def io_lift_def guard_or_def io_return_def
  acquire_permit_def exchange_def store_progress_def

lemma send_cases:
  assumes "send parse db q operation s = (r, s')"
  shows "(\<exists>e. r = Inl (CS_Error e) \<and> e \<in> {failure operation, CE_CapacityExhausted}
        \<and> quiet s s' \<and> cs_trace s' = cs_trace s \<and> cs_token s' = cs_token s)
    \<or> (\<exists>x. cs_trace s' = cs_trace s @ [(q, x)] \<and> cs_progress s' = (cs_progress s \<or> operation = CO_Mutation)
        \<and> r = send_outcome parse operation x \<and> cs_token s' = cs_token s)"
proof (cases "cd_joins db (hq_path q)")
  case False
  with assms show ?thesis by (auto simp: send_simps quiet_refl)
next
  case joins: True
  obtain free w where permit: "cd_permit db (cs_world s) = (free, w)" by fastforce
  obtain x w' where x: "cd_exchange db q w = (x, w')" by fastforce
  show ?thesis
  proof (cases free)
    case True
    with assms joins permit x show ?thesis
      by (cases operation) (auto simp: send_simps)
  next
    case False
    with assms joins permit show ?thesis by (auto simp: send_simps quiet_def)
  qed
qed

lemma request_with_simps [simp]:
  "hq_path (request_with m p q b a t) = p" "hq_token (request_with m p q b a t) = Some t"
  "hq_method (request_with m p q b a t) = m" "hq_query (request_with m p q b a t) = q"
  by (simp_all add: request_with_def)

lemma ceph_mutate_cases:
  assumes "ceph_mutate parse db c m p q b s = (r, s')"
  shows "(\<exists>e. r = Inl e \<and> quiet s s') \<or> change_sent parse m p q b r s s'"
proof -
  obtain a t where a: "authenticate parse db c s = (a, t)" by fastforce
  note q = io_relD [OF authenticate_quiet a]
  show ?thesis
  proof (cases a)
    case (Inl e)
    with assms a q show ?thesis by (auto simp: ceph_mutate_def io_bind_def)
  next
    case (Inr tok)
    with assms a have "send parse db (request_with m p q b api_v1 tok) CO_Mutation t = (r, s')"
      by (simp add: ceph_mutate_def io_bind_def)
    from send_cases [OF this] q show ?thesis
      by (auto simp: change_sent_def intro: quiet_trans)
  qed
qed

lemma quiet_change_sent:
  assumes "quiet s t" "change_sent parse m p q b r t u"
  shows "change_sent parse m p q b r s u"
proof -
  from assms(2) obtain t' tok x where "quiet t t'" "cs_progress u"
    "cs_trace u = cs_trace t' @ [(request_with m p q b api_v1 tok, x)]" "r = send_outcome parse CO_Mutation x"
    unfolding change_sent_def by blast
  moreover from this(1) have "quiet s t'" by (rule quiet_trans [OF assms(1)])
  ultimately show ?thesis unfolding change_sent_def by blast
qed

lemma send_query_answered:
  assumes "send parse db (request_with M_Get p q None a tok) CO_Query s = (Inr response, t)" "quiet r s"
  shows "reads_answered parse p q (up_body response) r t"
  using send_cases [OF assms(1)] assms(2) by (force simp: reads_answered_def quiet_def)

lemma ceph_query_answered:
  assumes "ceph_query parse db c M_Get p q None a s = (Inr v, t)"
  shows "reads_answered parse p q v s t"
proof -
  from assms obtain tok s1 first s2 where tok: "authenticate parse db c s = (Inr tok, s1)"
    and first: "send parse db (request_with M_Get p q None a tok) CO_Query s1 = (first, s2)"
    and rest: "(if first = Inl (CS_Error CE_Unauthorized) then
         io_bind (forget_token db tok) (\<lambda>_. io_bind (authenticate parse db c) (\<lambda>tok.
         io_bind (send parse db (request_with M_Get p q None a tok) CO_Query) (\<lambda>response.
           io_return (up_body response))))
       else io_bind (io_lift first) (\<lambda>response. io_return (up_body response))) s2 = (Inr v, t)"
    by (auto simp: ceph_query_def io_simps)
  have q1: "quiet s s1" by (rule io_relD [OF authenticate_quiet tok])
  then have q2: "quiet s s2"
    by (rule quiet_trans) (rule io_relD [OF send_query_quiet first], simp)
  show ?thesis
  proof (cases "first = Inl (CS_Error CE_Unauthorized)")
    case False
    with rest obtain response where "first = Inr response" "v = up_body response" "t = s2"
      by (auto simp: io_simps)
    with send_query_answered first q1 show ?thesis by blast
  next
    case True
    with rest obtain s3 tok' s4 response where "forget_token db tok s2 = (Inr (), s3)"
      "authenticate parse db c s3 = (Inr tok', s4)"
      "send parse db (request_with M_Get p q None a tok') CO_Query s4 = (Inr response, t)"
      "v = up_body response"
      by (auto simp: io_simps)
    moreover from this have "quiet s s4"
      using q2 by (blast intro: quiet_trans io_relD [OF forget_token_quiet] io_relD [OF authenticate_quiet])
    ultimately show ?thesis using send_query_answered by blast
  qed
qed

interpretation ceph: dashboard_api "quiet" "ceph_query parse db c" "ceph_mutate parse db c"
  "reads_answered parse" "change_sent parse" for parse db c
proof unfold_locales
  show "io_rel quiet (ceph_query parse db c M_Get p q None a)" for p q a
    by (rule ceph_query_quiet)
qed (fact ceph_query_answered quiet_change_sent ceph_mutate_cases)+

section \<open>The answers to a mutation\<close>

text \<open>What an exchange must have been for a mutation to end in a definite rejection.\<close>

lemma send_response_mutation_error:
  assumes "send_response parse CO_Mutation response = Inl e"
  shows "e = CE_MutationOutcomeUnknown
    \<or> (e = CE_Unauthorized \<and> hs_status response = 401)
    \<or> (e = CE_NotFound \<and> hs_status response = 404)
    \<or> (e = CE_MutationRejected \<and> status_client_error (hs_status response))"
  using assms
  by (auto simp: send_response_def Let_def and_then_Inl read_limited_def parse_bytes_def
      status_client_error_def split: if_splits option.splits dest: read_chunks_Inl)

lemma mutation_result_error: "mutation_result c a n response = Inl e \<Longrightarrow> e = CE_MutationOutcomeUnknown"
  by (auto simp: mutation_result_def and_then_Inl split: if_splits)
    (auto elim: map_err.elims)

end
