(* ===== verification/Ceph_Catalog.thy ===== *)
theory Ceph_Catalog
  imports Ceph_Client
begin

text \<open>
  The catalog of the configured Ceph clusters (\<open>src/integrations/ceph/catalog.rs\<close>): construction,
  and the dispatch of a command to the client of its cluster under the client's deadline.
  \<open>db_of\<close> is the dashboard of each cluster, and the state an operation works on is that of the
  client its cluster names.  A deadline that passes drops the operation, which the catalog
  reports as a timeout unless the operation's progress flag says that a change may have been sent.
\<close>

section \<open>Construction\<close>

definition max_ceph_clusters :: nat where
  "max_ceph_clusters = 32"

type_synonym ceph_catalog = "(string, ceph_client) btree"

fun insert_ceph_clients :: "(string \<times> ceph_client) list \<Rightarrow> ceph_catalog \<Rightarrow> string + ceph_catalog" where
  "insert_ceph_clients [] clients = Inr clients"
| "insert_ceph_clients ((name, client) # entries) clients =
     (if \<not> valid_ceph_cluster name then Inl ''invalid Ceph cluster name''
      else if max_ceph_clusters \<le> length (bt_keys clients) then Inl ''too many Ceph clusters''
      else if bt_get clients name \<noteq> None then Inl ''duplicate Ceph cluster name''
      else insert_ceph_clients entries (bt_insert name client clients))"

definition ceph_catalog_new :: "(string \<times> ceph_client) list \<Rightarrow> string + ceph_catalog" where
  "ceph_catalog_new entries = insert_ceph_clients entries []"

definition ceph_catalog_client :: "ceph_catalog \<Rightarrow> string \<Rightarrow> ceph_error + ceph_client" where
  "ceph_catalog_client clients cluster = ok_or (bt_get clients cluster) CE_InvalidArguments"

section \<open>Dispatch\<close>

text \<open>The case of \<open>CQ_ClusterList\<close> is \<open>unreachable!()\<close> in the source: it names no cluster.\<close>

fun client_query_command ::
  "'s dashboard_query \<Rightarrow> string \<Rightarrow> ceph_query_command \<Rightarrow> ('s, ceph_stop, json) io" where
  "client_query_command query cluster CQ_ClusterList = lift_ceph (Inl CE_InvalidArguments)"
| "client_query_command query cluster (CQ_StatusGet _) = client_status query cluster"
| "client_query_command query cluster (CQ_MetricsSummary _) = client_metrics_summary query cluster"
| "client_query_command query cluster (CQ_OsdList _ limit) = client_osds query cluster limit"
| "client_query_command query cluster (CQ_OsdGet _ osd_id) = client_osd query cluster osd_id"
| "client_query_command query cluster (CQ_OsdSafeToDestroy _ osd_id) =
     client_safe_to_destroy query cluster osd_id"
| "client_query_command query cluster (CQ_DeviceList _ osd_id limit) =
     client_devices query cluster osd_id limit"
| "client_query_command query cluster (CQ_DeviceGet _ osd_id device_id) =
     client_device query cluster osd_id device_id"
| "client_query_command query cluster (CQ_FlagsGet _) = client_flags query cluster"
| "client_query_command query cluster (CQ_TaskList _ limit) = client_tasks query cluster limit"

fun client_exec_command ::
  "'s dashboard_query \<Rightarrow> 's dashboard_mutate \<Rightarrow> string \<Rightarrow> ceph_exec_command
     \<Rightarrow> ('s, ceph_stop, json) io" where
  "client_exec_command query mutate cluster (CX_Mark _ osd_id state) =
     mark_with_progress mutate cluster osd_id state"
| "client_exec_command query mutate cluster (CX_Reweight _ osd_id weight) =
     reweight_with_progress mutate cluster osd_id weight"
| "client_exec_command query mutate cluster (CX_Scrub _ osd_id kind) =
     scrub_with_progress mutate cluster osd_id kind"
| "client_exec_command query mutate cluster (CX_Destroy _ osd_id) =
     destroy_with_progress query mutate cluster osd_id"
| "client_exec_command query mutate cluster (CX_Purge _ osd_id) =
     purge_with_progress query mutate cluster osd_id"

fun stop_error :: "ceph_error \<Rightarrow> ceph_stop \<Rightarrow> ceph_error" where
  "stop_error timeout_error CS_Dropped = timeout_error"
| "stop_error timeout_error (CS_Error e) = e"

definition with_deadline :: "ceph_error \<Rightarrow> ('s, ceph_stop, 'a) io \<Rightarrow> ('s, ceph_error, 'a) io" where
  "with_deadline timeout_error m = (\<lambda>s.
     let (r, s') = m s in (map_err (stop_error timeout_error) r, s'))"

definition ceph_catalog_query ::
  "(string \<Rightarrow> json option) \<Rightarrow> (string \<Rightarrow> 's dashboard) \<Rightarrow> ceph_catalog \<Rightarrow> ceph_query_command
     \<Rightarrow> ('s ceph_sys, ceph_error, json) io" where
  "ceph_catalog_query parse db_of clients command =
     (case ceph_query_cluster command of
        None \<Rightarrow>
          io_return (JObj
            [(''result'', JArr (map (\<lambda>cluster. JObj [(''cluster'', JStr cluster)]) (bt_keys clients))),
             (''truncated'', JBool False)])
      | Some cluster \<Rightarrow>
          io_bind (io_lift (ceph_catalog_client clients cluster)) (\<lambda>client.
            with_deadline CE_Timeout
              (client_query_command (ceph_query parse (db_of cluster) client) cluster command)))"

definition new_dispatch_progress :: "('s ceph_sys, 'e, unit) io" where
  "new_dispatch_progress = (\<lambda>s. (Inr (), s\<lparr>cs_progress := False\<rparr>))"

definition with_progress_deadline :: "('s ceph_sys, ceph_stop, 'a) io \<Rightarrow> ('s ceph_sys, ceph_error, 'a) io" where
  "with_progress_deadline m = (\<lambda>s.
     let (r, s') = m s in
     (map_err (stop_error (if cs_progress s' then CE_MutationOutcomeUnknown else CE_Timeout)) r, s'))"

definition ceph_catalog_execute ::
  "(string \<Rightarrow> json option) \<Rightarrow> (string \<Rightarrow> 's dashboard) \<Rightarrow> ceph_catalog \<Rightarrow> ceph_exec_command
     \<Rightarrow> ('s ceph_sys, ceph_error, json) io" where
  "ceph_catalog_execute parse db_of clients command =
     (let cluster = ceph_exec_cluster command in
      io_bind (io_lift (ceph_catalog_client clients cluster)) (\<lambda>client.
      io_bind new_dispatch_progress (\<lambda>_.
        with_progress_deadline
          (client_exec_command (ceph_query parse (db_of cluster) client)
            (ceph_mutate parse (db_of cluster) client) cluster command))))"

section \<open>The change a command asks for\<close>

text \<open>The one request each command stands for, and the name its result reports.\<close>

fun ceph_change :: "ceph_exec_command \<Rightarrow> http_method \<times> string \<times> (string \<times> string) list \<times> json" where
  "ceph_change (CX_Mark _ n st) =
     (M_Put, osd_path n ''/mark'', [], JObj [(''action'', JStr (mark_action st))])"
| "ceph_change (CX_Reweight _ n w) =
     (M_Post, osd_path n ''/reweight'', [], JObj [(''weight'', json_f64 w)])"
| "ceph_change (CX_Scrub _ n k) =
     (M_Post, osd_path n ''/scrub'', [(''deep'', show_bool (k = Scrub_Deep))], JNull)"
| "ceph_change (CX_Destroy _ n) = (M_Post, osd_path n ''/destroy'', [], JNull)"
| "ceph_change (CX_Purge _ n) = (M_Post, osd_path n ''/purge'', [], JNull)"

fun ceph_action :: "ceph_exec_command \<Rightarrow> string \<times> u32" where
  "ceph_action (CX_Mark _ n _) = (''osd.mark'', n)"
| "ceph_action (CX_Reweight _ n _) = (''osd.reweight'', n)"
| "ceph_action (CX_Scrub _ n _) = (''osd.scrub'', n)"
| "ceph_action (CX_Destroy _ n) = (''osd.destroy'', n)"
| "ceph_action (CX_Purge _ n) = (''osd.purge'', n)"

definition change_request :: "ceph_exec_command \<Rightarrow> string \<Rightarrow> http_request" where
  "change_request command tok =
     (let (m, p, q, b) = ceph_change command in request_with m p q (Some b) api_v1 tok)"

definition change_result :: "string \<Rightarrow> ceph_exec_command \<Rightarrow> ceph_stop + upstream_response \<Rightarrow> ceph_stop + json" where
  "change_result cluster command answer =
     (let (action, n) = ceph_action command in
      and_then answer (\<lambda>response. map_err CS_Error (mutation_result cluster action (Some n) response)))"

context dashboard_api
begin

lemma client_query_command_quiet: "io_rel quiet_step (client_query_command query cluster command)"
  by (cases command) (simp_all add: client_quiet rel_lift_ceph)

definition safe_answer :: "u32 \<Rightarrow> 's \<Rightarrow> 's \<Rightarrow> bool" where
  "safe_answer n s t \<longleftrightarrow>
     (\<exists>v. answered ''api/osd/safe_to_destroy'' [(''ids'', ''['' @ show_nat (unat n) @ '']'')] v s t
        \<and> opt_bool (json_get v ''is_safe_to_destroy'') = Some True)"

lemma safe_then_change:
  assumes "io_bind (require_safe query c n) (\<lambda>_. io_bind (mutate m p q b) (\<lambda>response. lift_ceph (f response))) s = (r, s')"
  shows "(\<exists>e. r = Inl e \<and> quiet_step s s')
    \<or> (\<exists>a t. quiet_step s t \<and> safe_answer n s t \<and> sent m p q b a t s'
         \<and> r = and_then a (\<lambda>response. map_err CS_Error (f response)))"
  using safe_then_mutate [OF assms] unfolding safe_answer_def by blast

lemma client_exec_command_cases:
  assumes "client_exec_command query mutate cluster command s = (r, s')"
    and "ceph_change command = (m, p, q, b)"
  shows "(\<exists>e. r = Inl e \<and> quiet_step s s')
    \<or> (\<exists>answer t. quiet_step s t
         \<and> (ceph_destructive command \<noteq> None \<longrightarrow> safe_answer (snd (ceph_action command)) s t)
         \<and> sent m p q (Some b) answer t s' \<and> r = change_result cluster command answer)"
proof (cases "ceph_destructive command")
  case None
  with assms show ?thesis
    by (cases command)
      (auto simp: mark_with_progress_def reweight_with_progress_def scrub_with_progress_def Let_def
        change_result_def dest!: mutate_then intro: step_refl)
next
  case (Some x)
  with assms show ?thesis
    by (cases command)
      (auto simp: destroy_with_progress_def purge_with_progress_def
        change_result_def dest!: safe_then_change)
qed

end

end
