(* ===== verification/Ceph_Laws.thy ===== *)
theory Ceph_Laws
  imports Ceph_Catalog
begin

text \<open>
  What the operations of the Ceph catalog guarantee: which requests executing a command can send,
  in which order and with which result; that queries change nothing, end after a bounded number
  of exchanges and return bounded results about what was asked; and how the cached token is used.
  The concrete runs use \<open>scripted\<close>, a dashboard that answers from a list.
\<close>

section \<open>Executing a command\<close>

abbreviation only_reads :: "(http_request \<times> http_exchange) list \<Rightarrow> bool" where
  "only_reads tr \<equiv> list_all (\<lambda>(q, x). \<not> changes_cluster q) tr"

text \<open>A trace that holds a positive answer of the dashboard to the safety check of an OSD.\<close>

definition safe_to_destroy_seen ::
  "(string \<Rightarrow> json option) \<Rightarrow> u32 \<Rightarrow> (http_request \<times> http_exchange) list \<Rightarrow> bool" where
  "safe_to_destroy_seen parse n tr \<longleftrightarrow>
     (\<exists>q x response. (q, x) \<in> set tr
        \<and> hq_method q = M_Get \<and> hq_path q = ''api/osd/safe_to_destroy''
        \<and> hq_query q = [(''ids'', ''['' @ show_nat (unat n) @ '']'')]
        \<and> send_outcome parse CO_Query x = Inr response
        \<and> opt_bool (json_get (up_body response) ''is_safe_to_destroy'') = Some True)"

lemma safe_answer_seen:
  assumes "ceph.safe_answer parse n s t"
  shows "\<exists>tr. cs_trace t = cs_trace s @ tr \<and> safe_to_destroy_seen parse n tr"
proof -
  from assms obtain tr a tok x response where
    "cs_trace t = cs_trace s @ tr @ [(request_with M_Get ''api/osd/safe_to_destroy''
       [(''ids'', ''['' @ show_nat (unat n) @ '']'')] None a tok, x)]"
    "send_outcome parse CO_Query x = Inr response"
    "opt_bool (json_get (up_body response) ''is_safe_to_destroy'') = Some True"
    by (auto simp: ceph.safe_answer_def reads_answered_def)
  then show ?thesis
    by (intro exI [of _ "tr @ [(request_with M_Get ''api/osd/safe_to_destroy''
       [(''ids'', ''['' @ show_nat (unat n) @ '']'')] None a tok, x)]"])
      (simp, unfold safe_to_destroy_seen_def, fastforce)
qed

lemma ceph_execute_cases:
  assumes "ceph_catalog_execute parse db_of clients command s = (r, s')"
  shows "(\<exists>e tr. r = Inl e \<and> cs_trace s' = cs_trace s @ tr \<and> only_reads tr)
    \<or> (\<exists>tr tok x. cs_trace s' = cs_trace s @ tr @ [(change_request command tok, x)] \<and> only_reads tr
         \<and> (ceph_destructive command \<noteq> None \<longrightarrow> safe_to_destroy_seen parse (snd (ceph_action command)) tr)
         \<and> r = map_err (stop_error CE_MutationOutcomeUnknown)
             (change_result (ceph_exec_cluster command) command (send_outcome parse CO_Mutation x)))"
proof -
  let ?cluster = "ceph_exec_cluster command"
  obtain m p q b where change: "ceph_change command = (m, p, q, b)" by (metis prod_cases4)
  show ?thesis
  proof (cases "ceph_catalog_client clients ?cluster")
    case (Inl e)
    with assms show ?thesis by (auto simp: ceph_catalog_execute_def Let_def io_bind_def io_lift_def)
  next
    case (Inr client)
    let ?s = "s\<lparr>cs_progress := False\<rparr>"
    obtain r0 where r0: "client_exec_command (ceph_query parse (db_of ?cluster) client)
        (ceph_mutate parse (db_of ?cluster) client) ?cluster command ?s = (r0, s')"
      and r: "r = map_err (stop_error (if cs_progress s' then CE_MutationOutcomeUnknown else CE_Timeout)) r0"
      using assms Inr by (auto simp: ceph_catalog_execute_def Let_def io_bind_def io_lift_def
          new_dispatch_progress_def with_progress_deadline_def split: prod.splits)
    from ceph.client_exec_command_cases [OF r0 change]
    consider e where "r0 = Inl e" "quiet ?s s'"
      | answer t where "quiet ?s t"
          "ceph_destructive command \<noteq> None \<longrightarrow> ceph.safe_answer parse (snd (ceph_action command)) ?s t"
          "change_sent parse m p q (Some b) answer t s'" "r0 = change_result ?cluster command answer"
      by blast
    then show ?thesis
    proof cases
      case 1
      then show ?thesis using r by (auto simp: quiet_def)
    next
      case 2
      from 2(3) obtain t' tok x where t': "quiet t t'" "cs_progress s'"
        "cs_trace s' = cs_trace t' @ [(request_with m p q (Some b) api_v1 tok, x)]"
        "answer = send_outcome parse CO_Mutation x"
        by (auto simp: change_sent_def)
      from 2(1) obtain tr1 where tr1: "cs_trace t = cs_trace s @ tr1" "only_reads tr1"
        by (auto simp: quiet_def)
      from t'(1) obtain tr2 where tr2: "cs_trace t' = cs_trace t @ tr2" "only_reads tr2"
        by (auto simp: quiet_def)
      have "safe_to_destroy_seen parse (snd (ceph_action command)) (tr1 @ tr2)"
        if "ceph_destructive command \<noteq> None"
        using 2(2) that safe_answer_seen [of parse _ ?s t] tr1(1)
        by (fastforce simp: safe_to_destroy_seen_def)
      then show ?thesis
        using t' tr1 tr2 r 2(4)
        by (intro disjI2 exI [of _ "tr1 @ tr2"] exI [of _ tok] exI [of _ x])
          (auto simp: change_request_def change)
    qed
  qed
qed

lemma change_request_changes [simp]: "changes_cluster (change_request command tok)"
  by (cases command) (auto simp: change_request_def changes_cluster_def osd_path_def request_with_def)

text \<open>A scripted dashboard, for concrete runs: it answers from a list.\<close>

definition scripted :: "http_exchange list dashboard" where
  "scripted = \<lparr>cd_joins = (\<lambda>_. True), cd_permit = (\<lambda>w. (True, w)), cd_lock = (\<lambda>t w. (Some t, w)),
     cd_exchange = (\<lambda>q w. case w of [] \<Rightarrow> (HX_Failed, []) | x # xs \<Rightarrow> (x, xs))\<rparr>"

definition sample_parse :: "string \<Rightarrow> json option" where
  "sample_parse b = (if b = ''S'' then Some (JObj [(''is_safe_to_destroy'', JBool True)])
     else if b = ''F'' then Some (JArr [JStr ''noout'', JStr ''pauserd''])
     else if b = ''T'' then Some (JObj [(''token'', JStr ''n'')]) else None)"

definition sample_client :: ceph_client where
  "sample_client = \<lparr>ccl_origin = \<lparr>url_scheme = ''https'', url_host = Some ''h'', url_username = [],
       url_password = None, url_query = None, url_fragment = None, url_path = ''/''\<rparr>,
     ccl_username = ''u'', ccl_password = ''p''\<rparr>"

definition answer :: "u16 \<Rightarrow> string \<Rightarrow> http_exchange" where
  "answer status body = HX_Response \<lparr>hs_status = status, hs_length = None, hs_chunks = [Inr body]\<rparr>"

definition sample_state :: "http_exchange list \<Rightarrow> http_exchange list ceph_sys" where
  "sample_state w = \<lparr>cs_token = Some ''t'', cs_progress = False, cs_trace = [], cs_world = w\<rparr>"

lemmas sample_simps = scripted_def sample_parse_def answer_def sample_state_def
  io_bind_def io_return_def io_lift_def io_guard_def guard_or_def io_try_def lift_ceph_def
  lock_token_def acquire_permit_def exchange_def store_progress_def
  authenticate_def ceph_query_def ceph_mutate_def send_def send_response_def Let_def
  status_success_def read_limited_def max_response_bytes_def parse_bytes_def
  with_progress_deadline_def new_dispatch_progress_def ceph_catalog_execute_def
  ceph_catalog_client_def

lemma sample_destroy:
  "\<exists>j q. ceph_catalog_execute sample_parse (\<lambda>_. scripted) [(''a'', sample_client)] (CX_Destroy ''a'' 7)
     (sample_state [answer 200 ''S'', answer 200 []])
   = (Inr j, \<lparr>cs_token = Some ''t'', cs_progress = True,
       cs_trace = [(q, answer 200 ''S''), (change_request (CX_Destroy ''a'' 7) ''t'', answer 200 [])],
       cs_world = []\<rparr>)"
  by (simp add: sample_simps destroy_with_progress_def require_safe_def client_safe_to_destroy_def
      ceph_safe_to_destroy_def bounded_scalars_def bounded_array_def bounded_string_def opt_bool_def
      mutation_result_def change_request_def request_with_def api_v1_def)


text \<open>
  C1: a destroy or purge command changes the cluster only after the dashboard has answered, in the
  same call and before the change, that this very OSD is safe to destroy.
\<close>

theorem destroy_only_when_safe:
  assumes "ceph_catalog_execute parse db_of clients command s = (r, s')"
    and "ceph_destructive command = Some (action, cluster, osd_id)"
    and "cs_trace s' = cs_trace s @ tr" "(q, x) \<in> set tr" "changes_cluster q"
  shows "\<exists>tr'. tr = tr' @ [(q, x)] \<and> safe_to_destroy_seen parse osd_id tr'"
proof -
  have n: "snd (ceph_action command) = osd_id" using assms(2) by (cases command) auto
  from ceph_execute_cases [OF assms(1)] show ?thesis
    using assms(2-5) n by (auto simp: list_all_iff)
qed

lemma send_outcome_Inr:
  "send_outcome parse op x = Inr response \<Longrightarrow>
     \<exists>h. x = HX_Response h \<and> hs_status h = up_status response \<and> status_success (up_status response)"
  by (cases x) (auto simp: send_response_def Let_def split: if_splits)

lemma mutation_result_Inr:
  assumes "mutation_result c a (Some n) response = Inr j"
  shows "up_status response \<in> {200, 202} \<and> opt_u64 (json_get j ''osd_id'') = Some (ucast n)
    \<and> (up_status response = 200 \<longrightarrow> opt_str (json_get j ''status'') = Some ''completed'')
    \<and> (up_status response = 202 \<longrightarrow> opt_str (json_get j ''status'') = Some ''accepted''
         \<and> opt_u64 (json_pointer j ''/task/metadata/svc_id'') = Some (ucast n))"
proof -
  have "opt_u64 (json_pointer (JObj [(''cluster'', JStr c), (''action'', JStr a),
      (''osd_id'', json_option json_u32 (Some n)), (''status'', JStr ''accepted''),
      (''task'', JObj [(''name'', JStr ''osd/delete''), (''metadata'', JObj [(''svc_id'', json_u32 n)])])])
      ''/task/metadata/svc_id'') = Some (ucast n)"
    by (simp add: json_pointer_def opt_u64_def)
  then show ?thesis using assms
    by (auto simp: mutation_result_def opt_u64_def opt_str_def json_option_def split: if_splits
        dest!: mutation_task_names_osd)
qed

theorem destroy_only_when_safe_witness:
  "\<exists>q. safe_to_destroy_seen sample_parse 7 [(q, answer 200 ''S'')]"
proof -
  from sample_destroy obtain j q where
    run: "ceph_catalog_execute sample_parse (\<lambda>_. scripted) [(''a'', sample_client)] (CX_Destroy ''a'' 7)
      (sample_state [answer 200 ''S'', answer 200 []])
    = (Inr j, \<lparr>cs_token = Some ''t'', cs_progress = True,
       cs_trace = [(q, answer 200 ''S''), (change_request (CX_Destroy ''a'' 7) ''t'', answer 200 [])],
       cs_world = []\<rparr>)" by blast
  from destroy_only_when_safe [OF run, of "''destroy''" "''a''" 7
      "[(q, answer 200 ''S''), (change_request (CX_Destroy ''a'' 7) ''t'', answer 200 [])]"
      "change_request (CX_Destroy ''a'' 7) ''t''" "answer 200 []"]
  show ?thesis by (auto simp: sample_state_def)
qed

text \<open>
  C2: executing a command sends at most one request that changes the cluster; it is the request
  this command stands for, and nothing is sent after it.  A result that is not an error is only
  returned when that request was sent and the dashboard answered it with status 200 (reported as
  completed) or with 202 and a task of the same OSD (reported as accepted).
\<close>

theorem execute_sends_one_change:
  assumes "ceph_catalog_execute parse db_of clients command s = (r, s')"
  shows "\<exists>tr. cs_trace s' = cs_trace s @ tr \<and>
    (only_reads tr \<and> (\<exists>e. r = Inl e)
     \<or> (\<exists>tr' tok x. tr = tr' @ [(change_request command tok, x)] \<and> only_reads tr'
         \<and> (\<forall>j. r = Inr j \<longrightarrow> (\<exists>response. x = HX_Response response
              \<and> opt_u64 (json_get j ''osd_id'') = Some (ucast (snd (ceph_action command)))
              \<and> (hs_status response = 200 \<and> opt_str (json_get j ''status'') = Some ''completed''
                 \<or> hs_status response = 202 \<and> opt_str (json_get j ''status'') = Some ''accepted''
                   \<and> opt_u64 (json_pointer j ''/task/metadata/svc_id'')
                       = Some (ucast (snd (ceph_action command))))))))"
proof -
  obtain action n where an: "ceph_action command = (action, n)" by fastforce
  have success: "\<exists>response. x = HX_Response response \<and> opt_u64 (json_get j ''osd_id'') = Some (ucast n)
      \<and> (hs_status response = 200 \<and> opt_str (json_get j ''status'') = Some ''completed''
         \<or> hs_status response = 202 \<and> opt_str (json_get j ''status'') = Some ''accepted''
           \<and> opt_u64 (json_pointer j ''/task/metadata/svc_id'') = Some (ucast n))"
    if j: "map_err f (change_result c command (send_outcome parse CO_Mutation x)) = Inr j" for f c x j
  proof -
    from j obtain response where "send_outcome parse CO_Mutation x = Inr response"
      "mutation_result c action (Some n) response = Inr j"
      by (auto simp: change_result_def an)
    moreover from send_outcome_Inr [OF this(1)] obtain h where "x = HX_Response h"
      "hs_status h = up_status response" by blast
    ultimately show ?thesis using mutation_result_Inr [of c action n response j] by auto
  qed
  from ceph_execute_cases [OF assms] show ?thesis
  proof (elim disjE exE conjE)
    fix e tr
    assume "r = Inl e" "cs_trace s' = cs_trace s @ tr" "only_reads tr"
    then show ?thesis by auto
  next
    fix tr tok x
    assume tr: "cs_trace s' = cs_trace s @ tr @ [(change_request command tok, x)]" "only_reads tr"
      and r: "r = map_err (stop_error CE_MutationOutcomeUnknown)
        (change_result (ceph_exec_cluster command) command (send_outcome parse CO_Mutation x))"
    show ?thesis using tr success [OF sym [OF r, THEN trans]] an
      by (intro exI [of _ "tr @ [(change_request command tok, x)]"] conjI disjI2 exI [of _ tr]
          exI [of _ tok] exI [of _ x]) auto
  qed
qed

theorem execute_sends_one_change_witness:
  "\<exists>j s'. ceph_catalog_execute sample_parse (\<lambda>_. scripted) [(''a'', sample_client)] (CX_Destroy ''a'' 7)
      (sample_state [answer 200 ''S'', answer 200 []]) = (Inr j, s')
    \<and> opt_u64 (json_get j ''osd_id'') = Some 7 \<and> opt_str (json_get j ''status'') = Some ''completed''"
proof -
  from sample_destroy obtain j q where
    run: "ceph_catalog_execute sample_parse (\<lambda>_. scripted) [(''a'', sample_client)] (CX_Destroy ''a'' 7)
      (sample_state [answer 200 ''S'', answer 200 []])
    = (Inr j, \<lparr>cs_token = Some ''t'', cs_progress = True,
       cs_trace = [(q, answer 200 ''S''), (change_request (CX_Destroy ''a'' 7) ''t'', answer 200 [])],
       cs_world = []\<rparr>)" by blast
  from execute_sends_one_change [OF run]
  have "opt_u64 (json_get j ''osd_id'') = Some 7 \<and> opt_str (json_get j ''status'') = Some ''completed''"
    by (auto simp: sample_state_def answer_def)
  with run show ?thesis by blast
qed

text \<open>
  C3: if a mutation ends with an error the caller may retry (no capacity, a timeout, an unavailable
  dashboard), then nothing that changes the cluster was sent.  If it was sent, the error is the
  unknown outcome, or a definite answer of the dashboard: 401, 404, or a client-error status.
\<close>

theorem retryable_error_sent_nothing:
  assumes "ceph_catalog_execute parse db_of clients command s = (Inl e, s')"
    and "cs_trace s' = cs_trace s @ tr"
  shows "(te_retryable (ceph_into_tool_error e subject) \<longrightarrow> only_reads tr)
    \<and> (only_reads tr \<or> e = CE_MutationOutcomeUnknown
       \<or> (\<exists>q response. last tr = (q, HX_Response response)
            \<and> (e = CE_Unauthorized \<and> hs_status response = 401 \<or> e = CE_NotFound \<and> hs_status response = 404
               \<or> e = CE_MutationRejected \<and> status_client_error (hs_status response))))"
proof -
  obtain action n where an: "ceph_action command = (action, n)" by fastforce
  have answered: "e = CE_MutationOutcomeUnknown
      \<or> (\<exists>response. x = HX_Response response
            \<and> (e = CE_Unauthorized \<and> hs_status response = 401 \<or> e = CE_NotFound \<and> hs_status response = 404
               \<or> e = CE_MutationRejected \<and> status_client_error (hs_status response)))"
    if "map_err (stop_error CE_MutationOutcomeUnknown)
        (change_result c command (send_outcome parse CO_Mutation x)) = Inl e" for c x
  proof (cases x)
    case (HX_Response response)
    with that show ?thesis
      by (cases "send_response parse CO_Mutation response")
        (auto simp: change_result_def an dest!: send_response_mutation_error mutation_result_error
          elim!: map_err.elims)
  qed (use that in \<open>auto simp: change_result_def an\<close>)
  from ceph_execute_cases [OF assms(1)] show ?thesis
  proof (elim disjE exE conjE)
    fix tr' tok x
    assume tr: "cs_trace s' = cs_trace s @ tr' @ [(change_request command tok, x)]"
      and r: "Inl e = map_err (stop_error CE_MutationOutcomeUnknown)
        (change_result (ceph_exec_cluster command) command (send_outcome parse CO_Mutation x))"
    from answered [OF r [symmetric]] tr assms(2) show ?thesis
      by (elim disjE exE conjE) (simp_all add: ceph_retryable_iff)
  qed (use assms(2) in simp)
qed

lemma sample_rejected:
  "ceph_catalog_execute sample_parse (\<lambda>_. scripted) [(''a'', sample_client)] (CX_Mark ''a'' 7 Mark_Out)
     (sample_state [answer 503 []])
   = (Inl CE_MutationOutcomeUnknown, \<lparr>cs_token = Some ''t'', cs_progress = True,
       cs_trace = [(change_request (CX_Mark ''a'' 7 Mark_Out) ''t'', answer 503 [])],
       cs_world = []\<rparr>)"
  by (simp add: sample_simps mark_with_progress_def status_client_error_def
      mutation_result_def change_request_def request_with_def api_v1_def)

theorem retryable_error_sent_nothing_witness:
  "\<not> te_retryable (ceph_into_tool_error CE_MutationOutcomeUnknown ''x'')"
  using retryable_error_sent_nothing [OF sample_rejected,
      of "[(change_request (CX_Mark ''a'' 7 Mark_Out) ''t'', answer 503 [])]" "''x''"]
  by (simp add: sample_state_def)

section \<open>Queries\<close>

lemma with_deadline_quiet: "io_rel R m \<Longrightarrow> io_rel R (with_deadline e m)"
  unfolding io_rel_def with_deadline_def by (auto split: prod.splits)

lemma ceph_catalog_query_quiet: "io_rel quiet (ceph_catalog_query parse db_of clients command)"
  unfolding ceph_catalog_query_def
  by (intro qs.step_rules with_deadline_quiet ceph.client_query_command_quiet)

text \<open>The number of exchanges an operation can add to the trace.\<close>

definition costs :: "nat \<Rightarrow> ('s, 'a) ceph_io \<Rightarrow> bool" where
  "costs n m \<longleftrightarrow> (\<forall>s r s'. m s = (r, s') \<longrightarrow> length (cs_trace s') \<le> length (cs_trace s) + n)"

lemma costsD: "costs n m \<Longrightarrow> m s = (r, s') \<Longrightarrow> length (cs_trace s') \<le> length (cs_trace s) + n"
  unfolding costs_def by blast

lemma costs_bind:
  assumes "costs n m" "\<And>a. costs k (f a)"
  shows "costs (n + k) (io_bind m f)"
  unfolding costs_def
proof (intro allI impI)
  fix s r s'
  assume "io_bind m f s = (r, s')"
  then consider e where "m s = (Inl e, s')" | a t where "m s = (Inr a, t)" "f a t = (r, s')"
    by (auto simp: io_bind_def split: prod.splits sum.splits)
  then show "length (cs_trace s') \<le> length (cs_trace s) + (n + k)"
    using assms unfolding costs_def by cases (fastforce, smt (verit) add.assoc add_mono_thms_linordered_semiring(3) order_trans)
qed

lemma costs_mono: "costs n m \<Longrightarrow> n \<le> k \<Longrightarrow> costs k m"
  unfolding costs_def by (meson add_le_mono le_refl order_trans)

lemma costs_bind_le:
  "costs n m \<Longrightarrow> (\<And>a. costs k (f a)) \<Longrightarrow> n + k \<le> l \<Longrightarrow> costs l (io_bind m f)"
  using costs_bind costs_mono by blast

lemma costs_free [simp]:
  "costs n (io_return a)" "costs n (io_lift r)" "costs n (io_guard b e)" "costs n (lift_ceph r')"
  "costs n (set_token t)" "costs n (lock_token db)" "costs n (acquire_permit db)" "costs n store_progress"
  by (auto simp: costs_def io_return_def io_lift_def io_guard_def lift_ceph_def set_token_def
      lock_token_def acquire_permit_def store_progress_def split: prod.splits option.splits)

lemma costs_exchange: "costs 1 (exchange db q)"
  by (auto simp: costs_def exchange_def split: prod.splits)

lemma costs_if: "costs n m \<Longrightarrow> costs n m' \<Longrightarrow> costs n (if b then m else m')"
  by simp

lemma costs_option:
  "costs n m \<Longrightarrow> (\<And>a. costs n (f a)) \<Longrightarrow> costs n (case v of None \<Rightarrow> m | Some a \<Rightarrow> f a)"
  by (simp split: option.splits)

lemma costs_authenticate: "costs 1 (authenticate parse db c)"
  unfolding authenticate_def
  by (rule costs_bind_le [of 0 _ 1], simp, intro costs_option, simp, rule costs_bind_le [of 0 _ 1], simp,
      rule costs_bind_le [of 0 _ 1], simp, rule costs_bind_le [of 1 _ 0], rule costs_exchange)
    (simp_all add: costs_bind_le [of 0 _ 0])

lemma costs_send: "costs 1 (send parse db q operation)"
  unfolding send_def
  by (rule costs_bind_le [of 0 _ 1], simp, rule costs_bind_le [of 0 _ 1], simp,
      rule costs_bind_le [of 0 _ 1], simp, rule costs_bind_le [of 1 _ 0], rule costs_exchange) simp_all

lemma costs_io_try: "costs n m \<Longrightarrow> costs n (io_try m)"
  by (auto simp: costs_def io_try_def split: prod.splits)

lemma costs_query: "costs 4 (ceph_query parse db c m p q b a)"
  unfolding ceph_query_def forget_token_def
  by (rule costs_bind_le [of 1 _ 3], rule costs_authenticate, rule costs_bind_le [of 1 _ 2],
      rule costs_io_try, rule costs_send, rule costs_if, rule costs_bind_le [of 0 _ 2],
      rule costs_bind_le [of 0 _ 0], simp, rule costs_if, simp, simp, simp, rule costs_bind_le [of 1 _ 1],
      rule costs_authenticate, rule costs_bind_le [of 1 _ 0], rule costs_send)
    (simp_all add: costs_bind_le [of 0 _ 0])

lemma costs_find_osd:
  "costs (4 * length pages) (find_osd (ceph_query parse db c) n pages)"
proof (induction pages)
  case (Cons page pages)
  show ?case unfolding find_osd.simps
    by (rule costs_bind_le [of 4 _ "4 * length pages"], rule costs_query,
        rule costs_bind_le [of 0 _ "4 * length pages"], simp, rule costs_if, simp)
      (auto intro!: costs_option costs_if Cons.IH)
qed simp

lemma costs_client_query_command:
  "costs 24 (client_query_command (ceph_query parse db c) cluster command)"
proof -
  note q = costs_bind_le [of 4 _ 0, OF costs_query]
  show ?thesis
  proof (cases command)
    case (CQ_OsdGet cl n)
    have "costs 20 (find_osd (ceph_query parse db c) n [0..<osd_inventory_max_pages])"
      using costs_find_osd [of "[0..<osd_inventory_max_pages]"] by (simp add: osd_inventory_max_pages_def)
    then show ?thesis
      by (auto simp: CQ_OsdGet client_osd_def intro!: costs_bind_le [of 4 _ 20, OF costs_query]
          costs_bind_le [of 20 _ 0])
  qed (auto simp: client_status_def client_metrics_summary_def client_osds_def client_safe_to_destroy_def
      client_devices_def client_device_def client_flags_def client_tasks_def Let_def intro!: q)
qed

lemma with_deadline_Inr [io_simps]:
  "(with_deadline e m s = (Inr v, s')) \<longleftrightarrow> m s = (Inr v, s')"
  by (auto simp: with_deadline_def split: prod.splits)

lemma insert_ceph_clients_inv:
  assumes "insert_ceph_clients entries clients = Inr catalog" "bt_ok clients"
    and "\<forall>n\<in>set (bt_keys clients). valid_ceph_cluster n" "length (bt_keys clients) \<le> 32"
  shows "bt_ok catalog \<and> (\<forall>n\<in>set (bt_keys catalog). valid_ceph_cluster n) \<and> length (bt_keys catalog) \<le> 32"
  using assms
proof (induction entries clients rule: insert_ceph_clients.induct)
  case (2 name client entries clients)
  then have new: "valid_ceph_cluster name" "length (bt_keys clients) < 32" "bt_get clients name = None"
    and rest: "insert_ceph_clients entries (bt_insert name client clients) = Inr catalog"
    by (auto simp: max_ceph_clusters_def split: if_splits)
  have "length (bt_keys (bt_insert name client clients)) = Suc (length (bt_keys clients))"
    using bt.length_keys_insert [OF "2.prems"(2), of name client] new(3)
    by (simp add: bt_keys_def bt_get_None)
  moreover have "\<forall>n\<in>set (bt_keys (bt_insert name client clients)). valid_ceph_cluster n"
    using new(1) "2.prems"(3) by (simp add: bt_keys_def bt_insert_keys del: set_map)
  ultimately show ?case
    using new by (intro "2.IH" rest bt_insert_ok "2.prems"(2)) (simp_all add: max_ceph_clusters_def)
qed auto

lemma client_query_command_bounded:
  assumes "client_query_command query cluster command s = (Inr j, s')" "valid_ceph_cluster cluster"
    and "ceph_query_input_validate i = Inr command"
  shows "bounded_json j"
proof -
  have limit: "unat l \<le> 100" if "command = CQ_OsdList c l \<or> command = CQ_DeviceList c n l" for c n l
    using that assms(3) by (cases i) (auto simp: bounded_limit_Inr split: if_splits)
  show ?thesis
    using assms(1,2) limit
    by (cases command)
      (auto simp: client_status_def client_metrics_summary_def client_osds_def client_osd_def
        client_safe_to_destroy_def client_devices_def client_device_def client_flags_def client_tasks_def
        Let_def lift_ceph_def io_simps
        dest: ceph_status_bounded ceph_metrics_bounded ceph_osd_list_bounded ceph_osd_bounded
          ceph_safe_to_destroy_bounded ceph_devices_bounded ceph_device_bounded ceph_flags_bounded
          ceph_tasks_bounded)
qed

text \<open>
  A validated query changes nothing in the cluster and ends after at most 24 exchanges with
  the dashboard; its result is bounded whatever the dashboard answers: no string of it is longer
  than 4,096 bytes or contains a control character, and no list has more than 100 elements.
\<close>

theorem ceph_query_bounded_and_quiet:
  assumes "ceph_catalog_new entries = Inr clients" "ceph_query_input_validate i = Inr command"
    and "ceph_catalog_query parse db_of clients command s = (r, s')"
  shows "quiet s s' \<and> length (cs_trace s') \<le> length (cs_trace s) + 24
    \<and> (\<forall>j. r = Inr j \<longrightarrow> bounded_json j)"
proof (intro conjI allI impI)
  show "quiet s s'" by (rule io_relD [OF ceph_catalog_query_quiet assms(3)])
  show "length (cs_trace s') \<le> length (cs_trace s) + 24"
    using assms(3) by (auto simp: ceph_catalog_query_def with_deadline_def io_bind_def io_lift_def io_return_def
        split: option.splits sum.splits prod.splits dest: costsD [OF costs_client_query_command])
next
  fix j
  assume "r = Inr j"
  have inv: "bt_ok clients \<and> (\<forall>n\<in>set (bt_keys clients). valid_ceph_cluster n) \<and> length (bt_keys clients) \<le> 32"
    using insert_ceph_clients_inv [of entries "[]" clients] assms(1)
    by (simp add: ceph_catalog_new_def bt_ok_def bt_keys_def)
  show "bounded_json j"
  proof (cases "ceph_query_cluster command")
    case None
    with assms(3) \<open>r = Inr j\<close> inv show ?thesis
      by (auto simp: ceph_catalog_query_def io_return_def list_all_iff cluster_plain)
  next
    case (Some cluster)
    with assms(3) \<open>r = Inr j\<close> obtain client where
      c: "bt_get clients cluster = Some client" and
      j: "client_query_command (ceph_query parse (db_of cluster) client) cluster command s = (Inr j, s')"
      by (auto simp: ceph_catalog_query_def ceph_catalog_client_def io_simps)
    from c inv have "valid_ceph_cluster cluster"
      by (metis bt_get_None bt_keys_def option.distinct(1))
    from client_query_command_bounded [OF j this assms(2)] show ?thesis .
  qed
qed

lemma find_osd_Some:
  "find_osd query n pages s = (Inr (Some w), s') \<Longrightarrow> osd_id_of w = Some (ucast n)"
proof (induction pages arbitrary: s)
  case (Cons page pages)
  then show ?case
    by (auto simp: io_simps lift_ceph_def osd_id_of_def get_or_def opt_u64_def find_Some_iff
        split: if_splits option.splits)
qed (simp add: io_simps)

lemma json_get_simps [simp]: "json_get (JObj m) k = map_of m k"
  by simp

lemma ceph_osd_id: "ceph_osd c v w = Inr j \<Longrightarrow> osd_id_of w = Some n \<Longrightarrow>
    opt_str (json_get j ''cluster'') = Some c \<and> opt_u64 (json_get j ''osd_id'') = Some n"
  by (auto simp: ceph_osd_def Let_def opt_str_def opt_u64_def json_u64_def split: if_splits)

lemma ceph_device_ids: "ceph_device c n w = Inr j \<Longrightarrow> device_id_of w = Some d \<Longrightarrow>
    opt_str (json_get j ''cluster'') = Some c \<and> opt_u64 (json_get j ''osd_id'') = Some (ucast n)
    \<and> opt_str (json_get j ''device_id'') = Some d"
  by (auto simp: ceph_device_def opt_str_def opt_u64_def bind_eq_Some_conv)

lemma ceph_safe_ids: "ceph_safe_to_destroy c n v = Inr j \<Longrightarrow>
    opt_str (json_get j ''cluster'') = Some c \<and> opt_u64 (json_get j ''osd_id'') = Some (ucast n)"
  by (auto simp: ceph_safe_to_destroy_def opt_str_def opt_u64_def)

lemma named_cluster:
  "ceph_status c v = Inr j \<Longrightarrow> opt_str (json_get j ''cluster'') = Some c"
  "ceph_metrics c v = Inr j \<Longrightarrow> opt_str (json_get j ''cluster'') = Some c"
  "ceph_osd_list c v l = Inr j \<Longrightarrow> opt_str (json_get j ''cluster'') = Some c"
  "ceph_devices c n v l = Inr j \<Longrightarrow> opt_str (json_get j ''cluster'') = Some c"
  "ceph_flags c v = Inr j \<Longrightarrow> opt_str (json_get j ''cluster'') = Some c"
  "ceph_tasks c v l = Inr j \<Longrightarrow> opt_str (json_get j ''cluster'') = Some c"
  by (auto simp: ceph_status_def ceph_metrics_def ceph_osd_list_def ceph_devices_def ceph_flags_def
      ceph_tasks_def opt_str_def Let_def)

lemma client_query_command_answers:
  assumes "client_query_command query cluster command s = (Inr j, s')"
  shows "opt_str (json_get j ''cluster'') = Some cluster
    \<and> (case command of
         CQ_OsdGet _ n \<Rightarrow> opt_u64 (json_get j ''osd_id'') = Some (ucast n)
       | CQ_OsdSafeToDestroy _ n \<Rightarrow> opt_u64 (json_get j ''osd_id'') = Some (ucast n)
       | CQ_DeviceGet _ n d \<Rightarrow> opt_u64 (json_get j ''osd_id'') = Some (ucast n)
           \<and> opt_str (json_get j ''device_id'') = Some d
       | _ \<Rightarrow> True)"
proof (cases command)
  case (CQ_OsdGet c n)
  with assms show ?thesis
    by (auto simp: client_osd_def lift_ceph_def io_simps dest!: find_osd_Some ceph_osd_id)
next
  case (CQ_DeviceGet c n d)
  with assms show ?thesis
    by (auto simp: client_device_def lift_ceph_def io_simps dest!: find_device_Inr dest: ceph_device_ids)
qed (use assms in \<open>auto simp: client_status_def client_metrics_summary_def client_osds_def
      client_safe_to_destroy_def client_devices_def client_flags_def client_tasks_def
      Let_def lift_ceph_def io_simps dest: named_cluster ceph_safe_ids\<close>)

text \<open>
  A query result is about what was asked: it names the cluster of the command, a single OSD,
  safety check or device carries the requested OSD id, and a single device the requested
  device id.
\<close>

theorem ceph_query_answers_command:
  assumes "ceph_catalog_query parse db_of clients command s = (Inr j, s')"
  shows "(\<forall>cluster. ceph_query_cluster command = Some cluster \<longrightarrow> opt_str (json_get j ''cluster'') = Some cluster)
    \<and> (case command of
         CQ_OsdGet _ n \<Rightarrow> opt_u64 (json_get j ''osd_id'') = Some (ucast n)
       | CQ_OsdSafeToDestroy _ n \<Rightarrow> opt_u64 (json_get j ''osd_id'') = Some (ucast n)
       | CQ_DeviceGet _ n d \<Rightarrow> opt_u64 (json_get j ''osd_id'') = Some (ucast n)
           \<and> opt_str (json_get j ''device_id'') = Some d
       | _ \<Rightarrow> True)"
proof (cases "ceph_query_cluster command")
  case None
  then show ?thesis by (cases command) simp_all
next
  case (Some cluster)
  with assms obtain client where
    j: "client_query_command (ceph_query parse (db_of cluster) client) cluster command s = (Inr j, s')"
    by (auto simp: ceph_catalog_query_def io_simps)
  from client_query_command_answers [OF j] Some show ?thesis by auto
qed

lemma sample_flags:
  "\<exists>s'. ceph_catalog_query sample_parse (\<lambda>_. scripted) [(''a'', sample_client)] (CQ_FlagsGet ''a'')
     (sample_state [answer 200 ''F''])
   = (Inr (JObj [(''cluster'', JStr ''a''), (''flags'', JArr [JStr ''noout'']), (''truncated'', JBool False)]), s')"
  by (simp add: sample_simps ceph_catalog_query_def with_deadline_def client_flags_def ceph_flags_def
      bounded_strings_def bounded_array_def bounded_plain_def has_control_def chars_ascii is_control_def
      json_strings_def is_curated_flag_def curated_flags_def request_with_def)

theorem ceph_query_bounded_and_quiet_witness:
  "bounded_json (JObj [(''cluster'', JStr ''a''), (''flags'', JArr [JStr ''noout'']), (''truncated'', JBool False)])"
proof -
  from sample_flags obtain s' where run: "ceph_catalog_query sample_parse (\<lambda>_. scripted)
      [(''a'', sample_client)] (CQ_FlagsGet ''a'') (sample_state [answer 200 ''F''])
    = (Inr (JObj [(''cluster'', JStr ''a''), (''flags'', JArr [JStr ''noout'']), (''truncated'', JBool False)]), s')"
    by blast
  have valid: "valid_ceph_cluster ''a''" by (simp add: valid_ceph_cluster_def ascii_defs)
  then have "ceph_catalog_new [(''a'', sample_client)] = Inr [(''a'', sample_client)]"
    by (simp add: ceph_catalog_new_def max_ceph_clusters_def bt_keys_def)
  moreover have "ceph_query_input_validate (CQI_FlagsGet ''a'') = Inr (CQ_FlagsGet ''a'')"
    using valid by simp
  ultimately show ?thesis using ceph_query_bounded_and_quiet [OF _ _ run] by blast
qed

lemma sample_check:
  "\<exists>j s'. ceph_catalog_query sample_parse (\<lambda>_. scripted) [(''a'', sample_client)] (CQ_OsdSafeToDestroy ''a'' 7)
     (sample_state [answer 200 ''S'']) = (Inr j, s')"
  by (simp add: sample_simps ceph_catalog_query_def with_deadline_def client_safe_to_destroy_def
      ceph_safe_to_destroy_def bounded_scalars_def bounded_array_def bounded_string_def opt_bool_def
      request_with_def)

theorem ceph_query_answers_command_witness:
  "\<exists>j s'. ceph_catalog_query sample_parse (\<lambda>_. scripted) [(''a'', sample_client)] (CQ_OsdSafeToDestroy ''a'' 7)
     (sample_state [answer 200 ''S'']) = (Inr j, s') \<and> opt_u64 (json_get j ''osd_id'') = Some 7"
  using sample_check ceph_query_answers_command [of sample_parse "\<lambda>_. scripted" "[(''a'', sample_client)]"
      "CQ_OsdSafeToDestroy ''a'' 7" "sample_state [answer 200 ''S'']"] by fastforce

section \<open>The token cell\<close>

text \<open>Without other operations on the same client, a lock sees what this operation left.\<close>

definition unshared :: "'s dashboard \<Rightarrow> bool" where
  "unshared db \<longleftrightarrow> (\<forall>t w. cd_lock db t w = (Some t, w))"

lemma unshared_lock: "unshared db \<Longrightarrow> lock_token db s = (Inr (cs_token s), s)"
  by (simp add: unshared_def lock_token_def)

lemma authenticate_cached:
  "unshared db \<Longrightarrow> cs_token s = Some tok \<Longrightarrow> authenticate parse db c s = (Inr tok, s)"
  by (simp add: authenticate_def io_bind_def unshared_lock io_return_def)

lemma authenticate_login:
  assumes "unshared db" "cs_token s = None" "authenticate parse db c s = (r, s')"
  shows "(\<exists>e. r = Inl e) \<and> cs_trace s' = cs_trace s
    \<or> (\<exists>x. cs_trace s' = cs_trace s @ [(auth_request c, x)] \<and> r = auth_outcome parse x)"
proof (cases "cd_joins db ''api/auth''")
  case False
  with assms show ?thesis
    by (auto simp: authenticate_def unshared_lock io_bind_def io_guard_def io_lift_def guard_or_def)
next
  case joins: True
  obtain free w where permit: "cd_permit db (cs_world s) = (free, w)" by fastforce
  obtain x w' where x: "cd_exchange db (auth_request c) w = (x, w')" by fastforce
  show ?thesis
  proof (cases free)
    case True
    with assms joins permit x show ?thesis
      by (cases "auth_outcome parse x")
        (auto simp: authenticate_def unshared_lock send_simps set_token_def)
  next
    case False
    with assms joins permit show ?thesis
      by (auto simp: authenticate_def unshared_lock send_simps)
  qed
qed

lemma authenticate_token:
  assumes "unshared db" "authenticate parse db c s = (Inr tok, s')"
  shows "cs_token s' = Some tok"
  using assms(2)
  by (cases "cs_token s")
    (auto simp: authenticate_def io_simps unshared_lock [OF assms(1)] set_token_def)

lemma authenticate_trace:
  assumes "unshared db" "authenticate parse db c s = (r, s')"
  shows "\<exists>login. cs_trace s' = cs_trace s @ login
    \<and> (login = [] \<or> cs_token s = None \<and> (\<exists>x. login = [(auth_request c, x)]))"
  using authenticate_login [OF assms(1) _ assms(2)] authenticate_cached [OF assms(1)] assms(2)
  by (cases "cs_token s") auto

lemma resend_trace:
  assumes "unshared db" "cs_token s = Some tok"
    and run: "io_bind (forget_token db tok) (\<lambda>_. io_bind (authenticate parse db c) (\<lambda>tok.
        io_bind (send parse db (request_with m p q b a tok) CO_Query) (\<lambda>response.
          io_return (up_body response)))) s = (r, s')"
  shows "cs_trace s' = cs_trace s \<or> (\<exists>x. cs_trace s' = cs_trace s @ [(auth_request c, x)])
    \<or> (\<exists>x tok' x'. cs_trace s' = cs_trace s @ [(auth_request c, x), (request_with m p q b a tok', x')]
         \<and> auth_outcome parse x = Inr tok')"
proof -
  let ?s = "s\<lparr>cs_token := None\<rparr>"
  have forget: "forget_token db tok s = (Inr (), ?s)"
    using assms(2) by (simp add: forget_token_def io_bind_def unshared_lock [OF assms(1)] set_token_def)
  obtain r1 t where auth: "authenticate parse db c ?s = (r1, t)" by fastforce
  note login = authenticate_login [OF assms(1) _ auth, simplified]
  show ?thesis
  proof (cases r1)
    case (Inl e)
    with run forget auth login show ?thesis by (auto simp: io_bind_def)
  next
    case (Inr tok')
    with login obtain x where x: "cs_trace t = cs_trace s @ [(auth_request c, x)]" "auth_outcome parse x = Inr tok'"
      by auto
    obtain r2 where "send parse db (request_with m p q b a tok') CO_Query t = (r2, s')"
      using run forget auth Inr by (auto simp: io_bind_def io_return_def split: prod.splits sum.splits)
    from send_cases [OF this] x show ?thesis by auto
  qed
qed

text \<open>
  A query logs in only when no token is cached, sends its request at most twice, and sends it a
  second time only after the dashboard refused the token of the first (401 or 403); the refused
  token is forgotten, and the second request carries the token of a login made in between.
\<close>

theorem query_resends_once:
  assumes "unshared db" "ceph_query parse db c m p q b a s = (r, s')"
  shows "\<exists>login tr. cs_trace s' = cs_trace s @ login @ tr
    \<and> (login = [] \<or> cs_token s = None \<and> (\<exists>x. login = [(auth_request c, x)]))
    \<and> (tr = [] \<or> (\<exists>tok x. tr = [(request_with m p q b a tok, x)])
       \<or> (\<exists>tok x x'. tr = [(request_with m p q b a tok, x), (auth_request c, x')]
            \<and> send_outcome parse CO_Query x = Inl (CS_Error CE_Unauthorized))
       \<or> (\<exists>tok x x' tok' x''. tr = [(request_with m p q b a tok, x), (auth_request c, x'),
               (request_with m p q b a tok', x'')]
            \<and> send_outcome parse CO_Query x = Inl (CS_Error CE_Unauthorized)
            \<and> auth_outcome parse x' = Inr tok'))"
proof -
  obtain r1 s1 where auth: "authenticate parse db c s = (r1, s1)" by fastforce
  from authenticate_trace [OF assms(1) auth] obtain login where s1: "cs_trace s1 = cs_trace s @ login"
    "login = [] \<or> cs_token s = None \<and> (\<exists>x. login = [(auth_request c, x)])" by blast
  show ?thesis
  proof (cases r1)
    case (Inl e)
    with assms(2) auth have "s' = s1" by (simp add: ceph_query_def io_bind_def)
    with s1 show ?thesis by auto
  next
    case (Inr tok)
    let ?q = "request_with m p q b a tok"
    obtain first s2 where first: "send parse db ?q CO_Query s1 = (first, s2)" by fastforce
    show ?thesis
    proof (cases "first = Inl (CS_Error CE_Unauthorized)")
      case False
      with assms(2) auth Inr first have "s' = s2"
        by (auto simp: ceph_query_def io_bind_def io_try_def io_lift_def io_return_def split: sum.splits)
      with send_cases [OF first] s1 show ?thesis
        by - (rule exI [of _ login], auto)
    next
      case True
      from send_cases [OF first] True obtain x where s2: "cs_trace s2 = cs_trace s1 @ [(?q, x)]"
        "send_outcome parse CO_Query x = Inl (CS_Error CE_Unauthorized)" "cs_token s2 = cs_token s1"
        by auto
      have "cs_token s2 = Some tok" using authenticate_token [OF assms(1) auth [unfolded Inr]] s2(3) by simp
      from resend_trace [OF assms(1) this, of parse c m p q b a r s'] assms(2) auth Inr first True s1 s2
      show ?thesis
        by - (rule exI [of _ login], auto simp: ceph_query_def io_bind_def io_try_def)
    qed
  qed
qed

lemma unshared_scripted: "unshared scripted"
  by (simp add: unshared_def scripted_def)

lemma sample_resend:
  "\<exists>r s'. ceph_query sample_parse scripted sample_client M_Get ''p'' [] None ''a''
     (sample_state [answer 401 [], answer 200 ''T'', answer 200 ''F'']) = (r, s')
   \<and> cs_trace s' = [(request_with M_Get ''p'' [] None ''a'' ''t'', answer 401 []),
        (auth_request sample_client, answer 200 ''T''),
        (request_with M_Get ''p'' [] None ''a'' ''n'', answer 200 ''F'')]"
  by (simp add: sample_simps forget_token_def set_token_def auth_response_def opt_str_def
      token_acceptable_def has_control_def chars_ascii is_control_def opt_filter_def)

theorem query_resends_once_witness:
  "auth_outcome sample_parse (answer 200 ''T'') = Inr ''n''"
proof -
  from sample_resend obtain r s' where run: "ceph_query sample_parse scripted sample_client M_Get ''p'' [] None ''a''
      (sample_state [answer 401 [], answer 200 ''T'', answer 200 ''F'']) = (r, s')"
    and tr: "cs_trace s' = [(request_with M_Get ''p'' [] None ''a'' ''t'', answer 401 []),
        (auth_request sample_client, answer 200 ''T''),
        (request_with M_Get ''p'' [] None ''a'' ''n'', answer 200 ''F'')]" by blast
  from query_resends_once [OF unshared_scripted run] tr show ?thesis
    by (auto simp: sample_state_def request_with_def auth_request_def)
qed

text \<open>
  C14: a mutation that is refused with 401 leaves the refused token in the cache: the next mutation
  of the client is sent with the same token, without a login in between.
\<close>

theorem refused_mutation_keeps_token:
  assumes "unshared db" "cs_token s = Some tok"
    and "ceph_mutate parse db c m p q b s = (Inl (CS_Error CE_Unauthorized), s')"
  shows "cs_token s' = Some tok
    \<and> (\<forall>m' p' q' b' r s''. ceph_mutate parse db c m' p' q' b' s' = (r, s'') \<longrightarrow>
         cs_trace s'' = cs_trace s'
         \<or> (\<exists>x. cs_trace s'' = cs_trace s' @ [(request_with m' p' q' b' api_v1 tok, x)]))"
proof -
  have mutate: "ceph_mutate parse db c m p q b s =
      send parse db (request_with m p q b api_v1 tok) CO_Mutation s"
    if "cs_token s = Some tok" for m p q b and s :: "'a ceph_sys"
    by (simp add: ceph_mutate_def io_bind_def authenticate_cached [OF assms(1) that])
  from send_cases [OF assms(3) [unfolded mutate [OF assms(2)]]] assms(2)
  have tok: "cs_token s' = Some tok" by auto
  show ?thesis
  proof (intro conjI tok allI impI)
    fix m' p' q' b' r s''
    assume "ceph_mutate parse db c m' p' q' b' s' = (r, s'')"
    from send_cases [OF this [unfolded mutate [OF tok]]]
    show "cs_trace s'' = cs_trace s'
        \<or> (\<exists>x. cs_trace s'' = cs_trace s' @ [(request_with m' p' q' b' api_v1 tok, x)])" by auto
  qed
qed

theorem refused_mutation_keeps_token_witness:
  "\<exists>s'. ceph_mutate sample_parse scripted sample_client M_Put ''p'' [] None (sample_state [answer 401 []])
     = (Inl (CS_Error CE_Unauthorized), s') \<and> cs_token s' = Some ''t''"
proof -
  have "\<exists>s'. ceph_mutate sample_parse scripted sample_client M_Put ''p'' [] None (sample_state [answer 401 []])
      = (Inl (CS_Error CE_Unauthorized), s')"
    by (simp add: sample_simps)
  moreover have "cs_token (sample_state [answer 401 []]) = Some ''t''" by (simp add: sample_state_def)
  ultimately show ?thesis using refused_mutation_keeps_token [OF unshared_scripted] by blast
qed

end
