(* ===== verification/Ip_Addr.thy ===== *)
theory Ip_Addr
  imports Rust_Str
begin

text \<open>
  \<open>IpAddr::from_str\<close> of the standard library, as the sources use it: whether a string is an IPv4
  or IPv6 address.  A parser takes the remaining bytes and returns a value with what is left, or
  \<open>None\<close> without consuming anything.  IPv4 octets have at most three decimal digits and no
  leading zero; IPv6 has groups of at most four hexadecimal digits, one \<open>::\<close> at most, and may end
  in an embedded IPv4 address.
\<close>

definition hex_digit :: "char \<Rightarrow> bool" where
  "hex_digit c \<longleftrightarrow> ascii_digit (of_char c) \<or> (97 \<le> byte_of c \<and> byte_of c \<le> 102)
     \<or> (65 \<le> byte_of c \<and> byte_of c \<le> 70)"

definition decimal_digit :: "char \<Rightarrow> bool" where
  "decimal_digit c \<longleftrightarrow> ascii_digit (of_char c)"

text \<open>\<open>read_number(radix, Some(max_digits), allow_zero_prefix)\<close>; the digits are its value.\<close>

definition read_number :: "(char \<Rightarrow> bool) \<Rightarrow> nat \<Rightarrow> bool \<Rightarrow> string \<Rightarrow> (string \<times> string) option" where
  "read_number digit max_digits allow_zero_prefix s =
     (let ds = takeWhile digit s in
      if ds = [] \<or> max_digits < length ds
         \<or> (\<not> allow_zero_prefix \<and> hd ds = CHR ''0'' \<and> 1 < length ds)
      then None else Some (ds, drop (length ds) s))"

definition read_octet :: "string \<Rightarrow> string option" where
  "read_octet s =
     (case read_number decimal_digit 3 False s of
        None \<Rightarrow> None
      | Some (ds, rest) \<Rightarrow> if parse_digits ds < 256 then Some rest else None)"

definition read_given_char :: "char \<Rightarrow> string \<Rightarrow> string option" where
  "read_given_char c s = (if s \<noteq> [] \<and> hd s = c then Some (tl s) else None)"

text \<open>\<open>read_separator(sep, index, inner)\<close>: the separator comes before every element but the first.\<close>

definition read_separator ::
  "char \<Rightarrow> nat \<Rightarrow> (string \<Rightarrow> string option) \<Rightarrow> string \<Rightarrow> string option" where
  "read_separator sep index inner s =
     (if 0 < index then Option.bind (read_given_char sep s) inner else inner s)"

definition read_ipv4_addr :: "string \<Rightarrow> string option" where
  "read_ipv4_addr s =
     Option.bind (read_separator (CHR ''.'') 0 read_octet s) (\<lambda>s.
     Option.bind (read_separator (CHR ''.'') 1 read_octet s) (\<lambda>s.
     Option.bind (read_separator (CHR ''.'') 2 read_octet s) (\<lambda>s.
       read_separator (CHR ''.'') 3 read_octet s)))"

definition read_group :: "string \<Rightarrow> string option" where
  "read_group s = map_option snd (read_number hex_digit 4 True s)"

text \<open>
  \<open>read_groups\<close> with \<open>limit - i\<close> groups left: the number of groups read, whether they end in an
  embedded IPv4 address, and the rest.
\<close>

fun read_groups :: "nat \<Rightarrow> nat \<Rightarrow> string \<Rightarrow> nat \<times> bool \<times> string" where
  "read_groups 0 i s = (i, False, s)"
| "read_groups (Suc left) i s =
     (case (if 0 < left then read_separator (CHR '':'') i read_ipv4_addr s else None) of
        Some rest \<Rightarrow> (i + 2, True, rest)
      | None \<Rightarrow>
          (case read_separator (CHR '':'') i read_group s of
             None \<Rightarrow> (i, False, s)
           | Some rest \<Rightarrow> read_groups left (i + 1) rest))"

definition read_ipv6_addr :: "string \<Rightarrow> string option" where
  "read_ipv6_addr s =
     (let (head_size, head_ipv4, rest) = read_groups 8 0 s in
      if head_size = 8 then Some rest
      else if head_ipv4 then None
      else
        Option.bind (read_given_char (CHR '':'') rest) (\<lambda>rest.
        Option.bind (read_given_char (CHR '':'') rest) (\<lambda>rest.
          Some (snd (snd (read_groups (8 - (head_size + 1)) 0 rest))))))"

definition parses_ip_addr :: "string \<Rightarrow> bool" where
  "parses_ip_addr s \<longleftrightarrow>
     (case (case read_ipv4_addr s of Some rest \<Rightarrow> Some rest | None \<Rightarrow> read_ipv6_addr s) of
        None \<Rightarrow> False
      | Some rest \<Rightarrow> rest = [])"

section \<open>What an address is written with\<close>

text \<open>Every parser consumes only digits and separators: the rest is a suffix, and the bytes
  before it are those of an address.\<close>

definition address_byte :: "char \<Rightarrow> bool" where
  "address_byte c \<longleftrightarrow> hex_digit c \<or> c = CHR '':'' \<or> c = CHR ''.''"

definition consumes :: "string \<Rightarrow> string \<Rightarrow> bool" where
  "consumes s rest \<longleftrightarrow> (\<exists>u. s = u @ rest \<and> list_all address_byte u)"

lemma consumes_refl [simp]: "consumes s s"
  by (simp add: consumes_def)

lemma consumes_trans: "consumes s t \<Longrightarrow> consumes t u \<Longrightarrow> consumes s u"
  unfolding consumes_def by (metis append.assoc list_all_append)

lemma read_number_consumes:
  assumes "read_number digit m z s = Some (ds, rest)" "\<And>c. digit c \<Longrightarrow> address_byte c"
  shows "consumes s rest"
proof -
  have "s = takeWhile digit s @ drop (length (takeWhile digit s)) s"
    by (metis append_take_drop_id takeWhile_eq_take)
  moreover have "list_all address_byte (takeWhile digit s)"
    using assms(2) by (auto simp: list_all_iff dest: set_takeWhileD)
  ultimately show ?thesis
    using assms(1) by (auto simp: read_number_def Let_def consumes_def split: if_splits)
qed

lemma decimal_address: "decimal_digit c \<Longrightarrow> address_byte c"
  by (simp add: address_byte_def hex_digit_def decimal_digit_def)

lemma hex_address: "hex_digit c \<Longrightarrow> address_byte c"
  by (simp add: address_byte_def)

lemma read_octet_consumes:
  assumes "read_octet s = Some rest"
  shows "consumes s rest"
proof -
  from assms obtain ds where "read_number decimal_digit 3 False s = Some (ds, rest)"
    by (auto simp: read_octet_def split: option.splits if_splits)
  then show ?thesis by (rule read_number_consumes) (rule decimal_address)
qed

lemma read_group_consumes:
  assumes "read_group s = Some rest"
  shows "consumes s rest"
proof -
  from assms obtain ds where "read_number hex_digit 4 True s = Some (ds, rest)"
    by (auto simp: read_group_def)
  then show ?thesis by (rule read_number_consumes) (rule hex_address)
qed

lemma read_given_char_consumes:
  "read_given_char c s = Some rest \<Longrightarrow> address_byte c \<Longrightarrow> consumes s rest"
  by (cases s) (auto simp: read_given_char_def consumes_def split: if_splits)

lemma read_separator_consumes:
  assumes "read_separator c i f s = Some rest" "address_byte c" "\<And>s rest. f s = Some rest \<Longrightarrow> consumes s rest"
  shows "consumes s rest"
  using assms by (auto simp: read_separator_def bind_eq_Some_conv split: if_splits
      intro: consumes_trans dest: read_given_char_consumes)

lemma address_separators [simp]: "address_byte (CHR '':'')" "address_byte (CHR ''.'')"
  by (simp_all add: address_byte_def)

lemma read_ipv4_addr_consumes: "read_ipv4_addr s = Some rest \<Longrightarrow> consumes s rest"
  by (auto simp: read_ipv4_addr_def bind_eq_Some_conv
      dest!: read_separator_consumes [OF _ address_separators(2) read_octet_consumes]
      intro: consumes_trans)

lemma read_groups_consumes: "consumes s (snd (snd (read_groups n i s)))"
proof (induction n i s rule: read_groups.induct)
  case (2 left i s)
  show ?case
  proof (cases "if 0 < left then read_separator (CHR '':'') i read_ipv4_addr s else None")
    case (Some rest)
    then have "consumes s rest"
      by (auto split: if_splits intro: read_separator_consumes [OF _ address_separators(1) read_ipv4_addr_consumes])
    with Some show ?thesis by simp
  next
    case None
    show ?thesis
    proof (cases "read_separator (CHR '':'') i read_group s")
      case (Some rest)
      then have "consumes s rest" by (rule read_separator_consumes [OF _ address_separators(1) read_group_consumes])
      with "2.IH" [OF None Some] Some None show ?thesis by (auto intro: consumes_trans)
    qed (simp add: None)
  qed
qed simp

lemma read_ipv6_addr_consumes: "read_ipv6_addr s = Some rest \<Longrightarrow> consumes s rest"
proof -
  assume r: "read_ipv6_addr s = Some rest"
  obtain n v t where g: "read_groups 8 0 s = (n, v, t)" by (metis prod_cases3)
  have t: "consumes s t" using read_groups_consumes [of s 8 0] g by simp
  show ?thesis
  proof (cases "n = 8")
    case False
    with r obtain y z where y: "read_given_char (CHR '':'') t = Some y" "read_given_char (CHR '':'') y = Some z"
      and rest: "rest = snd (snd (read_groups (7 - n) 0 z))"
      by (auto simp: read_ipv6_addr_def g bind_eq_Some_conv split: if_splits)
    have "consumes t z"
      using read_given_char_consumes [OF y(1)] read_given_char_consumes [OF y(2)]
      by (auto intro: consumes_trans)
    then show ?thesis
      using t read_groups_consumes [of z "7 - n" 0] rest by (blast intro: consumes_trans)
  qed (use r t in \<open>simp add: read_ipv6_addr_def g\<close>)
qed

lemma parses_ip_addr_bytes: "parses_ip_addr s \<Longrightarrow> list_all address_byte s"
  using read_ipv4_addr_consumes [of s "[]"] read_ipv6_addr_consumes [of s "[]"]
  by (auto simp: parses_ip_addr_def consumes_def split: option.splits)

end
