(* ===== verification/Inventory.thy ===== *)
theory Inventory
  imports Ord_Map Ip_Addr "HOL-Library.Product_Lexorder"
begin

text \<open>
  The machine inventory (\<open>src/inventory.rs\<close>) over its table (\<open>migrations/20260813000000_create_machines.sql\<close>).

  The database is the table with the constraints the migration declares: the primary key, the
  unique display name and the checks.  A statement has the effect its SQL text says; that it fails
  for any other reason is the parameter \<open>fails\<close>.  Base64 decoding is the parameter \<open>decode\<close>, the
  collation of the database \<open>collate\<close>, and the fresh UUID and the clock are arguments.  An operation
  returns \<open>None\<close> where the source would panic.
\<close>

section \<open>Data\<close>

type_synonym uuid = "128 word"

record machine_row =
  mr_id :: uuid
  mr_display_name :: string
  mr_ssh_host :: string
  mr_ssh_port :: i32
  mr_ssh_username :: string
  mr_host_key :: "string option"
  mr_created_at :: nat
  mr_updated_at :: nat

record machine =
  mc_id :: uuid
  mc_display_name :: string
  mc_ssh_host :: string
  mc_ssh_port :: u16
  mc_ssh_username :: string
  mc_host_key :: "string option"
  mc_created_at :: nat
  mc_updated_at :: nat

record create_machine =
  cm_display_name :: string
  cm_ssh_host :: string
  cm_ssh_port :: u16
  cm_ssh_username :: string
  cm_host_key :: "string option"

record update_machine =
  um_display_name :: string
  um_ssh_host :: string
  um_ssh_port :: u16
  um_ssh_username :: string

datatype inventory_error =
    IE_DisplayName
  | IE_SshHost
  | IE_SshPort
  | IE_SshUsername
  | IE_HostPublicKey
  | IE_ListLimit

datatype repository_error =
    RE_Validation inventory_error
  | RE_NotFound
  | RE_Conflict
  | RE_Database

fun inventory_error_text :: "inventory_error \<Rightarrow> string" where
  "inventory_error_text IE_DisplayName = ''invalid display name''"
| "inventory_error_text IE_SshHost = ''invalid SSH host''"
| "inventory_error_text IE_SshPort = ''invalid SSH port''"
| "inventory_error_text IE_SshUsername = ''invalid SSH username''"
| "inventory_error_text IE_HostPublicKey = ''invalid host public key''"
| "inventory_error_text IE_ListLimit = ''invalid list limit''"

fun repository_error_text :: "repository_error \<Rightarrow> string" where
  "repository_error_text (RE_Validation e) = inventory_error_text e"
| "repository_error_text RE_NotFound = ''machine not found''"
| "repository_error_text RE_Conflict = ''machine conflicts with existing inventory''"
| "repository_error_text RE_Database = ''machine inventory database operation failed''"

definition default_ssh_port :: u16 where
  "default_ssh_port = 22"

definition default_ssh_username :: string where
  "default_ssh_username = ''homelab''"

definition max_list_limit :: u16 where
  "max_list_limit = 100"

definition create_machine_new :: "string \<Rightarrow> string \<Rightarrow> create_machine" where
  "create_machine_new display_name ssh_host =
     \<lparr>cm_display_name = display_name, cm_ssh_host = ssh_host, cm_ssh_port = default_ssh_port,
      cm_ssh_username = default_ssh_username, cm_host_key = None\<rparr>"

section \<open>Validation\<close>

definition valid_display_name :: "string \<Rightarrow> bool" where
  "valid_display_name name \<longleftrightarrow>
     \<not> (name = [] \<or> 100 < length name \<or> trim name \<noteq> name
        \<or> \<not> list_all (\<lambda>c. ascii_alphanumeric c \<or> c \<in> set (bytes '' ._-'')) (chars name))"

definition valid_host_label :: "string \<Rightarrow> bool" where
  "valid_host_label label \<longleftrightarrow>
     label \<noteq> [] \<and> length label \<le> 63 \<and> hd label \<noteq> CHR ''-'' \<and> last label \<noteq> CHR ''-''
     \<and> list_all (\<lambda>c. ascii_alphanumeric c \<or> c = of_char (CHR ''-'')) (chars label)"

definition valid_ssh_host :: "string \<Rightarrow> bool" where
  "valid_ssh_host host \<longleftrightarrow>
     \<not> (host = [] \<or> 253 < length host \<or> trim host \<noteq> host)
     \<and> (parses_ip_addr host \<or> list_all valid_host_label (split_char (CHR ''.'') host))"

definition validate_machine_fields :: "string \<Rightarrow> string \<Rightarrow> u16 \<Rightarrow> string \<Rightarrow> inventory_error + unit" where
  "validate_machine_fields display_name ssh_host ssh_port ssh_username =
     (if \<not> valid_display_name display_name then Inl IE_DisplayName
      else if \<not> valid_ssh_host ssh_host then Inl IE_SshHost
      else if ssh_port \<noteq> default_ssh_port then Inl IE_SshPort
      else if ssh_username \<noteq> default_ssh_username then Inl IE_SshUsername
      else Inr ())"

definition validate_list_limit :: "u16 \<Rightarrow> inventory_error + unit" where
  "validate_list_limit limit =
     (if 1 \<le> limit \<and> limit \<le> max_list_limit then Inr () else Inl IE_ListLimit)"

text \<open>An SSH wire string: four bytes of big-endian length, then as many bytes.\<close>

definition be_value :: "string \<Rightarrow> nat" where
  "be_value bs = foldl (\<lambda>n c. 256 * n + byte_of c) 0 bs"

definition ssh_string :: "string \<Rightarrow> nat \<Rightarrow> (string \<times> nat) option" where
  "ssh_string bs offset =
     (if length bs < offset + 4 then None
      else let len = be_value (take 4 (drop offset bs)); start = offset + 4; end' = start + len in
        if length bs < end' then None else Some (take len (drop start bs), end'))"

definition validate_host_public_key ::
  "(string \<Rightarrow> string option) \<Rightarrow> string \<Rightarrow> inventory_error + unit" where
  "validate_host_public_key decode key =
     (if 256 < length key \<or> trim key \<noteq> key then Inl IE_HostPublicKey
      else
        (case split_char (CHR '' '') key of
           [kind, encoded] \<Rightarrow>
             if kind \<noteq> ''ssh-ed25519'' \<or> encoded = [] then Inl IE_HostPublicKey
             else
               and_then (ok_or (decode encoded) IE_HostPublicKey) (\<lambda>decoded.
               and_then (ok_or (ssh_string decoded 0) IE_HostPublicKey) (\<lambda>algorithm.
               and_then (ok_or (ssh_string decoded (snd algorithm)) IE_HostPublicKey) (\<lambda>public_key.
                 if fst algorithm \<noteq> ''ssh-ed25519'' \<or> length (fst public_key) \<noteq> 32
                    \<or> snd public_key \<noteq> length decoded
                 then Inl IE_HostPublicKey else Inr ())))
         | _ \<Rightarrow> Inl IE_HostPublicKey))"

section \<open>The table\<close>

type_synonym machine_table = "(uuid, machine_row) btree"

datatype sql_error = SQL_Code string | SQL_Other

fun map_database_error :: "sql_error \<Rightarrow> repository_error" where
  "map_database_error (SQL_Code code) = (if code = ''23505'' then RE_Conflict else RE_Database)"
| "map_database_error SQL_Other = RE_Database"

definition char_count :: "string \<Rightarrow> nat" where
  "char_count s = length (chars s)"

definition row_checks :: "machine_row \<Rightarrow> bool" where
  "row_checks row \<longleftrightarrow>
     1 \<le> char_count (mr_display_name row) \<and> char_count (mr_display_name row) \<le> 100
     \<and> 1 \<le> char_count (mr_ssh_host row) \<and> char_count (mr_ssh_host row) \<le> 253
     \<and> mr_ssh_port row = 22 \<and> mr_ssh_username row = ''homelab''
     \<and> (case mr_host_key row of None \<Rightarrow> True | Some k \<Rightarrow> 1 \<le> char_count k \<and> char_count k \<le> 256)"

definition name_taken :: "machine_table \<Rightarrow> uuid \<Rightarrow> string \<Rightarrow> bool" where
  "name_taken table uid name \<longleftrightarrow>
     list_ex (\<lambda>(i, row). i \<noteq> uid \<and> mr_display_name row = name) table"

text \<open>Writing a row: the checks first (23514), then the unique indexes (23505).\<close>

definition write_row :: "machine_table \<Rightarrow> machine_row \<Rightarrow> sql_error + machine_table" where
  "write_row table row =
     (if \<not> row_checks row then Inl (SQL_Code ''23514'')
      else if name_taken table (mr_id row) (mr_display_name row) then Inl (SQL_Code ''23505'')
      else Inr (bt_insert (mr_id row) row table))"

definition sql_insert :: "bool \<Rightarrow> machine_row \<Rightarrow> machine_table \<Rightarrow> (sql_error + machine_row) \<times> machine_table" where
  "sql_insert fails row table =
     (if fails then (Inl SQL_Other, table)
      else if row_checks row \<and> bt_get table (mr_id row) \<noteq> None then (Inl (SQL_Code ''23505''), table)
      else case write_row table row of Inl e \<Rightarrow> (Inl e, table) | Inr table' \<Rightarrow> (Inr row, table'))"

definition sql_update ::
  "bool \<Rightarrow> uuid \<Rightarrow> (machine_row \<Rightarrow> machine_row) \<Rightarrow> machine_table
     \<Rightarrow> (sql_error + machine_row option) \<times> machine_table" where
  "sql_update fails uid change table =
     (if fails then (Inl SQL_Other, table)
      else case bt_get table uid of
        None \<Rightarrow> (Inr None, table)
      | Some row \<Rightarrow>
          (case write_row table (change row) of
             Inl e \<Rightarrow> (Inl e, table)
           | Inr table' \<Rightarrow> (Inr (Some (change row)), table')))"

section \<open>The repository\<close>

definition machine_from_row :: "machine_row \<Rightarrow> machine option" where
  "machine_from_row row =
     (if 0 \<le> sint (mr_ssh_port row) \<and> sint (mr_ssh_port row) < 65536
      then Some \<lparr>mc_id = mr_id row, mc_display_name = mr_display_name row, mc_ssh_host = mr_ssh_host row,
        mc_ssh_port = ucast (mr_ssh_port row), mc_ssh_username = mr_ssh_username row,
        mc_host_key = mr_host_key row, mc_created_at = mr_created_at row, mc_updated_at = mr_updated_at row\<rparr>
      else None)"

type_synonym 'a outcome = "(repository_error + 'a) option"

definition returned_row :: "sql_error + machine_row \<Rightarrow> machine outcome" where
  "returned_row r =
     (case r of
        Inl e \<Rightarrow> Some (Inl (map_database_error e))
      | Inr row \<Rightarrow> map_option Inr (machine_from_row row))"

definition returned_option :: "sql_error + machine_row option \<Rightarrow> machine outcome" where
  "returned_option r =
     (case r of
        Inl e \<Rightarrow> Some (Inl (map_database_error e))
      | Inr None \<Rightarrow> Some (Inl RE_NotFound)
      | Inr (Some row) \<Rightarrow> map_option Inr (machine_from_row row))"

definition inventory_create ::
  "(string \<Rightarrow> string option) \<Rightarrow> bool \<Rightarrow> uuid \<Rightarrow> nat \<Rightarrow> create_machine \<Rightarrow> machine_table
     \<Rightarrow> machine outcome \<times> machine_table" where
  "inventory_create decode fails uid now input table =
     (case and_then (validate_machine_fields (cm_display_name input) (cm_ssh_host input)
               (cm_ssh_port input) (cm_ssh_username input)) (\<lambda>_.
           case cm_host_key input of None \<Rightarrow> Inr () | Some key \<Rightarrow> validate_host_public_key decode key) of
        Inl e \<Rightarrow> (Some (Inl (RE_Validation e)), table)
      | Inr _ \<Rightarrow>
          map_prod returned_row (\<lambda>t. t)
            (sql_insert fails \<lparr>mr_id = uid, mr_display_name = cm_display_name input,
               mr_ssh_host = cm_ssh_host input, mr_ssh_port = ucast (cm_ssh_port input),
               mr_ssh_username = cm_ssh_username input, mr_host_key = cm_host_key input,
               mr_created_at = now, mr_updated_at = now\<rparr> table))"

definition inventory_get :: "bool \<Rightarrow> uuid \<Rightarrow> machine_table \<Rightarrow> machine outcome" where
  "inventory_get fails uid table =
     returned_option (if fails then Inl SQL_Other else Inr (bt_get table uid))"

text \<open>\<open>ORDER BY display_name ASC, id ASC LIMIT $1\<close>, with the display names under the collation.\<close>

definition select_page :: "(string \<Rightarrow> 'k::linorder) \<Rightarrow> nat \<Rightarrow> machine_table \<Rightarrow> machine_row list" where
  "select_page collate limit table =
     take limit (sort_key (\<lambda>row. (collate (mr_display_name row), mr_id row)) (map snd table))"

definition all_some :: "'a option list \<Rightarrow> 'a list option" where
  "all_some xs = (if None \<in> set xs then None else Some (map the xs))"

definition inventory_list ::
  "(string \<Rightarrow> 'k::linorder) \<Rightarrow> bool \<Rightarrow> u16 \<Rightarrow> machine_table \<Rightarrow> machine list outcome" where
  "inventory_list collate fails limit table =
     (case validate_list_limit limit of
        Inl e \<Rightarrow> Some (Inl (RE_Validation e))
      | Inr _ \<Rightarrow>
          if fails then Some (Inl (map_database_error SQL_Other))
          else map_option Inr (all_some (map machine_from_row (select_page collate (unat limit) table))))"

definition inventory_update ::
  "bool \<Rightarrow> nat \<Rightarrow> uuid \<Rightarrow> update_machine \<Rightarrow> machine_table \<Rightarrow> machine outcome \<times> machine_table" where
  "inventory_update fails now uid input table =
     (case validate_machine_fields (um_display_name input) (um_ssh_host input)
             (um_ssh_port input) (um_ssh_username input) of
        Inl e \<Rightarrow> (Some (Inl (RE_Validation e)), table)
      | Inr _ \<Rightarrow>
          map_prod returned_option (\<lambda>t. t)
            (sql_update fails uid (\<lambda>row. row\<lparr>mr_display_name := um_display_name input,
               mr_ssh_host := um_ssh_host input, mr_ssh_port := ucast (um_ssh_port input),
               mr_ssh_username := um_ssh_username input, mr_updated_at := now\<rparr>) table))"

definition set_host_key ::
  "bool \<Rightarrow> nat \<Rightarrow> uuid \<Rightarrow> string option \<Rightarrow> machine_table \<Rightarrow> machine outcome \<times> machine_table" where
  "set_host_key fails now uid key table =
     map_prod returned_option (\<lambda>t. t)
       (sql_update fails uid (\<lambda>row. row\<lparr>mr_host_key := key, mr_updated_at := now\<rparr>) table)"

definition replace_host_key ::
  "(string \<Rightarrow> string option) \<Rightarrow> bool \<Rightarrow> nat \<Rightarrow> uuid \<Rightarrow> string \<Rightarrow> machine_table
     \<Rightarrow> machine outcome \<times> machine_table" where
  "replace_host_key decode fails now uid key table =
     (case validate_host_public_key decode key of
        Inl e \<Rightarrow> (Some (Inl (RE_Validation e)), table)
      | Inr _ \<Rightarrow> set_host_key fails now uid (Some key) table)"

definition clear_host_key :: "bool \<Rightarrow> nat \<Rightarrow> uuid \<Rightarrow> machine_table \<Rightarrow> machine outcome \<times> machine_table" where
  "clear_host_key fails now uid table = set_host_key fails now uid None table"

definition inventory_delete :: "bool \<Rightarrow> uuid \<Rightarrow> machine_table \<Rightarrow> (repository_error + unit) \<times> machine_table" where
  "inventory_delete fails uid table =
     (if fails then (Inl (map_database_error SQL_Other), table)
      else if bt_get table uid = None then (Inl RE_NotFound, table)
      else (Inr (), bt_remove uid table))"

section \<open>The invariant of the table\<close>

text \<open>
  Every row is filed under its id, is what validation accepts, and has a display name of its own.
\<close>

definition row_valid :: "(string \<Rightarrow> string option) \<Rightarrow> machine_row \<Rightarrow> bool" where
  "row_valid decode row \<longleftrightarrow>
     valid_display_name (mr_display_name row) \<and> valid_ssh_host (mr_ssh_host row)
     \<and> mr_ssh_port row = 22 \<and> mr_ssh_username row = ''homelab''
     \<and> (\<forall>key. mr_host_key row = Some key \<longrightarrow> validate_host_public_key decode key = Inr ())"

definition table_valid :: "(string \<Rightarrow> string option) \<Rightarrow> machine_table \<Rightarrow> bool" where
  "table_valid decode table \<longleftrightarrow>
     bt_ok table \<and> (\<forall>(i, row)\<in>set table. mr_id row = i \<and> row_valid decode row)
     \<and> (\<forall>(i, row)\<in>set table. \<forall>(j, row')\<in>set table. mr_display_name row = mr_display_name row' \<longrightarrow> i = j)"

lemma length_chars_le: "length (chars s) \<le> length s"
proof (induction s rule: length_induct)
  case (1 s)
  show ?case
  proof (cases s)
    case (Cons b bs)
    have "length (drop (head_width s) s) < length s" using drop_head_shorter [of s] Cons by simp
    moreover from this "1" have "length (chars (drop (head_width s) s)) \<le> length (drop (head_width s) s)" by blast
    moreover have "length (chars s) = Suc (length (chars (drop (head_width s) s)))"
      by (simp add: Cons chars_def chunks_Cons)
    ultimately show ?thesis by linarith
  qed simp
qed

lemma char_count_bounds: "s \<noteq> [] \<Longrightarrow> 1 \<le> char_count s" "char_count s \<le> length s"
  by (simp_all add: char_count_def length_chars_le Suc_le_eq)

lemma host_key_length: "validate_host_public_key decode key = Inr () \<Longrightarrow> key \<noteq> [] \<and> length key \<le> 256"
  by (cases key) (auto simp: validate_host_public_key_def split: if_splits)

lemma row_valid_checks:
  assumes "row_valid decode row"
  shows "row_checks row"
proof -
  have "mr_display_name row \<noteq> []" "length (mr_display_name row) \<le> 100"
    "mr_ssh_host row \<noteq> []" "length (mr_ssh_host row) \<le> 253"
    using assms by (auto simp: row_valid_def valid_display_name_def valid_ssh_host_def)
  then show ?thesis
    using assms host_key_length char_count_bounds le_trans [OF char_count_bounds(2)]
    by (auto simp: row_checks_def row_valid_def split: option.splits)
qed

lemma row_valid_machine: "row_valid decode row \<Longrightarrow> machine_from_row row \<noteq> None"
  by (simp add: row_valid_def machine_from_row_def)

lemma table_valid_get: "table_valid decode table \<Longrightarrow> bt_get table i = Some row \<Longrightarrow> row_valid decode row \<and> mr_id row = i"
  by (auto simp: table_valid_def dest!: bt_get_in_set)

lemma write_row_valid:
  assumes "table_valid decode table" "row_valid decode row" "write_row table row = Inr table'"
  shows "table_valid decode table' \<and> table' = bt_insert (mr_id row) row table"
proof -
  from assms(3) have free: "\<forall>(i, r)\<in>set table. i \<noteq> mr_id row \<longrightarrow> mr_display_name r \<noteq> mr_display_name row"
    and t': "table' = bt_insert (mr_id row) row table"
    by (auto simp: write_row_def name_taken_def list_ex_iff split: if_splits)
  have old: "x = (mr_id row, row) \<or> x \<in> set table" if "x \<in> set table'" for x
    using bt_insert_set that t' by fastforce
  show ?thesis
    unfolding table_valid_def
  proof (intro conjI t')
    show "bt_ok table'" using assms(1) t' by (simp add: table_valid_def bt_insert_ok)
    show "\<forall>(i, r)\<in>set table'. mr_id r = i \<and> row_valid decode r"
      using assms(1,2) old by (fastforce simp: table_valid_def)
    show "\<forall>(i, r)\<in>set table'. \<forall>(j, r')\<in>set table'. mr_display_name r = mr_display_name r' \<longrightarrow> i = j"
    proof (clarify)
      fix i r j r'
      assume "(i, r) \<in> set table'" "(j, r') \<in> set table'" "mr_display_name r = mr_display_name r'"
      with old [of "(i, r)"] old [of "(j, r')"] free assms(1) show "i = j"
        by (auto simp: table_valid_def)
    qed
  qed
qed

lemma sql_update_valid:
  assumes "table_valid decode table" "\<And>row. row_valid decode row \<Longrightarrow> row_valid decode (change row)"
    and "\<And>row. mr_id (change row) = mr_id row" "sql_update fails i change table = (r, table')"
  shows "table_valid decode table' \<and> returned_option r \<noteq> None
    \<and> (table' = table \<or> (\<exists>row. bt_get table i = Some row \<and> r = Inr (Some (change row))
         \<and> table' = bt_insert i (change row) table))"
proof (cases "fails \<or> bt_get table i = None")
  case True
  with assms(1,4) show ?thesis by (auto simp: sql_update_def returned_option_def split: if_splits)
next
  case False
  then obtain row where row: "bt_get table i = Some row" by auto
  note valid = table_valid_get [OF assms(1) row]
  show ?thesis
  proof (cases "write_row table (change row)")
    case (Inl e)
    with False row assms(1,4) show ?thesis by (auto simp: sql_update_def returned_option_def)
  next
    case (Inr t)
    with False row assms(4) have "r = Inr (Some (change row))" "table' = t"
      by (auto simp: sql_update_def)
    with write_row_valid [OF assms(1) assms(2) Inr] valid row_valid_machine [OF assms(2)] assms(3) row
    show ?thesis by (auto simp: returned_option_def)
  qed
qed

text \<open>The operations that write, and the tables they can lead to from an empty one.\<close>

datatype inventory_op =
    IO_Create uuid nat create_machine
  | IO_Update nat uuid update_machine
  | IO_Replace nat uuid string
  | IO_Clear nat uuid
  | IO_Delete uuid

fun inventory_apply ::
  "(string \<Rightarrow> string option) \<Rightarrow> bool \<Rightarrow> inventory_op \<Rightarrow> machine_table \<Rightarrow> machine option outcome \<times> machine_table" where
  "inventory_apply decode fails (IO_Create uid now input) table =
     map_prod (map_option (map_sum (\<lambda>e. e) Some)) (\<lambda>t. t) (inventory_create decode fails uid now input table)"
| "inventory_apply decode fails (IO_Update now uid input) table =
     map_prod (map_option (map_sum (\<lambda>e. e) Some)) (\<lambda>t. t) (inventory_update fails now uid input table)"
| "inventory_apply decode fails (IO_Replace now uid key) table =
     map_prod (map_option (map_sum (\<lambda>e. e) Some)) (\<lambda>t. t) (replace_host_key decode fails now uid key table)"
| "inventory_apply decode fails (IO_Clear now uid) table =
     map_prod (map_option (map_sum (\<lambda>e. e) Some)) (\<lambda>t. t) (clear_host_key fails now uid table)"
| "inventory_apply decode fails (IO_Delete uid) table =
     map_prod (\<lambda>r. Some (map_sum (\<lambda>e. e) (\<lambda>_. None) r)) (\<lambda>t. t) (inventory_delete fails uid table)"

inductive inventory_reachable :: "(string \<Rightarrow> string option) \<Rightarrow> machine_table \<Rightarrow> bool"
  for decode :: "string \<Rightarrow> string option" where
  empty: "inventory_reachable decode []"
| step: "inventory_reachable decode table \<Longrightarrow>
    inventory_apply decode fails op table = (r, table') \<Longrightarrow> inventory_reachable decode table'"

lemma validate_machine_fields_Inr:
  "validate_machine_fields name host port user = Inr () \<longleftrightarrow>
     valid_display_name name \<and> valid_ssh_host host \<and> port = 22 \<and> user = ''homelab''"
  by (auto simp: validate_machine_fields_def default_ssh_port_def default_ssh_username_def)

lemma inventory_create_cases:
  assumes "table_valid decode table" "inventory_create decode fails uid now input table = (r, table')"
  shows "table_valid decode table' \<and> r \<noteq> None
    \<and> (table' = table \<or> (\<exists>row. bt_get table uid = None \<and> table' = bt_insert uid row table))"
proof (cases "and_then (validate_machine_fields (cm_display_name input) (cm_ssh_host input)
               (cm_ssh_port input) (cm_ssh_username input)) (\<lambda>_.
           case cm_host_key input of None \<Rightarrow> Inr () | Some key \<Rightarrow> validate_host_public_key decode key)")
  case (Inl e)
  with assms show ?thesis by (auto simp: inventory_create_def)
next
  case (Inr u)
  define row where "row = \<lparr>mr_id = uid, mr_display_name = cm_display_name input,
    mr_ssh_host = cm_ssh_host input, mr_ssh_port = ucast (cm_ssh_port input),
    mr_ssh_username = cm_ssh_username input, mr_host_key = cm_host_key input,
    mr_created_at = now, mr_updated_at = now\<rparr>"
  have valid: "row_valid decode row"
    using Inr by (auto simp: row_valid_def row_def validate_machine_fields_Inr split: option.splits)
  have run: "(r, table') = map_prod returned_row (\<lambda>t. t) (sql_insert fails row table)"
    using assms(2) Inr by (simp add: inventory_create_def row_def)
  show ?thesis
  proof (cases "fails \<or> bt_get table uid \<noteq> None")
    case True
    with run assms(1) row_valid_checks [OF valid] show ?thesis
      by (auto simp: sql_insert_def returned_row_def row_def split: if_splits)
  next
    case False
    show ?thesis
    proof (cases "write_row table row")
      case (Inl e)
      with False run assms(1) show ?thesis by (auto simp: sql_insert_def returned_row_def row_def)
    next
      case (Inr t)
      with False run have "r = map_option Inr (machine_from_row row)" "table' = t"
        by (auto simp: sql_insert_def returned_row_def row_def)
      with write_row_valid [OF assms(1) valid Inr] row_valid_machine [OF valid] False show ?thesis
        by (auto simp: row_def)
    qed
  qed
qed

lemma set_host_key_cases:
  assumes "table_valid decode table" "set_host_key fails now uid key table = (r, table')"
    and "\<forall>k. key = Some k \<longrightarrow> validate_host_public_key decode k = Inr ()"
  shows "table_valid decode table' \<and> r \<noteq> None \<and> (table' = table
    \<or> (\<exists>row. bt_get table uid = Some row \<and> table' = bt_insert uid (row\<lparr>mr_host_key := key, mr_updated_at := now\<rparr>) table))"
proof -
  obtain q where "sql_update fails uid (\<lambda>row. row\<lparr>mr_host_key := key, mr_updated_at := now\<rparr>) table = (q, table')"
    and "r = returned_option q"
    using assms(2) by (auto simp: set_host_key_def map_prod_def split: prod.splits)
  with sql_update_valid [OF assms(1) _ _ this(1)] assms(3) show ?thesis
    by (auto simp: row_valid_def)
qed

lemma inventory_update_cases:
  assumes "table_valid decode table" "inventory_update fails now uid input table = (r, table')"
  shows "table_valid decode table' \<and> r \<noteq> None \<and> (table' = table
    \<or> (\<exists>row row'. bt_get table uid = Some row \<and> table' = bt_insert uid row' table
         \<and> mr_host_key row' = mr_host_key row \<and> mr_created_at row' = mr_created_at row
         \<and> r = map_option Inr (machine_from_row row')))"
proof (cases "validate_machine_fields (um_display_name input) (um_ssh_host input)
             (um_ssh_port input) (um_ssh_username input)")
  case (Inl e)
  with assms show ?thesis by (auto simp: inventory_update_def)
next
  case (Inr u)
  let ?change = "\<lambda>row. row\<lparr>mr_display_name := um_display_name input, mr_ssh_host := um_ssh_host input,
    mr_ssh_port := ucast (um_ssh_port input), mr_ssh_username := um_ssh_username input, mr_updated_at := now\<rparr>"
  obtain q where q: "sql_update fails uid ?change table = (q, table')" "r = returned_option q"
    using assms(2) Inr by (auto simp: inventory_update_def map_prod_def split: prod.splits)
  have "row_valid decode (?change row)" if "row_valid decode row" for row
    using that Inr by (auto simp: row_valid_def validate_machine_fields_Inr)
  from sql_update_valid [OF assms(1) this _ q(1)]
  have valid: "table_valid decode table'" "r \<noteq> None" and
    "table' = table \<or> (\<exists>row. bt_get table uid = Some row \<and> q = Inr (Some (?change row))
       \<and> table' = bt_insert uid (?change row) table)"
    using q(2) by simp_all
  then consider "table' = table" | row where "bt_get table uid = Some row"
    "q = Inr (Some (?change row))" "table' = bt_insert uid (?change row) table" by blast
  then show ?thesis
  proof cases
    case (2 row)
    with valid q(2) show ?thesis
      by (intro conjI disjI2 exI [of _ row] exI [of _ "?change row"]) (simp_all add: returned_option_def)
  qed (use valid in simp)
qed

lemma inventory_apply_valid:
  assumes "table_valid decode table" "inventory_apply decode fails op table = (r, table')"
  shows "table_valid decode table' \<and> r \<noteq> None"
proof (cases op)
  case (IO_Create uid now input)
  with assms inventory_create_cases [OF assms(1)] show ?thesis
    by (auto simp: map_prod_def split: prod.splits)
next
  case (IO_Update now uid input)
  with assms inventory_update_cases [OF assms(1)] show ?thesis
    by (auto simp: map_prod_def split: prod.splits)
next
  case (IO_Replace now uid key)
  with assms set_host_key_cases [OF assms(1)] show ?thesis
    by (auto simp: map_prod_def replace_host_key_def split: prod.splits sum.splits)
next
  case (IO_Clear now uid)
  with assms set_host_key_cases [OF assms(1)] show ?thesis
    by (auto simp: map_prod_def clear_host_key_def split: prod.splits)
next
  case (IO_Delete uid)
  have "set (bt_remove uid t) \<subseteq> set t" for t :: machine_table
    by (induction uid t rule: bt_remove.induct) auto
  with IO_Delete assms show ?thesis
    by (auto simp: map_prod_def inventory_delete_def table_valid_def bt_remove_ok split: if_splits) blast+
qed

lemma inventory_reachable_valid: "inventory_reachable decode table \<Longrightarrow> table_valid decode table"
  by (induction rule: inventory_reachable.induct)
    (simp add: table_valid_def bt_ok_def, blast dest: inventory_apply_valid)

section \<open>The wire format of a host key\<close>

definition be32 :: "nat \<Rightarrow> string" where
  "be32 n =
     (let m = n div 256; l = m div 256; k = l div 256 in map char_of [k mod 256, l mod 256, m mod 256, n mod 256])"

definition wire_string :: "string \<Rightarrow> string" where
  "wire_string s = be32 (length s) @ s"

lemma length_be32 [simp]: "length (be32 n) = 4"
  by (simp add: be32_def Let_def)

lemma be_value_be32:
  assumes "n < 2 ^ 32"
  shows "be_value (be32 n) = n"
proof -
  have "n div 256 div 256 div 256 < 256" using assms by (simp add: div_mult2_eq [symmetric] less_mult_imp_div_less)
  then have "n div 256 div 256 div 256 mod 256 = n div 256 div 256 div 256" by (rule mod_less)
  then show ?thesis by (simp only: be_value_def be32_def Let_def list.map foldl.simps of_char_of
    mod_mod_trivial mult_0_right add_0 mult_div_mod_eq)
qed

lemma be32_be_value:
  assumes "length bs = 4"
  shows "be32 (be_value bs) = bs"
proof -
  from assms obtain a b c d where bs: "bs = [a, b, c, d]"
    by (auto simp: length_Suc_conv numeral_eq_Suc)
  have lt: "byte_of x < 256" for x by simp
  have dm: "(256 * q + byte_of x) div 256 = q" "(256 * q + byte_of x) mod 256 = byte_of x"
    "byte_of x mod 256 = byte_of x" for q x
    using lt [of x] by simp_all
  have co: "char_of (byte_of x) = x" for x by simp
  show ?thesis
    by (simp only: bs be_value_def be32_def Let_def list.map foldl.simps dm mult_0_right add_0 co)
qed

lemma be_value_bound:
  assumes "length bs = 4"
  shows "be_value bs < 2 ^ 32"
proof -
  from assms obtain a b c d where bs: "bs = [a, b, c, d]"
    by (auto simp: length_Suc_conv numeral_eq_Suc)
  have lt: "byte_of x \<le> 255" for x using less_Suc_eq_le [of "byte_of x" 255] by simp
  have step: "256 * n + byte_of x \<le> 256 * m + 255" if "n \<le> m" for n m x
    using lt [of x] that by linarith
  have "256 * (256 * (256 * byte_of a + byte_of b) + byte_of c) + byte_of d \<le> 256 * (256 * (256 * 255 + 255) + 255) + 255"
    by (intro step lt)
  then show ?thesis by (simp add: bs be_value_def)
qed

lemma ssh_string_iff:
  "ssh_string bs offset = Some (s, end') \<longleftrightarrow>
     (\<exists>rest. drop offset bs = wire_string s @ rest) \<and> length s < 2 ^ 32 \<and> end' = offset + 4 + length s"
  (is "?l \<longleftrightarrow> ?r")
proof
  assume l: ?l
  define len where "len = be_value (take 4 (drop offset bs))"
  from l have long: "offset + 4 + len \<le> length bs" and s: "s = take len (drop (offset + 4) bs)"
    and e: "end' = offset + 4 + len"
    by (auto simp: ssh_string_def Let_def len_def split: if_splits)
  have len4: "length (take 4 (drop offset bs)) = 4" using long by simp
  have "length s = len" using s long by simp
  moreover have "len < 2 ^ 32" unfolding len_def by (rule be_value_bound) (rule len4)
  moreover have "drop offset bs = wire_string s @ drop (offset + 4 + len) bs"
  proof -
    have "be32 (length s) = take 4 (drop offset bs)"
      unfolding \<open>length s = len\<close> len_def by (rule be32_be_value) (rule len4)
    moreover have "drop offset bs = take 4 (drop offset bs) @ take len (drop (offset + 4) bs) @ drop (offset + 4 + len) bs"
      by (metis add.commute append_take_drop_id drop_drop)
    ultimately show ?thesis using s by (simp add: wire_string_def)
  qed
  ultimately show ?r using e by auto
next
  assume ?r
  then obtain rest where d: "drop offset bs = be32 (length s) @ s @ rest" and
    b: "length s < 2 ^ 32" and e: "end' = offset + 4 + length s" by (auto simp: wire_string_def)
  have "length bs - offset = 4 + length s + length rest" using arg_cong [OF d, of length] by simp
  then have "offset + 4 + length s \<le> length bs" by simp
  moreover have "take 4 (drop offset bs) = be32 (length s)" by (simp add: d)
  moreover have "drop (offset + 4) bs = s @ rest"
    using d by (metis add.commute append_eq_conv_conj drop_drop length_be32)
  ultimately show ?l using e b by (simp add: ssh_string_def Let_def be_value_be32)
qed

lemma host_key_fields:
  "split_char (CHR '' '') key = [''ssh-ed25519'', encoded] \<longleftrightarrow>
     key = ''ssh-ed25519 '' @ encoded \<and> CHR '' '' \<notin> set encoded" (is "?l \<longleftrightarrow> ?r")
proof
  assume l: ?l
  have "key = join_with [CHR '' ''] (split_char (CHR '' '') key)" by (simp add: join_split_char)
  with l show ?r using split_char_no_sep [of encoded "CHR '' ''" key] by simp
next
  assume ?r
  then show ?l using split_char_append_sep [of "CHR '' ''" "''ssh-ed25519''" encoded]
    by (simp add: split_char_single)
qed

lemma host_key_iff:
  "validate_host_public_key decode key = Inr () \<longleftrightarrow>
     length key \<le> 256 \<and> trim key = key \<and>
     (\<exists>encoded bs pk. key = ''ssh-ed25519 '' @ encoded \<and> encoded \<noteq> [] \<and> CHR '' '' \<notin> set encoded
        \<and> decode encoded = Some bs \<and> bs = wire_string ''ssh-ed25519'' @ wire_string pk \<and> length pk = 32)"
  (is "?l \<longleftrightarrow> _ \<and> _ \<and> ?r")
proof (intro iffI conjI)
  assume l: ?l
  from l show "length key \<le> 256" "trim key = key"
    by (auto simp: validate_host_public_key_def split: if_splits)
  from l obtain encoded where f: "split_char (CHR '' '') key = [''ssh-ed25519'', encoded]" and n: "encoded \<noteq> []"
    by (auto simp: validate_host_public_key_def split: if_splits list.splits)
  with l obtain bs alg off pk end' where bs: "decode encoded = Some bs"
    and alg: "ssh_string bs 0 = Some (alg, off)" and pk: "ssh_string bs off = Some (pk, end')"
    and c: "alg = ''ssh-ed25519''" "length pk = 32" "end' = length bs"
    by (auto simp: validate_host_public_key_def split: if_splits option.splits)
  from alg obtain r1 where d1: "bs = wire_string alg @ r1" and o: "off = 4 + length alg"
    by (auto simp: ssh_string_iff)
  then have "drop off bs = r1" by (simp add: wire_string_def)
  with pk obtain r2 where d2: "r1 = wire_string pk @ r2" and "end' = off + 4 + length pk"
    by (auto simp: ssh_string_iff)
  with c d1 o have "r2 = []" by (simp add: wire_string_def)
  with f n bs d1 d2 c show ?r by (auto simp: host_key_fields)
next
  assume "length key \<le> 256 \<and> trim key = key \<and> ?r"
  then obtain encoded pk where b: "length key \<le> 256" "trim key = key" and key: "key = ''ssh-ed25519 '' @ encoded" and n: "encoded \<noteq> []"
    and sp: "CHR '' '' \<notin> set encoded" and pk: "length pk = 32"
    and bs: "decode encoded = Some (wire_string ''ssh-ed25519'' @ wire_string pk)" by auto
  have s: "split_char (CHR '' '') key = [''ssh-ed25519'', encoded]" using key sp host_key_fields by blast
  let ?bs = "wire_string ''ssh-ed25519'' @ wire_string pk"
  have "ssh_string ?bs 0 = Some (''ssh-ed25519'', 15)" by (simp add: ssh_string_iff)
  moreover have "ssh_string ?bs 15 = Some (pk, 51)" by (simp add: ssh_string_iff wire_string_def pk)
  ultimately show ?l using b n bs pk by (auto simp: validate_host_public_key_def s wire_string_def)
qed

section \<open>What each operation changes\<close>

fun inventory_target :: "inventory_op \<Rightarrow> uuid" where
  "inventory_target (IO_Create uid now input) = uid"
| "inventory_target (IO_Update now uid input) = uid"
| "inventory_target (IO_Replace now uid key) = uid"
| "inventory_target (IO_Clear now uid) = uid"
| "inventory_target (IO_Delete uid) = uid"

text \<open>The host key of the target that an operation may leave, given the one before.\<close>

fun host_key_after :: "inventory_op \<Rightarrow> string option \<Rightarrow> string option" where
  "host_key_after (IO_Replace now uid key) _ = Some key"
| "host_key_after (IO_Clear now uid) _ = None"
| "host_key_after _ old = old"

lemma inventory_apply_target:
  assumes "table_valid decode table" "inventory_apply decode fails op table = (r, table')"
  shows "table' = table \<or> table' = bt_remove (inventory_target op) table
    \<or> (\<exists>row. table' = bt_insert (inventory_target op) row table
         \<and> (\<forall>old. bt_get table (inventory_target op) = Some old \<longrightarrow>
              mr_host_key row = host_key_after op (mr_host_key old) \<and> mr_created_at row = mr_created_at old))"
proof (cases op)
  case (IO_Create uid now input)
  with assms inventory_create_cases [OF assms(1)] show ?thesis
    by (fastforce simp: map_prod_def split: prod.splits)
next
  case (IO_Update now uid input)
  with assms inventory_update_cases [OF assms(1)] show ?thesis
    by (fastforce simp: map_prod_def split: prod.splits)
next
  case (IO_Replace now uid key)
  with assms set_host_key_cases [OF assms(1)] show ?thesis
    by (fastforce simp: map_prod_def replace_host_key_def split: prod.splits sum.splits)
next
  case (IO_Clear now uid)
  with assms set_host_key_cases [OF assms(1)] show ?thesis
    by (fastforce simp: map_prod_def clear_host_key_def split: prod.splits)
next
  case (IO_Delete uid)
  with assms show ?thesis by (auto simp: map_prod_def inventory_delete_def split: if_splits)
qed

section \<open>Properties\<close>

text \<open>
  C18: from an empty table, whatever operations were applied and whether or not the database failed
  them, every row is one that validation accepts, no two machines share a display name, and no
  operation on the table panics on a stored port.
\<close>

theorem inventory_table_stays_valid:
  assumes "inventory_reachable decode table"
  shows "table_valid decode table
    \<and> (\<forall>fails op. fst (inventory_apply decode fails op table) \<noteq> None)
    \<and> (\<forall>fails uid. inventory_get fails uid table \<noteq> None)
    \<and> (\<forall>fails limit. inventory_list collate fails limit table \<noteq> None)"
proof -
  have valid: "table_valid decode table" using assms by (rule inventory_reachable_valid)
  have "fst (inventory_apply decode fails op table) \<noteq> None" for fails op
    using inventory_apply_valid [OF valid, of fails op] by (metis prod.collapse)
  moreover have "inventory_get fails uid table \<noteq> None" for fails uid
    using table_valid_get [OF valid, of uid] row_valid_machine
    by (auto simp: inventory_get_def returned_option_def split: option.splits)
  moreover have "machine_from_row row \<noteq> None" if "row \<in> set (select_page collate limit table)" for row limit
    using valid row_valid_machine set_take_subset that
    by (fastforce simp: table_valid_def select_page_def dest!: in_set_takeD)
  then have "inventory_list collate fails limit table \<noteq> None" for fails limit
    by (force simp: inventory_list_def all_some_def split: sum.splits)
  ultimately show ?thesis using valid by blast
qed

definition sample_key_bytes :: string where
  "sample_key_bytes = wire_string ''ssh-ed25519'' @ wire_string (replicate 32 (CHR ''k''))"

definition sample_decode :: "string \<Rightarrow> string option" where
  "sample_decode s = (if s = ''AAAA'' then Some sample_key_bytes else None)"

definition sample_row :: machine_row where
  "sample_row = \<lparr>mr_id = 7, mr_display_name = ''nas'', mr_ssh_host = ''nas.lan'', mr_ssh_port = 22,
     mr_ssh_username = ''homelab'', mr_host_key = None, mr_created_at = 5, mr_updated_at = 5\<rparr>"

lemmas ascii_text_simps = trim_def trim_start_def trim_end_def chunk_is_whitespace_def chunks_ascii chars_ascii
  code_point_def is_whitespace_def ascii_defs

lemma sample_create:
  "inventory_create sample_decode False 7 5 (create_machine_new ''nas'' ''nas.lan'') [] =
     (map_option Inr (machine_from_row sample_row), [(7, sample_row)])"
proof -
  have "valid_display_name ''nas''"
    by (simp add: valid_display_name_def ascii_text_simps)
  moreover have "valid_ssh_host ''nas.lan''"
    by (simp add: valid_ssh_host_def valid_host_label_def ascii_text_simps)
  moreover have "row_checks sample_row" by (simp add: row_checks_def sample_row_def char_count_def chars_ascii)
  ultimately show ?thesis
    by (simp add: inventory_create_def create_machine_new_def validate_machine_fields_Inr sample_row_def
      default_ssh_port_def default_ssh_username_def validate_machine_fields_def
     sql_insert_def write_row_def name_taken_def returned_row_def)
qed

lemma sample_reachable: "inventory_reachable sample_decode [(7, sample_row)]"
  by (rule inventory_reachable.step [OF inventory_reachable.empty, of _ False "IO_Create 7 5 (create_machine_new ''nas'' ''nas.lan'')"])
    (unfold inventory_apply.simps sample_create map_prod_simp, rule refl)

lemma sample_get: "inventory_get False 7 [(7, sample_row)] = map_option Inr (machine_from_row sample_row)"
  by (simp add: inventory_get_def returned_option_def)

theorem inventory_table_stays_valid_witness:
  "table_valid sample_decode [(7, sample_row)]
    \<and> (\<exists>m. inventory_get False 7 [(7, sample_row)] = Some (Inr m) \<and> mc_ssh_host m = ''nas.lan'')"
proof -
  have "machine_from_row sample_row \<noteq> None \<and> mc_ssh_host (the (machine_from_row sample_row)) = ''nas.lan''"
    by (simp add: machine_from_row_def sample_row_def)
  then show ?thesis using inventory_table_stays_valid [OF sample_reachable, of "\<lambda>s. s"] sample_get by auto
qed

text \<open>
  C19: a host key is accepted exactly when it has at most 256 bytes and no space around it and reads
  ssh-ed25519, one space and a base64 text that decodes to the two wire strings ssh-ed25519 and a
  public key of 32 bytes, with nothing after them.
\<close>

theorem host_key_accepted_iff_wire_encoding:
  "validate_host_public_key decode key = Inr () \<longleftrightarrow>
     length key \<le> 256 \<and> trim key = key \<and>
     (\<exists>encoded bs pk. key = ''ssh-ed25519 '' @ encoded \<and> encoded \<noteq> [] \<and> CHR '' '' \<notin> set encoded
        \<and> decode encoded = Some bs \<and> bs = wire_string ''ssh-ed25519'' @ wire_string pk \<and> length pk = 32)"
  by (rule host_key_iff)

text \<open>
  C20: no operation touches a row other than the one it names, and a machine that is there before and
  after keeps its creation time and its pinned host key, unless the operation is the explicit
  replacement (by a key that validation accepts) or the explicit clearing of the key.
\<close>

theorem host_key_changes_explicitly:
  assumes "inventory_reachable decode table" "inventory_apply decode fails op table = (r, table')"
  shows "(\<forall>uid. uid \<noteq> inventory_target op \<longrightarrow> bt_get table' uid = bt_get table uid)
    \<and> (\<forall>old new. bt_get table (inventory_target op) = Some old \<longrightarrow> bt_get table' (inventory_target op) = Some new \<longrightarrow>
         mr_created_at new = mr_created_at old
         \<and> (mr_host_key new \<noteq> mr_host_key old \<longrightarrow>
              (\<exists>now uid key. op = IO_Replace now uid key \<and> mr_host_key new = Some key
                 \<and> validate_host_public_key decode key = Inr ())
              \<or> (\<exists>now uid. op = IO_Clear now uid \<and> mr_host_key new = None)))"
proof -
  let ?uid = "inventory_target op"
  have valid: "table_valid decode table" using assms(1) by (rule inventory_reachable_valid)
  note change = inventory_apply_target [OF valid assms(2)]
  have valid': "table_valid decode table'" using inventory_apply_valid [OF valid assms(2)] by simp
  have ok: "bt_ok table" using valid by (simp add: table_valid_def)
  have "bt_get table' uid = bt_get table uid" if "uid \<noteq> ?uid" for uid
    using change that ok by (auto simp: bt_get_insert bt_get_remove)
  moreover have "new = old \<or> mr_created_at new = mr_created_at old \<and> mr_host_key new = host_key_after op (mr_host_key old)"
    if "bt_get table ?uid = Some old" "bt_get table' ?uid = Some new" for old new
    using change that ok by (auto simp: bt_get_insert bt_get_remove)
  moreover have "validate_host_public_key decode key = Inr ()"
    if "bt_get table' ?uid = Some new" "mr_host_key new = Some key" for new key
    using table_valid_get [OF valid' that(1)] that(2) by (simp add: row_valid_def)
  ultimately show ?thesis by (cases op) (auto, metis)
qed

lemma sample_key_valid: "validate_host_public_key sample_decode ''ssh-ed25519 AAAA'' = Inr ()"
proof -
  have "trim ''ssh-ed25519 AAAA'' = ''ssh-ed25519 AAAA''" by (simp add: ascii_text_simps)
  moreover have "sample_decode ''AAAA'' = Some (wire_string ''ssh-ed25519'' @ wire_string (replicate 32 (CHR ''k'')))"
    by (simp add: sample_decode_def sample_key_bytes_def)
  ultimately show ?thesis unfolding host_key_iff
    by (intro conjI, simp, simp, intro exI conjI) (rule append_Cons [symmetric] | simp)+
qed

theorem host_key_changes_explicitly_witness:
  "\<exists>table'. snd (inventory_apply sample_decode False (IO_Replace 9 7 ''ssh-ed25519 AAAA'') [(7, sample_row)]) = table'
     \<and> map_option mr_created_at (bt_get table' 7) = Some 5
     \<and> map_option mr_host_key (bt_get table' 7) = Some (Some ''ssh-ed25519 AAAA'')"
proof -
  let ?op = "IO_Replace 9 7 ''ssh-ed25519 AAAA''" and ?new = "sample_row\<lparr>mr_host_key := Some ''ssh-ed25519 AAAA'', mr_updated_at := 9\<rparr>"
  obtain r where run: "inventory_apply sample_decode False ?op [(7, sample_row)] = (r, [(7, ?new)])"
    by (simp add: replace_host_key_def sample_key_valid set_host_key_def sql_update_def write_row_def name_taken_def
      row_checks_def sample_row_def char_count_def chars_ascii)
  from host_key_changes_explicitly [OF sample_reachable run] have "mr_created_at ?new = 5"
    by (simp add: sample_row_def)
  with run show ?thesis by simp
qed

definition listing_key :: "(string \<Rightarrow> 'k::linorder) \<Rightarrow> machine \<Rightarrow> 'k \<times> uuid" where
  "listing_key collate m = (collate (mc_display_name m), mc_id m)"

lemma bt_get_member: "bt_ok m \<Longrightarrow> (k, v) \<in> set m \<Longrightarrow> bt_get m k = Some v"
  by (induction m k rule: bt_get.induct) (auto simp: bt_ok_def)

lemma stored_row_listed:
  assumes "table_valid decode table" "row \<in> set (map snd table)"
  shows "machine_from_row row = Some (the (machine_from_row row))
      \<and> inventory_get False (mc_id (the (machine_from_row row))) table = Some (Inr (the (machine_from_row row)))
      \<and> listing_key collate (the (machine_from_row row)) = (collate (mr_display_name row), mr_id row)"
proof -
  obtain i where i: "(i, row) \<in> set table" using assms(2) by auto
  then have "mr_id row = i" "row_valid decode row" using assms(1) by (auto simp: table_valid_def)
  moreover have "bt_get table i = Some row"
    using i assms(1) by (simp add: table_valid_def bt_get_member)
  ultimately show ?thesis
    by (auto simp: row_valid_def machine_from_row_def inventory_get_def returned_option_def listing_key_def)
qed

text \<open>
  A listing has as many machines as the limit and the inventory allow, never more than 100, in the
  order of display name and id; each is what a lookup of its id returns, and a machine that is left
  out does not come before one that is listed.
\<close>

theorem inventory_list_is_first_page:
  assumes "inventory_reachable decode table" "inventory_list collate False limit table = Some (Inr ms)"
  shows "unat limit \<le> 100 \<and> length ms = min (unat limit) (length table)
    \<and> sorted (map (listing_key collate) ms)
    \<and> (\<forall>m\<in>set ms. inventory_get False (mc_id m) table = Some (Inr m))
    \<and> (\<forall>uid m'. inventory_get False uid table = Some (Inr m') \<and> m' \<notin> set ms \<longrightarrow>
         (\<forall>m\<in>set ms. listing_key collate m \<le> listing_key collate m'))"
proof -
  define f where "f = (\<lambda>row :: machine_row. (collate (mr_display_name row), mr_id row))"
  define rows where "rows = sort_key f (map snd table)"
  have valid: "table_valid decode table" using assms(1) by (rule inventory_reachable_valid)
  have row: "machine_from_row row = Some (the (machine_from_row row))
      \<and> inventory_get False (mc_id (the (machine_from_row row))) table = Some (Inr (the (machine_from_row row)))
      \<and> listing_key collate (the (machine_from_row row)) = f row" if "row \<in> set rows" for row
    using stored_row_listed [OF valid, of row collate] that by (simp add: rows_def f_def)
  let ?n = "unat limit" and ?m = "\<lambda>row. the (machine_from_row row)"
  have ms: "ms = map ?m (take ?n rows)" and lim: "?n \<le> 100"
    using assms(2) by (auto simp: inventory_list_def select_page_def rows_def f_def all_some_def
        validate_list_limit_def max_list_limit_def word_le_nat_alt split: if_splits)
  have in_rows: "row \<in> set (take ?n rows) \<Longrightarrow> row \<in> set rows" for row by (rule in_set_takeD)
  have keys: "map (listing_key collate) ms = take ?n (map f rows)"
    unfolding ms take_map map_map using row in_rows by (intro map_cong) auto
  have sorted: "sorted (map f rows)" by (simp add: rows_def)
  have out: "listing_key collate m \<le> listing_key collate m'"
    if "inventory_get False uid table = Some (Inr m')" "m' \<notin> set ms" "m \<in> set ms" for uid m m'
  proof -
    note got = that(1) and member = that(3)
    obtain row' where row': "bt_get table uid = Some row'" "machine_from_row row' = Some m'"
      using got by (cases "bt_get table uid") (auto simp: inventory_get_def returned_option_def)
    then have "row' \<in> set rows" using bt_get_in_set [OF row'(1)] by (force simp: rows_def)
    moreover have "row' \<notin> set (take ?n rows)" using that(2) row'(2) by (force simp: ms)
    ultimately have "row' \<in> set (drop ?n rows)" by (metis Un_iff append_take_drop_id set_append)
    moreover obtain row where "row \<in> set (take ?n rows)" "m = ?m row" using member by (auto simp: ms)
    moreover have "sorted (map f (take ?n rows) @ map f (drop ?n rows))"
      using sorted by (simp flip: map_append)
    ultimately have "f row \<le> f row'" by (auto simp: sorted_append)
    with row \<open>m = ?m row\<close> row' \<open>row' \<in> set rows\<close> in_rows \<open>row \<in> set (take ?n rows)\<close> show ?thesis
      by (metis option.sel)
  qed
  have "length ms = min ?n (length table)" by (simp add: ms rows_def min.commute)
  moreover have "sorted (map (listing_key collate) ms)" using sorted_wrt_take [OF sorted] keys by simp
  moreover have "\<forall>m\<in>set ms. inventory_get False (mc_id m) table = Some (Inr m)"
    using row in_rows by (auto simp: ms)
  ultimately show ?thesis using lim out by blast
qed

theorem inventory_list_is_first_page_witness:
  "\<exists>m. inventory_list (\<lambda>s. s) False 20 [(7, sample_row)] = Some (Inr [m])
     \<and> inventory_get False (mc_id m) [(7, sample_row)] = Some (Inr m)"
proof -
  obtain m where "machine_from_row sample_row = Some m" by (simp add: machine_from_row_def sample_row_def)
  then have run: "inventory_list (\<lambda>s. s) False 20 [(7, sample_row)] = Some (Inr [m])"
    by (simp add: inventory_list_def validate_list_limit_def max_list_limit_def select_page_def all_some_def)
  from inventory_list_is_first_page [OF sample_reachable run] run show ?thesis by auto
qed

end
