(* ===== verification/Tekton_Actions.thy ===== *)
theory Tekton_Actions
  imports Tool_Error
begin

text \<open>
  The errors of the Tekton integration (\<open>src/integrations/tekton/error.rs\<close>) and its typed inputs and
  validated commands (\<open>src/integrations/tekton/actions.rs\<close>).  An input is what a caller sends, and
  the \<open>validate\<close> of its struct turns it into the command the client takes, or rejects it.
\<close>

section \<open>Errors\<close>

datatype tekton_error =
    TE_InvalidArguments
  | TE_CapacityExhausted
  | TE_Timeout
  | TE_Unauthorized
  | TE_NotFound
  | TE_QueryRejected
  | TE_MutationRejected
  | TE_MutationOutcomeUnknown
  | TE_UpstreamUnavailable
  | TE_InvalidResponse

fun tekton_error_parts :: "tekton_error \<Rightarrow> string \<Rightarrow> string \<times> string \<times> bool" where
  "tekton_error_parts TE_InvalidArguments subject =
     (''invalid_arguments'', ''The '' @ subject @ '' arguments are invalid.'', False)"
| "tekton_error_parts TE_CapacityExhausted subject =
     (''capacity_exhausted'', ''Tekton request capacity is currently exhausted.'', True)"
| "tekton_error_parts TE_Timeout subject = (''timeout'', ''The Tekton query timed out.'', True)"
| "tekton_error_parts TE_Unauthorized subject =
     (''tekton_unauthorized'', ''An upstream service rejected the MCP service credentials.'', False)"
| "tekton_error_parts TE_NotFound subject =
     (''not_found'', ''The requested '' @ subject @ '' was not found.'', False)"
| "tekton_error_parts TE_QueryRejected subject =
     (''query_rejected'', ''An upstream service rejected the '' @ subject @ '' query.'', False)"
| "tekton_error_parts TE_MutationRejected subject =
     (''mutation_rejected'', ''The requested Tekton mutation was rejected.'', False)"
| "tekton_error_parts TE_MutationOutcomeUnknown subject =
     (''mutation_outcome_unknown'', ''The Tekton mutation did not complete cleanly; its outcome may be uncertain. Inspect current runs before retrying.'', False)"
| "tekton_error_parts TE_UpstreamUnavailable subject =
     (''upstream_unavailable'', ''A Tekton integration dependency is currently unavailable.'', True)"
| "tekton_error_parts TE_InvalidResponse subject =
     (''invalid_response'', ''A Tekton integration dependency returned an invalid response.'', False)"

definition tekton_into_tool_error :: "tekton_error \<Rightarrow> string \<Rightarrow> tool_error" where
  "tekton_into_tool_error e subject =
     (let (code, message, retryable) = tekton_error_parts e subject
      in tool_error_new code message retryable)"

lemma tekton_retryable_iff:
  "te_retryable (tekton_into_tool_error e subject) \<longleftrightarrow>
     e \<in> {TE_CapacityExhausted, TE_Timeout, TE_UpstreamUnavailable}"
  by (cases e) (simp_all add: tekton_into_tool_error_def tool_error_new_def)

section \<open>Bounds and identifiers\<close>

definition max_identifier_bytes :: nat where
  "max_identifier_bytes = 512"

definition max_ref_bytes :: nat where
  "max_ref_bytes = 512"

definition max_params :: nat where
  "max_params = 20"

definition max_param_key_bytes :: nat where
  "max_param_key_bytes = 128"

definition max_param_value_bytes :: nat where
  "max_param_value_bytes = 4096"

definition tekton_bounded_limit :: "u16 option \<Rightarrow> u16 \<Rightarrow> u16 \<Rightarrow> unit + u16" where
  "tekton_bounded_limit value fallback maximum =
     (let value = (case value of None \<Rightarrow> fallback | Some v \<Rightarrow> v) in
      if 0 < value \<and> value \<le> maximum then Inr value else Inl ())"

definition valid_text :: "string \<Rightarrow> nat \<Rightarrow> bool" where
  "valid_text value maximum \<longleftrightarrow> trim value \<noteq> [] \<and> length value \<le> maximum \<and> \<not> has_control value"

definition valid_repository_component :: "string \<Rightarrow> bool" where
  "valid_repository_component value \<longleftrightarrow>
     valid_text value 253
     \<and> list_all (\<lambda>c. ascii_alphanumeric c \<or> c \<in> set (bytes ''-._~'')) (chars value)"

definition valid_repository_key :: "string \<Rightarrow> bool" where
  "valid_repository_key value \<longleftrightarrow>
     (case split_char (CHR ''/'') value of
        [owner, repository] \<Rightarrow> valid_repository_component owner \<and> valid_repository_component repository
      | _ \<Rightarrow> False)"

definition valid_dns :: "string \<Rightarrow> bool" where
  "valid_dns value \<longleftrightarrow>
     value \<noteq> [] \<and> length value \<le> 253
     \<and> list_all (\<lambda>c. ascii_lowercase c \<or> ascii_digit c \<or> c \<in> set (bytes ''-.'')) (chars value)"

definition valid_namespaced_id :: "string \<Rightarrow> bool" where
  "valid_namespaced_id value \<longleftrightarrow>
     (case split_char (CHR ''/'') value of
        [namespace, name] \<Rightarrow> valid_dns namespace \<and> valid_dns name
      | _ \<Rightarrow> False)"

definition valid_params :: "(string, string) btree \<Rightarrow> bool" where
  "valid_params params \<longleftrightarrow>
     length params \<le> max_params
     \<and> list_all (\<lambda>(key, value).
          valid_text key max_param_key_bytes \<and> length value \<le> max_param_value_bytes
          \<and> \<not> has_control key \<and> \<not> has_control value) params"

text \<open>\<open>opt_valid p v\<close> is \<open>!v.is_some_and(|v| !p(v))\<close>: an absent value is valid.\<close>

definition opt_valid :: "('a \<Rightarrow> bool) \<Rightarrow> 'a option \<Rightarrow> bool" where
  "opt_valid p v = (case v of None \<Rightarrow> True | Some a \<Rightarrow> p a)"

lemma opt_valid_simps [simp]: "opt_valid p None" "opt_valid p (Some a) = p a"
  by (simp_all add: opt_valid_def)

section \<open>Inputs and commands\<close>

record workflow_list_query =
  wl_repository :: "string option"
  wl_limit :: u16

record run_list_query =
  rl_repository :: string
  rl_workflow :: "string option"
  rl_branch :: "string option"
  rl_revision :: "string option"
  rl_status :: "string option"
  rl_limit :: u16

record run_wait_query =
  rw_run_id :: string
  rw_timeout_seconds :: u16

record task_list_query =
  tl_run_id :: string
  tl_limit :: u16

record task_logs_query =
  lq_run_id :: string
  lq_task_id :: string
  lq_step :: "string option"
  lq_tail_lines :: u16
  lq_max_bytes :: u32

record workflow_dispatch_command =
  wd_repository :: string
  wd_workflow :: string
  wd_reference :: string
  wd_params :: "(string, string) btree"

definition repository_list_validate :: "u16 option \<Rightarrow> unit + u16" where
  "repository_list_validate limit = tekton_bounded_limit limit 50 100"

definition workflow_list_validate :: "string option \<Rightarrow> u16 option \<Rightarrow> unit + workflow_list_query" where
  "workflow_list_validate repository limit =
     (if \<not> opt_valid valid_repository_key repository then Inl ()
      else and_then (tekton_bounded_limit limit 100 200) (\<lambda>limit.
        Inr \<lparr>wl_repository = repository, wl_limit = limit\<rparr>))"

definition run_list_validate ::
  "string \<Rightarrow> string option \<Rightarrow> string option \<Rightarrow> string option \<Rightarrow> string option \<Rightarrow> u16 option
     \<Rightarrow> unit + run_list_query" where
  "run_list_validate repository workflow branch revision status limit =
     (if \<not> valid_repository_key repository
         \<or> \<not> opt_valid (\<lambda>v. valid_text v 253) workflow
         \<or> \<not> opt_valid (\<lambda>v. valid_text v max_ref_bytes) branch
         \<or> \<not> opt_valid (\<lambda>v. valid_text v max_ref_bytes) revision
         \<or> \<not> opt_valid (\<lambda>v. v \<in> {''running'', ''succeeded'', ''failed'', ''cancelled''}) status
      then Inl ()
      else and_then (tekton_bounded_limit limit 50 100) (\<lambda>limit.
        Inr \<lparr>rl_repository = repository, rl_workflow = workflow, rl_branch = branch,
             rl_revision = revision, rl_status = status, rl_limit = limit\<rparr>))"

definition run_wait_validate :: "string \<Rightarrow> u16 option \<Rightarrow> unit + run_wait_query" where
  "run_wait_validate run_id timeout_seconds =
     (if \<not> valid_namespaced_id run_id then Inl ()
      else and_then (tekton_bounded_limit timeout_seconds 60 300) (\<lambda>timeout_seconds.
        Inr \<lparr>rw_run_id = run_id, rw_timeout_seconds = timeout_seconds\<rparr>))"

text \<open>\<open>RunGetInput\<close>, \<open>RunStatusInput\<close>, \<open>RunRerunInput\<close> and \<open>RunCancelInput\<close> hold a run id only.\<close>

definition run_get_validate :: "string \<Rightarrow> unit + string" where
  "run_get_validate run_id = (if \<not> valid_namespaced_id run_id then Inl () else Inr run_id)"

definition run_status_validate :: "string \<Rightarrow> unit + string" where
  "run_status_validate run_id = (if \<not> valid_namespaced_id run_id then Inl () else Inr run_id)"

definition run_rerun_validate :: "string \<Rightarrow> unit + string" where
  "run_rerun_validate run_id = (if \<not> valid_namespaced_id run_id then Inl () else Inr run_id)"

definition run_cancel_validate :: "string \<Rightarrow> unit + string" where
  "run_cancel_validate run_id = (if \<not> valid_namespaced_id run_id then Inl () else Inr run_id)"

definition task_list_validate :: "string \<Rightarrow> u16 option \<Rightarrow> unit + task_list_query" where
  "task_list_validate run_id limit =
     (if \<not> valid_namespaced_id run_id then Inl ()
      else and_then (tekton_bounded_limit limit 50 100) (\<lambda>limit.
        Inr \<lparr>tl_run_id = run_id, tl_limit = limit\<rparr>))"

definition task_logs_validate ::
  "string \<Rightarrow> string \<Rightarrow> string option \<Rightarrow> u16 option \<Rightarrow> u32 option \<Rightarrow> unit + task_logs_query" where
  "task_logs_validate run_id task_id step tail_lines max_bytes =
     (if \<not> valid_namespaced_id run_id \<or> \<not> valid_namespaced_id task_id
         \<or> \<not> opt_valid (\<lambda>v. valid_text v 128) step
      then Inl ()
      else
        let tail_lines = (case tail_lines of None \<Rightarrow> 200 | Some n \<Rightarrow> n);
            max_bytes = (case max_bytes of None \<Rightarrow> 65536 | Some n \<Rightarrow> n)
        in
          if \<not> (1 \<le> tail_lines \<and> tail_lines \<le> 1000) \<or> \<not> (1 \<le> max_bytes \<and> max_bytes \<le> 262144) then Inl ()
          else Inr \<lparr>lq_run_id = run_id, lq_task_id = task_id, lq_step = step,
                    lq_tail_lines = tail_lines, lq_max_bytes = max_bytes\<rparr>)"

definition workflow_dispatch_validate ::
  "string \<Rightarrow> string \<Rightarrow> string \<Rightarrow> (string, string) btree \<Rightarrow> unit + workflow_dispatch_command" where
  "workflow_dispatch_validate repository workflow reference params =
     (if \<not> valid_repository_key repository
         \<or> \<not> valid_text workflow max_identifier_bytes
         \<or> \<not> valid_text reference max_ref_bytes
         \<or> \<not> valid_params params
      then Inl ()
      else Inr \<lparr>wd_repository = repository, wd_workflow = workflow, wd_reference = reference,
                wd_params = params\<rparr>)"

section \<open>What validation guarantees\<close>

lemma tekton_bounded_limit_Inr:
  "tekton_bounded_limit value fallback maximum = Inr n \<Longrightarrow> 0 < n \<and> n \<le> maximum"
  by (simp add: tekton_bounded_limit_def Let_def split: if_splits)

lemma task_logs_bounds:
  "task_logs_validate run_id task_id step tail_lines max_bytes = Inr q \<Longrightarrow>
     0 < unat (lq_tail_lines q) \<and> unat (lq_tail_lines q) \<le> 1000
     \<and> 0 < unat (lq_max_bytes q) \<and> unat (lq_max_bytes q) \<le> 262144"
  by (auto simp: task_logs_validate_def Let_def word_le_nat_alt split: if_splits)

lemma valid_namespaced_id_iff:
  "valid_namespaced_id v \<longleftrightarrow> (\<exists>a b. v = a @ ''/'' @ b \<and> valid_dns a \<and> valid_dns b
     \<and> CHR ''/'' \<notin> set a \<and> CHR ''/'' \<notin> set b)" (is "?l \<longleftrightarrow> ?r")
proof
  assume ?l
  then obtain a b where s: "split_char (CHR ''/'') v = [a, b]" "valid_dns a" "valid_dns b"
    by (auto simp: valid_namespaced_id_def split: list.splits)
  have "v = join_with [CHR ''/''] [a, b]" using s(1) by (metis join_split_char)
  moreover have "CHR ''/'' \<notin> set a" "CHR ''/'' \<notin> set b"
    using split_char_no_sep [of _ "CHR ''/''" v] s(1) by auto
  ultimately show ?r using s by auto
next
  assume ?r
  then show ?l by (auto simp: valid_namespaced_id_def split_char_append_sep split_char_single)
qed

end
