(* ===== verification/Tekton_Normalize.thy ===== *)
theory Tekton_Normalize
  imports Tekton_Actions Http "HOL-Library.AList"
begin

text \<open>
  The pure part of the Tekton client (\<open>src/integrations/tekton/client.rs\<close>): the PAC repositories and
  the workflow definitions it recognises, and the normalised form of pipeline runs and task runs.

  The URL parser, percent decoding, the YAML parser, base64 and SHA-256 are third-party code: they
  are the fields of a \<open>tekton_libs\<close>.  \<open>lib_yaml\<close> gives the documents of a text as JSON values in
  order, \<open>None\<close> for one that does not parse; \<open>lib_digest\<close> is the unpadded URL-safe base64 of the
  SHA-256 digest.
\<close>

section \<open>Data\<close>

record located_url = url +
  lu_port :: "u16 option"
  lu_segments :: "string list option"
  lu_text :: string

record tekton_libs =
  lib_json :: "string \<Rightarrow> json option"
  lib_yaml :: "string \<Rightarrow> json option list"
  lib_url :: "string \<Rightarrow> located_url option"
  lib_percent :: "string \<Rightarrow> string option"
  lib_base64 :: "string \<Rightarrow> string option"
  lib_digest :: "string \<Rightarrow> string"

record repository =
  tr_id :: string
  tr_cr_name :: string
  tr_owner :: string
  tr_name :: string
  tr_url :: string

record workflow =
  tw_id :: string
  tw_repository :: string
  tw_definition :: string
  tw_path :: string
  tw_revision :: string
  tw_events :: "string list"
  tw_triggerable :: bool

definition max_workflow_documents :: nat where
  "max_workflow_documents = 32"

definition max_condition_message_bytes :: nat where
  "max_condition_message_bytes = 4096"

definition repository_label :: string where
  "repository_label = ''pipelinesascode.tekton.dev/repository''"

definition pipeline_run_label :: string where
  "pipeline_run_label = ''tekton.dev/pipelineRun''"

section \<open>Reading Kubernetes objects\<close>

text \<open>\<open>item["a"]["b"]\<close>: indexing a JSON value by names, null where there is none.\<close>

fun json_at :: "json \<Rightarrow> string list \<Rightarrow> json" where
  "json_at v [] = v"
| "json_at v (k # ks) = json_at (case json_get v k of None \<Rightarrow> JNull | Some w \<Rightarrow> w) ks"

definition str_at :: "json \<Rightarrow> string list \<Rightarrow> string option" where
  "str_at v ks = as_str (json_at v ks)"

definition array_at :: "json \<Rightarrow> string list \<Rightarrow> json list option" where
  "array_at v ks = as_array (json_at v ks)"

definition object_name :: "json \<Rightarrow> string option" where
  "object_name item = str_at item [''metadata'', ''name'']"

definition object_uid :: "json \<Rightarrow> string option" where
  "object_uid item = str_at item [''metadata'', ''uid'']"

definition owned_by :: "json \<Rightarrow> string \<Rightarrow> string \<Rightarrow> string \<Rightarrow> bool" where
  "owned_by item kind name uid \<longleftrightarrow>
     (case array_at item [''metadata'', ''ownerReferences''] of
        None \<Rightarrow> False
      | Some owners \<Rightarrow> list_ex (\<lambda>owner. str_at owner [''kind''] = Some kind
            \<and> str_at owner [''name''] = Some name \<and> str_at owner [''uid''] = Some uid) owners)"

definition label_of :: "json \<Rightarrow> string \<Rightarrow> string option" where
  "label_of item name = str_at item [''metadata'', ''labels'', name]"

definition annotation_of :: "json \<Rightarrow> string \<Rightarrow> string option" where
  "annotation_of item name = str_at item [''metadata'', ''annotations'', name]"

definition condition_of :: "json \<Rightarrow> json option" where
  "condition_of item =
     Option.bind (array_at item [''status'', ''conditions''])
       (List.find (\<lambda>condition. str_at condition [''type''] = Some ''Succeeded''))"

definition condition_reason :: "json \<Rightarrow> string option" where
  "condition_reason item = Option.bind (condition_of item) (\<lambda>value. str_at value [''reason''])"

definition run_status :: "json \<Rightarrow> string" where
  "run_status item =
     (case condition_of item of
        None \<Rightarrow> ''running''
      | Some condition \<Rightarrow>
          (case (str_at condition [''status''], str_at condition [''reason'']) of
             (Some s, reason) \<Rightarrow>
               if s = ''True'' then ''succeeded''
               else if s = ''False'' then
                 (case reason of
                    Some r \<Rightarrow> if str_contains (to_ascii_lowercase r) ''cancel'' then ''cancelled'' else ''failed''
                  | None \<Rightarrow> ''failed'')
               else ''running''
           | (None, _) \<Rightarrow> ''running''))"

definition option_or :: "'a option \<Rightarrow> 'a option \<Rightarrow> 'a option" where
  "option_or a b = (case a of None \<Rightarrow> b | Some x \<Rightarrow> Some x)"

definition workflow_name :: "json \<Rightarrow> string option" where
  "workflow_name item =
     option_or (label_of item ''pipelinesascode.tekton.dev/original-prname'')
       (annotation_of item ''pipelinesascode.tekton.dev/original-prname'')"

definition run_branch :: "json \<Rightarrow> string option" where
  "run_branch item =
     option_or (annotation_of item ''pipelinesascode.tekton.dev/branch'')
       (annotation_of item ''pipelinesascode.tekton.dev/source-branch'')"

definition namespaced_id :: "string \<Rightarrow> string \<Rightarrow> tekton_error + string \<times> string" where
  "namespaced_id ident expected_namespace =
     (case split_once_char (CHR ''/'') ident of
        None \<Rightarrow> Inl TE_InvalidArguments
      | Some (namespace, name) \<Rightarrow>
          if namespace \<noteq> expected_namespace \<or> name = [] \<or> CHR ''/'' \<in> set name
          then Inl TE_InvalidArguments else Inr (namespace, name))"

definition branch_matches :: "string option \<Rightarrow> string \<Rightarrow> bool" where
  "branch_matches actual expected \<longleftrightarrow>
     (case actual of
        None \<Rightarrow> False
      | Some a \<Rightarrow> a = expected
          \<or> (a = ''main'' \<and> expected = ''refs/heads/main'')
          \<or> (a = ''refs/heads/main'' \<and> expected = ''main''))"

definition tekton_truncate_utf8 :: "string \<Rightarrow> nat \<Rightarrow> string \<times> bool" where
  "tekton_truncate_utf8 value maximum =
     (if length value \<le> maximum then (value, False)
      else (take (floor_char_boundary value maximum) value, True))"

definition bounded_text :: "string \<Rightarrow> nat \<Rightarrow> bool" where
  "bounded_text value maximum \<longleftrightarrow> trim value \<noteq> [] \<and> length value \<le> maximum \<and> \<not> has_control value"

definition cancel_patch :: "string \<Rightarrow> json" where
  "cancel_patch resource_version =
     JObj [(''metadata'', JObj [(''resourceVersion'', JStr resource_version)]),
           (''spec'', JObj [(''status'', JStr ''Cancelled'')])]"

section \<open>Repositories\<close>

definition strip_suffix :: "string \<Rightarrow> string \<Rightarrow> string option" where
  "strip_suffix s pat =
     (if length pat \<le> length s \<and> drop (length s - length pat) s = pat
      then Some (take (length s - length pat) s) else None)"

definition same_origin :: "located_url \<Rightarrow> located_url \<Rightarrow> bool" where
  "same_origin u origin \<longleftrightarrow>
     url_scheme u = url_scheme origin \<and> url_host u = url_host origin \<and> lu_port u = lu_port origin
     \<and> url_query u = None \<and> url_fragment u = None \<and> url_username u = [] \<and> url_password u = None"

definition parse_repository ::
  "'x tekton_libs_scheme \<Rightarrow> json \<Rightarrow> located_url \<Rightarrow> repository option" where
  "parse_repository libs item origin =
     Option.bind (object_name item) (\<lambda>cr_name.
     Option.bind (str_at item [''spec'', ''url'']) (\<lambda>raw.
     Option.bind (lib_url libs raw) (\<lambda>u.
       if \<not> same_origin u origin then None
       else
         Option.bind (lu_segments u) (\<lambda>segments.
           case filter (\<lambda>part. part \<noteq> []) segments of
             [part0, part1] \<Rightarrow>
               Option.bind (lib_percent libs part0) (\<lambda>owner.
               Option.bind (lib_percent libs part1) (\<lambda>encoded_name.
                 let name = (case strip_suffix encoded_name ''.git'' of None \<Rightarrow> encoded_name | Some n \<Rightarrow> n) in
                 if \<not> valid_repository_component owner \<or> \<not> valid_repository_component name then None
                 else Some \<lparr>tr_id = owner @ ''/'' @ name, tr_cr_name = cr_name, tr_owner = owner,
                   tr_name = name,
                   tr_url = trim_end_matches [CHR ''/''] (lu_text origin) @ ''/'' @ owner @ ''/'' @ name\<rparr>))
           | _ \<Rightarrow> None))))"

definition repository_json :: "repository \<Rightarrow> json" where
  "repository_json r =
     JObj [(''repository'', JStr (tr_id r)), (''owner'', JStr (tr_owner r)),
           (''name'', JStr (tr_name r)), (''url'', JStr (tr_url r))]"

section \<open>Workflows\<close>

definition trim_matches :: "char list \<Rightarrow> string \<Rightarrow> string" where
  "trim_matches cs s = dropWhile (\<lambda>c. c \<in> set cs) (trim_end_matches cs s)"

definition nul :: string where
  "nul = [char_of (0 :: nat)]"

definition workflow_events :: "string \<Rightarrow> string list" where
  "workflow_events annotation =
     filter (\<lambda>event. event \<noteq> [])
       (map (\<lambda>part. trim_matches [CHR 0x27, CHR 0x22] (trim part))
         (split_char (CHR '','') (trim_matches [CHR ''['', CHR '']''] annotation)))"

definition definition_name :: "json \<Rightarrow> string option" where
  "definition_name value =
     opt_filter (\<lambda>v. v \<noteq> [])
       (option_or (str_at value [''metadata'', ''name''])
         (map_option (trim_end_matches [CHR ''-'']) (str_at value [''metadata'', ''generateName''])))"

definition event_annotation :: "json \<Rightarrow> string" where
  "event_annotation value =
     (case option_or (annotation_of value ''pipelinesascode.tekton.dev/on-event'')
             (annotation_of value ''pipelinesascode.tekton.dev/event'') of
        None \<Rightarrow> [] | Some s \<Rightarrow> s)"

definition workflow_id :: "'x tekton_libs_scheme \<Rightarrow> repository \<Rightarrow> string \<Rightarrow> string \<Rightarrow> nat \<Rightarrow> string \<Rightarrow> string" where
  "workflow_id libs r revision path index def_name =
     ''workflow/'' @ lib_digest libs
       (tr_id r @ nul @ revision @ nul @ path @ nul @ show_nat index @ nul @ def_name)"

definition parse_workflow ::
  "'x tekton_libs_scheme \<Rightarrow> repository \<Rightarrow> string \<Rightarrow> string \<Rightarrow> nat \<Rightarrow> json \<Rightarrow> tekton_error + workflow list" where
  "parse_workflow libs r revision path index value =
     (if str_at value [''kind''] \<noteq> Some ''PipelineRun'' then Inr []
      else
        and_then (ok_or (definition_name value) TE_InvalidResponse) (\<lambda>def_name.
          if \<not> bounded_text def_name 253 then Inl TE_InvalidResponse
          else
            let events = workflow_events (event_annotation value) in
            if 20 < length events \<or> list_ex (\<lambda>event. \<not> bounded_text event 64) events
            then Inl TE_InvalidResponse
            else
              let events = remdups_adj (sort events) in
              Inr [\<lparr>tw_id = workflow_id libs r revision path index def_name, tw_repository = tr_id r,
                    tw_definition = def_name, tw_path = path, tw_revision = revision,
                    tw_events = events, tw_triggerable = list_ex (\<lambda>event. event = ''incoming'') events\<rparr>]))"

fun parse_documents ::
  "'x tekton_libs_scheme \<Rightarrow> repository \<Rightarrow> string \<Rightarrow> string \<Rightarrow> nat \<Rightarrow> json option list
     \<Rightarrow> tekton_error + workflow list" where
  "parse_documents libs r revision path index [] = Inr []"
| "parse_documents libs r revision path index (document # documents) =
     (if max_workflow_documents \<le> index then Inl TE_InvalidResponse
      else
        and_then (ok_or document TE_InvalidResponse) (\<lambda>value.
        and_then (parse_workflow libs r revision path index value) (\<lambda>found.
        and_then (parse_documents libs r revision path (Suc index) documents) (\<lambda>rest.
          Inr (found @ rest)))))"

definition parse_workflows ::
  "'x tekton_libs_scheme \<Rightarrow> repository \<Rightarrow> string \<Rightarrow> string \<Rightarrow> string \<Rightarrow> tekton_error + workflow list" where
  "parse_workflows libs r revision path bytes' =
     (if \<not> utf8_valid bytes' then Inl TE_InvalidResponse
      else parse_documents libs r revision path 0 (lib_yaml libs bytes'))"

definition workflow_json :: "workflow \<Rightarrow> json" where
  "workflow_json w =
     JObj [(''id'', JStr (tw_id w)), (''repository'', JStr (tw_repository w)),
           (''name'', JStr (tw_definition w)), (''path'', JStr (tw_path w)),
           (''revision'', JStr (tw_revision w)), (''events'', json_strings (tw_events w)),
           (''triggerable'', JBool (tw_triggerable w))]"

section \<open>Runs and tasks\<close>

definition parameter_names :: "json \<Rightarrow> string list" where
  "parameter_names item =
     take 32 (List.map_filter (\<lambda>param. str_at param [''name''])
       (opt_elems (array_at item [''spec'', ''params''])))"

definition normalize_run :: "json \<Rightarrow> string \<Rightarrow> repository \<Rightarrow> json option" where
  "normalize_run item namespace r =
     Option.bind (label_of item repository_label) (\<lambda>cr_name.
       if cr_name \<noteq> tr_cr_name r then None
       else
         Option.bind (object_name item) (\<lambda>name.
           Some (JObj
             [(''id'', JStr (namespace @ ''/'' @ name)),
              (''repository'', JStr (tr_id r)),
              (''workflow'', JStr (case workflow_name item of None \<Rightarrow> name | Some w \<Rightarrow> w)),
              (''branch'', json_option JStr (run_branch item)),
              (''revision'', json_option JStr (label_of item ''pipelinesascode.tekton.dev/sha'')),
              (''status'', JStr (run_status item)),
              (''reason'', json_option JStr (condition_reason item)),
              (''created_at'', json_option JStr (str_at item [''metadata'', ''creationTimestamp''])),
              (''started_at'', json_option JStr (str_at item [''status'', ''startTime''])),
              (''completed_at'', json_option JStr (str_at item [''status'', ''completionTime''])),
              (''parameter_names'', json_strings (parameter_names item))])))"

definition task_step :: "json \<Rightarrow> json option" where
  "task_step step =
     Option.bind (str_at step [''name'']) (\<lambda>name.
       Some (JObj
         [(''name'', JStr name),
          (''status'', JStr (if json_get step ''terminated'' \<noteq> None then ''terminated''
             else if json_get step ''running'' \<noteq> None then ''running'' else ''waiting'')),
          (''reason'', json_option JStr (option_or (str_at step [''terminated'', ''reason''])
             (str_at step [''waiting'', ''reason''])))]))"

definition task_steps :: "json \<Rightarrow> json list" where
  "task_steps item =
     take 32 (List.map_filter task_step (opt_elems (array_at item [''status'', ''steps''])))"

definition normalize_task :: "json \<Rightarrow> string \<Rightarrow> string \<Rightarrow> json option" where
  "normalize_task item namespace run_name =
     Option.bind (object_name item) (\<lambda>name.
       Some (JObj
         [(''id'', JStr (namespace @ ''/'' @ name)),
          (''run_id'', JStr (namespace @ ''/'' @ run_name)),
          (''pipeline_task'', json_option JStr (label_of item ''tekton.dev/pipelineTask'')),
          (''status'', JStr (run_status item)),
          (''reason'', json_option JStr (condition_reason item)),
          (''created_at'', json_option JStr (str_at item [''metadata'', ''creationTimestamp''])),
          (''started_at'', json_option JStr (str_at item [''status'', ''startTime''])),
          (''completed_at'', json_option JStr (str_at item [''status'', ''completionTime''])),
          (''steps'', JArr (task_steps item))]))"

definition terminal_status :: "json \<Rightarrow> bool" where
  "terminal_status run \<longleftrightarrow>
     (case str_at run [''status''] of
        None \<Rightarrow> False
      | Some s \<Rightarrow> s \<in> {''succeeded'', ''failed'', ''cancelled''})"

definition wait_json :: "json \<Rightarrow> bool \<Rightarrow> json" where
  "wait_json run timed_out =
     JObj [(''mode'', JStr ''wait''), (''result_type'', JStr ''run''), (''result'', run),
           (''timed_out'', JBool timed_out)]"

text \<open>\<open>value["key"] = v\<close> on an object: the member is replaced or added.\<close>

fun json_set :: "json \<Rightarrow> string \<Rightarrow> json \<Rightarrow> json" where
  "json_set (JObj m) k v = JObj (AList.update k v m)"
| "json_set w k v = JObj [(k, v)]"

section \<open>Newest first\<close>

text \<open>
  \<open>sort_newest\<close> orders by creation time, latest first and absent last, then by identity.  The order
  is a linear order on the pair of the two keys.
\<close>

datatype newest = Newest (newest_created: "string option") (newest_ident: "string option")

instantiation newest :: linorder
begin

definition less_eq_newest :: "newest \<Rightarrow> newest \<Rightarrow> bool" where
  "less_eq_newest a b \<longleftrightarrow> newest_created b < newest_created a \<or> (newest_created a = newest_created b \<and> newest_ident a \<le> newest_ident b)"

definition less_newest :: "newest \<Rightarrow> newest \<Rightarrow> bool" where
  "less_newest a b \<longleftrightarrow> newest_created b < newest_created a \<or> (newest_created a = newest_created b \<and> newest_ident a < newest_ident b)"

instance
proof
  fix x y z :: newest
  show "(x < y) = (x \<le> y \<and> \<not> y \<le> x)"
    by (auto simp: less_eq_newest_def less_newest_def)
  show "x \<le> x" by (simp add: less_eq_newest_def)
  show "x \<le> y \<Longrightarrow> y \<le> z \<Longrightarrow> x \<le> z"
    by (auto simp: less_eq_newest_def)
  show "x \<le> y \<Longrightarrow> y \<le> x \<Longrightarrow> x = y"
    by (cases x; cases y) (auto simp: less_eq_newest_def)
  show "x \<le> y \<or> y \<le> x"
    by (auto simp: less_eq_newest_def)
qed

end

definition newest_key :: "json \<Rightarrow> newest" where
  "newest_key v = Newest (str_at v [''created_at'']) (str_at v [''id''])"

definition sort_newest :: "json list \<Rightarrow> json list" where
  "sort_newest values = sort_key newest_key values"

end
