(* ===== verification/Tekton_Api.thy ===== *)
theory Tekton_Api
  imports Tekton_Normalize Redaction
begin

text \<open>
  Requests and listings of the Tekton client (\<open>src/integrations/tekton/client.rs\<close>): one HTTP client
  towards the Kubernetes API and one towards Forgejo and the Pipelines-as-Code controller.

  What the client does not decide is its environment, a \<open>tekton_env\<close>: the third-party parsers, which
  URLs can be joined, whether one of the four request permits and one of the four waiter permits is
  free, what the file of the service token holds, the answer to a request, and how long each wait
  takes.  The state of an operation is a \<open>tekton_sys\<close>: the clock in milliseconds, the trace of its
  exchanges (a history variable) and the world outside.  A wait can end with the operation dropped
  by the innermost enclosing deadline: \<open>TS_Dropped\<close> passes through every operation unhandled up to
  that deadline.
\<close>

section \<open>Environment and state\<close>

datatype tekton_stop = TS_Dropped | TS_Error tekton_error

datatype tekton_url = TU_Forgejo "string list" | TU_Pac string | TU_Kube string

record tekton_request =
  tq_method :: http_method
  tq_url :: tekton_url
  tq_query :: "(string \<times> string) list"
  tq_body :: "json option"
  tq_merge_patch :: bool
  tq_bearer :: "string option"

record 's tekton_env = tekton_libs +
  tn_joins :: "tekton_url \<Rightarrow> bool"
  tn_permit :: "'s \<Rightarrow> bool \<times> 's"
  tn_waiter :: "'s \<Rightarrow> bool \<times> 's"
  tn_token_file :: "'s \<Rightarrow> string option option \<times> 's"
  tn_exchange :: "tekton_request \<Rightarrow> 's \<Rightarrow> http_exchange \<times> 's"
  tn_elapsed :: "'s \<Rightarrow> nat"

record 's tekton_sys =
  ts_clock :: nat
  ts_trace :: "(tekton_request \<times> http_exchange) list"
  ts_world :: 's

type_synonym ('s, 'a) tekton_io = "('s tekton_sys, tekton_stop, 'a) io"

definition tekton_lift :: "tekton_error + 'a \<Rightarrow> ('s, 'a) tekton_io" where
  "tekton_lift r = io_lift (map_err TS_Error r)"

definition tekton_fail :: "tekton_error \<Rightarrow> ('s, 'a) tekton_io" where
  "tekton_fail e = io_throw (TS_Error e)"

definition request_permit :: "'s tekton_env \<Rightarrow> ('s, unit) tekton_io" where
  "request_permit E = (\<lambda>s.
     let (free, w) = tn_permit E (ts_world s) in
     (if free then Inr () else Inl (TS_Error TE_CapacityExhausted), s\<lparr>ts_world := w\<rparr>))"

definition waiter_permit :: "'s tekton_env \<Rightarrow> ('s, unit) tekton_io" where
  "waiter_permit E = (\<lambda>s.
     let (free, w) = tn_waiter E (ts_world s) in
     (if free then Inr () else Inl (TS_Error TE_CapacityExhausted), s\<lparr>ts_world := w\<rparr>))"

definition tekton_exchange :: "'s tekton_env \<Rightarrow> tekton_request \<Rightarrow> ('s, http_exchange) tekton_io" where
  "tekton_exchange E request = (\<lambda>s.
     let (x, w) = tn_exchange E request (ts_world s) in
     (Inr x, s\<lparr>ts_clock := ts_clock s + tn_elapsed E w, ts_trace := ts_trace s @ [(request, x)],
       ts_world := w\<rparr>))"

section \<open>Construction\<close>

record tekton_config =
  tc_forgejo_origin :: located_url
  tc_forgejo_token :: string
  tc_pac_incoming_secret :: string
  tc_namespace :: string

record tekton_client =
  tcl_forgejo_origin :: located_url
  tcl_forgejo_token :: string
  tcl_pac_secret :: string
  tcl_namespace :: string
  tcl_kube_origin :: string
  tcl_redactions :: "string list"

definition service_account_path :: string where
  "service_account_path = ''/var/run/secrets/kubernetes.io/serviceaccount/''"

text \<open>
  \<open>getenv\<close> and \<open>files\<close> are the environment variables and the readable files; \<open>certificate_ok\<close> and
  \<open>http_built\<close> say whether \<open>reqwest\<close> takes the CA certificate and could build its clients.
\<close>

definition tekton_production ::
  "(string \<Rightarrow> string option) \<Rightarrow> (string \<Rightarrow> string option) \<Rightarrow> (string \<Rightarrow> bool) \<Rightarrow> (string \<Rightarrow> bool) \<Rightarrow> bool
     \<Rightarrow> tekton_config \<Rightarrow> string list \<Rightarrow> string + tekton_client" where
  "tekton_production getenv files url_ok certificate_ok http_built config redactions =
     and_then (ok_or (getenv ''KUBERNETES_SERVICE_HOST'') ''missing Kubernetes service host'') (\<lambda>host.
     let port = (case getenv ''KUBERNETES_SERVICE_PORT_HTTPS'' of None \<Rightarrow> ''443'' | Some p \<Rightarrow> p);
         host = (if CHR '':'' \<in> set host then ''['' @ host @ '']'' else host);
         kube_origin = ''https://'' @ host @ '':'' @ port @ ''/''
     in
     and_then (guard_or (url_ok kube_origin) ''invalid Kubernetes service origin'') (\<lambda>_.
     and_then (ok_or (files (service_account_path @ ''token'')) ''failed to read Kubernetes service token'') (\<lambda>tok.
     and_then (ok_or (files (service_account_path @ ''ca.crt'')) ''failed to read Kubernetes service CA'') (\<lambda>ca.
     and_then (guard_or (certificate_ok ca) ''invalid Kubernetes service CA'') (\<lambda>_.
     and_then (guard_or http_built ''failed to initialize Kubernetes client'') (\<lambda>_.
       let redactions = redactions @ [tc_forgejo_token config, tc_pac_incoming_secret config, trim tok];
           redactions = filter (\<lambda>value. value \<noteq> []) redactions;
           redactions = sort_key (\<lambda>value. - int (length value)) redactions;
           redactions = remdups_adj redactions
       in Inr \<lparr>tcl_forgejo_origin = tc_forgejo_origin config, tcl_forgejo_token = tc_forgejo_token config,
               tcl_pac_secret = tc_pac_incoming_secret config, tcl_namespace = tc_namespace config,
               tcl_kube_origin = kube_origin, tcl_redactions = redactions\<rparr>))))))"

section \<open>Requests\<close>

datatype operation_kind = OK_Read | OK_Mutation

definition tekton_max_response_bytes :: nat where
  "tekton_max_response_bytes = 4 * 1024 * 1024"

fun tekton_failure :: "operation_kind \<Rightarrow> tekton_error" where
  "tekton_failure OK_Read = TE_UpstreamUnavailable"
| "tekton_failure OK_Mutation = TE_MutationOutcomeUnknown"

fun tekton_unusable :: "operation_kind \<Rightarrow> tekton_error" where
  "tekton_unusable OK_Read = TE_InvalidResponse"
| "tekton_unusable OK_Mutation = TE_MutationOutcomeUnknown"

fun tekton_timed_out :: "operation_kind \<Rightarrow> tekton_error" where
  "tekton_timed_out OK_Read = TE_Timeout"
| "tekton_timed_out OK_Mutation = TE_MutationOutcomeUnknown"

definition response_bytes :: "operation_kind \<Rightarrow> nat \<Rightarrow> http_response \<Rightarrow> tekton_error + string" where
  "response_bytes kind limit response =
     (let status = hs_status response in
      if status = 401 \<or> status = 403 then Inl TE_Unauthorized
      else if status = 404 then Inl TE_NotFound
      else if \<not> status_success status then
        Inl (case kind of
               OK_Read \<Rightarrow> if status_client_error status then TE_QueryRejected else TE_UpstreamUnavailable
             | OK_Mutation \<Rightarrow> if status_client_error status then TE_MutationRejected
                 else TE_MutationOutcomeUnknown)
      else if (case hs_length response of None \<Rightarrow> False | Some n \<Rightarrow> limit < unat n)
      then Inl (tekton_unusable kind)
      else read_chunks limit (tekton_failure kind) (tekton_unusable kind) [] (hs_chunks response))"

fun bytes_outcome :: "operation_kind \<Rightarrow> nat \<Rightarrow> http_exchange \<Rightarrow> tekton_stop + string" where
  "bytes_outcome kind limit HX_Dropped = Inl TS_Dropped"
| "bytes_outcome kind limit HX_TimedOut = Inl (TS_Error (tekton_timed_out kind))"
| "bytes_outcome kind limit HX_Failed = Inl (TS_Error (tekton_failure kind))"
| "bytes_outcome kind limit (HX_Response response) =
     map_err TS_Error (response_bytes kind limit response)"

definition http_bytes ::
  "'s tekton_env \<Rightarrow> tekton_request \<Rightarrow> operation_kind \<Rightarrow> nat \<Rightarrow> ('s, string) tekton_io" where
  "http_bytes E request kind limit =
     io_bind (request_permit E) (\<lambda>_.
     io_bind (tekton_exchange E request) (\<lambda>x.
       io_lift (bytes_outcome kind limit x)))"

definition http_json :: "'s tekton_env \<Rightarrow> tekton_request \<Rightarrow> operation_kind \<Rightarrow> ('s, json) tekton_io" where
  "http_json E request kind =
     io_bind (http_bytes E request kind tekton_max_response_bytes) (\<lambda>b.
       tekton_lift (ok_or (lib_json E b) (tekton_unusable kind)))"

definition http_empty :: "'s tekton_env \<Rightarrow> tekton_request \<Rightarrow> operation_kind \<Rightarrow> ('s, unit) tekton_io" where
  "http_empty E request kind =
     io_bind (http_bytes E request kind tekton_max_response_bytes) (\<lambda>_. io_return ())"

definition token_value :: "string option option \<Rightarrow> tekton_stop + string" where
  "token_value r =
     (case r of
        None \<Rightarrow> Inl TS_Dropped
      | Some None \<Rightarrow> Inl (TS_Error TE_UpstreamUnavailable)
      | Some (Some value) \<Rightarrow>
          if trim value = [] then Inl (TS_Error TE_UpstreamUnavailable) else Inr (trim value))"

definition kube_token :: "'s tekton_env \<Rightarrow> ('s, string) tekton_io" where
  "kube_token E = (\<lambda>s.
     let (r, w) = tn_token_file E (ts_world s) in
     (token_value r, s\<lparr>ts_clock := ts_clock s + tn_elapsed E w, ts_world := w\<rparr>))"

definition kube_url :: "string \<Rightarrow> tekton_url" where
  "kube_url path = TU_Kube (dropWhile (\<lambda>c. c = CHR ''/'') path)"

definition kube_json ::
  "'s tekton_env \<Rightarrow> http_method \<Rightarrow> string \<Rightarrow> (string \<times> string) list \<Rightarrow> json option \<Rightarrow> operation_kind
     \<Rightarrow> ('s, json) tekton_io" where
  "kube_json E method path query body kind =
     io_bind (io_guard (tn_joins E (kube_url path)) (TS_Error (tekton_failure kind))) (\<lambda>_.
     io_bind (kube_token E) (\<lambda>tok.
       let request = \<lparr>tq_method = method, tq_url = kube_url path, tq_query = query, tq_body = body,
             tq_merge_patch = (body \<noteq> None), tq_bearer = Some tok\<rparr>
       in if method = M_Patch then io_bind (http_empty E request kind) (\<lambda>_. io_return (JObj []))
          else http_json E request kind))"

definition kube_text ::
  "'s tekton_env \<Rightarrow> string \<Rightarrow> (string \<times> string) list \<Rightarrow> nat \<Rightarrow> ('s, string \<times> string) tekton_io" where
  "kube_text E path query limit =
     io_bind (io_guard (tn_joins E (kube_url path)) (TS_Error TE_UpstreamUnavailable)) (\<lambda>_.
     io_bind (kube_token E) (\<lambda>tok.
     io_bind (http_bytes E \<lparr>tq_method = M_Get, tq_url = kube_url path, tq_query = query, tq_body = None,
         tq_merge_patch = False, tq_bearer = Some tok\<rparr> OK_Read limit) (\<lambda>b.
       io_return (b, tok))))"

definition forgejo_json ::
  "'s tekton_env \<Rightarrow> tekton_client \<Rightarrow> string list \<Rightarrow> (string \<times> string) list \<Rightarrow> ('s, json) tekton_io" where
  "forgejo_json E c segments query =
     io_bind (io_guard (tn_joins E (TU_Forgejo segments)) (TS_Error TE_InvalidArguments)) (\<lambda>_.
       http_json E \<lparr>tq_method = M_Get, tq_url = TU_Forgejo segments, tq_query = query, tq_body = None,
         tq_merge_patch = False, tq_bearer = Some (tcl_forgejo_token c)\<rparr> OK_Read)"

definition pac_body ::
  "tekton_client \<Rightarrow> repository \<Rightarrow> string \<Rightarrow> string \<Rightarrow> (string, string) btree \<Rightarrow> json" where
  "pac_body c r def_name reference params =
     JObj [(''repository'', JStr (tr_cr_name r)), (''namespace'', JStr (tcl_namespace c)),
           (''branch'', JStr reference), (''pipelinerun'', JStr def_name),
           (''secret'', JStr (tcl_pac_secret c)),
           (''params'', JObj (map (\<lambda>(k, v). (k, JStr v)) params))]"

definition send_pac ::
  "'s tekton_env \<Rightarrow> tekton_client \<Rightarrow> repository \<Rightarrow> string \<Rightarrow> string \<Rightarrow> (string, string) btree
     \<Rightarrow> ('s, unit) tekton_io" where
  "send_pac E c r def_name reference params =
     io_bind (io_guard (tn_joins E (TU_Pac ''incoming'')) (TS_Error TE_MutationRejected)) (\<lambda>_.
       http_empty E \<lparr>tq_method = M_Post, tq_url = TU_Pac ''incoming'', tq_query = [],
         tq_body = Some (pac_body c r def_name reference params), tq_merge_patch = False,
         tq_bearer = None\<rparr> OK_Mutation)"

section \<open>Listing\<close>

definition max_kube_list_items :: nat where
  "max_kube_list_items = 500"

definition max_kube_list_pages :: nat where
  "max_kube_list_pages = 10"

definition list_query :: "nat \<Rightarrow> string option \<Rightarrow> string option \<Rightarrow> (string \<times> string) list" where
  "list_query remaining selector' continuation =
     [(''limit'', show_nat (min remaining 100))]
     @ (case selector' of None \<Rightarrow> [] | Some x \<Rightarrow> [(''labelSelector'', x)])
     @ (case continuation of None \<Rightarrow> [] | Some x \<Rightarrow> [(''continue'', x)])"

text \<open>The loop, with the number of pages that may still be read.\<close>

fun kube_pages ::
  "'s tekton_env \<Rightarrow> string \<Rightarrow> string option \<Rightarrow> nat \<Rightarrow> json list \<Rightarrow> string option \<Rightarrow> string list
     \<Rightarrow> ('s, json list \<times> bool) tekton_io" where
  "kube_pages E path selector' 0 items continuation seen = io_return (items, True)"
| "kube_pages E path selector' (Suc pages) items continuation seen =
     (let remaining = max_kube_list_items - length items in
      if remaining = 0 then io_return (items, continuation \<noteq> None)
      else
        io_bind (kube_json E M_Get path (list_query remaining selector' continuation) None OK_Read) (\<lambda>wrapper.
        io_bind (tekton_lift (ok_or (array_at wrapper [''items'']) TE_InvalidResponse)) (\<lambda>page.
          let items = items @ take remaining page;
              continuation = opt_filter (\<lambda>value. value \<noteq> []) (str_at wrapper [''metadata'', ''continue''])
          in case continuation of
               None \<Rightarrow> io_return (items, False)
             | Some tok \<Rightarrow>
                 if tok \<in> set seen then tekton_fail TE_InvalidResponse
                 else kube_pages E path selector' pages items continuation (tok # seen))))"

definition kube_list ::
  "'s tekton_env \<Rightarrow> string \<Rightarrow> string option \<Rightarrow> ('s, json list \<times> bool) tekton_io" where
  "kube_list E path selector' = kube_pages E path selector' max_kube_list_pages [] None []"

end
