(* ===== verification/Tekton_Client.thy ===== *)
theory Tekton_Client
  imports Tekton_Api
begin

text \<open>
  The operations of the Tekton client (\<open>src/integrations/tekton/client.rs\<close>): the repository catalog,
  workflow discovery, owned runs and tasks, the queries with the wait and the logs, and the mutations.
\<close>

section \<open>Repositories and workflows\<close>

definition max_workflow_files :: nat where
  "max_workflow_files = 32"

definition max_workflow_file_bytes :: nat where
  "max_workflow_file_bytes = 256 * 1024"

definition max_workflow_total_bytes :: nat where
  "max_workflow_total_bytes = 4 * 1024 * 1024"

definition max_workflow_repositories :: nat where
  "max_workflow_repositories = 50"

definition collect_repositories ::
  "'x tekton_libs_scheme \<Rightarrow> located_url \<Rightarrow> json list \<times> bool \<Rightarrow> tekton_error + repository list" where
  "collect_repositories libs origin listing =
     (let (items, truncated) = listing in
      if truncated then Inl TE_InvalidResponse
      else
        let repositories = List.map_filter (\<lambda>item. parse_repository libs item origin) items in
        if \<not> distinct (map tr_id repositories) then Inl TE_InvalidResponse
        else Inr (sort_key tr_id repositories))"

definition repository_catalog :: "'s tekton_env \<Rightarrow> tekton_client \<Rightarrow> ('s, repository list) tekton_io" where
  "repository_catalog E c =
     io_bind (kube_list E (''/apis/pipelinesascode.tekton.dev/v1alpha1/namespaces/'' @ tcl_namespace c
         @ ''/repositories'') None) (\<lambda>listing.
       tekton_lift (collect_repositories E (tcl_forgejo_origin c) listing))"

definition select_repository :: "string \<Rightarrow> string \<Rightarrow> repository list \<Rightarrow> tekton_error + repository" where
  "select_repository namespace ident catalog =
     (case List.find (\<lambda>r. tr_id r = ident) catalog of
        Some r \<Rightarrow> Inr r
      | None \<Rightarrow>
          if list_ex (\<lambda>r. ident = namespace @ ''/'' @ tr_cr_name r) catalog
          then Inl TE_InvalidArguments else Inl TE_NotFound)"

definition find_repository :: "'s tekton_env \<Rightarrow> tekton_client \<Rightarrow> string \<Rightarrow> ('s, repository) tekton_io" where
  "find_repository E c ident =
     io_bind (repository_catalog E c) (\<lambda>catalog.
       tekton_lift (select_repository (tcl_namespace c) ident catalog))"

definition workflow_file :: "json \<Rightarrow> string option" where
  "workflow_file entry =
     (if str_at entry [''type''] \<noteq> Some ''file'' then None
      else opt_filter (\<lambda>path. starts_with path ''.tekton/'' \<and> length path \<le> 512
             \<and> (strip_suffix path ''.yaml'' \<noteq> None \<or> strip_suffix path ''.yml'' \<noteq> None))
           (str_at entry [''path'']))"

definition decode_content :: "'x tekton_libs_scheme \<Rightarrow> json \<Rightarrow> tekton_error + string" where
  "decode_content libs content =
     (if str_at content [''encoding''] \<noteq> Some ''base64'' then Inl TE_InvalidResponse
      else
        and_then (ok_or (str_at content [''content'']) TE_InvalidResponse) (\<lambda>encoded.
        and_then (ok_or (lib_base64 libs (str_replace encoded [newline] [])) TE_InvalidResponse) (\<lambda>b.
          if max_workflow_file_bytes < length b then Inl TE_InvalidResponse else Inr b)))"

fun read_workflow_files ::
  "'s tekton_env \<Rightarrow> tekton_client \<Rightarrow> repository \<Rightarrow> string \<Rightarrow> nat \<Rightarrow> string list
     \<Rightarrow> ('s, workflow list) tekton_io" where
  "read_workflow_files E c r revision used [] = io_return []"
| "read_workflow_files E c r revision used (entry # files) =
     io_bind (forgejo_json E c
         ([''api'', ''v1'', ''repos'', tr_owner r, tr_name r, ''contents''] @ split_char (CHR ''/'') entry)
         [(''ref'', revision)]) (\<lambda>content.
     io_bind (tekton_lift (decode_content E content)) (\<lambda>b.
     io_bind (io_guard (used + length b \<le> max_workflow_total_bytes) (TS_Error TE_InvalidResponse)) (\<lambda>_.
     io_bind (tekton_lift (parse_workflows E r revision entry b)) (\<lambda>found.
     io_bind (read_workflow_files E c r revision (used + length b) files) (\<lambda>rest.
       io_return (found @ rest))))))"

definition repository_workflows ::
  "'s tekton_env \<Rightarrow> tekton_client \<Rightarrow> repository \<Rightarrow> ('s, workflow list) tekton_io" where
  "repository_workflows E c r =
     io_bind (forgejo_json E c [''api'', ''v1'', ''repos'', tr_owner r, tr_name r] []) (\<lambda>metadata.
     io_bind (tekton_lift (ok_or (str_at metadata [''default_branch'']) TE_InvalidResponse)) (\<lambda>revision.
     io_bind (io_guard (bounded_text revision 512) (TS_Error TE_InvalidResponse)) (\<lambda>_.
     io_bind (forgejo_json E c
         [''api'', ''v1'', ''repos'', tr_owner r, tr_name r, ''contents'', ''.tekton''] [(''ref'', revision)]) (\<lambda>listing.
     io_bind (tekton_lift (ok_or (as_array listing) TE_InvalidResponse)) (\<lambda>entries.
       let files = List.map_filter workflow_file entries in
       io_bind (io_guard (length files \<le> max_workflow_files) (TS_Error TE_InvalidResponse)) (\<lambda>_.
         read_workflow_files E c r revision 0 files))))))"

definition triggerable_workflow ::
  "'s tekton_env \<Rightarrow> tekton_client \<Rightarrow> repository \<Rightarrow> string \<Rightarrow> ('s, workflow) tekton_io" where
  "triggerable_workflow E c r ident =
     io_bind (repository_workflows E c r) (\<lambda>workflows.
       tekton_lift (ok_or (List.find (\<lambda>w. tw_id w = ident \<and> tw_triggerable w) workflows) TE_MutationRejected))"

section \<open>Owned runs and tasks\<close>

definition runs_path :: "tekton_client \<Rightarrow> string" where
  "runs_path c = ''/apis/tekton.dev/v1/namespaces/'' @ tcl_namespace c @ ''/pipelineruns''"

definition tasks_path :: "tekton_client \<Rightarrow> string" where
  "tasks_path c = ''/apis/tekton.dev/v1/namespaces/'' @ tcl_namespace c @ ''/taskruns''"

definition pod_path :: "tekton_client \<Rightarrow> string \<Rightarrow> string" where
  "pod_path c pod = ''/api/v1/namespaces/'' @ tcl_namespace c @ ''/pods/'' @ pod"

definition owned_run ::
  "'s tekton_env \<Rightarrow> tekton_client \<Rightarrow> string \<Rightarrow> ('s, json \<times> repository) tekton_io" where
  "owned_run E c ident =
     io_bind (tekton_lift (namespaced_id ident (tcl_namespace c))) (\<lambda>(namespace, name).
     io_bind (kube_json E M_Get (runs_path c @ ''/'' @ name) [] None OK_Read) (\<lambda>run.
     io_bind (tekton_lift (ok_or (label_of run repository_label) TE_NotFound)) (\<lambda>cr_name.
     io_bind (repository_catalog E c) (\<lambda>catalog.
     io_bind (tekton_lift (ok_or (List.find (\<lambda>r. tr_cr_name r = cr_name) catalog) TE_NotFound)) (\<lambda>r.
       io_return (run, r))))))"

definition owned_run_matching ::
  "'s tekton_env \<Rightarrow> tekton_client \<Rightarrow> string \<Rightarrow> repository \<Rightarrow> ('s, json) tekton_io" where
  "owned_run_matching E c ident expected =
     io_bind (owned_run E c ident) (\<lambda>(run, r).
       if tr_cr_name r \<noteq> tr_cr_name expected \<or> tr_id r \<noteq> tr_id expected then tekton_fail TE_NotFound
       else io_return run)"

definition task_object :: "'s tekton_env \<Rightarrow> tekton_client \<Rightarrow> string \<Rightarrow> ('s, json) tekton_io" where
  "task_object E c ident =
     io_bind (tekton_lift (namespaced_id ident (tcl_namespace c))) (\<lambda>(namespace, name).
       kube_json E M_Get (tasks_path c @ ''/'' @ name) [] None OK_Read)"

definition verify_task_pod ::
  "'s tekton_env \<Rightarrow> tekton_client \<Rightarrow> json \<Rightarrow> string \<Rightarrow> ('s, unit) tekton_io" where
  "verify_task_pod E c task pod_name =
     io_bind (tekton_lift (ok_or (object_uid task) TE_NotFound)) (\<lambda>task_uid.
     io_bind (tekton_lift (ok_or (object_name task) TE_NotFound)) (\<lambda>task_name.
     io_bind (kube_json E M_Get (pod_path c pod_name) [] None OK_Read) (\<lambda>pod.
       io_guard (owned_by pod ''TaskRun'' task_name task_uid) (TS_Error TE_NotFound))))"

definition condition_message :: "tekton_client \<Rightarrow> json \<Rightarrow> string option \<times> bool" where
  "condition_message c item =
     (case Option.bind (condition_of item) (\<lambda>condition. str_at condition [''message'']) of
        None \<Rightarrow> (None, False)
      | Some message \<Rightarrow>
          let message = redact_all (tcl_redactions c) message;
              (message, truncated) = tekton_truncate_utf8 message max_condition_message_bytes
          in (Some message, truncated))"

section \<open>Queries\<close>

definition tekton_repositories :: "'s tekton_env \<Rightarrow> tekton_client \<Rightarrow> u16 \<Rightarrow> ('s, json) tekton_io" where
  "tekton_repositories E c limit =
     io_bind (repository_catalog E c) (\<lambda>repositories.
       let truncated = unat limit < length repositories in
       io_return (JObj [(''mode'', JStr ''list''), (''result_type'', JStr ''repositories''),
         (''result'', JArr (map repository_json (take (unat limit) repositories))),
         (''truncated'', JBool truncated)]))"

text \<open>A repository whose discovery fails is reported; a dropped one ends the whole operation.\<close>

fun discover_workflows ::
  "'s tekton_env \<Rightarrow> tekton_client \<Rightarrow> repository list \<Rightarrow> ('s, workflow list \<times> json list) tekton_io" where
  "discover_workflows E c [] = io_return ([], [])"
| "discover_workflows E c (r # rs) = (\<lambda>s.
     case repository_workflows E c r s of
       (Inl TS_Dropped, t) \<Rightarrow> (Inl TS_Dropped, t)
     | (Inl (TS_Error e), t) \<Rightarrow>
         io_bind (discover_workflows E c rs) (\<lambda>(workflows, failures).
           io_return (workflows,
             JObj [(''repository'', JStr (tr_id r)), (''code'', JStr ''discovery_failed'')] # failures)) t
     | (Inr found, t) \<Rightarrow>
         io_bind (discover_workflows E c rs) (\<lambda>(workflows, failures).
           io_return (found @ workflows, failures)) t)"

definition workflows_inner :: "'s tekton_env \<Rightarrow> tekton_client \<Rightarrow> workflow_list_query \<Rightarrow> ('s, json) tekton_io" where
  "workflows_inner E c q =
     io_bind (repository_catalog E c) (\<lambda>catalog.
       let repositories = (case wl_repository q of
             None \<Rightarrow> catalog | Some ident \<Rightarrow> filter (\<lambda>r. tr_id r = ident) catalog)
       in if wl_repository q \<noteq> None \<and> repositories = [] then tekton_fail TE_NotFound
          else
            let repository_truncated = max_workflow_repositories < length repositories in
            io_bind (discover_workflows E c (take max_workflow_repositories repositories)) (\<lambda>(workflows, failures).
              let workflows = sort_key tw_id workflows;
                  result_truncated = unat (wl_limit q) < length workflows;
                  workflows = take (unat (wl_limit q)) workflows
              in io_return (JObj [(''mode'', JStr ''list''), (''result_type'', JStr ''workflows''),
                   (''result'', JArr (map workflow_json workflows)), (''partial_failures'', JArr failures),
                   (''truncated'', JBool (repository_truncated \<or> result_truncated))])))"

text \<open>\<open>tokio::time::timeout\<close> around an operation: dropped by it, the operation failed with \<open>Timeout\<close>.\<close>

definition tekton_timeout :: "('s, 'a) tekton_io \<Rightarrow> ('s, 'a) tekton_io" where
  "tekton_timeout m = (\<lambda>s. case m s of
     (Inl TS_Dropped, t) \<Rightarrow> (Inl (TS_Error TE_Timeout), t)
   | (r, t) \<Rightarrow> (r, t))"

definition tekton_workflows :: "'s tekton_env \<Rightarrow> tekton_client \<Rightarrow> workflow_list_query \<Rightarrow> ('s, json) tekton_io" where
  "tekton_workflows E c q = tekton_timeout (workflows_inner E c q)"

definition run_selected :: "run_list_query \<Rightarrow> json \<Rightarrow> bool" where
  "run_selected q run \<longleftrightarrow>
     (case rl_workflow q of None \<Rightarrow> True | Some v \<Rightarrow> str_at run [''workflow''] = Some v)
     \<and> (case rl_branch q of None \<Rightarrow> True | Some v \<Rightarrow> branch_matches (str_at run [''branch'']) v)
     \<and> (case rl_revision q of None \<Rightarrow> True | Some v \<Rightarrow> str_at run [''revision''] = Some v)
     \<and> (case rl_status q of None \<Rightarrow> True | Some v \<Rightarrow> str_at run [''status''] = Some v)"

definition list_runs :: "tekton_client \<Rightarrow> run_list_query \<Rightarrow> repository \<Rightarrow> json list \<times> bool \<Rightarrow> json" where
  "list_runs c q r listing =
     (let (items, source_truncated) = listing;
          runs = filter (run_selected q) (List.map_filter (\<lambda>item. normalize_run item (tcl_namespace c) r) items);
          runs = sort_newest runs;
          result_truncated = unat (rl_limit q) < length runs;
          runs = take (unat (rl_limit q)) runs
      in JObj [(''mode'', JStr ''list''), (''result_type'', JStr ''runs''), (''result'', JArr runs),
           (''source_truncated'', JBool source_truncated), (''result_truncated'', JBool result_truncated),
           (''truncated'', JBool (source_truncated \<or> result_truncated))])"

definition tekton_runs :: "'s tekton_env \<Rightarrow> tekton_client \<Rightarrow> run_list_query \<Rightarrow> ('s, json) tekton_io" where
  "tekton_runs E c q =
     io_bind (find_repository E c (rl_repository q)) (\<lambda>r.
     io_bind (kube_list E (runs_path c) (Some (repository_label @ ''='' @ tr_cr_name r))) (\<lambda>listing.
       io_return (list_runs c q r listing)))"

definition tekton_run :: "'s tekton_env \<Rightarrow> tekton_client \<Rightarrow> string \<Rightarrow> ('s, json) tekton_io" where
  "tekton_run E c run_id =
     io_bind (owned_run E c run_id) (\<lambda>(run, r).
     io_bind (tekton_lift (ok_or (normalize_run run (tcl_namespace c) r) TE_InvalidResponse)) (\<lambda>normalized.
       io_return (JObj [(''mode'', JStr ''get''), (''result_type'', JStr ''run''), (''result'', normalized)])))"

definition max_failed_tasks :: nat where
  "max_failed_tasks = 20"

definition with_condition_message :: "tekton_client \<Rightarrow> json \<Rightarrow> json \<Rightarrow> json" where
  "with_condition_message c item value =
     (let (message, message_truncated) = condition_message c item in
      json_set (json_set value ''condition_message'' (json_option JStr message))
        ''condition_message_truncated'' (JBool message_truncated))"

definition failed_task :: "tekton_client \<Rightarrow> string \<Rightarrow> json \<Rightarrow> json option" where
  "failed_task c run_name item =
     map_option (\<lambda>task. json_set (with_condition_message c item task) ''steps_truncated''
         (JBool (32 < length (opt_elems (array_at item [''status'', ''steps''])))))
       (normalize_task item (tcl_namespace c) run_name)"

text \<open>The task runs that belong to a run: by label, and by the owner reference with the run's UID.\<close>

definition task_of_run :: "string \<Rightarrow> string \<Rightarrow> string \<Rightarrow> json \<Rightarrow> bool" where
  "task_of_run cr_name run_name run_uid item \<longleftrightarrow>
     label_of item repository_label = Some cr_name \<and> owned_by item ''PipelineRun'' run_name run_uid"

definition status_result ::
  "tekton_client \<Rightarrow> json \<Rightarrow> string \<Rightarrow> string \<Rightarrow> string \<Rightarrow> json list \<times> bool \<Rightarrow> json" where
  "status_result c normalized cr_name run_name run_uid listing =
     (let (items, source_truncated) = listing;
          failed_tasks = List.map_filter (failed_task c run_name)
            (filter (\<lambda>item. run_status item = ''failed'') (filter (task_of_run cr_name run_name run_uid) items));
          failed_tasks = sort_newest failed_tasks;
          result_truncated = max_failed_tasks < length failed_tasks;
          failed_tasks = take max_failed_tasks failed_tasks
      in JObj [(''mode'', JStr ''status''), (''result_type'', JStr ''run_status''), (''result'', normalized),
           (''failed_tasks'', JArr failed_tasks), (''failed_task_limit'', json_nat max_failed_tasks),
           (''source_truncated'', JBool source_truncated), (''result_truncated'', JBool result_truncated),
           (''truncated'', JBool (source_truncated \<or> result_truncated))])"

definition tekton_status :: "'s tekton_env \<Rightarrow> tekton_client \<Rightarrow> string \<Rightarrow> ('s, json) tekton_io" where
  "tekton_status E c run_id =
     io_bind (owned_run E c run_id) (\<lambda>(run, r).
     io_bind (tekton_lift (ok_or (normalize_run run (tcl_namespace c) r) TE_InvalidResponse)) (\<lambda>normalized.
       let normalized = with_condition_message c run normalized in
       io_bind (tekton_lift (ok_or (object_name run) TE_InvalidResponse)) (\<lambda>run_name.
       io_bind (tekton_lift (ok_or (object_uid run) TE_InvalidResponse)) (\<lambda>run_uid.
       io_bind (tekton_lift (ok_or (label_of run repository_label) TE_NotFound)) (\<lambda>cr_name.
       io_bind (kube_list E (tasks_path c) (Some (pipeline_run_label @ ''='' @ run_name))) (\<lambda>listing.
         io_return (status_result c normalized cr_name run_name run_uid listing)))))))"

definition tasks_result ::
  "tekton_client \<Rightarrow> u16 \<Rightarrow> string \<Rightarrow> string \<Rightarrow> string \<Rightarrow> json list \<times> bool \<Rightarrow> json" where
  "tasks_result c limit cr_name run_name run_uid listing =
     (let (items, source_truncated) = listing;
          tasks = List.map_filter (\<lambda>item. normalize_task item (tcl_namespace c) run_name)
            (filter (task_of_run cr_name run_name run_uid) items);
          tasks = sort_newest tasks;
          result_truncated = unat limit < length tasks;
          tasks = take (unat limit) tasks
      in JObj [(''mode'', JStr ''list''), (''result_type'', JStr ''tasks''), (''result'', JArr tasks),
           (''truncated'', JBool (source_truncated \<or> result_truncated))])"

definition tekton_tasks :: "'s tekton_env \<Rightarrow> tekton_client \<Rightarrow> task_list_query \<Rightarrow> ('s, json) tekton_io" where
  "tekton_tasks E c q =
     io_bind (owned_run E c (tl_run_id q)) (\<lambda>(run, r).
     io_bind (tekton_lift (ok_or (object_name run) TE_InvalidResponse)) (\<lambda>run_name.
     io_bind (tekton_lift (ok_or (object_uid run) TE_InvalidResponse)) (\<lambda>run_uid.
     io_bind (tekton_lift (ok_or (label_of run repository_label) TE_NotFound)) (\<lambda>cr_name.
     io_bind (kube_list E (tasks_path c) (Some (pipeline_run_label @ ''='' @ run_name))) (\<lambda>listing.
       io_return (tasks_result c (tl_limit q) cr_name run_name run_uid listing))))))"

section \<open>Task logs\<close>

definition max_log_steps :: nat where
  "max_log_steps = 8"

definition redact_log :: "tekton_client \<Rightarrow> string \<Rightarrow> string \<Rightarrow> string" where
  "redact_log c tok text =
     str_replace (redact_all (tcl_redactions c) text) tok redaction_mark"

record step_log =
  sl_step :: string
  sl_text :: string
  sl_tail_truncated :: bool
  sl_byte_truncated :: bool

definition step_log_json :: "step_log \<Rightarrow> json" where
  "step_log_json l =
     JObj [(''step'', JStr (sl_step l)), (''text'', JStr (sl_text l)),
           (''tail_truncated'', JBool (sl_tail_truncated l)), (''byte_truncated'', JBool (sl_byte_truncated l))]"

definition step_log_of :: "tekton_client \<Rightarrow> u16 \<Rightarrow> string \<Rightarrow> nat \<Rightarrow> string \<times> string \<Rightarrow> step_log" where
  "step_log_of c tail_lines name requested answer =
     (let (b, tok) = answer;
          byte_truncated = requested \<le> length b;
          text = redact_log c tok (from_utf8_lossy b);
          (text, redaction_truncated) = tekton_truncate_utf8 text requested
      in \<lparr>sl_step = name, sl_text = text, sl_tail_truncated = unat tail_lines \<le> length (str_lines text),
          sl_byte_truncated = byte_truncated \<or> redaction_truncated\<rparr>)"

text \<open>The steps in order, with the bytes that are left; it stops when none are.\<close>

fun read_step_logs ::
  "'s tekton_env \<Rightarrow> tekton_client \<Rightarrow> string \<Rightarrow> u16 \<Rightarrow> nat \<Rightarrow> (string \<times> string) list
     \<Rightarrow> ('s, step_log list \<times> nat) tekton_io" where
  "read_step_logs E c pod tail_lines remaining [] = io_return ([], remaining)"
| "read_step_logs E c pod tail_lines remaining ((name, container) # steps) =
     (if remaining = 0 then io_return ([], remaining)
      else
        io_bind (kube_text E (pod_path c pod @ ''/log'')
            [(''container'', container), (''tailLines'', show_nat (unat tail_lines)),
             (''limitBytes'', show_nat remaining)] remaining) (\<lambda>answer.
          let l = step_log_of c tail_lines name remaining answer in
          io_bind (read_step_logs E c pod tail_lines (remaining - length (sl_text l)) steps) (\<lambda>(rest, left).
            io_return (l # rest, left))))"

definition selected_steps :: "string option \<Rightarrow> json list \<Rightarrow> (string \<times> string) list" where
  "selected_steps step available =
     filter (\<lambda>(name, container). case step of None \<Rightarrow> True | Some selected \<Rightarrow> selected = name)
       (List.map_filter (\<lambda>step. Option.bind (str_at step [''name'']) (\<lambda>name.
          map_option (\<lambda>container. (name, container)) (str_at step [''container'']))) available)"

definition logs_result :: "task_logs_query \<Rightarrow> bool \<Rightarrow> step_log list \<times> nat \<Rightarrow> json" where
  "logs_result q steps_omitted answer =
     (let (results, remaining) = answer in
      JObj [(''mode'', JStr ''logs''), (''result_type'', JStr ''task_logs''), (''run_id'', JStr (lq_run_id q)),
        (''task_id'', JStr (lq_task_id q)), (''tail_lines'', json_nat (unat (lq_tail_lines q))),
        (''max_bytes'', json_u32 (lq_max_bytes q)), (''result'', JArr (map step_log_json results)),
        (''truncated'', JBool (steps_omitted \<or> remaining = 0
            \<or> list_ex (\<lambda>l. sl_tail_truncated l \<or> sl_byte_truncated l) results)),
        (''steps_omitted'', JBool steps_omitted)])"

definition tekton_logs :: "'s tekton_env \<Rightarrow> tekton_client \<Rightarrow> task_logs_query \<Rightarrow> ('s, json) tekton_io" where
  "tekton_logs E c q =
     io_bind (owned_run E c (lq_run_id q)) (\<lambda>(run, r).
     io_bind (tekton_lift (ok_or (object_name run) TE_InvalidResponse)) (\<lambda>run_name.
     io_bind (tekton_lift (ok_or (object_uid run) TE_InvalidResponse)) (\<lambda>run_uid.
     io_bind (tekton_lift (ok_or (label_of run repository_label) TE_NotFound)) (\<lambda>cr_name.
     io_bind (task_object E c (lq_task_id q)) (\<lambda>task.
     io_bind (io_guard (label_of task pipeline_run_label = Some run_name
         \<and> task_of_run cr_name run_name run_uid task) (TS_Error TE_NotFound)) (\<lambda>_.
     io_bind (tekton_lift (ok_or (str_at task [''status'', ''podName'']) TE_NotFound)) (\<lambda>pod.
     io_bind (verify_task_pod E c task pod) (\<lambda>_.
     io_bind (tekton_lift (ok_or (array_at task [''status'', ''steps'']) TE_InvalidResponse)) (\<lambda>available.
       let selected = selected_steps (lq_step q) available;
           steps_omitted = max_log_steps < length selected;
           steps = take max_log_steps selected
       in if steps = [] then tekton_fail TE_NotFound
          else
            io_bind (read_step_logs E c pod (lq_tail_lines q) (unat (lq_max_bytes q)) steps) (\<lambda>answer.
              io_return (logs_result q steps_omitted answer)))))))))))"

section \<open>Waiting for a run\<close>

definition wait_poll_interval :: nat where
  "wait_poll_interval = 2000"

definition wait_timeout_unit :: nat where
  "wait_timeout_unit = 1000"

text \<open>
  The biased \<open>select!\<close> between the deadline and the poll interval: it wakes at the earlier of the two,
  or later, and the deadline wins if it has passed by then.
\<close>

definition wait_sleep :: "'s tekton_env \<Rightarrow> nat \<Rightarrow> 's tekton_sys \<Rightarrow> 's tekton_sys" where
  "wait_sleep E deadline s =
     s\<lparr>ts_clock := max (ts_clock s) (min deadline (ts_clock s + wait_poll_interval)) + tn_elapsed E (ts_world s)\<rparr>"

text \<open>
  What every operation does to clock and trace: the clock does not go back and exchanges are only
  added.  The read-only operations add only requests that change nothing.
\<close>

definition changes_upstream :: "tekton_request \<Rightarrow> bool" where
  "changes_upstream q \<longleftrightarrow> tq_method q \<noteq> M_Get"

definition advances :: "'s tekton_sys \<Rightarrow> 's tekton_sys \<Rightarrow> bool" where
  "advances s s' \<longleftrightarrow> ts_clock s \<le> ts_clock s' \<and> (\<exists>tr. ts_trace s' = ts_trace s @ tr)"

definition reads_only :: "'s tekton_sys \<Rightarrow> 's tekton_sys \<Rightarrow> bool" where
  "reads_only s s' \<longleftrightarrow> ts_clock s \<le> ts_clock s'
     \<and> (\<exists>tr. ts_trace s' = ts_trace s @ tr \<and> list_all (\<lambda>(q, x). \<not> changes_upstream q) tr)"

lemma reads_only_refl: "reads_only s s"
  by (simp add: reads_only_def)

lemma reads_only_trans:
  assumes "reads_only s t" "reads_only t u"
  shows "reads_only s u"
proof -
  from assms obtain a b where "ts_trace t = ts_trace s @ a" "ts_trace u = ts_trace t @ b"
    "list_all (\<lambda>(q, x). \<not> changes_upstream q) a" "list_all (\<lambda>(q, x). \<not> changes_upstream q) b"
    "ts_clock s \<le> ts_clock t" "ts_clock t \<le> ts_clock u"
    by (auto simp: reads_only_def)
  then show ?thesis by (auto simp: reads_only_def intro!: exI [of _ "a @ b"])
qed

interpretation tk: step_preorder reads_only
  by unfold_locales (fact reads_only_refl, fact reads_only_trans)

lemma reads_only_advances: "reads_only s s' \<Longrightarrow> advances s s'"
  by (auto simp: reads_only_def advances_def)

lemma tekton_lift_reads: "io_rel reads_only (tekton_lift r)"
  by (simp add: tekton_lift_def tk.rel_lift)

lemma tekton_fail_reads: "io_rel reads_only (tekton_fail e)"
  by (simp add: tekton_fail_def tk.rel_throw)

lemma request_permit_reads: "io_rel reads_only (request_permit E)"
  by (auto simp: io_rel_def request_permit_def reads_only_def split: prod.splits)

lemma waiter_permit_reads: "io_rel reads_only (waiter_permit E)"
  by (auto simp: io_rel_def waiter_permit_def reads_only_def split: prod.splits)

lemma kube_token_reads: "io_rel reads_only (kube_token E)"
  by (auto simp: io_rel_def kube_token_def reads_only_def split: prod.splits)

lemma tekton_exchange_reads: "\<not> changes_upstream q \<Longrightarrow> io_rel reads_only (tekton_exchange E q)"
  by (auto simp: io_rel_def tekton_exchange_def reads_only_def split: prod.splits)

lemma rel_case_prod: "(\<And>a b. v = (a, b) \<Longrightarrow> io_rel R (f a b)) \<Longrightarrow> io_rel R (case v of (a, b) \<Rightarrow> f a b)"
  by (simp split: prod.splits)

lemmas tekton_rules = tk.step_rules rel_case_prod tekton_lift_reads tekton_fail_reads
  request_permit_reads waiter_permit_reads kube_token_reads

lemma http_bytes_reads: "\<not> changes_upstream q \<Longrightarrow> io_rel reads_only (http_bytes E q kind limit)"
  unfolding http_bytes_def by (intro tekton_rules tekton_exchange_reads)

lemma http_json_reads: "\<not> changes_upstream q \<Longrightarrow> io_rel reads_only (http_json E q kind)"
  unfolding http_json_def by (intro tekton_rules http_bytes_reads)

lemma kube_get_reads: "io_rel reads_only (kube_json E M_Get path query body kind)"
  unfolding kube_json_def Let_def
  by (intro tekton_rules http_json_reads) (simp_all add: changes_upstream_def)

lemma kube_text_reads: "io_rel reads_only (kube_text E path query limit)"
  unfolding kube_text_def by (intro tekton_rules http_bytes_reads) (simp add: changes_upstream_def)

lemma forgejo_json_reads: "io_rel reads_only (forgejo_json E c segments query)"
  unfolding forgejo_json_def by (intro tekton_rules http_json_reads) (simp add: changes_upstream_def)

lemma kube_pages_reads: "io_rel reads_only (kube_pages E path sel pages items continuation seen)"
  by (induction pages arbitrary: items continuation seen)
    (unfold kube_pages.simps Let_def, intro tekton_rules, intro tekton_rules kube_get_reads)

lemma kube_list_reads: "io_rel reads_only (kube_list E path sel)"
  unfolding kube_list_def by (rule kube_pages_reads)

lemma repository_catalog_reads: "io_rel reads_only (repository_catalog E c)"
  unfolding repository_catalog_def by (intro tekton_rules kube_list_reads)

lemma find_repository_reads: "io_rel reads_only (find_repository E c ident)"
  unfolding find_repository_def by (intro tekton_rules repository_catalog_reads)

lemma read_workflow_files_reads: "io_rel reads_only (read_workflow_files E c r revision used files)"
  by (induction files arbitrary: used)
    (unfold read_workflow_files.simps, intro tekton_rules, intro tekton_rules forgejo_json_reads)

lemma repository_workflows_reads: "io_rel reads_only (repository_workflows E c r)"
  unfolding repository_workflows_def Let_def
  by (intro tekton_rules forgejo_json_reads read_workflow_files_reads)

lemma triggerable_workflow_reads: "io_rel reads_only (triggerable_workflow E c r ident)"
  unfolding triggerable_workflow_def by (intro tekton_rules repository_workflows_reads)

lemma owned_run_reads: "io_rel reads_only (owned_run E c ident)"
  unfolding owned_run_def by (intro tekton_rules kube_get_reads repository_catalog_reads)

lemma owned_run_matching_reads: "io_rel reads_only (owned_run_matching E c ident r)"
  unfolding owned_run_matching_def by (intro tekton_rules owned_run_reads)

lemma task_object_reads: "io_rel reads_only (task_object E c ident)"
  unfolding task_object_def by (intro tekton_rules kube_get_reads)

lemma verify_task_pod_reads: "io_rel reads_only (verify_task_pod E c task pod)"
  unfolding verify_task_pod_def by (intro tekton_rules kube_get_reads)

lemma read_step_logs_reads: "io_rel reads_only (read_step_logs E c pod tail_lines remaining steps)"
  by (induction steps arbitrary: remaining)
    (auto intro!: tekton_rules kube_text_reads simp: Let_def)

lemma tekton_timeout_reads: "io_rel reads_only m \<Longrightarrow> io_rel reads_only (tekton_timeout m)"
  unfolding io_rel_def tekton_timeout_def by (auto split: prod.splits sum.splits tekton_stop.splits)

text \<open>The polling loop: \<open>None\<close> when the deadline ended it.\<close>

function (sequential) poll_run ::
  "'s tekton_env \<Rightarrow> tekton_client \<Rightarrow> string \<Rightarrow> repository \<Rightarrow> nat \<Rightarrow> ('s, json option) tekton_io" where
  "poll_run E c run_id r deadline s =
     (let s1 = wait_sleep E deadline s in
      if deadline \<le> ts_clock s1 then (Inr None, s1)
      else
        (case owned_run_matching E c run_id r s1 of
           (Inl TS_Dropped, s2) \<Rightarrow> (Inr None, s2)
         | (Inl (TS_Error e), s2) \<Rightarrow> (Inl (TS_Error e), s2)
         | (Inr run, s2) \<Rightarrow>
             (case normalize_run run (tcl_namespace c) r of
                None \<Rightarrow> (Inl (TS_Error TE_InvalidResponse), s2)
              | Some normalized \<Rightarrow>
                  if terminal_status normalized then (Inr (Some normalized), s2)
                  else poll_run E c run_id r deadline s2)))"
  by pat_completeness auto
termination
proof (relation "measure (\<lambda>(E, c, run_id, r, deadline, s). deadline - ts_clock s)", goal_cases)
  case (2 E c run_id r deadline s s1 x s2 run normalized)
  then have "owned_run_matching E c run_id r s1 = (Inr run, s2)" by simp
  from io_relD [OF owned_run_matching_reads this] have "ts_clock s1 \<le> ts_clock s2"
    by (simp add: reads_only_def)
  moreover have "ts_clock s < ts_clock s1" "ts_clock s1 < deadline"
    using 2 by (auto simp: wait_sleep_def wait_poll_interval_def)
  ultimately show ?case by auto
qed auto

definition final_read ::
  "'s tekton_env \<Rightarrow> tekton_client \<Rightarrow> string \<Rightarrow> repository \<Rightarrow> ('s, json) tekton_io" where
  "final_read E c run_id r =
     io_bind (tekton_timeout (owned_run_matching E c run_id r)) (\<lambda>run.
     io_bind (tekton_lift (ok_or (normalize_run run (tcl_namespace c) r) TE_InvalidResponse)) (\<lambda>normalized.
       io_return (wait_json normalized True)))"

definition wait_until ::
  "'s tekton_env \<Rightarrow> tekton_client \<Rightarrow> string \<Rightarrow> nat \<Rightarrow> ('s, json) tekton_io" where
  "wait_until E c run_id deadline =
     io_bind (tekton_timeout (owned_run E c run_id)) (\<lambda>(run, r).
     io_bind (tekton_lift (ok_or (normalize_run run (tcl_namespace c) r) TE_InvalidResponse)) (\<lambda>normalized.
       if terminal_status normalized then io_return (wait_json normalized False)
       else
         io_bind (poll_run E c run_id r deadline) (\<lambda>finished.
           case finished of
             Some normalized \<Rightarrow> io_return (wait_json normalized False)
           | None \<Rightarrow> final_read E c run_id r)))"

definition tekton_wait :: "'s tekton_env \<Rightarrow> tekton_client \<Rightarrow> run_wait_query \<Rightarrow> ('s, json) tekton_io" where
  "tekton_wait E c q =
     io_bind (waiter_permit E) (\<lambda>_. \<lambda>s.
       wait_until E c (rw_run_id q) (ts_clock s + wait_timeout_unit * unat (rw_timeout_seconds q)) s)"

section \<open>Mutations\<close>

definition tekton_dispatch ::
  "'s tekton_env \<Rightarrow> tekton_client \<Rightarrow> workflow_dispatch_command \<Rightarrow> ('s, json) tekton_io" where
  "tekton_dispatch E c command =
     io_bind (find_repository E c (wd_repository command)) (\<lambda>r.
     io_bind (triggerable_workflow E c r (wd_workflow command)) (\<lambda>w.
     io_bind (send_pac E c r (tw_definition w) (wd_reference command) (wd_params command)) (\<lambda>_.
       io_return (JObj [(''status'', JStr ''accepted''), (''repository'', JStr (tr_id r)),
         (''workflow'', JStr (tw_id w)), (''ref'', JStr (wd_reference command))]))))"

definition rerun_reference :: "json \<Rightarrow> tekton_error + string" where
  "rerun_reference run =
     and_then (ok_or (run_branch run) TE_MutationRejected) (\<lambda>reference.
       let reference = (case strip_prefix reference ''refs/heads/'' of None \<Rightarrow> reference | Some b \<Rightarrow> b) in
       if bounded_text reference 512 then Inr reference else Inl TE_MutationRejected)"

definition tekton_rerun :: "'s tekton_env \<Rightarrow> tekton_client \<Rightarrow> string \<Rightarrow> ('s, json) tekton_io" where
  "tekton_rerun E c run_id =
     io_bind (owned_run E c run_id) (\<lambda>(run, r).
     io_bind (tekton_lift (ok_or (label_of run repository_label) TE_NotFound)) (\<lambda>cr_name.
     io_bind (io_guard (tr_cr_name r = cr_name) (TS_Error TE_NotFound)) (\<lambda>_.
     io_bind (tekton_lift (ok_or (workflow_name run) TE_MutationRejected)) (\<lambda>def_name.
     io_bind (repository_workflows E c r) (\<lambda>workflows.
     io_bind (tekton_lift (ok_or (List.find (\<lambda>w. tw_definition w = def_name \<and> tw_triggerable w) workflows)
         TE_MutationRejected)) (\<lambda>w.
     io_bind (tekton_lift (rerun_reference run)) (\<lambda>reference.
     io_bind (send_pac E c r (tw_definition w) reference []) (\<lambda>_.
       io_return (JObj [(''status'', JStr ''accepted''), (''source_run_id'', JStr run_id),
         (''repository'', JStr (tr_id r)), (''workflow'', JStr (tw_id w))])))))))))"

definition tekton_cancel :: "'s tekton_env \<Rightarrow> tekton_client \<Rightarrow> string \<Rightarrow> ('s, json) tekton_io" where
  "tekton_cancel E c run_id =
     io_bind (owned_run E c run_id) (\<lambda>(run, r).
     io_bind (io_guard (run_status run = ''running'') (TS_Error TE_MutationRejected)) (\<lambda>_.
     io_bind (tekton_lift (ok_or (str_at run [''metadata'', ''resourceVersion'']) TE_MutationRejected)) (\<lambda>version.
     io_bind (tekton_lift (namespaced_id run_id (tcl_namespace c))) (\<lambda>(namespace, name).
     io_bind (kube_json E M_Patch (runs_path c @ ''/'' @ name) [] (Some (cancel_patch version)) OK_Mutation) (\<lambda>_.
       io_return (JObj [(''status'', JStr ''cancellation_requested''), (''run_id'', JStr run_id)]))))))"

end
