(* ===== verification/Tekton_Laws.thy ===== *)
theory Tekton_Laws
  imports Tekton_Client
begin

text \<open>
  What the operations of the Tekton client guarantee: a mutation sends one change and says truthfully
  what became of it, a dispatch triggers the workflow that was named, lists and logs are bounded,
  waiting ends, and the repository catalog is canonical.
\<close>

section \<open>One change per mutation\<close>

datatype tekton_mutation =
    TM_Dispatch workflow_dispatch_command
  | TM_Rerun string
  | TM_Cancel string

fun tekton_mutate :: "'s tekton_env \<Rightarrow> tekton_client \<Rightarrow> tekton_mutation \<Rightarrow> ('s, json) tekton_io" where
  "tekton_mutate E c (TM_Dispatch command) = tekton_dispatch E c command"
| "tekton_mutate E c (TM_Rerun run_id) = tekton_rerun E c run_id"
| "tekton_mutate E c (TM_Cancel run_id) = tekton_cancel E c run_id"

text \<open>What a caller may conclude from the answer to the one change that was sent.\<close>

fun change_verdict :: "http_exchange \<Rightarrow> tekton_stop + 'a \<Rightarrow> bool" where
  "change_verdict HX_Dropped r \<longleftrightarrow> r = Inl TS_Dropped"
| "change_verdict HX_TimedOut r \<longleftrightarrow> r = Inl (TS_Error TE_MutationOutcomeUnknown)"
| "change_verdict HX_Failed r \<longleftrightarrow> r = Inl (TS_Error TE_MutationOutcomeUnknown)"
| "change_verdict (HX_Response response) r \<longleftrightarrow>
     (case r of
        Inr v \<Rightarrow> status_success (hs_status response)
      | Inl e \<Rightarrow>
          (e = TS_Error TE_Unauthorized \<and> hs_status response \<in> {401, 403})
          \<or> (e = TS_Error TE_NotFound \<and> hs_status response = 404)
          \<or> (e = TS_Error TE_MutationRejected \<and> status_client_error (hs_status response))
          \<or> (e = TS_Error TE_MutationOutcomeUnknown \<and> \<not> status_client_error (hs_status response)))"

definition sent_change ::
  "(tekton_request \<Rightarrow> bool) \<Rightarrow> tekton_stop + 'a \<Rightarrow> 's tekton_sys \<Rightarrow> 's tekton_sys \<Rightarrow> bool" where
  "sent_change Q r s s' \<longleftrightarrow>
     (\<exists>tr q x. ts_trace s' = ts_trace s @ tr @ [(q, x)] \<and> list_all (\<lambda>(q, x). \<not> changes_upstream q) tr
        \<and> changes_upstream q \<and> Q q \<and> change_verdict x r)"

definition one_change :: "(tekton_request \<Rightarrow> bool) \<Rightarrow> ('s, 'a) tekton_io \<Rightarrow> bool" where
  "one_change Q m \<longleftrightarrow>
     (\<forall>s r s'. m s = (r, s') \<longrightarrow> (\<exists>e. r = Inl e \<and> reads_only s s') \<or> sent_change Q r s s')"

lemma sent_change_after_reads: "reads_only s t \<Longrightarrow> sent_change Q r t u \<Longrightarrow> sent_change Q r s u"
  unfolding reads_only_def sent_change_def by fastforce

lemma one_change_bind:
  assumes "io_rel reads_only m" "\<And>a. one_change Q (f a)"
  shows "one_change Q (io_bind m f)"
  unfolding one_change_def
proof (intro allI impI)
  fix s r s'
  assume "io_bind m f s = (r, s')"
  then consider e where "m s = (Inl e, s')" "r = Inl e" | a t where "m s = (Inr a, t)" "f a t = (r, s')"
    by (auto simp: io_bind_def split: prod.splits sum.splits)
  then show "(\<exists>e. r = Inl e \<and> reads_only s s') \<or> sent_change Q r s s'"
  proof cases
    case 1
    then show ?thesis using io_relD [OF assms(1)] by blast
  next
    case (2 a t)
    then have "reads_only s t" using io_relD [OF assms(1)] by blast
    moreover have "(\<exists>e. r = Inl e \<and> reads_only t s') \<or> sent_change Q r t s'"
      using assms(2) 2 unfolding one_change_def by blast
    ultimately show ?thesis using sent_change_after_reads reads_only_trans by blast
  qed
qed

lemma one_change_then_return:
  assumes "one_change Q m"
  shows "one_change Q (io_bind m (\<lambda>a. io_return (f a)))"
proof -
  have verdict: "change_verdict x r \<Longrightarrow> change_verdict x (map_sum (\<lambda>e. e) f r)" for x and r :: "tekton_stop + 'b"
    by (cases x; cases r) auto
  show ?thesis
    unfolding one_change_def
  proof (intro allI impI)
    fix s r s'
    assume "io_bind m (\<lambda>a. io_return (f a)) s = (r, s')"
    then obtain r0 where m: "m s = (r0, s')" and r: "r = map_sum (\<lambda>e. e) f r0"
      by (auto simp: io_bind_def io_return_def split: prod.splits sum.splits)
    from assms m have "(\<exists>e. r0 = Inl e \<and> reads_only s s') \<or> sent_change Q r0 s s'"
      unfolding one_change_def by blast
    then show "(\<exists>e. r = Inl e \<and> reads_only s s') \<or> sent_change Q r s s'"
    proof
      assume "sent_change Q r0 s s'"
      with verdict [of _ r0] r show ?thesis unfolding sent_change_def by blast
    qed (auto simp: r)
  qed
qed

lemma response_bytes_verdict:
  "change_verdict (HX_Response response) (map_err TS_Error (response_bytes OK_Mutation limit response))"
proof -
  have "e = TS_Error TE_MutationOutcomeUnknown"
    if "map_err TS_Error (read_chunks limit TE_MutationOutcomeUnknown TE_MutationOutcomeUnknown [] pieces) = Inl e"
    for e pieces
    using that read_chunks_Inl [of limit TE_MutationOutcomeUnknown TE_MutationOutcomeUnknown "[]" pieces]
    by (cases "read_chunks limit TE_MutationOutcomeUnknown TE_MutationOutcomeUnknown [] pieces") auto
  moreover have "\<not> status_client_error s" if "status_success s" for s
    using that by (auto simp: status_success_def status_client_error_def word_le_nat_alt word_less_nat_alt)
  ultimately show ?thesis
    by (auto simp: response_bytes_def Let_def split: sum.splits)
qed

lemma http_empty_change:
  assumes "changes_upstream q" "Q q"
  shows "one_change Q (http_empty E q OK_Mutation)"
  unfolding http_empty_def
proof (rule one_change_then_return)
  show "one_change Q (http_bytes E q OK_Mutation tekton_max_response_bytes)"
    unfolding http_bytes_def
  proof (rule one_change_bind [OF request_permit_reads])
    fix u :: unit
    show "one_change Q (io_bind (tekton_exchange E q)
      (\<lambda>x. io_lift (bytes_outcome OK_Mutation tekton_max_response_bytes x)))"
      unfolding one_change_def
    proof (intro allI impI disjI2)
      fix s r s'
      assume "io_bind (tekton_exchange E q) (\<lambda>x. io_lift (bytes_outcome OK_Mutation tekton_max_response_bytes x)) s = (r, s')"
      then obtain x where "ts_trace s' = ts_trace s @ [(q, x)]"
        and r: "r = bytes_outcome OK_Mutation tekton_max_response_bytes x"
        by (auto simp: io_bind_def tekton_exchange_def io_lift_def split: prod.splits)
      moreover have "change_verdict x r" using r response_bytes_verdict by (cases x) auto
      ultimately show "sent_change Q r s s'"
        using assms by (auto simp: sent_change_def intro!: exI [of _ "[]"])
    qed
  qed
qed

lemma one_change_if:
  "(b \<Longrightarrow> one_change Q m) \<Longrightarrow> (\<not> b \<Longrightarrow> one_change Q n) \<Longrightarrow> one_change Q (if b then m else n)"
  by simp

lemma one_change_case_prod:
  "(\<And>a b. v = (a, b) \<Longrightarrow> one_change Q (f a b)) \<Longrightarrow> one_change Q (case v of (a, b) \<Rightarrow> f a b)"
  by (simp split: prod.splits)

lemma send_pac_change:
  "(\<And>q. tq_method q = M_Post \<Longrightarrow> tq_url q = TU_Pac ''incoming'' \<Longrightarrow>
       tq_body q = Some (pac_body c r def_name reference params) \<Longrightarrow> Q q) \<Longrightarrow>
     one_change Q (send_pac E c r def_name reference params)"
  unfolding send_pac_def
  by (intro one_change_bind tk.rel_guard http_empty_change) (simp_all add: changes_upstream_def)

lemma kube_patch_change:
  "(\<And>q. tq_method q = M_Patch \<Longrightarrow> tq_url q = kube_url path \<Longrightarrow> tq_body q = body \<Longrightarrow> Q q) \<Longrightarrow>
     one_change Q (kube_json E M_Patch path query body OK_Mutation)"
  unfolding kube_json_def Let_def
  by (simp, intro one_change_bind tk.rel_guard kube_token_reads one_change_then_return http_empty_change)
    (simp_all add: changes_upstream_def)

text \<open>The only two requests of this integration that change anything.\<close>

definition tekton_change :: "tekton_client \<Rightarrow> tekton_request \<Rightarrow> bool" where
  "tekton_change c q \<longleftrightarrow>
     (tq_method q = M_Post \<and> tq_url q = TU_Pac ''incoming''
        \<and> (\<exists>r def_name reference params. tq_body q = Some (pac_body c r def_name reference params)))
     \<or> (tq_method q = M_Patch \<and> (\<exists>name version. tq_url q = kube_url (runs_path c @ ''/'' @ name)
          \<and> tq_body q = Some (cancel_patch version)))"

lemma tekton_mutate_one_change: "one_change (tekton_change c) (tekton_mutate E c m)"
proof (cases m)
  case (TM_Dispatch command)
  show ?thesis
    unfolding TM_Dispatch tekton_mutate.simps tekton_dispatch_def
    by (intro one_change_bind find_repository_reads triggerable_workflow_reads one_change_then_return
        send_pac_change) (auto simp: tekton_change_def)
next
  case (TM_Rerun run_id)
  show ?thesis
    unfolding TM_Rerun tekton_mutate.simps tekton_rerun_def
    by (intro one_change_bind one_change_case_prod owned_run_reads tekton_rules repository_workflows_reads
        one_change_then_return send_pac_change) (auto simp: tekton_change_def)
next
  case (TM_Cancel run_id)
  show ?thesis
    unfolding TM_Cancel tekton_mutate.simps tekton_cancel_def
    by (intro one_change_bind one_change_case_prod owned_run_reads tekton_rules
        one_change_then_return kube_patch_change) (auto simp: tekton_change_def)
qed


section \<open>A scripted upstream\<close>

definition answer_with :: "u16 \<Rightarrow> string \<Rightarrow> http_exchange" where
  "answer_with status body = HX_Response \<lparr>hs_status = status, hs_length = None, hs_chunks = [Inr body]\<rparr>"

definition demo_owner :: "string \<Rightarrow> string \<Rightarrow> string \<Rightarrow> string \<times> json" where
  "demo_owner kind name uid = (''ownerReferences'',
     JArr [JObj [(''kind'', JStr kind), (''name'', JStr name), (''uid'', JStr uid)]])"

definition demo_run :: json where
  "demo_run = JObj [(''metadata'', JObj [(''name'', JStr ''run''), (''uid'', JStr ''u1''),
     (''resourceVersion'', JStr ''7''), (''labels'', JObj [(repository_label, JStr ''cr'')])])]"

definition demo_task :: json where
  "demo_task = JObj
     [(''metadata'', JObj [(''name'', JStr ''t''), (''uid'', JStr ''u2''),
        (''labels'', JObj [(pipeline_run_label, JStr ''run''), (repository_label, JStr ''cr'')]),
        demo_owner ''PipelineRun'' ''run'' ''u1'']),
      (''status'', JObj [(''podName'', JStr ''pod''),
        (''steps'', JArr [JObj [(''name'', JStr ''build''), (''container'', JStr ''step-build'')]])])]"

definition demo_document :: "string \<Rightarrow> json option" where
  "demo_document s =
     (if s = ''R'' then Some (JObj [(''items'', JArr [JObj
        [(''metadata'', JObj [(''name'', JStr ''cr'')]), (''spec'', JObj [(''url'', JStr ''u'')])]])])
      else if s = ''M'' then Some (JObj [(''default_branch'', JStr ''main'')])
      else if s = ''L'' then Some (JArr [JObj [(''type'', JStr ''file''), (''path'', JStr ''.tekton/b.yml'')]])
      else if s = ''F'' then Some (JObj [(''encoding'', JStr ''base64''), (''content'', JStr ''c'')])
      else if s = ''P'' then Some demo_run
      else if s = ''T'' then Some demo_task
      else if s = ''D'' then Some (JObj [(''metadata'', JObj [demo_owner ''TaskRun'' ''t'' ''u2''])])
      else None)"

definition demo_origin :: located_url where
  "demo_origin = \<lparr>url_scheme = ''https'', url_host = Some ''h'', url_username = [], url_password = None,
     url_query = None, url_fragment = None, url_path = ''/'', lu_port = Some 443,
     lu_segments = Some [''o'', ''r''], lu_text = ''https://h/''\<rparr>"

definition demo_yaml :: json where
  "demo_yaml = JObj [(''kind'', JStr ''PipelineRun''), (''metadata'', JObj [(''name'', JStr ''b''),
     (''annotations'', JObj [(''pipelinesascode.tekton.dev/on-event'', JStr ''[incoming]'')])])]"

definition demo_env :: "http_exchange list tekton_env" where
  "demo_env = \<lparr>lib_json = demo_document, lib_yaml = (\<lambda>_. [Some demo_yaml]),
     lib_url = (\<lambda>_. Some demo_origin), lib_percent = Some, lib_base64 = Some, lib_digest = (\<lambda>_. ''d''),
     tn_joins = (\<lambda>_. True), tn_permit = (\<lambda>w. (True, w)), tn_waiter = (\<lambda>w. (True, w)),
     tn_token_file = (\<lambda>w. (Some (Some ''t''), w)), tn_exchange = (\<lambda>_ w. (hd w, tl w)),
     tn_elapsed = (\<lambda>_. 7)\<rparr>"

definition demo_client :: tekton_client where
  "demo_client = \<lparr>tcl_forgejo_origin = demo_origin, tcl_forgejo_token = ''f'', tcl_pac_secret = ''p'',
     tcl_namespace = ''ns'', tcl_kube_origin = ''https://k/'', tcl_redactions = [''pw'']\<rparr>"

definition demo_sys :: "http_exchange list \<Rightarrow> http_exchange list tekton_sys" where
  "demo_sys w = \<lparr>ts_clock = 100, ts_trace = [], ts_world = w\<rparr>"

definition demo_repository :: repository where
  "demo_repository = \<lparr>tr_id = ''o/r'', tr_cr_name = ''cr'', tr_owner = ''o'', tr_name = ''r'',
     tr_url = ''https://h/o/r''\<rparr>"

definition demo_workflow :: workflow where
  "demo_workflow = \<lparr>tw_id = ''workflow/d'', tw_repository = ''o/r'', tw_definition = ''b'',
     tw_path = ''.tekton/b.yml'', tw_revision = ''main'', tw_events = [''incoming''], tw_triggerable = True\<rparr>"

text \<open>A request that is answered: the state afterwards has the next answers and a longer trace.\<close>

definition next_to :: "http_exchange list \<Rightarrow> http_exchange list \<Rightarrow> http_exchange list tekton_sys \<Rightarrow> bool" where
  "next_to done rest s \<longleftrightarrow> map snd (ts_trace s) = done \<and> ts_world s = rest"

lemma demo_http_json:
  assumes "next_to d (answer_with 200 b # w) s" "demo_document b = Some j" "length b \<le> 100"
  shows "\<exists>s'. http_json demo_env q OK_Read s = (Inr j, s') \<and> next_to (d @ [answer_with 200 b]) w s'"
  using assms
  by (simp add: http_json_def http_bytes_def request_permit_def tekton_exchange_def tekton_lift_def io_bind_def
    io_lift_def io_return_def demo_env_def answer_with_def response_bytes_def status_success_def next_to_def
    tekton_max_response_bytes_def)

lemma demo_kube_json:
  assumes "next_to d (answer_with 200 b # w) s" "demo_document b = Some j" "length b \<le> 100"
  shows "\<exists>s'. kube_json demo_env M_Get path query None OK_Read s = (Inr j, s') \<and> next_to (d @ [answer_with 200 b]) w s'"
proof -
  define s1 where "s1 = s\<lparr>ts_clock := ts_clock s + 7\<rparr>"
  have "next_to d (answer_with 200 b # w) s1" using assms(1) by (simp add: s1_def next_to_def)
  moreover have "trim ''t'' = ''t''"
    by (simp add: trim_def trim_start_def trim_end_def chunk_is_whitespace_def chunks_ascii code_point_def is_whitespace_def)
  then have "kube_token demo_env s = (Inr ''t'', s1)"
    by (simp add: kube_token_def token_value_def demo_env_def s1_def)
  moreover have "tn_joins demo_env u" for u by (simp add: demo_env_def)
  ultimately show ?thesis
    using demo_http_json assms(2,3) by (simp add: kube_json_def io_bind_def io_guard_def io_lift_def guard_or_def)
qed

lemma demo_forgejo_json:
  assumes "next_to d (answer_with 200 b # w) s" "demo_document b = Some j" "length b \<le> 100"
  shows "\<exists>s'. forgejo_json demo_env c segments query s = (Inr j, s') \<and> next_to (d @ [answer_with 200 b]) w s'"
proof -
  have "tn_joins demo_env u" for u by (simp add: demo_env_def)
  then show ?thesis
    using demo_http_json assms by (simp add: forgejo_json_def io_bind_def io_guard_def io_lift_def guard_or_def)
qed

lemma demo_text: "valid_repository_component ''o''" "valid_repository_component ''r''" "bounded_text ''main'' 512"
  "bounded_text ''b'' 253" "bounded_text ''incoming'' 64"
  by (simp_all add: valid_repository_component_def valid_text_def bounded_text_def trim_def trim_start_def trim_end_def
      chunk_is_whitespace_def chunks_ascii chars_ascii code_point_def is_whitespace_def has_control_def is_control_def ascii_defs)

lemma kube_list_single_page:
  assumes "kube_json E M_Get path (list_query 500 sel None) None OK_Read s = (Inr v, t)"
    and "array_at v [''items''] = Some page" "str_at v [''metadata'', ''continue''] = None"
  shows "kube_list E path sel s = (Inr (take 500 page, False), t)"
proof -
  have "max_kube_list_pages = Suc 9" by (simp add: max_kube_list_pages_def)
  then show ?thesis using assms
    unfolding kube_list_def \<open>max_kube_list_pages = Suc 9\<close> kube_pages.simps
    by (simp add: Let_def max_kube_list_items_def io_bind_def tekton_lift_def io_lift_def opt_filter_def
        io_return_def)
qed

lemma demo_parse_repository:
  "parse_repository demo_env (JObj [(''metadata'', JObj [(''name'', JStr ''cr'')]), (''spec'', JObj [(''url'', JStr ''u'')])]) demo_origin
     = Some demo_repository"
  by (simp add: parse_repository_def object_name_def str_at_def demo_env_def same_origin_def demo_origin_def
      strip_suffix_def demo_text demo_repository_def trim_end_matches_def Let_def)

lemma demo_catalog:
  assumes "next_to d (answer_with 200 ''R'' # w) s"
  shows "\<exists>s'. repository_catalog demo_env demo_client s = (Inr [demo_repository], s')
    \<and> next_to (d @ [answer_with 200 ''R'']) w s'"
proof -
  let ?item = "JObj [(''metadata'', JObj [(''name'', JStr ''cr'')]), (''spec'', JObj [(''url'', JStr ''u'')])]"
  let ?path = "''/apis/pipelinesascode.tekton.dev/v1alpha1/namespaces/'' @ tcl_namespace demo_client @ ''/repositories''"
  have "demo_document ''R'' = Some (JObj [(''items'', JArr [?item])])" by (simp add: demo_document_def)
  from demo_kube_json [OF assms this, of ?path "list_query 500 None None"] obtain s' where
    get: "kube_json demo_env M_Get ?path (list_query 500 None None) None OK_Read s = (Inr (JObj [(''items'', JArr [?item])]), s')"
    and s': "next_to (d @ [answer_with 200 ''R'']) w s'" by auto
  have "kube_list demo_env ?path None s = (Inr ([?item], False), s')"
    using kube_list_single_page [OF get] by (simp add: array_at_def str_at_def)
  moreover note demo_parse_repository
  ultimately show ?thesis
    using s' by (simp add: repository_catalog_def io_bind_def collect_repositories_def tekton_lift_def io_lift_def
      List.map_filter_simps demo_client_def)
qed

lemma demo_events: "workflow_events (event_annotation demo_yaml) = [''incoming'']"
proof -
  have "trim ''incoming'' = ''incoming''"
    by (simp add: trim_def trim_start_def trim_end_def chunk_is_whitespace_def chunks_ascii code_point_def is_whitespace_def)
  then show ?thesis
    by (simp add: workflow_events_def event_annotation_def demo_yaml_def annotation_of_def str_at_def option_or_def
      trim_matches_def trim_end_matches_def)
qed

lemma demo_workflows:
  assumes "next_to d ([answer_with 200 ''M'', answer_with 200 ''L'', answer_with 200 ''F''] @ w) s"
  shows "\<exists>s'. repository_workflows demo_env c demo_repository s = (Inr [demo_workflow], s')
    \<and> next_to (d @ [answer_with 200 ''M'', answer_with 200 ''L'', answer_with 200 ''F'']) w s'"
proof -
  let ?seg = "[''api'', ''v1'', ''repos'', ''o'', ''r'']"
  let ?file = "JObj [(''type'', JStr ''file''), (''path'', JStr ''.tekton/b.yml'')]"
  let ?content = "JObj [(''encoding'', JStr ''base64''), (''content'', JStr ''c'')]"
  let ?ref = "[(''ref'', ''main'')]"
  have docs: "demo_document ''M'' = Some (JObj [(''default_branch'', JStr ''main'')])"
    "demo_document ''L'' = Some (JArr [?file])" "demo_document ''F'' = Some ?content"
    by (simp_all add: demo_document_def)
  obtain s1 where 1: "forgejo_json demo_env c ?seg [] s = (Inr (JObj [(''default_branch'', JStr ''main'')]), s1)"
    and s1: "next_to (d @ [answer_with 200 ''M'']) ([answer_with 200 ''L'', answer_with 200 ''F''] @ w) s1"
    using demo_forgejo_json [of d "''M''" "[answer_with 200 ''L'', answer_with 200 ''F''] @ w" s _ c ?seg "[]"] assms docs(1) by auto
  obtain s2 where 2: "forgejo_json demo_env c (?seg @ [''contents'', ''.tekton'']) ?ref s1 = (Inr (JArr [?file]), s2)"
    and s2: "next_to (d @ [answer_with 200 ''M'', answer_with 200 ''L'']) ([answer_with 200 ''F''] @ w) s2"
    using demo_forgejo_json [of "d @ [answer_with 200 ''M'']" "''L''" "[answer_with 200 ''F''] @ w" s1 _ c "?seg @ [''contents'', ''.tekton'']" ?ref] s1 docs(2) by auto
  obtain s3 where 3: "forgejo_json demo_env c (?seg @ [''contents'', ''.tekton'', ''b.yml'']) ?ref s2 = (Inr ?content, s3)"
    and s3: "next_to (d @ [answer_with 200 ''M'', answer_with 200 ''L'', answer_with 200 ''F'']) w s3"
    using demo_forgejo_json [of "d @ [answer_with 200 ''M'', answer_with 200 ''L'']" "''F''" w s2 _ c "?seg @ [''contents'', ''.tekton'', ''b.yml'']" ?ref] s2 docs(3) by auto
  have listed: "List.map_filter workflow_file [?file] = [''.tekton/b.yml'']"
    by (simp add: workflow_file_def str_at_def opt_filter_def starts_with_def strip_suffix_def List.map_filter_simps)
  have other: "CHR ''c'' \<noteq> newline" by code_simp
  have decoded: "decode_content demo_env ?content = Inr ''c''"
    by (simp add: decode_content_def str_at_def demo_env_def str_replace_def max_workflow_file_bytes_def other starts_with_def)
  have parsed: "parse_workflows demo_env demo_repository ''main'' ''.tekton/b.yml'' ''c'' = Inr [demo_workflow]"
    by (simp add: parse_workflows_def utf8_valid_ascii demo_env_def max_workflow_documents_def parse_workflow_def
      demo_yaml_def str_at_def definition_name_def option_or_def demo_text demo_events [unfolded demo_yaml_def] Let_def workflow_id_def
      demo_repository_def demo_workflow_def)
  have "read_workflow_files demo_env c demo_repository ''main'' 0 [''.tekton/b.yml''] s2 = (Inr [demo_workflow], s3)"
    using 3 decoded parsed by (simp add: io_bind_def tekton_lift_def io_lift_def io_guard_def guard_or_def io_return_def
      demo_repository_def max_workflow_total_bytes_def)
  with 1 2 listed have "repository_workflows demo_env c demo_repository s = (Inr [demo_workflow], s3)"
    by (simp add: repository_workflows_def io_bind_def tekton_lift_def io_lift_def io_guard_def guard_or_def
      demo_repository_def str_at_def demo_text max_workflow_files_def)
  with s3 show ?thesis by auto
qed

definition demo_command :: workflow_dispatch_command where
  "demo_command = \<lparr>wd_repository = ''o/r'', wd_workflow = ''workflow/d'', wd_reference = ''main'', wd_params = []\<rparr>"

definition demo_answers :: "http_exchange list" where
  "demo_answers = [answer_with 200 ''R'', answer_with 200 ''M'', answer_with 200 ''L'', answer_with 200 ''F'',
     answer_with 202 []]"

definition demo_accepted :: json where
  "demo_accepted = JObj [(''status'', JStr ''accepted''), (''repository'', JStr ''o/r''),
     (''workflow'', JStr ''workflow/d''), (''ref'', JStr ''main'')]"

lemma demo_dispatch:
  "\<exists>s'. tekton_dispatch demo_env demo_client demo_command (demo_sys demo_answers) = (Inr demo_accepted, s')
     \<and> map snd (ts_trace s') = demo_answers"
proof -
  have "next_to [] (answer_with 200 ''R'' # tl demo_answers) (demo_sys demo_answers)"
    by (simp add: next_to_def demo_sys_def demo_answers_def)
  from demo_catalog [OF this] obtain s1 where 1:
    "repository_catalog demo_env demo_client (demo_sys demo_answers) = (Inr [demo_repository], s1)"
    and s1: "next_to [answer_with 200 ''R''] (tl demo_answers) s1" by auto
  have found: "find_repository demo_env demo_client ''o/r'' (demo_sys demo_answers) = (Inr demo_repository, s1)"
    using 1 by (simp add: find_repository_def io_bind_def tekton_lift_def io_lift_def select_repository_def demo_repository_def)
  from demo_workflows [of "[answer_with 200 ''R'']" "[answer_with 202 []]" s1 demo_client] s1 obtain s2 where 2:
    "repository_workflows demo_env demo_client demo_repository s1 = (Inr [demo_workflow], s2)"
    and s2: "next_to (take 4 demo_answers) [answer_with 202 []] s2" by (auto simp: demo_answers_def)
  have chosen: "triggerable_workflow demo_env demo_client demo_repository ''workflow/d'' s1 = (Inr demo_workflow, s2)"
    using 2 by (simp add: triggerable_workflow_def io_bind_def tekton_lift_def io_lift_def demo_workflow_def)
  have "\<exists>s3. send_pac demo_env demo_client demo_repository ''b'' ''main'' [] s2 = (Inr (), s3)
      \<and> map snd (ts_trace s3) = demo_answers"
    using s2 by (simp add: send_pac_def io_bind_def io_guard_def guard_or_def io_lift_def http_empty_def http_bytes_def
      request_permit_def tekton_exchange_def io_return_def demo_env_def answer_with_def response_bytes_def
      status_success_def next_to_def tekton_max_response_bytes_def demo_answers_def)
  with found chosen show ?thesis
    by (auto simp: tekton_dispatch_def io_bind_def demo_command_def demo_accepted_def demo_workflow_def
      demo_repository_def io_return_def)
qed


section \<open>A dispatch triggers the workflow it names\<close>

lemma parse_workflow_Inr:
  assumes "parse_workflow libs r revision path index v = Inr found" "w \<in> set found"
  shows "\<exists>def_name events. length events \<le> 20 \<and> bounded_text def_name 253 \<and> w =
    \<lparr>tw_id = workflow_id libs r revision path index def_name, tw_repository = tr_id r,
     tw_definition = def_name, tw_path = path, tw_revision = revision, tw_events = remdups_adj (sort events),
     tw_triggerable = list_ex (\<lambda>event. event = ''incoming'') (remdups_adj (sort events))\<rparr>"
proof -
  let ?events = "workflow_events (event_annotation v)"
  from assms have kind: "str_at v [''kind''] = Some ''PipelineRun''"
    by (auto simp: parse_workflow_def split: if_splits)
  with assms obtain def_name where "bounded_text def_name 253" "length ?events \<le> 20" and
    "found = [\<lparr>tw_id = workflow_id libs r revision path index def_name, tw_repository = tr_id r,
     tw_definition = def_name, tw_path = path, tw_revision = revision, tw_events = remdups_adj (sort ?events),
     tw_triggerable = list_ex (\<lambda>event. event = ''incoming'') (remdups_adj (sort ?events))\<rparr>]"
    by (auto simp: parse_workflow_def Let_def not_less split: if_splits)
  with assms(2) show ?thesis by auto
qed

lemma parse_documents_facts:
  "parse_documents libs r revision path index documents = Inr ws \<Longrightarrow> w \<in> set ws \<Longrightarrow>
     tw_repository w = tr_id r \<and> tw_revision w = revision \<and> tw_path w = path
     \<and> (\<exists>i < max_workflow_documents. tw_id w = workflow_id libs r revision path i (tw_definition w))
     \<and> (tw_triggerable w \<longleftrightarrow> ''incoming'' \<in> set (tw_events w))
     \<and> sorted (tw_events w) \<and> distinct (tw_events w) \<and> length (tw_events w) \<le> 20"
proof (induction documents arbitrary: index ws)
  case (Cons document documents)
  then obtain v found rest where i: "index < max_workflow_documents"
    and found: "parse_workflow libs r revision path index v = Inr found"
    and rest: "parse_documents libs r revision path (Suc index) documents = Inr rest" and ws: "ws = found @ rest"
    by (auto split: if_splits)
  show ?case
  proof (cases "w \<in> set rest")
    case True
    then show ?thesis using Cons.IH [OF rest] by blast
  next
    case False
    with ws Cons.prems(2) have "w \<in> set found" by simp
    from parse_workflow_Inr [OF found this] obtain def_name events where few: "length events \<le> 20"
      and w: "w = \<lparr>tw_id = workflow_id libs r revision path index def_name, tw_repository = tr_id r,
        tw_definition = def_name, tw_path = path, tw_revision = revision, tw_events = remdups_adj (sort events),
        tw_triggerable = list_ex (\<lambda>event. event = ''incoming'') (remdups_adj (sort events))\<rparr>" by blast
    have "distinct (remdups_adj xs)" if "sorted xs" for xs :: "string list"
      using that by (induction xs rule: remdups_adj.induct) (auto simp: less_le_not_le)
    then have "distinct (remdups_adj (sort events))" by simp
    moreover have "length (remdups_adj (sort events)) \<le> 20"
      using remdups_adj_length [of "sort events"] few by simp
    ultimately show ?thesis using i by (auto simp: w list_ex_iff)
  qed
qed simp

lemma read_workflow_files_facts:
  "read_workflow_files E c r revision used files s = (Inr ws, s') \<Longrightarrow> w \<in> set ws \<Longrightarrow>
     tw_path w \<in> set files \<and> tw_repository w = tr_id r \<and> tw_revision w = revision
     \<and> (\<exists>i < max_workflow_documents. tw_id w = workflow_id E r revision (tw_path w) i (tw_definition w))
     \<and> (tw_triggerable w \<longleftrightarrow> ''incoming'' \<in> set (tw_events w))"
proof (induction files arbitrary: used s ws s')
  case Nil
  then show ?case by (simp add: io_simps)
next
  case (Cons entry files)
  then obtain b found rest t where "parse_workflows E r revision entry b = Inr found"
    and rest: "read_workflow_files E c r revision (used + length b) files t = (Inr rest, s')"
    and ws: "ws = found @ rest"
    by (auto simp: io_simps tekton_lift_def)
  then have found: "parse_documents E r revision entry 0 (lib_yaml E b) = Inr found"
    by (auto simp: parse_workflows_def split: if_splits)
  show ?case
  proof (cases "w \<in> set found")
    case True
    then show ?thesis using parse_documents_facts [OF found] by auto
  next
    case False
    with Cons.prems(2) ws have "w \<in> set rest" by simp
    then show ?thesis using Cons.IH [OF rest] by auto
  qed
qed

lemma repository_workflows_facts:
  assumes "repository_workflows E c r s = (Inr ws, s')" "w \<in> set ws"
  shows "starts_with (tw_path w) ''.tekton/'' \<and> bounded_text (tw_revision w) 512 \<and> tw_repository w = tr_id r
     \<and> (\<exists>i < max_workflow_documents.
          tw_id w = workflow_id E r (tw_revision w) (tw_path w) i (tw_definition w))
     \<and> (tw_triggerable w \<longleftrightarrow> ''incoming'' \<in> set (tw_events w))"
proof -
  from assms(1) obtain revision entries t where rev: "bounded_text revision 512"
    and "read_workflow_files E c r revision 0 (List.map_filter workflow_file entries) t = (Inr ws, s')"
    by (auto simp: repository_workflows_def io_simps tekton_lift_def Let_def)
  from read_workflow_files_facts [OF this(2) assms(2)] rev show ?thesis
    by (auto simp: set_map_filter workflow_file_def split: if_splits)
qed

lemma select_repository_Inr: "select_repository ns ident catalog = Inr r \<Longrightarrow> tr_id r = ident \<and> r \<in> set catalog"
  by (auto simp: select_repository_def find_Some_iff split: option.splits if_splits)

lemma find_repository_id: "find_repository E c ident s = (Inr r, s') \<Longrightarrow> tr_id r = ident"
  by (auto simp: find_repository_def io_simps tekton_lift_def dest: select_repository_Inr)

definition pac_request :: "tekton_client \<Rightarrow> repository \<Rightarrow> string \<Rightarrow> string \<Rightarrow> (string, string) btree \<Rightarrow> tekton_request" where
  "pac_request c r def_name reference params =
     \<lparr>tq_method = M_Post, tq_url = TU_Pac ''incoming'', tq_query = [],
      tq_body = Some (pac_body c r def_name reference params), tq_merge_patch = False, tq_bearer = None\<rparr>"

lemma send_pac_Inr:
  assumes "send_pac E c r def_name reference params s = (Inr u, s')"
  shows "\<exists>x. ts_trace s' = ts_trace s @ [(pac_request c r def_name reference params, x)]"
  using assms
  by (auto simp: send_pac_def http_empty_def http_bytes_def io_simps tekton_exchange_def request_permit_def
      pac_request_def split: prod.splits if_splits)

lemma reads_only_trace: "reads_only s t \<Longrightarrow> \<exists>tr. ts_trace t = ts_trace s @ tr"
  by (auto simp: reads_only_def)

section \<open>Lists are bounded\<close>

definition adds_gets :: "tekton_url \<Rightarrow> nat \<Rightarrow> 's tekton_sys \<Rightarrow> 's tekton_sys \<Rightarrow> bool" where
  "adds_gets u n s s' \<longleftrightarrow> (\<exists>tr. ts_trace s' = ts_trace s @ tr \<and> length tr \<le> n
     \<and> (\<forall>(q, x)\<in>set tr. tq_method q = M_Get \<and> tq_url q = u))"

lemma adds_gets_refl: "adds_gets u n s s"
  by (simp add: adds_gets_def)

lemma adds_gets_trans:
  assumes "adds_gets u m s t" "adds_gets u n t v"
  shows "adds_gets u (m + n) s v"
proof -
  from assms obtain a b where "ts_trace t = ts_trace s @ a" "ts_trace v = ts_trace t @ b"
    "length a \<le> m" "length b \<le> n" "\<forall>(q, x)\<in>set a. tq_method q = M_Get \<and> tq_url q = u"
    "\<forall>(q, x)\<in>set b. tq_method q = M_Get \<and> tq_url q = u"
    by (auto simp: adds_gets_def)
  then show ?thesis by (auto simp: adds_gets_def intro!: exI [of _ "a @ b"])
qed

lemma http_bytes_trace:
  assumes "http_bytes E q kind limit s = (r, s')"
  shows "ts_trace s' = ts_trace s \<or> (\<exists>x. ts_trace s' = ts_trace s @ [(q, x)])"
  using assms
  by (auto simp: http_bytes_def io_bind_def tekton_exchange_def request_permit_def io_lift_def
      split: prod.splits sum.splits if_splits)

lemma http_json_trace:
  assumes "http_json E q kind s = (r, s')"
  shows "ts_trace s' = ts_trace s \<or> (\<exists>x. ts_trace s' = ts_trace s @ [(q, x)])"
proof -
  obtain b t where b: "http_bytes E q kind tekton_max_response_bytes s = (b, t)" by fastforce
  with assms have "t = s'"
    by (auto simp: http_json_def io_bind_def tekton_lift_def io_lift_def split: sum.splits)
  with http_bytes_trace [OF b] show ?thesis by simp
qed

lemma kube_get_adds:
  assumes "kube_json E M_Get path query body kind s = (r, s')"
  shows "adds_gets (kube_url path) 1 s s'"
proof (cases "tn_joins E (kube_url path)")
  case False
  with assms show ?thesis
    by (simp add: kube_json_def io_bind_def io_guard_def io_lift_def guard_or_def adds_gets_def)
next
  case True
  obtain w where w: "tn_token_file E (ts_world s) = w" by simp
  obtain a t where a: "kube_token E s = (a, t)" by fastforce
  then have t: "ts_trace t = ts_trace s" by (auto simp: kube_token_def split: prod.splits)
  show ?thesis
  proof (cases a)
    case (Inl e)
    with True a t assms show ?thesis
      by (simp add: kube_json_def io_bind_def io_guard_def io_lift_def guard_or_def adds_gets_def)
  next
    case (Inr tok)
    let ?q = "\<lparr>tq_method = M_Get, tq_url = kube_url path, tq_query = query, tq_body = body,
      tq_merge_patch = (body \<noteq> None), tq_bearer = Some tok\<rparr>"
    have "http_json E ?q kind t = (r, s')"
      using assms True a Inr by (simp add: kube_json_def io_bind_def io_guard_def io_lift_def guard_or_def)
    from http_json_trace [OF this] t show ?thesis by (auto simp: adds_gets_def)
  qed
qed

lemma kube_pages_step:
  assumes "kube_pages E path sel (Suc pages) items continuation seen s = (r, s')"
    and rest: "length items < max_kube_list_items"
  obtains (failed) e where "adds_gets (kube_url path) 1 s s'" "r = Inl e"
  | (last_page) page where "adds_gets (kube_url path) 1 s s'"
      "r = Inr (items @ take (max_kube_list_items - length items) page, False)"
  | (more) t page tok where "adds_gets (kube_url path) 1 s t"
      "kube_pages E path sel pages (items @ take (max_kube_list_items - length items) page) (Some tok) (tok # seen) t
         = (r, s')"
proof -
  let ?rest = "max_kube_list_items - length items"
  obtain a t where a: "kube_json E M_Get path (list_query ?rest sel continuation) None OK_Read s = (a, t)"
    by fastforce
  note adds = kube_get_adds [OF a]
  show ?thesis
  proof (cases "\<exists>v page. a = Inr v \<and> array_at v [''items''] = Some page")
    case False
    then have "t = s'" "\<exists>e. r = Inl e"
      using assms(1) a rest
      by (auto simp: io_bind_def Let_def tekton_lift_def io_lift_def split: sum.splits option.splits)
    then show ?thesis using adds failed by blast
  next
    case True
    then obtain v page where v: "a = Inr v" "array_at v [''items''] = Some page" by blast
    show ?thesis
    proof (cases "opt_filter (\<lambda>value. value \<noteq> []) (str_at v [''metadata'', ''continue''])")
      case None
      then have "r = Inr (items @ take ?rest page, False)" "t = s'"
        using assms(1) a v rest by (auto simp: io_bind_def Let_def tekton_lift_def io_lift_def io_return_def)
      then show ?thesis using adds last_page by blast
    next
      case (Some tok)
      then show ?thesis
        using assms(1) a v rest adds failed more
        by (auto simp: io_bind_def Let_def tekton_lift_def io_lift_def tekton_fail_def io_throw_def
          simp del: opt_filter_Some split: if_splits)
    qed
  qed
qed

lemma kube_pages_adds:
  "kube_pages E path sel pages items continuation seen s = (r, s') \<Longrightarrow> length items \<le> max_kube_list_items \<Longrightarrow>
     adds_gets (kube_url path) pages s s'
     \<and> (\<forall>found t. r = Inr (found, t) \<longrightarrow> length found \<le> max_kube_list_items)"
proof (induction pages arbitrary: items continuation seen s)
  case 0
  then show ?case by (auto simp: io_return_def adds_gets_refl)
next
  case (Suc pages)
  have first: "adds_gets (kube_url path) 1 s t \<Longrightarrow> adds_gets (kube_url path) pages t u \<Longrightarrow>
      adds_gets (kube_url path) (Suc pages) s u" for t u
    using adds_gets_trans [of _ 1 s t pages u] by simp
  show ?case
  proof (cases "length items < max_kube_list_items")
    case False
    with Suc.prems show ?thesis by (auto simp: io_return_def adds_gets_refl)
  next
    case True
    from Suc.prems(1) True show ?thesis
    proof (cases rule: kube_pages_step)
      case (more t page tok)
      with Suc.IH [OF more(2)] Suc.prems(2) first show ?thesis by auto
    qed (use first [OF _ adds_gets_refl] True in auto)
  qed
qed

text \<open>
  Whatever the server answers, also a continuation token without end, a listing sends at most ten
  requests, all of them reads of the listed path, and returns at most 500 objects.
\<close>

theorem kube_list_bounded:
  assumes "kube_list E path sel s = (r, s')"
  shows "(\<exists>tr. ts_trace s' = ts_trace s @ tr \<and> length tr \<le> 10
       \<and> (\<forall>(q, x)\<in>set tr. tq_method q = M_Get \<and> tq_url q = kube_url path))
    \<and> (\<forall>items truncated. r = Inr (items, truncated) \<longrightarrow> length items \<le> 500)"
  using kube_pages_adds [OF assms [unfolded kube_list_def]]
  by (simp add: adds_gets_def max_kube_list_pages_def max_kube_list_items_def)

theorem kube_list_bounded_witness:
  "\<exists>items s'. kube_list demo_env ''/p'' None (demo_sys [answer_with 200 ''R'']) = (Inr (items, False), s')
     \<and> length items \<le> 500"
proof -
  have "next_to [] [answer_with 200 ''R''] (demo_sys [answer_with 200 ''R''])"
    by (simp add: next_to_def demo_sys_def)
  from demo_kube_json [OF this, of _ "''/p''" "list_query 500 None None"] obtain v t where
    v: "demo_document ''R'' = Some v"
      "kube_json demo_env M_Get ''/p'' (list_query 500 None None) None OK_Read (demo_sys [answer_with 200 ''R'']) = (Inr v, t)"
    by (auto simp: demo_document_def)
  then obtain page where run: "kube_list demo_env ''/p'' None (demo_sys [answer_with 200 ''R'']) = (Inr (page, False), t)"
    using kube_list_single_page [OF v(2)] by (auto simp: demo_document_def array_at_def str_at_def)
  from kube_list_bounded [OF run] run show ?thesis by blast
qed

text \<open>
  The API allows a server to ignore the limit and send everything at once.  A first page that is longer
  than what was asked for and has no continuation token is cut to 500 objects, and the listing says
  that nothing was left out; the repository catalog, which is to fail closed, takes it as complete.
\<close>

lemma overlong_page_cut_silently:
  assumes "kube_json E M_Get path (list_query 500 sel None) None OK_Read s = (Inr v, t)"
    and "array_at v [''items''] = Some page" "str_at v [''metadata'', ''continue''] = None" "500 < length page"
  shows "\<exists>items. kube_list E path sel s = (Inr (items, False), t) \<and> length items = 500 \<and> items \<noteq> page"
  using kube_list_single_page [OF assms(1,2,3)] assms(4) by auto

section \<open>Task logs\<close>

lemma kube_token_nonempty: "kube_token E s = (Inr tok, s') \<Longrightarrow> tok \<noteq> []"
  by (auto simp: kube_token_def token_value_def split: prod.splits option.splits if_splits)

lemma kube_text_token: "kube_text E path query limit s = (Inr (b, tok), s') \<Longrightarrow> tok \<noteq> []"
  by (auto simp: kube_text_def io_simps dest: kube_token_nonempty)

lemma step_log_text:
  "sl_text (step_log_of c n name requested (b, tok)) =
     take (length (sl_text (step_log_of c n name requested (b, tok)))) (redact_log c tok (from_utf8_lossy b))"
  "length (sl_text (step_log_of c n name requested (b, tok))) \<le> requested"
proof -
  let ?t = "redact_log c tok (from_utf8_lossy b)"
  have "sl_text (step_log_of c n name requested (b, tok)) = fst (tekton_truncate_utf8 ?t requested)"
    by (simp add: step_log_of_def split: prod.splits)
  moreover have "fst (tekton_truncate_utf8 ?t requested) = take (length (fst (tekton_truncate_utf8 ?t requested))) ?t"
    by (simp add: tekton_truncate_utf8_def min_def)
  moreover have "length (fst (tekton_truncate_utf8 ?t requested)) \<le> requested"
    using floor_char_boundary_le [of ?t requested] by (simp add: tekton_truncate_utf8_def)
  ultimately show "sl_text (step_log_of c n name requested (b, tok)) =
     take (length (sl_text (step_log_of c n name requested (b, tok)))) ?t"
    "length (sl_text (step_log_of c n name requested (b, tok))) \<le> requested" by simp_all
qed

definition hides :: "string list \<Rightarrow> string \<Rightarrow> bool" where
  "hides secrets text \<longleftrightarrow> (\<forall>secret\<in>set secrets. redactable secret \<longrightarrow> \<not> str_contains text secret)"

lemma redact_log_hides:
  assumes "\<forall>s\<in>set (tcl_redactions c). s \<noteq> []" "tok \<noteq> []"
  shows "hides (tok # tcl_redactions c) (redact_log c tok text)"
  unfolding hides_def redact_log_def
proof (intro ballI impI notI)
  let ?t = "redact_all (tcl_redactions c) text"
  fix secret
  assume secret: "secret \<in> set (tok # tcl_redactions c)" "redactable secret"
    and "str_contains (str_replace ?t tok redaction_mark) secret"
  then have "str_contains ?t secret \<and> secret \<noteq> tok" using assms(2) str_replace_redacts by blast
  with secret assms(1) redact_all_removes [of secret "tcl_redactions c" "text"] show False by auto
qed

lemma hides_take: "hides secrets text \<Longrightarrow> hides secrets (take n text)"
  by (auto simp: hides_def dest: str_contains_take)

lemma read_step_logs_facts:
  "read_step_logs E c pod tail_lines remaining steps s = (Inr (logs, left), s') \<Longrightarrow>
     \<forall>x\<in>set (tcl_redactions c). x \<noteq> [] \<Longrightarrow>
     length logs \<le> length steps \<and> sum_list (map (\<lambda>l. length (sl_text l)) logs) + left = remaining
     \<and> list_all (\<lambda>l. hides (tcl_redactions c) (sl_text l) \<and> sl_step l \<in> fst ` set steps) logs"
proof (induction steps arbitrary: remaining s logs left)
  case Nil
  then show ?case by (auto simp: io_simps)
next
  case (Cons step steps)
  obtain name container where step: "step = (name, container)" by fastforce
  show ?case
  proof (cases "remaining = 0")
    case True
    with Cons.prems step show ?thesis by (auto simp: io_simps)
  next
    case False
    with Cons.prems(1) step obtain b tok t rest where
      get: "kube_text E (pod_path c pod @ ''/log'') [(''container'', container),
         (''tailLines'', show_nat (unat tail_lines)), (''limitBytes'', show_nat remaining)] remaining s = (Inr (b, tok), t)"
      and rest: "read_step_logs E c pod tail_lines
         (remaining - length (sl_text (step_log_of c tail_lines name remaining (b, tok)))) steps t = (Inr (rest, left), s')"
      and logs: "logs = step_log_of c tail_lines name remaining (b, tok) # rest"
      by (auto simp: io_simps Let_def)
    let ?l = "step_log_of c tail_lines name remaining (b, tok)"
    have "hides (tok # tcl_redactions c) (sl_text ?l)"
      using redact_log_hides [OF Cons.prems(2) kube_text_token [OF get]] hides_take step_log_text(1) by metis
    then have "hides (tcl_redactions c) (sl_text ?l)" by (simp add: hides_def)
    moreover have "sl_step ?l = name" by (simp add: step_log_of_def split: prod.splits)
    ultimately show ?thesis
      using Cons.IH [OF rest Cons.prems(2)] step_log_text(2) [of c tail_lines name remaining b tok]
      by (auto simp: logs step list_all_iff)
  qed
qed

lemma demo_owned_run:
  assumes "next_to d (answer_with 200 ''P'' # answer_with 200 ''R'' # w) s"
  shows "\<exists>s'. owned_run demo_env demo_client ''ns/run'' s = (Inr (demo_run, demo_repository), s')
    \<and> next_to (d @ [answer_with 200 ''P'', answer_with 200 ''R'']) w s'"
proof -
  have "demo_document ''P'' = Some demo_run" by (simp add: demo_document_def)
  from demo_kube_json [OF assms this, of "runs_path demo_client @ ''/run''" "[]"] obtain s1 where
    1: "kube_json demo_env M_Get (runs_path demo_client @ ''/run'') [] None OK_Read s = (Inr demo_run, s1)"
    and s1: "next_to (d @ [answer_with 200 ''P'']) (answer_with 200 ''R'' # w) s1" by auto
  from demo_catalog [OF s1] obtain s2 where
    2: "repository_catalog demo_env demo_client s1 = (Inr [demo_repository], s2)"
    and s2: "next_to (d @ [answer_with 200 ''P'', answer_with 200 ''R'']) w s2" by auto
  have "namespaced_id ''ns/run'' (tcl_namespace demo_client) = Inr (''ns'', ''run'')"
    by (simp add: namespaced_id_def demo_client_def)
  moreover have "label_of demo_run repository_label = Some ''cr''"
    by (simp add: label_of_def str_at_def demo_run_def)
  ultimately show ?thesis using 1 2 s2
    by (simp add: owned_run_def io_bind_def tekton_lift_def io_lift_def io_return_def demo_repository_def)
qed

lemma demo_kube_text:
  assumes "next_to d (answer_with 200 b # w) s" "length b \<le> limit"
  shows "\<exists>s'. kube_text demo_env path query limit s = (Inr (b, ''t''), s') \<and> next_to (d @ [answer_with 200 b]) w s'"
proof -
  have "trim ''t'' = ''t''"
    by (simp add: trim_def trim_start_def trim_end_def chunk_is_whitespace_def chunks_ascii code_point_def is_whitespace_def)
  then show ?thesis
    using assms by (simp add: kube_text_def io_bind_def io_guard_def io_lift_def guard_or_def kube_token_def token_value_def
      http_bytes_def request_permit_def tekton_exchange_def io_return_def demo_env_def answer_with_def response_bytes_def
      status_success_def next_to_def)
qed

definition demo_logs_query :: task_logs_query where
  "demo_logs_query = \<lparr>lq_run_id = ''ns/run'', lq_task_id = ''ns/t'', lq_step = None, lq_tail_lines = 200, lq_max_bytes = 64\<rparr>"

definition demo_log_answers :: "http_exchange list" where
  "demo_log_answers = [answer_with 200 ''P'', answer_with 200 ''R'', answer_with 200 ''T'', answer_with 200 ''D'',
     answer_with 200 ''pw is pw'']"

lemma demo_task_facts:
  "label_of demo_task pipeline_run_label = Some ''run''" "task_of_run ''cr'' ''run'' ''u1'' demo_task"
  "str_at demo_task [''status'', ''podName''] = Some ''pod''"
  "object_name demo_task = Some ''t''" "object_uid demo_task = Some ''u2''"
  "\<exists>v. array_at demo_task [''status'', ''steps''] = Some v \<and> selected_steps None v = [(''build'', ''step-build'')]"
  "object_name demo_run = Some ''run''" "object_uid demo_run = Some ''u1''" "label_of demo_run repository_label = Some ''cr''"
  by (simp_all add: label_of_def str_at_def array_at_def demo_task_def demo_run_def task_of_run_def owned_by_def demo_owner_def
      object_name_def object_uid_def pipeline_run_label_def repository_label_def selected_steps_def List.map_filter_simps)

lemma demo_logs:
  "\<exists>v s'. tekton_logs demo_env demo_client demo_logs_query (demo_sys demo_log_answers) = (Inr v, s')"
proof -
  let ?c = demo_client
  have "next_to [] (answer_with 200 ''P'' # answer_with 200 ''R'' # drop 2 demo_log_answers) (demo_sys demo_log_answers)"
    by (simp add: next_to_def demo_sys_def demo_log_answers_def)
  from demo_owned_run [OF this] obtain s1 where
    1: "owned_run demo_env ?c ''ns/run'' (demo_sys demo_log_answers) = (Inr (demo_run, demo_repository), s1)"
    and s1: "next_to (take 2 demo_log_answers) (answer_with 200 ''T'' # drop 3 demo_log_answers) s1"
    by (auto simp: demo_log_answers_def)
  have docs: "demo_document ''T'' = Some demo_task"
    "demo_document ''D'' = Some (JObj [(''metadata'', JObj [demo_owner ''TaskRun'' ''t'' ''u2''])])"
    by (simp_all add: demo_document_def)
  from demo_kube_json [OF s1 docs(1), of "tasks_path ?c @ ''/t''" "[]"] obtain s2 where
    "kube_json demo_env M_Get (tasks_path ?c @ ''/t'') [] None OK_Read s1 = (Inr demo_task, s2)"
    and s2: "next_to (take 3 demo_log_answers) (answer_with 200 ''D'' # drop 4 demo_log_answers) s2"
    by (auto simp: demo_log_answers_def)
  then have 2: "task_object demo_env ?c ''ns/t'' s1 = (Inr demo_task, s2)"
    by (simp add: task_object_def io_bind_def tekton_lift_def io_lift_def namespaced_id_def demo_client_def)
  from demo_kube_json [OF s2 docs(2), of "pod_path ?c ''pod''" "[]"] obtain s3 where
    "kube_json demo_env M_Get (pod_path ?c ''pod'') [] None OK_Read s2
       = (Inr (JObj [(''metadata'', JObj [demo_owner ''TaskRun'' ''t'' ''u2''])]), s3)"
    and s3: "next_to (take 4 demo_log_answers) [answer_with 200 ''pw is pw''] s3"
    by (auto simp: demo_log_answers_def)
  then have 3: "verify_task_pod demo_env ?c demo_task ''pod'' s2 = (Inr (), s3)"
    by (simp add: verify_task_pod_def io_bind_def tekton_lift_def io_lift_def demo_task_facts io_guard_def guard_or_def
      owned_by_def demo_owner_def str_at_def array_at_def)
  from demo_kube_text [OF s3, of 64] obtain s4 where
    4: "kube_text demo_env path query 64 s3 = (Inr (''pw is pw'', ''t''), s4 path query)" for path query
    by simp metis
  then have "\<exists>answer s5. read_step_logs demo_env ?c ''pod'' 200 64 [(''build'', ''step-build'')] s3 = (Inr answer, s5)"
    by (simp add: io_bind_def Let_def io_return_def)
  then show ?thesis
    using 1 2 3 demo_task_facts
    by (auto simp: tekton_logs_def io_bind_def tekton_lift_def io_lift_def demo_logs_query_def io_guard_def guard_or_def
      max_log_steps_def io_return_def Let_def)
qed

end
