(* ===== verification/Tekton_Answers.thy ===== *)
theory Tekton_Answers
  imports Tekton_Laws
begin

text \<open>
  What the results of Tekton operations owe to the answers that were received: the repository and the workflow
  that a dispatch triggers, and the text of task logs.
\<close>

section \<open>Answers\<close>

type_synonym tekton_log = "(tekton_request \<times> http_exchange) list"

text \<open>The log has a read of the URL with the query that was answered with the document.\<close>

definition answered :: "'s tekton_env \<Rightarrow> tekton_log \<Rightarrow> tekton_url \<Rightarrow> (string \<times> string) list \<Rightarrow> json \<Rightarrow> bool" where
  "answered E tr u query v \<longleftrightarrow>
     (\<exists>q response b. (q, HX_Response response) \<in> set tr \<and> tq_method q = M_Get \<and> tq_url q = u \<and> tq_query q = query
        \<and> response_bytes OK_Read tekton_max_response_bytes response = Inr b \<and> lib_json E b = Some v)"

lemma answered_mono: "answered E tr u query v \<Longrightarrow> set tr \<subseteq> set tr' \<Longrightarrow> answered E tr' u query v"
  unfolding answered_def by blast

lemma answered_append: "answered E tr u query v \<Longrightarrow> answered E (before @ tr @ after) u query v"
  by (rule answered_mono) auto

lemma bytes_outcome_Inr:
  "bytes_outcome kind limit x = Inr b \<longleftrightarrow> (\<exists>response. x = HX_Response response \<and> response_bytes kind limit response = Inr b)"
  by (cases x) auto

lemma http_bytes_Inr:
  assumes "http_bytes E q kind limit s = (Inr b, s')"
  shows "\<exists>response. ts_trace s' = ts_trace s @ [(q, HX_Response response)] \<and> response_bytes kind limit response = Inr b"
  using assms
  by (auto simp: http_bytes_def io_simps tekton_exchange_def request_permit_def bytes_outcome_Inr
      split: prod.splits if_splits)

lemma http_json_Inr:
  assumes "http_json E q OK_Read s = (Inr v, s')" "tq_method q = M_Get"
  shows "\<exists>x. ts_trace s' = ts_trace s @ [x] \<and> answered E [x] (tq_url q) (tq_query q) v"
proof -
  from assms(1) obtain b where b: "http_bytes E q OK_Read tekton_max_response_bytes s = (Inr b, s')" "lib_json E b = Some v"
    by (auto simp: http_json_def io_simps tekton_lift_def)
  with http_bytes_Inr [OF b(1)] assms(2) show ?thesis by (auto simp: answered_def)
qed

lemma forgejo_json_Inr:
  assumes "forgejo_json E c segments query s = (Inr v, s')"
  shows "\<exists>x. ts_trace s' = ts_trace s @ [x] \<and> answered E [x] (TU_Forgejo segments) query v"
  using assms by (auto simp: forgejo_json_def io_simps dest!: http_json_Inr)

lemma kube_token_trace: "kube_token E s = (r, s') \<Longrightarrow> ts_trace s' = ts_trace s"
  by (auto simp: kube_token_def split: prod.splits)

lemma kube_get_Inr:
  assumes "kube_json E M_Get path query body OK_Read s = (Inr v, s')"
  shows "\<exists>x. ts_trace s' = ts_trace s @ [x] \<and> answered E [x] (kube_url path) query v"
  using assms by (auto simp: kube_json_def io_simps Let_def dest!: http_json_Inr kube_token_trace)

section \<open>The repository catalog\<close>

text \<open>The object is an item of a page of the listing.\<close>

definition listed :: "'s tekton_env \<Rightarrow> tekton_log \<Rightarrow> string \<Rightarrow> json \<Rightarrow> bool" where
  "listed E tr path item \<longleftrightarrow>
     (\<exists>query v page. answered E tr (kube_url path) query v \<and> array_at v [''items''] = Some page \<and> item \<in> set page)"

lemma listed_mono: "listed E tr path item \<Longrightarrow> set tr \<subseteq> set tr' \<Longrightarrow> listed E tr' path item"
  unfolding listed_def using answered_mono by blast

lemma kube_pages_listed:
  "kube_pages E path sel pages items continuation seen s = (Inr (found, truncated), s') \<Longrightarrow>
     \<exists>tr. ts_trace s' = ts_trace s @ tr \<and> (\<forall>item\<in>set found. item \<in> set items \<or> listed E tr path item)"
proof (induction pages arbitrary: items continuation seen s)
  case 0
  then show ?case by (auto simp: io_simps)
next
  case (Suc pages)
  let ?rest = "max_kube_list_items - length items"
  show ?case
  proof (cases "?rest = 0")
    case True
    with Suc.prems show ?thesis by (auto simp: io_simps)
  next
    case False
    with Suc.prems obtain v page t where
      get: "kube_json E M_Get path (list_query ?rest sel continuation) None OK_Read s = (Inr v, t)"
      and page: "array_at v [''items''] = Some page"
      and rest: "(case opt_filter (\<lambda>value. value \<noteq> []) (str_at v [''metadata'', ''continue'']) of
               None \<Rightarrow> io_return (items @ take ?rest page, False)
             | Some tok \<Rightarrow>
                 if tok \<in> set seen then tekton_fail TE_InvalidResponse
                 else kube_pages E path sel pages (items @ take ?rest page)
                   (opt_filter (\<lambda>value. value \<noteq> []) (str_at v [''metadata'', ''continue''])) (tok # seen)) t
          = (Inr (found, truncated), s')"
      by (auto simp: io_simps tekton_lift_def Let_def)
    from kube_get_Inr [OF get] obtain x where x: "ts_trace t = ts_trace s @ [x]"
      and ans: "answered E [x] (kube_url path) (list_query ?rest sel continuation) v" by blast
    have new: "listed E (x # tr) path item" if "item \<in> set (take ?rest page)" for item tr
      using answered_append [OF ans, of "[]" tr] page in_set_takeD [OF that] by (auto simp: listed_def)
    show ?thesis
    proof (cases "opt_filter (\<lambda>value. value \<noteq> []) (str_at v [''metadata'', ''continue''])")
      case None
      with rest x new [of _ "[]"] show ?thesis by (auto simp: io_simps)
    next
      case (Some tok)
      have "kube_pages E path sel pages (items @ take ?rest page) (Some tok) (tok # seen) t = (Inr (found, truncated), s')"
        using rest unfolding Some by (simp add: tekton_fail_def io_simps split: if_splits)
      from Suc.IH [OF this] obtain tr where tr: "ts_trace s' = ts_trace t @ tr"
        "\<forall>item\<in>set found. item \<in> set (items @ take ?rest page) \<or> listed E tr path item" by blast
      have "item \<in> set items \<or> listed E (x # tr) path item" if "item \<in> set found" for item
        using tr(2) that new listed_mono [of E tr path item "x # tr"] by auto
      with tr(1) x show ?thesis by (intro exI [of _ "x # tr"]) simp
    qed
  qed
qed

definition repositories_path :: "tekton_client \<Rightarrow> string" where
  "repositories_path c = ''/apis/pipelinesascode.tekton.dev/v1alpha1/namespaces/'' @ tcl_namespace c @ ''/repositories''"

lemma find_repository_listed:
  assumes "find_repository E c ident s = (Inr r, s')"
  shows "\<exists>tr item. ts_trace s' = ts_trace s @ tr \<and> listed E tr (repositories_path c) item
    \<and> parse_repository E item (tcl_forgejo_origin c) = Some r \<and> tr_id r = ident"
proof -
  from assms obtain items catalog where
    list: "kube_list E (repositories_path c) None s = (Inr (items, False), s')"
    and catalog: "collect_repositories E (tcl_forgejo_origin c) (items, False) = Inr catalog"
    and r: "select_repository (tcl_namespace c) ident catalog = Inr r"
    by (auto simp: find_repository_def repository_catalog_def repositories_path_def io_simps tekton_lift_def
        collect_repositories_def split: if_splits)
  from select_repository_Inr [OF r] catalog obtain item where "item \<in> set items"
    "parse_repository E item (tcl_forgejo_origin c) = Some r" "tr_id r = ident"
    by (auto simp: collect_repositories_def Let_def set_map_filter split: if_splits)
  with kube_pages_listed [OF list [unfolded kube_list_def]] show ?thesis by auto
qed

section \<open>Workflows\<close>

text \<open>
  A workflow as the repository publishes it: the default branch, a file under \<open>.tekton\<close> that is listed there,
  and the document of that file with the kind, the name and the event.
\<close>

definition repository_url :: "repository \<Rightarrow> string list \<Rightarrow> tekton_url" where
  "repository_url r segments = TU_Forgejo ([''api'', ''v1'', ''repos'', tr_owner r, tr_name r] @ segments)"

definition file_document ::
  "'s tekton_env \<Rightarrow> tekton_log \<Rightarrow> repository \<Rightarrow> string \<Rightarrow> string \<Rightarrow> nat \<Rightarrow> json \<Rightarrow> bool" where
  "file_document E tr r revision path i doc \<longleftrightarrow>
     (\<exists>content b. answered E tr (repository_url r (''contents'' # split_char (CHR ''/'') path)) [(''ref'', revision)] content
        \<and> decode_content E content = Inr b \<and> i < length (lib_yaml E b) \<and> lib_yaml E b ! i = Some doc)"

definition published_at :: "'s tekton_env \<Rightarrow> tekton_log \<Rightarrow> repository \<Rightarrow> string \<Rightarrow> string \<Rightarrow> bool" where
  "published_at E tr r revision path \<longleftrightarrow>
     (\<exists>metadata entries. answered E tr (repository_url r []) [] metadata \<and> str_at metadata [''default_branch''] = Some revision
        \<and> answered E tr (repository_url r [''contents'', ''.tekton'']) [(''ref'', revision)] (JArr entries)
        \<and> (\<exists>entry\<in>set entries. str_at entry [''type''] = Some ''file'' \<and> str_at entry [''path''] = Some path)
        \<and> starts_with path ''.tekton/'')"

lemma file_document_mono:
  "file_document E tr r revision path i doc \<Longrightarrow> set tr \<subseteq> set tr' \<Longrightarrow> file_document E tr' r revision path i doc"
  unfolding file_document_def using answered_mono by blast

lemma parse_documents_document:
  "parse_documents libs r revision path index documents = Inr ws \<Longrightarrow> w \<in> set ws \<Longrightarrow>
     \<exists>i doc found. i < length documents \<and> documents ! i = Some doc \<and> index + i < max_workflow_documents
       \<and> parse_workflow libs r revision path (index + i) doc = Inr found \<and> w \<in> set found"
proof (induction documents arbitrary: index ws)
  case (Cons document documents)
  then obtain v found rest where i: "index < max_workflow_documents" and doc: "document = Some v"
    and found: "parse_workflow libs r revision path index v = Inr found"
    and rest: "parse_documents libs r revision path (Suc index) documents = Inr rest" and ws: "ws = found @ rest"
    by (auto split: if_splits)
  show ?case
  proof (cases "w \<in> set found")
    case True
    with i doc found show ?thesis by (intro exI [of _ 0]) auto
  next
    case False
    with ws Cons.prems(2) Cons.IH [OF rest] obtain j doc' found' where "j < length documents" "documents ! j = Some doc'"
      "Suc index + j < max_workflow_documents" "parse_workflow libs r revision path (Suc index + j) doc' = Inr found'" "w \<in> set found'"
      by auto
    then show ?thesis by (intro exI [of _ "Suc j"]) auto
  qed
qed simp

lemma read_workflow_files_document:
  "read_workflow_files E c r revision used files s = (Inr ws, s') \<Longrightarrow> w \<in> set ws \<Longrightarrow>
     \<exists>tr i doc found. ts_trace s' = ts_trace s @ tr \<and> tw_path w \<in> set files \<and> i < max_workflow_documents
       \<and> file_document E tr r revision (tw_path w) i doc
       \<and> parse_workflow E r revision (tw_path w) i doc = Inr found \<and> w \<in> set found"
proof (induction files arbitrary: used s ws)
  case Nil
  then show ?case by (simp add: io_simps)
next
  case (Cons entry files)
  from Cons.prems(1) obtain content t b found rest where
    get: "forgejo_json E c ([''api'', ''v1'', ''repos'', tr_owner r, tr_name r, ''contents''] @ split_char (CHR ''/'') entry)
         [(''ref'', revision)] s = (Inr content, t)"
    and b: "decode_content E content = Inr b" and found: "parse_workflows E r revision entry b = Inr found"
    and rest: "read_workflow_files E c r revision (used + length b) files t = (Inr rest, s')"
    and ws: "ws = found @ rest"
    by (auto simp: io_simps tekton_lift_def)
  from forgejo_json_Inr [OF get] obtain x where x: "ts_trace t = ts_trace s @ [x]"
    and ans: "answered E [x] (repository_url r (''contents'' # split_char (CHR ''/'') entry)) [(''ref'', revision)] content"
    by (auto simp: repository_url_def)
  have docs: "parse_documents E r revision entry 0 (lib_yaml E b) = Inr found"
    using found by (auto simp: parse_workflows_def split: if_splits)
  obtain tr where tr: "ts_trace s' = ts_trace t @ tr"
    using reads_only_trace [OF io_relD [OF read_workflow_files_reads rest]] by blast
  show ?case
  proof (cases "w \<in> set found")
    case True
    from parse_documents_document [OF docs True] obtain i doc fs where
      i: "i < length (lib_yaml E b)" "lib_yaml E b ! i = Some doc" "i < max_workflow_documents"
        "parse_workflow E r revision entry i doc = Inr fs" "w \<in> set fs" by auto
    have path: "tw_path w = entry" using parse_documents_facts [OF docs True] by blast
    have "file_document E (x # tr) r revision entry i doc"
      unfolding file_document_def using answered_append [OF ans, of "[]" tr] b i by auto
    with path i tr x show ?thesis by (intro exI [of _ "x # tr"] exI [of _ i]) auto
  next
    case False
    with ws Cons.prems(2) have "w \<in> set rest" by simp
    from Cons.IH [OF rest this] obtain tr' i doc fs where "ts_trace s' = ts_trace t @ tr'" "tw_path w \<in> set files"
      "i < max_workflow_documents" "file_document E tr' r revision (tw_path w) i doc"
      "parse_workflow E r revision (tw_path w) i doc = Inr fs" "w \<in> set fs" by blast
    with x file_document_mono [of E tr' r revision "tw_path w" i doc "x # tr'"] show ?thesis
      by (intro exI [of _ "x # tr'"] exI [of _ i]) auto
  qed
qed

lemma repository_workflows_published:
  assumes "repository_workflows E c r s = (Inr ws, s')" "w \<in> set ws"
  shows "\<exists>tr i doc found. ts_trace s' = ts_trace s @ tr \<and> published_at E tr r (tw_revision w) (tw_path w)
    \<and> i < max_workflow_documents \<and> file_document E tr r (tw_revision w) (tw_path w) i doc
    \<and> parse_workflow E r (tw_revision w) (tw_path w) i doc = Inr found \<and> w \<in> set found"
proof -
  from assms(1) obtain metadata t revision listing u entries where
    meta: "forgejo_json E c [''api'', ''v1'', ''repos'', tr_owner r, tr_name r] [] s = (Inr metadata, t)"
    and branch: "str_at metadata [''default_branch''] = Some revision"
    and list: "forgejo_json E c [''api'', ''v1'', ''repos'', tr_owner r, tr_name r, ''contents'', ''.tekton'']
        [(''ref'', revision)] t = (Inr listing, u)"
    and entries: "as_array listing = Some entries"
    and files: "read_workflow_files E c r revision 0 (List.map_filter workflow_file entries) u = (Inr ws, s')"
    by (auto simp: repository_workflows_def io_simps tekton_lift_def Let_def)
  from forgejo_json_Inr [OF meta] obtain x where x: "ts_trace t = ts_trace s @ [x]" "answered E [x] (repository_url r []) [] metadata"
    by (auto simp: repository_url_def)
  from forgejo_json_Inr [OF list] obtain y where y: "ts_trace u = ts_trace t @ [y]"
    "answered E [y] (repository_url r [''contents'', ''.tekton'']) [(''ref'', revision)] listing"
    by (auto simp: repository_url_def)
  have listing: "listing = JArr entries" using entries by (cases listing) auto
  from read_workflow_files_document [OF files assms(2)] obtain tr i doc found where
    w: "ts_trace s' = ts_trace u @ tr" "tw_path w \<in> set (List.map_filter workflow_file entries)" "i < max_workflow_documents"
      "file_document E tr r revision (tw_path w) i doc" "parse_workflow E r revision (tw_path w) i doc = Inr found" "w \<in> set found"
    by blast
  have rev: "tw_revision w = revision" using read_workflow_files_facts [OF files assms(2)] by blast
  from w(2) obtain entry where entry: "entry \<in> set entries" "str_at entry [''type''] = Some ''file''"
    "str_at entry [''path''] = Some (tw_path w)" "starts_with (tw_path w) ''.tekton/''"
    by (auto simp: set_map_filter workflow_file_def split: if_splits)
  let ?tr = "x # y # tr"
  have "answered E ?tr (repository_url r []) [] metadata"
    "answered E ?tr (repository_url r [''contents'', ''.tekton'']) [(''ref'', revision)] (JArr entries)"
    using answered_mono [OF x(2), of ?tr] answered_mono [OF y(2), of ?tr] by (simp_all add: listing)
  with branch entry have "published_at E ?tr r revision (tw_path w)" unfolding published_at_def by blast
  moreover have "file_document E ?tr r revision (tw_path w) i doc" by (rule file_document_mono [OF w(4)]) auto
  ultimately show ?thesis using w x(1) y(1) rev by (intro exI [of _ ?tr] exI [of _ i]) auto
qed

lemma parse_workflow_document:
  assumes "parse_workflow libs r revision path i doc = Inr found" "w \<in> set found"
  shows "str_at doc [''kind''] = Some ''PipelineRun''" "definition_name doc = Some (tw_definition w)"
    "tw_id w = workflow_id libs r revision path i (tw_definition w)"
    "tw_triggerable w \<longleftrightarrow> ''incoming'' \<in> set (workflow_events (event_annotation doc))"
  using assms by (auto simp: parse_workflow_def Let_def list_ex_iff split: if_splits)

text \<open>
  C16: When a dispatch is accepted, the last request is the trigger, and it names a workflow that this very
  call has read.  The repository is the one of the given key in the listing of the repositories that was
  received; the workflow is a pipeline run that a document of a file under \<open>.tekton\<close> defines and that reacts to
  the event incoming; the file is in the listing, and with the content, that were received for the default branch
  that was received for the repository; and the digest of repository key, branch, path, document index and name
  is the identity that was asked for.
\<close>

theorem dispatch_triggers_requested_workflow:
  assumes "tekton_dispatch E c command s = (Inr v, s')"
  shows "\<exists>tr x item r revision path i doc name.
      ts_trace s' = ts_trace s @ tr @ [(pac_request c r name (wd_reference command) (wd_params command), x)]
    \<and> listed E tr (repositories_path c) item \<and> parse_repository E item (tcl_forgejo_origin c) = Some r
    \<and> tr_id r = wd_repository command
    \<and> published_at E tr r revision path \<and> file_document E tr r revision path i doc \<and> i < max_workflow_documents
    \<and> str_at doc [''kind''] = Some ''PipelineRun'' \<and> definition_name doc = Some name
    \<and> ''incoming'' \<in> set (workflow_events (event_annotation doc))
    \<and> wd_workflow command = workflow_id E r revision path i name
    \<and> str_at v [''status''] = Some ''accepted'' \<and> str_at v [''workflow''] = Some (wd_workflow command)"
proof -
  from assms obtain r t w ws u where
    r: "find_repository E c (wd_repository command) s = (Inr r, t)"
    and ws: "repository_workflows E c r t = (Inr ws, u)"
    and w: "List.find (\<lambda>w. tw_id w = wd_workflow command \<and> tw_triggerable w) ws = Some w"
    and sent: "send_pac E c r (tw_definition w) (wd_reference command) (wd_params command) u = (Inr (), s')"
    and v: "str_at v [''status''] = Some ''accepted''" "str_at v [''workflow''] = Some (tw_id w)"
    by (auto simp: tekton_dispatch_def triggerable_workflow_def io_simps tekton_lift_def str_at_def)
  from w have w: "w \<in> set ws" "tw_id w = wd_workflow command" "tw_triggerable w"
    by (auto simp: find_Some_iff)
  from find_repository_listed [OF r] obtain tr1 item where 1: "ts_trace t = ts_trace s @ tr1"
    "listed E tr1 (repositories_path c) item" "parse_repository E item (tcl_forgejo_origin c) = Some r"
    "tr_id r = wd_repository command" by blast
  from repository_workflows_published [OF ws w(1)] obtain tr2 i doc found where 2: "ts_trace u = ts_trace t @ tr2"
    "published_at E tr2 r (tw_revision w) (tw_path w)" "i < max_workflow_documents"
    "file_document E tr2 r (tw_revision w) (tw_path w) i doc"
    and found: "parse_workflow E r (tw_revision w) (tw_path w) i doc = Inr found" "w \<in> set found" by blast
  note doc = parse_workflow_document [OF found]
  obtain x where x: "ts_trace s' = ts_trace u @ [(pac_request c r (tw_definition w) (wd_reference command) (wd_params command), x)]"
    using send_pac_Inr [OF sent] by blast
  have "published_at E (tr1 @ tr2) r (tw_revision w) (tw_path w)"
    using 2(2) answered_append [of E tr2 _ _ _ tr1 "[]"] unfolding published_at_def append_Nil2 by blast
  moreover have "file_document E (tr1 @ tr2) r (tw_revision w) (tw_path w) i doc"
    by (rule file_document_mono [OF 2(4)]) auto
  moreover have "listed E (tr1 @ tr2) (repositories_path c) item" by (rule listed_mono [OF 1(2)]) auto
  ultimately show ?thesis
    using 1 2 doc w x v
    by (intro exI [of _ "tr1 @ tr2"] exI [of _ x] exI [of _ item] exI [of _ r] exI [of _ "tw_revision w"] exI [of _ "tw_path w"]
        exI [of _ i] exI [of _ doc] exI [of _ "tw_definition w"]) simp
qed

lemma demo_listed:
  assumes "listed demo_env tr path item" "parse_repository demo_env item (tcl_forgejo_origin demo_client) = Some r"
  shows "r = demo_repository"
proof -
  from assms(1) obtain b v page where "demo_document b = Some v" "array_at v [''items''] = Some page" "item \<in> set page"
    by (auto simp: listed_def answered_def demo_env_def)
  then have "item = JObj [(''metadata'', JObj [(''name'', JStr ''cr'')]), (''spec'', JObj [(''url'', JStr ''u'')])]"
    by (auto simp: demo_document_def array_at_def demo_run_def demo_task_def split: if_splits)
  with assms(2) demo_parse_repository show ?thesis by (simp add: demo_client_def)
qed

theorem dispatch_triggers_requested_workflow_witness:
  "\<exists>s' tr x revision path doc name. tekton_dispatch demo_env demo_client demo_command (demo_sys demo_answers) = (Inr demo_accepted, s')
     \<and> ts_trace s' = tr @ [(pac_request demo_client demo_repository name ''main'' [], x)]
     \<and> published_at demo_env tr demo_repository revision path
     \<and> file_document demo_env tr demo_repository revision path 0 doc \<and> definition_name doc = Some name"
proof -
  obtain s' where run: "tekton_dispatch demo_env demo_client demo_command (demo_sys demo_answers) = (Inr demo_accepted, s')"
    using demo_dispatch by blast
  have start: "ts_trace (demo_sys demo_answers) = []" "wd_reference demo_command = ''main''"
    "wd_params demo_command = []"
    by (simp_all add: demo_sys_def demo_command_def)
  from dispatch_triggers_requested_workflow [OF run] obtain tr x item r revision path i doc name where
    *: "ts_trace s' = tr @ [(pac_request demo_client r name ''main'' [], x)]"
      "listed demo_env tr (repositories_path demo_client) item" "parse_repository demo_env item (tcl_forgejo_origin demo_client) = Some r"
      "published_at demo_env tr r revision path" "file_document demo_env tr r revision path i doc" "definition_name doc = Some name"
    unfolding start append_Nil by blast
  from *(5) have "i = 0" by (auto simp: file_document_def demo_env_def)
  moreover from demo_listed [OF *(2,3)] have "r = demo_repository" .
  ultimately show ?thesis using run * by blast
qed

section \<open>Task logs\<close>

text \<open>
  What the entry of a step owes to the answer of the log request: the request is for the container and for no more
  bytes than are left, the text is what redacting the answer leaves, cut to these bytes, and the flags say what was cut.
\<close>

definition log_read ::
  "tekton_client \<Rightarrow> string \<Rightarrow> u16 \<Rightarrow> nat \<Rightarrow> string \<times> string \<Rightarrow> step_log \<Rightarrow> tekton_request \<times> http_exchange \<Rightarrow> bool" where
  "log_read c pod lines remaining step l exchange \<longleftrightarrow>
     (\<exists>tok response b hidden. 0 < remaining \<and> tok \<noteq> []
        \<and> exchange = (\<lparr>tq_method = M_Get, tq_url = kube_url (pod_path c pod @ ''/log''),
              tq_query = [(''container'', snd step), (''tailLines'', show_nat (unat lines)), (''limitBytes'', show_nat remaining)],
              tq_body = None, tq_merge_patch = False, tq_bearer = Some tok\<rparr>, HX_Response response)
        \<and> response_bytes OK_Read remaining response = Inr b
        \<and> hidden = str_replace (redact_all (tcl_redactions c) (from_utf8_lossy b)) tok redaction_mark
        \<and> sl_step l = fst step
        \<and> sl_text l = (if length hidden \<le> remaining then hidden else take (floor_char_boundary hidden remaining) hidden)
        \<and> (sl_byte_truncated l \<longleftrightarrow> remaining \<le> length b \<or> remaining < length hidden)
        \<and> (sl_tail_truncated l \<longleftrightarrow> unat lines \<le> length (str_lines (sl_text l)))
        \<and> (\<forall>secret\<in>set (tok # tcl_redactions c). redactable secret \<longrightarrow> \<not> str_contains (sl_text l) secret))"

fun steps_read ::
  "tekton_client \<Rightarrow> string \<Rightarrow> u16 \<Rightarrow> nat \<Rightarrow> (string \<times> string) list \<Rightarrow> step_log list \<Rightarrow> tekton_log \<Rightarrow> nat \<Rightarrow> bool" where
  "steps_read c pod lines remaining steps [] [] left \<longleftrightarrow> left = remaining \<and> (steps = [] \<or> remaining = 0)"
| "steps_read c pod lines remaining (step # steps) (l # logs) (x # reads) left \<longleftrightarrow>
     log_read c pod lines remaining step l x \<and> length (sl_text l) \<le> remaining
     \<and> steps_read c pod lines (remaining - length (sl_text l)) steps logs reads left"
| "steps_read c pod lines remaining _ _ _ left \<longleftrightarrow> False"

lemma kube_text_Inr:
  assumes "kube_text E path query limit s = (Inr (b, tok), s')"
  shows "\<exists>response. ts_trace s' = ts_trace s @ [(\<lparr>tq_method = M_Get, tq_url = kube_url path, tq_query = query, tq_body = None,
         tq_merge_patch = False, tq_bearer = Some tok\<rparr>, HX_Response response)]
     \<and> response_bytes OK_Read limit response = Inr b"
  using assms by (auto simp: kube_text_def io_simps dest!: kube_token_trace http_bytes_Inr)

lemma step_log_of_read:
  assumes "kube_text E (pod_path c pod @ ''/log'') [(''container'', snd step), (''tailLines'', show_nat (unat lines)),
      (''limitBytes'', show_nat remaining)] remaining s = (Inr (b, tok), s')" "0 < remaining"
    and "\<forall>x\<in>set (tcl_redactions c). x \<noteq> []"
  shows "\<exists>x. ts_trace s' = ts_trace s @ [x] \<and> log_read c pod lines remaining step (step_log_of c lines (fst step) remaining (b, tok)) x"
proof -
  let ?l = "step_log_of c lines (fst step) remaining (b, tok)" and ?t = "redact_log c tok (from_utf8_lossy b)"
  have "hides (tok # tcl_redactions c) (sl_text ?l)"
    using redact_log_hides [OF assms(3) kube_text_token [OF assms(1)]] hides_take step_log_text(1) by metis
  moreover have "sl_step ?l = fst step" "sl_text ?l = fst (tekton_truncate_utf8 ?t remaining)"
    "sl_byte_truncated ?l \<longleftrightarrow> remaining \<le> length b \<or> snd (tekton_truncate_utf8 ?t remaining)"
    "sl_tail_truncated ?l \<longleftrightarrow> unat lines \<le> length (str_lines (sl_text ?l))"
    by (simp_all add: step_log_of_def split: prod.splits)
  ultimately show ?thesis
    using kube_text_Inr [OF assms(1)] kube_text_token [OF assms(1)] assms(2)
    by (auto simp: log_read_def hides_def redact_log_def tekton_truncate_utf8_def)
qed

lemma read_step_logs_read:
  "read_step_logs E c pod lines remaining steps s = (Inr (logs, left), s') \<Longrightarrow>
     \<forall>x\<in>set (tcl_redactions c). x \<noteq> [] \<Longrightarrow>
     \<exists>reads. ts_trace s' = ts_trace s @ reads \<and> steps_read c pod lines remaining steps logs reads left"
proof (induction steps arbitrary: remaining s logs left)
  case Nil
  then show ?case by (auto simp: io_simps)
next
  case (Cons step steps)
  obtain name container where step: "step = (name, container)" by fastforce
  show ?case
  proof (cases "remaining = 0")
    case True
    with Cons.prems step show ?thesis by (auto simp: io_simps)
  next
    case False
    with Cons.prems(1) step obtain b tok t rest where
      get: "kube_text E (pod_path c pod @ ''/log'') [(''container'', snd step),
         (''tailLines'', show_nat (unat lines)), (''limitBytes'', show_nat remaining)] remaining s = (Inr (b, tok), t)"
      and rest: "read_step_logs E c pod lines
         (remaining - length (sl_text (step_log_of c lines name remaining (b, tok)))) steps t = (Inr (rest, left), s')"
      and logs: "logs = step_log_of c lines name remaining (b, tok) # rest"
      by (auto simp: io_simps Let_def)
    from step_log_of_read [OF get _ Cons.prems(2)] False obtain x where
      "ts_trace t = ts_trace s @ [x]" "log_read c pod lines remaining step (step_log_of c lines name remaining (b, tok)) x"
      by (auto simp: step)
    with Cons.IH [OF rest Cons.prems(2)] step_log_text(2) show ?thesis by (fastforce simp: logs)
  qed
qed

lemma steps_read_sum:
  "steps_read c pod lines remaining steps logs reads left \<Longrightarrow>
     sum_list (map (\<lambda>l. length (sl_text l)) logs) + left = remaining \<and> length logs \<le> length steps
     \<and> map sl_step logs = map fst (take (length logs) steps)"
  by (induction c pod lines remaining steps logs reads left rule: steps_read.induct) (auto simp: log_read_def)

lemma task_object_Inr:
  assumes "task_object E c ident s = (Inr v, s')"
  shows "\<exists>x namespace name. ts_trace s' = ts_trace s @ [x] \<and> namespaced_id ident (tcl_namespace c) = Inr (namespace, name)
    \<and> answered E [x] (kube_url (tasks_path c @ ''/'' @ name)) [] v"
  using assms by (auto simp: task_object_def io_simps tekton_lift_def dest!: kube_get_Inr)

lemma verify_task_pod_Inr:
  assumes "verify_task_pod E c task pod s = (Inr (), s')"
  shows "\<exists>x found name uid. ts_trace s' = ts_trace s @ [x] \<and> answered E [x] (kube_url (pod_path c pod)) [] found
    \<and> object_name task = Some name \<and> object_uid task = Some uid \<and> owned_by found ''TaskRun'' name uid"
  using assms by (auto simp: verify_task_pod_def io_simps tekton_lift_def dest!: kube_get_Inr)

text \<open>
  C17: A log result has one entry for each of the steps of the task that were asked for, in order, up to eight
  of them or until the bytes are used up, and says whether steps were left out.  The task and the pod that it
  owns are those of answers of this very call.  Each entry owes its text to the answer of a request for the log
  of its container: secrets the client holds and the token that authorised that request are replaced, the rest is
  cut to the bytes that are left, the flags say if bytes or lines are missing, and the bytes
  of all texts and those left over make up the number that was asked for.  So no text contains one of these secrets,
  unless it has a bracket in it or is a part of the word REDACTED.
\<close>

theorem task_logs_bounded_and_redacted:
  assumes "tekton_logs E c q s = (Inr v, s')" "\<forall>x\<in>set (tcl_redactions c). x \<noteq> []"
  shows "\<exists>checks reads namespace task_name task pod found uid available logs left.
      ts_trace s' = ts_trace s @ checks @ reads
    \<and> namespaced_id (lq_task_id q) (tcl_namespace c) = Inr (namespace, task_name)
    \<and> answered E checks (kube_url (tasks_path c @ ''/'' @ task_name)) [] task \<and> str_at task [''status'', ''podName''] = Some pod
    \<and> answered E checks (kube_url (pod_path c pod)) [] found
    \<and> (\<exists>name. object_name task = Some name \<and> object_uid task = Some uid \<and> owned_by found ''TaskRun'' name uid)
    \<and> array_at task [''status'', ''steps''] = Some available
    \<and> v = logs_result q (8 < length (selected_steps (lq_step q) available)) (logs, left)
    \<and> steps_read c pod (lq_tail_lines q) (unat (lq_max_bytes q)) (take 8 (selected_steps (lq_step q) available)) logs reads left
    \<and> length logs \<le> 8 \<and> sum_list (map (\<lambda>l. length (sl_text l)) logs) + left = unat (lq_max_bytes q)
    \<and> (\<forall>l\<in>set logs. \<forall>step. lq_step q = Some step \<longrightarrow> sl_step l = step)
    \<and> (\<forall>l\<in>set logs. \<forall>secret\<in>set (tcl_redactions c). redactable secret \<longrightarrow> \<not> str_contains (sl_text l) secret)"
proof -
  from assms(1) obtain run r t u w task pod available logs left where
    owned: "owned_run E c (lq_run_id q) s = (Inr (run, r), t)"
    and task: "task_object E c (lq_task_id q) t = (Inr task, u)"
    and pod: "str_at task [''status'', ''podName''] = Some pod"
    and verified: "verify_task_pod E c task pod u = (Inr (), w)"
    and available: "array_at task [''status'', ''steps''] = Some available"
    and read: "read_step_logs E c pod (lq_tail_lines q) (unat (lq_max_bytes q))
       (take max_log_steps (selected_steps (lq_step q) available)) w = (Inr (logs, left), s')"
    and v: "v = logs_result q (max_log_steps < length (selected_steps (lq_step q) available)) (logs, left)"
    by (auto simp: tekton_logs_def io_simps tekton_lift_def tekton_fail_def Let_def split: if_splits)
  obtain tr where tr: "ts_trace t = ts_trace s @ tr" using reads_only_trace [OF io_relD [OF owned_run_reads owned]] by blast
  from task_object_Inr [OF task] obtain x namespace task_name where x: "ts_trace u = ts_trace t @ [x]"
    "namespaced_id (lq_task_id q) (tcl_namespace c) = Inr (namespace, task_name)"
    "answered E [x] (kube_url (tasks_path c @ ''/'' @ task_name)) [] task" by blast
  from verify_task_pod_Inr [OF verified] obtain y found name uid where y: "ts_trace w = ts_trace u @ [y]"
    "answered E [y] (kube_url (pod_path c pod)) [] found" "object_name task = Some name" "object_uid task = Some uid"
    "owned_by found ''TaskRun'' name uid" by blast
  from read_step_logs_read [OF read assms(2)] obtain reads where reads: "ts_trace s' = ts_trace w @ reads"
    "steps_read c pod (lq_tail_lines q) (unat (lq_max_bytes q)) (take 8 (selected_steps (lq_step q) available)) logs reads left"
    by (auto simp: max_log_steps_def)
  let ?checks = "tr @ [x, y]"
  have "answered E ?checks (kube_url (tasks_path c @ ''/'' @ task_name)) [] task" by (rule answered_mono [OF x(3)]) auto
  moreover have "answered E ?checks (kube_url (pod_path c pod)) [] found" by (rule answered_mono [OF y(2)]) auto
  moreover have "ts_trace s' = ts_trace s @ ?checks @ reads" using tr x y reads by simp
  moreover have "sl_step l \<in> fst ` set (selected_steps (lq_step q) available)" if "l \<in> set logs" for l
  proof -
    from steps_read_sum [OF reads(2)] have "sl_step l \<in> set (map fst (take (length logs) (take 8 (selected_steps (lq_step q) available))))"
      using that by (metis image_eqI set_map)
    then show ?thesis by (auto dest!: in_set_takeD)
  qed
  then have "\<forall>l\<in>set logs. \<forall>step. lq_step q = Some step \<longrightarrow> sl_step l = step"
    by (fastforce simp: selected_steps_def)
  moreover have "\<forall>l\<in>set logs. \<forall>secret\<in>set (tcl_redactions c). redactable secret \<longrightarrow> \<not> str_contains (sl_text l) secret"
    using read_step_logs_facts [OF read assms(2)] by (auto simp: list_all_iff hides_def)
  moreover have "length logs \<le> 8" using steps_read_sum [OF reads(2)] by simp
  moreover have "v = logs_result q (8 < length (selected_steps (lq_step q) available)) (logs, left)"
    using v by (simp add: max_log_steps_def)
  moreover have "\<exists>name. object_name task = Some name \<and> object_uid task = Some uid \<and> owned_by found ''TaskRun'' name uid"
    using y(3-5) by blast
  moreover note steps_read_sum [OF reads(2), THEN conjunct1] reads(2) x(2) pod available
  ultimately show ?thesis
    by - (rule exI [of _ ?checks], rule exI [of _ reads], rule exI [of _ namespace], rule exI [of _ task_name], rule exI [of _ task],
      rule exI [of _ pod], rule exI [of _ found], rule exI [of _ uid], rule exI [of _ available], rule exI [of _ logs],
      rule exI [of _ left], intro conjI, assumption+)
qed

lemma demo_task_read:
  assumes "answered demo_env tr u query task" "str_at task [''status'', ''podName''] = Some pod"
  shows "task = demo_task"
proof -
  from assms(1) obtain b where "demo_document b = Some task" by (auto simp: answered_def demo_env_def)
  with assms(2) show ?thesis by (auto simp: demo_document_def str_at_def demo_run_def split: if_splits)
qed

theorem task_logs_bounded_and_redacted_witness:
  "\<exists>v s' checks x l. tekton_logs demo_env demo_client demo_logs_query (demo_sys demo_log_answers) = (Inr v, s')
     \<and> ts_trace s' = checks @ [x] \<and> log_read demo_client ''pod'' 200 64 (''build'', ''step-build'') l x
     \<and> v = logs_result demo_logs_query False ([l], 64 - length (sl_text l)) \<and> \<not> str_contains (sl_text l) ''pw''"
proof -
  obtain v s' where run: "tekton_logs demo_env demo_client demo_logs_query (demo_sys demo_log_answers) = (Inr v, s')"
    using demo_logs by blast
  have secrets: "tcl_redactions demo_client = [''pw'']" by (simp add: demo_client_def)
  then have nonempty: "\<forall>x\<in>set (tcl_redactions demo_client). x \<noteq> []" by simp
  have start: "ts_trace (demo_sys demo_log_answers) = []" "lq_step demo_logs_query = None"
    "lq_tail_lines demo_logs_query = 200" "unat (lq_max_bytes demo_logs_query) = 64"
    by (simp_all add: demo_sys_def demo_logs_query_def)
  from task_logs_bounded_and_redacted [OF run nonempty] obtain checks reads u task pod available logs left where
    *: "ts_trace s' = checks @ reads" "answered demo_env checks u [] task" "str_at task [''status'', ''podName''] = Some pod"
      "array_at task [''status'', ''steps''] = Some available"
      "v = logs_result demo_logs_query (8 < length (selected_steps None available)) (logs, left)"
      "steps_read demo_client pod 200 64 (take 8 (selected_steps None available)) logs reads left"
    unfolding start append_Nil by blast
  have "task = demo_task" using demo_task_read *(2,3) .
  with *(3,4) demo_task_facts(3,6) have pod: "pod = ''pod''" and steps: "selected_steps None available = [(''build'', ''step-build'')]"
    by auto
  obtain l x where logs: "logs = [l]" "reads = [x]" and l: "log_read demo_client ''pod'' 200 64 (''build'', ''step-build'') l x"
    and left: "left = 64 - length (sl_text l)"
    using *(6) unfolding steps pod by (cases logs; cases reads) (auto elim: steps_read.elims)
  have "redactable ''pw''" by (simp add: redactable_def starts_with_def)
  with l secrets have "\<not> str_contains (sl_text l) ''pw''" by (auto simp: log_read_def)
  with run * logs l left steps show ?thesis by (intro exI conjI) auto
qed

end
