(* ===== verification/Deploy_World.thy ===== *)
theory Deploy_World
  imports Kube_Runner Inventory Http
begin

text \<open>
  What the deploys integration (\<open>src/integrations/deploys\<close>) shares: its errors, the failure
  diagnostics, paths, and the world a deploy acts on.

  A deploy acts on files, on two child processes and on the certificate authority.  Every such act is
  an event of the trace, with the answer that the environment, a \<open>deploy_env\<close>, gave to it, in the order
  in which it happens; \<open>DV_Report\<close> is the warning the diagnostics emit.  Paths are UTF-8 strings, as the
  configuration gives them, with \<open>/\<close> as the separator.
\<close>

section \<open>Errors\<close>

datatype deploy_error =
    DE_InvalidConfiguration
  | DE_InvalidCatalog
  | DE_DeployNotFound
  | DE_DeployUnavailable
  | DE_MissingHostPin
  | DE_Busy
  | DE_CredentialUnavailable
  | DE_CredentialInvalid
  | DE_ExecutionRejected
  | DE_Cancelled
  | DE_ExecutionOutcomeUnknown
  | DE_TimeoutOutcomeUnknown
  | DE_CancelledOutcomeUnknown
  | DE_OutputTooLargeOutcomeUnknown
  | DE_InvalidOutput

fun deploy_error_code :: "deploy_error \<Rightarrow> string" where
  "deploy_error_code DE_InvalidConfiguration = ''invalid_configuration''"
| "deploy_error_code DE_InvalidCatalog = ''invalid_catalog''"
| "deploy_error_code DE_DeployNotFound = ''deploy_not_found''"
| "deploy_error_code DE_DeployUnavailable = ''deploy_unavailable''"
| "deploy_error_code DE_MissingHostPin = ''missing_host_pin''"
| "deploy_error_code DE_Busy = ''deploy_busy''"
| "deploy_error_code DE_CredentialUnavailable = ''credential_unavailable''"
| "deploy_error_code DE_CredentialInvalid = ''credential_invalid''"
| "deploy_error_code DE_ExecutionRejected = ''execution_rejected''"
| "deploy_error_code DE_Cancelled = ''cancelled''"
| "deploy_error_code DE_ExecutionOutcomeUnknown = ''execution_outcome_unknown''"
| "deploy_error_code DE_TimeoutOutcomeUnknown = ''timeout_outcome_unknown''"
| "deploy_error_code DE_CancelledOutcomeUnknown = ''cancelled_outcome_unknown''"
| "deploy_error_code DE_OutputTooLargeOutcomeUnknown = ''output_too_large_outcome_unknown''"
| "deploy_error_code DE_InvalidOutput = ''invalid_output''"

section \<open>Failure classification\<close>

datatype failure_class =
    FC_NotFound
  | FC_PermissionDenied
  | FC_AlreadyExists
  | FC_Timeout
  | FC_NonzeroExit
  | FC_WaitFailed
  | FC_InvalidData
  | FC_SshHostKeyVerification
  | FC_SshAuthentication
  | FC_ConnectionUnavailable
  | FC_ConnectionTimeout
  | FC_NameResolution
  | FC_RuntimeSetup
  | FC_RemoteCommand
  | FC_Other

fun failure_class_str :: "failure_class \<Rightarrow> string" where
  "failure_class_str FC_NotFound = ''not_found''"
| "failure_class_str FC_PermissionDenied = ''permission_denied''"
| "failure_class_str FC_AlreadyExists = ''already_exists''"
| "failure_class_str FC_Timeout = ''timeout''"
| "failure_class_str FC_NonzeroExit = ''nonzero_exit''"
| "failure_class_str FC_WaitFailed = ''wait_failed''"
| "failure_class_str FC_InvalidData = ''invalid_data''"
| "failure_class_str FC_SshHostKeyVerification = ''ssh_host_key_verification''"
| "failure_class_str FC_SshAuthentication = ''ssh_authentication''"
| "failure_class_str FC_ConnectionUnavailable = ''connection_unavailable''"
| "failure_class_str FC_ConnectionTimeout = ''connection_timeout''"
| "failure_class_str FC_NameResolution = ''name_resolution''"
| "failure_class_str FC_RuntimeSetup = ''runtime_setup''"
| "failure_class_str FC_RemoteCommand = ''remote_command''"
| "failure_class_str FC_Other = ''other''"

text \<open>The kinds of \<open>std::io::ErrorKind\<close> the source tells apart.\<close>

datatype io_kind = IK_NotFound | IK_PermissionDenied | IK_AlreadyExists | IK_TimedOut | IK_InvalidData | IK_Other

fun classify_io :: "io_kind \<Rightarrow> failure_class" where
  "classify_io IK_NotFound = FC_NotFound"
| "classify_io IK_PermissionDenied = FC_PermissionDenied"
| "classify_io IK_AlreadyExists = FC_AlreadyExists"
| "classify_io IK_TimedOut = FC_Timeout"
| "classify_io IK_InvalidData = FC_InvalidData"
| "classify_io IK_Other = FC_Other"

text \<open>\<open>contains_bytes\<close> looks at the windows of the pattern's length, of which a shorter value has none.\<close>

definition contains_bytes :: "string \<Rightarrow> string \<Rightarrow> bool" where
  "contains_bytes text pat \<longleftrightarrow>
     list_ex (\<lambda>i. take (length pat) (drop i text) = pat) [0..<Suc (length text) - length pat]"

definition apostrophe :: string where
  "apostrophe = [CHR 0x27]"

definition classify_uv_stderr :: "string \<Rightarrow> failure_class" where
  "classify_uv_stderr stderr =
     (if contains_bytes stderr ''An exception occurred in:'' then FC_RuntimeSetup
      else if (contains_bytes stderr ''SSH host key error (Host key for ''
               \<and> contains_bytes stderr '' does not match.)'')
           \<or> contains_bytes stderr '' not found in known_hosts''
           \<or> (contains_bytes stderr (''Host key for server '' @ apostrophe)
               \<and> contains_bytes stderr (apostrophe @ '' does not match: got '' @ apostrophe))
        then FC_SshHostKeyVerification
      else if contains_bytes stderr ''Authentication failed.'' \<or> contains_bytes stderr ''Authentication failed:''
        then FC_SshAuthentication
      else if contains_bytes stderr ''Could not resolve hostname ('' then FC_NameResolution
      else if contains_bytes stderr ''Could not connect (timed out)''
           \<or> contains_bytes stderr ''Key-exchange timed out waiting for key negotiation''
        then FC_ConnectionTimeout
      else if contains_bytes stderr ''Could not connect (Unable to connect to port '' then FC_ConnectionUnavailable
      else FC_Other)"

definition system_info_begin :: string where
  "system_info_begin = ''HOMELAB_SYSTEM_INFO_V1_BEGIN'' @ [newline]"

definition system_info_end :: string where
  "system_info_end = ''HOMELAB_SYSTEM_INFO_V1_END'' @ [newline]"

definition uv_exit_class :: "string option \<Rightarrow> failure_class" where
  "uv_exit_class stderr =
     (case stderr of
        None \<Rightarrow> FC_WaitFailed
      | Some b \<Rightarrow>
          if contains_bytes b system_info_begin \<and> \<not> contains_bytes b system_info_end
          then FC_RemoteCommand else classify_uv_stderr b)"

section \<open>Paths\<close>

text \<open>
  \<open>Path::components\<close>: empty segments and a dot are dropped, except a dot that starts a relative path.
\<close>

datatype path_component = PC_RootDir | PC_CurDir | PC_ParentDir | PC_Normal string

definition component_of :: "string \<Rightarrow> path_component option" where
  "component_of seg =
     (if seg = [] \<or> seg = ''.'' then None
      else if seg = ''..'' then Some PC_ParentDir
      else Some (PC_Normal seg))"

definition path_components :: "string \<Rightarrow> path_component list" where
  "path_components path =
     (let segs = split_char (CHR ''/'') path in
      (if is_absolute path then [PC_RootDir] else if hd segs = ''.'' then [PC_CurDir] else [])
      @ List.map_filter component_of segs)"

definition path_starts_with :: "string \<Rightarrow> string \<Rightarrow> bool" where
  "path_starts_with path base \<longleftrightarrow> take (length (path_components base)) (path_components path) = path_components base"

definition path_join :: "string \<Rightarrow> string \<Rightarrow> string" where
  "path_join base path =
     (if is_absolute path then path
      else if base = [] \<or> last base = CHR ''/'' then base @ path
      else base @ ''/'' @ path)"

section \<open>The world of a deploy\<close>

text \<open>The requests to the certificate authority, and the command line and environment of the deploy.\<close>

record bao_request =
  br_path :: string
  br_token :: "string option"
  br_body :: json

record uv_command =
  uc_executable :: string
  uc_arguments :: "string list"
  uc_environment :: "(string \<times> string) list"
  uc_directory :: string

text \<open>
  How the key generation ends, and what the deploy process does: whether it could be spawned, whether
  its pipes are there, and the polls of the loop that waits for it.  A cancellation that arrives while
  an operation of the signer is pending drops that operation.
\<close>

datatype keygen_end =
    KG_SpawnFailed io_kind
  | KG_Exited "i32 option"
  | KG_WaitFailed
  | KG_Cancelled
  | KG_TimedOut

record uv_process =
  uv_spawn_error :: "io_kind option"
  uv_stdout_pipe :: bool
  uv_stderr_pipe :: bool
  uv_polls :: "worker_poll list"

text \<open>
  The events: the last argument is the answer, an \<open>io_kind option\<close> that is \<open>None\<close> if the act succeeded, what
  was read, how the key generation ended, or the exchange.  \<open>DV_Uv\<close> says whether the process was started;
  the result of removing the directory is ignored.
\<close>

datatype deploy_event =
    DV_Report string failure_class "i32 option"
  | DV_CreateDir string nat "io_kind option"
  | DV_Keygen "string list" keygen_end
  | DV_Chmod string nat "io_kind option"
  | DV_Read string "io_kind + string"
  | DV_Request bao_request http_exchange
  | DV_Write string string nat "io_kind option"
  | DV_Remove string "io_kind option"
  | DV_Uv uv_command bool
  | DV_RemoveDir string

record file_info =
  fi_is_file :: bool
  fi_len :: nat

record 's deploy_env =
  dn_cancelled :: "'s \<Rightarrow> bool \<times> 's"
  dn_random :: "'s \<Rightarrow> string option \<times> 's"
  dn_mkdir :: "string \<Rightarrow> 's \<Rightarrow> io_kind option \<times> 's"
  dn_keygen :: "string list \<Rightarrow> 's \<Rightarrow> keygen_end \<times> 's"
  dn_chmod :: "string \<Rightarrow> 's \<Rightarrow> io_kind option \<times> 's"
  dn_metadata :: "string \<Rightarrow> 's \<Rightarrow> (io_kind + file_info) \<times> 's"
  dn_read :: "string \<Rightarrow> 's \<Rightarrow> (io_kind + string) \<times> 's"
  dn_write :: "string \<Rightarrow> string \<Rightarrow> 's \<Rightarrow> io_kind option \<times> 's"
  dn_remove :: "string \<Rightarrow> 's \<Rightarrow> io_kind option \<times> 's"
  dn_exchange :: "bao_request \<Rightarrow> 's \<Rightarrow> http_exchange \<times> 's"
  dn_uv :: "uv_command \<Rightarrow> 's \<Rightarrow> uv_process \<times> 's"
  dn_remove_dir :: "string \<Rightarrow> 's \<Rightarrow> 's"

record 's deploy_sys =
  dy_trace :: "deploy_event list"
  dy_world :: 's

type_synonym ('s, 'e, 'a) deploy_io = "('s deploy_sys, 'e, 'a) io"

text \<open>\<open>ask\<close> is a look at the world that is not recorded; \<open>act\<close> is an act, which is recorded with its answer.\<close>

definition ask :: "('s \<Rightarrow> 'a \<times> 's) \<Rightarrow> ('s, 'e, 'a) deploy_io" where
  "ask f = (\<lambda>s. let (a, w) = f (dy_world s) in (Inr a, s\<lparr>dy_world := w\<rparr>))"

definition act :: "('a \<Rightarrow> deploy_event) \<Rightarrow> ('s \<Rightarrow> 'a \<times> 's) \<Rightarrow> ('s, 'e, 'a) deploy_io" where
  "act ev f = (\<lambda>s. let (a, w) = f (dy_world s) in (Inr a, s\<lparr>dy_trace := dy_trace s @ [ev a], dy_world := w\<rparr>))"

definition report :: "string \<Rightarrow> failure_class \<Rightarrow> i32 option \<Rightarrow> ('s, 'e, unit) deploy_io" where
  "report stage class code = act (\<lambda>_. DV_Report stage class code) (\<lambda>w. ((), w))"

definition fail_with :: "string \<Rightarrow> failure_class \<Rightarrow> i32 option \<Rightarrow> 'e \<Rightarrow> ('s, 'e, 'a) deploy_io" where
  "fail_with stage class code e = io_bind (report stage class code) (\<lambda>_. io_throw e)"

text \<open>\<open>or_report stage e r\<close> is \<open>map_err\<close> with a report: a failed operation ends with \<open>e\<close>.\<close>

definition or_report :: "string \<Rightarrow> 'e \<Rightarrow> io_kind option \<Rightarrow> ('s, 'e, unit) deploy_io" where
  "or_report stage e r =
     (case r of None \<Rightarrow> io_return () | Some k \<Rightarrow> fail_with stage (classify_io k) None e)"

definition report_read :: "string \<Rightarrow> 'e \<Rightarrow> io_kind + 'a \<Rightarrow> ('s, 'e, 'a) deploy_io" where
  "report_read stage e r =
     (case r of Inr a \<Rightarrow> io_return a | Inl k \<Rightarrow> fail_with stage (classify_io k) None e)"

end
