(* ===== verification/Deploy_Catalog.thy ===== *)
theory Deploy_Catalog
  imports Deploy_World
begin

text \<open>
  The catalog of deploys (\<open>src/integrations/deploys/catalog.rs\<close>): which deploys exist, which of them
  may be started through the server, and where their files are.  Reading JSON into a \<open>catalog_file\<close> is
  the parameter \<open>decode\<close> (serde); the file system of the start-up is a \<open>catalog_fs\<close>.
\<close>

section \<open>Data\<close>

datatype risk = Risk_Low | Risk_Medium | Risk_High

record deploy_entry =
  de_id :: string
  de_description :: string
  de_entrypoint :: string
  de_inventory :: string
  de_risk :: risk
  de_local_available :: bool
  de_mcp_available :: bool
  de_distributions :: "string list"
  de_timeout_seconds :: u64
  de_requires_sudo :: bool
  de_mutating :: bool

record catalog_file =
  cf_version :: u8
  cf_deploys :: "deploy_entry list"

record deploy_metadata =
  dm_id :: string
  dm_description :: string
  dm_risk :: risk
  dm_local_available :: bool
  dm_mcp_available :: bool
  dm_distributions :: "string list"
  dm_timeout_seconds :: u64
  dm_requires_sudo :: bool
  dm_mutating :: bool

record deploy_catalog =
  dc_root :: string
  dc_entries :: "deploy_entry list"

record resolved_deploy =
  rd_root :: string
  rd_entrypoint :: string
  rd_inventory :: string
  rd_timeout_seconds :: u64

record catalog_fs =
  fs_canonical :: "string \<Rightarrow> string option"
  fs_info :: "string \<Rightarrow> file_info option"
  fs_bytes :: "string \<Rightarrow> string option"

definition max_catalog_bytes :: nat where
  "max_catalog_bytes = 64 * 1024"

section \<open>Loading\<close>

definition valid_deploy_id :: "string \<Rightarrow> bool" where
  "valid_deploy_id s \<longleftrightarrow>
     s \<noteq> [] \<and> length s \<le> 64 \<and> \<not> starts_with s ''-''
     \<and> list_all (\<lambda>c. ascii_lowercase c \<or> ascii_digit c \<or> c = of_char (CHR ''-'')) (chars s)"

text \<open>\<open>Path::is_file\<close> is false where the metadata cannot be read.\<close>

definition path_is_file :: "catalog_fs \<Rightarrow> string \<Rightarrow> bool" where
  "path_is_file fs path = (case fs_info fs path of None \<Rightarrow> False | Some info \<Rightarrow> fi_is_file info)"

definition confine_file :: "catalog_fs \<Rightarrow> string \<Rightarrow> string \<Rightarrow> deploy_error + unit" where
  "confine_file fs base relative =
     (if is_absolute relative \<or> PC_ParentDir \<in> set (path_components relative) then Inl DE_InvalidCatalog
      else
        and_then (ok_or (fs_canonical fs (path_join base relative)) DE_InvalidCatalog) (\<lambda>canonical.
          if \<not> path_starts_with canonical base \<or> \<not> path_is_file fs canonical
          then Inl DE_InvalidCatalog else Inr ()))"

definition check_entry :: "catalog_fs \<Rightarrow> string \<Rightarrow> deploy_entry list \<Rightarrow> deploy_entry \<Rightarrow> deploy_error + unit" where
  "check_entry fs base before entry =
     (if \<not> valid_deploy_id (de_id entry)
         \<or> de_description entry = []
         \<or> 512 < length (de_description entry)
         \<or> de_timeout_seconds entry = 0
         \<or> 900 < de_timeout_seconds entry
         \<or> de_distributions entry = []
         \<or> list_ex (\<lambda>other. de_id other = de_id entry) before
      then Inl DE_InvalidCatalog
      else
        and_then (confine_file fs base (de_entrypoint entry)) (\<lambda>_.
          confine_file fs base (de_inventory entry)))"

fun check_entries :: "catalog_fs \<Rightarrow> string \<Rightarrow> deploy_entry list \<Rightarrow> deploy_entry list \<Rightarrow> deploy_error + unit" where
  "check_entries fs base before [] = Inr ()"
| "check_entries fs base before (entry # rest) =
     and_then (check_entry fs base before entry) (\<lambda>_. check_entries fs base (before @ [entry]) rest)"

definition deploy_catalog_load ::
  "(string \<Rightarrow> catalog_file option) \<Rightarrow> catalog_fs \<Rightarrow> string \<Rightarrow> string \<Rightarrow> deploy_error + deploy_catalog" where
  "deploy_catalog_load decode fs base catalog =
     (if \<not> is_absolute base \<or> \<not> is_absolute catalog then Inl DE_InvalidConfiguration
      else
        and_then (ok_or (fs_canonical fs base) DE_InvalidCatalog) (\<lambda>base.
        and_then (ok_or (fs_info fs catalog) DE_InvalidCatalog) (\<lambda>metadata.
        and_then (guard_or (fi_is_file metadata \<and> fi_len metadata \<le> max_catalog_bytes) DE_InvalidCatalog) (\<lambda>_.
        and_then (ok_or (fs_bytes fs catalog) DE_InvalidCatalog) (\<lambda>content.
        and_then (ok_or (decode content) DE_InvalidCatalog) (\<lambda>parsed.
          if cf_version parsed \<noteq> 1 \<or> cf_deploys parsed = [] \<or> 64 < length (cf_deploys parsed)
          then Inl DE_InvalidCatalog
          else
            and_then (check_entries fs base [] (cf_deploys parsed)) (\<lambda>_.
              Inr \<lparr>dc_root = base, dc_entries = cf_deploys parsed\<rparr>)))))))"

section \<open>Listing and resolving\<close>

definition entry_metadata :: "deploy_entry \<Rightarrow> deploy_metadata" where
  "entry_metadata e = \<lparr>dm_id = de_id e, dm_description = de_description e, dm_risk = de_risk e,
     dm_local_available = de_local_available e, dm_mcp_available = de_mcp_available e,
     dm_distributions = de_distributions e, dm_timeout_seconds = de_timeout_seconds e,
     dm_requires_sudo = de_requires_sudo e, dm_mutating = de_mutating e\<rparr>"

definition deploy_list :: "deploy_catalog \<Rightarrow> deploy_metadata list" where
  "deploy_list c = map entry_metadata (dc_entries c)"

definition deploy_resolve :: "deploy_catalog \<Rightarrow> string \<Rightarrow> deploy_error + resolved_deploy" where
  "deploy_resolve c i =
     (if \<not> valid_deploy_id i then Inl DE_DeployNotFound
      else
        and_then (ok_or (List.find (\<lambda>e. de_id e = i) (dc_entries c)) DE_DeployNotFound) (\<lambda>entry.
          if \<not> de_mcp_available entry then Inl DE_DeployUnavailable
          else Inr \<lparr>rd_root = dc_root c, rd_entrypoint = de_entrypoint entry,
                    rd_inventory = de_inventory entry, rd_timeout_seconds = de_timeout_seconds entry\<rparr>))"

section \<open>What a loaded catalog guarantees\<close>

definition confined :: "catalog_fs \<Rightarrow> string \<Rightarrow> string \<Rightarrow> bool" where
  "confined fs base relative \<longleftrightarrow>
     \<not> is_absolute relative \<and> PC_ParentDir \<notin> set (path_components relative)
     \<and> (\<exists>canonical. fs_canonical fs (path_join base relative) = Some canonical
          \<and> path_starts_with canonical base \<and> path_is_file fs canonical)"

definition entry_ok :: "catalog_fs \<Rightarrow> string \<Rightarrow> deploy_entry \<Rightarrow> bool" where
  "entry_ok fs base e \<longleftrightarrow>
     valid_deploy_id (de_id e) \<and> de_description e \<noteq> [] \<and> length (de_description e) \<le> 512
     \<and> 1 \<le> unat (de_timeout_seconds e) \<and> unat (de_timeout_seconds e) \<le> 900 \<and> de_distributions e \<noteq> []
     \<and> confined fs base (de_entrypoint e) \<and> confined fs base (de_inventory e)"

lemma confine_file_iff: "confine_file fs base relative = Inr () \<longleftrightarrow> confined fs base relative"
  by (auto simp: confine_file_def confined_def)

lemma check_entry_iff:
  "check_entry fs base before e = Inr () \<longleftrightarrow> entry_ok fs base e \<and> de_id e \<notin> de_id ` set before"
proof -
  have "(de_timeout_seconds e \<noteq> 0 \<and> \<not> 900 < de_timeout_seconds e) \<longleftrightarrow>
    1 \<le> unat (de_timeout_seconds e) \<and> unat (de_timeout_seconds e) \<le> 900"
    by (simp add: word_less_nat_alt unat_eq_0 [symmetric] Suc_le_eq not_less del: unat_eq_0)
  moreover have "list_ex (\<lambda>other. de_id other = de_id e) before \<longleftrightarrow> de_id e \<in> de_id ` set before"
    by (induction before) auto
  ultimately show ?thesis
    by (auto simp: check_entry_def entry_ok_def confine_file_iff)
qed

lemma check_entries_iff:
  "check_entries fs base before es = Inr () \<longleftrightarrow>
     list_all (entry_ok fs base) es \<and> distinct (map de_id es) \<and> de_id ` set before \<inter> de_id ` set es = {}"
  by (induction es arbitrary: before) (auto simp: check_entry_iff)

lemma deploy_catalog_load_Inr:
  assumes "deploy_catalog_load decode fs base catalog = Inr c"
  shows "fs_canonical fs base = Some (dc_root c)"
    and "list_all (entry_ok fs (dc_root c)) (dc_entries c)" "distinct (map de_id (dc_entries c))"
    and "dc_entries c \<noteq> []" "length (dc_entries c) \<le> 64"
  using assms by (auto simp: deploy_catalog_load_def check_entries_iff split: if_splits)

lemma find_distinct:
  "distinct (map f xs) \<Longrightarrow> x \<in> set xs \<Longrightarrow> List.find (\<lambda>y. f y = f x) xs = Some x"
  by (induction xs) (auto simp: image_iff)

lemma deploy_resolve_Inr:
  "deploy_resolve c i = Inr d \<Longrightarrow> \<exists>e\<in>set (dc_entries c). de_id e = i \<and> de_mcp_available e
     \<and> d = \<lparr>rd_root = dc_root c, rd_entrypoint = de_entrypoint e, rd_inventory = de_inventory e,
            rd_timeout_seconds = de_timeout_seconds e\<rparr>"
  by (auto simp: deploy_resolve_def find_Some_iff split: if_splits)

end
