(* ===== verification/Deploy_Output.thy ===== *)
theory Deploy_Output
  imports Deploy_World
begin

text \<open>
  Reading the output of the \<open>system-info\<close> deploy (\<open>src/integrations/deploys/normalize.rs\<close>): eleven
  delimited sections between two marks, with anything around the marks ignored.  \<open>print_info\<close> is the
  reference: what the deploy script writes.
\<close>

definition section_names :: "string list" where
  "section_names = [''hostname'', ''uptime'', ''boot_time'', ''os_release'', ''kernel_arch'', ''cpu'',
     ''memory'', ''filesystems'', ''block_devices'', ''interfaces'']"

definition optional_section :: string where
  "optional_section = ''default_routes''"

definition max_section_bytes :: nat where
  "max_section_bytes = 32 * 1024"

type_synonym system_info = "(string, string) btree"

definition end_mark :: string where
  "end_mark = ''HOMELAB_SYSTEM_INFO_V1_END''"

definition section_begin :: "string \<Rightarrow> string" where
  "section_begin name = ''--- '' @ name @ '' BEGIN ---'' @ [newline]"

definition section_finish :: "string \<Rightarrow> string" where
  "section_finish name = [newline] @ ''--- '' @ name @ '' END ---'' @ [newline]"

fun read_sections :: "string list \<Rightarrow> system_info \<Rightarrow> string \<Rightarrow> deploy_error + system_info" where
  "read_sections [] sections remaining =
     (if remaining \<noteq> [] then Inl DE_InvalidOutput else Inr sections)"
| "read_sections (name # names) sections remaining =
     and_then (ok_or (strip_prefix remaining (section_begin name)) DE_InvalidOutput) (\<lambda>remaining.
     and_then (ok_or (str_find remaining (section_finish name)) DE_InvalidOutput) (\<lambda>section_end.
       let content = take section_end remaining in
       if max_section_bytes < length content \<or> 0 \<in> set (chars content) then Inl DE_InvalidOutput
       else read_sections names (bt_insert name content sections)
              (drop (section_end + length (section_finish name)) remaining)))"

definition system_info :: "string \<Rightarrow> deploy_error + system_info" where
  "system_info stdout =
     (if \<not> utf8_valid stdout then Inl DE_InvalidOutput
      else
        and_then (ok_or (str_find stdout system_info_begin) DE_InvalidOutput) (\<lambda>start.
        let rest = drop (start + length system_info_begin) stdout in
        and_then (ok_or (str_find rest end_mark) DE_InvalidOutput) (\<lambda>end'.
          if str_contains (drop (end' + length end_mark) rest) end_mark then Inl DE_InvalidOutput
          else read_sections (section_names @ [optional_section]) [] (take end' rest))))"

section \<open>What is accepted\<close>

definition all_sections :: "string list" where
  "all_sections = section_names @ [optional_section]"

definition print_section :: "string \<Rightarrow> string \<Rightarrow> string" where
  "print_section name content = section_begin name @ content @ section_finish name"

definition print_sections :: "(string \<times> string) list \<Rightarrow> string" where
  "print_sections infos = concat (map (\<lambda>(name, content). print_section name content) infos)"

text \<open>
  The content of a section can be told from its end: the end line does not occur earlier, even across
  the border of the content.
\<close>

definition section_ok :: "string \<Rightarrow> string \<Rightarrow> bool" where
  "section_ok name content \<longleftrightarrow>
     length content \<le> max_section_bytes \<and> 0 \<notin> set (chars content)
     \<and> str_find (content @ section_finish name) (section_finish name) = Some (length content)"

lemma str_find_prefix:
  "str_find (a @ pat) pat = Some (length a) \<Longrightarrow> str_find (a @ pat @ r) pat = Some (length a)"
proof (induction a)
  case Nil
  have "starts_with s pat \<Longrightarrow> str_find s pat = Some 0" for s
    by (cases s) (auto simp: starts_with_def)
  then show ?case by simp
next
  case (Cons c a)
  show ?case
  proof (cases "starts_with (c # a @ pat) pat")
    case True
    with Cons.prems show ?thesis by simp
  next
    case False
    then have "\<not> starts_with (c # a @ pat @ r) pat"
      by (auto simp: starts_with_def take_Cons split: nat.splits)
    with False Cons show ?thesis by auto
  qed
qed

lemma str_find_at:
  "str_find s pat = Some i \<longleftrightarrow>
     (\<exists>a r. s = a @ pat @ r \<and> length a = i \<and> str_find (a @ pat) pat = Some (length a))"
proof
  assume f: "str_find s pat = Some i"
  let ?a = "take i s" and ?r = "drop (i + length pat) s"
  have s: "s = ?a @ pat @ ?r" "length ?a = i" using str_find_Some [OF f] by auto
  have "str_find (?a @ pat) pat = Some i"
    using f
  proof (induction s arbitrary: i)
    case Nil
    then show ?case by (auto split: if_splits)
  next
    case (Cons c cs)
    show ?case
    proof (cases "starts_with (c # cs) pat")
      case True
      with Cons.prems show ?thesis by (cases pat) (auto simp: starts_with_def)
    next
      case False
      with Cons.prems obtain j where j: "str_find cs pat = Some j" "i = Suc j" by auto
      have "take j cs @ pat = take (j + length pat) cs"
        using str_find_Some [OF j(1)] by (metis append.assoc append_eq_conv_conj length_append length_take min.absorb2 add_leE)
      then have "\<not> starts_with (c # take j cs @ pat) pat"
        using False by (auto simp: starts_with_def take_Cons min_def split: nat.splits if_splits)
      with Cons.IH [OF j(1)] j(2) show ?thesis by simp
    qed
  qed
  with s show "\<exists>a r. s = a @ pat @ r \<and> length a = i \<and> str_find (a @ pat) pat = Some (length a)" by metis
next
  assume "\<exists>a r. s = a @ pat @ r \<and> length a = i \<and> str_find (a @ pat) pat = Some (length a)"
  then show "str_find s pat = Some i" using str_find_prefix by blast
qed

lemma read_sections_iff:
  "read_sections names acc remaining = Inr info \<longleftrightarrow>
     (\<exists>infos. map fst infos = names \<and> (\<forall>(name, content)\<in>set infos. section_ok name content)
        \<and> remaining = print_sections infos \<and> info = fold (\<lambda>(k, v). bt_insert k v) infos acc)"
proof (induction names arbitrary: acc remaining)
  case Nil
  then show ?case by (auto simp: print_sections_def)
next
  case (Cons name names)
  have step: "read_sections (name # names) acc remaining = Inr info \<longleftrightarrow>
     (\<exists>content rest. remaining = print_section name content @ rest \<and> section_ok name content
        \<and> read_sections names (bt_insert name content acc) rest = Inr info)"
    (is "?l \<longleftrightarrow> ?r")
  proof
    assume ?l
    then obtain r1 i where r1: "strip_prefix remaining (section_begin name) = Some r1"
      and i: "str_find r1 (section_finish name) = Some i"
      and b: "length (take i r1) \<le> max_section_bytes" "0 \<notin> set (chars (take i r1))"
      and rd: "read_sections names (bt_insert name (take i r1) acc)
        (drop (i + length (section_finish name)) r1) = Inr info"
      by (auto simp: Let_def split: if_splits)
    from iffD1 [OF str_find_at i] obtain a r where a: "r1 = a @ section_finish name @ r" "length a = i"
      "str_find (a @ section_finish name) (section_finish name) = Some (length a)"
      by blast
    from r1 have "remaining = section_begin name @ r1"
      by (auto simp: strip_prefix_def starts_with_iff split: if_splits)
    with a b rd show ?r
      by - (rule exI [of _ a], rule exI [of _ r], simp add: print_section_def section_ok_def)
  next
    assume ?r
    then obtain content rest where r: "remaining = print_section name content @ rest"
      and ok: "section_ok name content"
      and rd: "read_sections names (bt_insert name content acc) rest = Inr info" by auto
    let ?r1 = "content @ section_finish name @ rest"
    have "strip_prefix remaining (section_begin name) = Some ?r1"
      by (simp add: r print_section_def strip_prefix_def)
    moreover have "str_find ?r1 (section_finish name) = Some (length content)"
      using ok str_find_prefix by (auto simp: section_ok_def)
    ultimately show ?l using ok rd by (simp add: section_ok_def)
  qed
  show ?case unfolding step Cons.IH
  proof (intro iffI; elim exE conjE)
    fix content rest infos
    assume "remaining = print_section name content @ rest" "section_ok name content"
      and "map fst infos = names" "\<forall>(name, content)\<in>set infos. section_ok name content"
      and "rest = print_sections infos"
      and "info = fold (\<lambda>(k, v). bt_insert k v) infos (bt_insert name content acc)"
    then show "\<exists>infos. map fst infos = name # names \<and> (\<forall>(name, content)\<in>set infos. section_ok name content)
      \<and> remaining = print_sections infos \<and> info = fold (\<lambda>(k, v). bt_insert k v) infos acc"
      by (intro exI [of _ "(name, content) # infos"]) (simp add: print_sections_def)
  next
    fix infos
    assume m: "map fst infos = name # names" and "\<forall>(name, content)\<in>set infos. section_ok name content"
      and "remaining = print_sections infos" "info = fold (\<lambda>(k, v). bt_insert k v) infos acc"
    moreover from m obtain content infos' where "infos = (name, content) # infos'" "map fst infos' = names"
      by (cases infos) auto
    ultimately show "\<exists>content rest. remaining = print_section name content @ rest \<and> section_ok name content
      \<and> (\<exists>infos. map fst infos = names \<and> (\<forall>(name, content)\<in>set infos. section_ok name content)
           \<and> rest = print_sections infos
           \<and> info = fold (\<lambda>(k, v). bt_insert k v) infos (bt_insert name content acc))"
      by (intro exI [of _ content] exI [of _ "print_sections infos'"] conjI exI [of _ infos'])
        (simp_all add: print_sections_def)
  qed
qed

text \<open>What the deploy script writes, and what may surround it.\<close>

definition print_info :: "(string \<times> string) list \<Rightarrow> string" where
  "print_info infos = system_info_begin @ print_sections infos @ end_mark"

definition payload_ok :: "(string \<times> string) list \<Rightarrow> bool" where
  "payload_ok infos \<longleftrightarrow>
     map fst infos = all_sections \<and> (\<forall>(name, content)\<in>set infos. section_ok name content)
     \<and> str_find (print_sections infos @ end_mark) end_mark = Some (length (print_sections infos))"

lemma system_info_iff:
  "system_info out = Inr info \<longleftrightarrow>
     (\<exists>pre infos post. out = pre @ print_info infos @ post \<and> utf8_valid out
        \<and> str_find (pre @ system_info_begin) system_info_begin = Some (length pre)
        \<and> \<not> str_contains post end_mark \<and> payload_ok infos
        \<and> info = fold (\<lambda>(k, v). bt_insert k v) infos [])" (is "?l \<longleftrightarrow> ?r")
proof
  assume ?l
  then obtain i j where u: "utf8_valid out" and i: "str_find out system_info_begin = Some i"
    and j: "str_find (drop (i + length system_info_begin) out) end_mark = Some j"
    and n: "\<not> str_contains (drop (j + length end_mark) (drop (i + length system_info_begin) out)) end_mark"
    and rd: "read_sections all_sections [] (take j (drop (i + length system_info_begin) out)) = Inr info"
    by (auto simp: system_info_def Let_def all_sections_def split: if_splits simp del: drop_drop)
  from iffD1 [OF str_find_at i] obtain pre r where pre: "out = pre @ system_info_begin @ r" "length pre = i"
    "str_find (pre @ system_info_begin) system_info_begin = Some (length pre)" by blast
  then have d: "drop (i + length system_info_begin) out = r" by simp
  from iffD1 [OF str_find_at j] obtain p post where p: "r = p @ end_mark @ post" "length p = j"
    "str_find (p @ end_mark) end_mark = Some (length p)" unfolding d by blast
  have "\<not> str_contains post end_mark" using n p d by simp
  moreover have "read_sections all_sections [] p = Inr info" using rd p d by simp
  ultimately show ?r using u pre p unfolding read_sections_iff
    by (auto simp: print_info_def payload_ok_def)
next
  assume ?r
  then obtain pre infos post where out: "out = pre @ print_info infos @ post" and u: "utf8_valid out"
    and pre: "str_find (pre @ system_info_begin) system_info_begin = Some (length pre)"
    and n: "\<not> str_contains post end_mark" and p: "payload_ok infos"
    and info: "info = fold (\<lambda>(k, v). bt_insert k v) infos []" by blast
  have i: "str_find out system_info_begin = Some (length pre)"
    using str_find_prefix [OF pre] by (simp add: out print_info_def)
  have j: "str_find (print_sections infos @ end_mark @ post) end_mark = Some (length (print_sections infos))"
    using p by (intro str_find_prefix) (simp add: payload_ok_def)
  have "read_sections all_sections [] (print_sections infos) = Inr info"
    using p info by (auto simp: read_sections_iff payload_ok_def)
  then show ?l using u i j n
    by (simp add: system_info_def out print_info_def all_sections_def)
qed

definition infos_map :: "(string \<times> string) list \<Rightarrow> system_info" where
  "infos_map infos = fold (\<lambda>(k, v). bt_insert k v) infos []"

lemma infos_map_get:
  assumes "map fst infos = all_sections"
  shows "bt_get (infos_map infos) name = map_of infos name"
proof -
  have "distinct (map fst infos)"
    unfolding assms by (simp add: all_sections_def section_names_def optional_section_def)
  then show ?thesis using bt.lookup_fold_insert [of "[]" infos name]
    by (simp add: infos_map_def bt_ok_def split: option.splits)
qed

text \<open>
  C26: the output of the deploy is read exactly when it is valid UTF-8 and consists of one printed
  report with the eleven sections in their order between anything before its begin mark and anything
  after its end mark that has no second end mark; the result holds the printed contents, each of at
  most 32 KiB and without a NUL.
\<close>

theorem system_info_reads_printed_report:
  "system_info out = Inr info \<longleftrightarrow>
     (\<exists>pre infos post. out = pre @ print_info infos @ post \<and> utf8_valid out
        \<and> str_find (pre @ system_info_begin) system_info_begin = Some (length pre)
        \<and> \<not> str_contains post end_mark \<and> payload_ok infos \<and> info = infos_map infos
        \<and> map (bt_get info) all_sections = map Some (map snd infos))"
proof -
  have "map (bt_get (infos_map infos)) all_sections = map Some (map snd infos)" if "payload_ok infos" for infos
  proof -
    from that have m: "map fst infos = all_sections" by (simp add: payload_ok_def)
    have d: "distinct (map fst infos)"
      unfolding m by (simp add: all_sections_def section_names_def optional_section_def)
    have "map (map_of infos) (map fst infos) = map Some (map snd infos)"
      using d by (auto simp: comp_def)
    then show ?thesis using infos_map_get [OF m] by (simp add: m [symmetric])
  qed
  then show ?thesis unfolding system_info_iff infos_map_def [symmetric] by auto
qed

end
