(* ===== verification/Deploy_Bao.thy ===== *)
theory Deploy_Bao
  imports Deploy_World
begin

text \<open>
  The certificate authority client (\<open>src/integrations/deploys/openbao.rs\<close>): a login with the service
  account's token and one signing request with a fixed principal and lifetime.  The deserializers of
  the two answers (serde) and \<open>Url::join\<close> are parameters; an exchange that is dropped is the
  cancellation of the deploy reaching the signer.
\<close>

section \<open>Configuration\<close>

definition max_jwt_bytes :: nat where
  "max_jwt_bytes = 16 * 1024"

definition max_bao_response_bytes :: nat where
  "max_bao_response_bytes = 64 * 1024"

record bao_config =
  bc_origin :: url
  bc_auth_mount :: string
  bc_role :: string
  bc_ssh_mount :: string
  bc_ssh_role :: string
  bc_jwt_path :: string
  bc_request_timeout :: duration

definition valid_segment :: "string \<Rightarrow> bool" where
  "valid_segment s \<longleftrightarrow>
     s \<noteq> [] \<and> length s \<le> 128 \<and> list_all (\<lambda>c. ascii_alphanumeric c \<or> c \<in> set (bytes ''-_'')) (chars s)"

text \<open>
  \<open>opaque\<close> is \<open>Url::cannot_be_a_base\<close> of the origin; \<open>http_built\<close> says whether \<open>reqwest\<close> could build its
  client, which the model has no state for.
\<close>

definition bao_client_new :: "bool \<Rightarrow> bool \<Rightarrow> bao_config \<Rightarrow> deploy_error + bao_config" where
  "bao_client_new http_built opaque config =
     (if url_scheme (bc_origin config) \<noteq> ''https''
         \<or> opaque
         \<or> url_path (bc_origin config) \<noteq> ''/''
         \<or> url_query (bc_origin config) \<noteq> None
         \<or> url_fragment (bc_origin config) \<noteq> None
         \<or> \<not> is_absolute (bc_jwt_path config)
         \<or> \<not> valid_segment (bc_auth_mount config)
         \<or> \<not> valid_segment (bc_role config)
         \<or> \<not> valid_segment (bc_ssh_mount config)
         \<or> \<not> valid_segment (bc_ssh_role config)
         \<or> \<not> (from_millis 100 \<le> bc_request_timeout config \<and> bc_request_timeout config \<le> from_secs 30)
      then Inl DE_InvalidConfiguration
      else if \<not> http_built then Inl DE_InvalidConfiguration else Inr config)"

section \<open>Keys and certificates\<close>

definition validate_public_key :: "string \<Rightarrow> deploy_error + unit" where
  "validate_public_key text =
     (case split_char (CHR '' '') text of
        [kind, body] \<Rightarrow>
          if kind \<noteq> ''ssh-ed25519'' \<or> body = [] \<or> 1024 < length text
          then Inl DE_CredentialInvalid else Inr ()
      | _ \<Rightarrow> Inl DE_CredentialInvalid)"

definition certificate_kind :: string where
  "certificate_kind = ''ssh-ed25519-cert-v01@openssh.com''"

definition validate_certificate :: "string \<Rightarrow> deploy_error + unit" where
  "validate_certificate text =
     (case split_char (CHR '' '') (trim_end_matches [newline] text) of
        [kind, body] \<Rightarrow>
          if kind \<noteq> certificate_kind \<or> body = [] \<or> 16 * 1024 < length text
             \<or> char_of (13 :: nat) \<in> set text \<or> newline \<in> set (trim_end_matches [newline] text)
          then Inl DE_CredentialInvalid else Inr ()
      | _ \<Rightarrow> Inl DE_CredentialInvalid)"

section \<open>Requests\<close>

datatype bao_stop = BS_Dropped | BS_Error deploy_error

text \<open>
  The deserialized answers: \<open>auth.client_token\<close> of the login and \<open>data.signed_key\<close> of the signing.
\<close>

record bao_libs =
  bl_joins :: "string \<Rightarrow> bool"
  bl_login :: "string \<Rightarrow> string option"
  bl_signed :: "string \<Rightarrow> string option"

type_synonym ('s, 'a) bao_io = "('s, bao_stop, 'a) deploy_io"

definition bao_lift :: "deploy_error + 'a \<Rightarrow> ('s, 'a) bao_io" where
  "bao_lift r = io_lift (map_err BS_Error r)"

definition bounded_answer :: "(string \<Rightarrow> 'a option) \<Rightarrow> http_response \<Rightarrow> deploy_error + 'a" where
  "bounded_answer decode response =
     (if \<not> status_success (hs_status response)
         \<or> (case hs_length response of None \<Rightarrow> False | Some n \<Rightarrow> max_bao_response_bytes < unat n)
      then Inl DE_CredentialUnavailable
      else
        and_then (read_chunks max_bao_response_bytes DE_CredentialUnavailable DE_CredentialInvalid []
            (hs_chunks response)) (\<lambda>body.
          ok_or (decode body) DE_CredentialInvalid))"

definition bao_post :: "'s deploy_env \<Rightarrow> bao_request \<Rightarrow> ('s, http_response) bao_io" where
  "bao_post E request =
     io_bind (act (DV_Request request) (dn_exchange E request)) (\<lambda>x.
       case x of
         HX_Dropped \<Rightarrow> io_throw BS_Dropped
       | HX_TimedOut \<Rightarrow> io_throw (BS_Error DE_CredentialUnavailable)
       | HX_Failed \<Rightarrow> io_throw (BS_Error DE_CredentialUnavailable)
       | HX_Response response \<Rightarrow> io_return response)"

definition endpoint :: "bao_libs \<Rightarrow> string \<Rightarrow> ('s, string) bao_io" where
  "endpoint libs path = bao_lift (if bl_joins libs path then Inr path else Inl DE_InvalidConfiguration)"

definition login_path :: "bao_config \<Rightarrow> string" where
  "login_path config = ''v1/auth/'' @ bc_auth_mount config @ ''/login''"

definition sign_path :: "bao_config \<Rightarrow> string" where
  "sign_path config = ''v1/'' @ bc_ssh_mount config @ ''/sign/'' @ bc_ssh_role config"

definition login_request :: "bao_config \<Rightarrow> string \<Rightarrow> bao_request" where
  "login_request config jwt = \<lparr>br_path = login_path config, br_token = None,
     br_body = JObj [(''role'', JStr (bc_role config)), (''jwt'', JStr jwt)]\<rparr>"

definition sign_request :: "bao_config \<Rightarrow> string \<Rightarrow> string \<Rightarrow> bao_request" where
  "sign_request config vault public_key = \<lparr>br_path = sign_path config, br_token = Some vault,
     br_body = JObj [(''public_key'', JStr public_key), (''cert_type'', JStr ''user''),
       (''valid_principals'', JStr ''homelab''), (''ttl'', JStr ''15m'')]\<rparr>"

definition read_jwt :: "'s deploy_env \<Rightarrow> bao_config \<Rightarrow> ('s, string) bao_io" where
  "read_jwt E config =
     io_bind (ask (dn_metadata E (bc_jwt_path config))) (\<lambda>metadata.
       case metadata of
         Inl k \<Rightarrow> io_throw (BS_Error DE_CredentialUnavailable)
       | Inr info \<Rightarrow>
           if \<not> fi_is_file info \<or> fi_len info = 0 \<or> max_jwt_bytes < fi_len info
           then io_throw (BS_Error DE_CredentialUnavailable)
           else
             io_bind (act (DV_Read (bc_jwt_path config)) (dn_read E (bc_jwt_path config))) (\<lambda>content.
               case content of
                 Inl k \<Rightarrow> io_throw (BS_Error DE_CredentialUnavailable)
               | Inr jwt \<Rightarrow>
                   if \<not> utf8_valid jwt then io_throw (BS_Error DE_CredentialUnavailable)
                   else if trim jwt \<noteq> jwt \<or> has_whitespace jwt then io_throw (BS_Error DE_CredentialInvalid)
                   else io_return jwt))"

definition request_certificate ::
  "bao_libs \<Rightarrow> 's deploy_env \<Rightarrow> bao_config \<Rightarrow> string \<Rightarrow> ('s, string) bao_io" where
  "request_certificate libs E config public_key =
     io_bind (bao_lift (validate_public_key public_key)) (\<lambda>_.
     io_bind (read_jwt E config) (\<lambda>jwt.
     io_bind (endpoint libs (login_path config)) (\<lambda>_.
     io_bind (bao_post E (login_request config jwt)) (\<lambda>response.
     io_bind (bao_lift (bounded_answer (bl_login libs) response)) (\<lambda>vault.
     io_bind (io_guard (\<not> (vault = [] \<or> 4096 < length vault \<or> has_whitespace vault))
                (BS_Error DE_CredentialInvalid)) (\<lambda>_.
     io_bind (endpoint libs (sign_path config)) (\<lambda>_.
     io_bind (bao_post E (sign_request config vault public_key)) (\<lambda>response.
     io_bind (bao_lift (bounded_answer (bl_signed libs) response)) (\<lambda>signed.
     io_bind (bao_lift (validate_certificate signed)) (\<lambda>_.
       io_return signed))))))))))"

end
