(* ===== verification/Deploy_Runner.thy ===== *)
theory Deploy_Runner
  imports Deploy_Catalog Deploy_Output Deploy_Bao
begin

text \<open>
  The deploy runner (\<open>src/integrations/deploys/runner.rs\<close>): one deploy is a fresh key pair, a
  certificate for it, the files of a private directory and one \<open>uv\<close> process, whose output is read.
  The signer is a parameter, as it is a trait in the source.  \<open>decode\<close> is base64, \<open>render\<close> the JSON
  printer.  Waiting for the process is a loop over polls, each of which says which of the awaited
  futures are ready; the first ready one is taken in the order of the source, and the deadline is what
  happens after the last poll.
\<close>

section \<open>Configuration\<close>

record deploy_runner =
  dr_catalog :: deploy_catalog
  dr_uv :: string
  dr_keygen :: string
  dr_temp_root :: string

definition deploy_runner_new ::
  "(string \<Rightarrow> string option) \<Rightarrow> (string \<Rightarrow> bool) \<Rightarrow> deploy_catalog \<Rightarrow> string \<Rightarrow> string \<Rightarrow> string
     \<Rightarrow> deploy_error + deploy_runner" where
  "deploy_runner_new canonical is_dir catalog uv keygen temp_root =
     (if \<not> is_absolute uv \<or> \<not> is_absolute keygen \<or> \<not> is_absolute temp_root then Inl DE_InvalidConfiguration
      else
        and_then (ok_or (canonical temp_root) DE_InvalidConfiguration) (\<lambda>temp.
          if \<not> is_dir temp then Inl DE_InvalidConfiguration
          else Inr \<lparr>dr_catalog = catalog, dr_uv = uv, dr_keygen = keygen, dr_temp_root = temp\<rparr>))"

definition deploy_max_stdout :: nat where
  "deploy_max_stdout = 512 * 1024"

definition deploy_max_stderr :: nat where
  "deploy_max_stderr = 32 * 1024"

section \<open>Files and keys\<close>

definition mode_700 :: nat where
  "mode_700 = 448"

definition mode_600 :: nat where
  "mode_600 = 384"

definition hex_digit :: "nat \<Rightarrow> char" where
  "hex_digit n = (if n < 10 then digit_char n else char_of (87 + n))"

definition hex_byte :: "char \<Rightarrow> string" where
  "hex_byte c = [hex_digit (byte_of c div 16), hex_digit (byte_of c mod 16)]"

definition run_dir_path :: "string \<Rightarrow> string \<Rightarrow> string" where
  "run_dir_path base random = path_join base (''homelab-deploy-'' @ concat (map hex_byte random))"

fun create_run_dir :: "'s deploy_env \<Rightarrow> string \<Rightarrow> nat \<Rightarrow> ('s, deploy_error, string) deploy_io" where
  "create_run_dir E base 0 = fail_with ''run_dir_create'' FC_AlreadyExists None DE_ExecutionRejected"
| "create_run_dir E base (Suc n) =
     io_bind (ask (dn_random E)) (\<lambda>random.
       case random of
         None \<Rightarrow> fail_with ''run_dir_create'' FC_Other None DE_ExecutionRejected
       | Some bs \<Rightarrow>
           let path = run_dir_path base bs in
           io_bind (act (DV_CreateDir path mode_700) (dn_mkdir E path)) (\<lambda>r.
             case r of
               None \<Rightarrow> io_return path
             | Some k \<Rightarrow>
                 if k = IK_AlreadyExists then create_run_dir E base n
                 else fail_with ''run_dir_create'' (classify_io k) None DE_ExecutionRejected))"

definition write_private ::
  "'s deploy_env \<Rightarrow> string \<Rightarrow> string \<Rightarrow> nat \<Rightarrow> string \<Rightarrow> ('s, deploy_error, unit) deploy_io" where
  "write_private E path content mode stage =
     io_bind (act (DV_Write path content mode) (dn_write E path content))
       (or_report stage DE_ExecutionRejected)"

definition read_bounded :: "'s deploy_env \<Rightarrow> string \<Rightarrow> nat \<Rightarrow> ('s, deploy_error, string) deploy_io" where
  "read_bounded E path limit =
     io_bind (ask (dn_metadata E path)) (\<lambda>metadata.
     io_bind (report_read ''key_file_read'' DE_ExecutionRejected metadata) (\<lambda>info.
       if \<not> fi_is_file info \<or> fi_len info = 0 \<or> limit < fi_len info
       then fail_with ''key_file_read'' FC_InvalidData None DE_CredentialInvalid
       else
         io_bind (act (DV_Read path) (dn_read E path)) (\<lambda>content.
         io_bind (report_read ''key_file_read'' DE_CredentialInvalid content) (\<lambda>b.
           if utf8_valid b then io_return b
           else fail_with ''key_file_read'' FC_InvalidData None DE_CredentialInvalid))))"

definition known_hosts_host :: "string \<Rightarrow> u16 \<Rightarrow> string" where
  "known_hosts_host host port =
     (if port = 22 then host else ''['' @ host @ '']:'' @ show_nat (unat port))"

definition validate_host_pin :: "(string \<Rightarrow> string option) \<Rightarrow> string \<Rightarrow> deploy_error + unit" where
  "validate_host_pin decode pin =
     (case split_char (CHR '' '') pin of
        kind # encoded # rest \<Rightarrow>
          if kind \<noteq> ''ssh-ed25519'' then Inl DE_MissingHostPin
          else if encoded = [] \<or> rest \<noteq> [] \<or> 256 < length pin then Inl DE_MissingHostPin
          else
            and_then (ok_or (decode encoded) DE_MissingHostPin) (\<lambda>b.
              if length b \<noteq> 51
                 \<or> take 15 b \<noteq> map char_of [0 :: nat, 0, 0, 11] @ ''ssh-ed25519''
                 \<or> take 4 (drop 15 b) \<noteq> map char_of [0 :: nat, 0, 0, 32]
              then Inl DE_MissingHostPin else Inr ())
      | _ \<Rightarrow> Inl DE_MissingHostPin)"

definition cancelled_now :: "'s deploy_env \<Rightarrow> ('s, deploy_error, unit) deploy_io" where
  "cancelled_now E = io_bind (ask (dn_cancelled E)) (\<lambda>c. io_guard (\<not> c) DE_Cancelled)"

definition keygen_arguments :: "string \<Rightarrow> string list" where
  "keygen_arguments key = [''-q'', ''-t'', ''ed25519'', ''-N'', '''', ''-C'', '''', ''-f'', key]"

definition set_private :: "'s deploy_env \<Rightarrow> string \<Rightarrow> ('s, deploy_error, unit) deploy_io" where
  "set_private E path =
     io_bind (act (DV_Chmod path mode_600) (dn_chmod E path)) (or_report ''key_chmod'' DE_ExecutionRejected)"

definition public_key_path :: "string \<Rightarrow> string" where
  "public_key_path key = key @ ''.pub''"

definition run_keygen :: "'s deploy_env \<Rightarrow> string \<Rightarrow> string \<Rightarrow> ('s, deploy_error, unit) deploy_io" where
  "run_keygen E executable key =
     io_bind (act (DV_Keygen (executable # keygen_arguments key))
                (dn_keygen E (executable # keygen_arguments key))) (\<lambda>r.
     io_bind (case r of
         KG_SpawnFailed k \<Rightarrow> fail_with ''keygen_spawn'' (classify_io k) None DE_ExecutionRejected
       | KG_Exited code \<Rightarrow>
           if exit_success code then io_return ()
           else fail_with ''keygen_exit'' FC_NonzeroExit code DE_ExecutionRejected
       | KG_WaitFailed \<Rightarrow> fail_with ''keygen_exit'' FC_WaitFailed None DE_ExecutionRejected
       | KG_Cancelled \<Rightarrow> io_throw DE_Cancelled
       | KG_TimedOut \<Rightarrow> fail_with ''keygen_timeout'' FC_Timeout None DE_ExecutionRejected) (\<lambda>_.
     io_bind (set_private E key) (\<lambda>_. set_private E (public_key_path key))))"

section \<open>The deploy process\<close>

record uv_state =
  us_status :: "(i32 option) option"
  us_stdout_task :: bool
  us_stderr_task :: bool
  us_output :: "string option"
  us_stderr :: "string option"

text \<open>
  How the wait ends: its result, the failure reported, and whether the process group was killed.
\<close>

record uv_end =
  ue_result :: "deploy_error + string"
  ue_report :: "(failure_class \<times> i32 option) option"
  ue_terminated :: bool

definition uv_killed :: "(failure_class \<times> i32 option) option \<Rightarrow> deploy_error \<Rightarrow> uv_end" where
  "uv_killed r e = \<lparr>ue_result = Inl e, ue_report = r, ue_terminated = True\<rparr>"

definition uv_start :: uv_state where
  "uv_start = \<lparr>us_status = None, us_stdout_task = True, us_stderr_task = True,
     us_output = None, us_stderr = None\<rparr>"

definition uv_complete :: "uv_state \<Rightarrow> uv_end option" where
  "uv_complete st =
     (case (us_status st, us_output st, us_stderr st) of
        (Some status, Some out, Some err) \<Rightarrow>
          Some (if exit_success status
            then \<lparr>ue_result = Inr out, ue_report = None, ue_terminated = False\<rparr>
            else \<lparr>ue_result = Inl DE_ExecutionOutcomeUnknown,
                  ue_report = Some (uv_exit_class (Some err), status), ue_terminated = False\<rparr>)
      | _ \<Rightarrow> None)"

definition uv_select :: "uv_state \<Rightarrow> worker_poll \<Rightarrow> uv_state + uv_end" where
  "uv_select st p =
     (if wp_cancelled p then Inr (uv_killed None DE_CancelledOutcomeUnknown)
      else if us_status st = None \<and> wp_exit p \<noteq> None then
        (case the (wp_exit p) of
           WaitOk status \<Rightarrow> Inl (st\<lparr>us_status := Some status\<rparr>)
         | WaitErr \<Rightarrow> Inr (uv_killed (Some (uv_exit_class None, None)) DE_ExecutionOutcomeUnknown))
      else if us_stdout_task st \<and> wp_stdout p \<noteq> None then
        (case stream_result deploy_max_stdout (the (wp_stdout p)) of
           Some b \<Rightarrow> Inl (st\<lparr>us_stdout_task := False, us_output := Some b\<rparr>)
         | None \<Rightarrow> Inr (uv_killed None DE_OutputTooLargeOutcomeUnknown))
      else if us_stderr_task st \<and> wp_stderr p \<noteq> None then
        (case stream_result deploy_max_stderr (the (wp_stderr p)) of
           Some b \<Rightarrow> Inl (st\<lparr>us_stderr_task := False, us_stderr := Some b\<rparr>)
         | None \<Rightarrow> Inr (uv_killed None DE_OutputTooLargeOutcomeUnknown))
      else Inl st)"

fun uv_loop :: "uv_state \<Rightarrow> worker_poll list \<Rightarrow> uv_end" where
  "uv_loop st [] =
     (case uv_complete st of Some e \<Rightarrow> e | None \<Rightarrow> uv_killed None DE_TimeoutOutcomeUnknown)"
| "uv_loop st (p # ps) =
     (case uv_complete st of
        Some e \<Rightarrow> e
      | None \<Rightarrow> (case uv_select st p of Inl st' \<Rightarrow> uv_loop st' ps | Inr e \<Rightarrow> e))"

definition uv_command_of :: "string \<Rightarrow> string \<Rightarrow> resolved_deploy \<Rightarrow> string \<Rightarrow> uv_command" where
  "uv_command_of executable temp_root deploy inventory =
     (let project = path_join (rd_root deploy) ''.venv'' in
      \<lparr>uc_executable = executable,
       uc_arguments = [''run'', ''--locked'', ''pyinfra'', ''--yes'', rd_inventory deploy, rd_entrypoint deploy],
       uc_environment = [(''HOME'', temp_root), (''HOMELAB_INVENTORY_JSON'', inventory),
         (''PATH'', path_join project ''bin'' @ '':/usr/local/bin:/usr/bin:/bin''),
         (''UV_NO_CACHE'', ''1''), (''UV_NO_SYNC'', ''1''), (''UV_OFFLINE'', ''1''),
         (''UV_PROJECT_ENVIRONMENT'', project)],
       uc_directory = rd_root deploy\<rparr>)"

definition start_uv :: "'s deploy_env \<Rightarrow> uv_command \<Rightarrow> ('s, deploy_error, uv_process) deploy_io" where
  "start_uv E cmd = (\<lambda>s.
     let (p, w) = dn_uv E cmd (dy_world s) in
     (Inr p, s\<lparr>dy_trace := dy_trace s @ [DV_Uv cmd (uv_spawn_error p = None)], dy_world := w\<rparr>))"

definition uv_finish :: "uv_end \<Rightarrow> ('s, deploy_error, string) deploy_io" where
  "uv_finish e =
     io_bind (case ue_report e of None \<Rightarrow> io_return () | Some (class, code) \<Rightarrow> report ''uv_exit'' class code)
       (\<lambda>_. io_lift (ue_result e))"

definition run_uv ::
  "'s deploy_env \<Rightarrow> string \<Rightarrow> string \<Rightarrow> resolved_deploy \<Rightarrow> string \<Rightarrow> ('s, deploy_error, string) deploy_io" where
  "run_uv E executable temp_root deploy inventory =
     io_bind (start_uv E (uv_command_of executable temp_root deploy inventory)) (\<lambda>p.
       case uv_spawn_error p of
         Some k \<Rightarrow> fail_with ''uv_spawn'' (classify_io k) None DE_ExecutionRejected
       | None \<Rightarrow>
           if \<not> uv_stdout_pipe p then io_throw DE_ExecutionOutcomeUnknown
           else if \<not> uv_stderr_pipe p then io_throw DE_ExecutionOutcomeUnknown
           else uv_finish (uv_loop uv_start (uv_polls p)))"

section \<open>The worker\<close>

type_synonym 's signer = "string \<Rightarrow> ('s, bao_stop, string) deploy_io"

definition sign_or_cancel :: "'s signer \<Rightarrow> string \<Rightarrow> ('s, deploy_error, string) deploy_io" where
  "sign_or_cancel signer public_key = (\<lambda>s.
     case signer public_key s of
       (Inl BS_Dropped, t) \<Rightarrow> (Inl DE_Cancelled, t)
     | (Inl (BS_Error e), t) \<Rightarrow> (Inl e, t)
     | (Inr certificate, t) \<Rightarrow> (Inr certificate, t))"

definition with_cleanup ::
  "'s deploy_env \<Rightarrow> string \<Rightarrow> ('s, deploy_error, 'a) deploy_io \<Rightarrow> ('s, deploy_error, 'a) deploy_io" where
  "with_cleanup E dir m = (\<lambda>s.
     let (r, t) = m s in
     (r, t\<lparr>dy_trace := dy_trace t @ [DV_RemoveDir dir], dy_world := dn_remove_dir E dir (dy_world t)\<rparr>))"

definition inventory_json :: "machine \<Rightarrow> string \<Rightarrow> string \<Rightarrow> json" where
  "inventory_json machine key known_hosts =
     JObj [(''version'', JNum (PosInt 1)), (''host'', JObj [
       (''address'', JStr (mc_ssh_host machine)), (''user'', JStr (mc_ssh_username machine)),
       (''port'', JNum (PosInt (ucast (mc_ssh_port machine)))), (''ssh_key'', JStr key),
       (''known_hosts'', JStr known_hosts)])]"

definition known_hosts_line :: "machine \<Rightarrow> string \<Rightarrow> string" where
  "known_hosts_line machine pin =
     known_hosts_host (mc_ssh_host machine) (mc_ssh_port machine) @ '' '' @ pin @ [newline]"

definition prepare_keys ::
  "'s deploy_env \<Rightarrow> 's signer \<Rightarrow> deploy_runner \<Rightarrow> string \<Rightarrow> ('s, deploy_error, unit) deploy_io" where
  "prepare_keys E signer R dir =
     (let key = path_join dir ''identity'' in
     io_bind (run_keygen E (dr_keygen R) key) (\<lambda>_.
     io_bind (read_bounded E (public_key_path key) 1024) (\<lambda>public_key.
     io_bind (cancelled_now E) (\<lambda>_.
     io_bind (sign_or_cancel signer (trim_end public_key)) (\<lambda>certificate.
     io_bind (write_private E (path_join dir ''identity-cert.pub'') certificate mode_600 ''certificate_write'') (\<lambda>_.
     io_bind (act (DV_Remove (public_key_path key)) (dn_remove E (public_key_path key)))
       (or_report ''public_key_remove'' DE_ExecutionRejected)))))))"

definition deploy_in_dir ::
  "(json \<Rightarrow> string option) \<Rightarrow> 's deploy_env \<Rightarrow> 's signer \<Rightarrow> deploy_runner \<Rightarrow> resolved_deploy \<Rightarrow> machine
     \<Rightarrow> string \<Rightarrow> string \<Rightarrow> ('s, deploy_error, system_info) deploy_io" where
  "deploy_in_dir render E signer R deploy machine pin dir =
     (let key = path_join dir ''identity''; known_hosts = path_join dir ''known_hosts'' in
     io_bind (prepare_keys E signer R dir) (\<lambda>_.
     io_bind (write_private E known_hosts (known_hosts_line machine pin) mode_600 ''known_hosts_write'') (\<lambda>_.
     io_bind (case render (inventory_json machine key known_hosts) of
         None \<Rightarrow> fail_with ''inventory_serialize'' FC_InvalidData None DE_ExecutionRejected
       | Some text \<Rightarrow> io_return text) (\<lambda>inventory.
     io_bind (run_uv E (dr_uv R) (dr_temp_root R) deploy inventory) (\<lambda>out.
       io_lift (system_info out))))))"

definition deploy_worker ::
  "(string \<Rightarrow> string option) \<Rightarrow> (json \<Rightarrow> string option) \<Rightarrow> 's deploy_env \<Rightarrow> 's signer \<Rightarrow> deploy_runner
     \<Rightarrow> resolved_deploy \<Rightarrow> machine \<Rightarrow> ('s, deploy_error, system_info) deploy_io" where
  "deploy_worker decode render E signer R deploy machine =
     io_bind (cancelled_now E) (\<lambda>_.
     io_bind (io_lift (ok_or (mc_host_key machine) DE_MissingHostPin)) (\<lambda>pin.
     io_bind (io_lift (validate_host_pin decode pin)) (\<lambda>_.
     io_bind (create_run_dir E (dr_temp_root R) 8) (\<lambda>dir.
       with_cleanup E dir (deploy_in_dir render E signer R deploy machine pin dir)))))"

section \<open>A run\<close>

text \<open>
  \<open>permits\<close> are the free permits of the runner, one of which a run holds until its worker has returned;
  \<open>delivered\<close> is whether the worker task hands over its result, which it does unless it panics.  A
  cancellation is passed to the worker, whose result is awaited all the same.
\<close>

definition deploy_run ::
  "(string \<Rightarrow> string option) \<Rightarrow> (json \<Rightarrow> string option) \<Rightarrow> 's deploy_env \<Rightarrow> 's signer \<Rightarrow> deploy_runner
     \<Rightarrow> nat \<Rightarrow> bool \<Rightarrow> string \<Rightarrow> machine \<Rightarrow> ('s, deploy_error, system_info) deploy_io" where
  "deploy_run decode render E signer R permits delivered ident machine =
     (if permits = 0 then io_throw DE_Busy
      else
        io_bind (io_lift (deploy_resolve (dr_catalog R) ident)) (\<lambda>deploy.
          if mc_host_key machine = None then io_throw DE_MissingHostPin
          else (\<lambda>s.
            let (r, t) = deploy_worker decode render E signer R deploy machine s in
            (if delivered then r else Inl DE_ExecutionOutcomeUnknown, t))))"

end
