(* ===== verification/Deploy_Laws.thy ===== *)
theory Deploy_Laws
  imports Deploy_Runner
begin

text \<open>
  What a deploy guarantees: its error says truthfully whether the deploy process was started, the
  process is started only with a pinned host key and a certificate for the fresh key, everything is
  written to a private directory that is removed last, and the catalog and the pin are checked.
  \<open>certificate_signer\<close> is the interface between the runner and its signer, which the client of the
  certificate authority provides.
\<close>

section \<open>Traces\<close>

lemma io_bind_cases:
  assumes "io_bind m f s = (r, s')"
  obtains (err) e where "m s = (Inl e, s')" "r = Inl e"
  | (ok) a t where "m s = (Inr a, t)" "f a t = (r, s')"
  using assms by (auto simp: io_bind_def split: prod.splits sum.splits)

definition trace_grows :: "(deploy_event \<Rightarrow> bool) \<Rightarrow> 's deploy_sys \<Rightarrow> 's deploy_sys \<Rightarrow> bool" where
  "trace_grows P s s' \<longleftrightarrow> (\<exists>new. dy_trace s' = dy_trace s @ new \<and> (\<forall>ev\<in>set new. P ev))"

lemma trace_growsE:
  assumes "trace_grows P s s'"
  obtains new where "dy_trace s' = dy_trace s @ new" "\<forall>ev\<in>set new. P ev"
  using assms by (auto simp: trace_grows_def)

lemma trace_grows_mono: "(\<And>ev. P ev \<Longrightarrow> Q ev) \<Longrightarrow> trace_grows P s s' \<Longrightarrow> trace_grows Q s s'"
  by (auto simp: trace_grows_def)

interpretation tg: step_preorder "trace_grows P" for P
proof
  fix s t u :: "'s deploy_sys"
  show "trace_grows P s s" by (simp add: trace_grows_def)
  assume "trace_grows P s t" "trace_grows P t u"
  then show "trace_grows P s u" by (fastforce simp: trace_grows_def)
qed

lemma grows_ask: "io_rel (trace_grows P) (ask f)"
  by (rule io_relI) (auto simp: ask_def trace_grows_def split: prod.splits)

lemma grows_act: "(\<And>a. P (ev a)) \<Longrightarrow> io_rel (trace_grows P) (act ev f)"
  by (rule io_relI) (auto simp: act_def trace_grows_def split: prod.splits)

definition is_report :: "deploy_event \<Rightarrow> bool" where
  "is_report ev \<longleftrightarrow> (\<exists>stage class code. ev = DV_Report stage class code)"

lemma grows_report: "(\<And>a b c. P (DV_Report a b c)) \<Longrightarrow> io_rel (trace_grows P) (report stage class code)"
  by (simp add: report_def grows_act)

lemma grows_fail_with:
  "(\<And>a b c. P (DV_Report a b c)) \<Longrightarrow> io_rel (trace_grows P) (fail_with stage class code e)"
  by (simp add: fail_with_def tg.rel_bind tg.rel_throw grows_report)

lemma grows_or_report:
  "(\<And>a b c. P (DV_Report a b c)) \<Longrightarrow> io_rel (trace_grows P) (or_report stage e r)"
  by (auto simp: or_report_def grows_fail_with tg.rel_return split: option.splits)

lemma grows_report_read:
  "(\<And>a b c. P (DV_Report a b c)) \<Longrightarrow> io_rel (trace_grows P) (report_read stage e r)"
  by (auto simp: report_read_def grows_fail_with tg.rel_return split: sum.splits)

lemma grows_cancelled_now: "io_rel (trace_grows P) (cancelled_now E)"
  by (simp add: cancelled_now_def tg.rel_bind tg.rel_guard grows_ask)

lemmas grows = tg.step_rules grows_ask grows_act grows_report grows_fail_with grows_or_report
  grows_report_read grows_cancelled_now

text \<open>What a successful step adds to the trace.\<close>

lemma ask_eq: "ask f s = (r, s') \<longleftrightarrow> r = Inr (fst (f (dy_world s))) \<and> s' = s\<lparr>dy_world := snd (f (dy_world s))\<rparr>"
  by (auto simp: ask_def split: prod.splits)

lemma act_eq:
  "act ev f s = (r, s') \<longleftrightarrow> r = Inr (fst (f (dy_world s)))
     \<and> s' = s\<lparr>dy_trace := dy_trace s @ [ev (fst (f (dy_world s)))], dy_world := snd (f (dy_world s))\<rparr>"
  by (auto simp: act_def split: prod.splits)

lemma errors_in_ask: "errors_in P (ask f)" and errors_in_act: "errors_in P (act ev f)"
  by (auto simp: errors_in_def ask_eq act_eq)

lemma fail_with_Inr [simp]: "fail_with stage class code e s \<noteq> (Inr a, s')"
  by (simp add: fail_with_def report_def io_simps)

lemma or_report_Inr: "or_report stage e r s = (Inr u, s') \<longleftrightarrow> r = None \<and> s' = s"
  by (auto simp: or_report_def io_simps split: option.splits)

lemma report_read_Inr: "report_read stage e r s = (Inr a, s') \<longleftrightarrow> r = Inr a \<and> s' = s"
  by (auto simp: report_read_def io_simps split: sum.splits)

lemma cancelled_now_Inr: "cancelled_now E s = (Inr u, s') \<Longrightarrow> dy_trace s' = dy_trace s"
  by (auto simp: cancelled_now_def io_simps ask_eq)

lemma write_private_Inr:
  "write_private E path content mode stage s = (Inr u, s')
     \<Longrightarrow> dy_trace s' = dy_trace s @ [DV_Write path content mode None]"
  by (auto simp: write_private_def io_simps act_eq or_report_Inr)

lemma read_bounded_Inr:
  "read_bounded E path limit s = (Inr b, s') \<Longrightarrow> dy_trace s' = dy_trace s @ [DV_Read path (Inr b)] \<and> utf8_valid b"
  by (auto simp: read_bounded_def io_simps ask_eq act_eq report_read_Inr split: if_splits)

lemma set_private_Inr:
  "set_private E path s = (Inr u, s') \<Longrightarrow> dy_trace s' = dy_trace s @ [DV_Chmod path mode_600 None]"
  by (auto simp: set_private_def io_simps act_eq or_report_Inr)

lemma run_keygen_Inr:
  "run_keygen E executable key s = (Inr u, s') \<Longrightarrow>
     dy_trace s' = dy_trace s @ [DV_Keygen (executable # keygen_arguments key) (KG_Exited (Some 0)),
       DV_Chmod key mode_600 None, DV_Chmod (public_key_path key) mode_600 None]"
  by (auto simp: run_keygen_def exit_success_def io_simps act_eq dest!: set_private_Inr split: keygen_end.splits if_splits)

section \<open>The private directory\<close>

text \<open>What a signer does: it reads its own credential and sends requests.\<close>

definition is_request :: "deploy_event \<Rightarrow> bool" where
  "is_request ev \<longleftrightarrow> (\<exists>request x. ev = DV_Request request x) \<or> (\<exists>path r. ev = DV_Read path r)"

text \<open>What comes before the private directory is there: failed attempts to create it, and their report.\<close>

definition creates :: "deploy_event \<Rightarrow> bool" where
  "creates ev \<longleftrightarrow> is_report ev \<or> (\<exists>path k. ev = DV_CreateDir path mode_700 (Some k))"

text \<open>
  The acts of a deploy that come before the process: what it changes is one of the four files in its directory.
\<close>

fun prepares :: "string \<Rightarrow> deploy_event \<Rightarrow> bool" where
  "prepares dir (DV_Report stage class code) = True"
| "prepares dir (DV_CreateDir path mode r) = False"
| "prepares dir (DV_Keygen args r) = (last args = path_join dir ''identity'')"
| "prepares dir (DV_Chmod path mode r) =
     (path \<in> {path_join dir ''identity'', public_key_path (path_join dir ''identity'')} \<and> mode = mode_600)"
| "prepares dir (DV_Read path r) = True"
| "prepares dir (DV_Request request x) = True"
| "prepares dir (DV_Write path content mode r) =
     (path \<in> {path_join dir ''identity-cert.pub'', path_join dir ''known_hosts''} \<and> mode = mode_600)"
| "prepares dir (DV_Remove path r) = (path = public_key_path (path_join dir ''identity''))"
| "prepares dir (DV_Uv cmd started) = False"
| "prepares dir (DV_RemoveDir path) = False"

lemma prepares_request: "is_request ev \<Longrightarrow> prepares dir ev"
  by (auto simp: is_request_def)

lemma create_run_dir_cases:
  "create_run_dir E base n s = (r, s') \<Longrightarrow>
     \<exists>made. (\<forall>ev\<in>set made. creates ev)
       \<and> (case r of Inl e \<Rightarrow> dy_trace s' = dy_trace s @ made
          | Inr dir \<Rightarrow> dy_trace s' = dy_trace s @ made @ [DV_CreateDir dir mode_700 None])"
proof (induction n arbitrary: s)
  case 0
  then show ?case by (auto simp: fail_with_def report_def io_bind_def io_throw_def act_def creates_def is_report_def)
next
  case (Suc n)
  obtain random w where random: "dn_random E (dy_world s) = (random, w)" by fastforce
  show ?case
  proof (cases random)
    case None
    with Suc.prems random show ?thesis
      by (auto simp: fail_with_def report_def io_bind_def io_throw_def ask_def act_def creates_def is_report_def)
  next
    case (Some bs)
    let ?path = "run_dir_path base bs"
    obtain m w' where m: "dn_mkdir E ?path w = (m, w')" by fastforce
    let ?t = "s\<lparr>dy_trace := dy_trace s @ [DV_CreateDir ?path mode_700 m], dy_world := w'\<rparr>"
    show ?thesis
    proof (cases "m = Some IK_AlreadyExists")
      case True
      with Suc.prems random Some m have "create_run_dir E base n ?t = (r, s')"
        by (simp add: io_bind_def ask_def act_def Let_def)
      with Suc.IH obtain made where "\<forall>ev\<in>set made. creates ev" "case r of Inl e \<Rightarrow> dy_trace s' = dy_trace ?t @ made
          | Inr dir \<Rightarrow> dy_trace s' = dy_trace ?t @ made @ [DV_CreateDir dir mode_700 None]" by blast
      with True show ?thesis
        by (intro exI [of _ "DV_CreateDir ?path mode_700 m # made"]) (auto simp: creates_def split: sum.splits)
    next
      case False
      show ?thesis
      proof (cases m)
        case None
        with Suc.prems random Some m show ?thesis
          by (auto simp: io_bind_def ask_def act_def Let_def io_return_def intro!: exI [of _ "[]"])
      next
        case (Some k)
        with Suc.prems random \<open>random = _\<close> m False show ?thesis
          by (auto simp: fail_with_def report_def io_bind_def io_throw_def ask_def act_def Let_def creates_def is_report_def)
      qed
    qed
  qed
qed

lemma create_run_dir_Inr:
  "create_run_dir E base n s = (Inr dir, s') \<Longrightarrow>
     \<exists>made. dy_trace s' = dy_trace s @ made @ [DV_CreateDir dir mode_700 None] \<and> (\<forall>ev\<in>set made. creates ev)"
  using create_run_dir_cases by fastforce

lemma create_run_dir_Inl:
  "create_run_dir E base n s = (Inl e, s') \<Longrightarrow>
     \<exists>made. dy_trace s' = dy_trace s @ made \<and> (\<forall>ev\<in>set made. creates ev)"
  using create_run_dir_cases by fastforce

lemma with_cleanup_eq:
  "with_cleanup E dir m s = (r, s') \<longleftrightarrow> (\<exists>t. m s = (r, t)
     \<and> s' = t\<lparr>dy_trace := dy_trace t @ [DV_RemoveDir dir], dy_world := dn_remove_dir E dir (dy_world t)\<rparr>)"
  by (auto simp: with_cleanup_def split: prod.splits)

section \<open>The deploy process\<close>

definition outcome_unknown :: "deploy_error set" where
  "outcome_unknown = {DE_ExecutionOutcomeUnknown, DE_TimeoutOutcomeUnknown, DE_CancelledOutcomeUnknown,
     DE_OutputTooLargeOutcomeUnknown, DE_InvalidOutput}"

lemma uv_loop_unknown: "ue_result (uv_loop st ps) = Inl e \<Longrightarrow> e \<in> outcome_unknown"
  by (induction st ps rule: uv_loop.induct)
    (auto simp: uv_complete_def uv_select_def uv_killed_def outcome_unknown_def
      split: option.splits if_splits wait_result.splits sum.splits)

lemma system_info_error: "system_info out = Inl e \<Longrightarrow> e = DE_InvalidOutput"
proof -
  have "read_sections names acc remaining = Inl e \<Longrightarrow> e = DE_InvalidOutput" for names acc remaining
    by (induction names acc remaining rule: read_sections.induct)
      (auto simp: and_then_Inl Let_def split: if_splits)
  then show "system_info out = Inl e \<Longrightarrow> e = DE_InvalidOutput"
    by (auto simp: system_info_def and_then_Inl Let_def split: if_splits)
qed

lemma uv_finish_trace:
  assumes "uv_finish x s = (r, s')"
  shows "r = ue_result x \<and> (\<exists>reps. dy_trace s' = dy_trace s @ reps \<and> (\<forall>ev\<in>set reps. is_report ev))"
  using assms by (auto simp: uv_finish_def io_bind_def io_return_def io_lift_def report_def act_def is_report_def
      split: option.splits prod.splits)

lemma run_uv_trace:
  assumes "run_uv E executable temp_root deploy inventory s = (r, s')"
  shows "\<exists>started reps. dy_trace s' = dy_trace s @ DV_Uv (uv_command_of executable temp_root deploy inventory) started # reps
     \<and> (\<forall>ev\<in>set reps. is_report ev)
     \<and> (started \<longleftrightarrow> r \<noteq> Inl DE_ExecutionRejected) \<and> (\<forall>e. r = Inl e \<longrightarrow> e = DE_ExecutionRejected \<or> e \<in> outcome_unknown)"
proof -
  let ?c = "uv_command_of executable temp_root deploy inventory"
  obtain p w where p: "dn_uv E ?c (dy_world s) = (p, w)" by fastforce
  let ?t = "s\<lparr>dy_trace := dy_trace s @ [DV_Uv ?c (uv_spawn_error p = None)], dy_world := w\<rparr>"
  have st: "start_uv E ?c s = (Inr p, ?t)" by (simp add: start_uv_def p)
  show ?thesis
  proof (cases "uv_spawn_error p")
    case (Some k)
    with assms st show ?thesis
      by (auto simp: run_uv_def io_bind_def fail_with_def report_def act_def io_throw_def is_report_def)
  next
    case None
    show ?thesis
    proof (cases "uv_stdout_pipe p \<and> uv_stderr_pipe p")
      case False
      with assms st None show ?thesis
        by (auto simp: run_uv_def io_bind_def io_throw_def outcome_unknown_def split: if_splits)
    next
      case True
      with assms st None have "uv_finish (uv_loop uv_start (uv_polls p)) ?t = (r, s')"
        by (simp add: run_uv_def io_bind_def)
      from uv_finish_trace [OF this] uv_loop_unknown None show ?thesis
        by (auto simp: outcome_unknown_def) (blast | metis)+
    qed
  qed
qed

section \<open>The signer\<close>

text \<open>
  What the runner needs of its signer: its acts are requests and reads, its errors are about the credential,
  and a certificate it returns is a single well-formed line that the acts \<open>asked\<close> for the key have answered.
\<close>

definition credential_errors :: "deploy_error set" where
  "credential_errors = {DE_CredentialUnavailable, DE_CredentialInvalid, DE_InvalidConfiguration}"

locale certificate_signer =
  fixes sign :: "string \<Rightarrow> ('s, bao_stop, string) deploy_io"
    and asked :: "string \<Rightarrow> string \<Rightarrow> deploy_event list \<Rightarrow> bool"
  assumes sign_grows: "io_rel (trace_grows is_request) (sign public_key)"
    and sign_error: "sign public_key s = (Inl (BS_Error e), s') \<Longrightarrow> e \<in> credential_errors"
    and sign_certificate: "sign public_key s = (Inr certificate, s') \<Longrightarrow> validate_certificate certificate = Inr ()"
    and sign_asked: "sign public_key s = (Inr certificate, s') \<Longrightarrow>
      \<exists>requests. dy_trace s' = dy_trace s @ requests \<and> asked public_key certificate requests"
begin

lemma sign_or_cancel_grows:
  assumes "\<And>ev. is_request ev \<Longrightarrow> P ev"
  shows "io_rel (trace_grows P) (sign_or_cancel sign public_key)"
proof (rule io_relI)
  fix s r s'
  assume "sign_or_cancel sign public_key s = (r, s')"
  then obtain r' where "sign public_key s = (r', s')"
    by (auto simp: sign_or_cancel_def split: prod.splits sum.splits bao_stop.splits)
  then show "trace_grows P s s'" using trace_grows_mono assms io_relD [OF sign_grows] by metis
qed

lemma sign_or_cancel_Inr:
  "sign_or_cancel sign public_key s = (Inr certificate, s') \<longleftrightarrow> sign public_key s = (Inr certificate, s')"
  by (auto simp: sign_or_cancel_def split: prod.splits sum.splits bao_stop.splits)

lemma sign_or_cancel_Inl:
  "sign_or_cancel sign public_key s = (Inl e, s') \<Longrightarrow> e = DE_Cancelled \<or> e \<in> credential_errors"
  by (auto simp: sign_or_cancel_def dest: sign_error split: prod.splits sum.splits bao_stop.splits)

text \<open>Everything before the process happens in the directory and ends with a certainly unstarted deploy.\<close>

lemma prepare_keys_grows: "io_rel (trace_grows (prepares dir)) (prepare_keys E sign R dir)"
  unfolding prepare_keys_def run_keygen_def set_private_def read_bounded_def write_private_def Let_def
  by (intro grows sign_or_cancel_grows) (auto simp: keygen_arguments_def prepares_request
      intro!: grows split: keygen_end.splits)

text \<open>
  The acts of a completed preparation: the key that is signed is the content that was read, without
  trailing whitespace, from the file of the fresh key, and the signed certificate is what is written.
\<close>

definition prepared :: "deploy_runner \<Rightarrow> string \<Rightarrow> deploy_event list \<Rightarrow> bool" where
  "prepared R dir evs \<longleftrightarrow>
     (let key = path_join dir ''identity'' in
      \<exists>content requests certificate.
        asked (trim_end content) certificate requests \<and> validate_certificate certificate = Inr ()
        \<and> evs = [DV_Keygen (dr_keygen R # keygen_arguments key) (KG_Exited (Some 0)),
              DV_Chmod key mode_600 None, DV_Chmod (public_key_path key) mode_600 None,
              DV_Read (public_key_path key) (Inr content)]
            @ requests @ [DV_Write (path_join dir ''identity-cert.pub'') certificate mode_600 None,
              DV_Remove (public_key_path key) None])"

lemma prepare_keys_Inr:
  assumes "prepare_keys E sign R dir s = (Inr u, s')"
  shows "\<exists>evs. dy_trace s' = dy_trace s @ evs \<and> prepared R dir evs"
proof -
  let ?key = "path_join dir ''identity''"
  from assms obtain t1 b t2 t3 c t4 t5 u1 u2 u3 where k: "run_keygen E (dr_keygen R) ?key s = (Inr u1, t1)"
    and b: "read_bounded E (public_key_path ?key) 1024 t1 = (Inr b, t2)"
    and n: "cancelled_now E t2 = (Inr u2, t3)"
    and c: "sign_or_cancel sign (trim_end b) t3 = (Inr c, t4)"
    and w: "write_private E (path_join dir ''identity-cert.pub'') c mode_600 ''certificate_write'' t4 = (Inr u3, t5)"
    and r: "dy_trace s' = dy_trace t5 @ [DV_Remove (public_key_path ?key) None]"
    unfolding prepare_keys_def Let_def io_simps by (auto simp: act_eq or_report_Inr)
  from c obtain requests where q: "dy_trace t4 = dy_trace t3 @ requests" "asked (trim_end b) c requests"
    and v: "validate_certificate c = Inr ()"
    using sign_asked sign_certificate unfolding sign_or_cancel_Inr by blast
  have "dy_trace s' = dy_trace s @ [DV_Keygen (dr_keygen R # keygen_arguments ?key) (KG_Exited (Some 0)),
              DV_Chmod ?key mode_600 None, DV_Chmod (public_key_path ?key) mode_600 None,
              DV_Read (public_key_path ?key) (Inr b)]
            @ requests @ [DV_Write (path_join dir ''identity-cert.pub'') c mode_600 None,
              DV_Remove (public_key_path ?key) None]"
    using run_keygen_Inr [OF k] read_bounded_Inr [OF b] cancelled_now_Inr [OF n] q
      write_private_Inr [OF w] r by simp
  with q v show ?thesis unfolding prepared_def Let_def by blast
qed

lemma prepare_keys_prepares:
  assumes "prepare_keys E sign R dir s = (Inr u, s')" "dy_trace s' = dy_trace s @ evs" "ev \<in> set evs"
  shows "prepares dir ev"
proof -
  from io_relD [OF prepare_keys_grows assms(1)] obtain new
    where "dy_trace s' = dy_trace s @ new" "\<forall>ev\<in>set new. prepares dir ev" by (rule trace_growsE)
  with assms show ?thesis by auto
qed

lemma known_unstarted: "DE_ExecutionRejected \<notin> outcome_unknown" "DE_CredentialInvalid \<notin> outcome_unknown"
  "DE_Cancelled \<notin> outcome_unknown" "DE_MissingHostPin \<notin> outcome_unknown" "e \<in> credential_errors \<Longrightarrow> e \<notin> outcome_unknown"
  by (auto simp: outcome_unknown_def credential_errors_def)

lemma unstarted_fail_with: "e \<notin> outcome_unknown \<Longrightarrow> errors_in (\<lambda>e. e \<notin> outcome_unknown) (fail_with stage class code e)"
  unfolding fail_with_def report_def by (intro io_errors) (auto simp: errors_in_def act_eq)

lemma unstarted_or_report: "e \<notin> outcome_unknown \<Longrightarrow> errors_in (\<lambda>e. e \<notin> outcome_unknown) (or_report stage e r)"
  by (auto simp: or_report_def unstarted_fail_with intro: io_errors split: option.splits)

lemma unstarted_report_read: "e \<notin> outcome_unknown \<Longrightarrow> errors_in (\<lambda>e. e \<notin> outcome_unknown) (report_read stage e r)"
  by (auto simp: report_read_def unstarted_fail_with intro: io_errors split: sum.splits)

lemma unstarted_cancelled_now: "errors_in (\<lambda>e. e \<notin> outcome_unknown) (cancelled_now E)"
  unfolding cancelled_now_def by (intro io_errors errors_in_ask known_unstarted)

lemma unstarted_sign: "errors_in (\<lambda>e. e \<notin> outcome_unknown) (sign_or_cancel sign k)"
  by (rule errors_inI) (auto dest!: sign_or_cancel_Inl simp: known_unstarted)

lemmas unstarted = io_errors known_unstarted unstarted_fail_with unstarted_or_report unstarted_report_read
  errors_in_ask errors_in_act unstarted_cancelled_now unstarted_sign

lemma prepare_keys_unstarted: "errors_in (\<lambda>e. e \<notin> outcome_unknown) (prepare_keys E sign R dir)"
  unfolding prepare_keys_def run_keygen_def set_private_def read_bounded_def write_private_def Let_def
  by (intro unstarted) (auto intro!: unstarted split: keygen_end.splits)

lemma deploy_in_dir_trace:
  assumes "deploy_in_dir render E sign R deploy machine pin dir s = (r, s')"
  shows "\<exists>evs. dy_trace s' = dy_trace s @ evs \<and>
    ((\<forall>ev\<in>set evs. prepares dir ev) \<and> (\<exists>e. r = Inl e \<and> e \<notin> outcome_unknown)
     \<or> (\<exists>before inventory started reports. evs = before @ [DV_Write (path_join dir ''known_hosts'') (known_hosts_line machine pin) mode_600 None,
            DV_Uv (uv_command_of (dr_uv R) (dr_temp_root R) deploy inventory) started] @ reports
          \<and> prepared R dir before \<and> (\<forall>ev\<in>set before. prepares dir ev) \<and> (\<forall>ev\<in>set reports. is_report ev)
          \<and> render (inventory_json machine (path_join dir ''identity'') (path_join dir ''known_hosts'')) = Some inventory
          \<and> (started \<longleftrightarrow> r \<noteq> Inl DE_ExecutionRejected)
          \<and> (\<forall>e. r = Inl e \<longrightarrow> e = DE_ExecutionRejected \<or> e \<in> outcome_unknown)))"
    (is "\<exists>evs. _ \<and> (?A evs \<or> ?B evs)")
proof -
  let ?line = "known_hosts_line machine pin" and ?hosts = "path_join dir ''known_hosts''"
  let ?host = "write_private E ?hosts ?line mode_600 ''known_hosts_write''"
  let ?json = "render (inventory_json machine (path_join dir ''identity'') ?hosts)"
  let ?inv = "case ?json of None \<Rightarrow> fail_with ''inventory_serialize'' FC_InvalidData None DE_ExecutionRejected
       | Some text \<Rightarrow> io_return text"
  let ?head = "io_bind (prepare_keys E sign R dir) (\<lambda>_. io_bind ?host (\<lambda>_. ?inv))"
  let ?tail = "\<lambda>inventory. io_bind (run_uv E (dr_uv R) (dr_temp_root R) deploy inventory) (\<lambda>out. io_lift (system_info out))"
  have run: "io_bind ?head ?tail s = (r, s')"
    using assms by (simp add: deploy_in_dir_def Let_def io_bind_assoc)
  have grows: "io_rel (trace_grows (prepares dir)) ?head"
    unfolding write_private_def
    by (intro grows prepare_keys_grows) (auto intro!: grows split: option.splits)
  have errs: "errors_in (\<lambda>e. e \<notin> outcome_unknown) ?head"
    unfolding write_private_def
    by (intro unstarted prepare_keys_unstarted) (auto intro!: unstarted split: option.splits)
  from run show ?thesis
  proof (cases rule: io_bind_cases)
    case (err e)
    from io_relD [OF grows err(1)] errors_inD [OF errs err(1)] err(2) show ?thesis
      by (auto elim!: trace_growsE)
  next
    case (ok inventory t)
    then obtain t1 t2 u1 u2 where k: "prepare_keys E sign R dir s = (Inr u1, t1)" and h: "?host t1 = (Inr u2, t2)"
      and j: "?json = Some inventory" "t = t2"
      by (auto simp: io_simps split: option.splits)
    obtain before where before: "dy_trace t1 = dy_trace s @ before" "prepared R dir before"
      using prepare_keys_Inr [OF k] by blast
    have b: "\<forall>ev\<in>set before. prepares dir ev" using prepare_keys_prepares [OF k before(1)] by blast
    from ok(2) obtain r' t' where uv: "run_uv E (dr_uv R) (dr_temp_root R) deploy inventory t = (r', t')"
      and r: "s' = t'" "r = (case r' of Inl e \<Rightarrow> Inl e | Inr out \<Rightarrow> system_info out)"
      by (auto simp: io_bind_def io_lift_def split: prod.splits sum.splits)
    from run_uv_trace [OF uv] obtain started reports where
      tr: "dy_trace t' = dy_trace t @ DV_Uv (uv_command_of (dr_uv R) (dr_temp_root R) deploy inventory) started # reports"
      and reps: "\<forall>ev\<in>set reports. is_report ev" and st: "started \<longleftrightarrow> r' \<noteq> Inl DE_ExecutionRejected"
      and es: "\<forall>e. r' = Inl e \<longrightarrow> e = DE_ExecutionRejected \<or> e \<in> outcome_unknown" by blast
    have "started \<longleftrightarrow> r \<noteq> Inl DE_ExecutionRejected"
      using st r(2) by (auto split: sum.splits dest: system_info_error)
    moreover have "\<forall>e. r = Inl e \<longrightarrow> e = DE_ExecutionRejected \<or> e \<in> outcome_unknown"
      using es r(2) by (auto simp: outcome_unknown_def split: sum.splits dest: system_info_error)
    moreover have "dy_trace s' = dy_trace s @ before @ [DV_Write ?hosts ?line mode_600 None,
        DV_Uv (uv_command_of (dr_uv R) (dr_temp_root R) deploy inventory) started] @ reports"
      using before(1) write_private_Inr [OF h] j(2) tr r(1) by simp
    ultimately show ?thesis using before(2) b reps j(1) by blast
  qed
qed

lemma validate_host_pin_error: "validate_host_pin decode pin = Inl e \<Longrightarrow> e = DE_MissingHostPin"
  by (auto simp: validate_host_pin_def and_then_Inl split: list.splits if_splits)

text \<open>
  \<open>ran R dir deploy machine pin evs started\<close>: the acts in the directory of a run that came to the process.
\<close>

definition ran ::
  "(json \<Rightarrow> string option) \<Rightarrow> deploy_runner \<Rightarrow> string \<Rightarrow> resolved_deploy \<Rightarrow> machine \<Rightarrow> string
     \<Rightarrow> bool \<Rightarrow> deploy_event list \<Rightarrow> bool" where
  "ran render R dir deploy machine pin started evs \<longleftrightarrow>
     (\<exists>before inventory reports.
        evs = before @ [DV_Write (path_join dir ''known_hosts'') (known_hosts_line machine pin) mode_600 None,
          DV_Uv (uv_command_of (dr_uv R) (dr_temp_root R) deploy inventory) started] @ reports
        \<and> prepared R dir before \<and> (\<forall>ev\<in>set before. prepares dir ev) \<and> (\<forall>ev\<in>set reports. is_report ev)
        \<and> render (inventory_json machine (path_join dir ''identity'') (path_join dir ''known_hosts'')) = Some inventory)"

lemma deploy_worker_trace:
  assumes "deploy_worker decode render E sign R deploy machine s = (r, s')"
  shows "\<exists>new. dy_trace s' = dy_trace s @ new \<and>
    ((\<forall>ev\<in>set new. creates ev) \<and> (\<exists>e. r = Inl e \<and> e \<notin> outcome_unknown)
     \<or> (\<exists>made dir evs pin. new = made @ [DV_CreateDir dir mode_700 None] @ evs @ [DV_RemoveDir dir] \<and> (\<forall>ev\<in>set made. creates ev)
          \<and> mc_host_key machine = Some pin \<and> validate_host_pin decode pin = Inr ()
          \<and> ((\<forall>ev\<in>set evs. prepares dir ev) \<and> (\<exists>e. r = Inl e \<and> e \<notin> outcome_unknown)
             \<or> (\<exists>started. ran render R dir deploy machine pin started evs
                 \<and> (started \<longleftrightarrow> r \<noteq> Inl DE_ExecutionRejected)
                 \<and> (\<forall>e. r = Inl e \<longrightarrow> e = DE_ExecutionRejected \<or> e \<in> outcome_unknown)))))"
    (is "\<exists>new. _ \<and> (?A new \<or> ?B new)")
proof -
  let ?pin = "the (mc_host_key machine)"
  let ?check = "io_bind (cancelled_now E) (\<lambda>_. io_bind (io_lift (ok_or (mc_host_key machine) DE_MissingHostPin)) (\<lambda>pin.
     io_bind (io_lift (validate_host_pin decode pin)) (\<lambda>_. io_return pin)))"
  let ?head = "io_bind ?check (\<lambda>pin. io_bind (create_run_dir E (dr_temp_root R) 8) (\<lambda>dir. io_return (pin, dir)))"
  let ?tail = "\<lambda>(pin, dir). with_cleanup E dir (deploy_in_dir render E sign R deploy machine pin dir)"
  have run: "io_bind ?head ?tail s = (r, s')"
    using assms by (simp add: deploy_worker_def io_bind_assoc)
  have made: "\<exists>made. dy_trace s' = dy_trace s @ made \<and> (\<forall>ev\<in>set made. creates ev)" if "?head s = (Inl e, s')" for e
    using that
  proof (cases rule: io_bind_cases)
    case (err e')
    have "io_rel (trace_grows creates) ?check" by (intro grows)
    from io_relD [OF this err(1)] show ?thesis by (auto elim: trace_growsE)
  next
    case (ok pin t)
    then obtain u1 where "cancelled_now E s = (Inr u1, t)" "create_run_dir E (dr_temp_root R) 8 t = (Inl e, s')"
      by (auto simp: io_simps)
    then show ?thesis using cancelled_now_Inr create_run_dir_Inl by metis
  qed
  have dir_errs: "errors_in (\<lambda>e. e \<notin> outcome_unknown) (create_run_dir E base n)" for base n
    by (induction n) (auto simp: Let_def intro!: unstarted split: option.splits)
  have errs: "errors_in (\<lambda>e. e \<notin> outcome_unknown) ?head"
    by (intro io_errors unstarted_cancelled_now dir_errs)
      (auto simp: outcome_unknown_def dest!: validate_host_pin_error)
  from run show ?thesis
  proof (cases rule: io_bind_cases)
    case (err e)
    from made [OF err(1)] errors_inD [OF errs err(1)] err(2) show ?thesis by blast
  next
    case (ok pd t)
    then obtain pin dir t1 u1 u2 where pd: "pd = (pin, dir)" and c: "cancelled_now E s = (Inr u1, t1)"
      and pin: "mc_host_key machine = Some pin" "validate_host_pin decode pin = Inr u2"
      and cr: "create_run_dir E (dr_temp_root R) 8 t1 = (Inr dir, t)"
      by (auto simp: io_simps)
    from create_run_dir_Inr [OF cr] obtain made where
      made: "dy_trace t = dy_trace t1 @ made @ [DV_CreateDir dir mode_700 None]" "\<forall>ev\<in>set made. creates ev" by blast
    from ok(2) pd obtain t' where d: "deploy_in_dir render E sign R deploy machine pin dir t = (r, t')"
      and s': "dy_trace s' = dy_trace t' @ [DV_RemoveDir dir]" by (auto simp: with_cleanup_eq)
    from deploy_in_dir_trace [OF d] obtain evs where tr: "dy_trace t' = dy_trace t @ evs"
      and cases: "(\<forall>ev\<in>set evs. prepares dir ev) \<and> (\<exists>e. r = Inl e \<and> e \<notin> outcome_unknown)
             \<or> (\<exists>started. ran render R dir deploy machine pin started evs
                 \<and> (started \<longleftrightarrow> r \<noteq> Inl DE_ExecutionRejected)
                 \<and> (\<forall>e. r = Inl e \<longrightarrow> e = DE_ExecutionRejected \<or> e \<in> outcome_unknown))"
      unfolding ran_def by blast
    have "dy_trace s' = dy_trace s @ made @ [DV_CreateDir dir mode_700 None] @ evs @ [DV_RemoveDir dir]"
      using made(1) cancelled_now_Inr [OF c] tr s' by simp
    moreover have "validate_host_pin decode pin = Inr ()" using pin(2) by simp
    ultimately show ?thesis using cases made(2) pin(1) by blast
  qed
qed

lemma deploy_resolve_Inl: "deploy_resolve c i = Inl e \<Longrightarrow> e \<in> {DE_DeployNotFound, DE_DeployUnavailable}"
  by (auto simp: deploy_resolve_def and_then_Inl split: if_splits)

lemma deploy_run_cases:
  assumes "deploy_run decode render E sign R permits delivered ident machine s = (r, s')"
  obtains (refused) e where "s' = s" "r = Inl e" "e \<notin> outcome_unknown"
  | (ran) deploy r' where "deploy_resolve (dr_catalog R) ident = Inr deploy"
      "deploy_worker decode render E sign R deploy machine s = (r', s')"
      "r = (if delivered then r' else Inl DE_ExecutionOutcomeUnknown)"
proof (cases "permits = 0")
  case True
  with assms show thesis by (auto simp: deploy_run_def io_simps outcome_unknown_def intro: refused)
next
  case False
  show thesis
  proof (cases "deploy_resolve (dr_catalog R) ident")
    case (Inl e)
    with assms False refused [of e] deploy_resolve_Inl [OF Inl] show thesis
      by (auto simp: deploy_run_def io_bind_def io_lift_def outcome_unknown_def)
  next
    case (Inr deploy)
    show thesis
    proof (cases "mc_host_key machine")
      case None
      with assms False Inr show thesis
        by (auto simp: deploy_run_def io_bind_def io_lift_def io_throw_def outcome_unknown_def intro: refused)
    next
      case (Some pin)
      obtain r' t where "deploy_worker decode render E sign R deploy machine s = (r', t)" by fastforce
      with assms False Inr Some ran [OF Inr] show thesis
        by (auto simp: deploy_run_def io_bind_def io_lift_def)
    qed
  qed
qed

end

section \<open>The client of the certificate authority as the signer\<close>

text \<open>
  The certificate is that of the answer to the signing request, which carries the token of the answer to
  the login, which carries the service account's token read from the configured file.
\<close>

definition signed_by ::
  "bao_libs \<Rightarrow> string \<Rightarrow> http_response \<Rightarrow> string \<Rightarrow> http_response \<Rightarrow> string \<Rightarrow> bool" where
  "signed_by libs public_key login vault answer certificate \<longleftrightarrow>
     validate_public_key public_key = Inr () \<and> bounded_answer (bl_login libs) login = Inr vault
     \<and> bounded_answer (bl_signed libs) answer = Inr certificate"

definition asked_of :: "bao_libs \<Rightarrow> bao_config \<Rightarrow> string \<Rightarrow> string \<Rightarrow> deploy_event list \<Rightarrow> bool" where
  "asked_of libs config public_key certificate requests \<longleftrightarrow>
     (\<exists>jwt login vault answer. signed_by libs public_key login vault answer certificate
        \<and> requests = [DV_Read (bc_jwt_path config) (Inr jwt),
            DV_Request (login_request config jwt) (HX_Response login),
            DV_Request (sign_request config vault public_key) (HX_Response answer)])"

lemma bao_lift_eq: "bao_lift r s = (q, s') \<longleftrightarrow> q = map_err BS_Error r \<and> s' = s"
  by (auto simp: bao_lift_def io_simps)

lemma bao_lift_Inr: "bao_lift r s = (Inr a, s') \<longleftrightarrow> r = Inr a \<and> s' = s"
  by (cases r) (auto simp: bao_lift_eq)

lemma endpoint_eq: "endpoint libs path s = (Inr p, s') \<longleftrightarrow> bl_joins libs path \<and> p = path \<and> s' = s"
  by (auto simp: endpoint_def bao_lift_Inr)

lemma bao_post_Inr:
  "bao_post E request s = (Inr response, s') \<Longrightarrow> dy_trace s' = dy_trace s @ [DV_Request request (HX_Response response)]"
  by (auto simp: bao_post_def io_simps act_eq split: http_exchange.splits)

lemma read_jwt_Inr: "read_jwt E config s = (Inr jwt, s') \<Longrightarrow> dy_trace s' = dy_trace s @ [DV_Read (bc_jwt_path config) (Inr jwt)]"
  by (auto simp: read_jwt_def io_simps ask_eq act_eq split: sum.splits if_splits)

lemma request_certificate_Inr:
  assumes "request_certificate libs E config public_key s = (Inr certificate, s')"
  shows "validate_certificate certificate = Inr ()"
    and "\<exists>requests. dy_trace s' = dy_trace s @ requests \<and> asked_of libs config public_key certificate requests"
  using assms unfolding request_certificate_def io_simps
  by (auto simp: bao_lift_Inr endpoint_eq asked_of_def signed_by_def dest!: read_jwt_Inr bao_post_Inr)

lemma grows_bao_post: "io_rel (trace_grows is_request) (bao_post E request)"
  unfolding bao_post_def
  by (intro grows) (auto simp: is_request_def intro!: grows split: http_exchange.splits)

lemma request_certificate_grows: "io_rel (trace_grows is_request) (request_certificate libs E config public_key)"
  unfolding request_certificate_def read_jwt_def endpoint_def bao_lift_def
  by (intro grows grows_bao_post) (auto intro!: grows simp: is_request_def split: sum.splits)

abbreviation credential_stop :: "bao_stop \<Rightarrow> bool" where
  "credential_stop stop \<equiv> \<forall>e. stop = BS_Error e \<longrightarrow> e \<in> credential_errors"

lemma bounded_answer_error: "bounded_answer decode response = Inl e \<Longrightarrow> e \<in> credential_errors"
  by (auto simp: bounded_answer_def and_then_Inl credential_errors_def dest!: read_chunks_Inl split: if_splits)

lemma errors_bao_lift:
  "(\<And>e. r = Inl e \<Longrightarrow> e \<in> credential_errors) \<Longrightarrow> errors_in credential_stop (bao_lift r)"
  by (cases r) (auto simp: errors_in_def bao_lift_eq)

lemma validation_errors:
  "validate_public_key k = Inl e \<Longrightarrow> e \<in> credential_errors"
  "validate_certificate c = Inl e \<Longrightarrow> e \<in> credential_errors"
  by (auto simp: validate_public_key_def validate_certificate_def credential_errors_def
      split: list.splits if_splits)

lemma request_certificate_errors: "errors_in credential_stop (request_certificate libs E config public_key)"
proof -
  have jwt: "errors_in credential_stop (read_jwt E config)"
    unfolding read_jwt_def by (intro io_errors errors_in_ask) (auto intro!: io_errors errors_in_ask errors_in_act simp: credential_errors_def split: sum.splits)
  have post: "errors_in credential_stop (bao_post E request)" for request
    unfolding bao_post_def by (intro io_errors errors_in_act) (auto intro!: io_errors simp: credential_errors_def split: http_exchange.splits)
  have "errors_in credential_stop (endpoint libs path)" for path
    unfolding endpoint_def by (rule errors_bao_lift) (auto simp: credential_errors_def split: if_splits)
  then show ?thesis
    unfolding request_certificate_def
    by (intro io_errors jwt post errors_bao_lift bounded_answer_error validation_errors)
      (auto simp: credential_errors_def)
qed

interpretation bao: certificate_signer "request_certificate libs E config" "asked_of libs config" for libs E config
proof
  fix public_key s e s' certificate
  show "io_rel (trace_grows is_request) (request_certificate libs E config public_key)"
    by (rule request_certificate_grows)
  show "request_certificate libs E config public_key s = (Inl (BS_Error e), s') \<Longrightarrow> e \<in> credential_errors"
    using errors_inD [OF request_certificate_errors] by blast
  show "request_certificate libs E config public_key s = (Inr certificate, s') \<Longrightarrow>
      validate_certificate certificate = Inr ()"
    by (rule request_certificate_Inr)
  show "request_certificate libs E config public_key s = (Inr certificate, s') \<Longrightarrow>
      \<exists>requests. dy_trace s' = dy_trace s @ requests \<and> asked_of libs config public_key certificate requests"
    by (rule request_certificate_Inr)
qed

section \<open>A deploy that succeeds\<close>

text \<open>An environment in which everything works, for the witnesses.\<close>

definition ok_response :: http_response where
  "ok_response = \<lparr>hs_status = 200, hs_length = None, hs_chunks = [Inr ''{}'']\<rparr>"

definition sample_infos :: "(string \<times> string) list" where
  "sample_infos = map (\<lambda>name. (name, ''ok'')) all_sections"

definition sample_process :: uv_process where
  "sample_process = \<lparr>uv_spawn_error = None, uv_stdout_pipe = True, uv_stderr_pipe = True,
     uv_polls = [\<lparr>wp_cancelled = False, wp_exit = Some (WaitOk (Some 0)),
         wp_stdout = Some (StreamReads [ReadBytes (print_info sample_infos)]), wp_stderr = Some (StreamReads [])\<rparr>,
       \<lparr>wp_cancelled = False, wp_exit = None,
         wp_stdout = Some (StreamReads [ReadBytes (print_info sample_infos)]), wp_stderr = None\<rparr>,
       \<lparr>wp_cancelled = False, wp_exit = None, wp_stdout = None, wp_stderr = Some (StreamReads [])\<rparr>]\<rparr>"

definition sample_env :: "unit deploy_env" where
  "sample_env = \<lparr>dn_cancelled = Pair False, dn_random = Pair (Some ''0123456789abcdef''),
     dn_mkdir = (\<lambda>path. Pair None), dn_keygen = (\<lambda>args. Pair (KG_Exited (Some 0))),
     dn_chmod = (\<lambda>path. Pair None), dn_metadata = (\<lambda>path. Pair (Inr \<lparr>fi_is_file = True, fi_len = 20\<rparr>)),
     dn_read = (\<lambda>path. Pair (Inr (if path = ''/jwt'' then ''jwt'' else ''ssh-ed25519 KEY''))),
     dn_write = (\<lambda>path content. Pair None), dn_remove = (\<lambda>path. Pair None),
     dn_exchange = (\<lambda>request. Pair (HX_Response ok_response)),
     dn_uv = (\<lambda>cmd. Pair sample_process), dn_remove_dir = (\<lambda>path w. w)\<rparr>"

definition sample_libs :: bao_libs where
  "sample_libs = \<lparr>bl_joins = (\<lambda>path. True), bl_login = (\<lambda>text. Some ''vault''),
     bl_signed = (\<lambda>text. Some (certificate_kind @ '' CERT''))\<rparr>"

definition sample_bao :: bao_config where
  "sample_bao = \<lparr>bc_origin = \<lparr>url_scheme = ''https'', url_host = Some ''bao'', url_username = '''',
       url_password = None, url_query = None, url_fragment = None, url_path = ''/''\<rparr>,
     bc_auth_mount = ''kubernetes'', bc_role = ''mcp'', bc_ssh_mount = ''ssh'', bc_ssh_role = ''deploy'',
     bc_jwt_path = ''/jwt'', bc_request_timeout = from_secs 5\<rparr>"

definition sample_entry :: deploy_entry where
  "sample_entry = \<lparr>de_id = ''info'', de_description = ''facts'', de_entrypoint = ''info.py'',
     de_inventory = ''inventory.py'', de_risk = Risk_Low, de_local_available = True, de_mcp_available = True,
     de_distributions = [''debian''], de_timeout_seconds = 30, de_requires_sudo = False, de_mutating = False\<rparr>"

definition sample_runner :: deploy_runner where
  "sample_runner = \<lparr>dr_catalog = \<lparr>dc_root = ''/srv'', dc_entries = [sample_entry]\<rparr>,
     dr_uv = ''/bin/uv'', dr_keygen = ''/bin/ssh-keygen'', dr_temp_root = ''/tmp''\<rparr>"

definition sample_machine :: machine where
  "sample_machine = \<lparr>mc_id = 7, mc_display_name = ''nas'', mc_ssh_host = ''nas.lan'', mc_ssh_port = 22,
     mc_ssh_username = ''homelab'', mc_host_key = Some ''ssh-ed25519 AAAA'', mc_created_at = 5, mc_updated_at = 5\<rparr>"

definition sample_sys :: "unit deploy_sys" where
  "sample_sys = \<lparr>dy_trace = [], dy_world = ()\<rparr>"

abbreviation sample_signer :: "unit signer" where
  "sample_signer \<equiv> request_certificate sample_libs sample_env sample_bao"

abbreviation sample_run :: "(deploy_error + system_info) \<times> unit deploy_sys" where
  "sample_run \<equiv> deploy_run sample_decode (\<lambda>j. Some ''json'') sample_env sample_signer sample_runner
     1 True ''info'' sample_machine sample_sys"

lemmas bind_simps = io_bind_def io_return_def io_throw_def io_lift_def io_guard_def guard_or_def

lemma sample_key: "validate_public_key ''ssh-ed25519 KEY'' = Inr ()"
  by (simp add: validate_public_key_def)

lemma sample_certificate: "validate_certificate (certificate_kind @ '' CERT'') = Inr ()"
  by code_simp

lemma sample_answer: "bounded_answer decode ok_response = ok_or (decode ''{}'') DE_CredentialInvalid"
  by (simp add: bounded_answer_def ok_response_def status_success_def max_bao_response_bytes_def)

definition sample_requests :: "deploy_event list" where
  "sample_requests = [DV_Read ''/jwt'' (Inr ''jwt''),
     DV_Request (login_request sample_bao ''jwt'') (HX_Response ok_response),
     DV_Request (sign_request sample_bao ''vault'' ''ssh-ed25519 KEY'') (HX_Response ok_response)]"

lemma sample_sign:
  "sample_signer ''ssh-ed25519 KEY'' s = (Inr (certificate_kind @ '' CERT''),
     s\<lparr>dy_trace := dy_trace s @ sample_requests\<rparr>)"
proof -
  have "read_jwt sample_env sample_bao t = (Inr ''jwt'', t\<lparr>dy_trace := dy_trace t @ [DV_Read ''/jwt'' (Inr ''jwt'')]\<rparr>)" for t
    by (simp add: read_jwt_def bind_simps ask_def act_def sample_env_def sample_bao_def max_jwt_bytes_def
        utf8_valid_ascii ascii_text_simps has_whitespace_def)
  moreover have "bao_post sample_env q t = (Inr ok_response, t\<lparr>dy_trace := dy_trace t @ [DV_Request q (HX_Response ok_response)]\<rparr>)" for q t
    by (simp add: bao_post_def bind_simps act_def sample_env_def)
  moreover have "endpoint sample_libs path t = (Inr path, t)" for path and t :: "unit deploy_sys"
    by (simp add: endpoint_eq sample_libs_def)
  moreover have "\<not> has_whitespace ''vault''"
    by (simp add: has_whitespace_def ascii_text_simps)
  moreover have "bl_login sample_libs b = Some ''vault''"
    and "bl_signed sample_libs b = Some (certificate_kind @ '' CERT'')" for b
    by (simp_all add: sample_libs_def)
  ultimately show ?thesis
    by (simp add: request_certificate_def bind_simps bao_lift_def sample_key sample_certificate sample_answer sample_requests_def)
qed

lemma sample_env_acts:
  "dn_write sample_env path content = Pair None" "dn_remove sample_env path = Pair None"
  "dn_mkdir sample_env path = Pair None" "dn_random sample_env = Pair (Some ''0123456789abcdef'')"
  "dn_uv sample_env cmd = Pair sample_process" "dn_cancelled sample_env = Pair False"
  by (simp_all add: sample_env_def)

lemma sample_runner_fields: "dr_keygen sample_runner = ''/bin/ssh-keygen''" "dr_uv sample_runner = ''/bin/uv''"
  "dr_temp_root sample_runner = ''/tmp''"
  by (simp_all add: sample_runner_def)

lemma sample_pin: "validate_host_pin sample_decode ''ssh-ed25519 AAAA'' = Inr ()"
  by code_simp

abbreviation sample_dir :: string where
  "sample_dir \<equiv> run_dir_path ''/tmp'' ''0123456789abcdef''"

definition sample_prepared :: "string \<Rightarrow> deploy_event list" where
  "sample_prepared dir =
     [DV_Keygen (''/bin/ssh-keygen'' # keygen_arguments (path_join dir ''identity'')) (KG_Exited (Some 0)),
      DV_Chmod (path_join dir ''identity'') mode_600 None,
      DV_Chmod (public_key_path (path_join dir ''identity'')) mode_600 None,
      DV_Read (public_key_path (path_join dir ''identity'')) (Inr ''ssh-ed25519 KEY'')]
     @ sample_requests
     @ [DV_Write (path_join dir ''identity-cert.pub'') (certificate_kind @ '' CERT'') mode_600 None,
      DV_Remove (public_key_path (path_join dir ''identity'')) None]"

lemma sample_prepare:
  "prepare_keys sample_env sample_signer sample_runner dir s = (Inr (), s\<lparr>dy_trace := dy_trace s @ sample_prepared dir\<rparr>)"
proof -
  let ?key = "path_join dir ''identity''"
  have "run_keygen sample_env ''/bin/ssh-keygen'' ?key t = (Inr (), t\<lparr>dy_trace := dy_trace t @
      [DV_Keygen (''/bin/ssh-keygen'' # keygen_arguments ?key) (KG_Exited (Some 0)), DV_Chmod ?key mode_600 None,
       DV_Chmod (public_key_path ?key) mode_600 None]\<rparr>)" for t
    by (simp add: run_keygen_def set_private_def or_report_def bind_simps act_def sample_env_def exit_success_def)
  moreover have "public_key_path ?key \<noteq> ''/jwt''"
    by (auto simp: public_key_path_def path_join_def append_eq_Cons_conv)
  then have "read_bounded sample_env (public_key_path ?key) 1024 t = (Inr ''ssh-ed25519 KEY'',
      t\<lparr>dy_trace := dy_trace t @ [DV_Read (public_key_path ?key) (Inr ''ssh-ed25519 KEY'')]\<rparr>)" for t
    by (simp add: read_bounded_def report_read_def bind_simps ask_def act_def sample_env_def utf8_valid_ascii)
  moreover have "cancelled_now sample_env t = (Inr (), t)" for t
    by (simp add: cancelled_now_def bind_simps ask_def sample_env_def)
  moreover have "trim_end ''ssh-ed25519 KEY'' = ''ssh-ed25519 KEY''" by (simp add: ascii_text_simps)
  ultimately show ?thesis
    by (simp add: prepare_keys_def Let_def io_bind_def sample_runner_fields sign_or_cancel_def sample_sign
        write_private_def or_report_def io_return_def act_def sample_env_acts sample_prepared_def)
qed

lemma str_find_fresh: "pat \<noteq> [] \<Longrightarrow> hd pat \<notin> set a \<Longrightarrow> str_find (a @ pat) pat = Some (length a)"
proof (induction a)
  case Nil
  then show ?case by (cases pat) (auto simp: starts_with_def)
next
  case (Cons c a)
  then show ?case by (cases pat) (auto simp: starts_with_def)
qed

lemma sample_payload: "payload_ok sample_infos"
proof -
  have "newline \<notin> set ''ok''" by code_simp
  then have "str_find (''ok'' @ section_finish name) (section_finish name) = Some (length ''ok'')" for name
    by (intro str_find_fresh) (simp_all add: section_finish_def)
  then have "section_ok name ''ok''" for name
    by (simp add: section_ok_def max_section_bytes_def chars_ascii)
  moreover have "CHR ''H'' \<notin> set (print_sections sample_infos)" by code_simp
  then have "str_find (print_sections sample_infos @ end_mark) end_mark = Some (length (print_sections sample_infos))"
    by (intro str_find_fresh) (simp_all add: end_mark_def)
  ultimately show ?thesis by (auto simp: payload_ok_def sample_infos_def comp_def)
qed

lemma sample_output: "system_info (print_info sample_infos) = Inr (infos_map sample_infos)"
proof -
  have "is_ascii (print_info sample_infos)" by code_simp
  then have u: "utf8_valid (print_info sample_infos)" by (rule utf8_valid_ascii)
  have "str_find system_info_begin system_info_begin = Some 0" by code_simp
  with u sample_payload show ?thesis
    unfolding system_info_iff
    by (intro exI [of _ "[]"] exI [of _ sample_infos]) (simp add: infos_map_def end_mark_def)
qed

lemma sample_uv:
  "run_uv sample_env ''/bin/uv'' ''/tmp'' deploy inventory s = (Inr (print_info sample_infos),
     s\<lparr>dy_trace := dy_trace s @ [DV_Uv (uv_command_of ''/bin/uv'' ''/tmp'' deploy inventory) True]\<rparr>)"
proof -
  have "length (print_info sample_infos) \<le> deploy_max_stdout"
    by (simp add: print_info_def sample_infos_def all_sections_def section_names_def optional_section_def
        print_sections_def print_section_def section_begin_def section_finish_def system_info_begin_def
        end_mark_def deploy_max_stdout_def)
  moreover have "print_info sample_infos \<noteq> []" by (simp add: print_info_def system_info_begin_def)
  ultimately have "uv_loop uv_start (uv_polls sample_process)
      = \<lparr>ue_result = Inr (print_info sample_infos), ue_report = None, ue_terminated = False\<rparr>"
    by (simp add: sample_process_def uv_complete_def uv_select_def uv_start_def drain_def exit_success_def)
  then have "uv_finish (uv_loop uv_start (uv_polls sample_process)) t = (Inr (print_info sample_infos), t)"
    for t :: "unit deploy_sys"
    by (simp add: uv_finish_def bind_simps)
  moreover have "uv_spawn_error sample_process = None" "uv_stdout_pipe sample_process" "uv_stderr_pipe sample_process"
    by (simp_all add: sample_process_def)
  ultimately show ?thesis by (simp add: run_uv_def start_uv_def io_bind_def sample_env_acts)
qed

definition sample_deploy :: resolved_deploy where
  "sample_deploy = \<lparr>rd_root = ''/srv'', rd_entrypoint = ''info.py'', rd_inventory = ''inventory.py'',
     rd_timeout_seconds = 30\<rparr>"

lemma sample_resolve: "deploy_resolve (dr_catalog sample_runner) ''info'' = Inr sample_deploy"
  by (simp add: deploy_resolve_def valid_deploy_id_def sample_runner_def sample_entry_def sample_deploy_def starts_with_def ascii_text_simps)

lemma sample_deploy_run:
  "\<exists>s'. sample_run = (Inr (infos_map sample_infos), s') \<and> dy_trace s' =
     [DV_CreateDir sample_dir mode_700 None] @ sample_prepared sample_dir
     @ [DV_Write (path_join sample_dir ''known_hosts'') (known_hosts_line sample_machine ''ssh-ed25519 AAAA'') mode_600 None,
      DV_Uv (uv_command_of ''/bin/uv'' ''/tmp'' sample_deploy ''json'') True,
      DV_RemoveDir sample_dir]"
proof -
  have pin: "mc_host_key sample_machine = Some ''ssh-ed25519 AAAA''" by (simp add: sample_machine_def)
  have now: "cancelled_now sample_env t = (Inr (), t)" for t
    by (simp add: cancelled_now_def bind_simps ask_def sample_env_acts)
  have dir: "create_run_dir sample_env ''/tmp'' 8 t
      = (Inr sample_dir, t\<lparr>dy_trace := dy_trace t @ [DV_CreateDir sample_dir mode_700 None]\<rparr>)" for t
    by (simp add: eval_nat_numeral bind_simps ask_def act_def sample_env_acts Let_def)
  show ?thesis
    by (simp add: deploy_run_def deploy_worker_def deploy_in_dir_def with_cleanup_def Let_def io_bind_def io_lift_def
        sample_resolve pin sample_pin now dir sample_prepare sample_runner_fields write_private_def or_report_def io_return_def
        act_def sample_env_acts sample_uv sample_output sample_sys_def)
qed

section \<open>What a deploy guarantees\<close>

fun starts :: "deploy_event \<Rightarrow> bool" where
  "starts (DV_Uv cmd started) = started"
| "starts ev = False"

fun attempts :: "deploy_event \<Rightarrow> bool" where
  "attempts (DV_Uv cmd started) = True"
| "attempts ev = False"

lemma quiet_events:
  "creates ev \<Longrightarrow> \<not> attempts ev" "prepares dir ev \<Longrightarrow> \<not> attempts ev" "is_report ev \<Longrightarrow> \<not> attempts ev"
  "starts ev \<Longrightarrow> attempts ev"
  by (cases ev; auto simp: creates_def is_report_def)+

lemma filter_quiet: "\<forall>ev\<in>set evs. \<not> attempts ev \<Longrightarrow> filter attempts evs = [] \<and> \<not> (\<exists>ev\<in>set evs. starts ev)"
  using quiet_events(4) by (auto simp: filter_empty_conv)

lemma quiet_lists:
  "\<forall>ev\<in>set evs. creates ev \<Longrightarrow> filter attempts evs = [] \<and> \<not> (\<exists>ev\<in>set evs. starts ev)"
  "\<forall>ev\<in>set evs. prepares dir ev \<Longrightarrow> filter attempts evs = [] \<and> \<not> (\<exists>ev\<in>set evs. starts ev)"
  "\<forall>ev\<in>set evs. is_report ev \<Longrightarrow> filter attempts evs = [] \<and> \<not> (\<exists>ev\<in>set evs. starts ev)"
  using quiet_events by (intro filter_quiet; blast)+

lemma ran_attempts:
  assumes "bao.ran libs config render R dir deploy machine pin started evs"
  shows "length (filter attempts evs) = 1" "(\<exists>ev\<in>set evs. starts ev) \<longleftrightarrow> started"
proof -
  from assms obtain before inventory reports where
    evs: "evs = before @ [DV_Write (path_join dir ''known_hosts'') (known_hosts_line machine pin) mode_600 None,
          DV_Uv (uv_command_of (dr_uv R) (dr_temp_root R) deploy inventory) started] @ reports"
    and b: "\<forall>ev\<in>set before. prepares dir ev" and r: "\<forall>ev\<in>set reports. is_report ev"
    unfolding bao.ran_def by blast
  from quiet_lists(2) [OF b] quiet_lists(3) [OF r]
  show "length (filter attempts evs) = 1" "(\<exists>ev\<in>set evs. starts ev) \<longleftrightarrow> started"
    by (auto simp: evs)
qed

lemma worker_attempts:
  assumes "deploy_worker decode render E (request_certificate libs E config) R deploy machine s = (r, s')"
  obtains new where "dy_trace s' = dy_trace s @ new" "length (filter attempts new) \<le> 1"
    "(\<exists>ev\<in>set new. starts ev) \<longleftrightarrow> (\<forall>e. r = Inl e \<longrightarrow> e \<in> outcome_unknown)"
proof -
  have rejected: "DE_ExecutionRejected \<notin> outcome_unknown" by (simp add: outcome_unknown_def)
  show thesis
    using bao.deploy_worker_trace [OF assms]
  proof (elim disjE exE conjE)
    fix new e
    assume "dy_trace s' = dy_trace s @ new" "\<forall>ev\<in>set new. creates ev" "r = Inl e" "e \<notin> outcome_unknown"
    then show thesis using quiet_lists(1) [of new] by (intro that [of new]) auto
  next
    fix new made dir evs pin e
    assume "dy_trace s' = dy_trace s @ new" and n: "new = made @ [DV_CreateDir dir mode_700 None] @ evs @ [DV_RemoveDir dir]"
      and m: "\<forall>ev\<in>set made. creates ev" and p: "\<forall>ev\<in>set evs. prepares dir ev"
      and r: "r = Inl e" "e \<notin> outcome_unknown"
    then show thesis using quiet_lists(1) [OF m] quiet_lists(2) [OF p] by (intro that [of new]) auto
  next
    fix new made dir evs pin started
    assume new: "dy_trace s' = dy_trace s @ new" and n: "new = made @ [DV_CreateDir dir mode_700 None] @ evs @ [DV_RemoveDir dir]"
      and m: "\<forall>ev\<in>set made. creates ev" and ran: "bao.ran libs config render R dir deploy machine pin started evs"
      and st: "started \<longleftrightarrow> r \<noteq> Inl DE_ExecutionRejected"
      and es: "\<forall>e. r = Inl e \<longrightarrow> e = DE_ExecutionRejected \<or> e \<in> outcome_unknown"
    have "length (filter attempts new) \<le> 1" "(\<exists>ev\<in>set new. starts ev) \<longleftrightarrow> started"
      using quiet_lists(1) [OF m] ran_attempts [OF ran] by (auto simp: n)
    moreover have "started \<longleftrightarrow> (\<forall>e. r = Inl e \<longrightarrow> e \<in> outcome_unknown)" using st es rejected by auto
    ultimately show thesis using new by (intro that [of new]) auto
  qed
qed

text \<open>
  C22: a deploy tries to start its process at most once, and its error tells the truth about it: an
  error outside the outcome-unknown ones means that no process was started, and when the worker
  delivers its result, a process was started exactly if the run succeeded or ended with one of the
  outcome-unknown errors.
\<close>

theorem deploy_error_truthful:
  assumes "deploy_run decode render E (request_certificate libs E config) R permits delivered ident machine s = (r, s')"
  shows "\<exists>new. dy_trace s' = dy_trace s @ new \<and> length (filter attempts new) \<le> 1
    \<and> (\<forall>e. r = Inl e \<and> e \<notin> outcome_unknown \<longrightarrow> \<not> (\<exists>ev\<in>set new. starts ev))
    \<and> (delivered \<longrightarrow> ((\<exists>ev\<in>set new. starts ev) \<longleftrightarrow> (\<forall>e. r = Inl e \<longrightarrow> e \<in> outcome_unknown)))"
  using assms
proof (cases rule: bao.deploy_run_cases)
  case (refused e)
  then show ?thesis by auto
next
  case (ran deploy r')
  from ran(2) obtain new where "dy_trace s' = dy_trace s @ new" "length (filter attempts new) \<le> 1"
    "(\<exists>ev\<in>set new. starts ev) \<longleftrightarrow> (\<forall>e. r' = Inl e \<longrightarrow> e \<in> outcome_unknown)" by (rule worker_attempts)
  moreover have "DE_ExecutionOutcomeUnknown \<in> outcome_unknown" by (simp add: outcome_unknown_def)
  ultimately show ?thesis using ran(3) by (intro exI [of _ new]) (auto split: if_splits)
qed

theorem deploy_error_truthful_witness:
  "\<exists>s'. sample_run = (Inr (infos_map sample_infos), s') \<and> (\<exists>ev\<in>set (dy_trace s'). starts ev)"
proof -
  obtain s' where s': "sample_run = (Inr (infos_map sample_infos), s')" using sample_deploy_run by blast
  from deploy_error_truthful [OF s'] s' show ?thesis by (auto simp: sample_sys_def)
qed

definition prepared_events ::
  "bao_config \<Rightarrow> deploy_runner \<Rightarrow> string \<Rightarrow> string \<Rightarrow> string \<Rightarrow> http_response \<Rightarrow> string \<Rightarrow> http_response \<Rightarrow> string
     \<Rightarrow> deploy_event list" where
  "prepared_events config R dir content jwt login vault answer certificate =
     (let key = path_join dir ''identity'' in
      [DV_Keygen (dr_keygen R # keygen_arguments key) (KG_Exited (Some 0)),
       DV_Chmod key mode_600 None, DV_Chmod (public_key_path key) mode_600 None,
       DV_Read (public_key_path key) (Inr content),
       DV_Read (bc_jwt_path config) (Inr jwt),
       DV_Request (login_request config jwt) (HX_Response login),
       DV_Request (sign_request config vault (trim_end content)) (HX_Response answer),
       DV_Write (path_join dir ''identity-cert.pub'') certificate mode_600 None,
       DV_Remove (public_key_path key) None])"

lemma bao_prepared:
  assumes "bao.prepared libs config R dir evs"
  obtains content jwt login vault answer certificate where
    "evs = prepared_events config R dir content jwt login vault answer certificate"
    "signed_by libs (trim_end content) login vault answer certificate" "validate_certificate certificate = Inr ()"
proof -
  from assms obtain content requests certificate jwt login vault answer where
    "signed_by libs (trim_end content) login vault answer certificate" "validate_certificate certificate = Inr ()"
    and requests: "requests = [DV_Read (bc_jwt_path config) (Inr jwt),
            DV_Request (login_request config jwt) (HX_Response login),
            DV_Request (sign_request config vault (trim_end content)) (HX_Response answer)]"
    and evs: "evs = [DV_Keygen (dr_keygen R # keygen_arguments (path_join dir ''identity'')) (KG_Exited (Some 0)),
              DV_Chmod (path_join dir ''identity'') mode_600 None, DV_Chmod (public_key_path (path_join dir ''identity'')) mode_600 None,
              DV_Read (public_key_path (path_join dir ''identity'')) (Inr content)]
            @ requests @ [DV_Write (path_join dir ''identity-cert.pub'') certificate mode_600 None,
              DV_Remove (public_key_path (path_join dir ''identity'')) None]"
    unfolding bao.prepared_def asked_of_def Let_def by blast
  moreover have "evs = prepared_events config R dir content jwt login vault answer certificate"
    unfolding evs requests prepared_events_def Let_def by simp
  ultimately show thesis using that by blast
qed

lemma no_uv_events:
  "creates (DV_Uv cmd started) = False" "prepares dir (DV_Uv cmd started) = False" "is_report (DV_Uv cmd started) = False"
  by (auto simp: creates_def is_report_def)

text \<open>
  C21: whenever a deploy tries to start its process, it runs the entry of the catalog that was named,
  and before it, in this order and each step with success, it created its private directory, generated a
  fresh key there, read the public half from that key's file, read the service account's token from the
  configured file, logged in with it to the certificate authority, had the public key that was read signed
  for the fixed principal and lifetime with the token of the login's answer, wrote the valid certificate of
  the second answer, removed the public key file and wrote the machine's checked host pin as the only
  known host; the process gets the inventory that names these files.
\<close>

theorem deploy_starts_only_prepared:
  assumes run: "deploy_run decode render E (request_certificate libs E config) R permits delivered ident machine s = (r, s')"
    and uv: "DV_Uv cmd started \<in> set (drop (length (dy_trace s)) (dy_trace s'))"
  shows "\<exists>deploy pin made dir content jwt login vault answer certificate inventory reports.
     deploy_resolve (dr_catalog R) ident = Inr deploy
     \<and> mc_host_key machine = Some pin \<and> validate_host_pin decode pin = Inr ()
     \<and> validate_public_key (trim_end content) = Inr () \<and> bounded_answer (bl_login libs) login = Inr vault
     \<and> bounded_answer (bl_signed libs) answer = Inr certificate \<and> validate_certificate certificate = Inr ()
     \<and> render (inventory_json machine (path_join dir ''identity'') (path_join dir ''known_hosts'')) = Some inventory
     \<and> cmd = uv_command_of (dr_uv R) (dr_temp_root R) deploy inventory
     \<and> dy_trace s' = dy_trace s @ made @ [DV_CreateDir dir mode_700 None]
         @ prepared_events config R dir content jwt login vault answer certificate
         @ [DV_Write (path_join dir ''known_hosts'') (known_hosts_line machine pin) mode_600 None, DV_Uv cmd started]
         @ reports @ [DV_RemoveDir dir]
     \<and> (\<forall>ev\<in>set made. creates ev) \<and> (\<forall>ev\<in>set reports. is_report ev)"
  using run
proof (cases rule: bao.deploy_run_cases)
  case (refused e)
  then show ?thesis using uv by simp
next
  case (ran deploy r')
  from bao.deploy_worker_trace [OF ran(2)] show ?thesis
  proof (elim disjE exE conjE)
    fix new made dir evs pin started'
    assume new: "dy_trace s' = dy_trace s @ new" "new = made @ [DV_CreateDir dir mode_700 None] @ evs @ [DV_RemoveDir dir]"
      and m: "\<forall>ev\<in>set made. creates ev" and pin: "mc_host_key machine = Some pin" "validate_host_pin decode pin = Inr ()"
      and r: "bao.ran libs config render R dir deploy machine pin started' evs"
    from r obtain before inventory reports where
      evs: "evs = before @ [DV_Write (path_join dir ''known_hosts'') (known_hosts_line machine pin) mode_600 None,
          DV_Uv (uv_command_of (dr_uv R) (dr_temp_root R) deploy inventory) started'] @ reports"
      and p: "bao.prepared libs config R dir before" and b: "\<forall>ev\<in>set before. prepares dir ev"
      and reps: "\<forall>ev\<in>set reports. is_report ev"
      and inv: "render (inventory_json machine (path_join dir ''identity'') (path_join dir ''known_hosts'')) = Some inventory"
      unfolding bao.ran_def by blast
    have "DV_Uv cmd started \<notin> set before \<union> set reports \<union> set made" using b reps m no_uv_events by blast
    with uv new evs have cmd: "cmd = uv_command_of (dr_uv R) (dr_temp_root R) deploy inventory" "started' = started" by auto
    from p obtain content jwt login vault answer certificate where
      before: "before = prepared_events config R dir content jwt login vault answer certificate"
      and v: "signed_by libs (trim_end content) login vault answer certificate" "validate_certificate certificate = Inr ()"
      by (rule bao_prepared)
    with new evs cmd have "dy_trace s' = dy_trace s @ made @ [DV_CreateDir dir mode_700 None]
         @ prepared_events config R dir content jwt login vault answer certificate
         @ [DV_Write (path_join dir ''known_hosts'') (known_hosts_line machine pin) mode_600 None, DV_Uv cmd started]
         @ reports @ [DV_RemoveDir dir]" by simp
    with ran(1) pin v inv cmd(1) m reps show ?thesis unfolding signed_by_def by blast
  qed (use uv no_uv_events in auto)
qed

theorem deploy_starts_only_prepared_witness:
  "\<exists>deploy made dir content jwt login vault answer certificate reports.
     deploy_resolve (dr_catalog sample_runner) ''info'' = Inr deploy
     \<and> bounded_answer (bl_login sample_libs) login = Inr vault
     \<and> dy_trace (snd sample_run) = made @ [DV_CreateDir dir mode_700 None]
         @ prepared_events sample_bao sample_runner dir content jwt login vault answer certificate
         @ [DV_Write (path_join dir ''known_hosts'') (known_hosts_line sample_machine ''ssh-ed25519 AAAA'') mode_600 None,
            DV_Uv (uv_command_of ''/bin/uv'' ''/tmp'' sample_deploy ''json'') True]
         @ reports @ [DV_RemoveDir dir]"
proof -
  obtain s' where s': "sample_run = (Inr (infos_map sample_infos), s')"
    and uv: "DV_Uv (uv_command_of ''/bin/uv'' ''/tmp'' sample_deploy ''json'') True \<in> set (drop (length (dy_trace sample_sys)) (dy_trace s'))"
    using sample_deploy_run by (auto simp: sample_sys_def)
  have "mc_host_key sample_machine = Some ''ssh-ed25519 AAAA''" by (simp add: sample_machine_def)
  then have pin: "mc_host_key sample_machine = Some pin \<longleftrightarrow> pin = ''ssh-ed25519 AAAA''" for pin by auto
  have "dy_trace sample_sys = []" by (simp add: sample_sys_def)
  from deploy_starts_only_prepared [OF s' uv, unfolded this pin append_Nil] show ?thesis
    unfolding s' snd_conv by blast
qed

text \<open>The acts of a deploy in its directory, the process and the diagnostics included.\<close>

definition acts_in :: "string \<Rightarrow> deploy_event \<Rightarrow> bool" where
  "acts_in dir ev \<longleftrightarrow> prepares dir ev \<or> is_report ev \<or> attempts ev"

text \<open>
  C23: whatever happens, either no directory was created at all, every attempt having failed, and the run
  ends with an error; or exactly one was created, after failed attempts only, with mode 700, all that the
  run changes are private files of fixed names in it, and its removal is the last act.
\<close>

theorem deploy_directory_removed_last:
  assumes run: "deploy_run decode render E (request_certificate libs E config) R permits delivered ident machine s = (r, s')"
  shows "\<exists>new. dy_trace s' = dy_trace s @ new \<and>
    ((\<forall>ev\<in>set new. creates ev) \<and> (\<exists>e. r = Inl e)
     \<or> (\<exists>made dir evs. new = made @ [DV_CreateDir dir mode_700 None] @ evs @ [DV_RemoveDir dir]
          \<and> (\<forall>ev\<in>set made. creates ev) \<and> (\<forall>ev\<in>set evs. acts_in dir ev)))"
  using run
proof (cases rule: bao.deploy_run_cases)
  case (refused e)
  then show ?thesis by auto
next
  case (ran deploy r')
  from bao.deploy_worker_trace [OF ran(2)] show ?thesis
  proof (elim disjE exE conjE)
    fix new e
    assume "dy_trace s' = dy_trace s @ new" "\<forall>ev\<in>set new. creates ev" "r' = Inl e"
    with ran(3) show ?thesis by auto
  next
    fix new made dir evs pin e
    assume "dy_trace s' = dy_trace s @ new" "new = made @ [DV_CreateDir dir mode_700 None] @ evs @ [DV_RemoveDir dir]"
      "\<forall>ev\<in>set made. creates ev" "\<forall>ev\<in>set evs. prepares dir ev"
    then show ?thesis unfolding acts_in_def by blast
  next
    fix new made dir evs pin started
    assume new: "dy_trace s' = dy_trace s @ new" "new = made @ [DV_CreateDir dir mode_700 None] @ evs @ [DV_RemoveDir dir]"
      "\<forall>ev\<in>set made. creates ev" and r: "bao.ran libs config render R dir deploy machine pin started evs"
    then have "\<forall>ev\<in>set evs. acts_in dir ev" unfolding bao.ran_def acts_in_def by auto
    with new show ?thesis by blast
  qed
qed

theorem deploy_directory_removed_last_witness: "last (dy_trace (snd sample_run)) = DV_RemoveDir sample_dir"
proof -
  obtain s' where s': "sample_run = (Inr (infos_map sample_infos), s')"
    and tr: "dy_trace s' \<noteq> []" "last (dy_trace s') = DV_RemoveDir sample_dir"
    using sample_deploy_run by auto
  from deploy_directory_removed_last [OF s'] obtain new where "dy_trace s' = new" by (auto simp: sample_sys_def)
  with s' tr show ?thesis by simp
qed

section \<open>The pin and the catalog\<close>

definition base64_char :: "char \<Rightarrow> bool" where
  "base64_char c \<longleftrightarrow> ascii_alphanumeric (byte_of c) \<or> c \<in> set ''+/=''"

lemma base64_plain: "base64_char c \<Longrightarrow> byte_of c < 128 \<and> \<not> is_whitespace (byte_of c)"
  by (auto simp: base64_char_def ascii_defs is_whitespace_def)

lemma trim_ascii_id:
  assumes "is_ascii s" "s \<noteq> []" "\<not> is_whitespace (byte_of (hd s))" "\<not> is_whitespace (byte_of (last s))"
  shows "trim s = s"
proof -
  have ws: "chunk_is_whitespace [c] \<longleftrightarrow> is_whitespace (byte_of c)" for c
    by (simp add: chunk_is_whitespace_def code_point_def)
  have "trim_start s = s"
    using assms by (cases s) (simp_all add: trim_start_def chunks_ascii ws)
  moreover have "trim_end s = s"
    using assms by (cases s rule: rev_cases) (simp_all add: trim_end_def chunks_ascii ws)
  ultimately show ?thesis by (simp add: trim_def)
qed

lemma host_pin_iff:
  "validate_host_pin decode pin = Inr () \<longleftrightarrow>
     length pin \<le> 256 \<and>
     (\<exists>encoded pk. pin = ''ssh-ed25519 '' @ encoded \<and> encoded \<noteq> [] \<and> CHR '' '' \<notin> set encoded
        \<and> decode encoded = Some (wire_string ''ssh-ed25519'' @ wire_string pk) \<and> length pk = 32)" (is "?l \<longleftrightarrow> ?r")
proof -
  have head: "wire_string ''ssh-ed25519'' = map char_of [0 :: nat, 0, 0, 11] @ ''ssh-ed25519''" by code_simp
  have len: "be32 32 = map char_of [0 :: nat, 0, 0, 32]" by code_simp
  have bytes: "(length b = 51 \<and> take 15 b = map char_of [0 :: nat, 0, 0, 11] @ ''ssh-ed25519''
      \<and> take 4 (drop 15 b) = map char_of [0 :: nat, 0, 0, 32])
    \<longleftrightarrow> (\<exists>pk. length pk = 32 \<and> b = wire_string ''ssh-ed25519'' @ wire_string pk)" (is "?lb \<longleftrightarrow> ?rb") for b
  proof
    assume l: ?lb
    have "b = take 15 b @ take 4 (drop 15 b) @ drop 19 b"
      using append_take_drop_id [of 4 "drop 15 b"] append_take_drop_id [of 15 b] by simp
    moreover have "length (drop 19 b) = 32" using l by simp
    ultimately have "b = wire_string ''ssh-ed25519'' @ wire_string (drop 19 b)"
      using l by (simp add: head wire_string_def [of "drop 19 b"] len)
    with \<open>length (drop 19 b) = 32\<close> show ?rb by blast
  next
    assume ?rb
    then obtain pk where pk: "length pk = 32" and b: "b = wire_string ''ssh-ed25519'' @ wire_string pk" by blast
    have "wire_string pk = map char_of [0 :: nat, 0, 0, 32] @ pk" by (simp add: wire_string_def pk len)
    then show ?lb unfolding b head using pk by simp
  qed
  have "?l \<longleftrightarrow> (\<exists>encoded b. split_char (CHR '' '') pin = [''ssh-ed25519'', encoded] \<and> encoded \<noteq> [] \<and> length pin \<le> 256
      \<and> decode encoded = Some b \<and> length b = 51 \<and> take 15 b = map char_of [0 :: nat, 0, 0, 11] @ ''ssh-ed25519''
      \<and> take 4 (drop 15 b) = map char_of [0 :: nat, 0, 0, 32])"
    by (auto simp: validate_host_pin_def not_less split: list.splits if_splits)
  also have "\<dots> \<longleftrightarrow> ?r"
    unfolding host_key_fields bytes by blast
  finally show ?thesis .
qed

text \<open>
  C24: For a base64 decoder that accepts only the characters of its alphabet, the runner's check of a
  pinned host key accepts exactly what the inventory's validation accepts, so that every key the
  inventory stores can be used and nothing else can.
\<close>

theorem host_pin_check_is_inventory_check:
  assumes alphabet: "\<And>text b. decode text = Some b \<Longrightarrow> list_all base64_char text"
  shows "validate_host_pin decode pin = Inr () \<longleftrightarrow> validate_host_public_key decode pin = Inr ()"
proof -
  have "trim pin = pin" if pin: "pin = ''ssh-ed25519 '' @ encoded" and n: "encoded \<noteq> []"
    and d: "decode encoded = Some b" for encoded b
  proof (rule trim_ascii_id)
    have plain: "\<forall>c\<in>set encoded. byte_of c < 128 \<and> \<not> is_whitespace (byte_of c)"
      using alphabet [OF d] base64_plain by (auto simp: list_all_iff)
    then show "is_ascii pin" by (auto simp: pin)
    show "\<not> is_whitespace (byte_of (last pin))" using plain n by (simp add: pin)
  qed (simp_all add: pin is_whitespace_def)
  then show ?thesis unfolding host_pin_iff host_key_iff by blast
qed

theorem host_pin_check_is_inventory_check_witness:
  "validate_host_public_key sample_decode ''ssh-ed25519 AAAA'' = Inr ()
    \<and> validate_host_pin sample_decode ''ssh-ed25519 AAAA'' = Inr ()"
proof -
  have "sample_decode t = Some b \<Longrightarrow> list_all base64_char t" for t b
    by (auto simp: sample_decode_def base64_char_def ascii_defs split: if_splits)
  then have "validate_host_pin sample_decode pin = Inr () \<longleftrightarrow> validate_host_public_key sample_decode pin = Inr ()" for pin
    by (rule host_pin_check_is_inventory_check)
  with sample_pin show ?thesis by blast
qed

text \<open>
  C25: a catalog that loads has between one and 64 entries with distinct identifiers; an identifier
  resolves exactly if it names an entry that is available to the server, and then to files that lie,
  after links are resolved, under the catalog's root, with a timeout of 1 to 900 seconds.
\<close>

theorem loaded_catalog_resolves_confined:
  assumes load: "deploy_catalog_load decode fs base catalog = Inr c"
  shows "deploy_list c \<noteq> [] \<and> length (deploy_list c) \<le> 64 \<and> distinct (map dm_id (deploy_list c))
    \<and> (\<forall>i. (\<exists>d. deploy_resolve c i = Inr d) \<longleftrightarrow> (\<exists>m\<in>set (deploy_list c). dm_id m = i \<and> dm_mcp_available m))
    \<and> (\<forall>i d. deploy_resolve c i = Inr d \<longrightarrow>
         fs_canonical fs base = Some (rd_root d) \<and> confined fs (rd_root d) (rd_entrypoint d)
         \<and> confined fs (rd_root d) (rd_inventory d)
         \<and> 1 \<le> unat (rd_timeout_seconds d) \<and> unat (rd_timeout_seconds d) \<le> 900)"
proof (intro conjI allI impI)
  note c = deploy_catalog_load_Inr [OF load]
  show "deploy_list c \<noteq> []" "length (deploy_list c) \<le> 64" using c by (simp_all add: deploy_list_def)
  show "distinct (map dm_id (deploy_list c))" using c by (simp add: deploy_list_def entry_metadata_def comp_def)
  fix i
  have "\<exists>d. deploy_resolve c i = Inr d" if e: "e \<in> set (dc_entries c)" "de_id e = i" "de_mcp_available e" for e
  proof -
    have "valid_deploy_id i" using c(2) e by (auto simp: list_all_iff entry_ok_def)
    moreover have "List.find (\<lambda>e. de_id e = i) (dc_entries c) = Some e"
      using find_distinct [OF c(3) e(1)] e(2) by simp
    ultimately show ?thesis using e(3) by (simp add: deploy_resolve_def)
  qed
  then show "(\<exists>d. deploy_resolve c i = Inr d) \<longleftrightarrow> (\<exists>m\<in>set (deploy_list c). dm_id m = i \<and> dm_mcp_available m)"
    by (auto simp: deploy_list_def entry_metadata_def dest!: deploy_resolve_Inr)
  fix d
  assume "deploy_resolve c i = Inr d"
  then obtain e where e: "e \<in> set (dc_entries c)" and d: "d = \<lparr>rd_root = dc_root c, rd_entrypoint = de_entrypoint e,
      rd_inventory = de_inventory e, rd_timeout_seconds = de_timeout_seconds e\<rparr>"
    using deploy_resolve_Inr by blast
  have "entry_ok fs (dc_root c) e" using c(2) e by (simp add: list_all_iff)
  then show "fs_canonical fs base = Some (rd_root d)" "confined fs (rd_root d) (rd_entrypoint d)"
    "confined fs (rd_root d) (rd_inventory d)"
    "1 \<le> unat (rd_timeout_seconds d)" "unat (rd_timeout_seconds d) \<le> 900"
    using c(1) by (simp_all add: d entry_ok_def)
qed

definition sample_fs :: catalog_fs where
  "sample_fs = \<lparr>fs_canonical = Some, fs_info = (\<lambda>path. Some \<lparr>fi_is_file = True, fi_len = 20\<rparr>), fs_bytes = (\<lambda>path. Some ''{}'')\<rparr>"

definition sample_file :: catalog_file where
  "sample_file = \<lparr>cf_version = 1, cf_deploys = [sample_entry]\<rparr>"

lemma sample_load:
  "deploy_catalog_load (\<lambda>text. Some sample_file) sample_fs ''/srv'' ''/srv/catalog.json'' = Inr (dr_catalog sample_runner)"
proof -
  have "confine_file sample_fs ''/srv'' ''info.py'' = Inr ()" "confine_file sample_fs ''/srv'' ''inventory.py'' = Inr ()"
    by code_simp+
  then have "check_entries sample_fs ''/srv'' [] [sample_entry] = Inr ()"
    by (simp add: check_entry_def sample_entry_def valid_deploy_id_def starts_with_def ascii_text_simps)
  then show ?thesis
    by (simp add: deploy_catalog_load_def sample_file_def sample_runner_def is_absolute_def starts_with_def
        max_catalog_bytes_def del: check_entries.simps) (simp add: sample_fs_def max_catalog_bytes_def)
qed

theorem loaded_catalog_resolves_confined_witness:
  "\<exists>d. deploy_resolve (dr_catalog sample_runner) ''info'' = Inr d \<and> confined sample_fs (rd_root d) (rd_entrypoint d)"
  using loaded_catalog_resolves_confined [OF sample_load] sample_resolve by blast

end
