(* ===== verification/Config.thy ===== *)
theory Config
  imports Kube_Validate Deploy_World Tekton_Normalize
begin

text \<open>
  The configuration of the server (\<open>src/config.rs\<close>): reading the environment, the checks of the single
  variables, the documents of the Kubernetes and Ceph clusters, and the checks that span variables.

  \<open>env\<close> is the environment (\<open>env::var(name).ok()\<close>).  The URL parser, \<open>Url::set_path\<close> and the
  deserializers of the three documents (serde) are the parameters \<open>config_libs\<close>.  A \<open>Secret\<close> is its
  text, a \<open>PathBuf\<close> its string.
\<close>

section \<open>Data\<close>

record database_config =
  db_url :: string
  db_max_connections :: u32

record oidc_config =
  oc_public_url :: string
  oc_issuer :: string
  oc_client_id :: string
  oc_client_secret :: string
  oc_redirect_uri :: string
  oc_scopes :: "string list"

record oauth_config =
  oa_issuer :: string
  oa_resource :: string
  oa_required_scopes :: "string list"
  oa_access_token_ttl :: duration
  oa_refresh_token_ttl :: duration
  oa_refresh_family_ttl :: duration
  oa_code_ttl :: duration
  oa_allow_dcr :: bool
  oa_allow_cimd :: bool
  oa_cimd_origins :: "located_url list"
  oa_allow_loopback :: bool
  oa_wrapping_keys_file :: string

record grafana_config =
  gc_origin :: located_url
  gc_token :: string

record tekton_settings =
  tg_forgejo_origin :: located_url
  tg_forgejo_token :: string
  tg_namespace :: string
  tg_pac_origin :: located_url
  tg_pac_incoming_secret :: string

record kubernetes_cluster =
  kl_name :: string
  kl_kubeconfig :: string
  kl_context :: string
  kl_cache_dir :: string

record kubernetes_settings =
  kg_kubectl_path :: string
  kg_clusters :: "kubernetes_cluster list"

record raw_ceph_cluster =
  rc_name :: string
  rc_origin :: string
  rc_expected_major_release :: u8
  rc_username_env :: string
  rc_password_env :: string

record ceph_cluster =
  ck_name :: string
  ck_origin :: located_url
  ck_expected_major_release :: u8
  ck_username :: string
  ck_password :: string

record deploy_settings =
  dg_root :: string
  dg_catalog :: string
  dg_uv :: string
  dg_ssh_keygen :: string
  dg_temp_root :: string
  dg_openbao_origin :: located_url
  dg_openbao_auth_mount :: string
  dg_openbao_role :: string
  dg_openbao_ssh_mount :: string
  dg_openbao_ssh_role :: string
  dg_openbao_jwt_path :: string
  dg_openbao_timeout :: duration

record integrations_config =
  ig_grafana :: grafana_config
  ig_tekton :: tekton_settings
  ig_kubernetes :: kubernetes_settings
  ig_ceph :: "ceph_cluster list"
  ig_deploys :: deploy_settings

record config =
  cg_database :: database_config
  cg_oidc :: oidc_config
  cg_oauth :: oauth_config
  cg_integrations :: integrations_config

record keyring_file =
  kf_schema_version :: u8
  kf_active :: string
  kf_keys :: "(string \<times> string) list"

record telemetry_config =
  te_environment :: string
  te_namespace :: "string option"
  te_pod_name :: "string option"
  te_pod_uid :: "string option"
  te_pyroscope_url :: "located_url option"

record config_libs =
  cl_url :: "string \<Rightarrow> located_url option"
  cl_set_path :: "located_url \<Rightarrow> string \<Rightarrow> located_url"
  cl_kubernetes :: "string \<Rightarrow> kubernetes_cluster list option"
  cl_ceph :: "string \<Rightarrow> raw_ceph_cluster list option"
  cl_keyring :: "string \<Rightarrow> keyring_file option"

type_synonym environment = "string \<Rightarrow> string option"

definition env_prefix :: string where
  "env_prefix = ''HOMELAB_MCP_''"

definition required_oauth_scopes :: "string list" where
  "required_oauth_scopes = [''mcp:use'', ''kubernetes:read'', ''kubernetes:write'', ''inventory:read'',
     ''inventory:write'', ''inventory:host-trust'', ''deploy:read'', ''deploy:run'']"

definition max_clusters_json_bytes :: nat where
  "max_clusters_json_bytes = 64 * 1024"

definition ceph_cluster_limit :: nat where
  "ceph_cluster_limit = 32"

definition ceph_major_release :: u8 where
  "ceph_major_release = 19"

section \<open>Single variables\<close>

definition optional_var :: "environment \<Rightarrow> string \<Rightarrow> string option" where
  "optional_var env name = opt_filter (\<lambda>v. v \<noteq> []) (env (env_prefix @ name))"

definition required_var :: "environment \<Rightarrow> string \<Rightarrow> string + string" where
  "required_var env name =
     ok_or (opt_filter (\<lambda>v. v \<noteq> []) (env (env_prefix @ name))) (''missing '' @ env_prefix @ name)"

definition invalid_var :: "string \<Rightarrow> string" where
  "invalid_var name = ''invalid '' @ env_prefix @ name"

definition secret_var :: "environment \<Rightarrow> string \<Rightarrow> string + string" where
  "secret_var env name =
     and_then (required_var env name) (\<lambda>v. if trim v = [] then Inl (invalid_var name) else Inr v)"

text \<open>\<open>str::parse\<close> of an unsigned integer below the bound: an optional plus sign and decimal digits.\<close>

definition parse_unsigned :: "nat \<Rightarrow> string \<Rightarrow> nat option" where
  "parse_unsigned bound s =
     (let d = (case strip_prefix s ''+'' of Some r \<Rightarrow> r | None \<Rightarrow> s) in
      if d = [] \<or> \<not> all_digits d \<or> bound \<le> parse_digits d then None else Some (parse_digits d))"

definition seconds_var :: "environment \<Rightarrow> string \<Rightarrow> string + duration" where
  "seconds_var env name =
     and_then (required_var env name) (\<lambda>v.
       ok_or (map_option from_secs (opt_filter (\<lambda>n. 0 < n) (parse_unsigned (2 ^ 64) v))) (invalid_var name))"

definition bounded_u32_var :: "environment \<Rightarrow> string \<Rightarrow> u32 \<Rightarrow> u32 \<Rightarrow> string + u32" where
  "bounded_u32_var env name minimum maximum =
     and_then (required_var env name) (\<lambda>v.
       ok_or (opt_filter (\<lambda>n. minimum \<le> n \<and> n \<le> maximum) (map_option word_of_nat (parse_unsigned (2 ^ 32) v)))
         (invalid_var name))"

definition bounded_u64_var :: "environment \<Rightarrow> string \<Rightarrow> u64 \<Rightarrow> u64 \<Rightarrow> string + u64" where
  "bounded_u64_var env name minimum maximum =
     and_then (required_var env name) (\<lambda>v.
       ok_or (opt_filter (\<lambda>n. minimum \<le> n \<and> n \<le> maximum) (map_option word_of_nat (parse_unsigned (2 ^ 64) v)))
         (invalid_var name))"

definition safe_absolute_path :: "string \<Rightarrow> bool" where
  "safe_absolute_path v \<longleftrightarrow>
     v \<noteq> [] \<and> length v \<le> 4096 \<and> \<not> has_control v \<and> is_absolute v
     \<and> PC_ParentDir \<notin> set (path_components v)"

definition absolute_path_var :: "environment \<Rightarrow> string \<Rightarrow> string + string" where
  "absolute_path_var env name =
     and_then (required_var env name) (\<lambda>v. if safe_absolute_path v then Inr v else Inl (invalid_var name))"

definition segment_var :: "environment \<Rightarrow> string \<Rightarrow> string + string" where
  "segment_var env name =
     and_then (required_var env name) (\<lambda>v.
       if v \<noteq> [] \<and> length v \<le> 128 \<and> list_all (\<lambda>c. ascii_alphanumeric c \<or> c \<in> set (bytes ''-_'')) (chars v)
       then Inr v else Inl (invalid_var name))"

definition boolean_var :: "environment \<Rightarrow> string \<Rightarrow> string + bool" where
  "boolean_var env name =
     and_then (required_var env name) (\<lambda>v.
       if v = ''true'' then Inr True else if v = ''false'' then Inr False else Inl (invalid_var name))"

text \<open>\<open>split_ascii_whitespace\<close>: maximal runs of bytes other than space, tab, newline, form feed and return.\<close>

definition ascii_whitespace :: "char \<Rightarrow> bool" where
  "ascii_whitespace c \<longleftrightarrow> byte_of c \<in> {9, 10, 12, 13, 32}"

definition split_ascii_whitespace :: "string \<Rightarrow> string list" where
  "split_ascii_whitespace s =
     filter (\<lambda>w. w \<noteq> []) (split_char (CHR '' '') (map (\<lambda>c. if ascii_whitespace c then CHR '' '' else c) s))"

section \<open>URLs\<close>

definition secure_url :: "config_libs \<Rightarrow> string \<Rightarrow> string \<Rightarrow> string + located_url" where
  "secure_url libs name v =
     and_then (ok_or (cl_url libs v) (invalid_var name)) (\<lambda>u.
       if url_scheme u \<noteq> ''https'' \<or> url_host u = None \<or> url_username u \<noteq> [] \<or> url_password u \<noteq> None
       then Inl (invalid_var name) else Inr u)"

definition secure_origin :: "config_libs \<Rightarrow> string \<Rightarrow> string \<Rightarrow> string + located_url" where
  "secure_origin libs name v =
     and_then (secure_url libs name v) (\<lambda>u.
       if url_path u \<noteq> ''/'' \<or> url_query u \<noteq> None \<or> url_fragment u \<noteq> None
       then Inl (invalid_var name) else Inr u)"

definition internal_http_origin :: "config_libs \<Rightarrow> string \<Rightarrow> string \<Rightarrow> string + located_url" where
  "internal_http_origin libs name v =
     and_then (ok_or (cl_url libs v) (invalid_var name)) (\<lambda>u.
       if url_scheme u \<noteq> ''http'' \<or> url_host u = None \<or> url_username u \<noteq> [] \<or> url_password u \<noteq> None
          \<or> (url_path u \<noteq> ''/'' \<and> url_path u \<noteq> []) \<or> url_query u \<noteq> None \<or> url_fragment u \<noteq> None
       then Inl (invalid_var name) else Inr (cl_set_path libs u ''/''))"

definition secure_origins :: "config_libs \<Rightarrow> environment \<Rightarrow> string \<Rightarrow> string + located_url list" where
  "secure_origins libs env name =
     (case optional_var env name of
        None \<Rightarrow> Inr []
      | Some v \<Rightarrow> collect_results (map (secure_origin libs name) (map trim (split_char (CHR '','') v))))"

section \<open>Scopes and clusters\<close>

definition oauth_policy_invalid :: string where
  "oauth_policy_invalid = ''OAuth policy configuration is invalid''"

definition parse_required_scopes :: "string \<Rightarrow> string + string list" where
  "parse_required_scopes v =
     (let scopes = split_ascii_whitespace v in
      if scopes \<noteq> required_oauth_scopes \<or> \<not> distinct scopes then Inl oauth_policy_invalid
      else Inr scopes)"

definition valid_kubernetes_identifier :: "string \<Rightarrow> bool \<Rightarrow> bool" where
  "valid_kubernetes_identifier v context' \<longleftrightarrow>
     v \<noteq> [] \<and> length v \<le> 253 \<and> \<not> starts_with v ''-''
     \<and> \<not> list_ex (\<lambda>c. is_control c \<or> is_whitespace c) (chars v)
     \<and> list_all (\<lambda>c. ascii_alphanumeric c \<or> c \<in> set (bytes ''-._'') \<or> context' \<and> c \<in> set (bytes '':/'')) (chars v)"

definition kubernetes_config_invalid :: string where
  "kubernetes_config_invalid = ''Kubernetes integration configuration is invalid''"

fun check_clusters :: "string list \<Rightarrow> kubernetes_cluster list \<Rightarrow> string + unit" where
  "check_clusters names [] = Inr ()"
| "check_clusters names (cluster # clusters) =
     (if \<not> valid_kubernetes_identifier (kl_name cluster) False
         \<or> \<not> valid_kubernetes_identifier (kl_context cluster) True
         \<or> \<not> safe_absolute_path (kl_kubeconfig cluster)
         \<or> \<not> safe_absolute_path (kl_cache_dir cluster)
         \<or> kl_name cluster \<in> set names
      then Inl kubernetes_config_invalid
      else check_clusters (kl_name cluster # names) clusters)"

definition validate_kubernetes_config :: "kubernetes_settings \<Rightarrow> string + unit" where
  "validate_kubernetes_config settings =
     (if \<not> safe_absolute_path (kg_kubectl_path settings) \<or> kg_clusters settings = []
         \<or> 32 < length (kg_clusters settings)
      then Inl kubernetes_config_invalid
      else check_clusters [] (kg_clusters settings))"

definition parse_kubernetes_clusters :: "config_libs \<Rightarrow> string \<Rightarrow> string + kubernetes_cluster list" where
  "parse_kubernetes_clusters libs v =
     (if max_clusters_json_bytes < length v then Inl (invalid_var ''KUBERNETES_CLUSTERS'')
      else
        and_then (ok_or (cl_kubernetes libs v) (invalid_var ''KUBERNETES_CLUSTERS'')) (\<lambda>clusters.
        and_then (validate_kubernetes_config \<lparr>kg_kubectl_path = ''/inert/kubectl'', kg_clusters = clusters\<rparr>)
          (\<lambda>_. Inr clusters)))"

definition valid_ceph_cluster_name :: "string \<Rightarrow> bool" where
  "valid_ceph_cluster_name v \<longleftrightarrow>
     v \<noteq> [] \<and> length v \<le> 63
     \<and> list_all (\<lambda>b. ascii_lowercase b \<or> ascii_digit b \<or> b = of_char (CHR ''-'')) (bytes v)
     \<and> ascii_alphanumeric (hd (bytes v)) \<and> ascii_alphanumeric (last (bytes v))"

definition to_ascii_uppercase_byte :: "char \<Rightarrow> char" where
  "to_ascii_uppercase_byte c = (if ascii_lowercase (of_char c) then char_of (of_char c - 32 :: nat) else c)"

text \<open>The environment variable of a credential of the cluster: upper case, with underscores for dashes.\<close>

definition credential_env :: "string \<Rightarrow> string \<Rightarrow> string" where
  "credential_env name suffix =
     env_prefix @ ''CEPH_'' @ str_replace (map to_ascii_uppercase_byte name) ''-'' ''_'' @ suffix"

definition ceph_clusters_invalid :: string where
  "ceph_clusters_invalid = ''invalid HOMELAB_MCP_CEPH_CLUSTERS''"

definition credential_of :: "environment \<Rightarrow> string \<Rightarrow> string + string" where
  "credential_of env name =
     ok_or (opt_filter (\<lambda>v. trim v \<noteq> []) (env name)) (''missing '' @ name)"

definition ceph_cluster_of ::
  "config_libs \<Rightarrow> environment \<Rightarrow> string list \<Rightarrow> raw_ceph_cluster \<Rightarrow> string + ceph_cluster" where
  "ceph_cluster_of libs env names raw =
     (let username_env = credential_env (rc_name raw) ''_USERNAME'';
          password_env = credential_env (rc_name raw) ''_PASSWORD'' in
      if \<not> valid_ceph_cluster_name (rc_name raw)
         \<or> rc_name raw \<in> set names
         \<or> rc_expected_major_release raw \<noteq> ceph_major_release
         \<or> rc_username_env raw \<noteq> username_env
         \<or> rc_password_env raw \<noteq> password_env
      then Inl ceph_clusters_invalid
      else
        and_then (map_err (\<lambda>_. ceph_clusters_invalid) (secure_origin libs ''CEPH_CLUSTERS'' (rc_origin raw))) (\<lambda>origin.
        and_then (credential_of env username_env) (\<lambda>username.
        and_then (credential_of env password_env) (\<lambda>password.
          Inr \<lparr>ck_name = rc_name raw, ck_origin = origin,
               ck_expected_major_release = rc_expected_major_release raw,
               ck_username = username, ck_password = password\<rparr>))))"

fun ceph_clusters_of ::
  "config_libs \<Rightarrow> environment \<Rightarrow> string list \<Rightarrow> raw_ceph_cluster list \<Rightarrow> string + ceph_cluster list" where
  "ceph_clusters_of libs env names [] = Inr []"
| "ceph_clusters_of libs env names (raw # raws) =
     and_then (ceph_cluster_of libs env names raw) (\<lambda>cluster.
     and_then (ceph_clusters_of libs env (rc_name raw # names) raws) (\<lambda>clusters.
       Inr (cluster # clusters)))"

definition parse_ceph_clusters ::
  "config_libs \<Rightarrow> environment \<Rightarrow> string option \<Rightarrow> string + ceph_cluster list" where
  "parse_ceph_clusters libs env text =
     (let v = (case text of Some v \<Rightarrow> v | None \<Rightarrow> ''[]'') in
      if max_clusters_json_bytes < length v then Inl ceph_clusters_invalid
      else
        and_then (ok_or (cl_ceph libs v) ceph_clusters_invalid) (\<lambda>raws.
          if ceph_cluster_limit < length raws then Inl ceph_clusters_invalid
          else ceph_clusters_of libs env [] raws))"

section \<open>The configuration\<close>

definition validate_config :: "config_libs \<Rightarrow> config \<Rightarrow> string + unit" where
  "validate_config libs c =
     (let oidc = cg_oidc c; oauth = cg_oauth c; tekton = ig_tekton (cg_integrations c) in
     and_then (secure_url libs ''PUBLIC_URL'' (oc_public_url oidc)) (\<lambda>public.
     and_then (secure_url libs ''OIDC_ISSUER'' (oc_issuer oidc)) (\<lambda>oidc_issuer.
     and_then (secure_url libs ''OIDC_REDIRECT_URI'' (oc_redirect_uri oidc)) (\<lambda>redirect.
     and_then (secure_url libs ''OAUTH_ISSUER'' (oa_issuer oauth)) (\<lambda>oauth_issuer.
     and_then (secure_url libs ''OAUTH_RESOURCE'' (oa_resource oauth)) (\<lambda>resource.
       if url_query oidc_issuer \<noteq> None
          \<or> url_fragment oidc_issuer \<noteq> None
          \<or> url_path public \<noteq> ''/''
          \<or> url_query public \<noteq> None
          \<or> url_fragment public \<noteq> None
          \<or> lu_text oauth_issuer \<noteq> lu_text public @ ''oauth''
          \<or> lu_text resource \<noteq> lu_text public @ ''mcp''
          \<or> lu_text redirect \<noteq> lu_text public @ ''oidc/callback''
       then Inl ''public OAuth URLs are inconsistent''
       else if list_ex (\<lambda>required. required \<notin> set (oc_scopes oidc)) [''openid'', ''profile'', ''email'']
          \<or> oa_required_scopes oauth \<noteq> required_oauth_scopes
          \<or> oa_access_token_ttl oauth = 0
          \<or> oa_refresh_token_ttl oauth = 0
          \<or> oa_refresh_family_ttl oauth < oa_refresh_token_ttl oauth
          \<or> oa_code_ttl oauth = 0
       then Inl oauth_policy_invalid
       else if tg_namespace tekton \<noteq> ''pipelines-as-code''
          \<or> lu_text (tg_forgejo_origin tekton) \<noteq> ''https://git.holdenitdown.net/''
          \<or> lu_text (tg_pac_origin tekton)
              \<noteq> ''http://pipelines-as-code-controller.pipelines-as-code.svc.cluster.local:8080/''
       then Inl ''Tekton integration configuration is invalid''
       else validate_kubernetes_config (ig_kubernetes (cg_integrations c))))))))"

definition database_from_env :: "environment \<Rightarrow> string + database_config" where
  "database_from_env env =
     and_then (required_var env ''DATABASE_URL'') (\<lambda>url.
     and_then (bounded_u32_var env ''DATABASE_MAX_CONNECTIONS'' 1 32) (\<lambda>max.
       Inr \<lparr>db_url = url, db_max_connections = max\<rparr>))"

definition oidc_from_env :: "environment \<Rightarrow> string + oidc_config" where
  "oidc_from_env env =
     and_then (required_var env ''PUBLIC_URL'') (\<lambda>public.
     and_then (required_var env ''OIDC_ISSUER'') (\<lambda>issuer.
     and_then (required_var env ''OIDC_CLIENT_ID'') (\<lambda>client.
     and_then (secret_var env ''OIDC_CLIENT_SECRET'') (\<lambda>secret.
     and_then (required_var env ''OIDC_REDIRECT_URI'') (\<lambda>redirect.
     and_then (required_var env ''OIDC_SCOPES'') (\<lambda>scopes.
       Inr \<lparr>oc_public_url = public, oc_issuer = issuer, oc_client_id = client, oc_client_secret = secret,
            oc_redirect_uri = redirect, oc_scopes = split_ascii_whitespace scopes\<rparr>))))))"

definition oauth_from_env :: "config_libs \<Rightarrow> environment \<Rightarrow> string + oauth_config" where
  "oauth_from_env libs env =
     and_then (required_var env ''OAUTH_ISSUER'') (\<lambda>issuer.
     and_then (required_var env ''OAUTH_RESOURCE'') (\<lambda>resource.
     and_then (and_then (required_var env ''OAUTH_REQUIRED_SCOPES'') parse_required_scopes) (\<lambda>scopes.
     and_then (seconds_var env ''OAUTH_ACCESS_TOKEN_TTL'') (\<lambda>access.
     and_then (seconds_var env ''OAUTH_REFRESH_TOKEN_TTL'') (\<lambda>refresh.
     and_then (seconds_var env ''OAUTH_REFRESH_FAMILY_TTL'') (\<lambda>family.
     and_then (seconds_var env ''OAUTH_CODE_TTL'') (\<lambda>code.
     and_then (boolean_var env ''OAUTH_ALLOW_DCR'') (\<lambda>dcr.
     and_then (boolean_var env ''OAUTH_ALLOW_CIMD'') (\<lambda>cimd.
     and_then (secure_origins libs env ''OAUTH_CIMD_TRUSTED_PRIVATE_ORIGINS'') (\<lambda>origins.
     and_then (boolean_var env ''OAUTH_ALLOW_LOOPBACK_REDIRECTS'') (\<lambda>loopback.
     and_then (required_var env ''OAUTH_WRAPPING_KEYS_FILE'') (\<lambda>keys.
       Inr \<lparr>oa_issuer = issuer, oa_resource = resource, oa_required_scopes = scopes,
            oa_access_token_ttl = access, oa_refresh_token_ttl = refresh, oa_refresh_family_ttl = family,
            oa_code_ttl = code, oa_allow_dcr = dcr, oa_allow_cimd = cimd, oa_cimd_origins = origins,
            oa_allow_loopback = loopback, oa_wrapping_keys_file = keys\<rparr>))))))))))))"

definition deploys_from_env :: "config_libs \<Rightarrow> environment \<Rightarrow> string + deploy_settings" where
  "deploys_from_env libs env =
     and_then (absolute_path_var env ''DEPLOY_ROOT'') (\<lambda>base.
     and_then (absolute_path_var env ''DEPLOY_CATALOG'') (\<lambda>catalog.
     and_then (absolute_path_var env ''DEPLOY_UV_EXECUTABLE'') (\<lambda>uv.
     and_then (absolute_path_var env ''DEPLOY_SSH_KEYGEN_EXECUTABLE'') (\<lambda>keygen.
     and_then (absolute_path_var env ''DEPLOY_TEMP_ROOT'') (\<lambda>temp.
     and_then (and_then (required_var env ''OPENBAO_URL'') (secure_origin libs ''OPENBAO_URL'')) (\<lambda>origin.
     and_then (segment_var env ''OPENBAO_KUBERNETES_AUTH_MOUNT'') (\<lambda>auth_mount.
     and_then (segment_var env ''OPENBAO_KUBERNETES_ROLE'') (\<lambda>auth_role.
     and_then (segment_var env ''OPENBAO_SSH_MOUNT'') (\<lambda>ssh_mount.
     and_then (segment_var env ''OPENBAO_SSH_ROLE'') (\<lambda>ssh_role.
     and_then (absolute_path_var env ''OPENBAO_JWT_PATH'') (\<lambda>jwt.
     and_then (bounded_u64_var env ''OPENBAO_REQUEST_TIMEOUT_MS'' 100 30000) (\<lambda>timeout.
       Inr \<lparr>dg_root = base, dg_catalog = catalog, dg_uv = uv, dg_ssh_keygen = keygen, dg_temp_root = temp,
            dg_openbao_origin = origin, dg_openbao_auth_mount = auth_mount, dg_openbao_role = auth_role,
            dg_openbao_ssh_mount = ssh_mount, dg_openbao_ssh_role = ssh_role, dg_openbao_jwt_path = jwt,
            dg_openbao_timeout = from_millis (unat timeout)\<rparr>))))))))))))"

definition tekton_from_env :: "config_libs \<Rightarrow> environment \<Rightarrow> string + tekton_settings" where
  "tekton_from_env libs env =
     and_then (and_then (required_var env ''FORGEJO_ORIGIN'') (secure_origin libs ''FORGEJO_ORIGIN'')) (\<lambda>forgejo.
     and_then (secret_var env ''FORGEJO_TOKEN'') (\<lambda>forgejo_token.
     and_then (required_var env ''TEKTON_NAMESPACE'') (\<lambda>namespace.
     and_then (and_then (required_var env ''PAC_URL'') (internal_http_origin libs ''PAC_URL'')) (\<lambda>pac.
     and_then (secret_var env ''PAC_INCOMING_SECRET'') (\<lambda>pac_secret.
       Inr \<lparr>tg_forgejo_origin = forgejo, tg_forgejo_token = forgejo_token, tg_namespace = namespace,
            tg_pac_origin = pac, tg_pac_incoming_secret = pac_secret\<rparr>)))))"

definition integrations_from_env ::
  "config_libs \<Rightarrow> environment \<Rightarrow> ceph_cluster list \<Rightarrow> string + integrations_config" where
  "integrations_from_env libs env ceph =
     and_then (and_then (required_var env ''GRAFANA_URL'') (secure_origin libs ''GRAFANA_URL'')) (\<lambda>grafana.
     and_then (secret_var env ''GRAFANA_TOKEN'') (\<lambda>grafana_token.
     and_then (tekton_from_env libs env) (\<lambda>tekton.
     and_then (required_var env ''KUBECTL_PATH'') (\<lambda>kubectl.
     and_then (and_then (required_var env ''KUBERNETES_CLUSTERS'') (parse_kubernetes_clusters libs)) (\<lambda>clusters.
     and_then (deploys_from_env libs env) (\<lambda>deploys.
       Inr \<lparr>ig_grafana = \<lparr>gc_origin = grafana, gc_token = grafana_token\<rparr>, ig_tekton = tekton,
            ig_kubernetes = \<lparr>kg_kubectl_path = kubectl, kg_clusters = clusters\<rparr>,
            ig_ceph = ceph, ig_deploys = deploys\<rparr>))))))"

definition config_from_env :: "config_libs \<Rightarrow> environment \<Rightarrow> string + config" where
  "config_from_env libs env =
     and_then (parse_ceph_clusters libs env (optional_var env ''CEPH_CLUSTERS'')) (\<lambda>ceph.
     and_then (database_from_env env) (\<lambda>database.
     and_then (oidc_from_env env) (\<lambda>oidc.
     and_then (oauth_from_env libs env) (\<lambda>oauth.
     and_then (integrations_from_env libs env ceph) (\<lambda>integrations.
     let c = \<lparr>cg_database = database, cg_oidc = oidc, cg_oauth = oauth, cg_integrations = integrations\<rparr> in
     and_then (validate_config libs c) (\<lambda>_. Inr c))))))"

definition telemetry_from_env :: "config_libs \<Rightarrow> environment \<Rightarrow> string + telemetry_config" where
  "telemetry_from_env libs env =
     and_then (required_var env ''DEPLOYMENT_ENVIRONMENT'') (\<lambda>deployment.
     and_then (case optional_var env ''PYROSCOPE_URL'' of
         None \<Rightarrow> Inr None
       | Some v \<Rightarrow> map_sum (\<lambda>e. e) Some (secure_origin libs ''PYROSCOPE_URL'' v)) (\<lambda>pyroscope.
       Inr \<lparr>te_environment = deployment, te_namespace = optional_var env ''K8S_NAMESPACE'',
            te_pod_name = optional_var env ''K8S_POD_NAME'', te_pod_uid = optional_var env ''K8S_POD_UID'',
            te_pyroscope_url = pyroscope\<rparr>))"

text \<open>
  \<open>bytes_of\<close> reads a file, \<open>decode\<close> is URL-safe base64, \<open>keyring_new\<close> says whether the OAuth library
  accepts the active key and the keys; the keyring is that pair.
\<close>

definition load_keyring ::
  "config_libs \<Rightarrow> (string \<Rightarrow> string option) \<Rightarrow> (string \<Rightarrow> string option)
     \<Rightarrow> (string \<Rightarrow> (string \<times> string) list \<Rightarrow> bool) \<Rightarrow> oauth_config
     \<Rightarrow> string + string \<times> (string \<times> string) list" where
  "load_keyring libs bytes_of decode keyring_new c =
     and_then (ok_or (bytes_of (oa_wrapping_keys_file c)) ''failed to read OAuth wrapping keyring'') (\<lambda>b.
     and_then (ok_or (cl_keyring libs b) ''invalid OAuth wrapping keyring'') (\<lambda>ring.
       if kf_schema_version ring \<noteq> 1 \<or> kf_keys ring = [] then Inl ''unsupported OAuth wrapping keyring''
       else
         and_then (collect_results (map (\<lambda>(i, key).
             ok_or (map_option (Pair i) (decode key)) ''invalid OAuth wrapping keyring'') (kf_keys ring))) (\<lambda>keys.
           if keyring_new (kf_active ring) keys then Inr (kf_active ring, keys)
           else Inl ''invalid OAuth wrapping keyring'')))"

end
