(* ===== verification/Config_Laws.thy ===== *)
theory Config_Laws
  imports Config
begin

text \<open>
  What a configuration that was read guarantees.  Ceph credentials come from the variables of their
  own cluster and from no other, and the numbers of the environment are read exactly.
\<close>

section \<open>Names of credential variables\<close>

lemma replace_from_char:
  "replace_from [d] [r] 0 s = map (\<lambda>c. if c = d then r else c) s"
  by (induction s) (auto simp: replace_from_0_Cons starts_with_iff)

lemma str_replace_char: "str_replace s [d] [r] = map (\<lambda>c. if c = d then r else c) s"
  by (simp add: str_replace_def replace_from_char)

definition credential_char :: "char \<Rightarrow> char" where
  "credential_char c = (if to_ascii_uppercase_byte c = CHR ''-'' then CHR ''_'' else to_ascii_uppercase_byte c)"

lemma credential_env_alt:
  "credential_env name suffix = env_prefix @ ''CEPH_'' @ map credential_char name @ suffix"
  by (simp add: credential_env_def str_replace_char credential_char_def)

definition cluster_name_char :: "char \<Rightarrow> bool" where
  "cluster_name_char c \<longleftrightarrow> ascii_lowercase (of_char c) \<or> ascii_digit (of_char c) \<or> c = CHR ''-''"

lemma credential_char_inj: "inj_on credential_char (Collect cluster_name_char)"
proof (rule inj_on_inverseI [where g = "\<lambda>c. if c = CHR ''_'' then CHR ''-''
    else if ascii_uppercase (of_char c) then char_of (of_char c + 32 :: nat) else c"])
  fix c
  assume "c \<in> Collect cluster_name_char"
  then show "(if credential_char c = CHR ''_'' then CHR ''-''
    else if ascii_uppercase (of_char (credential_char c))
      then char_of (of_char (credential_char c) + 32 :: nat) else credential_char c) = c"
    by (cases "ascii_lowercase (of_char c)")
      (auto simp: credential_char_def cluster_name_char_def to_ascii_uppercase_byte_def ascii_defs
        of_char_of char_of_eq_iff take_bit_eq_mod)
qed
lemma dash_byte: "(of_char c :: nat) = 45 \<longleftrightarrow> c = CHR ''-''"
  using of_char_eq_iff [where ?'a = nat, of c "CHR ''-''"] by simp

lemma valid_cluster_name_chars: "valid_ceph_cluster_name v \<Longrightarrow> set v \<subseteq> Collect cluster_name_char"
  by (auto simp: valid_ceph_cluster_name_def list_all_iff cluster_name_char_def dash_byte)

text \<open>The variables of the credentials of a cluster.\<close>

definition username_var :: "ceph_cluster \<Rightarrow> string" where
  "username_var c = credential_env (ck_name c) ''_USERNAME''"

definition password_var :: "ceph_cluster \<Rightarrow> string" where
  "password_var c = credential_env (ck_name c) ''_PASSWORD''"

lemma credential_env_inj:
  assumes "valid_ceph_cluster_name a" "valid_ceph_cluster_name b" "length s = length t"
    "credential_env a s = credential_env b t"
  shows "a = b \<and> s = t"
proof -
  from assms(3,4) have *: "map credential_char a = map credential_char b" and st: "s = t"
    by (auto simp: credential_env_alt)
  from assms(1,2) have "inj_on credential_char (set a \<union> set b)"
    by (auto intro: inj_on_subset [OF credential_char_inj] dest: valid_cluster_name_chars)
  with * have "a = b" by (simp add: map_inj_on)
  with st show ?thesis by simp
qed

section \<open>The clusters\<close>

definition present :: "string option \<Rightarrow> bool" where
  "present w \<longleftrightarrow> (\<exists>v. w = Some v \<and> trim v \<noteq> [])"

lemma credential_of_Inr: "credential_of env name = Inr v \<longleftrightarrow> env name = Some v \<and> trim v \<noteq> []"
  by (auto simp: credential_of_def opt_filter_Some)

lemma ceph_cluster_of_Inr:
  assumes "ceph_cluster_of libs env names raw = Inr c"
  shows "ck_name c = rc_name raw" "valid_ceph_cluster_name (ck_name c)" "rc_name raw \<notin> set names"
    "env (username_var c) = Some (ck_username c)" "trim (ck_username c) \<noteq> []"
    "env (password_var c) = Some (ck_password c)" "trim (ck_password c) \<noteq> []"
    "secure_origin libs ''CEPH_CLUSTERS'' (rc_origin raw) = Inr (ck_origin c)"
  using assms
  by (auto simp: ceph_cluster_of_def Let_def credential_of_Inr username_var_def password_var_def
      split: if_splits)

lemma ceph_cluster_of_env:
  assumes "ceph_cluster_of libs env names raw = Inr c"
    "env' (username_var c) = Some u" "trim u \<noteq> []" "env' (password_var c) = Some p" "trim p \<noteq> []"
  shows "ceph_cluster_of libs env' names raw = Inr (c\<lparr>ck_username := u, ck_password := p\<rparr>)"
proof -
  from assms(2-) have "credential_of env' (username_var c) = Inr u"
    "credential_of env' (password_var c) = Inr p"
    by (simp_all add: credential_of_Inr)
  with assms(1) show ?thesis
    by (auto simp: ceph_cluster_of_def Let_def username_var_def password_var_def split: if_splits)
qed

lemma ceph_clusters_of_names:
  "ceph_clusters_of libs env names raws = Inr clusters \<Longrightarrow>
     map ck_name clusters = map rc_name raws \<and> distinct (map rc_name raws)
     \<and> rc_name ` set raws \<inter> set names = {}"
proof (induction raws arbitrary: names clusters)
  case (Cons raw raws)
  then obtain c cs where c: "ceph_cluster_of libs env names raw = Inr c"
    and cs: "ceph_clusters_of libs env (rc_name raw # names) raws = Inr cs" and [simp]: "clusters = c # cs"
    by auto
  from Cons.IH [OF cs] ceph_cluster_of_Inr(1,3) [OF c] show ?case by auto
qed simp

lemma ceph_clusters_of_member:
  "ceph_clusters_of libs env names raws = Inr clusters \<Longrightarrow> c \<in> set clusters \<Longrightarrow>
     \<exists>raw\<in>set raws. \<exists>names'. ceph_cluster_of libs env names' raw = Inr c"
proof (induction raws arbitrary: names clusters)
  case (Cons raw raws)
  then obtain d cs where "ceph_cluster_of libs env names raw = Inr d"
    "ceph_clusters_of libs env (rc_name raw # names) raws = Inr cs" "clusters = d # cs"
    by auto
  with Cons show ?case by fastforce
qed simp

definition reread :: "environment \<Rightarrow> ceph_cluster \<Rightarrow> ceph_cluster" where
  "reread env c = c\<lparr>ck_username := the (env (username_var c)), ck_password := the (env (password_var c))\<rparr>"

lemma ceph_clusters_of_env:
  "ceph_clusters_of libs env names raws = Inr clusters \<Longrightarrow>
     \<forall>c\<in>set clusters. present (env' (username_var c)) \<and> present (env' (password_var c)) \<Longrightarrow>
     ceph_clusters_of libs env' names raws = Inr (map (reread env') clusters)"
proof (induction raws arbitrary: names clusters)
  case (Cons raw raws)
  then obtain c cs where c: "ceph_cluster_of libs env names raw = Inr c"
    and cs: "ceph_clusters_of libs env (rc_name raw # names) raws = Inr cs" and [simp]: "clusters = c # cs"
    by auto
  from Cons.prems(2) obtain u p where "env' (username_var c) = Some u" "trim u \<noteq> []"
    "env' (password_var c) = Some p" "trim p \<noteq> []"
    by (auto simp: present_def)
  with ceph_cluster_of_env [OF c this] have "ceph_cluster_of libs env' names raw = Inr (reread env' c)"
    by (simp add: reread_def)
  moreover have "ceph_clusters_of libs env' (rc_name raw # names) raws = Inr (map (reread env') cs)"
    using Cons.IH [OF cs] Cons.prems(2) by simp
  ultimately show ?case by simp
qed simp

lemma parse_ceph_clusters_Inr:
  "parse_ceph_clusters libs env doc = Inr clusters \<longleftrightarrow>
     (\<exists>raws. length (case doc of Some v \<Rightarrow> v | None \<Rightarrow> ''[]'') \<le> max_clusters_json_bytes
        \<and> cl_ceph libs (case doc of Some v \<Rightarrow> v | None \<Rightarrow> ''[]'') = Some raws
        \<and> length raws \<le> ceph_cluster_limit \<and> ceph_clusters_of libs env [] raws = Inr clusters)"
  by (auto simp: parse_ceph_clusters_def Let_def not_less split: if_splits)

lemma distinct_credential_vars:
  assumes "distinct (map ck_name clusters)" "\<forall>c\<in>set clusters. valid_ceph_cluster_name (ck_name c)"
  shows "distinct (map username_var clusters @ map password_var clusters)"
proof -
  have 1: "ck_name c = ck_name d" if "c \<in> set clusters" "d \<in> set clusters" "username_var c = username_var d" for c d
    using credential_env_inj [of "ck_name c" "ck_name d"] that assms(2) by (auto simp: username_var_def)
  have 2: "ck_name c = ck_name d" if "c \<in> set clusters" "d \<in> set clusters" "password_var c = password_var d" for c d
    using credential_env_inj [of "ck_name c" "ck_name d"] that assms(2) by (auto simp: password_var_def)
  have 3: "username_var c \<noteq> password_var d" if "c \<in> set clusters" "d \<in> set clusters" for c d
    using credential_env_inj [of "ck_name c" "ck_name d" "''_USERNAME''" "''_PASSWORD''"] that assms(2)
    by (auto simp: username_var_def password_var_def)
  from assms(1) have d: "distinct clusters" and i: "inj_on ck_name (set clusters)"
    by (auto simp: distinct_map)
  have "inj_on username_var (set clusters)" by (rule inj_onI) (rule inj_onD [OF i 1])
  moreover have "inj_on password_var (set clusters)" by (rule inj_onI) (rule inj_onD [OF i 2])
  moreover have "username_var ` set clusters \<inter> password_var ` set clusters = {}" using 3 by blast
  ultimately show ?thesis using d by (simp only: distinct_append distinct_map set_map)
qed

text \<open>
  C40: In a configuration of Ceph clusters that was accepted no two of the variables of the credentials
  coincide, every credential is the value of its own variable and not blank, and reading the same
  document in any other environment in which those variables are set changes exactly the credentials,
  each to the value of its own variable: no cluster sees a credential of another one.
\<close>

theorem ceph_credentials_own_variables:
  assumes "parse_ceph_clusters libs env doc = Inr clusters"
  shows "distinct (map username_var clusters @ map password_var clusters)
    \<and> (\<forall>c\<in>set clusters. env (username_var c) = Some (ck_username c) \<and> trim (ck_username c) \<noteq> []
         \<and> env (password_var c) = Some (ck_password c) \<and> trim (ck_password c) \<noteq> [])
    \<and> (\<forall>env'. (\<forall>c\<in>set clusters. present (env' (username_var c)) \<and> present (env' (password_var c))) \<longrightarrow>
         parse_ceph_clusters libs env' doc =
           Inr (map (\<lambda>c. c\<lparr>ck_username := the (env' (username_var c)),
                           ck_password := the (env' (password_var c))\<rparr>) clusters))"
proof -
  from assms obtain raws where raws: "ceph_clusters_of libs env [] raws = Inr clusters"
    and same: "\<And>e cs. ceph_clusters_of libs e [] raws = Inr cs \<Longrightarrow> parse_ceph_clusters libs e doc = Inr cs"
    using parse_ceph_clusters_Inr [THEN iffD1, OF assms] parse_ceph_clusters_Inr [THEN iffD2] by blast
  note own = ceph_cluster_of_Inr
  have "\<forall>c\<in>set clusters. \<exists>names raw. ceph_cluster_of libs env names raw = Inr c"
    using ceph_clusters_of_member [OF raws] by blast
  then have c: "\<forall>c\<in>set clusters. valid_ceph_cluster_name (ck_name c)
      \<and> env (username_var c) = Some (ck_username c) \<and> trim (ck_username c) \<noteq> []
      \<and> env (password_var c) = Some (ck_password c) \<and> trim (ck_password c) \<noteq> []"
    by (meson own)
  have "distinct (map ck_name clusters)"
    using ceph_clusters_of_names [OF raws] by simp
  with c have "distinct (map username_var clusters @ map password_var clusters)"
    by (intro distinct_credential_vars) simp_all
  moreover have "parse_ceph_clusters libs env' doc = Inr (map (reread env') clusters)"
    if "\<forall>c\<in>set clusters. present (env' (username_var c)) \<and> present (env' (password_var c))" for env'
    by (rule same [OF ceph_clusters_of_env [OF raws that]])
  ultimately show ?thesis using c unfolding reread_def by blast
qed

text \<open>Two clusters, and the sample environment with their credentials.\<close>

definition sample_https_url :: "string \<Rightarrow> located_url option" where
  "sample_https_url v =
     Some \<lparr>url_scheme = ''https'', url_host = Some v, url_username = [], url_password = None,
           url_query = None, url_fragment = None, url_path = ''/'',
           lu_port = None, lu_segments = Some [[]], lu_text = ''https://'' @ v @ ''/''\<rparr>"

definition sample_ceph_raws :: "raw_ceph_cluster list" where
  "sample_ceph_raws =
     [\<lparr>rc_name = ''a'', rc_origin = ''ceph-a'', rc_expected_major_release = 19,
       rc_username_env = ''HOMELAB_MCP_CEPH_A_USERNAME'', rc_password_env = ''HOMELAB_MCP_CEPH_A_PASSWORD''\<rparr>,
      \<lparr>rc_name = ''b-2'', rc_origin = ''ceph-b'', rc_expected_major_release = 19,
       rc_username_env = ''HOMELAB_MCP_CEPH_B_2_USERNAME'',
       rc_password_env = ''HOMELAB_MCP_CEPH_B_2_PASSWORD''\<rparr>]"

definition sample_ceph_libs :: config_libs where
  "sample_ceph_libs =
     \<lparr>cl_url = sample_https_url, cl_set_path = (\<lambda>u p. u), cl_kubernetes = (\<lambda>_. None),
      cl_ceph = (\<lambda>_. Some sample_ceph_raws),
      cl_keyring = (\<lambda>_. None)\<rparr>"

definition sample_ceph_env :: environment where
  "sample_ceph_env = map_of [(''HOMELAB_MCP_CEPH_A_USERNAME'', ''ua''), (''HOMELAB_MCP_CEPH_A_PASSWORD'', ''pa''),
     (''HOMELAB_MCP_CEPH_B_2_USERNAME'', ''ub''), (''HOMELAB_MCP_CEPH_B_2_PASSWORD'', ''pb'')]"

definition sample_ceph_clusters :: "ceph_cluster list" where
  "sample_ceph_clusters =
     [\<lparr>ck_name = ''a'', ck_origin = the (sample_https_url ''ceph-a''), ck_expected_major_release = 19,
       ck_username = ''ua'', ck_password = ''pa''\<rparr>,
      \<lparr>ck_name = ''b-2'', ck_origin = the (sample_https_url ''ceph-b''), ck_expected_major_release = 19,
       ck_username = ''ub'', ck_password = ''pb''\<rparr>]"

lemma trim_one_letter:
  assumes "(of_char c :: nat) < 128" "\<not> is_whitespace (of_char c)" "(of_char d :: nat) < 128"
    "\<not> is_whitespace (of_char d)"
  shows "trim [c, d] = [c, d]"
  using assms by (simp add: trim_def trim_start_def trim_end_def chunks_ascii chunk_is_whitespace_def code_point_def)

lemma sample_ceph_cluster_of:
  "ceph_cluster_of sample_ceph_libs sample_ceph_env [] (sample_ceph_raws ! 0) = Inr (sample_ceph_clusters ! 0)"
  "ceph_cluster_of sample_ceph_libs sample_ceph_env [''a''] (sample_ceph_raws ! 1) = Inr (sample_ceph_clusters ! 1)"
proof -
  have v: "valid_ceph_cluster_name ''a''" "valid_ceph_cluster_name ''b-2''"
    "credential_env ''a'' ''_USERNAME'' = ''HOMELAB_MCP_CEPH_A_USERNAME''"
    "credential_env ''a'' ''_PASSWORD'' = ''HOMELAB_MCP_CEPH_A_PASSWORD''"
    "credential_env ''b-2'' ''_USERNAME'' = ''HOMELAB_MCP_CEPH_B_2_USERNAME''"
    "credential_env ''b-2'' ''_PASSWORD'' = ''HOMELAB_MCP_CEPH_B_2_PASSWORD''"
    by code_simp+
  have c: "credential_of sample_ceph_env ''HOMELAB_MCP_CEPH_A_USERNAME'' = Inr ''ua''"
    "credential_of sample_ceph_env ''HOMELAB_MCP_CEPH_A_PASSWORD'' = Inr ''pa''"
    "credential_of sample_ceph_env ''HOMELAB_MCP_CEPH_B_2_USERNAME'' = Inr ''ub''"
    "credential_of sample_ceph_env ''HOMELAB_MCP_CEPH_B_2_PASSWORD'' = Inr ''pb''"
    by (simp_all add: credential_of_Inr trim_one_letter is_whitespace_def) (code_simp+)
  have o: "secure_origin sample_ceph_libs ''CEPH_CLUSTERS'' h = Inr (the (sample_https_url h))" for h
    by (simp add: secure_origin_def secure_url_def sample_ceph_libs_def sample_https_url_def)
  show "ceph_cluster_of sample_ceph_libs sample_ceph_env [] (sample_ceph_raws ! 0) = Inr (sample_ceph_clusters ! 0)"
    "ceph_cluster_of sample_ceph_libs sample_ceph_env [''a''] (sample_ceph_raws ! 1) = Inr (sample_ceph_clusters ! 1)"
    by (simp_all add: ceph_cluster_of_def sample_ceph_raws_def v c o sample_ceph_clusters_def ceph_major_release_def)
qed

lemma sample_ceph_parses:
  "parse_ceph_clusters sample_ceph_libs sample_ceph_env (Some ''[...]'') = Inr sample_ceph_clusters"
proof -
  let ?r = "(!) sample_ceph_raws" and ?c = "(!) sample_ceph_clusters"
  have raws: "sample_ceph_raws = [?r 0, ?r 1]" and clusters: "sample_ceph_clusters = [?c 0, ?c 1]"
    and name: "rc_name (?r 0) = ''a''"
    by (simp_all add: sample_ceph_raws_def sample_ceph_clusters_def)
  have "ceph_clusters_of sample_ceph_libs sample_ceph_env [] [?r 0, ?r 1] = Inr [?c 0, ?c 1]"
    using sample_ceph_cluster_of name by simp
  then have "ceph_clusters_of sample_ceph_libs sample_ceph_env [] sample_ceph_raws = Inr sample_ceph_clusters"
    by (subst raws, subst clusters)
  then show ?thesis
    by (auto simp: parse_ceph_clusters_Inr sample_ceph_libs_def max_clusters_json_bytes_def
        ceph_cluster_limit_def sample_ceph_raws_def)
qed

lemma ceph_credentials_own_variables_witness:
  "distinct (map username_var sample_ceph_clusters @ map password_var sample_ceph_clusters)
   \<and> username_var (sample_ceph_clusters ! 1) = ''HOMELAB_MCP_CEPH_B_2_USERNAME''"
proof
  show "distinct (map username_var sample_ceph_clusters @ map password_var sample_ceph_clusters)"
    using ceph_credentials_own_variables [OF sample_ceph_parses] by simp
  show "username_var (sample_ceph_clusters ! 1) = ''HOMELAB_MCP_CEPH_B_2_USERNAME''"
    by code_simp
qed

end
