(* ===== verification/Grafana_Actions.thy ===== *)
theory Grafana_Actions
  imports Kube_Runner Json_Build
begin

text \<open>
  The errors of the Grafana integration (\<open>src/integrations/grafana/error.rs\<close>) and its typed inputs and
  validated queries (\<open>src/integrations/grafana/actions/\<close>).

  The calendar and time zones (\<open>chrono\<close>, \<open>chrono_tz\<close>) are the parameters \<open>calendar\<close>.  An instant is
  what \<open>DateTime<Utc>\<close> is made of and ordered by: its whole seconds and the nanoseconds after them.
  A signed duration is its number of nanoseconds.
\<close>

section \<open>Errors\<close>

datatype grafana_error =
    GE_InvalidArguments
  | GE_CapacityExhausted
  | GE_Timeout
  | GE_Unauthorized
  | GE_QueryRejected
  | GE_MutationRejected
  | GE_MutationOutcomeUnknown
  | GE_UpstreamUnavailable
  | GE_InvalidResponse
  | GE_RenderTimeout
  | GE_RenderRejected
  | GE_RenderInvalidResponse

fun grafana_error_parts :: "grafana_error \<Rightarrow> string \<Rightarrow> string \<times> string \<times> bool" where
  "grafana_error_parts GE_InvalidArguments name =
     (''invalid_arguments'', ''The '' @ name @ '' arguments are invalid.'', False)"
| "grafana_error_parts GE_CapacityExhausted name =
     (''capacity_exhausted'', ''Grafana request capacity is currently exhausted.'', True)"
| "grafana_error_parts GE_Timeout name = (''timeout'', ''The Grafana query timed out.'', True)"
| "grafana_error_parts GE_Unauthorized name =
     (''grafana_unauthorized'', ''Grafana rejected the service credentials.'', False)"
| "grafana_error_parts GE_QueryRejected name =
     (''query_rejected'', ''Grafana rejected the '' @ name @ '' query.'', False)"
| "grafana_error_parts GE_MutationRejected name =
     (''mutation_rejected'', ''Grafana rejected the requested mutation.'', False)"
| "grafana_error_parts GE_MutationOutcomeUnknown name =
     (''mutation_outcome_unknown'',
      ''The Grafana mutation did not complete cleanly; its outcome may be uncertain. Check existing silences before retrying.'',
      False)"
| "grafana_error_parts GE_UpstreamUnavailable name =
     (''upstream_unavailable'', ''Grafana is currently unavailable.'', True)"
| "grafana_error_parts GE_InvalidResponse name =
     (''invalid_response'', ''Grafana returned an invalid response.'', False)"
| "grafana_error_parts GE_RenderTimeout name = (''render_timeout'', ''The Grafana render timed out.'', True)"
| "grafana_error_parts GE_RenderRejected name =
     (''render_rejected'', ''Grafana rejected the render request.'', False)"
| "grafana_error_parts GE_RenderInvalidResponse name =
     (''render_invalid_response'', ''Grafana returned an invalid render response.'', False)"

definition grafana_into_tool_error :: "grafana_error \<Rightarrow> string \<Rightarrow> tool_error" where
  "grafana_into_tool_error e query_name =
     (let (code, message, retryable) = grafana_error_parts e query_name in
      tool_error_new code message retryable)"

section \<open>Instants\<close>

record date_time =
  dt_secs :: int
  dt_nanos :: nat

record calendar =
  cal_rfc3339 :: "string \<Rightarrow> date_time option"
  cal_since :: "date_time \<Rightarrow> date_time \<Rightarrow> int"
  cal_add :: "date_time \<Rightarrow> duration \<Rightarrow> date_time option"
  cal_at :: "int \<Rightarrow> nat \<Rightarrow> date_time option"
  cal_format :: "date_time \<Rightarrow> string"
  cal_zone :: "string \<Rightarrow> string option"

definition after_time :: "date_time \<Rightarrow> date_time \<Rightarrow> bool" where
  "after_time a b \<longleftrightarrow> dt_secs b < dt_secs a \<or> dt_secs a = dt_secs b \<and> dt_nanos b < dt_nanos a"

definition timestamp_millis :: "date_time \<Rightarrow> int" where
  "timestamp_millis t = dt_secs t * 1000 + int (dt_nanos t div 1000000)"

definition show_int :: "int \<Rightarrow> string" where
  "show_int n = (if n < 0 then CHR ''-'' # show_nat (nat (- n)) else show_nat (nat n))"

definition hours :: "nat \<Rightarrow> int" where
  "hours n = int n * 3600 * 1000000000"

section \<open>Shared checks\<close>

datatype invalid_arguments = InvalidArguments

datatype matcher_operator = MO_Equal | MO_NotEqual | MO_RegexEqual | MO_RegexNotEqual

fun matcher_operator_str :: "matcher_operator \<Rightarrow> string" where
  "matcher_operator_str MO_Equal = ''=''"
| "matcher_operator_str MO_NotEqual = ''!=''"
| "matcher_operator_str MO_RegexEqual = ''=~''"
| "matcher_operator_str MO_RegexNotEqual = ''!~''"

fun matcher_is_equal :: "matcher_operator \<Rightarrow> bool" where
  "matcher_is_equal MO_Equal = True"
| "matcher_is_equal MO_RegexEqual = True"
| "matcher_is_equal _ = False"

fun matcher_is_regex :: "matcher_operator \<Rightarrow> bool" where
  "matcher_is_regex MO_RegexEqual = True"
| "matcher_is_regex MO_RegexNotEqual = True"
| "matcher_is_regex _ = False"

record label_matcher =
  lm_name :: string
  lm_operator :: matcher_operator
  lm_value :: string

definition first_then :: "(nat \<Rightarrow> bool) \<Rightarrow> (nat \<Rightarrow> bool) \<Rightarrow> string \<Rightarrow> bool" where
  "first_then first rest s \<longleftrightarrow>
     (case bytes s of [] \<Rightarrow> False | b # bs \<Rightarrow> first b \<and> list_all rest bs)"

definition underscore :: nat where
  "underscore = of_char (CHR ''_'')"

definition valid_matcher_name :: "string \<Rightarrow> bool" where
  "valid_matcher_name name \<longleftrightarrow>
     length name \<le> 128
     \<and> first_then (\<lambda>b. ascii_alphabetic b \<or> b = underscore) (\<lambda>b. ascii_alphanumeric b \<or> b = underscore) name"

definition valid_dashboard_uid :: "string \<Rightarrow> bool" where
  "valid_dashboard_uid uid \<longleftrightarrow>
     1 \<le> length uid \<and> length uid \<le> 40
     \<and> first_then (\<lambda>b. ascii_alphanumeric b \<or> b \<in> set (bytes ''_-''))
         (\<lambda>b. ascii_alphanumeric b \<or> b \<in> set (bytes ''_.-'')) uid"

definition validate_matchers :: "label_matcher list \<Rightarrow> bool \<Rightarrow> invalid_arguments + unit" where
  "validate_matchers matchers allow_empty =
     (if 20 < length matchers \<or> \<not> allow_empty \<and> matchers = [] then Inl InvalidArguments
      else if list_ex (\<lambda>m. \<not> valid_matcher_name (lm_name m) \<or> 1024 < length (lm_value m)) matchers
      then Inl InvalidArguments
      else Inr ())"

datatype query_mode = QM_Instant | QM_Range

fun query_mode_str :: "query_mode \<Rightarrow> string" where
  "query_mode_str QM_Instant = ''instant''"
| "query_mode_str QM_Range = ''range''"

definition parse_timestamp :: "calendar \<Rightarrow> string option \<Rightarrow> invalid_arguments + date_time option" where
  "parse_timestamp cal v =
     (case v of None \<Rightarrow> Inr None
      | Some s \<Rightarrow> and_then (ok_or (cal_rfc3339 cal s) InvalidArguments) (\<lambda>t. Inr (Some t)))"

definition valid_range :: "calendar \<Rightarrow> date_time \<Rightarrow> date_time \<Rightarrow> int \<Rightarrow> invalid_arguments + int" where
  "valid_range cal start end maximum =
     (let range = cal_since cal end start in
      if range < 0 \<or> maximum < range then Inl InvalidArguments else Inr range)"

text \<open>A limit that may be absent: its value, or the default, checked against the bounds.\<close>

definition limit_or :: "'a::len word \<Rightarrow> 'a word \<Rightarrow> 'a word option \<Rightarrow> invalid_arguments + 'a word" where
  "limit_or dflt maximum v =
     (let n = (case v of None \<Rightarrow> dflt | Some n \<Rightarrow> n) in
      if 1 \<le> n \<and> n \<le> maximum then Inr n else Inl InvalidArguments)"

section \<open>LogQL\<close>

datatype log_direction = LD_Forward | LD_Backward

fun log_direction_str :: "log_direction \<Rightarrow> string" where
  "log_direction_str LD_Forward = ''forward''"
| "log_direction_str LD_Backward = ''backward''"

record logql_input =
  li_query :: string
  li_start :: "string option"
  li_end :: "string option"
  li_time :: "string option"
  li_direction :: "log_direction option"
  li_limit :: "u16 option"

record logql_query =
  lq_query :: string
  lq_mode :: query_mode
  lq_start :: "date_time option"
  lq_end :: "date_time option"
  lq_time :: "date_time option"
  lq_direction :: "log_direction option"
  lq_limit :: u16

definition max_logql_limit :: u16 where
  "max_logql_limit = 5000"

definition validate_logql :: "calendar \<Rightarrow> logql_input \<Rightarrow> invalid_arguments + logql_query" where
  "validate_logql cal i =
     (if trim (li_query i) = [] then Inl InvalidArguments
      else
        and_then (limit_or 1000 max_logql_limit (li_limit i)) (\<lambda>limit.
        and_then (parse_timestamp cal (li_start i)) (\<lambda>start.
        and_then (parse_timestamp cal (li_end i)) (\<lambda>end.
        and_then (parse_timestamp cal (li_time i)) (\<lambda>time.
          case (start, end) of
            (Some s, Some e) \<Rightarrow>
              if time \<noteq> None \<or> after_time s e \<or> hours 24 < cal_since cal e s then Inl InvalidArguments
              else Inr \<lparr>lq_query = li_query i, lq_mode = QM_Range, lq_start = Some s, lq_end = Some e,
                        lq_time = None,
                        lq_direction = Some (case li_direction i of None \<Rightarrow> LD_Backward | Some d \<Rightarrow> d),
                        lq_limit = limit\<rparr>
          | (None, None) \<Rightarrow>
              if li_direction i \<noteq> None then Inl InvalidArguments
              else Inr \<lparr>lq_query = li_query i, lq_mode = QM_Instant, lq_start = None, lq_end = None,
                        lq_time = time, lq_direction = None, lq_limit = limit\<rparr>
          | _ \<Rightarrow> Inl InvalidArguments)))))"

section \<open>PromQL\<close>

record promql_input =
  pi_query :: string
  pi_start :: "string option"
  pi_end :: "string option"
  pi_step :: "string option"
  pi_time :: "string option"

record promql_query =
  pq_query :: string
  pq_mode :: query_mode
  pq_start :: "date_time option"
  pq_end :: "date_time option"
  pq_step :: "string option"
  pq_time :: "date_time option"

definition max_promql_points :: nat where
  "max_promql_points = 11000"

text \<open>A unit of a Prometheus duration: its nanoseconds, its rank, and its length.\<close>

definition duration_unit :: "string \<Rightarrow> (nat \<times> nat \<times> nat) option" where
  "duration_unit s =
     (if starts_with s ''ms'' then Some (1000000, 0, 2)
      else case s of [] \<Rightarrow> None
      | c # _ \<Rightarrow>
          if c = CHR ''s'' then Some (1000000000, 1, 1)
          else if c = CHR ''m'' then Some (60 * 1000000000, 2, 1)
          else if c = CHR ''h'' then Some (60 * 60 * 1000000000, 3, 1)
          else if c = CHR ''d'' then Some (24 * 60 * 60 * 1000000000, 4, 1)
          else if c = CHR ''w'' then Some (7 * 24 * 60 * 60 * 1000000000, 5, 1)
          else if c = CHR ''y'' then Some (365 * 24 * 60 * 60 * 1000000000, 6, 1)
          else None)"

function duration_from :: "string \<Rightarrow> nat \<Rightarrow> nat \<Rightarrow> nat option" where
  "duration_from s acc previous =
     (if s = [] then (if 0 < acc then Some acc else None)
      else
        let (digits, rest) = span_digits s; amount = parse_digits digits in
        if digits = [] \<or> 2 ^ 64 \<le> amount then None
        else case duration_unit rest of None \<Rightarrow> None
        | Some (nanos, rank, width) \<Rightarrow>
            if previous \<le> rank \<or> 2 ^ 64 \<le> amount * nanos \<or> 2 ^ 64 \<le> acc + amount * nanos then None
            else duration_from (drop width rest) (acc + amount * nanos) rank)"
  by pat_completeness auto
termination
proof (relation "measure (\<lambda>(s, _, _). length s)", goal_cases)
  case (2 s acc previous p digits rest amount u nanos v rank width)
  from 2 have "digits @ rest = s" using span_digits_append [of s] by (metis fst_conv snd_conv)
  with 2 have "length rest < length s" by auto
  then show ?case by simp
qed simp

declare duration_from.simps [simp del]

definition prometheus_duration_nanos :: "string \<Rightarrow> nat option" where
  "prometheus_duration_nanos s = duration_from s 0 255"

definition validate_promql :: "calendar \<Rightarrow> promql_input \<Rightarrow> invalid_arguments + promql_query" where
  "validate_promql cal i =
     (if trim (pi_query i) = [] then Inl InvalidArguments
      else
        and_then (parse_timestamp cal (pi_start i)) (\<lambda>start.
        and_then (parse_timestamp cal (pi_end i)) (\<lambda>end.
        and_then (parse_timestamp cal (pi_time i)) (\<lambda>time.
          case (start, end, pi_step i) of
            (Some s, Some e, Some step) \<Rightarrow>
              and_then (ok_or (prometheus_duration_nanos step) InvalidArguments) (\<lambda>step_nanos.
              and_then (valid_range cal s e (hours 24)) (\<lambda>range.
                if range < 0 \<or> 2 ^ 63 \<le> range
                   \<or> max_promql_points < nat range div step_nanos + 1 \<or> time \<noteq> None
                then Inl InvalidArguments
                else Inr \<lparr>pq_query = pi_query i, pq_mode = QM_Range, pq_start = Some s, pq_end = Some e,
                          pq_step = Some step, pq_time = None\<rparr>))
          | (None, None, None) \<Rightarrow>
              Inr \<lparr>pq_query = pi_query i, pq_mode = QM_Instant, pq_start = None, pq_end = None,
                   pq_step = None, pq_time = time\<rparr>
          | _ \<Rightarrow> Inl InvalidArguments))))"

section \<open>Traces and profiles\<close>

record traceql_input =
  ti_query :: string
  ti_start :: "string option"
  ti_end :: "string option"
  ti_limit :: "u16 option"

record traceql_query =
  tq_query :: string
  tq_start :: "date_time option"
  tq_end :: "date_time option"
  tq_limit :: u16

definition validate_traceql :: "calendar \<Rightarrow> traceql_input \<Rightarrow> invalid_arguments + traceql_query" where
  "validate_traceql cal i =
     (if trim (ti_query i) = [] then Inl InvalidArguments
      else
        and_then (limit_or 20 100 (ti_limit i)) (\<lambda>limit.
        and_then (parse_timestamp cal (ti_start i)) (\<lambda>start.
        and_then (parse_timestamp cal (ti_end i)) (\<lambda>end.
          case (start, end) of
            (Some s, Some e) \<Rightarrow>
              and_then (valid_range cal s e (hours 24)) (\<lambda>_.
                Inr \<lparr>tq_query = ti_query i, tq_start = Some s, tq_end = Some e, tq_limit = limit\<rparr>)
          | (None, None) \<Rightarrow>
              Inr \<lparr>tq_query = ti_query i, tq_start = None, tq_end = None, tq_limit = limit\<rparr>
          | _ \<Rightarrow> Inl InvalidArguments))))"

record profiles_input =
  fi_selector :: string
  fi_start :: string
  fi_end :: string
  fi_profile_type :: "string option"
  fi_max_nodes :: "u16 option"

record profiles_query =
  fq_selector :: string
  fq_start :: date_time
  fq_end :: date_time
  fq_profile_type :: string
  fq_max_nodes :: u16

definition default_profile_type :: string where
  "default_profile_type = ''process_cpu:cpu:nanoseconds:cpu:nanoseconds''"

definition validate_profiles :: "calendar \<Rightarrow> profiles_input \<Rightarrow> invalid_arguments + profiles_query" where
  "validate_profiles cal i =
     (let profile_type = (case fi_profile_type i of None \<Rightarrow> default_profile_type | Some t \<Rightarrow> t) in
      if trim (fi_selector i) = [] \<or> trim profile_type = [] then Inl InvalidArguments
      else
        and_then (limit_or 256 1000 (fi_max_nodes i)) (\<lambda>max_nodes.
        and_then (ok_or (cal_rfc3339 cal (fi_start i)) InvalidArguments) (\<lambda>start.
        and_then (ok_or (cal_rfc3339 cal (fi_end i)) InvalidArguments) (\<lambda>end.
        and_then (valid_range cal start end (hours 1)) (\<lambda>_.
          Inr \<lparr>fq_selector = fi_selector i, fq_start = start, fq_end = end,
               fq_profile_type = profile_type, fq_max_nodes = max_nodes\<rparr>)))))"

section \<open>Alerting\<close>

text \<open>The inputs and queries of the alert and recording rules have only a limit.\<close>

definition validate_alert_rules :: "u16 option \<Rightarrow> invalid_arguments + u16" where
  "validate_alert_rules limit = limit_or 50 100 limit"

definition validate_recording_rules :: "u16 option \<Rightarrow> invalid_arguments + u16" where
  "validate_recording_rules limit = limit_or 50 100 limit"

definition validate_alert_instances ::
  "label_matcher list \<Rightarrow> u16 option \<Rightarrow> invalid_arguments + label_matcher list \<times> u16" where
  "validate_alert_instances matchers limit =
     and_then (validate_matchers matchers True) (\<lambda>_.
     and_then (limit_or 50 100 limit) (\<lambda>limit. Inr (matchers, limit)))"

datatype silence_state = SS_Active | SS_Pending | SS_Expired

fun silence_state_str :: "silence_state \<Rightarrow> string" where
  "silence_state_str SS_Active = ''active''"
| "silence_state_str SS_Pending = ''pending''"
| "silence_state_str SS_Expired = ''expired''"

definition validate_list_silences ::
  "silence_state option \<Rightarrow> u16 option \<Rightarrow> invalid_arguments + silence_state option \<times> u16" where
  "validate_list_silences state limit =
     and_then (limit_or 50 100 limit) (\<lambda>limit. Inr (state, limit))"

record create_silence_input =
  ci_matchers :: "label_matcher list"
  ci_duration_seconds :: u32
  ci_comment :: string

record create_silence_command =
  cs_matchers :: "label_matcher list"
  cs_duration :: duration
  cs_comment :: string

definition max_silence_seconds :: u32 where
  "max_silence_seconds = 7 * 24 * 60 * 60"

definition validate_create_silence :: "create_silence_input \<Rightarrow> invalid_arguments + create_silence_command" where
  "validate_create_silence i =
     and_then (validate_matchers (ci_matchers i) False) (\<lambda>_.
       if ci_duration_seconds i < 1 \<or> max_silence_seconds < ci_duration_seconds i
          \<or> trim (ci_comment i) = [] \<or> 512 < length (ci_comment i)
       then Inl InvalidArguments
       else Inr \<lparr>cs_matchers = ci_matchers i, cs_duration = from_secs (unat (ci_duration_seconds i)),
                 cs_comment = ci_comment i\<rparr>)"

section \<open>Dashboards\<close>

record list_dashboards_input =
  di_query :: "string option"
  di_tags :: "string list option"
  di_page :: "u32 option"
  di_limit :: "u16 option"

record list_dashboards_query =
  dq_query :: "string option"
  dq_tags :: "string list"
  dq_page :: u32
  dq_limit :: u16

definition bad_search_text :: "nat \<Rightarrow> string \<Rightarrow> bool" where
  "bad_search_text maximum s \<longleftrightarrow> trim s = [] \<or> maximum < length s \<or> has_control s"

text \<open>Through a \<open>BTreeSet\<close>: sorted, each tag once.\<close>

definition btree_set :: "string list \<Rightarrow> string list" where
  "btree_set ss = sort (remdups ss)"

definition validate_list_dashboards :: "list_dashboards_input \<Rightarrow> invalid_arguments + list_dashboards_query" where
  "validate_list_dashboards i =
     (let tags = opt_elems (di_tags i) in
      if (case di_query i of None \<Rightarrow> False | Some q \<Rightarrow> bad_search_text 256 q) then Inl InvalidArguments
      else if 20 < length tags \<or> list_ex (bad_search_text 128) tags then Inl InvalidArguments
      else
        and_then (limit_or 1 10000 (di_page i)) (\<lambda>page.
        and_then (limit_or 50 100 (di_limit i)) (\<lambda>limit.
          Inr \<lparr>dq_query = di_query i, dq_tags = btree_set tags, dq_page = page, dq_limit = limit\<rparr>)))"

definition validate_get_dashboard :: "string \<Rightarrow> invalid_arguments + string" where
  "validate_get_dashboard uid = (if valid_dashboard_uid uid then Inr uid else Inl InvalidArguments)"

section \<open>Rendering\<close>

datatype render_theme = RT_Light | RT_Dark

fun render_theme_str :: "render_theme \<Rightarrow> string" where
  "render_theme_str RT_Light = ''light''"
| "render_theme_str RT_Dark = ''dark''"

record render_controls =
  rn_from :: "string option"
  rn_to :: "string option"
  rn_width :: "u16 option"
  rn_height :: "u16 option"
  rn_scale :: "u8 option"
  rn_theme :: "render_theme option"
  rn_timezone :: "string option"
  rn_variables :: "(string, string) btree option"

record render_options =
  ro_from :: string
  ro_to :: string
  ro_width :: u16
  ro_height :: u16
  ro_scale :: u8
  ro_theme :: render_theme
  ro_timezone :: string
  ro_variables :: "(string, string) btree"

definition valid_panel_id :: "string \<Rightarrow> bool" where
  "valid_panel_id panel \<longleftrightarrow>
     1 \<le> length panel \<and> length panel \<le> 64
     \<and> list_all (\<lambda>b. ascii_alphanumeric b \<or> b \<in> set (bytes ''_.-'')) (bytes panel)"

definition valid_variable_name :: "string \<Rightarrow> bool" where
  "valid_variable_name name \<longleftrightarrow>
     1 \<le> length name \<and> length name \<le> 64
     \<and> first_then (\<lambda>b. ascii_alphabetic b \<or> b = underscore)
         (\<lambda>b. ascii_alphanumeric b \<or> b \<in> set (bytes ''_.-'')) name"

definition seconds_per_unit :: "string \<Rightarrow> nat option" where
  "seconds_per_unit u =
     (if u = ''s'' then Some 1 else if u = ''m'' then Some 60 else if u = ''h'' then Some (60 * 60)
      else if u = ''d'' then Some (24 * 60 * 60) else None)"

text \<open>\<open>now-<amount><unit>\<close> up to now: the last byte is the unit, if the text can be split there.\<close>

definition relative_range :: "string \<Rightarrow> invalid_arguments + string" where
  "relative_range from =
     (case strip_prefix from ''now-'' of None \<Rightarrow> Inl InvalidArguments
      | Some relative \<Rightarrow>
          (let k = length relative - 1; amount = take k relative; u = drop k relative in
           if \<not> is_char_boundary relative k \<or> amount = [] \<or> \<not> all_digits amount
              \<or> 2 ^ 64 \<le> parse_digits amount
           then Inl InvalidArguments
           else case seconds_per_unit u of None \<Rightarrow> Inl InvalidArguments
           | Some seconds \<Rightarrow>
               (let n = parse_digits amount * seconds in
                if 2 ^ 64 \<le> n \<or> n < 1 \<or> 24 * 60 * 60 < n then Inl InvalidArguments
                else Inr (''now-'' @ show_nat (parse_digits amount) @ u))))"

definition validate_render_range ::
  "calendar \<Rightarrow> string option \<Rightarrow> string option \<Rightarrow> invalid_arguments + string \<times> string" where
  "validate_render_range cal from to =
     (if (case from of None \<Rightarrow> False | Some v \<Rightarrow> 64 < length v)
         \<or> (case to of None \<Rightarrow> False | Some v \<Rightarrow> 64 < length v)
      then Inl InvalidArguments
      else case (from, to) of
        (None, None) \<Rightarrow> Inr (''now-6h'', ''now'')
      | (Some f, Some t) \<Rightarrow>
          if t = ''now'' then and_then (relative_range f) (\<lambda>f. Inr (f, ''now''))
          else
            and_then (ok_or (cal_rfc3339 cal f) InvalidArguments) (\<lambda>f.
            and_then (ok_or (cal_rfc3339 cal t) InvalidArguments) (\<lambda>t.
            and_then (valid_range cal f t (hours 24)) (\<lambda>_.
              Inr (show_int (timestamp_millis f), show_int (timestamp_millis t)))))
      | _ \<Rightarrow> Inl InvalidArguments)"

definition max_effective_pixels :: nat where
  "max_effective_pixels = 4000000"

definition validate_controls ::
  "calendar \<Rightarrow> render_controls \<Rightarrow> u16 \<Rightarrow> u16 \<Rightarrow> invalid_arguments + render_options" where
  "validate_controls cal c default_width default_height =
     and_then (validate_render_range cal (rn_from c) (rn_to c)) (\<lambda>(from, to).
       let width = (case rn_width c of None \<Rightarrow> default_width | Some w \<Rightarrow> w);
           height = (case rn_height c of None \<Rightarrow> default_height | Some h \<Rightarrow> h);
           scale = (case rn_scale c of None \<Rightarrow> 1 | Some s \<Rightarrow> s);
           timezone = (case rn_timezone c of None \<Rightarrow> ''UTC'' | Some z \<Rightarrow> z);
           variables = (case rn_variables c of None \<Rightarrow> [] | Some vs \<Rightarrow> vs) in
       if width < 320 \<or> 2000 < width \<or> height < 200 \<or> 2000 < height \<or> scale < 1 \<or> 2 < scale
          \<or> max_effective_pixels < unat width * unat height * unat scale ^ 2
       then Inl InvalidArguments
       else if 32 < length timezone then Inl InvalidArguments
       else
         and_then (ok_or (cal_zone cal timezone) InvalidArguments) (\<lambda>zone.
           if 20 < length variables
              \<or> list_ex (\<lambda>(name, v). \<not> valid_variable_name name \<or> 1024 < length v \<or> has_control v) variables
           then Inl InvalidArguments
           else Inr \<lparr>ro_from = from, ro_to = to, ro_width = width, ro_height = height, ro_scale = scale,
                     ro_theme = (case rn_theme c of None \<Rightarrow> RT_Dark | Some t \<Rightarrow> t),
                     ro_timezone = zone, ro_variables = variables\<rparr>))"

definition validate_render_dashboard ::
  "calendar \<Rightarrow> string \<Rightarrow> render_controls \<Rightarrow> invalid_arguments + string \<times> render_options" where
  "validate_render_dashboard cal uid c =
     (if \<not> valid_dashboard_uid uid then Inl InvalidArguments
      else and_then (validate_controls cal c 1600 1200) (\<lambda>options. Inr (uid, options)))"

definition validate_render_panel ::
  "calendar \<Rightarrow> string \<Rightarrow> string \<Rightarrow> render_controls \<Rightarrow> invalid_arguments + string \<times> string \<times> render_options" where
  "validate_render_panel cal uid panel c =
     (if \<not> valid_dashboard_uid uid \<or> \<not> valid_panel_id panel then Inl InvalidArguments
      else and_then (validate_controls cal c 1000 500) (\<lambda>options. Inr (uid, panel, options)))"

end
