(* ===== verification/Float_Arith.thy ===== *)
theory Float_Arith
  imports Rust_Float
begin

text \<open>
  The floating-point arithmetic the sources do: multiplying a double by a positive constant and
  rounding one to an integer.  A double is read as sign, significand and exponent, its value is
  \<open>m * 2 ^ x\<close>; \<open>f64_pack\<close> is the nearest double of such a value, ties to the even significand, with
  subnormal numbers and overflow to infinity.
\<close>

definition f64_negative :: "f64 \<Rightarrow> bool" where
  "f64_negative w \<longleftrightarrow> 2 ^ 63 \<le> unat w"

definition f64_fraction :: "f64 \<Rightarrow> nat" where
  "f64_fraction w = unat w mod 2 ^ 52"

definition f64_significand :: "f64 \<Rightarrow> nat" where
  "f64_significand w = (if f64_exponent w = 0 then f64_fraction w else 2 ^ 52 + f64_fraction w)"

definition f64_scale :: "f64 \<Rightarrow> int" where
  "f64_scale w = int (max 1 (f64_exponent w)) - 1075"

definition f64_signed :: "bool \<Rightarrow> nat \<Rightarrow> f64" where
  "f64_signed negative b = word_of_nat (if negative then 2 ^ 63 + b else b)"

definition f64_pack :: "bool \<Rightarrow> nat \<Rightarrow> int \<Rightarrow> f64" where
  "f64_pack negative m x =
     (if m = 0 then f64_signed negative 0
      else
        let q = max (x + int (floorlog 2 m) - 53) (- 1074);
            sig = (if q \<le> x then m * 2 ^ nat (x - q) else round_shift m (nat (q - x)));
            b = nat (q + 1074) * 2 ^ 52 + sig in
        f64_signed negative (min b (2047 * 2 ^ 52)))"

definition f64_mul :: "f64 \<Rightarrow> f64 \<Rightarrow> f64" where
  "f64_mul a c =
     f64_pack (f64_negative a \<noteq> f64_negative c) (f64_significand a * f64_significand c) (f64_scale a + f64_scale c)"

text \<open>\<open>a * c\<close> with \<open>c\<close> positive and finite: infinities and NaNs stay what they are.\<close>

definition f64_times :: "f64 \<Rightarrow> f64 \<Rightarrow> f64" where
  "f64_times a c = (if f64_is_finite a then f64_mul a c else a)"

text \<open>\<open>a.round() as i64\<close>: half away from zero, saturating, NaN to zero.\<close>

definition f64_magnitude_rounded :: "f64 \<Rightarrow> nat" where
  "f64_magnitude_rounded w =
     (if 0 \<le> f64_scale w then f64_significand w * 2 ^ nat (f64_scale w)
      else (f64_significand w + 2 ^ (nat (- f64_scale w) - 1)) div 2 ^ nat (- f64_scale w))"

definition f64_round_i64 :: "f64 \<Rightarrow> int" where
  "f64_round_i64 w =
     (if \<not> f64_is_finite w then
        (if f64_fraction w \<noteq> 0 then 0 else if f64_negative w then - (2 ^ 63) else 2 ^ 63 - 1)
      else if f64_negative w then max (- int (f64_magnitude_rounded w)) (- (2 ^ 63))
      else min (int (f64_magnitude_rounded w)) (2 ^ 63 - 1))"

definition f64_one :: f64 where "f64_one = 0x3FF0000000000000"

definition f64_thousand :: f64 where "f64_thousand = 0x408F400000000000"

definition f64_billion :: f64 where "f64_billion = 0x41CDCD6500000000"

lemma f64_constants:
  "f64_significand f64_one = 2 ^ 52" "f64_scale f64_one = - 52"
  "int (f64_significand f64_thousand) = 1000 * 2 ^ nat (- f64_scale f64_thousand)"
  "int (f64_significand f64_billion) = 1000000000 * 2 ^ nat (- f64_scale f64_billion)"
  "\<not> f64_negative f64_one" "\<not> f64_negative f64_thousand" "\<not> f64_negative f64_billion"
  by (simp_all add: f64_one_def f64_thousand_def f64_billion_def f64_significand_def f64_scale_def
      f64_exponent_def f64_fraction_def f64_negative_def)

lemma f64_round_i64_bounds: "- (2 ^ 63) \<le> f64_round_i64 w \<and> f64_round_i64 w < 2 ^ 63"
  by (auto simp: f64_round_i64_def)

text \<open>Multiplying by one changes nothing: packing what was unpacked gives the double back.\<close>

lemma f64_bits:
  "unat w = (if f64_negative w then 2 ^ 63 else 0) + f64_exponent w * 2 ^ 52 + f64_fraction w"
proof -
  have d: "unat w = unat w div 2 ^ 52 * 2 ^ 52 + unat w mod 2 ^ 52"
    by (rule div_mult_mod_eq [symmetric])
  define h where "h = unat w div 2 ^ 52"
  have "unat w < 2 ^ 64" using unsigned_less [of w] by simp
  then have "h < 2 ^ 12"
    unfolding h_def by (simp add: less_mult_imp_div_less)
  then have "h = h div 2048 * 2048 + h mod 2048" "h div 2048 = (if 2048 \<le> h then 1 else 0)"
    by auto
  then have h: "h = (if 2048 \<le> h then 2048 else 0) + h mod 2048" by (metis mult_1 mult_0)
  have "f64_negative w \<longleftrightarrow> 2048 \<le> h"
    unfolding f64_negative_def h_def by (simp add: less_eq_div_iff_mult_less_eq)
  with h d show ?thesis
    unfolding f64_exponent_def f64_fraction_def h_def [symmetric] by (simp add: algebra_simps split: if_splits)
qed

lemma f64_fraction_less: "f64_fraction w < 2 ^ 52"
  by (simp add: f64_fraction_def)

lemma f64_significand_less: "f64_significand w < 2 ^ 53"
  using f64_fraction_less [of w] by (simp add: f64_significand_def)

lemma round_shift_exact: "round_shift (s * 2 ^ k) k = s"
proof -
  have "s * 2 ^ k mod 2 ^ k = 0" "s * 2 ^ k div 2 ^ k = s" by simp_all
  then show ?thesis by (simp add: round_shift_def Let_def)
qed

lemma floorlog_significand:
  assumes "f64_significand w \<noteq> 0"
  shows "max (f64_scale w + int (floorlog 2 (f64_significand w)) - 53) (- 1074) = f64_scale w"
proof (cases "f64_exponent w = 0")
  case True
  then have "f64_significand w < 2 ^ 52" using f64_fraction_less by (simp add: f64_significand_def)
  then have "floorlog 2 (f64_significand w) \<le> 52" by (simp add: floorlog_leI)
  then show ?thesis using True by (simp add: f64_scale_def)
next
  case False
  then have "2 ^ 52 \<le> f64_significand w" by (simp add: f64_significand_def)
  then have "53 \<le> floorlog 2 (f64_significand w)" by (intro floorlog_geI) simp_all
  moreover have "floorlog 2 (f64_significand w) \<le> 53" using f64_significand_less [of w] by (intro floorlog_leI) simp_all
  ultimately show ?thesis using False by (simp add: f64_scale_def)
qed

lemma f64_times_one:
  assumes "f64_is_finite w"
  shows "f64_times w f64_one = w"
proof -
  define s x where "s = f64_significand w" and "x = f64_scale w"
  have e: "f64_exponent w < 2047"
  proof -
    have "f64_exponent w < 2048" by (simp add: f64_exponent_def)
    with assms show ?thesis by (simp add: f64_is_finite_def)
  qed
  have bits: "nat (x + 1074) * 2 ^ 52 + s = f64_exponent w * 2 ^ 52 + f64_fraction w"
  proof (cases "f64_exponent w = 0")
    case False
    then obtain k where "f64_exponent w = Suc k" using not0_implies_Suc by blast
    then show ?thesis by (simp add: s_def x_def f64_scale_def f64_significand_def)
  qed (simp add: s_def x_def f64_scale_def f64_significand_def)
  have signed: "f64_signed (f64_negative w) (f64_exponent w * 2 ^ 52 + f64_fraction w) = w"
  proof -
    have "(if f64_negative w then 2 ^ 63 + (f64_exponent w * 2 ^ 52 + f64_fraction w)
        else f64_exponent w * 2 ^ 52 + f64_fraction w) = unat w"
      using f64_bits [of w] by simp
    then show ?thesis by (simp only: f64_signed_def of_nat_unat ucast_id)
  qed
  have "f64_pack (f64_negative w) (s * 2 ^ 52) (x - 52) = w"
  proof (cases "s = 0")
    case True
    then have "f64_exponent w = 0" "f64_fraction w = 0"
      using f64_fraction_less by (auto simp: s_def f64_significand_def split: if_splits)
    with signed True show ?thesis by (simp add: f64_pack_def)
  next
    case False
    have fl: "floorlog 2 (s * 2 ^ 52) = floorlog 2 s + 52"
      by (rule floorlog_power) (use False in simp_all)
    have q: "max (x - 52 + int (floorlog 2 (s * 2 ^ 52)) - 53) (- 1074) = x"
    proof -
      have "x - 52 + int (floorlog 2 (s * 2 ^ 52)) - 53 = x + int (floorlog 2 s) - 53"
        unfolding fl by simp
      then show ?thesis using floorlog_significand [of w] False by (simp only: s_def x_def simp_thms not_False_eq_True)
    qed
    have "f64_exponent w * 2 ^ 52 + f64_fraction w \<le> 2047 * 2 ^ 52"
    proof -
      have "f64_exponent w * 2 ^ 52 \<le> 2046 * 2 ^ 52" using e by simp
      with f64_fraction_less [of w] show ?thesis by linarith
    qed
    then have "min (nat (x + 1074) * 2 ^ 52 + s) (2047 * 2 ^ 52) = f64_exponent w * 2 ^ 52 + f64_fraction w"
      by (simp only: bits min_absorb1)
    moreover have "\<not> x \<le> x - 52" "nat (x - (x - 52)) = 52" "s * 2 ^ 52 \<noteq> 0"
      using False by simp_all
    ultimately show ?thesis
      using signed by (simp only: f64_pack_def q Let_def if_False round_shift_exact)
  qed
  then show ?thesis
    using assms by (simp add: f64_times_def f64_mul_def f64_constants s_def x_def)
qed

end
