(* ===== verification/Grafana_Normalize.thy ===== *)
theory Grafana_Normalize
  imports Grafana_Actions Float_Arith
begin

text \<open>
  Normalisation of Grafana's responses (the lower half of \<open>src/integrations/grafana/client.rs\<close>): the
  members that are kept, their bounds, the exclusion of URL-like values, and the samples of queries.

  A response is a parsed document, or an error: whatever does not have the expected shape is
  \<open>invalid_response\<close>.  The calendar reads and prints instants; \<open>print\<close> is the JSON printer.
\<close>

type_synonym members = "(string \<times> json) list"

type_synonym 'a gr = "grafana_error + 'a"

definition need :: "'a option \<Rightarrow> 'a gr" where
  "need v = ok_or v GE_InvalidResponse"

section \<open>Members\<close>

definition gr_bounded_string :: "members \<Rightarrow> string \<Rightarrow> nat \<Rightarrow> string gr" where
  "gr_bounded_string m key maximum =
     need (opt_filter (\<lambda>v. v \<noteq> [] \<and> length v \<le> maximum) (opt_str (map_of m key)))"

definition gr_allow_empty_string :: "members \<Rightarrow> string \<Rightarrow> nat \<Rightarrow> string gr" where
  "gr_allow_empty_string m key maximum =
     need (opt_filter (\<lambda>v. length v \<le> maximum) (opt_str (map_of m key)))"

definition gr_optional_string :: "members \<Rightarrow> string \<Rightarrow> nat \<Rightarrow> string option gr" where
  "gr_optional_string m key maximum =
     (case map_of m key of
        None \<Rightarrow> Inr None
      | Some JNull \<Rightarrow> Inr None
      | Some (JStr v) \<Rightarrow> if length v \<le> maximum then Inr (Some v) else Inl GE_InvalidResponse
      | _ \<Rightarrow> Inl GE_InvalidResponse)"

definition gr_optional_nonempty_string :: "members \<Rightarrow> string \<Rightarrow> nat \<Rightarrow> string option gr" where
  "gr_optional_nonempty_string m key maximum =
     (case map_of m key of
        None \<Rightarrow> Inr None
      | Some JNull \<Rightarrow> Inr None
      | Some (JStr v) \<Rightarrow>
          if v = [] then Inr None
          else if length v \<le> maximum then Inr (Some v) else Inl GE_InvalidResponse
      | _ \<Rightarrow> Inl GE_InvalidResponse)"

definition gr_bounded_integer :: "members \<Rightarrow> string \<Rightarrow> i64 gr" where
  "gr_bounded_integer m key = need (opt_filter (\<lambda>n. 0 \<le> sint n) (opt_i64 (map_of m key)))"

definition gr_bool :: "members \<Rightarrow> string \<Rightarrow> bool gr" where
  "gr_bool m key = need (opt_bool (map_of m key))"

definition gr_array :: "members \<Rightarrow> string \<Rightarrow> json list gr" where
  "gr_array m key = need (opt_array (map_of m key))"

definition gr_object :: "members \<Rightarrow> string \<Rightarrow> members gr" where
  "gr_object m key = need (Option.bind (map_of m key) as_object)"

definition json_opt_str :: "string option \<Rightarrow> json" where
  "json_opt_str v = json_option JStr v"

definition gr_timestamp :: "calendar \<Rightarrow> members \<Rightarrow> string \<Rightarrow> string gr" where
  "gr_timestamp cal m key =
     and_then (gr_bounded_string m key 128) (\<lambda>v.
       need (map_option (cal_format cal) (cal_rfc3339 cal v)))"

definition gr_rule_group :: "members \<Rightarrow> string option gr" where
  "gr_rule_group m =
     and_then (gr_bounded_string m ''ruleGroup'' 512) (\<lambda>group.
       Inr (if starts_with group ''no_group_for_rule_'' then None else Some group))"

section \<open>String maps without URLs\<close>

definition ends_with :: "string \<Rightarrow> string \<Rightarrow> bool" where
  "ends_with s suffix \<longleftrightarrow> starts_with (rev s) (rev suffix)"

definition url_designated_key :: "string \<Rightarrow> bool" where
  "url_designated_key key \<longleftrightarrow> ends_with (to_ascii_lowercase key) ''url''"

definition has_absolute_scheme :: "string \<Rightarrow> bool" where
  "has_absolute_scheme v =
     (case split_once_char (CHR '':'') v of
        None \<Rightarrow> False
      | Some (scheme, _) \<Rightarrow>
          (case chars scheme of [] \<Rightarrow> False
           | c # cs \<Rightarrow> ascii_alphabetic c
               \<and> list_all (\<lambda>c. ascii_alphanumeric c \<or> c \<in> set (bytes ''+-.'')) cs))"

text \<open>
  Non-overlapping occurrences of \<open>](\<close> are all its occurrences.  The text after one counts when its
  first closing parenthesis is not its first byte.
\<close>

fun has_markdown_link :: "string \<Rightarrow> bool" where
  "has_markdown_link [] = False"
| "has_markdown_link (c # cs) =
     (starts_with (c # cs) ''](''
        \<and> (case str_find (drop 2 (c # cs)) '')'' of None \<Rightarrow> False | Some e \<Rightarrow> 0 < e)
      \<or> has_markdown_link cs)"

definition url_like_value :: "string \<Rightarrow> bool" where
  "url_like_value s \<longleftrightarrow>
     (let v = trim s in starts_with v ''/'' \<or> has_absolute_scheme v \<or> has_markdown_link v)"

fun safe_entries :: "members \<Rightarrow> members gr" where
  "safe_entries [] = Inr []"
| "safe_entries ((key, v) # m) =
     and_then (need (as_str v)) (\<lambda>s.
       if key = [] \<or> 128 < length key \<or> 4096 < length s then Inl GE_InvalidResponse
       else
         and_then (safe_entries m) (\<lambda>out.
           Inr (if \<not> url_designated_key key \<and> \<not> url_like_value s then (key, JStr s) # out else out)))"

definition safe_string_map :: "json \<Rightarrow> json gr" where
  "safe_string_map v =
     and_then (need (as_object v)) (\<lambda>m.
       if 64 < length m then Inl GE_InvalidResponse
       else and_then (safe_entries m) (\<lambda>out. Inr (JObj out)))"

definition gr_safe_member :: "members \<Rightarrow> string \<Rightarrow> json gr" where
  "gr_safe_member m key = and_then (need (map_of m key)) safe_string_map"

definition recording_rule_labels :: "members \<Rightarrow> json gr" where
  "recording_rule_labels m =
     (case map_of m ''labels'' of
        None \<Rightarrow> Inr (JObj [])
      | Some JNull \<Rightarrow> Inr (JObj [])
      | Some labels \<Rightarrow> safe_string_map labels)"

definition string_map :: "json \<Rightarrow> json gr" where
  "string_map v =
     and_then (need (as_object v)) (\<lambda>m.
     and_then (collect_results (map (\<lambda>(key, w). and_then (need (as_str w)) (\<lambda>s. Inr (key, JStr s))) m)) (\<lambda>out.
       Inr (JObj out)))"

definition gr_list :: "string \<Rightarrow> json list \<Rightarrow> json" where
  "gr_list kind out =
     JObj [(''mode'', JStr ''list''), (''result_type'', JStr kind), (''result'', JArr out)]"

section \<open>Rules\<close>

datatype rule_kind = RK_Alert | RK_Recording

fun rule_kind_of :: "members \<Rightarrow> rule_kind gr" where
  "rule_kind_of m =
     (case map_of m ''record'' of
        None \<Rightarrow> Inr RK_Alert
      | Some JNull \<Rightarrow> Inr RK_Alert
      | Some (JObj _) \<Rightarrow> Inr RK_Recording
      | _ \<Rightarrow> Inl GE_InvalidResponse)"

fun select_rules_loop :: "nat \<Rightarrow> rule_kind \<Rightarrow> members list \<Rightarrow> json list \<Rightarrow> members list gr" where
  "select_rules_loop limit wanted selected [] = Inr selected"
| "select_rules_loop limit wanted selected (rule # rules) =
     and_then (need (as_object rule)) (\<lambda>m.
     and_then (rule_kind_of m) (\<lambda>kind.
       select_rules_loop limit wanted
         (if kind = wanted \<and> length selected < limit then selected @ [m] else selected) rules))"

definition select_rules :: "u16 \<Rightarrow> json \<Rightarrow> rule_kind \<Rightarrow> members list gr" where
  "select_rules limit wrapper wanted =
     and_then (need (as_array wrapper)) (select_rules_loop (unat limit) wanted [])"

definition alert_rule_of :: "members \<Rightarrow> json gr" where
  "alert_rule_of m =
     and_then (gr_bounded_string m ''uid'' 128) (\<lambda>uid.
     and_then (gr_bounded_string m ''title'' 512) (\<lambda>title.
     and_then (gr_bounded_string m ''folderUID'' 128) (\<lambda>folder.
     and_then (gr_rule_group m) (\<lambda>group.
     and_then (gr_bounded_string m ''condition'' 128) (\<lambda>condition.
     and_then (gr_bounded_string m ''noDataState'' 128) (\<lambda>no_data.
     and_then (gr_bounded_string m ''execErrState'' 128) (\<lambda>exec_err.
     and_then (gr_bounded_string m ''for'' 128) (\<lambda>for_time.
     and_then (gr_bool m ''isPaused'') (\<lambda>paused.
     and_then (gr_safe_member m ''labels'') (\<lambda>labels.
     and_then (gr_safe_member m ''annotations'') (\<lambda>annotations.
       Inr (JObj [(''uid'', JStr uid), (''title'', JStr title), (''folder_uid'', JStr folder),
         (''rule_group'', json_opt_str group), (''condition'', JStr condition),
         (''no_data_state'', JStr no_data), (''exec_err_state'', JStr exec_err), (''for'', JStr for_time),
         (''is_paused'', JBool paused), (''labels'', labels), (''annotations'', annotations)]))))))))))))"

definition normalize_alert_rules :: "u16 \<Rightarrow> json \<Rightarrow> json gr" where
  "normalize_alert_rules limit wrapper =
     and_then (select_rules limit wrapper RK_Alert) (\<lambda>rules.
     and_then (collect_results (map alert_rule_of rules)) (\<lambda>out.
       Inr (gr_list ''alert_rules'' out)))"

definition recording_rule_of :: "members \<Rightarrow> json gr" where
  "recording_rule_of m =
     and_then (gr_object m ''record'') (\<lambda>record.
     and_then (gr_bounded_string m ''uid'' 128) (\<lambda>uid.
     and_then (gr_bounded_string m ''title'' 512) (\<lambda>title.
     and_then (gr_bounded_string m ''folderUID'' 128) (\<lambda>folder.
     and_then (gr_rule_group m) (\<lambda>group.
     and_then (gr_bounded_string record ''metric'' 512) (\<lambda>metric.
     and_then (gr_bounded_string record ''from'' 128) (\<lambda>from_ref.
     and_then (gr_optional_nonempty_string record ''target_datasource_uid'' 128) (\<lambda>target.
     and_then (gr_bool m ''isPaused'') (\<lambda>paused.
     and_then (recording_rule_labels m) (\<lambda>labels.
       Inr (JObj [(''uid'', JStr uid), (''title'', JStr title), (''folder_uid'', JStr folder),
         (''rule_group'', json_opt_str group), (''metric'', JStr metric), (''source_ref'', JStr from_ref),
         (''target_datasource_uid'', json_opt_str target), (''is_paused'', JBool paused),
         (''labels'', labels)])))))))))))"

definition normalize_recording_rules :: "u16 \<Rightarrow> json \<Rightarrow> json gr" where
  "normalize_recording_rules limit wrapper =
     and_then (select_rules limit wrapper RK_Recording) (\<lambda>rules.
     and_then (collect_results (map recording_rule_of rules)) (\<lambda>out.
       Inr (gr_list ''recording_rules'' out)))"

section \<open>Alert instances\<close>

definition is_string :: "json \<Rightarrow> bool" where
  "is_string v \<longleftrightarrow> as_str v \<noteq> None"

definition alert_instance_of :: "calendar \<Rightarrow> json \<Rightarrow> json gr" where
  "alert_instance_of cal alert =
     and_then (need (as_object alert)) (\<lambda>m.
     and_then (gr_object m ''status'') (\<lambda>status.
     and_then (gr_array status ''silencedBy'') (\<lambda>silenced.
     and_then (gr_array status ''inhibitedBy'') (\<lambda>inhibited.
       if \<not> list_all is_string silenced \<or> \<not> list_all is_string inhibited then Inl GE_InvalidResponse
       else
         and_then (gr_bounded_string m ''fingerprint'' 128) (\<lambda>fingerprint.
         and_then (gr_timestamp cal m ''startsAt'') (\<lambda>starts.
         and_then (gr_timestamp cal m ''endsAt'') (\<lambda>ends.
         and_then (gr_timestamp cal m ''updatedAt'') (\<lambda>updated.
         and_then (gr_bounded_string status ''state'' 128) (\<lambda>state.
         and_then (gr_safe_member m ''labels'') (\<lambda>labels.
         and_then (gr_safe_member m ''annotations'') (\<lambda>annotations.
           Inr (JObj [(''fingerprint'', JStr fingerprint), (''starts_at'', JStr starts),
             (''ends_at'', JStr ends), (''updated_at'', JStr updated), (''state'', JStr state),
             (''silenced'', JBool (silenced \<noteq> [])), (''inhibited'', JBool (inhibited \<noteq> [])),
             (''labels'', labels), (''annotations'', annotations)])))))))))))) "

definition normalize_alert_instances :: "calendar \<Rightarrow> u16 \<Rightarrow> json \<Rightarrow> json gr" where
  "normalize_alert_instances cal limit wrapper =
     and_then (need (as_array wrapper)) (\<lambda>alerts.
     and_then (collect_results (map (alert_instance_of cal) alerts)) (\<lambda>out.
       Inr (gr_list ''alert_instances'' (take (unat limit) out))))"

section \<open>Silences\<close>

definition silence_state_of :: "members \<Rightarrow> silence_state gr" where
  "silence_state_of status =
     and_then (gr_bounded_string status ''state'' 128) (\<lambda>s.
       if s = ''active'' then Inr SS_Active
       else if s = ''pending'' then Inr SS_Pending
       else if s = ''expired'' then Inr SS_Expired
       else Inl GE_InvalidResponse)"

definition operator_text :: "bool \<Rightarrow> bool \<Rightarrow> string" where
  "operator_text is_regex is_equal =
     (if is_regex then (if is_equal then ''=~'' else ''!~'') else (if is_equal then ''='' else ''!=''))"

definition silence_matcher_of :: "json \<Rightarrow> json gr" where
  "silence_matcher_of matcher =
     and_then (need (as_object matcher)) (\<lambda>m.
     and_then (gr_bounded_string m ''name'' 128) (\<lambda>name.
       if \<not> valid_matcher_name name then Inl GE_InvalidResponse
       else
         and_then (gr_allow_empty_string m ''value'' 1024) (\<lambda>v.
         and_then (gr_bool m ''isRegex'') (\<lambda>is_regex.
         and_then (gr_bool m ''isEqual'') (\<lambda>is_equal.
           Inr (JObj [(''name'', JStr name), (''operator'', JStr (operator_text is_regex is_equal)),
             (''value'', JStr v)]))))))"

definition silence_matchers_of :: "json list \<Rightarrow> json list gr" where
  "silence_matchers_of matchers =
     (if matchers = [] \<or> 20 < length matchers then Inl GE_InvalidResponse
      else collect_results (map silence_matcher_of matchers))"

definition silence_of :: "calendar \<Rightarrow> json \<Rightarrow> (silence_state \<times> json) gr" where
  "silence_of cal silence =
     and_then (need (as_object silence)) (\<lambda>m.
     and_then (gr_object m ''status'') (\<lambda>status.
     and_then (silence_state_of status) (\<lambda>state.
     and_then (and_then (gr_array m ''matchers'') silence_matchers_of) (\<lambda>matchers.
     and_then (gr_bounded_string m ''id'' 128) (\<lambda>ident.
     and_then (gr_timestamp cal m ''startsAt'') (\<lambda>starts.
     and_then (gr_timestamp cal m ''endsAt'') (\<lambda>ends.
     and_then (gr_bounded_string m ''createdBy'' 512) (\<lambda>created_by.
     and_then (gr_bounded_string m ''comment'' 4096) (\<lambda>comment.
       Inr (state, JObj [(''silence_id'', JStr ident), (''state'', JStr (silence_state_str state)),
         (''starts_at'', JStr starts), (''ends_at'', JStr ends), (''created_by'', JStr created_by),
         (''comment'', JStr comment), (''matchers'', JArr matchers)]))))))))))"

fun silences_loop :: "calendar \<Rightarrow> silence_state option \<Rightarrow> nat \<Rightarrow> json list \<Rightarrow> json list \<Rightarrow> json list gr" where
  "silences_loop cal wanted limit out [] = Inr out"
| "silences_loop cal wanted limit out (silence # silences) =
     and_then (silence_of cal silence) (\<lambda>(state, v).
       silences_loop cal wanted limit
         (if (wanted = None \<or> wanted = Some state) \<and> length out < limit then out @ [v] else out) silences)"

definition normalize_silences :: "calendar \<Rightarrow> silence_state option \<Rightarrow> u16 \<Rightarrow> json \<Rightarrow> json gr" where
  "normalize_silences cal wanted limit wrapper =
     and_then (need (as_array wrapper)) (\<lambda>silences.
     and_then (silences_loop cal wanted (unat limit) [] silences) (\<lambda>out.
       Inr (gr_list ''silences'' out)))"

definition normalize_create_silence :: "string \<Rightarrow> string \<Rightarrow> json \<Rightarrow> json gr" where
  "normalize_create_silence starts_at ends_at wrapper =
     and_then (need (as_object wrapper)) (\<lambda>m.
       if length m \<noteq> 1 then Inl GE_InvalidResponse
       else
         and_then (gr_bounded_string m ''silenceID'' 128) (\<lambda>ident.
           Inr (JObj [(''silence_id'', JStr ident), (''starts_at'', JStr starts_at), (''ends_at'', JStr ends_at)])))"

section \<open>Dashboards\<close>

definition gr_tags :: "members \<Rightarrow> json list gr" where
  "gr_tags m =
     and_then (gr_array m ''tags'') (\<lambda>tags.
       collect_results (map (\<lambda>tag.
         and_then (need (opt_filter (\<lambda>s. length s \<le> 128) (as_str tag))) (\<lambda>s. Inr (JStr s))) tags))"

definition dashboard_summary_of :: "json \<Rightarrow> json gr" where
  "dashboard_summary_of dashboard =
     and_then (need (as_object dashboard)) (\<lambda>m.
     and_then (gr_tags m) (\<lambda>tags.
     and_then (gr_bounded_string m ''uid'' 128) (\<lambda>uid.
     and_then (gr_bounded_string m ''title'' 512) (\<lambda>title.
     and_then (gr_optional_string m ''folderUid'' 128) (\<lambda>folder.
     and_then (gr_optional_string m ''folderTitle'' 512) (\<lambda>folder_title.
       Inr (JObj [(''uid'', JStr uid), (''title'', JStr title), (''folder_uid'', json_opt_str folder),
         (''folder_title'', json_opt_str folder_title), (''tags'', JArr tags)])))))))"

definition normalize_dashboards :: "u16 \<Rightarrow> json \<Rightarrow> json gr" where
  "normalize_dashboards limit wrapper =
     and_then (need (as_array wrapper)) (\<lambda>dashboards.
     and_then (collect_results (map dashboard_summary_of dashboards)) (\<lambda>out.
       Inr (gr_list ''dashboards'' (take (unat limit) out))))"

definition max_dashboard_panels :: nat where
  "max_dashboard_panels = 500"

definition panel_id_of :: "members \<Rightarrow> string gr" where
  "panel_id_of m =
     and_then (case map_of m ''id'' of
         Some (JStr s) \<Rightarrow> if valid_panel_id s then Inr s else Inl GE_InvalidResponse
       | Some (JNum n) \<Rightarrow> need (map_option (\<lambda>n. show_nat (unat n)) (as_u64 (JNum n)))
       | _ \<Rightarrow> Inl GE_InvalidResponse) (\<lambda>s.
       if valid_panel_id s then Inr s else Inl GE_InvalidResponse)"

definition panel_of :: "members \<Rightarrow> json gr" where
  "panel_of m =
     and_then (panel_id_of m) (\<lambda>panel.
     and_then (gr_allow_empty_string m ''title'' 512) (\<lambda>title.
     and_then (gr_bounded_string m ''type'' 128) (\<lambda>kind.
       Inr (JObj [(''id'', JStr panel), (''title'', JStr title), (''type'', JStr kind)]))))"

text \<open>
  \<open>flatten_panels\<close> recurses into the children of a panel, at most to depth 64.  The recursion of the
  model is on the levels that are left below that depth.
\<close>

fun flatten_panels :: "nat \<Rightarrow> json list \<Rightarrow> json list \<Rightarrow> json list gr" where
  "flatten_panels 0 output panels = Inl GE_InvalidResponse"
| "flatten_panels (Suc levels) output [] = Inr output"
| "flatten_panels (Suc levels) output (panel # panels) =
     (if max_dashboard_panels \<le> length output then Inl GE_InvalidResponse
      else
        and_then (need (as_object panel)) (\<lambda>m.
        and_then (panel_of m) (\<lambda>v.
        and_then (case map_of m ''panels'' of
            None \<Rightarrow> Inr (output @ [v])
          | Some children \<Rightarrow>
              and_then (need (as_array children)) (\<lambda>cs. flatten_panels levels (output @ [v]) cs)) (\<lambda>output'.
          flatten_panels (Suc levels) output' panels))))"

definition max_panel_depth :: nat where
  "max_panel_depth = 64"

definition variable_of :: "json \<Rightarrow> json gr" where
  "variable_of variable =
     and_then (need (as_object variable)) (\<lambda>m.
     and_then (gr_bounded_string m ''name'' 128) (\<lambda>name.
     and_then (gr_optional_string m ''label'' 512) (\<lambda>label.
     and_then (gr_bounded_string m ''type'' 128) (\<lambda>kind.
       Inr (JObj [(''name'', JStr name), (''label'', json_opt_str label), (''type'', JStr kind)])))))"

definition max_dashboard_output_bytes :: nat where
  "max_dashboard_output_bytes = 1024 * 1024"

definition bounded_dashboard_output :: "(json \<Rightarrow> string) \<Rightarrow> json \<Rightarrow> json gr" where
  "bounded_dashboard_output print output =
     (if max_dashboard_output_bytes < length (print output) then Inl GE_InvalidResponse else Inr output)"

definition normalize_dashboard :: "(json \<Rightarrow> string) \<Rightarrow> json \<Rightarrow> json gr" where
  "normalize_dashboard print wrapper =
     and_then (need (as_object wrapper)) (\<lambda>w.
     and_then (gr_object w ''dashboard'') (\<lambda>d.
     and_then (gr_object w ''meta'') (\<lambda>meta.
     and_then (gr_tags d) (\<lambda>tags.
     and_then (and_then (gr_object d ''templating'') (\<lambda>t. gr_array t ''list'')) (\<lambda>variables.
       if 100 < length variables then Inl GE_InvalidResponse
       else
         and_then (collect_results (map variable_of variables)) (\<lambda>variables.
         and_then (and_then (gr_array d ''panels'') (flatten_panels (Suc max_panel_depth) [])) (\<lambda>panels.
         and_then (gr_bounded_string d ''uid'' 128) (\<lambda>uid.
         and_then (gr_bounded_string d ''title'' 512) (\<lambda>title.
         and_then (gr_optional_string meta ''folderUid'' 128) (\<lambda>folder.
         and_then (gr_optional_string meta ''folderTitle'' 512) (\<lambda>folder_title.
         and_then (gr_bounded_string d ''timezone'' 128) (\<lambda>timezone.
         and_then (gr_bounded_integer d ''version'') (\<lambda>version.
         and_then (gr_bounded_integer d ''schemaVersion'') (\<lambda>schema_version.
           bounded_dashboard_output print (JObj [(''mode'', JStr ''get''), (''result_type'', JStr ''dashboard''),
             (''result'', JObj [(''uid'', JStr uid), (''title'', JStr title), (''folder_uid'', json_opt_str folder),
               (''folder_title'', json_opt_str folder_title), (''tags'', JArr tags), (''timezone'', JStr timezone),
               (''version'', json_i64 version), (''schema_version'', json_i64 schema_version),
               (''variables'', JArr variables), (''panels'', JArr panels)])])))))))))))))))"

section \<open>Samples\<close>

definition string_pair :: "json \<Rightarrow> (json \<times> json) gr" where
  "string_pair v =
     (case v of JArr [a, b] \<Rightarrow> Inr (a, b) | _ \<Rightarrow> Inl GE_InvalidResponse)"

definition parse_i64 :: "string \<Rightarrow> int option" where
  "parse_i64 s =
     (let (negative, digits) = drop_sign s;
          n = (if negative then - int (parse_digits digits) else int (parse_digits digits)) in
      if digits = [] \<or> \<not> all_digits digits \<or> n < - (2 ^ 63) \<or> 2 ^ 63 \<le> n then None else Some n)"

definition nanos_timestamp :: "calendar \<Rightarrow> int \<Rightarrow> string gr" where
  "nanos_timestamp cal nanoseconds =
     need (map_option (cal_format cal)
       (cal_at cal (nanoseconds div 1000000000) (nat (nanoseconds mod 1000000000))))"

definition normalize_stream_entry :: "calendar \<Rightarrow> json \<Rightarrow> json gr" where
  "normalize_stream_entry cal v =
     and_then (string_pair v) (\<lambda>(a, b).
     and_then (need (as_str a)) (\<lambda>t.
     and_then (need (parse_i64 t)) (\<lambda>nanoseconds.
     and_then (nanos_timestamp cal nanoseconds) (\<lambda>timestamp.
     and_then (need (as_str b)) (\<lambda>line.
       Inr (JObj [(''timestamp'', JStr timestamp), (''line'', JStr line)]))))))"

definition normalize_sample :: "calendar \<Rightarrow> json \<Rightarrow> json gr" where
  "normalize_sample cal v =
     and_then (string_pair v) (\<lambda>(a, b).
     and_then (need (as_f64 a)) (\<lambda>seconds.
       if \<not> f64_is_finite seconds then Inl GE_InvalidResponse
       else
         and_then (nanos_timestamp cal (f64_round_i64 (f64_times seconds f64_billion))) (\<lambda>timestamp.
         and_then (need (as_str b)) (\<lambda>sample.
           Inr (JObj [(''timestamp'', JStr timestamp), (''value'', JStr sample)])))))"

definition series_of :: "calendar \<Rightarrow> string \<Rightarrow> json \<Rightarrow> json gr" where
  "series_of cal labels_key entry =
     and_then (need (as_object entry)) (\<lambda>m.
     and_then (and_then (need (map_of m labels_key)) string_map) (\<lambda>labels.
     and_then (gr_array m ''values'') (\<lambda>values.
     and_then (collect_results (map (normalize_sample cal) values)) (\<lambda>values.
       Inr (JObj [(labels_key, labels), (''values'', JArr values)])))))"

definition normalize_series :: "calendar \<Rightarrow> string \<Rightarrow> json \<Rightarrow> json gr" where
  "normalize_series cal labels_key result =
     and_then (need (as_array result)) (\<lambda>series.
     and_then (collect_results (map (series_of cal labels_key) series)) (\<lambda>out. Inr (JArr out)))"

text \<open>The entries of a stream: all are read, those within what is left of the limit are kept.\<close>

fun stream_entries :: "calendar \<Rightarrow> nat \<Rightarrow> json list \<Rightarrow> json list \<Rightarrow> (nat \<times> json list) gr" where
  "stream_entries cal remaining selected [] = Inr (remaining, selected)"
| "stream_entries cal remaining selected (sample # samples) =
     and_then (normalize_stream_entry cal sample) (\<lambda>v.
       if 0 < remaining then stream_entries cal (remaining - 1) (selected @ [v]) samples
       else stream_entries cal remaining selected samples)"

fun streams_loop :: "calendar \<Rightarrow> nat \<Rightarrow> json list \<Rightarrow> json list \<Rightarrow> json list gr" where
  "streams_loop cal remaining normalized [] = Inr normalized"
| "streams_loop cal remaining normalized (entry # entries) =
     and_then (need (as_object entry)) (\<lambda>m.
     and_then (and_then (need (map_of m ''stream'')) string_map) (\<lambda>labels.
     and_then (gr_array m ''values'') (\<lambda>values.
     and_then (stream_entries cal remaining [] values) (\<lambda>(remaining', selected).
       streams_loop cal remaining'
         (if selected = [] then normalized
          else normalized @ [JObj [(''stream'', labels), (''values'', JArr selected)]]) entries))))"

definition normalize_streams :: "calendar \<Rightarrow> nat \<Rightarrow> json \<Rightarrow> json gr" where
  "normalize_streams cal limit result =
     and_then (need (as_array result)) (\<lambda>series.
     and_then (streams_loop cal limit [] series) (\<lambda>out. Inr (JArr out)))"

definition vector_entry_of :: "calendar \<Rightarrow> json \<Rightarrow> json gr" where
  "vector_entry_of cal entry =
     and_then (need (as_object entry)) (\<lambda>m.
     and_then (and_then (need (map_of m ''metric'')) string_map) (\<lambda>metric.
     and_then (and_then (need (map_of m ''value'')) (normalize_sample cal)) (\<lambda>v.
       Inr (JObj [(''metric'', metric), (''value'', v)]))))"

definition normalize_vector :: "calendar \<Rightarrow> json \<Rightarrow> json gr" where
  "normalize_vector cal result =
     and_then (need (as_array result)) (\<lambda>entries.
     and_then (collect_results (map (vector_entry_of cal) entries)) (\<lambda>out. Inr (JArr out)))"

definition copy_number :: "members \<Rightarrow> string \<Rightarrow> string \<Rightarrow> f64 \<Rightarrow> members \<Rightarrow> members" where
  "copy_number source upstream renamed multiplier target =
     (case Option.bind (map_of source upstream) as_f64 of
        None \<Rightarrow> target
      | Some n \<Rightarrow> target @ [(renamed, json_f64 (f64_times n multiplier))])"

definition normalize_stats :: "json \<Rightarrow> json option" where
  "normalize_stats stats =
     (case Option.bind (json_get stats ''summary'') as_object of
        None \<Rightarrow> None
      | Some summary \<Rightarrow>
          (let out = copy_number summary ''execTime'' ''execution_time_ms'' f64_thousand
               (copy_number summary ''totalEntriesReturned'' ''entries_returned'' f64_one
               (copy_number summary ''totalLinesProcessed'' ''lines_processed'' f64_one
               (copy_number summary ''totalBytesProcessed'' ''bytes_processed'' f64_one []))) in
           if out = [] then None else Some (JObj out)))"

text \<open>The data of a successful answer, with the type and the value of its result.\<close>

definition query_data :: "json \<Rightarrow> (members \<times> string \<times> json) gr" where
  "query_data wrapper =
     (if opt_str (json_get wrapper ''status'') \<noteq> Some ''success'' then Inl GE_InvalidResponse
      else
        and_then (need (Option.bind (json_get wrapper ''data'') as_object)) (\<lambda>data.
        and_then (need (opt_str (map_of data ''resultType''))) (\<lambda>kind.
        and_then (need (map_of data ''result'')) (\<lambda>result.
          Inr (data, kind, result)))))"

definition query_output :: "query_mode \<Rightarrow> string \<Rightarrow> json \<Rightarrow> members" where
  "query_output mode kind result =
     [(''mode'', JStr (query_mode_str mode)), (''result_type'', JStr kind), (''result'', result)]"

definition normalize_logql :: "calendar \<Rightarrow> query_mode \<Rightarrow> u16 \<Rightarrow> json \<Rightarrow> json gr" where
  "normalize_logql cal mode limit wrapper =
     and_then (query_data wrapper) (\<lambda>(data, kind, result).
     and_then (if kind = ''streams'' then normalize_streams cal (unat limit) result
               else if kind = ''matrix'' then normalize_series cal ''metric'' result
               else if kind = ''vector'' then normalize_vector cal result
               else if kind = ''scalar'' then normalize_sample cal result
               else Inl GE_InvalidResponse) (\<lambda>out.
       Inr (JObj (query_output mode kind out
         @ (case Option.bind (map_of data ''stats'') normalize_stats of
              None \<Rightarrow> [] | Some stats \<Rightarrow> [(''stats'', stats)])))))"

definition normalize_promql :: "calendar \<Rightarrow> query_mode \<Rightarrow> json \<Rightarrow> json gr" where
  "normalize_promql cal mode wrapper =
     and_then (query_data wrapper) (\<lambda>(data, kind, result).
     and_then (if kind = ''matrix'' then normalize_series cal ''metric'' result
               else if kind = ''vector'' then normalize_vector cal result
               else if kind = ''scalar'' \<or> kind = ''string'' then normalize_sample cal result
               else Inl GE_InvalidResponse) (\<lambda>out.
       Inr (JObj (query_output mode kind out))))"

definition is_object :: "json \<Rightarrow> bool" where
  "is_object v \<longleftrightarrow> as_object v \<noteq> None"

definition normalize_traceql :: "u16 \<Rightarrow> json \<Rightarrow> json gr" where
  "normalize_traceql limit wrapper =
     and_then (need (as_object wrapper)) (\<lambda>m.
     and_then (gr_array m ''traces'') (\<lambda>traces.
       Inr (JObj ([(''mode'', JStr ''search''), (''result_type'', JStr ''traces''),
           (''result'', JArr (take (unat limit) traces))]
         @ (case opt_filter is_object (map_of m ''metrics'') of
              None \<Rightarrow> [] | Some metrics \<Rightarrow> [(''metrics'', metrics)])))))"

definition normalize_profiles :: "json \<Rightarrow> json gr" where
  "normalize_profiles wrapper =
     and_then (need (as_object wrapper)) (\<lambda>m.
       if length m \<noteq> 1 then Inl GE_InvalidResponse
       else
         and_then (gr_object m ''flamegraph'') (\<lambda>graph.
           if opt_array (map_of graph ''names'') = None \<or> opt_array (map_of graph ''levels'') = None
              \<or> opt_str (map_of graph ''total'') = None \<or> opt_str (map_of graph ''maxSelf'') = None
           then Inl GE_InvalidResponse
           else Inr (JObj [(''mode'', JStr ''range''), (''result_type'', JStr ''stacktraces''),
             (''result'', wrapper)])))"

end
