(* ===== verification/Grafana_Client.thy ===== *)
theory Grafana_Client
  imports Grafana_Normalize Http
begin

text \<open>
  The Grafana client (the upper half of \<open>src/integrations/grafana/client.rs\<close>) and its metrics
  (\<open>telemetry.rs\<close>).

  What the client does not decide is its environment, a \<open>grafana_env\<close>: the calendar and the clock, the
  JSON parser and printer, SHA-256, the URL a path and its parameters give (\<open>Url::join\<close>,
  \<open>query_pairs_mut\<close>), whether one of the four request permits and one of the two render permits is
  free, and the answer to a request.  An answer is that the caller dropped the operation, that the
  operation's own timeout fired before the response was read, that the transport failed, or a response
  with its content type.  The state of an operation is a \<open>grafana_sys\<close>: the trace of its exchanges (a
  history variable), the metrics, and the world outside.  Spans are not modelled, nor the time a
  request takes.
\<close>

section \<open>Environment and state\<close>

datatype grafana_stop = GS_Dropped | GS_Error grafana_error

datatype grafana_exchange =
    GX_Dropped
  | GX_TimedOut
  | GX_Failed
  | GX_Response http_response "string option"

record upstream_request =
  ur_method :: http_method
  ur_path :: string
  ur_parameters :: "(string \<times> string) list"
  ur_body :: "json option"
  ur_bearer :: string

record 's grafana_env =
  gn_calendar :: calendar
  gn_now :: "'s \<Rightarrow> date_time \<times> 's"
  gn_json :: "string \<Rightarrow> json option"
  gn_print :: "json \<Rightarrow> string"
  gn_sha256 :: "string \<Rightarrow> string"
  gn_url :: "string \<Rightarrow> (string \<times> string) list \<Rightarrow> string option"
  gn_permit :: "'s \<Rightarrow> bool \<times> 's"
  gn_render_permit :: "'s \<Rightarrow> bool \<times> 's"
  gn_exchange :: "upstream_request \<Rightarrow> 's \<Rightarrow> grafana_exchange \<times> 's"

record metric_labels =
  ml_action :: string
  ml_mode :: string
  ml_datasource :: string

record grafana_metrics =
  gm_requests :: "(metric_labels \<times> string) list"
  gm_in_flight :: "metric_labels \<Rightarrow> int"

record 's grafana_sys =
  gs_trace :: "(upstream_request \<times> grafana_exchange) list"
  gs_metrics :: grafana_metrics
  gs_world :: 's

type_synonym ('s, 'a) grafana_io = "('s grafana_sys, grafana_stop, 'a) io"

definition gf_lift :: "'a gr \<Rightarrow> ('s, 'a) grafana_io" where
  "gf_lift r = io_lift (map_err GS_Error r)"

definition gf_permit :: "'s grafana_env \<Rightarrow> ('s, unit) grafana_io" where
  "gf_permit E = (\<lambda>s.
     let (free, w) = gn_permit E (gs_world s) in
     (if free then Inr () else Inl (GS_Error GE_CapacityExhausted), s\<lparr>gs_world := w\<rparr>))"

definition gf_render_permit :: "'s grafana_env \<Rightarrow> ('s, unit) grafana_io" where
  "gf_render_permit E = (\<lambda>s.
     let (free, w) = gn_render_permit E (gs_world s) in
     (if free then Inr () else Inl (GS_Error GE_CapacityExhausted), s\<lparr>gs_world := w\<rparr>))"

definition gf_exchange :: "'s grafana_env \<Rightarrow> upstream_request \<Rightarrow> ('s, grafana_exchange) grafana_io" where
  "gf_exchange E request = (\<lambda>s.
     let (x, w) = gn_exchange E request (gs_world s) in
     (Inr x, s\<lparr>gs_trace := gs_trace s @ [(request, x)], gs_world := w\<rparr>))"

definition gf_now :: "'s grafana_env \<Rightarrow> ('s, date_time) grafana_io" where
  "gf_now E = (\<lambda>s. let (t, w) = gn_now E (gs_world s) in (Inr t, s\<lparr>gs_world := w\<rparr>))"

section \<open>Metrics\<close>

definition known_label :: "string list \<Rightarrow> string \<Rightarrow> string" where
  "known_label allowed v = (if v \<in> set allowed then v else ''unknown'')"

definition metric_action :: "string \<Rightarrow> string" where
  "metric_action = known_label [''logql.query'', ''promql.query'', ''traceql.search'', ''profile.merge'',
     ''alert-rule.list'', ''recording-rule.list'', ''alert-instance.list'', ''silence.list'',
     ''silence.create'', ''dashboard.list'', ''dashboard.get'', ''dashboard'', ''panel'']"

definition metric_mode :: "string \<Rightarrow> string" where
  "metric_mode = known_label [''instant'', ''range'', ''search'', ''list'', ''create'', ''get'', ''render'']"

definition metric_datasource_uid :: "string \<Rightarrow> string" where
  "metric_datasource_uid = known_label [''loki'', ''mimir'', ''tempo'', ''pyroscope'', ''grafana_alerting'',
     ''grafana_dashboards'', ''grafana_rendering'']"

definition metric_outcomes :: "string list" where
  "metric_outcomes = [''success'', ''invalid_arguments'', ''capacity_exhausted'', ''timeout'', ''unauthorized'',
     ''query_rejected'', ''mutation_rejected'', ''mutation_outcome_unknown'', ''upstream_unavailable'',
     ''invalid_response'', ''render_rejected'', ''render_invalid_response'', ''cancelled'']"

definition metric_outcome :: "string \<Rightarrow> string" where
  "metric_outcome v = (if v \<in> set metric_outcomes then v else ''upstream_unavailable'')"

fun request_outcome :: "grafana_error + 'a \<Rightarrow> string" where
  "request_outcome (Inr _) = ''success''"
| "request_outcome (Inl GE_InvalidArguments) = ''invalid_arguments''"
| "request_outcome (Inl GE_CapacityExhausted) = ''capacity_exhausted''"
| "request_outcome (Inl GE_Timeout) = ''timeout''"
| "request_outcome (Inl GE_Unauthorized) = ''unauthorized''"
| "request_outcome (Inl GE_QueryRejected) = ''query_rejected''"
| "request_outcome (Inl GE_MutationRejected) = ''mutation_rejected''"
| "request_outcome (Inl GE_MutationOutcomeUnknown) = ''mutation_outcome_unknown''"
| "request_outcome (Inl GE_UpstreamUnavailable) = ''upstream_unavailable''"
| "request_outcome (Inl GE_InvalidResponse) = ''invalid_response''"
| "request_outcome (Inl GE_RenderTimeout) = ''timeout''"
| "request_outcome (Inl GE_RenderRejected) = ''render_rejected''"
| "request_outcome (Inl GE_RenderInvalidResponse) = ''render_invalid_response''"

record metrics_guard =
  mg_labels :: metric_labels
  mg_finished :: bool

definition add_in_flight :: "metric_labels \<Rightarrow> int \<Rightarrow> grafana_metrics \<Rightarrow> grafana_metrics" where
  "add_in_flight labels n m = m\<lparr>gm_in_flight := (gm_in_flight m)(labels := gm_in_flight m labels + n)\<rparr>"

definition metrics_guard_new ::
  "string \<Rightarrow> string \<Rightarrow> string \<Rightarrow> grafana_metrics \<Rightarrow> metrics_guard \<times> grafana_metrics" where
  "metrics_guard_new action mode datasource m =
     (let labels = \<lparr>ml_action = metric_action action, ml_mode = metric_mode mode,
                    ml_datasource = metric_datasource_uid datasource\<rparr> in
      (\<lparr>mg_labels = labels, mg_finished = False\<rparr>, add_in_flight labels 1 m))"

definition metrics_guard_finish ::
  "string \<Rightarrow> metrics_guard \<times> grafana_metrics \<Rightarrow> metrics_guard \<times> grafana_metrics" where
  "metrics_guard_finish outcome gm =
     (let (g, m) = gm in
      if mg_finished g then (g, m)
      else
        let m = add_in_flight (mg_labels g) (- 1) m;
            m = m\<lparr>gm_requests := gm_requests m @ [(mg_labels g, metric_outcome outcome)]\<rparr> in
        (g\<lparr>mg_finished := True\<rparr>, m))"

definition metrics_guard_drop :: "metrics_guard \<times> grafana_metrics \<Rightarrow> grafana_metrics" where
  "metrics_guard_drop gm = snd (metrics_guard_finish ''cancelled'' gm)"

text \<open>
  An operation under its guard.  When the caller drops the operation nothing of it runs any more but the
  destructor of the guard; otherwise the outcome is recorded and the guard is dropped at the end.
\<close>

definition gf_observed :: "string \<Rightarrow> string \<Rightarrow> string \<Rightarrow> ('s, 'a) grafana_io \<Rightarrow> ('s, 'a) grafana_io" where
  "gf_observed action mode datasource operation = (\<lambda>s.
     let (g, m) = metrics_guard_new action mode datasource (gs_metrics s);
         (r, s') = operation (s\<lparr>gs_metrics := m\<rparr>);
         gm = (case r of
             Inl GS_Dropped \<Rightarrow> (g, gs_metrics s')
           | Inl (GS_Error e) \<Rightarrow> metrics_guard_finish (request_outcome (Inl e :: unit gr)) (g, gs_metrics s')
           | Inr a \<Rightarrow> metrics_guard_finish (request_outcome (Inr a)) (g, gs_metrics s')) in
     (r, s'\<lparr>gs_metrics := metrics_guard_drop gm\<rparr>))"

section \<open>Requests\<close>

record grafana_client =
  gcl_origin :: url
  gcl_token :: string

text \<open>\<open>http_built\<close> says whether \<open>reqwest\<close> could build its client.\<close>

definition grafana_client_production :: "bool \<Rightarrow> url \<Rightarrow> string \<Rightarrow> string + grafana_client" where
  "grafana_client_production http_built origin tok =
     (if http_built then Inr \<lparr>gcl_origin = origin, gcl_token = tok\<rparr>
      else Inl ''failed to initialize Grafana client'')"

datatype gf_kind = GK_Read | GK_Mutation

definition max_url_bytes :: nat where
  "max_url_bytes = 8192"

definition gf_max_response_bytes :: nat where
  "gf_max_response_bytes = 4 * 1024 * 1024"

fun gf_failure :: "gf_kind \<Rightarrow> grafana_error" where
  "gf_failure GK_Read = GE_UpstreamUnavailable"
| "gf_failure GK_Mutation = GE_MutationOutcomeUnknown"

fun gf_timeout :: "gf_kind \<Rightarrow> grafana_error" where
  "gf_timeout GK_Read = GE_Timeout"
| "gf_timeout GK_Mutation = GE_MutationOutcomeUnknown"

text \<open>Once a response has a good status, every error of a mutation is that its outcome is unknown.\<close>

fun gf_response_error :: "gf_kind \<Rightarrow> grafana_error \<Rightarrow> grafana_error" where
  "gf_response_error GK_Read e = e"
| "gf_response_error GK_Mutation e = GE_MutationOutcomeUnknown"

definition announced_too_long :: "http_response \<Rightarrow> bool" where
  "announced_too_long r \<longleftrightarrow>
     (case hs_length r of None \<Rightarrow> False | Some n \<Rightarrow> gf_max_response_bytes < unat n)"

definition gf_read_json :: "(string \<Rightarrow> json option) \<Rightarrow> http_response \<Rightarrow> json gr" where
  "gf_read_json parse r =
     (if announced_too_long r then Inl GE_InvalidResponse
      else
        and_then (read_chunks gf_max_response_bytes GE_UpstreamUnavailable GE_InvalidResponse [] (hs_chunks r))
          (\<lambda>b. need (parse b)))"

definition gf_status_error :: "gf_kind \<Rightarrow> u16 \<Rightarrow> grafana_error option" where
  "gf_status_error kind status =
     (if status = 401 \<or> status = 403 then Some GE_Unauthorized
      else if status_client_error status then
        Some (case kind of
            GK_Read \<Rightarrow> GE_QueryRejected
          | GK_Mutation \<Rightarrow> if status = 400 then GE_MutationRejected else GE_MutationOutcomeUnknown)
      else if \<not> status_success status then Some (gf_failure kind)
      else None)"

fun gf_outcome ::
  "(string \<Rightarrow> json option) \<Rightarrow> gf_kind \<Rightarrow> (json \<Rightarrow> json gr) \<Rightarrow> grafana_exchange \<Rightarrow> grafana_stop + json" where
  "gf_outcome parse kind norm_body GX_Dropped = Inl GS_Dropped"
| "gf_outcome parse kind norm_body GX_TimedOut = Inl (GS_Error (gf_timeout kind))"
| "gf_outcome parse kind norm_body GX_Failed = Inl (GS_Error (gf_failure kind))"
| "gf_outcome parse kind norm_body (GX_Response r content_type) =
     (case gf_status_error kind (hs_status r) of
        Some e \<Rightarrow> Inl (GS_Error e)
      | None \<Rightarrow>
          map_err (\<lambda>e. GS_Error (gf_response_error kind e)) (and_then (gf_read_json parse r) norm_body))"

definition gf_attempt ::
  "'s grafana_env \<Rightarrow> upstream_request \<Rightarrow> gf_kind \<Rightarrow> (json \<Rightarrow> json gr) \<Rightarrow> ('s, json) grafana_io" where
  "gf_attempt E request kind norm_body =
     io_bind (gf_permit E) (\<lambda>_.
     io_bind (gf_lift (ok_or (gn_url E (ur_path request) (ur_parameters request)) (gf_failure kind))) (\<lambda>url.
     io_bind (io_guard (length url \<le> max_url_bytes) (GS_Error GE_InvalidArguments)) (\<lambda>_.
     io_bind (gf_exchange E request) (\<lambda>x.
       io_lift (gf_outcome (gn_json E) kind norm_body x)))))"

definition gf_run ::
  "'s grafana_env \<Rightarrow> upstream_request \<Rightarrow> string \<Rightarrow> string \<Rightarrow> string \<Rightarrow> gf_kind \<Rightarrow> (json \<Rightarrow> json gr)
     \<Rightarrow> ('s, json) grafana_io" where
  "gf_run E request action mode datasource kind norm_body =
     gf_observed action mode datasource (gf_attempt E request kind norm_body)"

definition gf_get :: "grafana_client \<Rightarrow> string \<Rightarrow> (string \<times> string) list \<Rightarrow> upstream_request" where
  "gf_get c path parameters =
     \<lparr>ur_method = M_Get, ur_path = path, ur_parameters = parameters, ur_body = None, ur_bearer = gcl_token c\<rparr>"

definition gf_post :: "grafana_client \<Rightarrow> string \<Rightarrow> json \<Rightarrow> upstream_request" where
  "gf_post c path body =
     \<lparr>ur_method = M_Post, ur_path = path, ur_parameters = [], ur_body = Some body, ur_bearer = gcl_token c\<rparr>"

section \<open>Queries\<close>

definition time_parameters :: "calendar \<Rightarrow> date_time option \<Rightarrow> (string \<times> string) list" where
  "time_parameters cal time = (case time of None \<Rightarrow> [] | Some t \<Rightarrow> [(''time'', cal_format cal t)])"

definition logql_parameters :: "calendar \<Rightarrow> logql_query \<Rightarrow> (string \<times> string) list" where
  "logql_parameters cal q =
     [(''query'', lq_query q), (''limit'', show_nat (unat (lq_limit q)))]
     @ time_parameters cal (lq_time q)
     @ (case (lq_start q, lq_end q, lq_direction q) of
          (Some s, Some e, Some d) \<Rightarrow>
            [(''start'', cal_format cal s), (''end'', cal_format cal e), (''direction'', log_direction_str d)]
        | _ \<Rightarrow> [])"

definition execute_logql :: "'s grafana_env \<Rightarrow> grafana_client \<Rightarrow> logql_query \<Rightarrow> ('s, json) grafana_io" where
  "execute_logql E c q =
     (let path = (case lq_mode q of
          QM_Instant \<Rightarrow> ''/api/datasources/proxy/uid/loki/loki/api/v1/query''
        | QM_Range \<Rightarrow> ''/api/datasources/proxy/uid/loki/loki/api/v1/query_range'') in
      gf_run E (gf_get c path (logql_parameters (gn_calendar E) q)) ''logql.query'' (query_mode_str (lq_mode q))
        ''loki'' GK_Read (normalize_logql (gn_calendar E) (lq_mode q) (lq_limit q)))"

definition promql_parameters :: "calendar \<Rightarrow> promql_query \<Rightarrow> (string \<times> string) list" where
  "promql_parameters cal q =
     [(''query'', pq_query q)]
     @ time_parameters cal (pq_time q)
     @ (case (pq_start q, pq_end q, pq_step q) of
          (Some s, Some e, Some step) \<Rightarrow>
            [(''start'', cal_format cal s), (''end'', cal_format cal e), (''step'', step)]
        | _ \<Rightarrow> [])"

definition execute_promql :: "'s grafana_env \<Rightarrow> grafana_client \<Rightarrow> promql_query \<Rightarrow> ('s, json) grafana_io" where
  "execute_promql E c q =
     (let path = (case pq_mode q of
          QM_Instant \<Rightarrow> ''/api/datasources/uid/mimir/resources/api/v1/query''
        | QM_Range \<Rightarrow> ''/api/datasources/uid/mimir/resources/api/v1/query_range'') in
      gf_run E (gf_get c path (promql_parameters (gn_calendar E) q)) ''promql.query'' (query_mode_str (pq_mode q))
        ''mimir'' GK_Read (normalize_promql (gn_calendar E) (pq_mode q)))"

definition traceql_parameters :: "traceql_query \<Rightarrow> (string \<times> string) list" where
  "traceql_parameters q =
     [(''q'', tq_query q), (''limit'', show_nat (unat (tq_limit q)))]
     @ (case (tq_start q, tq_end q) of
          (Some s, Some e) \<Rightarrow> [(''start'', show_int (dt_secs s)), (''end'', show_int (dt_secs e))]
        | _ \<Rightarrow> [])"

definition execute_traceql :: "'s grafana_env \<Rightarrow> grafana_client \<Rightarrow> traceql_query \<Rightarrow> ('s, json) grafana_io" where
  "execute_traceql E c q =
     gf_run E (gf_get c ''/api/datasources/proxy/uid/tempo/api/search'' (traceql_parameters q)) ''traceql.search''
       ''search'' ''tempo'' GK_Read (normalize_traceql (tq_limit q))"

definition json_int :: "int \<Rightarrow> json" where
  "json_int n = json_i64 (word_of_int n)"

definition profiles_body :: "profiles_query \<Rightarrow> json" where
  "profiles_body q =
     JObj [(''profileTypeID'', JStr (fq_profile_type q)), (''labelSelector'', JStr (fq_selector q)),
       (''start'', json_int (timestamp_millis (fq_start q))), (''end'', json_int (timestamp_millis (fq_end q))),
       (''maxNodes'', json_nat (unat (fq_max_nodes q)))]"

definition execute_profiles :: "'s grafana_env \<Rightarrow> grafana_client \<Rightarrow> profiles_query \<Rightarrow> ('s, json) grafana_io" where
  "execute_profiles E c q =
     gf_run E (gf_post c ''/api/datasources/proxy/uid/pyroscope/querier.v1.QuerierService/SelectMergeStacktraces''
         (profiles_body q)) ''profile.merge'' ''range'' ''pyroscope'' GK_Read normalize_profiles"

definition gf_alert_rules :: "'s grafana_env \<Rightarrow> grafana_client \<Rightarrow> u16 \<Rightarrow> ('s, json) grafana_io" where
  "gf_alert_rules E c limit =
     gf_run E (gf_get c ''/api/v1/provisioning/alert-rules'' []) ''alert-rule.list'' ''list'' ''grafana_alerting''
       GK_Read (normalize_alert_rules limit)"

definition gf_recording_rules :: "'s grafana_env \<Rightarrow> grafana_client \<Rightarrow> u16 \<Rightarrow> ('s, json) grafana_io" where
  "gf_recording_rules E c limit =
     gf_run E (gf_get c ''/api/v1/provisioning/alert-rules'' []) ''recording-rule.list'' ''list''
       ''grafana_alerting'' GK_Read (normalize_recording_rules limit)"

definition matcher_filter :: "(json \<Rightarrow> string) \<Rightarrow> label_matcher \<Rightarrow> string" where
  "matcher_filter print m = lm_name m @ matcher_operator_str (lm_operator m) @ print (JStr (lm_value m))"

definition gf_alert_instances ::
  "'s grafana_env \<Rightarrow> grafana_client \<Rightarrow> label_matcher list \<times> u16 \<Rightarrow> ('s, json) grafana_io" where
  "gf_alert_instances E c q =
     (let (matchers, limit) = q in
      gf_run E (gf_get c ''/api/alertmanager/grafana/api/v2/alerts''
          (map (\<lambda>m. (''filter'', matcher_filter (gn_print E) m)) matchers)) ''alert-instance.list'' ''list''
        ''grafana_alerting'' GK_Read (normalize_alert_instances (gn_calendar E) limit))"

definition gf_list_silences ::
  "'s grafana_env \<Rightarrow> grafana_client \<Rightarrow> silence_state option \<times> u16 \<Rightarrow> ('s, json) grafana_io" where
  "gf_list_silences E c q =
     (let (state, limit) = q in
      gf_run E (gf_get c ''/api/alertmanager/grafana/api/v2/silences'' []) ''silence.list'' ''list''
        ''grafana_alerting'' GK_Read (normalize_silences (gn_calendar E) state limit))"

definition dashboards_parameters :: "list_dashboards_query \<Rightarrow> (string \<times> string) list" where
  "dashboards_parameters q =
     [(''type'', ''dash-db'')]
     @ (case dq_query q of None \<Rightarrow> [] | Some s \<Rightarrow> [(''query'', s)])
     @ map (\<lambda>tag. (''tag'', tag)) (dq_tags q)
     @ [(''page'', show_nat (unat (dq_page q))), (''limit'', show_nat (unat (dq_limit q)))]"

definition gf_list_dashboards ::
  "'s grafana_env \<Rightarrow> grafana_client \<Rightarrow> list_dashboards_query \<Rightarrow> ('s, json) grafana_io" where
  "gf_list_dashboards E c q =
     gf_run E (gf_get c ''/api/search'' (dashboards_parameters q)) ''dashboard.list'' ''list'' ''grafana_dashboards''
       GK_Read (normalize_dashboards (dq_limit q))"

definition gf_get_dashboard :: "'s grafana_env \<Rightarrow> grafana_client \<Rightarrow> string \<Rightarrow> ('s, json) grafana_io" where
  "gf_get_dashboard E c uid =
     gf_run E (gf_get c (''/api/dashboards/uid/'' @ uid) []) ''dashboard.get'' ''get'' ''grafana_dashboards''
       GK_Read (normalize_dashboard (gn_print E))"

section \<open>Creating a silence\<close>

definition silence_matcher_json :: "label_matcher \<Rightarrow> json" where
  "silence_matcher_json m =
     JObj [(''name'', JStr (lm_name m)), (''value'', JStr (lm_value m)),
       (''isRegex'', JBool (matcher_is_regex (lm_operator m))),
       (''isEqual'', JBool (matcher_is_equal (lm_operator m)))]"

definition silence_body :: "create_silence_command \<Rightarrow> string \<Rightarrow> string \<Rightarrow> json" where
  "silence_body command starts_at ends_at =
     JObj [(''matchers'', JArr (map silence_matcher_json (cs_matchers command))),
       (''startsAt'', JStr starts_at), (''endsAt'', JStr ends_at), (''createdBy'', JStr ''homelab-mcp''),
       (''comment'', JStr (cs_comment command))]"

definition gf_create_silence ::
  "'s grafana_env \<Rightarrow> grafana_client \<Rightarrow> create_silence_command \<Rightarrow> ('s, json) grafana_io" where
  "gf_create_silence E c command =
     io_bind (gf_now E) (\<lambda>now.
     io_bind (gf_lift (ok_or (cal_add (gn_calendar E) now (cs_duration command)) GE_InvalidArguments)) (\<lambda>end_time.
       let starts_at = cal_format (gn_calendar E) now; ends_at = cal_format (gn_calendar E) end_time in
       gf_run E (gf_post c ''/api/alertmanager/grafana/api/v2/silences'' (silence_body command starts_at ends_at))
         ''silence.create'' ''create'' ''grafana_alerting'' GK_Mutation
         (normalize_create_silence starts_at ends_at)))"

section \<open>Rendering\<close>

record rendered_image =
  ri_bytes :: string
  ri_decoded_bytes :: nat
  ri_sha256 :: string

definition png_signature :: string where
  "png_signature = map char_of [137 :: nat, 80, 78, 71, 13, 10, 26, 10]"

definition valid_png_mime :: "string option \<Rightarrow> bool" where
  "valid_png_mime content_type =
     (case content_type of None \<Rightarrow> False
      | Some v \<Rightarrow> to_ascii_lowercase (trim (hd (split_char (CHR '';'') v))) = ''image/png'')"

definition read_png :: "(string \<Rightarrow> string) \<Rightarrow> http_response \<Rightarrow> string option \<Rightarrow> rendered_image gr" where
  "read_png sha r content_type =
     (if \<not> valid_png_mime content_type \<or> announced_too_long r then Inl GE_RenderInvalidResponse
      else
        and_then (read_chunks gf_max_response_bytes GE_RenderInvalidResponse GE_RenderInvalidResponse []
            (hs_chunks r)) (\<lambda>b.
          if \<not> starts_with b png_signature then Inl GE_RenderInvalidResponse
          else Inr \<lparr>ri_bytes = b, ri_decoded_bytes = length b, ri_sha256 = sha b\<rparr>))"

fun render_outcome :: "(string \<Rightarrow> string) \<Rightarrow> grafana_exchange \<Rightarrow> grafana_stop + rendered_image" where
  "render_outcome sha GX_Dropped = Inl GS_Dropped"
| "render_outcome sha GX_TimedOut = Inl (GS_Error GE_RenderTimeout)"
| "render_outcome sha GX_Failed = Inl (GS_Error GE_UpstreamUnavailable)"
| "render_outcome sha (GX_Response r content_type) =
     (if hs_status r = 200 then map_err GS_Error (read_png sha r content_type)
      else if hs_status r = 401 \<or> hs_status r = 403 then Inl (GS_Error GE_Unauthorized)
      else if status_client_error (hs_status r) then Inl (GS_Error GE_RenderRejected)
      else Inl (GS_Error GE_UpstreamUnavailable))"

definition render_parameters :: "string option \<Rightarrow> render_options \<Rightarrow> (string \<times> string) list" where
  "render_parameters panel o' =
     (case panel of None \<Rightarrow> [] | Some p \<Rightarrow> [(''panelId'', p)])
     @ [(''width'', show_nat (unat (ro_width o'))), (''height'', show_nat (unat (ro_height o'))),
        (''scale'', show_nat (unat (ro_scale o'))), (''theme'', render_theme_str (ro_theme o')),
        (''tz'', ro_timezone o'), (''from'', ro_from o'), (''to'', ro_to o'), (''timeout'', ''20'')]
     @ map (\<lambda>(name, v). (''var-'' @ name, v)) (ro_variables o')"

definition render_attempt :: "'s grafana_env \<Rightarrow> upstream_request \<Rightarrow> ('s, rendered_image) grafana_io" where
  "render_attempt E request =
     io_bind (gf_permit E) (\<lambda>_.
     io_bind (gf_render_permit E) (\<lambda>_.
     io_bind (gf_lift (ok_or (gn_url E (ur_path request) (ur_parameters request)) GE_UpstreamUnavailable)) (\<lambda>url.
     io_bind (io_guard (length url \<le> max_url_bytes) (GS_Error GE_InvalidArguments)) (\<lambda>_.
     io_bind (gf_exchange E request) (\<lambda>x.
       io_lift (render_outcome (gn_sha256 E) x))))))"

definition gf_render ::
  "'s grafana_env \<Rightarrow> grafana_client \<Rightarrow> string \<Rightarrow> string option \<Rightarrow> render_options \<Rightarrow> string
     \<Rightarrow> ('s, rendered_image) grafana_io" where
  "gf_render E c path panel options action =
     gf_observed action ''render'' ''grafana_rendering''
       (render_attempt E (gf_get c path (render_parameters panel options)))"

definition gf_render_dashboard ::
  "'s grafana_env \<Rightarrow> grafana_client \<Rightarrow> string \<times> render_options \<Rightarrow> ('s, rendered_image) grafana_io" where
  "gf_render_dashboard E c q =
     (let (uid, options) = q in gf_render E c (''/render/d/'' @ uid) None options ''dashboard'')"

definition gf_render_panel ::
  "'s grafana_env \<Rightarrow> grafana_client \<Rightarrow> string \<times> string \<times> render_options \<Rightarrow> ('s, rendered_image) grafana_io" where
  "gf_render_panel E c q =
     (let (uid, panel, options) = q in
      gf_render E c (''/render/d-solo/'' @ uid) (Some panel) options ''panel'')"

end
