(* ===== verification/Grafana_Laws.thy ===== *)
theory Grafana_Laws
  imports Grafana_Client
begin

text \<open>
  What the Grafana operations guarantee: how many requests they send and what their errors say about
  them, what their results contain, and that the metrics account for every operation once.

  All queries are one request through \<open>gf_run\<close>; the locale \<open>grafana_query\<close> is that contract, and each
  query of the client is an interpretation of it.
\<close>

section \<open>One attempt\<close>

lemma gf_permit_step: "gf_permit E s = (r, s') \<Longrightarrow>
    (r = Inr () \<or> r = Inl (GS_Error GE_CapacityExhausted)) \<and> (\<exists>w. s' = s\<lparr>gs_world := w\<rparr>)"
  by (auto simp: gf_permit_def split: prod.splits if_splits)

lemma gf_render_permit_step: "gf_render_permit E s = (r, s') \<Longrightarrow>
    (r = Inr () \<or> r = Inl (GS_Error GE_CapacityExhausted)) \<and> (\<exists>w. s' = s\<lparr>gs_world := w\<rparr>)"
  by (auto simp: gf_render_permit_def split: prod.splits if_splits)

lemma gf_exchange_step: "gf_exchange E q s = (r, s') \<Longrightarrow>
    \<exists>x w. r = Inr x \<and> s' = s\<lparr>gs_trace := gs_trace s @ [(q, x)], gs_world := w\<rparr>"
  by (auto simp: gf_exchange_def split: prod.splits)

text \<open>Errors of an attempt that has not sent its request.\<close>

definition unsent_errors :: "gf_kind \<Rightarrow> grafana_error set" where
  "unsent_errors kind = {GE_CapacityExhausted, GE_InvalidArguments, gf_failure kind}"

lemma gf_send_cases:
  assumes "(io_bind (gf_lift (ok_or url (gf_failure kind))) (\<lambda>url.
     io_bind (io_guard (length url \<le> max_url_bytes) (GS_Error GE_InvalidArguments)) (\<lambda>_.
     io_bind (gf_exchange E request) (\<lambda>x. io_lift (outcome x))))) s = (r, s')"
  shows "(\<exists>e\<in>unsent_errors kind. r = Inl (GS_Error e) \<and> s' = s)
    \<or> (\<exists>x w u. r = outcome x \<and> s' = s\<lparr>gs_trace := gs_trace s @ [(request, x)], gs_world := w\<rparr>
         \<and> url = Some u \<and> length u \<le> max_url_bytes)"
proof (cases url)
  case None
  then show ?thesis using assms by (auto simp: gf_lift_def io_bind_def io_lift_def unsent_errors_def)
next
  case (Some u)
  show ?thesis
  proof (cases "length u \<le> max_url_bytes")
    case True
    obtain x t where x: "gf_exchange E request s = (Inr x, t)"
      using gf_exchange_step by (metis surj_pair)
    then obtain w where "t = s\<lparr>gs_trace := gs_trace s @ [(request, x)], gs_world := w\<rparr>"
      using gf_exchange_step by blast
    with assms Some True x show ?thesis
      by (auto simp: gf_lift_def io_bind_def io_lift_def io_guard_def guard_or_def)
  next
    case False
    with Some assms show ?thesis
      by (auto simp: gf_lift_def io_bind_def io_lift_def io_guard_def guard_or_def unsent_errors_def)
  qed
qed

lemma gf_attempt_cases:
  assumes "gf_attempt E request kind norm_body s = (r, s')"
  obtains (unsent) e w where "e \<in> unsent_errors kind" "r = Inl (GS_Error e)" "s' = s\<lparr>gs_world := w\<rparr>"
  | (sent) x w u where "r = gf_outcome (gn_json E) kind norm_body x"
      "s' = s\<lparr>gs_trace := gs_trace s @ [(request, x)], gs_world := w\<rparr>"
      "gn_url E (ur_path request) (ur_parameters request) = Some u" "length u \<le> max_url_bytes"
proof -
  obtain p t where p: "gf_permit E s = (p, t)" by fastforce
  then obtain w where t: "t = s\<lparr>gs_world := w\<rparr>" using gf_permit_step by blast
  show thesis
  proof (cases p)
    case (Inl e)
    with p gf_permit_step [OF p] assms t show thesis
      by (intro unsent [of GE_CapacityExhausted w]) (auto simp: gf_attempt_def io_bind_def unsent_errors_def)
  next
    case (Inr u)
    with p assms have "(io_bind (gf_lift (ok_or (gn_url E (ur_path request) (ur_parameters request)) (gf_failure kind)))
        (\<lambda>url. io_bind (io_guard (length url \<le> max_url_bytes) (GS_Error GE_InvalidArguments)) (\<lambda>_.
        io_bind (gf_exchange E request) (\<lambda>x. io_lift (gf_outcome (gn_json E) kind norm_body x))))) t = (r, s')"
      by (simp add: gf_attempt_def io_bind_def)
    from gf_send_cases [OF this] show thesis
    proof (elim disjE bexE exE conjE)
      fix e assume "e \<in> unsent_errors kind" "r = Inl (GS_Error e)" "s' = t"
      with t show thesis by (intro unsent [of e w]) auto
    next
      fix x w' u assume "r = gf_outcome (gn_json E) kind norm_body x"
        "s' = t\<lparr>gs_trace := gs_trace t @ [(request, x)], gs_world := w'\<rparr>"
        "gn_url E (ur_path request) (ur_parameters request) = Some u" "length u \<le> max_url_bytes"
      with t show thesis by (intro sent [of x w' u]) auto
    qed
  qed
qed

section \<open>Metrics\<close>

definition labels_of :: "string \<Rightarrow> string \<Rightarrow> string \<Rightarrow> metric_labels" where
  "labels_of action mode datasource =
     \<lparr>ml_action = metric_action action, ml_mode = metric_mode mode, ml_datasource = metric_datasource_uid datasource\<rparr>"

definition outcome_text :: "grafana_stop + 'a \<Rightarrow> string" where
  "outcome_text r =
     (case r of Inl GS_Dropped \<Rightarrow> ''cancelled'' | Inl (GS_Error e) \<Rightarrow> request_outcome (Inl e :: unit gr)
      | Inr a \<Rightarrow> ''success'')"

definition count_request :: "metric_labels \<Rightarrow> string \<Rightarrow> grafana_metrics \<Rightarrow> grafana_metrics" where
  "count_request labels outcome m = m\<lparr>gm_requests := gm_requests m @ [(labels, outcome)]\<rparr>"

lemma request_outcome_allowed: "request_outcome r \<in> set metric_outcomes"
proof (cases r)
  case (Inl e)
  then show ?thesis by (cases e) (simp_all add: metric_outcomes_def)
qed (simp add: metric_outcomes_def)

lemma request_outcome_not_cancelled: "request_outcome r \<noteq> ''cancelled''"
proof (cases r)
  case (Inl e)
  then show ?thesis by (cases e) simp_all
qed simp

lemma metric_outcome_allowed [simp]: "metric_outcome (request_outcome r) = request_outcome r"
  by (simp add: metric_outcome_def request_outcome_allowed)

lemma metric_outcome_cancelled [simp]: "metric_outcome ''cancelled'' = ''cancelled''"
  by (simp add: metric_outcome_def metric_outcomes_def)

lemma metric_outcome_success: "metric_outcome ''success'' = ''success''"
  by (simp add: metric_outcome_def metric_outcomes_def)

lemma in_flight_back: "add_in_flight l (- 1) (add_in_flight l 1 m) = m"
  by (simp add: add_in_flight_def)

lemma gf_observed_eq:
  assumes "\<And>s r s'. operation s = (r, s') \<Longrightarrow> gs_metrics s' = gs_metrics s"
    and "gf_observed action mode datasource operation s = (r, s')"
  shows "\<exists>t. operation (s\<lparr>gs_metrics := add_in_flight (labels_of action mode datasource) 1 (gs_metrics s)\<rparr>) = (r, t)
    \<and> s' = t\<lparr>gs_metrics := count_request (labels_of action mode datasource) (outcome_text r) (gs_metrics s)\<rparr>"
proof -
  let ?l = "labels_of action mode datasource"
  let ?m = "add_in_flight ?l 1 (gs_metrics s)"
  obtain t where t: "operation (s\<lparr>gs_metrics := ?m\<rparr>) = (r, t)"
    using assms(2)
    by (auto simp: gf_observed_def metrics_guard_new_def labels_of_def Let_def split: prod.splits)
  have m: "gs_metrics t = ?m" using assms(1) [OF t] by simp
  have finish: "metrics_guard_drop (metrics_guard_finish v (\<lparr>mg_labels = ?l, mg_finished = False\<rparr>, ?m))
      = count_request ?l (metric_outcome v) (gs_metrics s)" for v
    by (simp add: metrics_guard_drop_def metrics_guard_finish_def Let_def in_flight_back count_request_def)
  have drop: "metrics_guard_drop (\<lparr>mg_labels = ?l, mg_finished = False\<rparr>, ?m)
      = count_request ?l ''cancelled'' (gs_metrics s)"
    by (simp add: metrics_guard_drop_def metrics_guard_finish_def Let_def in_flight_back count_request_def)
  have "s' = t\<lparr>gs_metrics := count_request ?l (outcome_text r) (gs_metrics s)\<rparr>"
    using assms(2) t m
    by (auto simp: finish drop gf_observed_def metrics_guard_new_def Let_def labels_of_def [symmetric] outcome_text_def
        metric_outcome_success split: sum.splits grafana_stop.splits)
  with t show ?thesis by blast
qed

section \<open>One operation\<close>

lemma gf_attempt_keeps_metrics:
  "gf_attempt E request kind norm_body s = (r, s') \<Longrightarrow> gs_metrics s' = gs_metrics s"
  by (erule gf_attempt_cases) auto

lemma gf_run_cases:
  assumes "gf_run E request action mode datasource kind norm_body s = (r, s')"
  shows "gs_metrics s' = count_request (labels_of action mode datasource) (outcome_text r) (gs_metrics s)
    \<and> (gs_trace s' = gs_trace s \<and> (\<exists>e\<in>unsent_errors kind. r = Inl (GS_Error e))
       \<or> (\<exists>x. gs_trace s' = gs_trace s @ [(request, x)] \<and> r = gf_outcome (gn_json E) kind norm_body x))"
proof -
  obtain t where t: "gf_attempt E request kind norm_body
      (s\<lparr>gs_metrics := add_in_flight (labels_of action mode datasource) 1 (gs_metrics s)\<rparr>) = (r, t)"
    and s': "s' = t\<lparr>gs_metrics := count_request (labels_of action mode datasource) (outcome_text r) (gs_metrics s)\<rparr>"
    using gf_observed_eq [of "gf_attempt E request kind norm_body" action mode datasource s r s']
      gf_attempt_keeps_metrics [of E request kind norm_body] assms
    unfolding gf_run_def by blast
  from t show ?thesis by (rule gf_attempt_cases) (auto simp: s')
qed

lemma gf_status_error_read:
  "gf_status_error GK_Read st = Some e \<Longrightarrow> e \<in> {GE_Unauthorized, GE_QueryRejected, GE_UpstreamUnavailable}"
  by (auto simp: gf_status_error_def split: if_splits)

lemma gf_outcome_Inr:
  assumes "gf_outcome parse kind norm_body x = Inr v"
  shows "\<exists>response content_type body. x = GX_Response response content_type \<and> status_success (hs_status response)
    \<and> gf_read_json parse response = Inr body \<and> norm_body body = Inr v"
  using assms
  by (cases x)
    (auto simp: gf_status_error_def map_err_Inr split: option.splits if_splits)

text \<open>Errors a reading operation never makes up: those of mutations and of renders.\<close>

definition read_only_errors :: "grafana_error set" where
  "read_only_errors = {GE_InvalidArguments, GE_CapacityExhausted, GE_Timeout, GE_Unauthorized, GE_QueryRejected,
     GE_UpstreamUnavailable, GE_InvalidResponse}"

definition only_invalid :: "(json \<Rightarrow> json gr) \<Rightarrow> bool" where
  "only_invalid norm_body \<longleftrightarrow> (\<forall>v e. norm_body v = Inl e \<longrightarrow> e = GE_InvalidResponse)"

lemma gf_read_json_Inl: "gf_read_json parse r = Inl e \<Longrightarrow> e \<in> {GE_InvalidResponse, GE_UpstreamUnavailable}"
  by (auto simp: gf_read_json_def and_then_Inl need_def dest: read_chunks_Inl split: if_splits)

lemma gf_outcome_read_error:
  assumes "gf_outcome parse GK_Read norm_body x = Inl (GS_Error e)" "only_invalid norm_body"
  shows "e \<in> read_only_errors - {GE_CapacityExhausted, GE_InvalidArguments}"
proof (cases x)
  case (GX_Response response content_type)
  show ?thesis
  proof (cases "gf_status_error GK_Read (hs_status response)")
    case None
    with assms(1) GX_Response have "and_then (gf_read_json parse response) norm_body = Inl e"
      by (cases "and_then (gf_read_json parse response) norm_body") auto
    with assms(2) gf_read_json_Inl [of parse response e] show ?thesis
      by (auto simp: and_then_Inl only_invalid_def read_only_errors_def)
  next
    case (Some e')
    with assms(1) GX_Response gf_status_error_read [OF Some] show ?thesis
      by (auto simp: read_only_errors_def)
  qed
qed (use assms in \<open>auto simp: read_only_errors_def\<close>)

section \<open>Normalisation only fails with an invalid response\<close>

named_theorems gr_rules
  \<open>introduction rules for results whose only error is an invalid response\<close>

definition gr_only :: "'a gr \<Rightarrow> bool" where
  "gr_only r \<longleftrightarrow> (\<forall>e. r = Inl e \<longrightarrow> e = GE_InvalidResponse)"

lemma gr_only_need [gr_rules]: "gr_only (need v)"
  by (simp add: gr_only_def need_def)

lemma gr_only_Inr [gr_rules]: "gr_only (Inr a)"
  by (simp add: gr_only_def)

lemma gr_only_Inl [gr_rules]: "gr_only (Inl GE_InvalidResponse)"
  by (simp add: gr_only_def)

lemma gr_only_and_then [gr_rules]: "gr_only r \<Longrightarrow> (\<And>a. gr_only (f a)) \<Longrightarrow> gr_only (and_then r f)"
  by (auto simp: gr_only_def and_then_Inl)

lemma gr_only_if [gr_rules]:
  "(p \<Longrightarrow> gr_only a) \<Longrightarrow> (\<not> p \<Longrightarrow> gr_only b) \<Longrightarrow> gr_only (if p then a else b)"
  by simp

lemma gr_only_option [gr_rules]:
  "(v = None \<Longrightarrow> gr_only a) \<Longrightarrow> (\<And>w. v = Some w \<Longrightarrow> gr_only (f w)) \<Longrightarrow> gr_only (case v of None \<Rightarrow> a | Some w \<Rightarrow> f w)"
  by (simp split: option.splits)

lemma gr_only_json [gr_rules]:
  "gr_only a \<Longrightarrow> (\<And>b. gr_only (f1 b)) \<Longrightarrow> (\<And>n. gr_only (f2 n)) \<Longrightarrow> (\<And>t. gr_only (f3 t)) \<Longrightarrow>
   (\<And>xs. gr_only (f4 xs)) \<Longrightarrow> (\<And>m. gr_only (f5 m)) \<Longrightarrow>
     gr_only (case v of JNull \<Rightarrow> a | JBool b \<Rightarrow> f1 b | JNum n \<Rightarrow> f2 n | JStr t \<Rightarrow> f3 t | JArr xs \<Rightarrow> f4 xs | JObj m \<Rightarrow> f5 m)"
  by (simp split: json.splits)

lemma gr_only_list [gr_rules]:
  "gr_only a \<Longrightarrow> (\<And>x xs. gr_only (f x xs)) \<Longrightarrow> gr_only (case v of [] \<Rightarrow> a | x # xs \<Rightarrow> f x xs)"
  by (simp split: list.splits)

lemma gr_only_prod [gr_rules]: "(\<And>a b. gr_only (f a b)) \<Longrightarrow> gr_only (case p of (a, b) \<Rightarrow> f a b)"
  by (simp split: prod.splits)

lemma gr_only_collect [gr_rules]:
  assumes "\<And>x. gr_only (f x)"
  shows "gr_only (collect_results (map f xs))"
proof -
  have "e = GE_InvalidResponse" if "collect_results (map f xs) = Inl e" for e
  proof -
    from collect_results_Inl [OF that] obtain x where "f x = Inl e" by auto
    with assms [of x] show ?thesis by (simp add: gr_only_def)
  qed
  then show ?thesis by (simp add: gr_only_def)
qed

lemma gr_only_members [gr_rules]:
  "gr_only (gr_bounded_string m k n)" "gr_only (gr_allow_empty_string m k n)" "gr_only (gr_optional_string m k n)"
  "gr_only (gr_optional_nonempty_string m k n)" "gr_only (gr_bounded_integer m k)" "gr_only (gr_bool m k)"
  "gr_only (gr_array m k)" "gr_only (gr_object m k)" "gr_only (gr_timestamp cal m k)" "gr_only (gr_rule_group m)"
  "gr_only (gr_tags m)" "gr_only (string_pair v)" "gr_only (nanos_timestamp cal i)" "gr_only (string_map v)"
  by (unfold gr_bounded_string_def gr_allow_empty_string_def gr_optional_string_def gr_optional_nonempty_string_def
      gr_bounded_integer_def gr_bool_def gr_array_def gr_object_def gr_timestamp_def gr_rule_group_def gr_tags_def
      string_pair_def nanos_timestamp_def string_map_def)
    (intro gr_rules)+

lemma gr_only_safe_entries [gr_rules]: "gr_only (safe_entries m)"
proof (induction m)
  case (Cons kv m)
  then show ?case by (cases kv) (simp, intro gr_rules)
qed (simp add: gr_rules)

lemma gr_only_safe [gr_rules]:
  "gr_only (safe_string_map v)" "gr_only (gr_safe_member m k)" "gr_only (recording_rule_labels m)"
  by (unfold safe_string_map_def gr_safe_member_def recording_rule_labels_def) (intro gr_rules)+

lemma gr_only_select_loop [gr_rules]: "gr_only (select_rules_loop limit wanted selected rules)"
  by (induction limit wanted selected rules rule: select_rules_loop.induct) (auto intro!: gr_rules)

lemma gr_only_rules [gr_rules]:
  "gr_only (alert_rule_of m)" "gr_only (recording_rule_of m)" "gr_only (alert_instance_of cal v)"
  "gr_only (silence_state_of m)" "gr_only (silence_matcher_of v)" "gr_only (silence_matchers_of vs)"
  "gr_only (dashboard_summary_of v)" "gr_only (panel_id_of m)" "gr_only (panel_of m)" "gr_only (variable_of v)"
  "gr_only (bounded_dashboard_output print v)"
  unfolding alert_rule_of_def recording_rule_of_def alert_instance_of_def silence_state_of_def silence_matcher_of_def
    silence_matchers_of_def dashboard_summary_of_def panel_id_of_def panel_of_def variable_of_def
    bounded_dashboard_output_def
  by (intro gr_rules allI impI)+

lemma gr_only_silence [gr_rules]: "gr_only (silence_of cal v)"
  unfolding silence_of_def by (intro gr_rules)

lemma gr_only_silences [gr_rules]: "gr_only (silences_loop cal wanted limit out vs)"
  by (induction cal wanted limit out vs rule: silences_loop.induct) (auto intro!: gr_rules)

lemma gr_only_panels [gr_rules]: "gr_only (flatten_panels levels out vs)"
proof (induction levels out vs rule: flatten_panels.induct)
  case (3 levels out v vs)
  show ?case
    unfolding flatten_panels.simps
  proof (intro gr_rules)
    fix m :: members and w children cs
    assume "\<not> max_dashboard_panels \<le> length out" "map_of m ''panels'' = Some children"
    then show "gr_only (flatten_panels levels (out @ [w]) cs)" using "3.IH"(1) by blast
  next
    fix output'
    assume "\<not> max_dashboard_panels \<le> length out"
    then show "gr_only (flatten_panels (Suc levels) output' vs)" using "3.IH"(2) by blast
  qed
qed (auto intro: gr_rules)

lemma gr_only_samples [gr_rules]:
  "gr_only (normalize_stream_entry cal v)" "gr_only (normalize_sample cal v)"
  unfolding normalize_stream_entry_def normalize_sample_def by (intro gr_rules)+

lemma gr_only_entries [gr_rules]: "gr_only (stream_entries cal remaining selected vs)"
  by (induction vs arbitrary: remaining selected) (simp_all, (intro gr_rules | assumption | simp)+)

lemma gr_only_streams [gr_rules]: "gr_only (streams_loop cal remaining out vs)"
  by (induction cal remaining out vs rule: streams_loop.induct) (auto intro!: gr_rules)

section \<open>Queries\<close>

definition merge_path :: string where
  "merge_path = ''/api/datasources/proxy/uid/pyroscope/querier.v1.QuerierService/SelectMergeStacktraces''"

definition reading_request :: "grafana_client \<Rightarrow> upstream_request \<Rightarrow> bool" where
  "reading_request c request \<longleftrightarrow> ur_bearer request = gcl_token c
     \<and> (ur_method request = M_Get \<and> ur_body request = None
        \<or> ur_method request = M_Post \<and> ur_path request = merge_path \<and> ur_parameters request = [])"

lemma reading_get [simp]: "reading_request c (gf_get c path parameters)"
  by (simp add: reading_request_def gf_get_def)

lemma reading_merge [simp]: "reading_request c (gf_post c merge_path body)"
  by (simp add: reading_request_def gf_post_def)

locale grafana_query =
  fixes operation :: "'s grafana_env \<Rightarrow> grafana_client \<Rightarrow> 'q \<Rightarrow> ('s, json) grafana_io"
    and request_of :: "'s grafana_env \<Rightarrow> grafana_client \<Rightarrow> 'q \<Rightarrow> upstream_request"
    and normal :: "'s grafana_env \<Rightarrow> 'q \<Rightarrow> json \<Rightarrow> json gr"
    and labels :: "'q \<Rightarrow> string \<times> string \<times> string"
  assumes runs: "operation E c q = gf_run E (request_of E c q) (fst (labels q)) (fst (snd (labels q)))
      (snd (snd (labels q))) GK_Read (normal E q)"
    and reading: "reading_request c (request_of E c q)"
    and invalid: "only_invalid (normal E q)"
begin

text \<open>What every query guarantees: this is what the properties of the queries rest on.\<close>

lemma query_outcome:
  assumes "operation E c q s = (r, s')"
  shows "gs_trace s' = gs_trace s \<and> r \<in> Inl ` GS_Error ` {GE_CapacityExhausted, GE_InvalidArguments, GE_UpstreamUnavailable}
    \<or> (\<exists>x. gs_trace s' = gs_trace s @ [(request_of E c q, x)]
        \<and> r = gf_outcome (gn_json E) GK_Read (normal E q) x)"
  using gf_run_cases [OF assms [unfolded runs]] by (auto simp: unsent_errors_def)

lemma query_success:
  assumes "operation E c q s = (Inr v, s')"
  shows "\<exists>response content_type body. gs_trace s' = gs_trace s @ [(request_of E c q, GX_Response response content_type)]
    \<and> status_success (hs_status response) \<and> gf_read_json (gn_json E) response = Inr body \<and> normal E q body = Inr v"
  using query_outcome [OF assms] gf_outcome_Inr [of "gn_json E" GK_Read "normal E q" _ v] by fastforce

lemma query_error:
  assumes "operation E c q s = (Inl (GS_Error e), s')"
  shows "e \<in> read_only_errors \<and> (e \<in> {GE_CapacityExhausted, GE_InvalidArguments} \<longrightarrow> gs_trace s' = gs_trace s)"
proof -
  have read: "e' \<in> read_only_errors - {GE_CapacityExhausted, GE_InvalidArguments}"
    if "Inl (GS_Error e') = gf_outcome (gn_json E) GK_Read (normal E q) x" for e' x
    using gf_outcome_read_error [OF that [symmetric] invalid] .
  from query_outcome [OF assms] show ?thesis
  proof (elim disjE exE conjE)
    fix x assume "Inl (GS_Error e) = gf_outcome (gn_json E) GK_Read (normal E q) x"
    from read [OF this] show ?thesis by simp
  qed (auto simp: read_only_errors_def)
qed

lemma query_law:
  assumes "operation E c q s = (r, s')"
  shows "(gs_trace s' = gs_trace s \<or> (\<exists>request x. gs_trace s' = gs_trace s @ [(request, x)] \<and> reading_request c request))
    \<and> (\<forall>e. r = Inl (GS_Error e) \<longrightarrow> e \<in> read_only_errors
         \<and> (e \<in> {GE_CapacityExhausted, GE_InvalidArguments} \<longrightarrow> gs_trace s' = gs_trace s))
    \<and> (\<exists>labels. gs_metrics s' = count_request labels (outcome_text r) (gs_metrics s))"
  using query_outcome [OF assms] query_error [of E c q s _ s'] assms gf_run_cases [OF assms [unfolded runs]]
    reading [of c E q] by blast

end

lemma only_invalid_iff: "only_invalid f \<longleftrightarrow> (\<forall>v. gr_only (f v))"
  by (auto simp: only_invalid_def gr_only_def)

lemma only_invalid_normalisers:
  "only_invalid (normalize_logql cal mode limit)" "only_invalid (normalize_promql cal mode)"
  "only_invalid (normalize_traceql limit)" "only_invalid normalize_profiles"
  "only_invalid (normalize_alert_rules limit)" "only_invalid (normalize_recording_rules limit)"
  "only_invalid (normalize_alert_instances cal limit)" "only_invalid (normalize_silences cal state limit)"
  "only_invalid (normalize_dashboards limit)" "only_invalid (normalize_dashboard print)"
  unfolding only_invalid_iff normalize_logql_def normalize_promql_def normalize_traceql_def normalize_profiles_def
    normalize_alert_rules_def normalize_recording_rules_def normalize_alert_instances_def normalize_silences_def
    normalize_dashboards_def normalize_dashboard_def query_data_def normalize_streams_def normalize_series_def
    series_of_def normalize_vector_def vector_entry_of_def select_rules_def
  by (intro allI gr_rules)+

definition logql_request :: "'s grafana_env \<Rightarrow> grafana_client \<Rightarrow> logql_query \<Rightarrow> upstream_request" where
  "logql_request E c q = gf_get c
     (case lq_mode q of QM_Instant \<Rightarrow> ''/api/datasources/proxy/uid/loki/loki/api/v1/query''
      | QM_Range \<Rightarrow> ''/api/datasources/proxy/uid/loki/loki/api/v1/query_range'')
     (logql_parameters (gn_calendar E) q)"

definition promql_request :: "'s grafana_env \<Rightarrow> grafana_client \<Rightarrow> promql_query \<Rightarrow> upstream_request" where
  "promql_request E c q = gf_get c
     (case pq_mode q of QM_Instant \<Rightarrow> ''/api/datasources/uid/mimir/resources/api/v1/query''
      | QM_Range \<Rightarrow> ''/api/datasources/uid/mimir/resources/api/v1/query_range'')
     (promql_parameters (gn_calendar E) q)"

interpretation logql: grafana_query execute_logql logql_request
  "\<lambda>E q. normalize_logql (gn_calendar E) (lq_mode q) (lq_limit q)"
  "\<lambda>q. (''logql.query'', query_mode_str (lq_mode q), ''loki'')"
  by unfold_locales (simp_all add: execute_logql_def logql_request_def only_invalid_normalisers)

interpretation promql: grafana_query execute_promql promql_request
  "\<lambda>E q. normalize_promql (gn_calendar E) (pq_mode q)" "\<lambda>q. (''promql.query'', query_mode_str (pq_mode q), ''mimir'')"
  by unfold_locales (simp_all add: execute_promql_def promql_request_def only_invalid_normalisers)

interpretation traceql: grafana_query execute_traceql
  "\<lambda>E c q. gf_get c ''/api/datasources/proxy/uid/tempo/api/search'' (traceql_parameters q)"
  "\<lambda>E q. normalize_traceql (tq_limit q)" "\<lambda>q. (''traceql.search'', ''search'', ''tempo'')"
  by unfold_locales (simp_all add: execute_traceql_def only_invalid_normalisers)

interpretation profiles: grafana_query execute_profiles "\<lambda>E c q. gf_post c merge_path (profiles_body q)"
  "\<lambda>E q. normalize_profiles" "\<lambda>q. (''profile.merge'', ''range'', ''pyroscope'')"
  by unfold_locales (simp_all add: execute_profiles_def merge_path_def [symmetric] only_invalid_normalisers)

interpretation alert_rules: grafana_query gf_alert_rules "\<lambda>E c q. gf_get c ''/api/v1/provisioning/alert-rules'' []"
  "\<lambda>E. normalize_alert_rules" "\<lambda>q. (''alert-rule.list'', ''list'', ''grafana_alerting'')"
  by unfold_locales (simp_all add: gf_alert_rules_def only_invalid_normalisers)

interpretation recording_rules: grafana_query gf_recording_rules
  "\<lambda>E c q. gf_get c ''/api/v1/provisioning/alert-rules'' []"
  "\<lambda>E. normalize_recording_rules" "\<lambda>q. (''recording-rule.list'', ''list'', ''grafana_alerting'')"
  by unfold_locales (simp_all add: gf_recording_rules_def only_invalid_normalisers)

interpretation alert_instances: grafana_query gf_alert_instances
  "\<lambda>E c q. gf_get c ''/api/alertmanager/grafana/api/v2/alerts''
     (map (\<lambda>m. (''filter'', matcher_filter (gn_print E) m)) (fst q))"
  "\<lambda>E q. normalize_alert_instances (gn_calendar E) (snd q)"
  "\<lambda>q. (''alert-instance.list'', ''list'', ''grafana_alerting'')"
  by unfold_locales (simp_all add: gf_alert_instances_def only_invalid_normalisers split: prod.splits)

interpretation silences: grafana_query gf_list_silences
  "\<lambda>E c q. gf_get c ''/api/alertmanager/grafana/api/v2/silences'' []"
  "\<lambda>E q. normalize_silences (gn_calendar E) (fst q) (snd q)" "\<lambda>q. (''silence.list'', ''list'', ''grafana_alerting'')"
  by unfold_locales (simp_all add: gf_list_silences_def only_invalid_normalisers split: prod.splits)

interpretation dashboards: grafana_query gf_list_dashboards "\<lambda>E c q. gf_get c ''/api/search'' (dashboards_parameters q)"
  "\<lambda>E q. normalize_dashboards (dq_limit q)" "\<lambda>q. (''dashboard.list'', ''list'', ''grafana_dashboards'')"
  by unfold_locales (simp_all add: gf_list_dashboards_def only_invalid_normalisers)

interpretation dashboard: grafana_query gf_get_dashboard "\<lambda>E c uid. gf_get c (''/api/dashboards/uid/'' @ uid) []"
  "\<lambda>E q. normalize_dashboard (gn_print E)" "\<lambda>q. (''dashboard.get'', ''get'', ''grafana_dashboards'')"
  by unfold_locales (simp_all add: gf_get_dashboard_def only_invalid_normalisers)

lemmas query_laws = logql.query_law promql.query_law traceql.query_law profiles.query_law alert_rules.query_law
  recording_rules.query_law alert_instances.query_law silences.query_law dashboards.query_law dashboard.query_law

text \<open>The queries of the client.\<close>

definition is_query :: "'s grafana_env \<Rightarrow> grafana_client \<Rightarrow> ('s, json) grafana_io \<Rightarrow> bool" where
  "is_query E c op \<longleftrightarrow>
     (\<exists>q. op = execute_logql E c q) \<or> (\<exists>q. op = execute_promql E c q) \<or> (\<exists>q. op = execute_traceql E c q)
     \<or> (\<exists>q. op = execute_profiles E c q) \<or> (\<exists>n. op = gf_alert_rules E c n) \<or> (\<exists>n. op = gf_recording_rules E c n)
     \<or> (\<exists>q. op = gf_alert_instances E c q) \<or> (\<exists>q. op = gf_list_silences E c q)
     \<or> (\<exists>q. op = gf_list_dashboards E c q) \<or> (\<exists>uid. op = gf_get_dashboard E c uid)"

text \<open>
  C28: Every Grafana query sends at most one request, which carries the configured token and is a GET
  without a body, or the POST that merges profiles; its errors are never those of a mutation or of a
  render; when it reports exhausted capacity or invalid arguments it has sent nothing; and whatever it
  returns, also when it is dropped, the gauge of requests in flight is what it was and one completed
  request has been counted, under the outcome that was returned.
\<close>

theorem grafana_queries_read_once:
  assumes "is_query E c op" "op s = (r, s')"
  shows "(gs_trace s' = gs_trace s \<or> (\<exists>request x. gs_trace s' = gs_trace s @ [(request, x)] \<and> reading_request c request))
    \<and> (\<forall>e. r = Inl (GS_Error e) \<longrightarrow> e \<in> read_only_errors
         \<and> (e \<in> {GE_CapacityExhausted, GE_InvalidArguments} \<longrightarrow> gs_trace s' = gs_trace s))
    \<and> (\<exists>labels. gs_metrics s' = count_request labels (outcome_text r) (gs_metrics s))"
  using assms unfolding is_query_def by (elim disjE exE; hypsubst) (rule query_laws, assumption)+

section \<open>Creating a silence\<close>

definition silences_path :: string where
  "silences_path = ''/api/alertmanager/grafana/api/v2/silences''"

definition silence_request :: "grafana_client \<Rightarrow> create_silence_command \<Rightarrow> string \<Rightarrow> string \<Rightarrow> upstream_request" where
  "silence_request c command starts_at ends_at = gf_post c silences_path (silence_body command starts_at ends_at)"

definition grafana_retryable :: "grafana_error \<Rightarrow> bool" where
  "grafana_retryable e \<longleftrightarrow> snd (snd (grafana_error_parts e []))"

lemma grafana_retryable_iff:
  "grafana_retryable e \<longleftrightarrow> e \<in> {GE_CapacityExhausted, GE_Timeout, GE_UpstreamUnavailable, GE_RenderTimeout}"
  by (cases e) (simp_all add: grafana_retryable_def)

text \<open>What the answer to a mutation entitles the client to say.\<close>

fun silence_answer :: "grafana_exchange \<Rightarrow> grafana_stop + json \<Rightarrow> bool" where
  "silence_answer GX_Dropped r \<longleftrightarrow> r = Inl GS_Dropped"
| "silence_answer GX_TimedOut r \<longleftrightarrow> r = Inl (GS_Error GE_MutationOutcomeUnknown)"
| "silence_answer GX_Failed r \<longleftrightarrow> r = Inl (GS_Error GE_MutationOutcomeUnknown)"
| "silence_answer (GX_Response response content_type) r \<longleftrightarrow>
     (if hs_status response = 400 then r = Inl (GS_Error GE_MutationRejected)
      else if hs_status response = 401 \<or> hs_status response = 403 then r = Inl (GS_Error GE_Unauthorized)
      else if status_success (hs_status response) then
        (\<exists>v. r = Inr v) \<or> r = Inl (GS_Error GE_MutationOutcomeUnknown)
      else r = Inl (GS_Error GE_MutationOutcomeUnknown))"

lemma gf_status_error_mutation:
  "gf_status_error GK_Mutation st =
     (if st = 400 then Some GE_MutationRejected
      else if st = 401 \<or> st = 403 then Some GE_Unauthorized
      else if status_success st then None else Some GE_MutationOutcomeUnknown)"
  by (auto simp: gf_status_error_def status_client_error_def status_success_def word_le_nat_alt word_less_nat_alt)

lemma silence_answer_outcome: "silence_answer x (gf_outcome parse GK_Mutation norm_body x)"
proof (cases x)
  case (GX_Response response content_type)
  let ?r = "and_then (gf_read_json parse response) norm_body"
  have "status_success (hs_status response) \<Longrightarrow> hs_status response \<notin> {400, 401, 403}"
    by (auto simp: status_success_def)
  with GX_Response show ?thesis by (cases ?r) (auto simp: gf_status_error_mutation)
qed simp_all

lemma gf_create_silence_cases:
  assumes "gf_create_silence E c command s = (r, s')"
  shows "(gs_trace s' = gs_trace s
        \<and> r \<in> Inl ` GS_Error ` {GE_CapacityExhausted, GE_InvalidArguments, GE_MutationOutcomeUnknown})
    \<or> (\<exists>now end_time x. cal_add (gn_calendar E) now (cs_duration command) = Some end_time
        \<and> gs_trace s' = gs_trace s @ [(silence_request c command (cal_format (gn_calendar E) now)
              (cal_format (gn_calendar E) end_time), x)]
        \<and> r = gf_outcome (gn_json E) GK_Mutation (normalize_create_silence (cal_format (gn_calendar E) now)
              (cal_format (gn_calendar E) end_time)) x)"
proof -
  obtain now w where now: "gn_now E (gs_world s) = (now, w)" by fastforce
  let ?cal = "gn_calendar E"
  show ?thesis
  proof (cases "cal_add ?cal now (cs_duration command)")
    case None
    with assms now show ?thesis
      by (auto simp: gf_create_silence_def gf_now_def gf_lift_def io_bind_def io_lift_def)
  next
    case (Some end_time)
    let ?a = "cal_format ?cal now" and ?b = "cal_format ?cal end_time"
    from assms now Some have "gf_run E (silence_request c command ?a ?b) ''silence.create'' ''create'' ''grafana_alerting''
        GK_Mutation (normalize_create_silence ?a ?b) (s\<lparr>gs_world := w\<rparr>) = (r, s')"
      by (simp add: gf_create_silence_def gf_now_def gf_lift_def io_bind_def io_lift_def silence_request_def
          silences_path_def Let_def)
    from gf_run_cases [OF this] Some show ?thesis by (auto simp: unsent_errors_def)
  qed
qed

lemma normalize_create_silence_Inr:
  assumes "normalize_create_silence a b body = Inr v"
  shows "\<exists>ident. body = JObj [(''silenceID'', JStr ident)] \<and> ident \<noteq> [] \<and> length ident \<le> 128
    \<and> v = JObj [(''silence_id'', JStr ident), (''starts_at'', JStr a), (''ends_at'', JStr b)]"
proof -
  from assms obtain m ident where m: "as_object body = Some m" "length m = 1"
    "opt_str (map_of m ''silenceID'') = Some ident" "ident \<noteq> []" "length ident \<le> 128"
    "v = JObj [(''silence_id'', JStr ident), (''starts_at'', JStr a), (''ends_at'', JStr b)]"
    by (auto simp: normalize_create_silence_def need_def gr_bounded_string_def split: if_splits)
  obtain k w where kw: "m = [(k, w)]" using m(2) by (cases m) auto
  with m(3) have "k = ''silenceID''" "w = JStr ident"
    by (auto simp: opt_str_def split: if_splits elim: as_str.elims)
  moreover have "body = JObj m" using m(1) by (cases body) auto
  ultimately show ?thesis using m kw by simp
qed

lemma gf_read_json_Inr: "gf_read_json parse response = Inr v \<Longrightarrow> parse (chunk_bytes (hs_chunks response)) = Some v"
  by (auto simp: gf_read_json_def need_def dest!: read_chunks_Inr [rotated] split: if_splits option.splits)

lemma silence_created:
  assumes "gf_outcome parse GK_Mutation (normalize_create_silence a b) x = Inr v"
  shows "\<exists>response content_type ident. x = GX_Response response content_type \<and> status_success (hs_status response)
    \<and> parse (chunk_bytes (hs_chunks response)) = Some (JObj [(''silenceID'', JStr ident)])
    \<and> ident \<noteq> [] \<and> length ident \<le> 128
    \<and> v = JObj [(''silence_id'', JStr ident), (''starts_at'', JStr a), (''ends_at'', JStr b)]"
  using gf_outcome_Inr [OF assms] assms
  by (cases x) (auto simp: gf_status_error_mutation dest!: normalize_create_silence_Inr gf_read_json_Inr split: if_splits)


section \<open>Lists and limits\<close>

definition result_items :: "json \<Rightarrow> json list" where
  "result_items v = (case json_get v ''result'' of Some (JArr xs) \<Rightarrow> xs | _ \<Rightarrow> [])"

lemma result_items_list [simp]: "result_items (gr_list kind out) = out"
  by (simp add: result_items_def gr_list_def)

lemma select_rules_loop_length:
  "select_rules_loop limit wanted selected rules = Inr out \<Longrightarrow> length selected \<le> limit \<Longrightarrow> length out \<le> limit"
proof (induction rules arbitrary: selected)
  case (Cons rule rules)
  then obtain m kind where "select_rules_loop limit wanted
      (if kind = wanted \<and> length selected < limit then selected @ [m] else selected) rules = Inr out"
    by (auto simp del: rule_kind_of.simps)
  from Cons.IH [OF this] Cons.prems(2) show ?case by auto
qed simp

lemma silences_loop_length:
  "silences_loop cal wanted limit out silences = Inr out' \<Longrightarrow> length out \<le> limit \<Longrightarrow> length out' \<le> limit"
proof (induction silences arbitrary: out)
  case (Cons silence silences)
  then obtain st v where "silences_loop cal wanted limit
      (if (wanted = None \<or> wanted = Some st) \<and> length out < limit then out @ [v] else out) silences = Inr out'"
    by auto
  from Cons.IH [OF this] Cons.prems(2) show ?case by auto
qed simp

lemma normalize_rules_length:
  "normalize_alert_rules limit wrapper = Inr v \<Longrightarrow> length (result_items v) \<le> unat limit"
  "normalize_recording_rules limit wrapper = Inr v \<Longrightarrow> length (result_items v) \<le> unat limit"
  by (auto simp: normalize_alert_rules_def normalize_recording_rules_def select_rules_def need_def
      dest!: length_collect_results select_rules_loop_length)

lemma normalize_listings_length:
  "normalize_alert_instances cal limit wrapper = Inr v \<Longrightarrow> length (result_items v) \<le> unat limit"
  "normalize_silences cal state limit wrapper = Inr v \<Longrightarrow> length (result_items v) \<le> unat limit"
  "normalize_dashboards limit wrapper = Inr v \<Longrightarrow> length (result_items v) \<le> unat limit"
  "normalize_traceql limit wrapper = Inr v \<Longrightarrow> length (result_items v) \<le> unat limit"
  by (auto simp: normalize_alert_instances_def normalize_silences_def normalize_dashboards_def
      normalize_traceql_def need_def result_items_def [of "JObj _"] dest!: silences_loop_length)

section \<open>Streams\<close>

definition stream_values :: "json \<Rightarrow> json list" where
  "stream_values v = opt_elems (opt_array (json_get v ''values''))"

text \<open>The entries of a stream of the answer, all normalised.\<close>

definition normalised_entries :: "calendar \<Rightarrow> json \<Rightarrow> json list \<Rightarrow> bool" where
  "normalised_entries cal entry es \<longleftrightarrow> map (normalize_stream_entry cal) (stream_values entry) = map Inr es"

lemma stream_entries_Inr:
  "stream_entries cal remaining selected samples = Inr (remaining', selected') \<Longrightarrow>
     \<exists>es. map (normalize_stream_entry cal) samples = map Inr es
       \<and> selected' = selected @ take remaining es \<and> remaining' = remaining - length es"
proof (induction samples arbitrary: remaining selected)
  case (Cons sample samples)
  then obtain e where e: "normalize_stream_entry cal sample = Inr e"
    and rest: "(if 0 < remaining then stream_entries cal (remaining - 1) (selected @ [e]) samples
        else stream_entries cal remaining selected samples) = Inr (remaining', selected')"
    by auto
  show ?case
  proof (cases remaining)
    case 0
    from rest 0 Cons.IH [of 0 selected] obtain es where
      "map (normalize_stream_entry cal) samples = map Inr es" "selected' = selected" "remaining' = 0" by auto
    with e 0 show ?thesis by (intro exI [of _ "e # es"]) simp
  next
    case (Suc k)
    from rest Suc Cons.IH [of k "selected @ [e]"] obtain es where
      "map (normalize_stream_entry cal) samples = map Inr es" "selected' = selected @ e # take k es"
      "remaining' = k - length es" by auto
    with e Suc show ?thesis by (intro exI [of _ "e # es"]) simp
  qed
qed simp

lemma streams_loop_Inr:
  "streams_loop cal remaining normalized entries = Inr out \<Longrightarrow>
     \<exists>ess new. list_all2 (normalised_entries cal) entries ess \<and> out = normalized @ new
       \<and> concat (map stream_values new) = take remaining (concat ess) \<and> (\<forall>v\<in>set new. stream_values v \<noteq> [])"
proof (induction entries arbitrary: remaining normalized)
  case (Cons entry entries)
  then obtain m labels vs remaining' selected where m: "entry = JObj m"
    and vs: "map_of m ''values'' = Some (JArr vs)"
    and s: "stream_entries cal remaining [] vs = Inr (remaining', selected)"
    and rest: "streams_loop cal remaining' (if selected = [] then normalized
        else normalized @ [JObj [(''stream'', labels), (''values'', JArr selected)]]) entries = Inr out"
    by (auto simp: need_def gr_array_def opt_array_def Option.bind_eq_Some_conv elim!: as_object.elims as_array.elims)
  from stream_entries_Inr [OF s] obtain es where es: "map (normalize_stream_entry cal) vs = map Inr es"
    "selected = take remaining es" "remaining' = remaining - length es" by auto
  from Cons.IH [OF rest] obtain ess new where ih: "list_all2 (normalised_entries cal) entries ess"
    "out = (if selected = [] then normalized
        else normalized @ [JObj [(''stream'', labels), (''values'', JArr selected)]]) @ new"
    "concat (map stream_values new) = take remaining' (concat ess)" "\<forall>v\<in>set new. stream_values v \<noteq> []" by blast
  have "normalised_entries cal entry es"
    using es(1) by (simp add: normalised_entries_def stream_values_def opt_array_def m vs)
  moreover have "take remaining (concat (es # ess)) = selected @ take remaining' (concat ess)"
    using es by simp
  moreover have "stream_values (JObj [(''stream'', labels), (''values'', JArr selected)]) = selected"
    by (simp add: stream_values_def opt_array_def)
  ultimately show ?case
    using ih
    by (intro exI [of _ "es # ess"]
        exI [of _ "(if selected = [] then [] else [JObj [(''stream'', labels), (''values'', JArr selected)]]) @ new"])
      auto
qed simp

text \<open>
  C29: The streams of a LogQL answer keep exactly its first entries: put together, the entries that are
  returned are the first \<open>limit\<close> of all entries of the answer in their order, every one normalised, even
  those beyond the limit, and no stream without an entry is returned.
\<close>

theorem streams_keep_first_entries:
  assumes "normalize_streams cal limit (JArr series) = Inr v"
  shows "\<exists>out ess. v = JArr out \<and> list_all2 (normalised_entries cal) series ess
    \<and> concat (map stream_values out) = take limit (concat ess) \<and> (\<forall>w\<in>set out. stream_values w \<noteq> [])"
proof -
  from assms obtain out where "streams_loop cal limit [] series = Inr out" "v = JArr out"
    by (auto simp: normalize_streams_def need_def)
  with streams_loop_Inr [of cal limit "[]" series out] show ?thesis by auto
qed

text \<open>
  A listing never returns more than was asked for: alert rules, recording rules, alert instances,
  silences, dashboards and traces have at most as many results as their validated limit.
\<close>

theorem grafana_listings_within_limit:
  "(gf_alert_rules E c limit s = (Inr v, s') \<or> gf_recording_rules E c limit s = (Inr v, s')
    \<or> gf_alert_instances E c (matchers, limit) s = (Inr v, s') \<or> gf_list_silences E c (state, limit) s = (Inr v, s')
    \<or> gf_list_dashboards E c dq s = (Inr v, s') \<and> dq_limit dq = limit
    \<or> execute_traceql E c tq s = (Inr v, s') \<and> tq_limit tq = limit)
   \<Longrightarrow> length (result_items v) \<le> unat limit"
  by (elim disjE conjE)
    (auto dest!: alert_rules.query_success recording_rules.query_success alert_instances.query_success
      silences.query_success dashboards.query_success traceql.query_success
      intro: normalize_rules_length normalize_listings_length)

section \<open>URLs in labels and annotations\<close>

text \<open>The policy of the shared contract, on the trimmed value.\<close>

definition absolute_scheme_form :: "string \<Rightarrow> bool" where
  "absolute_scheme_form v \<longleftrightarrow>
     (\<exists>scheme rest. v = scheme @ CHR '':'' # rest \<and> CHR '':'' \<notin> set scheme \<and> scheme \<noteq> []
        \<and> ascii_alphabetic (hd (chars scheme))
        \<and> (\<forall>c\<in>set (tl (chars scheme)). ascii_alphanumeric c \<or> c \<in> set (bytes ''+-.'')))"

definition markdown_link_form :: "string \<Rightarrow> bool" where
  "markdown_link_form v \<longleftrightarrow>
     (\<exists>u target rest. v = u @ '']('' @ target @ '')'' @ rest \<and> target \<noteq> [] \<and> CHR '')'' \<notin> set target)"

definition url_excluded :: "string \<Rightarrow> string \<Rightarrow> bool" where
  "url_excluded key v \<longleftrightarrow>
     (\<exists>u. to_ascii_lowercase key = u @ ''url'')
     \<or> (\<exists>rest. trim v = CHR ''/'' # rest) \<or> absolute_scheme_form (trim v) \<or> markdown_link_form (trim v)"

lemma ends_with_iff: "ends_with s suffix \<longleftrightarrow> (\<exists>u. s = u @ suffix)"
  unfolding ends_with_def starts_with_iff by (metis rev_append rev_rev_ident)

lemma has_absolute_scheme_iff: "has_absolute_scheme v \<longleftrightarrow> absolute_scheme_form v"
proof (cases "split_once_char (CHR '':'') v")
  case None
  then have "CHR '':'' \<notin> set v" by (simp add: split_once_char_None)
  with None show ?thesis by (auto simp: has_absolute_scheme_def absolute_scheme_form_def)
next
  case (Some p)
  then obtain scheme rest where p: "split_once_char (CHR '':'') v = Some (scheme, rest)" by (cases p) auto
  then have v: "v = scheme @ CHR '':'' # rest" "CHR '':'' \<notin> set scheme"
    using split_once_char_Some by blast+
  have unique: "scheme' = scheme" if "v = scheme' @ CHR '':'' # rest'" "CHR '':'' \<notin> set scheme'" for scheme' rest'
  proof -
    from that have "split_once_char (CHR '':'') v = Some (scheme', rest')" by (simp only: split_once_char_Some simp_thms)
    with p show ?thesis by simp
  qed
  let ?G = "\<lambda>w. w \<noteq> [] \<and> ascii_alphabetic (hd (chars w))
    \<and> (\<forall>c\<in>set (tl (chars w)). ascii_alphanumeric c \<or> c \<in> set (bytes ''+-.''))"
  have "absolute_scheme_form v \<longleftrightarrow> ?G scheme"
    unfolding absolute_scheme_form_def using unique v by blast
  moreover have "has_absolute_scheme v \<longleftrightarrow> ?G scheme"
    using p chars_eq_Nil [of scheme] by (cases "chars scheme") (simp_all add: has_absolute_scheme_def list_all_iff)
  ultimately show ?thesis by simp
qed

lemma str_find_char: "str_find s [c] = (if c \<in> set s then Some (length (takeWhile (\<lambda>x. x \<noteq> c) s)) else None)"
  by (induction s) (auto simp: starts_with_iff)

lemma find_paren:
  "(case str_find s '')'' of None \<Rightarrow> False | Some e \<Rightarrow> 0 < e)
     \<longleftrightarrow> (\<exists>target rest. s = target @ '')'' @ rest \<and> target \<noteq> [] \<and> CHR '')'' \<notin> set target)"
proof
  assume l: "case str_find s '')'' of None \<Rightarrow> False | Some e \<Rightarrow> 0 < e"
  then have "CHR '')'' \<in> set s" "takeWhile (\<lambda>x. x \<noteq> CHR '')'') s \<noteq> []"
    by (auto simp: str_find_char split: if_splits)
  moreover obtain target rest where "s = target @ CHR '')'' # rest" "CHR '')'' \<notin> set target"
    using calculation(1) split_list_first by metis
  ultimately show "\<exists>target rest. s = target @ '')'' @ rest \<and> target \<noteq> [] \<and> CHR '')'' \<notin> set target"
    by (intro exI [of _ target] exI [of _ rest]) (auto simp: takeWhile_append)
next
  assume "\<exists>target rest. s = target @ '')'' @ rest \<and> target \<noteq> [] \<and> CHR '')'' \<notin> set target"
  then obtain target rest where "s = target @ CHR '')'' # rest" "target \<noteq> []" "CHR '')'' \<notin> set target" by auto
  then show "case str_find s '')'' of None \<Rightarrow> False | Some e \<Rightarrow> 0 < e"
    by (cases target) (auto simp: str_find_char)
qed

lemma has_markdown_link_iff: "has_markdown_link v \<longleftrightarrow> markdown_link_form v"
proof (induction v)
  case (Cons c cs)
  let ?here = "\<exists>target rest. c # cs = ''](''  @ target @ '')'' @ rest \<and> target \<noteq> [] \<and> CHR '')'' \<notin> set target"
  have "(starts_with (c # cs) '']('' \<and> (case str_find (drop 2 (c # cs)) '')'' of None \<Rightarrow> False | Some e \<Rightarrow> 0 < e))
      \<longleftrightarrow> ?here"
    unfolding find_paren by (auto simp: starts_with_iff; blast)
  moreover have "markdown_link_form (c # cs) \<longleftrightarrow> ?here \<or> markdown_link_form cs"
  proof
    assume "markdown_link_form (c # cs)"
    then obtain u target rest where u: "c # cs = u @ ''](''  @ target @ '')'' @ rest" "target \<noteq> []"
      "CHR '')'' \<notin> set target" by (auto simp: markdown_link_form_def)
    show "?here \<or> markdown_link_form cs"
    proof (cases u)
      case (Cons d u')
      with u have "cs = u' @ ''](''  @ target @ '')'' @ rest" by simp
      with u show ?thesis unfolding markdown_link_form_def by blast
    qed (use u in auto)
  next
    assume "?here \<or> markdown_link_form cs"
    then show "markdown_link_form (c # cs)"
      unfolding markdown_link_form_def by (metis append_Cons append_Nil)
  qed
  ultimately show ?case using Cons by simp
qed (simp add: markdown_link_form_def)

lemma excluded_iff: "url_designated_key key \<or> url_like_value v \<longleftrightarrow> url_excluded key v"
  by (auto simp: url_designated_key_def url_like_value_def url_excluded_def Let_def ends_with_iff starts_with_iff
      has_absolute_scheme_iff has_markdown_link_iff)

definition safe_entry :: "string \<times> json \<Rightarrow> bool" where
  "safe_entry kv \<longleftrightarrow> (\<exists>s. snd kv = JStr s \<and> length s \<le> 4096) \<and> fst kv \<noteq> [] \<and> length (fst kv) \<le> 128"

definition entry_text :: "string \<times> json \<Rightarrow> string" where
  "entry_text kv = (case snd kv of JStr s \<Rightarrow> s | _ \<Rightarrow> [])"

lemma safe_entries_iff:
  "safe_entries m = Inr out \<longleftrightarrow>
     list_all safe_entry m \<and> out = filter (\<lambda>kv. \<not> url_excluded (fst kv) (entry_text kv)) m"
proof (induction m arbitrary: out)
  case (Cons kv m)
  obtain key v where kv: "kv = (key, v)" by (cases kv)
  show ?case
  proof (cases v)
    case (JStr s)
    then show ?thesis
      using Cons.IH excluded_iff [of key s]
      by (auto simp: kv need_def safe_entry_def entry_text_def not_less)
  qed (auto simp: kv need_def safe_entry_def)
qed auto

text \<open>
  C30: The maps of labels and annotations follow the documented exclusion policy exactly.  A map is
  accepted if it has at most 64 entries, all of them strings of at most 4,096 bytes under non-empty keys
  of at most 128 bytes; the result then consists of its entries, in order, but for those whose key ends in
  \<open>url\<close> in any case or whose trimmed value starts with a slash, starts with an absolute scheme, or
  contains a Markdown link with a non-empty target.
\<close>

theorem url_exclusion_exact:
  "safe_string_map (JObj m) = Inr v \<longleftrightarrow>
     length m \<le> 64 \<and> list_all safe_entry m
     \<and> v = JObj (filter (\<lambda>kv. \<not> url_excluded (fst kv) (entry_text kv)) m)"
  by (auto simp: safe_string_map_def need_def safe_entries_iff not_less)

section \<open>Prometheus durations\<close>

definition duration_table :: "(string \<times> nat \<times> nat) list" where
  "duration_table = [(''ms'', 1000000, 0), (''s'', 1000000000, 1), (''m'', 60000000000, 2),
     (''h'', 3600000000000, 3), (''d'', 86400000000000, 4), (''w'', 604800000000000, 5),
     (''y'', 31536000000000000, 6)]"

text \<open>Amounts with units, each unit below the one before.\<close>

fun duration_parts :: "nat \<Rightarrow> (string \<times> string \<times> nat \<times> nat) list \<Rightarrow> bool" where
  "duration_parts previous [] \<longleftrightarrow> True"
| "duration_parts previous ((digits, u, nanos, rank) # parts) \<longleftrightarrow>
     digits \<noteq> [] \<and> all_digits digits \<and> (u, nanos, rank) \<in> set duration_table \<and> rank < previous
     \<and> duration_parts rank parts"

definition duration_text :: "(string \<times> string \<times> nat \<times> nat) list \<Rightarrow> string" where
  "duration_text parts = concat (map (\<lambda>(digits, u, _, _). digits @ u) parts)"

definition duration_sum :: "(string \<times> string \<times> nat \<times> nat) list \<Rightarrow> nat" where
  "duration_sum parts = sum_list (map (\<lambda>(digits, _, nanos, _). parse_digits digits * nanos) parts)"

lemma duration_unit_Some:
  assumes "duration_unit s = Some (nanos, rank, width)"
  shows "\<exists>u. (u, nanos, rank) \<in> set duration_table \<and> s = u @ drop width s"
  using assms
  by (cases s) (auto simp: duration_unit_def duration_table_def starts_with_iff split: if_splits)

lemma duration_unit_table:
  assumes "(u, nanos, rank) \<in> set duration_table" "rest = [] \<or> ascii_digit (of_char (hd rest))"
  shows "duration_unit (u @ rest) = Some (nanos, rank, length u)"
proof -
  have m: "\<not> starts_with (CHR ''m'' # rest) ''ms''"
    using assms(2) by (cases rest) (auto simp: starts_with_iff ascii_digit_def)
  from assms(1) consider "u = ''ms'' \<and> nanos = 1000000 \<and> rank = 0" | "u = ''m'' \<and> nanos = 60000000000 \<and> rank = 2"
    | c where "u = [c]" "c \<noteq> CHR ''m''" "([c], nanos, rank) \<in> set duration_table"
    by (auto simp: duration_table_def)
  then show ?thesis
  proof cases
    case (3 c)
    then have "\<not> starts_with (c # rest) ''ms''" by (auto simp: starts_with_iff)
    with 3 show ?thesis by (auto simp: duration_table_def duration_unit_def)
  qed (use m in \<open>simp_all add: duration_unit_def starts_with_iff\<close>)
qed

lemma duration_table_unit:
  "(u, nanos, rank) \<in> set duration_table \<Longrightarrow> u \<noteq> [] \<and> \<not> ascii_digit (of_char (hd u)) \<and> 1 \<le> nanos"
  by (auto simp: duration_table_def ascii_digit_def)

lemma duration_text_head:
  assumes "duration_parts previous parts"
  shows "duration_text parts = [] \<or> ascii_digit (of_char (hd (duration_text parts)))"
proof (cases parts)
  case (Cons p ps)
  obtain digits u nanos rank where "p = (digits, u, nanos, rank)" by (cases p)
  with Cons assms show ?thesis by (cases digits) (auto simp: duration_text_def all_digits_def)
qed (simp add: duration_text_def)

lemma span_digits_unit:
  assumes "all_digits digits" "(u, nanos, rank) \<in> set duration_table"
  shows "span_digits (digits @ u @ rest) = (digits, u @ rest)"
proof -
  obtain c cs where u: "u = c # cs" and c: "\<not> ascii_digit (of_char c)"
    using duration_table_unit [OF assms(2)] by (cases u) simp_all
  have all: "\<forall>d\<in>set digits. ascii_digit (of_char d)"
    using assms(1) by (simp add: all_digits_def list_all_iff)
  with u c show ?thesis by (simp add: span_digits_def takeWhile_append dropWhile_append)
qed

lemma duration_from_parts:
  "duration_parts previous parts \<Longrightarrow> 0 < acc + duration_sum parts \<Longrightarrow> acc + duration_sum parts < 2 ^ 64 \<Longrightarrow>
     duration_from (duration_text parts) acc previous = Some (acc + duration_sum parts)"
proof (induction parts arbitrary: acc previous)
  case Nil
  then show ?case by (subst duration_from.simps) (simp add: duration_text_def duration_sum_def)
next
  case (Cons p ps)
  obtain digits u nanos rank where p: "p = (digits, u, nanos, rank)" by (cases p)
  with Cons.prems(1) have d: "digits \<noteq> []" "all_digits digits" and u: "(u, nanos, rank) \<in> set duration_table"
    and r: "rank < previous" and ps: "duration_parts rank ps" by simp_all
  have sum: "duration_sum (p # ps) = parse_digits digits * nanos + duration_sum ps"
    by (simp add: p duration_sum_def)
  have "parse_digits digits * 1 \<le> parse_digits digits * nanos"
    using duration_table_unit [OF u] by (intro mult_le_mono2) simp
  then have small: "\<not> 2 ^ 64 \<le> parse_digits digits" "\<not> 2 ^ 64 \<le> parse_digits digits * nanos"
    "\<not> 2 ^ 64 \<le> acc + parse_digits digits * nanos"
    using Cons.prems(3) sum by linarith+
  have whole: "duration_text (p # ps) = digits @ u @ duration_text ps"
    by (simp add: p duration_text_def)
  have span: "span_digits (digits @ u @ duration_text ps) = (digits, u @ duration_text ps)"
    using span_digits_unit [OF d(2) u] .
  have unit: "duration_unit (u @ duration_text ps) = Some (nanos, rank, length u)"
    by (rule duration_unit_table [OF u duration_text_head [OF ps]])
  have "duration_from (duration_text ps) (acc + parse_digits digits * nanos) rank
      = Some (acc + parse_digits digits * nanos + duration_sum ps)"
    using Cons.prems(2,3) sum by (intro Cons.IH [OF ps]) simp_all
  with d r small sum show ?case
    unfolding whole by (subst duration_from.simps) (simp add: span unit Let_def)
qed

lemma duration_from_step:
  assumes "duration_from s acc previous = Some n" "s \<noteq> []" "span_digits s = (digits, rest)"
  shows "\<exists>nanos rank width. digits \<noteq> [] \<and> parse_digits digits < 2 ^ 64
    \<and> duration_unit rest = Some (nanos, rank, width) \<and> rank < previous
    \<and> acc + parse_digits digits * nanos < 2 ^ 64
    \<and> duration_from (drop width rest) (acc + parse_digits digits * nanos) rank = Some n"
proof -
  let ?a = "parse_digits digits"
  have "(if digits = [] \<or> 2 ^ 64 \<le> ?a then None
      else case duration_unit rest of None \<Rightarrow> None
      | Some (nanos, rank, width) \<Rightarrow>
          if previous \<le> rank \<or> 2 ^ 64 \<le> ?a * nanos \<or> 2 ^ 64 \<le> acc + ?a * nanos then None
          else duration_from (drop width rest) (acc + ?a * nanos) rank) = Some n"
    using assms by (subst (asm) duration_from.simps) (simp only: Let_def split_conv if_False)
  then obtain u where "duration_unit rest = Some u" and ne: "digits \<noteq> []" "\<not> 2 ^ 64 \<le> ?a"
    and body: "(case u of (nanos, rank, width) \<Rightarrow>
        if previous \<le> rank \<or> 2 ^ 64 \<le> ?a * nanos \<or> 2 ^ 64 \<le> acc + ?a * nanos then None
        else duration_from (drop width rest) (acc + ?a * nanos) rank) = Some n"
    by (cases "duration_unit rest") (simp_all split: if_splits)
  obtain nanos rank width where u: "u = (nanos, rank, width)" by (cases u)
  with body have "\<not> (previous \<le> rank \<or> 2 ^ 64 \<le> ?a * nanos \<or> 2 ^ 64 \<le> acc + ?a * nanos)"
    "duration_from (drop width rest) (acc + ?a * nanos) rank = Some n"
    by (simp_all split: if_splits)
  with \<open>duration_unit rest = Some u\<close> ne u show ?thesis
    by (intro exI [of _ nanos] exI [of _ rank] exI [of _ width]) (simp add: not_le)
qed

lemma duration_from_Some:
  "duration_from s acc previous = Some n \<Longrightarrow> acc < 2 ^ 64 \<Longrightarrow>
     \<exists>parts. duration_parts previous parts \<and> s = duration_text parts \<and> n = acc + duration_sum parts \<and> 0 < n \<and> n < 2 ^ 64"
proof (induction "length s" arbitrary: s acc previous rule: less_induct)
  case less
  show ?case
  proof (cases "s = []")
    case True
    with less.prems show ?thesis
      by (intro exI [of _ "[]"])
        (auto simp: duration_from.simps [of "[]"] duration_text_def duration_sum_def split: if_splits)
  next
    case False
    obtain digits rest where span: "span_digits s = (digits, rest)" by fastforce
    then have s: "s = digits @ rest" using span_digits_append [of s] by simp
    have d: "all_digits digits"
      using span by (auto simp: span_digits_def all_digits_def list_all_iff dest: set_takeWhileD)
    let ?a = "parse_digits digits"
    from duration_from_step [OF less.prems(1) False span] obtain nanos rank width
      where ne: "digits \<noteq> []" "?a < 2 ^ 64"
      and unit: "duration_unit rest = Some (nanos, rank, width)" and rank: "rank < previous"
      and small: "acc + ?a * nanos < 2 ^ 64"
      and next': "duration_from (drop width rest) (acc + ?a * nanos) rank = Some n" by blast
    from s ne have "length (drop width rest) < length s" by (cases digits) simp_all
    from less.hyps [OF this next' small] obtain parts where parts: "duration_parts rank parts"
      "drop width rest = duration_text parts" "n = acc + ?a * nanos + duration_sum parts" "0 < n" "n < 2 ^ 64"
      by (elim exE conjE) (rule that)
    from duration_unit_Some [OF unit] obtain u where u: "(u, nanos, rank) \<in> set duration_table"
      "rest = u @ drop width rest" by blast
    have "s = duration_text ((digits, u, nanos, rank) # parts)"
      using s u(2) parts(2) by (simp add: duration_text_def)
    with parts ne d u rank show ?thesis
      by (intro exI [of _ "(digits, u, nanos, rank) # parts"]) (simp add: duration_sum_def)
  qed
qed

text \<open>
  C31: The step of a PromQL range query is read exactly: a text is accepted with a value if and only if it
  is a sequence of decimal amounts with units from years down to milliseconds, every unit smaller than the
  one before, and the value is their sum in nanoseconds, positive and below 2 to the 64; no checked
  multiplication or addition rejects a sum that fits.
\<close>

theorem promql_duration_exact:
  "prometheus_duration_nanos s = Some n \<longleftrightarrow>
     (\<exists>parts. duration_parts 255 parts \<and> s = duration_text parts \<and> n = duration_sum parts \<and> 0 < n \<and> n < 2 ^ 64)"
proof
  assume "prometheus_duration_nanos s = Some n"
  then show "\<exists>parts. duration_parts 255 parts \<and> s = duration_text parts \<and> n = duration_sum parts \<and> 0 < n \<and> n < 2 ^ 64"
    using duration_from_Some [of s 0 255 n] by (simp add: prometheus_duration_nanos_def)
next
  assume "\<exists>parts. duration_parts 255 parts \<and> s = duration_text parts \<and> n = duration_sum parts \<and> 0 < n \<and> n < 2 ^ 64"
  then show "prometheus_duration_nanos s = Some n"
    using duration_from_parts [of 255 _ 0] by (auto simp: prometheus_duration_nanos_def)
qed

section \<open>Rendering\<close>

lemma render_attempt_Inr:
  assumes "render_attempt E request s = (Inr img, s')"
  shows "\<exists>x u. gs_trace s' = gs_trace s @ [(request, x)] \<and> render_outcome (gn_sha256 E) x = Inr img
    \<and> gn_url E (ur_path request) (ur_parameters request) = Some u \<and> length u \<le> max_url_bytes"
proof -
  from assms obtain t1 t2 u x t3 where p: "gf_permit E s = (Inr (), t1)" "gf_render_permit E t1 = (Inr (), t2)"
    and u: "gn_url E (ur_path request) (ur_parameters request) = Some u" "length u \<le> max_url_bytes"
    and x: "gf_exchange E request t2 = (Inr x, t3)" "render_outcome (gn_sha256 E) x = Inr img" "s' = t3"
    by (auto simp: render_attempt_def io_simps gf_lift_def)
  from gf_permit_step [OF p(1)] gf_render_permit_step [OF p(2)] have "gs_trace t2 = gs_trace s" by auto
  with gf_exchange_step [OF x(1)] x u show ?thesis by auto
qed

lemma render_attempt_keeps_metrics:
  assumes "render_attempt E request s = (r, s')"
  shows "gs_metrics s' = gs_metrics s"
proof -
  have p: "gs_metrics t = gs_metrics s" if "gf_permit E s = (r, t)" for s r t
    using gf_permit_step [OF that] by auto
  have q: "gs_metrics t = gs_metrics s" if "gf_render_permit E s = (r, t)" for s r t
    using gf_render_permit_step [OF that] by auto
  have e: "gs_metrics t = gs_metrics s" if "gf_exchange E request s = (r, t)" for s r t
    using gf_exchange_step [OF that] by auto
  show ?thesis
    using assms p q e
    by (auto simp: render_attempt_def io_bind_def gf_lift_def io_lift_def io_guard_def guard_or_def
        split: prod.splits sum.splits if_splits)
qed

lemma read_png_Inr:
  assumes "read_png sha response content_type = Inr img"
  shows "valid_png_mime content_type \<and> ri_bytes img = chunk_bytes (hs_chunks response)
    \<and> starts_with (ri_bytes img) png_signature \<and> ri_decoded_bytes img = length (ri_bytes img)
    \<and> ri_sha256 img = sha (ri_bytes img) \<and> length (ri_bytes img) \<le> gf_max_response_bytes"
proof -
  from assms obtain b where "read_chunks gf_max_response_bytes GE_RenderInvalidResponse GE_RenderInvalidResponse []
      (hs_chunks response) = Inr b" "starts_with b png_signature" "valid_png_mime content_type"
    "img = \<lparr>ri_bytes = b, ri_decoded_bytes = length b, ri_sha256 = sha b\<rparr>"
    by (auto simp: read_png_def split: if_splits)
  with read_chunks_Inr [OF _ this(1)] show ?thesis by auto
qed

lemma validate_controls_Inr:
  assumes "validate_controls cal c w h = Inr options"
  shows "320 \<le> unat (ro_width options) \<and> unat (ro_width options) \<le> 2000
    \<and> 200 \<le> unat (ro_height options) \<and> unat (ro_height options) \<le> 2000
    \<and> unat (ro_scale options) \<in> {1, 2}
    \<and> unat (ro_width options) * unat (ro_height options) * unat (ro_scale options) ^ 2 \<le> 4000000
    \<and> length (ro_variables options) \<le> 20
    \<and> (\<forall>(name, v)\<in>set (ro_variables options). valid_variable_name name \<and> length v \<le> 1024 \<and> \<not> has_control v)
    \<and> cal_zone cal (case rn_timezone c of None \<Rightarrow> ''UTC'' | Some z \<Rightarrow> z) = Some (ro_timezone options)"
proof -
  let ?w = "case rn_width c of None \<Rightarrow> w | Some w \<Rightarrow> w" and ?h = "case rn_height c of None \<Rightarrow> h | Some h \<Rightarrow> h"
  let ?s = "case rn_scale c of None \<Rightarrow> 1 | Some s \<Rightarrow> s" and ?vs = "case rn_variables c of None \<Rightarrow> [] | Some vs \<Rightarrow> vs"
  from assms have size: "\<not> (?w < 320 \<or> 2000 < ?w \<or> ?h < 200 \<or> 2000 < ?h \<or> ?s < 1 \<or> 2 < ?s
      \<or> max_effective_pixels < unat ?w * unat ?h * unat ?s ^ 2)"
    and vars: "\<not> (20 < length ?vs \<or> list_ex (\<lambda>(name, v). \<not> valid_variable_name name \<or> 1024 < length v \<or> has_control v) ?vs)"
    and options: "ro_width options = ?w" "ro_height options = ?h" "ro_scale options = ?s" "ro_variables options = ?vs"
    and zone: "cal_zone cal (case rn_timezone c of None \<Rightarrow> ''UTC'' | Some z \<Rightarrow> z) = Some (ro_timezone options)"
    by (auto simp: validate_controls_def Let_def split: if_splits prod.splits)
  from vars have "length ?vs \<le> 20" "\<forall>(name, v)\<in>set ?vs. valid_variable_name name \<and> length v \<le> 1024 \<and> \<not> has_control v"
    unfolding list_ex_iff not_less [symmetric] by blast+
  moreover have "unat ?s \<in> {1, 2}" using size by (auto simp: word_less_nat_alt)
  ultimately show ?thesis
    using size zone unfolding options by (simp add: word_less_nat_alt not_less max_effective_pixels_def)
qed

text \<open>
  C32: A dashboard render that succeeds comes from one GET of \<open>/render/d/\<close> and the validated identifier,
  answered with status 200 and the media type of PNG images; the image is the whole body of that answer, at
  most 4 MiB, begins with the PNG signature, and is reported with its length and digest.  The size that was
  requested is within the documented bounds: 320 to 2000 by 200 to 2000 pixels at scale 1 or 2 and at most
  four million effective pixels, with at most twenty variables.
\<close>

theorem rendered_dashboard_is_bounded_png:
  assumes "validate_render_dashboard cal uid controls = Inr q" "gf_render_dashboard E c q s = (Inr img, s')"
  shows "\<exists>options response content_type. q = (uid, options)
    \<and> gs_trace s' = gs_trace s @ [(gf_get c (''/render/d/'' @ uid) (render_parameters None options),
          GX_Response response content_type)]
    \<and> hs_status response = 200 \<and> valid_png_mime content_type
    \<and> ri_bytes img = chunk_bytes (hs_chunks response) \<and> starts_with (ri_bytes img) png_signature
    \<and> ri_decoded_bytes img = length (ri_bytes img) \<and> length (ri_bytes img) \<le> 4 * 1024 * 1024
    \<and> ri_sha256 img = gn_sha256 E (ri_bytes img)
    \<and> 320 \<le> unat (ro_width options) \<and> unat (ro_width options) \<le> 2000
    \<and> 200 \<le> unat (ro_height options) \<and> unat (ro_height options) \<le> 2000
    \<and> unat (ro_scale options) \<in> {1, 2}
    \<and> unat (ro_width options) * unat (ro_height options) * unat (ro_scale options) ^ 2 \<le> 4000000
    \<and> length (ro_variables options) \<le> 20"
proof -
  from assms(1) obtain options where q: "q = (uid, options)"
    and v: "validate_controls cal controls 1600 1200 = Inr options"
    by (auto simp: validate_render_dashboard_def split: if_splits)
  let ?request = "gf_get c (''/render/d/'' @ uid) (render_parameters None options)"
  from assms(2) q have "gf_observed ''dashboard'' ''render'' ''grafana_rendering'' (render_attempt E ?request) s
      = (Inr img, s')"
    by (simp add: gf_render_dashboard_def gf_render_def)
  from gf_observed_eq [OF _ this] render_attempt_keeps_metrics [of E ?request] obtain m t
    where t: "render_attempt E ?request (s\<lparr>gs_metrics := m\<rparr>) = (Inr img, t)" and s': "gs_trace s' = gs_trace t"
    by fastforce
  from render_attempt_Inr [OF t] obtain x where x: "gs_trace t = gs_trace s @ [(?request, x)]"
    "render_outcome (gn_sha256 E) x = Inr img" by auto
  then obtain response content_type where r: "x = GX_Response response content_type" "hs_status response = 200"
    "read_png (gn_sha256 E) response content_type = Inr img"
    by (cases x) (auto split: if_splits)
  show ?thesis
    using read_png_Inr [OF r(3)] validate_controls_Inr [OF v] q s' x(1) r(1,2)
    by (intro exI [of _ options] exI [of _ response] exI [of _ content_type]) (auto simp: gf_max_response_bytes_def)
qed

section \<open>A sample\<close>

text \<open>An answering Grafana: every permit is free, every answer is the given response.\<close>

definition sample_calendar :: calendar where
  "sample_calendar = \<lparr>cal_rfc3339 = (\<lambda>_. None), cal_since = (\<lambda>_ _. 0), cal_add = (\<lambda>t d. Some t),
     cal_at = (\<lambda>s n. Some \<lparr>dt_secs = s, dt_nanos = n\<rparr>), cal_format = (\<lambda>_. ''1970-01-01T00:00:00.000000000Z''),
     cal_zone = (\<lambda>z. Some z)\<rparr>"

definition sample_grafana :: "json \<Rightarrow> u16 \<Rightarrow> string \<Rightarrow> unit grafana_env" where
  "sample_grafana body status bytes' =
     \<lparr>gn_calendar = sample_calendar, gn_now = (\<lambda>w. (\<lparr>dt_secs = 0, dt_nanos = 0\<rparr>, w)),
      gn_json = (\<lambda>_. Some body), gn_print = (\<lambda>_. ''{}''), gn_sha256 = (\<lambda>_. ''00''),
      gn_url = (\<lambda>path parameters. Some ''https://grafana/''), gn_permit = Pair True, gn_render_permit = Pair True,
      gn_exchange = (\<lambda>request w. (GX_Response \<lparr>hs_status = status, hs_length = None, hs_chunks = [Inr bytes']\<rparr>
         (Some ''image/png''), w))\<rparr>"

definition sample_client :: grafana_client where
  "sample_client = \<lparr>gcl_origin = \<lparr>url_scheme = ''https'', url_host = Some ''grafana'', url_username = [],
     url_password = None, url_query = None, url_fragment = None, url_path = ''/''\<rparr>, gcl_token = ''t''\<rparr>"

definition sample_grafana_sys :: "unit grafana_sys" where
  "sample_grafana_sys = \<lparr>gs_trace = [], gs_metrics = \<lparr>gm_requests = [], gm_in_flight = (\<lambda>_. 0)\<rparr>, gs_world = ()\<rparr>"

lemma sample_grafana_simps [simp]:
  "gn_calendar (sample_grafana v st b) = sample_calendar" "gn_permit (sample_grafana v st b) = Pair True"
  "gn_render_permit (sample_grafana v st b) = Pair True" "gn_url (sample_grafana v st b) path ps = Some ''https://grafana/''"
  "gn_json (sample_grafana v st b) t = Some v" "gn_sha256 (sample_grafana v st b) t = ''00''"
  "gn_now (sample_grafana v st b) w = (\<lparr>dt_secs = 0, dt_nanos = 0\<rparr>, w)"
  "gn_exchange (sample_grafana v st b) request w =
     (GX_Response \<lparr>hs_status = st, hs_length = None, hs_chunks = [Inr b]\<rparr> (Some ''image/png''), w)"
  "gs_trace sample_grafana_sys = []"
  by (simp_all add: sample_grafana_def sample_grafana_sys_def)

lemma sample_run:
  assumes "gf_status_error kind st = None" "norm_body v = Inr out" "length b \<le> 8"
  shows "\<exists>s'. gf_run (sample_grafana v st b) request action mode datasource kind norm_body s = (Inr out, s')
    \<and> gs_trace s' = gs_trace s @ [(request, GX_Response \<lparr>hs_status = st, hs_length = None, hs_chunks = [Inr b]\<rparr>
          (Some ''image/png''))]"
  using assms
  by (simp add: gf_run_def gf_observed_def metrics_guard_new_def gf_attempt_def io_bind_def gf_permit_def gf_lift_def
      io_lift_def io_guard_def guard_or_def max_url_bytes_def gf_exchange_def gf_read_json_def announced_too_long_def
      gf_max_response_bytes_def need_def Let_def split: prod.splits)

lemma sample_rules:
  "\<exists>s'. gf_alert_rules (sample_grafana (JArr []) 200 ''[]'') sample_client 5 sample_grafana_sys
     = (Inr (gr_list ''alert_rules'' []), s')"
proof -
  have "gf_status_error GK_Read 200 = None"
    by (simp add: gf_status_error_def status_client_error_def status_success_def)
  moreover have "normalize_alert_rules 5 (JArr []) = Inr (gr_list ''alert_rules'' [])"
    by (simp add: normalize_alert_rules_def select_rules_def need_def)
  moreover have "length ''[]'' \<le> 8" by simp
  ultimately show ?thesis unfolding gf_alert_rules_def using sample_run by blast
qed

lemma grafana_queries_read_once_witness:
  "\<exists>s'. gf_alert_rules (sample_grafana (JArr []) 200 ''[]'') sample_client 5 sample_grafana_sys
     = (Inr (gr_list ''alert_rules'' []), s') \<and> length (gs_trace s') \<le> 1"
proof -
  let ?E = "sample_grafana (JArr []) 200 ''[]''"
  from sample_rules obtain s' where s': "gf_alert_rules ?E sample_client 5 sample_grafana_sys
      = (Inr (gr_list ''alert_rules'' []), s')" by blast
  have "is_query ?E sample_client (gf_alert_rules ?E sample_client 5)" unfolding is_query_def by blast
  from grafana_queries_read_once [OF this s'] have "length (gs_trace s') \<le> 1" by auto
  with s' show ?thesis by blast
qed

lemma grafana_listings_within_limit_witness:
  "\<exists>v s'. gf_alert_rules (sample_grafana (JArr []) 200 ''[]'') sample_client 5 sample_grafana_sys = (Inr v, s')
     \<and> length (result_items v) \<le> 5"
proof -
  from sample_rules obtain s' where s': "gf_alert_rules (sample_grafana (JArr []) 200 ''[]'') sample_client 5
      sample_grafana_sys = (Inr (gr_list ''alert_rules'' []), s')" by blast
  from grafana_listings_within_limit [OF disjI1, OF s'] s' show ?thesis by fastforce
qed

definition sample_silence :: create_silence_command where
  "sample_silence = \<lparr>cs_matchers = [], cs_duration = 0, cs_comment = ''c''\<rparr>"


definition sample_entry :: "string \<Rightarrow> json" where
  "sample_entry line = JArr [JStr ''1'', JStr line]"

definition sample_stream :: json where
  "sample_stream = JObj [(''stream'', JObj []), (''values'', JArr [sample_entry ''a'', sample_entry ''b''])]"

definition sample_line :: "string \<Rightarrow> json" where
  "sample_line line = JObj [(''timestamp'', JStr ''1970-01-01T00:00:00.000000000Z''), (''line'', JStr line)]"

lemma sample_entry_normal: "normalize_stream_entry sample_calendar (sample_entry line) = Inr (sample_line line)"
proof -
  have "parse_i64 ''1'' = Some 1"
    by (simp add: parse_i64_def drop_sign_def all_digits_def parse_digits_def digit_val_def ascii_digit_def)
  then show ?thesis
    by (simp add: normalize_stream_entry_def sample_entry_def string_pair_def need_def nanos_timestamp_def
        sample_calendar_def sample_line_def)
qed

lemma streams_keep_first_entries_witness:
  "\<exists>v out. normalize_streams sample_calendar 1 (JArr [sample_stream, sample_stream]) = Inr v \<and> v = JArr out
     \<and> concat (map stream_values out) = [sample_line ''a'']"
proof -
  have run: "normalize_streams sample_calendar 1 (JArr [sample_stream, sample_stream])
      = Inr (JArr [JObj [(''stream'', JObj []), (''values'', JArr [sample_line ''a''])]])"
    by (simp add: normalize_streams_def need_def sample_stream_def string_map_def gr_array_def opt_array_def
        sample_entry_normal)
  from streams_keep_first_entries [OF run] obtain out ess where
    out: "JArr [JObj [(''stream'', JObj []), (''values'', JArr [sample_line ''a''])]] = JArr out"
    and ess: "list_all2 (normalised_entries sample_calendar) [sample_stream, sample_stream] ess"
    "concat (map stream_values out) = take 1 (concat ess)" by blast
  have one: "es = [sample_line ''a'', sample_line ''b'']" if "normalised_entries sample_calendar sample_stream es" for es
    using that by (cases es; cases "tl es")
      (auto simp: normalised_entries_def sample_stream_def stream_values_def opt_array_def sample_entry_normal)
  from ess(1) obtain x y where "ess = [x, y]" "normalised_entries sample_calendar sample_stream x"
    "normalised_entries sample_calendar sample_stream y" by (auto simp: list_all2_Cons1)
  with one ess(2) have "concat (map stream_values out) = [sample_line ''a'']" by force
  with run out show ?thesis by blast
qed

definition sample_controls :: render_controls where
  "sample_controls = \<lparr>rn_from = None, rn_to = None, rn_width = None, rn_height = None, rn_scale = None,
     rn_theme = None, rn_timezone = None, rn_variables = None\<rparr>"

definition sample_options :: render_options where
  "sample_options = \<lparr>ro_from = ''now-6h'', ro_to = ''now'', ro_width = 1600, ro_height = 1200, ro_scale = 1,
     ro_theme = RT_Dark, ro_timezone = ''UTC'', ro_variables = []\<rparr>"

lemma rendered_dashboard_is_bounded_png_witness:
  "\<exists>img s'. validate_render_dashboard sample_calendar ''d'' sample_controls = Inr (''d'', sample_options)
     \<and> gf_render_dashboard (sample_grafana JNull 200 png_signature) sample_client (''d'', sample_options)
         sample_grafana_sys = (Inr img, s')
     \<and> ri_bytes img = png_signature \<and> ri_decoded_bytes img = length (ri_bytes img)"
proof -
  let ?E = "sample_grafana JNull 200 png_signature"
  have uid: "valid_dashboard_uid ''d''"
    by (simp add: valid_dashboard_uid_def first_then_def ascii_defs)
  have v: "validate_render_dashboard sample_calendar ''d'' sample_controls = Inr (''d'', sample_options)"
    by (simp add: validate_render_dashboard_def uid validate_controls_def validate_render_range_def sample_controls_def
        sample_calendar_def Let_def sample_options_def max_effective_pixels_def)
  have mime: "valid_png_mime (Some ''image/png'')"
  proof -
    have "trim ''image/png'' = ''image/png''"
      by (simp add: trim_def trim_start_def trim_end_def chunks_ascii chunk_is_whitespace_def code_point_def is_whitespace_def)
    moreover have "split_char (CHR '';'') ''image/png'' = [''image/png'']" by simp
    moreover have "to_ascii_lowercase ''image/png'' = ''image/png''" by code_simp
    ultimately show ?thesis by (simp add: valid_png_mime_def)
  qed
  have "length png_signature \<le> gf_max_response_bytes" by (simp add: png_signature_def gf_max_response_bytes_def)
  then have "read_png (gn_sha256 ?E) \<lparr>hs_status = 200, hs_length = None, hs_chunks = [Inr png_signature]\<rparr>
      (Some ''image/png'') = Inr \<lparr>ri_bytes = png_signature, ri_decoded_bytes = length png_signature, ri_sha256 = ''00''\<rparr>"
    by (simp add: read_png_def mime announced_too_long_def starts_with_iff)
  then obtain img s' where run: "gf_render_dashboard ?E sample_client (''d'', sample_options) sample_grafana_sys
      = (Inr img, s')" "ri_bytes img = png_signature"
    by (simp add: gf_render_dashboard_def gf_render_def gf_observed_def metrics_guard_new_def render_attempt_def
        io_bind_def gf_permit_def gf_render_permit_def gf_lift_def io_lift_def io_guard_def guard_or_def
        max_url_bytes_def gf_exchange_def Let_def split: prod.splits)
  from rendered_dashboard_is_bounded_png [OF v run(1)] have "ri_decoded_bytes img = length (ri_bytes img)" by blast
  with v run show ?thesis by blast
qed

end
