(* ===== verification/Mcp_Base.thy ===== *)
theory Mcp_Base
  imports Kube_Catalog Ceph_Catalog Inventory Tekton_Client Deploy_Runner Grafana_Client
begin

text \<open>
  What the handlers of the MCP server (\<open>src/mcp.rs\<close>) are written over: the state of the server, which
  holds the state of every integration; the environment of a request, which holds the clients, their
  environments and the third-party functions; the context of a request; and the results and errors the
  handlers build.

  The context says how a cancellation by the MCP client falls.  \<open>CN_First\<close> is a cancellation that
  \<open>tokio::select!\<close> finds before it polls the operation, so that the operation never runs.  With \<open>CN_During\<close> the
  operation runs as far as its environment lets it (an exchange of that environment may be its drop), and
  then \<open>select!\<close> sees the cancellation; the state is what the operation has left.  The environments of
  the Kubernetes and deploy runners receive the cancellation themselves.  The progress heartbeat of a
  request and its trace span are not modelled.

  \<open>McpToolResult\<close> is the JSON value it wraps.  \<open>ml_unfiltered\<close> is \<open>mcp::progressive::tool_result\<close>
  without a filter, which the source expects not to fail, and \<open>ml_project\<close> is the same with a filter.
\<close>

section \<open>Requests\<close>

datatype server_error =
    SE_Internal string
  | SE_InvalidParams string
  | SE_NotFound string
  | SE_Refused string
  | SE_Panicked

definition request_cancelled :: server_error where
  "request_cancelled = SE_Internal ''request cancelled''"

datatype cancellation = CN_Never | CN_First | CN_During

record server_context =
  sx_cancellation :: cancellation

text \<open>The state of the Kubernetes integration: its counter, the processes it has asked for, the world.\<close>

type_synonym 'w kubectl_sys = "(string list \<times> kube_operation) list \<times> 'w"

record 'w mcp_sys =
  sv_grafana :: "'w grafana_sys"
  sv_tekton :: "'w tekton_sys"
  sv_ceph :: "string \<Rightarrow> 'w ceph_sys"
  sv_kube :: "u64 \<times> 'w kubectl_sys"
  sv_machines :: machine_table
  sv_deploy :: "'w deploy_sys"

section \<open>The environment\<close>

record 'w mcp_services =
  ms_grafana_env :: "'w grafana_env"
  ms_grafana :: grafana_client
  ms_tekton_env :: "'w tekton_env"
  ms_tekton :: tekton_client
  ms_kubectl :: "kubernetes_client \<Rightarrow> 'w kubectl_run"
  ms_kube_encode :: "string \<Rightarrow> string"
  ms_now :: string
  ms_seconds :: u64
  ms_kubernetes :: kubernetes_catalog
  ms_dashboard :: "string \<Rightarrow> 'w dashboard"
  ms_ceph :: ceph_catalog
  ms_deploy_env :: "'w deploy_env"
  ms_signer :: "'w signer"
  ms_render_inventory :: "json \<Rightarrow> string option"
  ms_runner :: deploy_runner
  ms_deploy_permits :: nat
  ms_worker_delivers :: bool
  ms_database_fails :: bool
  ms_new_id :: uuid
  ms_database_now :: nat
  ms_collate :: "string \<Rightarrow> string"

record mcp_libs =
  ml_json :: "string \<Rightarrow> json option"
  ml_print :: "json \<Rightarrow> string"
  ml_base64_decode :: "string \<Rightarrow> string option"
  ml_base64 :: "string \<Rightarrow> string"
  ml_uuid :: "string \<Rightarrow> uuid option"
  ml_uuid_text :: "uuid \<Rightarrow> string"
  ml_rfc3339 :: "nat \<Rightarrow> string"
  ml_query_result :: "query_result \<Rightarrow> json"
  ml_exec_result :: "exec_result \<Rightarrow> json"
  ml_system_info :: "system_info \<Rightarrow> json"
  ml_metadata :: "deploy_metadata \<Rightarrow> json"
  ml_unfiltered :: "json \<Rightarrow> json"
  ml_project :: "string \<Rightarrow> json \<Rightarrow> server_error + json"

record 'w mcp_env =
  me_services :: "'w mcp_services"
  me_libs :: mcp_libs

type_synonym 'w mcp_handler = "('w mcp_sys, server_error, json) io"

section \<open>The part of the state an operation works on\<close>

definition on_grafana :: "('w, 'a) grafana_io \<Rightarrow> ('w mcp_sys, grafana_error option, 'a) io" where
  "on_grafana m = (\<lambda>s.
     let (r, t) = m (sv_grafana s) in
     (map_err (\<lambda>e. case e of GS_Dropped \<Rightarrow> None | GS_Error e \<Rightarrow> Some e) r, s\<lparr>sv_grafana := t\<rparr>))"

definition on_tekton :: "('w, 'a) tekton_io \<Rightarrow> ('w mcp_sys, tekton_error option, 'a) io" where
  "on_tekton m = (\<lambda>s.
     let (r, t) = m (sv_tekton s) in
     (map_err (\<lambda>e. case e of TS_Dropped \<Rightarrow> None | TS_Error e \<Rightarrow> Some e) r, s\<lparr>sv_tekton := t\<rparr>))"

definition on_ceph :: "string \<Rightarrow> ('w ceph_sys, ceph_error, 'a) io \<Rightarrow> ('w mcp_sys, ceph_error option, 'a) io" where
  "on_ceph cluster m = (\<lambda>s.
     let (r, t) = m (sv_ceph s cluster) in (map_err Some r, s\<lparr>sv_ceph := (sv_ceph s)(cluster := t)\<rparr>))"

definition traced_kubectl :: "'w kubectl_run \<Rightarrow> 'w kubectl_sys kubectl_run" where
  "traced_kubectl run args op = (\<lambda>(tr, w). let (r, w') = run args op w in (r, (tr @ [(args, op)], w')))"

definition on_kube :: "('w kubectl_sys, kube_error, 'a) io \<Rightarrow> ('w mcp_sys, kube_error, 'a) io" where
  "on_kube m = (\<lambda>s. let (r, t) = m (snd (sv_kube s)) in (r, s\<lparr>sv_kube := (fst (sv_kube s), t)\<rparr>))"

definition on_kube_exec :: "(u64 \<times> 'w kubectl_sys, kube_error, 'a) io \<Rightarrow> ('w mcp_sys, kube_error, 'a) io" where
  "on_kube_exec m = (\<lambda>s. let (r, t) = m (sv_kube s) in (r, s\<lparr>sv_kube := t\<rparr>))"

definition on_deploy :: "('w, 'e, 'a) deploy_io \<Rightarrow> ('w mcp_sys, 'e, 'a) io" where
  "on_deploy m = (\<lambda>s. let (r, t) = m (sv_deploy s) in (r, s\<lparr>sv_deploy := t\<rparr>))"

text \<open>An operation of the machine repository: \<open>None\<close> is a panic of the handler.\<close>

datatype inventory_stop = IS_Panicked | IS_Error repository_error

definition on_machines ::
  "(machine_table \<Rightarrow> (repository_error + 'a) option \<times> machine_table)
     \<Rightarrow> ('w mcp_sys, inventory_stop option, 'a) io" where
  "on_machines f = (\<lambda>s.
     let (r, t) = f (sv_machines s) in
     (case r of None \<Rightarrow> Inl (Some IS_Panicked) | Some x \<Rightarrow> map_err (\<lambda>e. Some (IS_Error e)) x,
      s\<lparr>sv_machines := t\<rparr>))"

section \<open>Selecting between an operation and the cancellation\<close>

definition select_cancelled ::
  "server_context \<Rightarrow> ('s, 'e option, 'a) io \<Rightarrow> ('s, 'e option, 'a) io" where
  "select_cancelled ctx m =
     (case sx_cancellation ctx of
        CN_Never \<Rightarrow> m
      | CN_First \<Rightarrow> io_throw None
      | CN_During \<Rightarrow> (\<lambda>s. (Inl None, snd (m s))))"

text \<open>
  The answer to a request whose operation has been selected: \<open>stopped\<close> is what a cancellation gives,
  \<open>failed\<close> what an error gives.
\<close>

definition reply_with ::
  "server_error + json \<Rightarrow> ('e \<Rightarrow> server_error + json) \<Rightarrow> ('a \<Rightarrow> json) \<Rightarrow> ('s, 'e option, 'a) io
     \<Rightarrow> ('s, server_error, json) io" where
  "reply_with stopped failed done' m = (\<lambda>s.
     let (r, t) = m s in
     (case r of Inl None \<Rightarrow> stopped | Inl (Some e) \<Rightarrow> failed e | Inr a \<Rightarrow> Inr (done' a), t))"

text \<open>An input that does not validate is answered at once.\<close>

definition with_valid :: "'x + 'q \<Rightarrow> json \<Rightarrow> ('q \<Rightarrow> ('s, server_error, json) io) \<Rightarrow> ('s, server_error, json) io" where
  "with_valid validated invalid run = (case validated of Inl _ \<Rightarrow> io_return invalid | Inr q \<Rightarrow> run q)"

section \<open>Results and errors\<close>

definition json_result :: "'w mcp_env \<Rightarrow> json \<Rightarrow> json" where
  "json_result E v = ml_unfiltered (me_libs E) v"

definition grafana_tool_error :: "string \<Rightarrow> grafana_error \<Rightarrow> json" where
  "grafana_tool_error query_name e = into_mcp_result (grafana_into_tool_error e query_name)"

definition tekton_tool_error :: "string \<Rightarrow> tekton_error \<Rightarrow> json" where
  "tekton_tool_error subject e = into_mcp_result (tekton_into_tool_error e subject)"

definition kubernetes_tool_error :: "string \<Rightarrow> kube_error \<Rightarrow> json" where
  "kubernetes_tool_error subject e = into_mcp_result (kube_into_tool_error e subject)"

definition ceph_tool_error :: "string \<Rightarrow> ceph_error \<Rightarrow> json" where
  "ceph_tool_error subject e = into_mcp_result (ceph_into_tool_error e subject)"

definition invalid_machine_arguments :: json where
  "invalid_machine_arguments =
     into_mcp_result (tool_error_new ''invalid_arguments'' ''Invalid machine arguments.'' False)"

definition invalid_deploy_arguments :: json where
  "invalid_deploy_arguments =
     into_mcp_result (tool_error_new ''invalid_arguments'' ''Invalid deploy arguments.'' False)"

definition inventory_outcome_unknown :: json where
  "inventory_outcome_unknown =
     into_mcp_result (tool_error_new ''mutation_outcome_unknown'' ''Machine mutation outcome is unknown.'' True)"

fun inventory_tool_error :: "repository_error \<Rightarrow> json" where
  "inventory_tool_error (RE_Validation e) =
     into_mcp_result (tool_error_new ''invalid_arguments'' ''Invalid machine arguments.'' False)"
| "inventory_tool_error RE_NotFound =
     into_mcp_result (tool_error_new ''machine_not_found'' ''Machine not found.'' False)"
| "inventory_tool_error RE_Conflict =
     into_mcp_result (tool_error_new ''machine_conflict'' ''Machine conflicts with existing inventory.'' False)"
| "inventory_tool_error RE_Database =
     into_mcp_result (tool_error_new ''inventory_unavailable'' ''Machine inventory is unavailable.'' True)"

fun inventory_failed :: "inventory_stop \<Rightarrow> server_error + json" where
  "inventory_failed IS_Panicked = Inl SE_Panicked"
| "inventory_failed (IS_Error e) = Inr (inventory_tool_error e)"

definition deploy_retryable :: "deploy_error \<Rightarrow> bool" where
  "deploy_retryable e \<longleftrightarrow>
     e \<in> {DE_Busy, DE_CredentialUnavailable, DE_ExecutionOutcomeUnknown, DE_TimeoutOutcomeUnknown,
          DE_CancelledOutcomeUnknown, DE_OutputTooLargeOutcomeUnknown}"

fun deploy_error_message :: "deploy_error \<Rightarrow> string" where
  "deploy_error_message DE_DeployNotFound = ''Deploy not found.''"
| "deploy_error_message DE_DeployUnavailable = ''Deploy is not available through MCP.''"
| "deploy_error_message DE_MissingHostPin = ''Machine has no trusted host key pin.''"
| "deploy_error_message DE_Busy = ''Another deploy is already active.''"
| "deploy_error_message DE_Cancelled = ''Deploy was cancelled before execution.''"
| "deploy_error_message DE_ExecutionOutcomeUnknown = ''Deploy execution outcome is unknown.''"
| "deploy_error_message DE_CancelledOutcomeUnknown = ''Deploy execution outcome is unknown.''"
| "deploy_error_message DE_TimeoutOutcomeUnknown = ''Deploy timed out and its outcome is unknown.''"
| "deploy_error_message DE_OutputTooLargeOutcomeUnknown =
     ''Deploy output exceeded its bound and the outcome is unknown.''"
| "deploy_error_message DE_CredentialUnavailable = ''Deploy credential service is unavailable.''"
| "deploy_error_message DE_CredentialInvalid = ''Deploy credential response was invalid.''"
| "deploy_error_message DE_InvalidOutput = ''Deploy returned invalid structured output.''"
| "deploy_error_message DE_ExecutionRejected = ''Deploy execution failed.''"
| "deploy_error_message DE_InvalidConfiguration = ''Deploy service is unavailable.''"
| "deploy_error_message DE_InvalidCatalog = ''Deploy service is unavailable.''"

definition deploy_tool_error :: "deploy_error \<Rightarrow> json" where
  "deploy_tool_error e =
     into_mcp_result (tool_error_new (deploy_error_code e) (deploy_error_message e) (deploy_retryable e))"

definition machine_json :: "'w mcp_env \<Rightarrow> machine \<Rightarrow> json" where
  "machine_json E m =
     JObj [(''id'', JStr (ml_uuid_text (me_libs E) (mc_id m))),
       (''display_name'', JStr (mc_display_name m)),
       (''ssh_host'', JStr (mc_ssh_host m)),
       (''ssh_port'', json_nat (unat (mc_ssh_port m))),
       (''ssh_username'', JStr (mc_ssh_username m)),
       (''host_key_pinned'', JBool (mc_host_key m \<noteq> None)),
       (''pinned_host_public_key'', json_option JStr (mc_host_key m)),
       (''created_at'', JStr (ml_rfc3339 (me_libs E) (mc_created_at m))),
       (''updated_at'', JStr (ml_rfc3339 (me_libs E) (mc_updated_at m)))]"

definition text_content :: "string \<Rightarrow> json" where
  "text_content text = JObj [(''type'', JStr ''text''), (''text'', JStr text)]"

definition silence_result :: "json \<Rightarrow> json" where
  "silence_result output =
     (let silence_id = (case opt_str (json_get output ''silence_id'') of None \<Rightarrow> ''unknown'' | Some i \<Rightarrow> i) in
      JObj [(''content'', JArr [text_content (''Created Grafana silence '' @ silence_id @ ''.'')]),
        (''structuredContent'', output)])"

definition render_structured ::
  "string \<Rightarrow> string \<Rightarrow> string option \<Rightarrow> render_options \<Rightarrow> rendered_image \<Rightarrow> (string \<times> json) list" where
  "render_structured render_type uid panel options img =
     [(''render_type'', JStr render_type), (''uid'', JStr uid), (''from'', JStr (ro_from options)),
      (''to'', JStr (ro_to options)), (''width'', json_nat (unat (ro_width options))),
      (''height'', json_nat (unat (ro_height options))), (''scale'', json_nat (unat (ro_scale options))),
      (''theme'', JStr (render_theme_str (ro_theme options))), (''timezone'', JStr (ro_timezone options)),
      (''bytes'', json_nat (ri_decoded_bytes img)), (''sha256'', JStr (ri_sha256 img))]
     @ (case panel of None \<Rightarrow> [] | Some p \<Rightarrow> [(''panel_id'', JStr p)])"

definition render_result ::
  "'w mcp_env \<Rightarrow> string \<Rightarrow> string \<Rightarrow> string option \<Rightarrow> render_options \<Rightarrow> rendered_image \<Rightarrow> json" where
  "render_result E render_type uid panel options img =
     JObj [(''content'', JArr
         [text_content (''Rendered Grafana '' @ render_type @ '' PNG ('' @ show_nat (ri_decoded_bytes img) @ '' bytes).''),
          JObj [(''type'', JStr ''image''), (''data'', JStr (ml_base64 (me_libs E) (ri_bytes img))),
            (''mimeType'', JStr ''image/png'')]]),
       (''structuredContent'', JObj (render_structured render_type uid panel options img))]"

end
