(* ===== verification/Mcp_Handlers.thy ===== *)
theory Mcp_Handlers
  imports Mcp_Base
begin

text \<open>
  The handlers of \<open>src/mcp.rs\<close>: one definition per method of \<open>HomelabMcp\<close>, over the validated input.  A
  query that is cancelled ends in the protocol error \<open>request cancelled\<close>; a mutation that is cancelled is
  answered with the tool error \<open>mutation_outcome_unknown\<close>.  The Kubernetes and deploy operations receive the
  cancellation themselves and say what became of it.
\<close>

section \<open>Grafana\<close>

definition grafana_query_handler ::
  "'w mcp_env \<Rightarrow> server_context \<Rightarrow> string \<Rightarrow> invalid_arguments + 'q \<Rightarrow> ('q \<Rightarrow> ('w, 'a) grafana_io)
     \<Rightarrow> ('q \<Rightarrow> 'a \<Rightarrow> json) \<Rightarrow> 'w mcp_handler" where
  "grafana_query_handler E ctx subject validated run result_of =
     with_valid validated (grafana_tool_error subject GE_InvalidArguments) (\<lambda>q.
       reply_with (Inl request_cancelled) (\<lambda>e. Inr (grafana_tool_error subject e)) (result_of q)
         (select_cancelled ctx (on_grafana (run q))))"

abbreviation grafana_operation ::
  "'w mcp_env \<Rightarrow> ('w grafana_env \<Rightarrow> grafana_client \<Rightarrow> 'q \<Rightarrow> ('w, 'a) grafana_io) \<Rightarrow> 'q \<Rightarrow> ('w, 'a) grafana_io" where
  "grafana_operation E run \<equiv> run (ms_grafana_env (me_services E)) (ms_grafana (me_services E))"

abbreviation mcp_calendar :: "'w mcp_env \<Rightarrow> calendar" where
  "mcp_calendar E \<equiv> gn_calendar (ms_grafana_env (me_services E))"

definition mcp_logql :: "'w mcp_env \<Rightarrow> server_context \<Rightarrow> logql_input \<Rightarrow> 'w mcp_handler" where
  "mcp_logql E ctx input =
     grafana_query_handler E ctx ''LogQL'' (validate_logql (mcp_calendar E) input)
       (grafana_operation E execute_logql) (\<lambda>_. json_result E)"

definition mcp_promql :: "'w mcp_env \<Rightarrow> server_context \<Rightarrow> promql_input \<Rightarrow> 'w mcp_handler" where
  "mcp_promql E ctx input =
     grafana_query_handler E ctx ''PromQL'' (validate_promql (mcp_calendar E) input)
       (grafana_operation E execute_promql) (\<lambda>_. json_result E)"

definition mcp_traceql :: "'w mcp_env \<Rightarrow> server_context \<Rightarrow> traceql_input \<Rightarrow> 'w mcp_handler" where
  "mcp_traceql E ctx input =
     grafana_query_handler E ctx ''TraceQL'' (validate_traceql (mcp_calendar E) input)
       (grafana_operation E execute_traceql) (\<lambda>_. json_result E)"

definition mcp_profiles :: "'w mcp_env \<Rightarrow> server_context \<Rightarrow> profiles_input \<Rightarrow> 'w mcp_handler" where
  "mcp_profiles E ctx input =
     grafana_query_handler E ctx ''profile'' (validate_profiles (mcp_calendar E) input)
       (grafana_operation E execute_profiles) (\<lambda>_. json_result E)"

definition mcp_alert_rules :: "'w mcp_env \<Rightarrow> server_context \<Rightarrow> u16 option \<Rightarrow> 'w mcp_handler" where
  "mcp_alert_rules E ctx input =
     grafana_query_handler E ctx ''alert rule'' (validate_alert_rules input)
       (grafana_operation E gf_alert_rules) (\<lambda>_. json_result E)"

definition mcp_recording_rules :: "'w mcp_env \<Rightarrow> server_context \<Rightarrow> u16 option \<Rightarrow> 'w mcp_handler" where
  "mcp_recording_rules E ctx input =
     grafana_query_handler E ctx ''recording rule'' (validate_recording_rules input)
       (grafana_operation E gf_recording_rules) (\<lambda>_. json_result E)"

definition mcp_alert_instances :: "'w mcp_env \<Rightarrow> server_context \<Rightarrow> label_matcher list \<times> u16 option \<Rightarrow> 'w mcp_handler" where
  "mcp_alert_instances E ctx input =
     grafana_query_handler E ctx ''alert instance'' (case_prod validate_alert_instances input)
       (grafana_operation E gf_alert_instances) (\<lambda>_. json_result E)"

definition mcp_list_silences :: "'w mcp_env \<Rightarrow> server_context \<Rightarrow> silence_state option \<times> u16 option \<Rightarrow> 'w mcp_handler" where
  "mcp_list_silences E ctx input =
     grafana_query_handler E ctx ''silence'' (case_prod validate_list_silences input)
       (grafana_operation E gf_list_silences) (\<lambda>_. json_result E)"

definition mcp_list_dashboards :: "'w mcp_env \<Rightarrow> server_context \<Rightarrow> list_dashboards_input \<Rightarrow> 'w mcp_handler" where
  "mcp_list_dashboards E ctx input =
     grafana_query_handler E ctx ''dashboard'' (validate_list_dashboards input)
       (grafana_operation E gf_list_dashboards) (\<lambda>_. json_result E)"

definition mcp_get_dashboard :: "'w mcp_env \<Rightarrow> server_context \<Rightarrow> string \<Rightarrow> 'w mcp_handler" where
  "mcp_get_dashboard E ctx input =
     grafana_query_handler E ctx ''dashboard'' (validate_get_dashboard input)
       (grafana_operation E gf_get_dashboard) (\<lambda>_. json_result E)"

definition mcp_render_dashboard ::
  "'w mcp_env \<Rightarrow> server_context \<Rightarrow> string \<times> render_controls \<Rightarrow> 'w mcp_handler" where
  "mcp_render_dashboard E ctx input =
     grafana_query_handler E ctx ''render'' (case_prod (validate_render_dashboard (mcp_calendar E)) input)
       (grafana_operation E gf_render_dashboard)
       (\<lambda>(uid, options) img. render_result E ''dashboard'' uid None options img)"

definition mcp_render_panel ::
  "'w mcp_env \<Rightarrow> server_context \<Rightarrow> string \<times> string \<times> render_controls \<Rightarrow> 'w mcp_handler" where
  "mcp_render_panel E ctx input =
     grafana_query_handler E ctx ''render''
       (case input of (uid, panel, controls) \<Rightarrow> validate_render_panel (mcp_calendar E) uid panel controls)
       (grafana_operation E gf_render_panel)
       (\<lambda>(uid, panel, options) img. render_result E ''panel'' uid (Some panel) options img)"

definition dispatch_create_silence ::
  "'w mcp_env \<Rightarrow> server_context \<Rightarrow> create_silence_command \<Rightarrow> 'w mcp_handler" where
  "dispatch_create_silence E ctx command =
     reply_with (Inr (grafana_tool_error ''silence'' GE_MutationOutcomeUnknown))
       (\<lambda>e. Inr (grafana_tool_error ''silence'' e)) silence_result
       (select_cancelled ctx (on_grafana (grafana_operation E gf_create_silence command)))"

definition mcp_create_silence :: "'w mcp_env \<Rightarrow> server_context \<Rightarrow> create_silence_input \<Rightarrow> 'w mcp_handler" where
  "mcp_create_silence E ctx input =
     with_valid (validate_create_silence input) (grafana_tool_error ''silence'' GE_InvalidArguments)
       (dispatch_create_silence E ctx)"

section \<open>Tekton\<close>

definition tekton_query_handler ::
  "'w mcp_env \<Rightarrow> server_context \<Rightarrow> string \<Rightarrow> unit + 'q
     \<Rightarrow> ('w tekton_env \<Rightarrow> tekton_client \<Rightarrow> 'q \<Rightarrow> ('w, json) tekton_io) \<Rightarrow> 'w mcp_handler" where
  "tekton_query_handler E ctx subject validated run =
     with_valid validated (tekton_tool_error subject TE_InvalidArguments) (\<lambda>q.
       reply_with (Inl request_cancelled) (\<lambda>e. Inr (tekton_tool_error subject e)) (json_result E)
         (select_cancelled ctx (on_tekton (run (ms_tekton_env (me_services E)) (ms_tekton (me_services E)) q))))"

definition tekton_mutation_handler ::
  "'w mcp_env \<Rightarrow> server_context \<Rightarrow> string
     \<Rightarrow> ('w tekton_env \<Rightarrow> tekton_client \<Rightarrow> 'q \<Rightarrow> ('w, json) tekton_io) \<Rightarrow> 'q \<Rightarrow> 'w mcp_handler" where
  "tekton_mutation_handler E ctx subject run command =
     reply_with (Inr (tekton_tool_error subject TE_MutationOutcomeUnknown))
       (\<lambda>e. Inr (tekton_tool_error subject e)) (json_result E)
       (select_cancelled ctx (on_tekton (run (ms_tekton_env (me_services E)) (ms_tekton (me_services E)) command)))"

definition mcp_tekton_repositories :: "'w mcp_env \<Rightarrow> server_context \<Rightarrow> u16 option \<Rightarrow> 'w mcp_handler" where
  "mcp_tekton_repositories E ctx input =
     tekton_query_handler E ctx ''repository'' (repository_list_validate input) tekton_repositories"

definition mcp_tekton_workflows :: "'w mcp_env \<Rightarrow> server_context \<Rightarrow> string option \<times> u16 option \<Rightarrow> 'w mcp_handler" where
  "mcp_tekton_workflows E ctx input =
     tekton_query_handler E ctx ''workflow'' (case_prod workflow_list_validate input) tekton_workflows"

definition mcp_tekton_runs :: "'w mcp_env \<Rightarrow> server_context \<Rightarrow> string \<times> string option \<times> string option \<times> string option \<times> string option \<times> u16 option \<Rightarrow> 'w mcp_handler" where
  "mcp_tekton_runs E ctx input =
     tekton_query_handler E ctx ''run'' (case input of (repository, workflow, branch, revision, status, limit) \<Rightarrow>
          run_list_validate repository workflow branch revision status limit) tekton_runs"

definition mcp_tekton_run :: "'w mcp_env \<Rightarrow> server_context \<Rightarrow> string \<Rightarrow> 'w mcp_handler" where
  "mcp_tekton_run E ctx input =
     tekton_query_handler E ctx ''run'' (run_get_validate input) tekton_run"

definition mcp_tekton_run_status :: "'w mcp_env \<Rightarrow> server_context \<Rightarrow> string \<Rightarrow> 'w mcp_handler" where
  "mcp_tekton_run_status E ctx input =
     tekton_query_handler E ctx ''run'' (run_status_validate input) tekton_status"

definition mcp_tekton_run_wait :: "'w mcp_env \<Rightarrow> server_context \<Rightarrow> string \<times> u16 option \<Rightarrow> 'w mcp_handler" where
  "mcp_tekton_run_wait E ctx input =
     tekton_query_handler E ctx ''run'' (case_prod run_wait_validate input) tekton_wait"

definition mcp_tekton_tasks :: "'w mcp_env \<Rightarrow> server_context \<Rightarrow> string \<times> u16 option \<Rightarrow> 'w mcp_handler" where
  "mcp_tekton_tasks E ctx input =
     tekton_query_handler E ctx ''task'' (case_prod task_list_validate input) tekton_tasks"

definition mcp_tekton_task_logs :: "'w mcp_env \<Rightarrow> server_context \<Rightarrow> string \<times> string \<times> string option \<times> u16 option \<times> u32 option \<Rightarrow> 'w mcp_handler" where
  "mcp_tekton_task_logs E ctx input =
     tekton_query_handler E ctx ''task log'' (case input of (run_id, task_id, step, tail_lines, max_bytes) \<Rightarrow>
          task_logs_validate run_id task_id step tail_lines max_bytes) tekton_logs"

definition dispatch_tekton_workflow :: "'w mcp_env \<Rightarrow> server_context \<Rightarrow> workflow_dispatch_command \<Rightarrow> 'w mcp_handler" where
  "dispatch_tekton_workflow E ctx command = tekton_mutation_handler E ctx ''workflow'' tekton_dispatch command"

definition mcp_tekton_dispatch :: "'w mcp_env \<Rightarrow> server_context \<Rightarrow> string \<times> string \<times> string \<times> (string, string) btree \<Rightarrow> 'w mcp_handler" where
  "mcp_tekton_dispatch E ctx input =
     with_valid (case input of (repository, workflow, reference, params) \<Rightarrow>
         workflow_dispatch_validate repository workflow reference params)
       (tekton_tool_error ''workflow'' TE_InvalidArguments) (dispatch_tekton_workflow E ctx)"

definition dispatch_tekton_rerun :: "'w mcp_env \<Rightarrow> server_context \<Rightarrow> string \<Rightarrow> 'w mcp_handler" where
  "dispatch_tekton_rerun E ctx command = tekton_mutation_handler E ctx ''run'' tekton_rerun command"

definition mcp_tekton_rerun :: "'w mcp_env \<Rightarrow> server_context \<Rightarrow> string \<Rightarrow> 'w mcp_handler" where
  "mcp_tekton_rerun E ctx input =
     with_valid (run_rerun_validate input)
       (tekton_tool_error ''run'' TE_InvalidArguments) (dispatch_tekton_rerun E ctx)"

definition dispatch_tekton_cancel :: "'w mcp_env \<Rightarrow> server_context \<Rightarrow> string \<Rightarrow> 'w mcp_handler" where
  "dispatch_tekton_cancel E ctx command = tekton_mutation_handler E ctx ''run'' tekton_cancel command"

definition mcp_tekton_cancel :: "'w mcp_env \<Rightarrow> server_context \<Rightarrow> string \<Rightarrow> 'w mcp_handler" where
  "mcp_tekton_cancel E ctx input =
     with_valid (run_cancel_validate input)
       (tekton_tool_error ''run'' TE_InvalidArguments) (dispatch_tekton_cancel E ctx)"

section \<open>Kubernetes\<close>

definition dispatch_kubernetes_query ::
  "'w mcp_env \<Rightarrow> kube_validation_error + kube_query_command \<Rightarrow> string \<Rightarrow> 'w mcp_handler" where
  "dispatch_kubernetes_query E validated subject =
     with_valid validated (kubernetes_tool_error subject KE_InvalidArguments) (\<lambda>command. \<lambda>s.
       let (r, t) = on_kube (dispatch_cancelled (ml_json (me_libs E)) (ms_kube_encode (me_services E))
             (\<lambda>c. traced_kubectl (ms_kubectl (me_services E) c)) (ms_kubernetes (me_services E)) command) s in
       (case r of
          Inr output \<Rightarrow> Inr (json_result E (ml_query_result (me_libs E) output))
        | Inl e \<Rightarrow>
            if e = KE_RequestCancelled then Inl request_cancelled else Inr (kubernetes_tool_error subject e), t))"

definition dispatch_kubernetes_exec ::
  "'w mcp_env \<Rightarrow> kube_validation_error + kube_exec_command \<Rightarrow> string \<Rightarrow> 'w mcp_handler" where
  "dispatch_kubernetes_exec E validated subject =
     with_valid validated (kubernetes_tool_error subject KE_InvalidArguments) (\<lambda>command. \<lambda>s.
       let (r, t) = on_kube_exec (catalog_execute_cancelled (\<lambda>c. traced_kubectl (ms_kubectl (me_services E) c))
             (ms_now (me_services E)) (ms_seconds (me_services E)) (ms_kubernetes (me_services E)) command) s in
       (case r of
          Inr output \<Rightarrow> Inr (json_result E (ml_exec_result (me_libs E) output))
        | Inl e \<Rightarrow> Inr (kubernetes_tool_error subject e), t))"

definition mcp_kubernetes_clusters :: "'w mcp_env \<Rightarrow> server_context \<Rightarrow> unit \<Rightarrow> 'w mcp_handler" where
  "mcp_kubernetes_clusters E ctx input =
     dispatch_kubernetes_query E (cluster_list_input_validate) ''cluster''"

definition mcp_kubernetes_capabilities :: "'w mcp_env \<Rightarrow> server_context \<Rightarrow> string \<times> resource_kind list option \<Rightarrow> 'w mcp_handler" where
  "mcp_kubernetes_capabilities E ctx input =
     dispatch_kubernetes_query E (case_prod capability_list_input_validate input) ''capability''"

definition mcp_kubernetes_resources :: "'w mcp_env \<Rightarrow> server_context \<Rightarrow> resource_list_input \<Rightarrow> 'w mcp_handler" where
  "mcp_kubernetes_resources E ctx input =
     dispatch_kubernetes_query E (resource_list_input_validate input) ''resource''"

definition mcp_kubernetes_resource :: "'w mcp_env \<Rightarrow> server_context \<Rightarrow> resource_get_input \<Rightarrow> 'w mcp_handler" where
  "mcp_kubernetes_resource E ctx input =
     dispatch_kubernetes_query E (resource_get_input_validate input) ''resource''"

definition mcp_kubernetes_pod_logs :: "'w mcp_env \<Rightarrow> server_context \<Rightarrow> string \<times> pod_logs_query_input \<Rightarrow> 'w mcp_handler" where
  "mcp_kubernetes_pod_logs E ctx input =
     dispatch_kubernetes_query E (case_prod pod_logs_input_validate input) ''Pod log''"

definition mcp_workload_restart :: "'w mcp_env \<Rightarrow> server_context \<Rightarrow> string \<times> restart_workload_kind \<times> string \<times> string \<times> bool option \<Rightarrow> 'w mcp_handler" where
  "mcp_workload_restart E ctx input =
     dispatch_kubernetes_exec E (case input of (cluster, kind, namespace, name, dry_run) \<Rightarrow>
        workload_restart_input_validate cluster kind namespace name dry_run) ''workload''"

definition mcp_workload_scale :: "'w mcp_env \<Rightarrow> server_context \<Rightarrow> string \<times> scalable_workload_kind \<times> string \<times> string \<times> u32 \<times> bool option \<Rightarrow> 'w mcp_handler" where
  "mcp_workload_scale E ctx input =
     dispatch_kubernetes_exec E (case input of (cluster, kind, namespace, name, replicas, dry_run) \<Rightarrow>
        workload_scale_input_validate cluster kind namespace name replicas dry_run) ''workload''"

definition mcp_cronjob_suspend :: "'w mcp_env \<Rightarrow> server_context \<Rightarrow> string \<times> string \<times> string \<times> bool \<times> bool option \<Rightarrow> 'w mcp_handler" where
  "mcp_cronjob_suspend E ctx input =
     dispatch_kubernetes_exec E (case input of (cluster, namespace, name, suspended, dry_run) \<Rightarrow>
        cronjob_suspend_input_validate cluster namespace name suspended dry_run) ''CronJob''"

definition mcp_cronjob_trigger :: "'w mcp_env \<Rightarrow> server_context \<Rightarrow> string \<times> string \<times> string \<times> bool option \<Rightarrow> 'w mcp_handler" where
  "mcp_cronjob_trigger E ctx input =
     dispatch_kubernetes_exec E (case input of (cluster, namespace, name, dry_run) \<Rightarrow>
        cronjob_trigger_input_validate cluster namespace name dry_run) ''CronJob''"

definition mcp_pod_delete :: "'w mcp_env \<Rightarrow> server_context \<Rightarrow> string \<times> string \<times> string \<times> bool option \<Rightarrow> 'w mcp_handler" where
  "mcp_pod_delete E ctx input =
     dispatch_kubernetes_exec E (case input of (cluster, namespace, name, dry_run) \<Rightarrow>
        pod_delete_input_validate cluster namespace name dry_run) ''Pod''"

section \<open>Ceph\<close>

text \<open>The listing of the clusters names no cluster and touches no state.\<close>

definition dispatch_ceph_query ::
  "'w mcp_env \<Rightarrow> server_context \<Rightarrow> ceph_validation_error + ceph_query_command \<Rightarrow> string \<Rightarrow> 'w mcp_handler" where
  "dispatch_ceph_query E ctx validated subject =
     with_valid validated (ceph_tool_error subject CE_InvalidArguments) (\<lambda>command.
       reply_with (Inl request_cancelled) (\<lambda>e. Inr (ceph_tool_error subject e)) (json_result E)
         (select_cancelled ctx
           (on_ceph (case ceph_query_cluster command of None \<Rightarrow> [] | Some cluster \<Rightarrow> cluster)
             (ceph_catalog_query (ml_json (me_libs E)) (ms_dashboard (me_services E)) (ms_ceph (me_services E)) command))))"

definition dispatch_ceph_exec ::
  "'w mcp_env \<Rightarrow> server_context \<Rightarrow> ceph_validation_error + ceph_exec_command \<Rightarrow> string \<Rightarrow> 'w mcp_handler" where
  "dispatch_ceph_exec E ctx validated subject =
     with_valid validated (ceph_tool_error subject CE_InvalidArguments) (\<lambda>command.
       reply_with (Inr (ceph_tool_error subject CE_MutationOutcomeUnknown)) (\<lambda>e. Inr (ceph_tool_error subject e))
         (json_result E)
         (select_cancelled ctx
           (on_ceph (ceph_exec_cluster command)
             (ceph_catalog_execute (ml_json (me_libs E)) (ms_dashboard (me_services E)) (ms_ceph (me_services E))
               command))))"

definition mcp_ceph_clusters :: "'w mcp_env \<Rightarrow> server_context \<Rightarrow> unit \<Rightarrow> 'w mcp_handler" where
  "mcp_ceph_clusters E ctx input =
     dispatch_ceph_query E ctx (ceph_cluster_list_input_validate) ''cluster''"

definition mcp_ceph_status :: "'w mcp_env \<Rightarrow> server_context \<Rightarrow> string \<Rightarrow> 'w mcp_handler" where
  "mcp_ceph_status E ctx input =
     dispatch_ceph_query E ctx (status_get_input_validate input) ''status''"

definition mcp_ceph_metrics :: "'w mcp_env \<Rightarrow> server_context \<Rightarrow> string \<Rightarrow> 'w mcp_handler" where
  "mcp_ceph_metrics E ctx input =
     dispatch_ceph_query E ctx (metrics_summary_input_validate input) ''metrics''"

definition mcp_ceph_osds :: "'w mcp_env \<Rightarrow> server_context \<Rightarrow> string \<times> u16 option \<Rightarrow> 'w mcp_handler" where
  "mcp_ceph_osds E ctx input =
     dispatch_ceph_query E ctx (case_prod osd_list_input_validate input) ''OSD''"

definition mcp_ceph_osd :: "'w mcp_env \<Rightarrow> server_context \<Rightarrow> string \<times> u32 \<Rightarrow> 'w mcp_handler" where
  "mcp_ceph_osd E ctx input =
     dispatch_ceph_query E ctx (case_prod osd_get_input_validate input) ''OSD''"

definition mcp_ceph_osd_safe_to_destroy :: "'w mcp_env \<Rightarrow> server_context \<Rightarrow> string \<times> u32 \<Rightarrow> 'w mcp_handler" where
  "mcp_ceph_osd_safe_to_destroy E ctx input =
     dispatch_ceph_query E ctx (case_prod osd_safe_to_destroy_input_validate input) ''OSD''"

definition mcp_ceph_devices :: "'w mcp_env \<Rightarrow> server_context \<Rightarrow> string \<times> u32 \<times> u16 option \<Rightarrow> 'w mcp_handler" where
  "mcp_ceph_devices E ctx input =
     dispatch_ceph_query E ctx (case input of (cluster, osd_id, limit) \<Rightarrow> device_list_input_validate cluster osd_id limit) ''device''"

definition mcp_ceph_device :: "'w mcp_env \<Rightarrow> server_context \<Rightarrow> string \<times> u32 \<times> string \<Rightarrow> 'w mcp_handler" where
  "mcp_ceph_device E ctx input =
     dispatch_ceph_query E ctx (case input of (cluster, osd_id, device_id) \<Rightarrow> device_get_input_validate cluster osd_id device_id) ''device''"

definition mcp_ceph_flags :: "'w mcp_env \<Rightarrow> server_context \<Rightarrow> string \<Rightarrow> 'w mcp_handler" where
  "mcp_ceph_flags E ctx input =
     dispatch_ceph_query E ctx (flags_get_input_validate input) ''flags''"

definition mcp_ceph_tasks :: "'w mcp_env \<Rightarrow> server_context \<Rightarrow> string \<times> u16 option \<Rightarrow> 'w mcp_handler" where
  "mcp_ceph_tasks E ctx input =
     dispatch_ceph_query E ctx (case_prod task_list_input_validate input) ''task''"

definition mcp_ceph_mark_osd :: "'w mcp_env \<Rightarrow> server_context \<Rightarrow> string \<times> u32 \<times> mark_state \<Rightarrow> 'w mcp_handler" where
  "mcp_ceph_mark_osd E ctx input =
     dispatch_ceph_exec E ctx (case input of (cluster, osd_id, state) \<Rightarrow> osd_mark_input_validate cluster osd_id state) ''OSD''"

definition mcp_ceph_reweight_osd :: "'w mcp_env \<Rightarrow> server_context \<Rightarrow> string \<times> u32 \<times> f64 \<Rightarrow> 'w mcp_handler" where
  "mcp_ceph_reweight_osd E ctx input =
     dispatch_ceph_exec E ctx (case input of (cluster, osd_id, weight) \<Rightarrow> osd_reweight_input_validate cluster osd_id weight) ''OSD''"

definition mcp_ceph_scrub_osd :: "'w mcp_env \<Rightarrow> server_context \<Rightarrow> string \<times> u32 \<times> scrub_kind \<Rightarrow> 'w mcp_handler" where
  "mcp_ceph_scrub_osd E ctx input =
     dispatch_ceph_exec E ctx (case input of (cluster, osd_id, kind) \<Rightarrow> osd_scrub_input_validate cluster osd_id kind) ''OSD''"

definition mcp_ceph_destroy_osd :: "'w mcp_env \<Rightarrow> server_context \<Rightarrow> string \<times> u32 \<times> string \<Rightarrow> 'w mcp_handler" where
  "mcp_ceph_destroy_osd E ctx input =
     dispatch_ceph_exec E ctx (case input of (cluster, osd_id, confirmation) \<Rightarrow> osd_destroy_input_validate cluster osd_id confirmation) ''OSD''"

definition mcp_ceph_purge_osd :: "'w mcp_env \<Rightarrow> server_context \<Rightarrow> string \<times> u32 \<times> string \<Rightarrow> 'w mcp_handler" where
  "mcp_ceph_purge_osd E ctx input =
     dispatch_ceph_exec E ctx (case input of (cluster, osd_id, confirmation) \<Rightarrow> osd_purge_input_validate cluster osd_id confirmation) ''OSD''"

section \<open>Machines\<close>

text \<open>
  The inputs as they are read, with the defaults serde gives to absent fields.
\<close>

definition default_machine_limit :: u16 where
  "default_machine_limit = 100"

record machine_create_input =
  mi_display_name :: string
  mi_ssh_host :: string
  mi_ssh_port :: "u16 option"
  mi_ssh_username :: "string option"
  mi_host_key :: "string option"

definition create_command :: "machine_create_input \<Rightarrow> create_machine" where
  "create_command input =
     \<lparr>cm_display_name = mi_display_name input, cm_ssh_host = mi_ssh_host input,
      cm_ssh_port = (case mi_ssh_port input of None \<Rightarrow> default_ssh_port | Some p \<Rightarrow> p),
      cm_ssh_username = (case mi_ssh_username input of None \<Rightarrow> default_ssh_username | Some u \<Rightarrow> u),
      cm_host_key = mi_host_key input\<rparr>"

record machine_update_input =
  mu_machine_id :: string
  mu_display_name :: string
  mu_ssh_host :: string
  mu_ssh_port :: u16
  mu_ssh_username :: string

definition update_command :: "machine_update_input \<Rightarrow> update_machine" where
  "update_command input =
     \<lparr>um_display_name = mu_display_name input, um_ssh_host = mu_ssh_host input,
      um_ssh_port = mu_ssh_port input, um_ssh_username = mu_ssh_username input\<rparr>"

text \<open>An operation of the repository that reads, and one that writes.\<close>

abbreviation machines_read :: "(machine_table \<Rightarrow> (repository_error + 'a) option)
     \<Rightarrow> ('w mcp_sys, inventory_stop option, 'a) io" where
  "machines_read f \<equiv> on_machines (\<lambda>table. (f table, table))"

definition machine_mutation_handler ::
  "server_context \<Rightarrow> (machine_table \<Rightarrow> (repository_error + 'a) option \<times> machine_table) \<Rightarrow> ('a \<Rightarrow> json)
     \<Rightarrow> 'w mcp_handler" where
  "machine_mutation_handler ctx change result_of =
     reply_with (Inr inventory_outcome_unknown) inventory_failed result_of
       (select_cancelled ctx (on_machines change))"

definition mcp_machine_list :: "'w mcp_env \<Rightarrow> server_context \<Rightarrow> u16 option \<Rightarrow> 'w mcp_handler" where
  "mcp_machine_list E ctx input =
     reply_with (Inl request_cancelled) inventory_failed
       (\<lambda>machines. json_result E (JObj [(''machines'', JArr (map (machine_json E) machines))]))
       (select_cancelled ctx
         (machines_read (inventory_list (ms_collate (me_services E)) (ms_database_fails (me_services E))
           (case input of None \<Rightarrow> default_machine_limit | Some n \<Rightarrow> n))))"

definition mcp_machine_create :: "'w mcp_env \<Rightarrow> server_context \<Rightarrow> machine_create_input \<Rightarrow> 'w mcp_handler" where
  "mcp_machine_create E ctx input =
     machine_mutation_handler ctx
       (inventory_create (ml_base64_decode (me_libs E)) (ms_database_fails (me_services E))
         (ms_new_id (me_services E)) (ms_database_now (me_services E)) (create_command input))
       (\<lambda>m. json_result E (machine_json E m))"

definition mcp_machine_update :: "'w mcp_env \<Rightarrow> server_context \<Rightarrow> machine_update_input \<Rightarrow> 'w mcp_handler" where
  "mcp_machine_update E ctx input =
     (case ml_uuid (me_libs E) (mu_machine_id input) of None \<Rightarrow> io_return invalid_machine_arguments
      | Some uid \<Rightarrow>
          machine_mutation_handler ctx
            (inventory_update (ms_database_fails (me_services E)) (ms_database_now (me_services E)) uid
              (update_command input))
            (\<lambda>m. json_result E (machine_json E m)))"

definition mcp_machine_delete :: "'w mcp_env \<Rightarrow> server_context \<Rightarrow> string \<Rightarrow> 'w mcp_handler" where
  "mcp_machine_delete E ctx input =
     (case ml_uuid (me_libs E) input of None \<Rightarrow> io_return invalid_machine_arguments
      | Some uid \<Rightarrow>
          machine_mutation_handler ctx
            (map_prod Some id \<circ> inventory_delete (ms_database_fails (me_services E)) uid)
            (\<lambda>_. json_result E (JObj [(''machine_id'', JStr (ml_uuid_text (me_libs E) uid)), (''deleted'', JBool True)])))"

definition mcp_host_key_clear :: "'w mcp_env \<Rightarrow> server_context \<Rightarrow> string \<Rightarrow> 'w mcp_handler" where
  "mcp_host_key_clear E ctx input =
     (case ml_uuid (me_libs E) input of None \<Rightarrow> io_return invalid_machine_arguments
      | Some uid \<Rightarrow>
          machine_mutation_handler ctx
            (clear_host_key (ms_database_fails (me_services E)) (ms_database_now (me_services E)) uid)
            (\<lambda>m. json_result E (machine_json E m)))"

definition mcp_host_key_replace :: "'w mcp_env \<Rightarrow> server_context \<Rightarrow> string \<times> string \<Rightarrow> 'w mcp_handler" where
  "mcp_host_key_replace E ctx input =
     (case ml_uuid (me_libs E) (fst input) of None \<Rightarrow> io_return invalid_machine_arguments
      | Some uid \<Rightarrow>
          machine_mutation_handler ctx
            (replace_host_key (ml_base64_decode (me_libs E)) (ms_database_fails (me_services E))
              (ms_database_now (me_services E)) uid (snd input))
            (\<lambda>m. json_result E (machine_json E m)))"

section \<open>Deploys\<close>

definition mcp_deploy_list :: "'w mcp_env \<Rightarrow> server_context \<Rightarrow> unit \<Rightarrow> 'w mcp_handler" where
  "mcp_deploy_list E ctx input =
     io_return (json_result E (JObj [(''deploys'',
       JArr (map (ml_metadata (me_libs E)) (deploy_list (dr_catalog (ms_runner (me_services E))))))]))"

definition dispatch_deploy_run :: "'w mcp_env \<Rightarrow> string \<Rightarrow> machine \<Rightarrow> 'w mcp_handler" where
  "dispatch_deploy_run E deploy_id m = (\<lambda>s.
     let (r, t) = on_deploy (deploy_run (ml_base64_decode (me_libs E)) (ms_render_inventory (me_services E))
           (ms_deploy_env (me_services E)) (ms_signer (me_services E)) (ms_runner (me_services E))
           (ms_deploy_permits (me_services E)) (ms_worker_delivers (me_services E)) deploy_id m) s in
     (case r of
        Inr output \<Rightarrow> Inr (json_result E (ml_system_info (me_libs E) output))
      | Inl e \<Rightarrow> Inr (deploy_tool_error e), t))"

text \<open>The machine is looked up first; a cancellation before it is found ends the request.\<close>

definition mcp_deploy_run :: "'w mcp_env \<Rightarrow> server_context \<Rightarrow> string \<times> string \<Rightarrow> 'w mcp_handler" where
  "mcp_deploy_run E ctx input =
     (case ml_uuid (me_libs E) (snd input) of None \<Rightarrow> io_return invalid_deploy_arguments
      | Some uid \<Rightarrow> (\<lambda>s.
          case select_cancelled ctx (machines_read (inventory_get (ms_database_fails (me_services E)) uid)) s of
            (Inl None, t) \<Rightarrow> (Inl request_cancelled, t)
          | (Inl (Some e), t) \<Rightarrow> (inventory_failed e, t)
          | (Inr m, t) \<Rightarrow> dispatch_deploy_run E (fst input) m t))"

end
