(* ===== verification/Mcp_Tools.thy ===== *)
theory Mcp_Tools
  imports Mcp_Handlers
begin

text \<open>
  The four tools (\<open>src/mcp/tools.rs\<close>): the catalog that says which action of which tool runs which handler
  on which input, the hints a tool is listed with, and the call of a tool.  \<open>mcp_protocol\<close> holds what the
  \<open>mcp\<close> and \<open>serde\<close> packages do: splitting the arguments of a call into action, input and filter, reading
  an input into its type (\<open>None\<close> where it does not match), filtering a result, and the errors for an unknown
  action and an unreadable input.
\<close>

section \<open>Reading inputs\<close>

record grafana_inputs =
  gi_logql :: "json \<Rightarrow> logql_input option"
  gi_promql :: "json \<Rightarrow> promql_input option"
  gi_traceql :: "json \<Rightarrow> traceql_input option"
  gi_profiles :: "json \<Rightarrow> profiles_input option"
  gi_alert_rules :: "json \<Rightarrow> (u16 option) option"
  gi_recording_rules :: "json \<Rightarrow> (u16 option) option"
  gi_alert_instances :: "json \<Rightarrow> (label_matcher list \<times> u16 option) option"
  gi_list_silences :: "json \<Rightarrow> (silence_state option \<times> u16 option) option"
  gi_list_dashboards :: "json \<Rightarrow> list_dashboards_input option"
  gi_get_dashboard :: "json \<Rightarrow> string option"
  gi_render_dashboard :: "json \<Rightarrow> (string \<times> render_controls) option"
  gi_render_panel :: "json \<Rightarrow> (string \<times> string \<times> render_controls) option"
  gi_create_silence :: "json \<Rightarrow> create_silence_input option"

record tekton_inputs =
  xi_repositories :: "json \<Rightarrow> (u16 option) option"
  xi_workflows :: "json \<Rightarrow> (string option \<times> u16 option) option"
  xi_runs :: "json \<Rightarrow> (string \<times> string option \<times> string option \<times> string option \<times> string option \<times> u16 option) option"
  xi_run_get :: "json \<Rightarrow> string option"
  xi_run_status :: "json \<Rightarrow> string option"
  xi_run_wait :: "json \<Rightarrow> (string \<times> u16 option) option"
  xi_tasks :: "json \<Rightarrow> (string \<times> u16 option) option"
  xi_logs :: "json \<Rightarrow> (string \<times> string \<times> string option \<times> u16 option \<times> u32 option) option"
  xi_dispatch :: "json \<Rightarrow> (string \<times> string \<times> string \<times> (string, string) btree) option"
  xi_rerun :: "json \<Rightarrow> string option"
  xi_cancel :: "json \<Rightarrow> string option"

record kubernetes_inputs =
  yi_clusters :: "json \<Rightarrow> unit option"
  yi_capabilities :: "json \<Rightarrow> (string \<times> resource_kind list option) option"
  yi_resources :: "json \<Rightarrow> resource_list_input option"
  yi_resource :: "json \<Rightarrow> resource_get_input option"
  yi_logs :: "json \<Rightarrow> (string \<times> pod_logs_query_input) option"
  yi_restart :: "json \<Rightarrow> (string \<times> restart_workload_kind \<times> string \<times> string \<times> bool option) option"
  yi_scale :: "json \<Rightarrow> (string \<times> scalable_workload_kind \<times> string \<times> string \<times> u32 \<times> bool option) option"
  yi_suspend :: "json \<Rightarrow> (string \<times> string \<times> string \<times> bool \<times> bool option) option"
  yi_trigger :: "json \<Rightarrow> (string \<times> string \<times> string \<times> bool option) option"
  yi_delete :: "json \<Rightarrow> (string \<times> string \<times> string \<times> bool option) option"

record ceph_inputs =
  zi_clusters :: "json \<Rightarrow> unit option"
  zi_status :: "json \<Rightarrow> string option"
  zi_metrics :: "json \<Rightarrow> string option"
  zi_osds :: "json \<Rightarrow> (string \<times> u16 option) option"
  zi_osd :: "json \<Rightarrow> (string \<times> u32) option"
  zi_safe :: "json \<Rightarrow> (string \<times> u32) option"
  zi_devices :: "json \<Rightarrow> (string \<times> u32 \<times> u16 option) option"
  zi_device :: "json \<Rightarrow> (string \<times> u32 \<times> string) option"
  zi_flags :: "json \<Rightarrow> string option"
  zi_tasks :: "json \<Rightarrow> (string \<times> u16 option) option"
  zi_mark :: "json \<Rightarrow> (string \<times> u32 \<times> mark_state) option"
  zi_reweight :: "json \<Rightarrow> (string \<times> u32 \<times> f64) option"
  zi_scrub :: "json \<Rightarrow> (string \<times> u32 \<times> scrub_kind) option"
  zi_destroy :: "json \<Rightarrow> (string \<times> u32 \<times> string) option"
  zi_purge :: "json \<Rightarrow> (string \<times> u32 \<times> string) option"

record machine_inputs =
  ki_list :: "json \<Rightarrow> (u16 option) option"
  ki_create :: "json \<Rightarrow> machine_create_input option"
  ki_update :: "json \<Rightarrow> machine_update_input option"
  ki_machine :: "json \<Rightarrow> string option"
  ki_host_key :: "json \<Rightarrow> (string \<times> string) option"
  ki_deploy_list :: "json \<Rightarrow> unit option"
  ki_deploy_run :: "json \<Rightarrow> (string \<times> string) option"

record mcp_protocol =
  mp_arguments :: "string \<Rightarrow> json \<Rightarrow> server_error + string \<times> json \<times> string option"
  mp_bad_input :: "string \<Rightarrow> server_error"
  mp_unknown_action :: "string \<Rightarrow> server_error"
  mp_action_result :: "json \<Rightarrow> string option \<Rightarrow> server_error + json"
  mp_grafana :: grafana_inputs
  mp_tekton :: tekton_inputs
  mp_kubernetes :: kubernetes_inputs
  mp_ceph :: ceph_inputs
  mp_machines :: machine_inputs

section \<open>The catalog\<close>

type_synonym 'w mcp_entry =
  "string \<times> string \<times> (mcp_protocol \<Rightarrow> 'w mcp_env \<Rightarrow> server_context \<Rightarrow> json \<Rightarrow> 'w mcp_handler)"

definition tool_action ::
  "string \<Rightarrow> string \<Rightarrow> (mcp_protocol \<Rightarrow> json \<Rightarrow> 'i option)
     \<Rightarrow> ('w mcp_env \<Rightarrow> server_context \<Rightarrow> 'i \<Rightarrow> 'w mcp_handler) \<Rightarrow> 'w mcp_entry" where
  "tool_action tool action read_input handler =
     (tool, action, \<lambda>P E ctx v.
        case read_input P v of None \<Rightarrow> io_throw (mp_bad_input P action) | Some i \<Rightarrow> handler E ctx i)"

definition query_actions :: "'w mcp_entry list" where
  "query_actions =
     [tool_action ''query'' ''grafana.logql.query'' (\<lambda>P. gi_logql (mp_grafana P)) mcp_logql,
      tool_action ''query'' ''grafana.promql.query'' (\<lambda>P. gi_promql (mp_grafana P)) mcp_promql,
      tool_action ''query'' ''grafana.traceql.search'' (\<lambda>P. gi_traceql (mp_grafana P)) mcp_traceql,
      tool_action ''query'' ''grafana.profile.merge'' (\<lambda>P. gi_profiles (mp_grafana P)) mcp_profiles,
      tool_action ''query'' ''grafana.alert-instance.list'' (\<lambda>P. gi_alert_instances (mp_grafana P)) mcp_alert_instances,
      tool_action ''query'' ''grafana.silence.list'' (\<lambda>P. gi_list_silences (mp_grafana P)) mcp_list_silences,
      tool_action ''query'' ''grafana.render.dashboard'' (\<lambda>P. gi_render_dashboard (mp_grafana P)) mcp_render_dashboard,
      tool_action ''query'' ''grafana.render.panel'' (\<lambda>P. gi_render_panel (mp_grafana P)) mcp_render_panel,
      tool_action ''query'' ''tekton.run.list'' (\<lambda>P. xi_runs (mp_tekton P)) mcp_tekton_runs,
      tool_action ''query'' ''tekton.run.get'' (\<lambda>P. xi_run_get (mp_tekton P)) mcp_tekton_run,
      tool_action ''query'' ''tekton.run.status'' (\<lambda>P. xi_run_status (mp_tekton P)) mcp_tekton_run_status,
      tool_action ''query'' ''tekton.run.wait'' (\<lambda>P. xi_run_wait (mp_tekton P)) mcp_tekton_run_wait,
      tool_action ''query'' ''tekton.task.list'' (\<lambda>P. xi_tasks (mp_tekton P)) mcp_tekton_tasks,
      tool_action ''query'' ''tekton.task.logs'' (\<lambda>P. xi_logs (mp_tekton P)) mcp_tekton_task_logs,
      tool_action ''query'' ''kubernetes.resource_list'' (\<lambda>P. yi_resources (mp_kubernetes P)) mcp_kubernetes_resources,
      tool_action ''query'' ''kubernetes.resource_get'' (\<lambda>P. yi_resource (mp_kubernetes P)) mcp_kubernetes_resource,
      tool_action ''query'' ''kubernetes.pod_logs'' (\<lambda>P. yi_logs (mp_kubernetes P)) mcp_kubernetes_pod_logs,
      tool_action ''query'' ''ceph.status.get'' (\<lambda>P. zi_status (mp_ceph P)) mcp_ceph_status,
      tool_action ''query'' ''ceph.metrics.summary'' (\<lambda>P. zi_metrics (mp_ceph P)) mcp_ceph_metrics,
      tool_action ''query'' ''ceph.osd.list'' (\<lambda>P. zi_osds (mp_ceph P)) mcp_ceph_osds,
      tool_action ''query'' ''ceph.osd.get'' (\<lambda>P. zi_osd (mp_ceph P)) mcp_ceph_osd,
      tool_action ''query'' ''ceph.osd.safe-to-destroy'' (\<lambda>P. zi_safe (mp_ceph P)) mcp_ceph_osd_safe_to_destroy,
      tool_action ''query'' ''ceph.device.list'' (\<lambda>P. zi_devices (mp_ceph P)) mcp_ceph_devices,
      tool_action ''query'' ''ceph.device.get'' (\<lambda>P. zi_device (mp_ceph P)) mcp_ceph_device,
      tool_action ''query'' ''ceph.flags.get'' (\<lambda>P. zi_flags (mp_ceph P)) mcp_ceph_flags,
      tool_action ''query'' ''ceph.task.list'' (\<lambda>P. zi_tasks (mp_ceph P)) mcp_ceph_tasks]"

definition create_actions :: "'w mcp_entry list" where
  "create_actions =
     [tool_action ''create'' ''grafana.silence.create'' (\<lambda>P. gi_create_silence (mp_grafana P)) mcp_create_silence,
      tool_action ''create'' ''kubernetes.cronjob_trigger'' (\<lambda>P. yi_trigger (mp_kubernetes P)) mcp_cronjob_trigger,
      tool_action ''create'' ''machine.create'' (\<lambda>P. ki_create (mp_machines P)) mcp_machine_create]"

definition execute_actions :: "'w mcp_entry list" where
  "execute_actions =
     [tool_action ''execute'' ''tekton.workflow.dispatch'' (\<lambda>P. xi_dispatch (mp_tekton P)) mcp_tekton_dispatch,
      tool_action ''execute'' ''tekton.run.rerun'' (\<lambda>P. xi_rerun (mp_tekton P)) mcp_tekton_rerun,
      tool_action ''execute'' ''tekton.run.cancel'' (\<lambda>P. xi_cancel (mp_tekton P)) mcp_tekton_cancel,
      tool_action ''execute'' ''kubernetes.workload_restart'' (\<lambda>P. yi_restart (mp_kubernetes P)) mcp_workload_restart,
      tool_action ''execute'' ''kubernetes.workload_scale'' (\<lambda>P. yi_scale (mp_kubernetes P)) mcp_workload_scale,
      tool_action ''execute'' ''kubernetes.cronjob_suspend'' (\<lambda>P. yi_suspend (mp_kubernetes P)) mcp_cronjob_suspend,
      tool_action ''execute'' ''ceph.osd.mark'' (\<lambda>P. zi_mark (mp_ceph P)) mcp_ceph_mark_osd,
      tool_action ''execute'' ''ceph.osd.reweight'' (\<lambda>P. zi_reweight (mp_ceph P)) mcp_ceph_reweight_osd,
      tool_action ''execute'' ''ceph.osd.scrub'' (\<lambda>P. zi_scrub (mp_ceph P)) mcp_ceph_scrub_osd,
      tool_action ''execute'' ''machine.update'' (\<lambda>P. ki_update (mp_machines P)) mcp_machine_update,
      tool_action ''execute'' ''machine.host-key.clear'' (\<lambda>P. ki_machine (mp_machines P)) mcp_host_key_clear,
      tool_action ''execute'' ''machine.host-key.replace'' (\<lambda>P. ki_host_key (mp_machines P)) mcp_host_key_replace,
      tool_action ''execute'' ''deploy.run'' (\<lambda>P. ki_deploy_run (mp_machines P)) mcp_deploy_run]"

definition destroy_actions :: "'w mcp_entry list" where
  "destroy_actions =
     [tool_action ''destroy'' ''kubernetes.pod_delete'' (\<lambda>P. yi_delete (mp_kubernetes P)) mcp_pod_delete,
      tool_action ''destroy'' ''ceph.osd.destroy'' (\<lambda>P. zi_destroy (mp_ceph P)) mcp_ceph_destroy_osd,
      tool_action ''destroy'' ''ceph.osd.purge'' (\<lambda>P. zi_purge (mp_ceph P)) mcp_ceph_purge_osd,
      tool_action ''destroy'' ''machine.delete'' (\<lambda>P. ki_machine (mp_machines P)) mcp_machine_delete]"

definition tool_catalog :: "'w mcp_entry list" where
  "tool_catalog = query_actions @ create_actions @ execute_actions @ destroy_actions"

section \<open>Listing the tools\<close>

record tool_hints =
  th_read_only :: bool
  th_destructive :: bool
  th_idempotent :: bool
  th_open_world :: bool

definition hints_of :: "string \<Rightarrow> tool_hints" where
  "hints_of tool =
     \<lparr>th_read_only = (tool = ''query''), th_destructive = (tool \<in> {''execute'', ''destroy''}),
      th_idempotent = (tool = ''query''), th_open_world = True\<rparr>"

text \<open>A listed tool: its name, its description, its actions and its hints.\<close>

definition list_tools :: "(string \<times> string \<times> string list \<times> tool_hints) list" where
  "list_tools =
     map (\<lambda>(tool, description).
            (tool, description,
             map (\<lambda>(_, action, _). action)
               (filter (\<lambda>(t, _, _). t = tool) (tool_catalog :: unit mcp_entry list)),
             hints_of tool))
       [(''query'', ''Query bounded live state, logs, runs, observability signals and rendered images.''),
        (''create'', ''Create machine inventory, Grafana silences or Jobs from exact CronJobs.''),
        (''execute'', ''Execute approved exact-target operationally consequential changes.''),
        (''destroy'', ''Delete exact inventory or Pods, or destroy/purge explicitly confirmed safe OSDs.'')]"

section \<open>Calling a tool\<close>

definition call_tool ::
  "mcp_protocol \<Rightarrow> 'w mcp_env \<Rightarrow> server_context \<Rightarrow> string \<Rightarrow> json \<Rightarrow> 'w mcp_handler" where
  "call_tool P E ctx tool arguments =
     io_bind (io_lift (mp_arguments P tool arguments)) (\<lambda>(action, input, filter_text).
       case List.find (\<lambda>(t, a, _). t = tool \<and> a = action) tool_catalog of
         None \<Rightarrow> io_throw (mp_unknown_action P action)
       | Some (_, _, handler) \<Rightarrow>
           io_bind (handler P E ctx input) (\<lambda>output. io_lift (mp_action_result P output filter_text)))"

end
