(* ===== verification/Mcp_Resources.thy ===== *)
theory Mcp_Resources
  imports Mcp_Tools
begin

text \<open>
  The resources (\<open>src/mcp/resources.rs\<close>): what a \<open>homelab://\<close> URI asks for, the handler its route names,
  the links that are added to listings, and the lists of resources and templates.  \<open>resource_libs\<close> holds
  what the packages do: the catalog of skills, splitting a query string into decoded pairs, percent
  encoding (of everything but the characters of \<open>plain_segment_char\<close>) and decoding, and the JSON schema of
  an input type.
\<close>

record resource_libs =
  ul_skill :: "string \<Rightarrow> json option"
  ul_pairs :: "string \<Rightarrow> (string \<times> string) list"
  ul_percent_decode :: "string \<Rightarrow> string option"
  ul_percent_encode :: "string \<Rightarrow> string"
  ul_result :: "string \<Rightarrow> json \<Rightarrow> server_error + json"
  ul_schema :: "string \<Rightarrow> json"

definition plain_segment_char :: "char \<Rightarrow> bool" where
  "plain_segment_char c \<longleftrightarrow> ascii_alphanumeric (of_char c) \<or> c \<in> set ''-._~''"

definition collections :: "(string \<times> string \<times> string) list" where
  "collections =
     [(''homelab://kubernetes/clusters'', ''Kubernetes clusters'', ''Configured cluster catalog; no live object state.''),
      (''homelab://ceph/clusters'', ''Ceph clusters'', ''Configured Ceph Dashboard cluster catalog.''),
      (''homelab://grafana/dashboards'', ''Grafana dashboards'', ''Bounded normalized dashboard inventory.''),
      (''homelab://grafana/alert-rules'', ''Grafana alert rules'',
       ''Bounded normalized alert-rule definitions; not current alerts.''),
      (''homelab://grafana/recording-rules'', ''Grafana recording rules'',
       ''Bounded normalized recording-rule definitions.''),
      (''homelab://tekton/repositories'', ''Tekton repositories'', ''Configured PAC repository definitions.''),
      (''homelab://tekton/workflows'', ''Tekton workflows'', ''Bounded PAC workflow definitions; not runs.''),
      (''homelab://machines'', ''Machines'', ''Bounded machine inventory and public host-trust status.''),
      (''homelab://deploys'', ''Deploys'', ''Approved deploy definitions; no execution.'')]"

definition templates :: "(string \<times> string \<times> string) list" where
  "templates =
     [(''homelab://kubernetes/capabilities/{cluster}{?input,filter}'', ''Kubernetes capabilities'',
       ''Approved kinds for an exact configured cluster. input is percent-encoded JSON; optional kinds array.''),
      (''homelab://grafana/dashboards/{uid}{?input,filter}'', ''Grafana dashboard'',
       ''Bounded dashboard definition for an exact UID; no raw manifests or queries.'')]"

section \<open>Members of a JSON object\<close>

text \<open>\<open>object[key] = v\<close> and a change of the member \<open>key\<close> where the object has it.\<close>

fun set_member :: "string \<Rightarrow> json \<Rightarrow> json \<Rightarrow> json" where
  "set_member key v (JObj m) =
     JObj (if map_of m key = None then m @ [(key, v)] else map (\<lambda>(k, x). (k, if k = key then v else x)) m)"
| "set_member key v j = j"

fun map_member :: "string \<Rightarrow> (json \<Rightarrow> json) \<Rightarrow> json \<Rightarrow> json" where
  "map_member key f (JObj m) = JObj (map (\<lambda>(k, x). (k, if k = key then f x else x)) m)"
| "map_member key f j = j"

fun map_elements :: "(json \<Rightarrow> json) \<Rightarrow> json \<Rightarrow> json" where
  "map_elements f (JArr xs) = JArr (map f xs)"
| "map_elements f j = j"

section \<open>URIs\<close>

definition uri_scheme :: string where
  "uri_scheme = ''homelab://''"

fun parse_parameters ::
  "(string \<Rightarrow> json option) \<Rightarrow> json option \<Rightarrow> string option \<Rightarrow> (string \<times> string) list
     \<Rightarrow> server_error + json option \<times> string option" where
  "parse_parameters parse input filter_text [] = Inr (input, filter_text)"
| "parse_parameters parse input filter_text ((key, v) # pairs) =
     (if key = ''input'' \<and> input = None then
        (case parse v of
           None \<Rightarrow> Inl (SE_InvalidParams ''invalid resource input JSON'')
         | Some j \<Rightarrow>
             if as_object j = None then Inl (SE_InvalidParams ''resource input must be an object'')
             else parse_parameters parse (Some j) filter_text pairs)
      else if key = ''filter'' \<and> filter_text = None then parse_parameters parse input (Some v) pairs
      else Inl (SE_InvalidParams ''unknown or duplicate resource parameter''))"

definition max_uri_bytes :: nat where
  "max_uri_bytes = 8192"

definition parse_uri ::
  "(string \<Rightarrow> json option) \<Rightarrow> resource_libs \<Rightarrow> string \<Rightarrow> server_error + string \<times> json \<times> string option" where
  "parse_uri parse U uri =
     (if max_uri_bytes < length uri then Inl (SE_InvalidParams ''resource URI exceeds 8192 bytes'')
      else if \<not> starts_with uri uri_scheme \<or> CHR ''#'' \<in> set uri then Inl (SE_NotFound uri)
      else
        let rest = drop (length uri_scheme) uri;
            (route, query) = (case split_once_char (CHR ''?'') rest of None \<Rightarrow> (rest, []) | Some p \<Rightarrow> p) in
        and_then (parse_parameters parse None None (ul_pairs U query)) (\<lambda>(input, filter_text).
          Inr (route, case input of None \<Rightarrow> JObj [] | Some v \<Rightarrow> v, filter_text)))"

definition bind_identity :: "resource_libs \<Rightarrow> json \<Rightarrow> string \<Rightarrow> string \<Rightarrow> server_error + json" where
  "bind_identity U input key encoded =
     (case ul_percent_decode U encoded of
        None \<Rightarrow> Inl (SE_InvalidParams ''invalid resource identity'')
      | Some decoded \<Rightarrow>
          if decoded = [] \<or> CHR ''/'' \<in> set decoded \<or> json_get input key \<noteq> None
          then Inl (SE_InvalidParams ''invalid or conflicting resource identity'')
          else Inr (set_member key (JStr decoded) input))"

definition reject_cursor :: "string option \<Rightarrow> server_error + unit" where
  "reject_cursor cursor =
     (if cursor \<noteq> None then Inl (SE_InvalidParams ''unknown resource cursor'') else Inr ())"

section \<open>Links\<close>

definition dashboards_prefix :: string where
  "dashboards_prefix = ''homelab://grafana/dashboards/''"

definition capabilities_prefix :: string where
  "capabilities_prefix = ''homelab://kubernetes/capabilities/''"

definition add_link :: "resource_libs \<Rightarrow> string \<Rightarrow> (string \<Rightarrow> bool) \<Rightarrow> string \<Rightarrow> string \<Rightarrow> json \<Rightarrow> json" where
  "add_link U identity valid field prefix item =
     (case opt_str (json_get item identity) of
        None \<Rightarrow> item
      | Some i \<Rightarrow>
          if valid i then set_member field (JStr (prefix @ ul_percent_encode U i)) item else item)"

definition linkable_dashboard :: "string \<Rightarrow> bool" where
  "linkable_dashboard i \<longleftrightarrow> (case validate_get_dashboard i of Inl _ \<Rightarrow> False | Inr _ \<Rightarrow> True)"

definition linkable_cluster :: "string \<Rightarrow> bool" where
  "linkable_cluster i \<longleftrightarrow> (case capability_list_input_validate i None of Inl _ \<Rightarrow> False | Inr _ \<Rightarrow> True)"

definition dashboard_link :: "resource_libs \<Rightarrow> json \<Rightarrow> json" where
  "dashboard_link U = add_link U ''uid'' linkable_dashboard ''resource_uri'' dashboards_prefix"

definition cluster_link :: "resource_libs \<Rightarrow> json \<Rightarrow> json" where
  "cluster_link U = add_link U ''name'' linkable_cluster ''capabilities_uri'' capabilities_prefix"

definition enrich_collection :: "resource_libs \<Rightarrow> string \<Rightarrow> json \<Rightarrow> json" where
  "enrich_collection U route v =
     (if route = ''grafana/dashboards'' then map_member ''result'' (map_elements (dashboard_link U)) v
      else if route = ''kubernetes/clusters'' then
        map_member ''result'' (map_member ''clusters'' (map_elements (cluster_link U))) v
      else v)"

section \<open>Reading a resource\<close>

definition read_with ::
  "'w mcp_env \<Rightarrow> server_context \<Rightarrow> json \<Rightarrow> (json \<Rightarrow> 'i option)
     \<Rightarrow> ('w mcp_env \<Rightarrow> server_context \<Rightarrow> 'i \<Rightarrow> 'w mcp_handler) \<Rightarrow> 'w mcp_handler" where
  "read_with E ctx input read_input handler =
     (case read_input input of
        None \<Rightarrow> io_throw (SE_InvalidParams ''invalid resource input'')
      | Some i \<Rightarrow> handler E ctx i)"

definition read_route ::
  "mcp_protocol \<Rightarrow> 'w mcp_env \<Rightarrow> resource_libs \<Rightarrow> server_context \<Rightarrow> string \<Rightarrow> string \<Rightarrow> json \<Rightarrow> 'w mcp_handler" where
  "read_route P E U ctx uri route input =
     (if route = ''kubernetes/clusters'' then
        read_with E ctx input (yi_clusters (mp_kubernetes P)) mcp_kubernetes_clusters
      else if route = ''ceph/clusters'' then read_with E ctx input (zi_clusters (mp_ceph P)) mcp_ceph_clusters
      else if route = ''grafana/dashboards'' then
        read_with E ctx input (gi_list_dashboards (mp_grafana P)) mcp_list_dashboards
      else if route = ''grafana/alert-rules'' then
        read_with E ctx input (gi_alert_rules (mp_grafana P)) mcp_alert_rules
      else if route = ''grafana/recording-rules'' then
        read_with E ctx input (gi_recording_rules (mp_grafana P)) mcp_recording_rules
      else if route = ''tekton/repositories'' then
        read_with E ctx input (xi_repositories (mp_tekton P)) mcp_tekton_repositories
      else if route = ''tekton/workflows'' then
        read_with E ctx input (xi_workflows (mp_tekton P)) mcp_tekton_workflows
      else if route = ''machines'' then read_with E ctx input (ki_list (mp_machines P)) mcp_machine_list
      else if route = ''deploys'' then read_with E ctx input (ki_deploy_list (mp_machines P)) mcp_deploy_list
      else
        (case strip_prefix route ''kubernetes/capabilities/'' of
           Some encoded \<Rightarrow>
             io_bind (io_lift (bind_identity U input ''cluster'' encoded)) (\<lambda>input.
               read_with E ctx input (yi_capabilities (mp_kubernetes P)) mcp_kubernetes_capabilities)
         | None \<Rightarrow>
             (case strip_prefix route ''grafana/dashboards/'' of
                Some encoded \<Rightarrow>
                  io_bind (io_lift (bind_identity U input ''uid'' encoded)) (\<lambda>input.
                    read_with E ctx input (gi_get_dashboard (mp_grafana P)) mcp_get_dashboard)
              | None \<Rightarrow> io_throw (SE_NotFound uri))))"

text \<open>The value a result holds; \<open>raw["structuredContent"]\<close> is null where it is missing.\<close>

definition resource_output :: "mcp_libs \<Rightarrow> json \<Rightarrow> server_error + json" where
  "resource_output L raw =
     (if json_get raw ''isError'' = Some (JBool True)
      then Inl (SE_InvalidParams
        (ml_print L (case json_get raw ''structuredContent'' of None \<Rightarrow> JNull | Some v \<Rightarrow> v)))
      else ok_or (json_get raw ''structuredContent'') (SE_Internal ''resource output unavailable''))"

definition tool_result :: "mcp_libs \<Rightarrow> json \<Rightarrow> string option \<Rightarrow> server_error + json" where
  "tool_result L v filter_text =
     (case filter_text of None \<Rightarrow> Inr (ml_unfiltered L v) | Some f \<Rightarrow> ml_project L f v)"

definition read_resource ::
  "mcp_protocol \<Rightarrow> 'w mcp_env \<Rightarrow> resource_libs \<Rightarrow> server_context \<Rightarrow> string \<Rightarrow> 'w mcp_handler" where
  "read_resource P E U ctx uri =
     (case ul_skill U uri of
        Some skill \<Rightarrow> io_return skill
      | None \<Rightarrow>
          io_bind (io_lift (parse_uri (ml_json (me_libs E)) U uri)) (\<lambda>(route, input, filter_text).
          io_bind (read_route P E U ctx uri route input) (\<lambda>raw.
          io_bind (io_lift (resource_output (me_libs E) raw)) (\<lambda>v.
          io_bind (io_lift (tool_result (me_libs E) (enrich_collection U route v) filter_text)) (\<lambda>projected.
            io_lift (ul_result U uri projected))))))"

section \<open>Lists\<close>

definition input_type :: "string \<Rightarrow> string" where
  "input_type uri =
     (if uri = ''homelab://kubernetes/clusters'' then ''ClusterListInput''
      else if uri = ''homelab://ceph/clusters'' then ''CephClusterListInput''
      else if uri = ''homelab://grafana/dashboards'' then ''ListDashboardsInput''
      else if uri = ''homelab://grafana/alert-rules'' then ''AlertRulesInput''
      else if uri = ''homelab://grafana/recording-rules'' then ''RecordingRulesInput''
      else if uri = ''homelab://tekton/repositories'' then ''RepositoryListInput''
      else if uri = ''homelab://tekton/workflows'' then ''WorkflowListInput''
      else if uri = ''homelab://machines'' then ''MachineListInput''
      else if uri = ''homelab://deploys'' then ''DeployListInput''
      else if starts_with uri capabilities_prefix then ''CapabilityListInput''
      else ''GetDashboardInput'')"

definition path_identity :: "string \<Rightarrow> string option" where
  "path_identity uri =
     (if starts_with uri capabilities_prefix then Some ''cluster''
      else if starts_with uri dashboards_prefix then Some ''uid''
      else None)"

fun without_member :: "string \<Rightarrow> json \<Rightarrow> json" where
  "without_member key (JObj m) = JObj (filter (\<lambda>(k, _). k \<noteq> key) m)"
| "without_member key j = j"

fun without_element :: "string \<Rightarrow> json \<Rightarrow> json" where
  "without_element field (JArr xs) = JArr (filter (\<lambda>x. x \<noteq> JStr field) xs)"
| "without_element field j = j"

text \<open>Indexing a schema for a change adds a null member where it has none.\<close>

definition index_member :: "string \<Rightarrow> (json \<Rightarrow> json) \<Rightarrow> json \<Rightarrow> json" where
  "index_member key f j =
     (if json_get j key = None then set_member key (f JNull) j else map_member key f j)"

definition resource_input_schema :: "resource_libs \<Rightarrow> string \<Rightarrow> json" where
  "resource_input_schema U uri =
     (let schema = ul_schema U (input_type uri) in
      case path_identity uri of
        None \<Rightarrow> schema
      | Some i \<Rightarrow> index_member ''required'' (without_element i) (index_member ''properties'' (without_member i) schema))"

definition list_tools_page ::
  "string option \<Rightarrow> server_error + (string \<times> string \<times> string list \<times> tool_hints) list" where
  "list_tools_page cursor = and_then (reject_cursor cursor) (\<lambda>_. Inr list_tools)"

definition list_resources :: "string option \<Rightarrow> server_error + (string \<times> string \<times> string) list" where
  "list_resources cursor = and_then (reject_cursor cursor) (\<lambda>_. Inr collections)"

text \<open>A listed template: its URI, its name and its description, which ends with the input schema.\<close>

definition list_resource_templates ::
  "(json \<Rightarrow> string) \<Rightarrow> resource_libs \<Rightarrow> string option \<Rightarrow> server_error + (string \<times> string \<times> string) list" where
  "list_resource_templates print U cursor =
     and_then (reject_cursor cursor) (\<lambda>_. Inr
       (map (\<lambda>(uri, name, description).
           (uri @ ''{?input,filter}'', name,
            description @ '' input is percent-encoded JSON; filter is an optional jq projection. Input schema: ''
              @ print (resource_input_schema U uri))) collections
        @ map (\<lambda>(uri, name, description).
           (uri, name,
            description @ '' Identity is bound by the path and must not be repeated in input. Input schema: ''
              @ print (resource_input_schema U uri))) templates))"

end
