(* ===== verification/Mcp_Reads.thy ===== *)
theory Mcp_Reads
  imports Mcp_Resources Grafana_Laws Tekton_Laws
begin

text \<open>
  What the handlers of the queries leave of the state of the server: the step relation \<open>changes_nothing\<close>,
  under which every integration has at most been read, and that every handler of the tool \<open>query\<close> and
  every handler a resource is read with only does such steps.
\<close>

section \<open>Kubernetes queries\<close>

text \<open>A \<open>kubectl\<close> whose queries do steps of a preorder: so do all queries of the client.\<close>

locale kubectl_reader = step_preorder step
  for step :: "'s \<Rightarrow> 's \<Rightarrow> bool" +
  fixes run :: "'s kubectl_run"
  assumes run_query: "io_rel step (run [''get'', ''--raw='' @ path] KOp_Query)"
begin

lemma raw_reads: "io_rel step (raw_cancelled run path KOp_Query)"
  unfolding raw_cancelled_def by (rule run_query)

lemma discover_reads: "io_rel step (discover parse run kind)"
proof (rule io_relI)
  fix s r s'
  assume "discover parse run kind s = (r, s')"
  then obtain x where "raw_cancelled run (capability_path kind) KOp_Query s = (x, s')"
    by (auto simp: discover_def split: prod.splits sum.splits if_splits)
  then show "step s s'" by (rule io_relD [OF raw_reads])
qed

lemma capability_loop_reads: "io_rel step (capability_loop parse run kinds endpoints pages found)"
  by (induction kinds arbitrary: endpoints pages found)
    (auto intro!: step_rules discover_reads split: prod.split)

lemma capabilities_reads: "io_rel step (capabilities_cancelled parse run q)"
  unfolding capabilities_cancelled_def
  by (intro step_rules) (auto intro!: step_rules capability_loop_reads simp: Let_def split: prod.split)

lemma list_loop_reads: "list_loop parse encode run base sel st s = (r, s') \<Longrightarrow> step s s'"
proof (induction "max_pages - ls_pages st" arbitrary: st s rule: less_induct)
  case less
  let ?remaining = "max_inspected - length (ls_items st)"
  let ?requested = "min ?remaining 100"
  let ?round = "io_bind (raw_cancelled run (list_path encode base sel ?requested (ls_continuation st)) KOp_Query)
    (\<lambda>b. io_lift (and_then (parse_json parse b) (list_page st ?requested)))"
  have round: "io_rel step ?round" by (intro step_rules raw_reads)
  show ?case
  proof (cases "?remaining = 0")
    case True
    with less.prems show ?thesis by (subst (asm) list_loop.simps) (auto simp: step_refl)
  next
    case False
    from less.prems False consider x where "?round s = (x, s')"
      | st' s1 where "?round s = (Inr (st', False), s1)" "list_loop parse encode run base sel st' s1 = (r, s')"
      by (subst (asm) list_loop.simps) (auto simp: Let_def split: prod.splits sum.splits bool.splits)
    then show ?thesis
    proof cases
      case 1
      then show ?thesis by (rule io_relD [OF round])
    next
      case (2 st' s1)
      then obtain w where page: "list_page st ?requested w = Inr (st', False)" by (auto simp: io_simps)
      have "max_pages - ls_pages st' < max_pages - ls_pages st"
        using list_page_continues [OF page] by linarith
      from less.hyps [OF this 2(2)] io_relD [OF round 2(1)] show ?thesis by (blast intro: step_trans)
    qed
  qed
qed

lemma list_reads: "io_rel step (list_cancelled parse encode run q)"
  unfolding list_cancelled_def
  by (intro step_rules) (auto intro!: step_rules io_relI dest: list_loop_reads)

lemma query_reads: "io_rel step (query_cancelled parse encode run q)"
  unfolding query_cancelled_def by (intro step_rules raw_reads list_reads)

lemma check_pod_reads: "io_rel step (check_pod parse run q path)"
  unfolding check_pod_def by (intro step_rules raw_reads)

lemma pod_logs_reads: "io_rel step (pod_logs_cancelled parse run cluster secrets q)"
  unfolding pod_logs_cancelled_def by (intro step_rules raw_reads check_pod_reads)

end

text \<open>Only processes \<open>kubectl get --raw=\<close> have been asked for, as queries.\<close>

definition only_queries :: "'w kubectl_sys \<Rightarrow> 'w kubectl_sys \<Rightarrow> bool" where
  "only_queries s s' \<longleftrightarrow>
     (\<exists>tr. fst s' = fst s @ tr \<and> list_all (\<lambda>(args, op). op = KOp_Query \<and> (\<exists>path. args = [''get'', ''--raw='' @ path])) tr)"

lemma only_queries_refl: "only_queries s s"
  by (simp add: only_queries_def)

lemma only_queries_trans: "only_queries s t \<Longrightarrow> only_queries t u \<Longrightarrow> only_queries s u"
  unfolding only_queries_def by fastforce

interpretation kq: kubectl_reader only_queries "traced_kubectl run" for run
proof
  fix s t u :: "'w kubectl_sys" and path
  show "only_queries s s" by (rule only_queries_refl)
  show "only_queries s t \<Longrightarrow> only_queries t u \<Longrightarrow> only_queries s u" by (rule only_queries_trans)
  show "io_rel only_queries (traced_kubectl run [''get'', ''--raw='' @ path] KOp_Query)"
    by (auto simp: io_rel_def traced_kubectl_def only_queries_def split: prod.splits)
qed

lemma dispatch_reads:
  "io_rel only_queries (dispatch_cancelled parse encode (\<lambda>c. traced_kubectl (run_of c)) catalog command)"
  by (cases command)
    (auto intro!: kq.step_rules kq.capabilities_reads kq.query_reads kq.pod_logs_reads)

section \<open>Tekton queries\<close>

lemma discover_workflows_reads: "io_rel reads_only (discover_workflows E c rs)"
proof (induction rs)
  case (Cons r rs)
  have rest: "io_rel reads_only (io_bind (discover_workflows E c rs) (\<lambda>(workflows, failures). io_return (f workflows failures)))" for f
    using Cons.IH by (intro tekton_rules)
  show ?case
  proof (rule io_relI)
    fix s x s'
    assume run: "discover_workflows E c (r # rs) s = (x, s')"
    obtain y t where found: "repository_workflows E c r s = (y, t)" by (metis surj_pair)
    then have "reads_only s t" by (rule io_relD [OF repository_workflows_reads])
    moreover have "reads_only t s'"
      using run found reads_only_refl io_relD [OF rest]
      by (auto split: sum.splits tekton_stop.splits)
    ultimately show "reads_only s s'" by (rule reads_only_trans)
  qed
qed (auto intro: tekton_rules)

lemma wait_sleep_reads: "reads_only s (wait_sleep E deadline s)"
  by (simp add: reads_only_def wait_sleep_def)

lemma poll_run_reads: "poll_run E c run_id r deadline s = (x, s') \<Longrightarrow> reads_only s s'"
proof (induction E c run_id r deadline s rule: poll_run.induct)
  case (1 E c run_id r deadline s)
  let ?s1 = "wait_sleep E deadline s"
  show ?case
  proof (cases "deadline \<le> ts_clock ?s1")
    case True
    with "1.prems" show ?thesis by (subst (asm) poll_run.simps) (auto simp: wait_sleep_reads)
  next
    case False
    obtain y s2 where read: "owned_run_matching E c run_id r ?s1 = (y, s2)" by (metis surj_pair)
    have s2: "reads_only s s2"
      using wait_sleep_reads io_relD [OF owned_run_matching_reads read] by (rule reads_only_trans)
    from "1.prems" False read have "s' = s2 \<or> (\<exists>run normalized. y = Inr run \<and>
        normalize_run run (tcl_namespace c) r = Some normalized \<and> \<not> terminal_status normalized
        \<and> poll_run E c run_id r deadline s2 = (x, s'))"
      by (subst (asm) poll_run.simps)
        (auto simp: Let_def split: sum.splits tekton_stop.splits option.splits if_splits)
    then show ?thesis
    proof (elim disjE exE conjE)
      fix run normalized
      assume "y = Inr run" "normalize_run run (tcl_namespace c) r = Some normalized" "\<not> terminal_status normalized"
        "poll_run E c run_id r deadline s2 = (x, s')"
      from "1.IH" [OF refl False read [symmetric] this] s2 show ?thesis
        by (blast intro: reads_only_trans)
    qed (use s2 in simp)
  qed
qed

lemma wait_reads: "io_rel reads_only (tekton_wait E c q)"
proof -
  have poll: "io_rel reads_only (poll_run E c run_id r deadline)" for run_id r deadline
    by (rule io_relI) (rule poll_run_reads)
  have "io_rel reads_only (wait_until E c run_id deadline)" for run_id deadline
    unfolding wait_until_def final_read_def
    by (intro tekton_rules tekton_timeout_reads owned_run_reads owned_run_matching_reads poll)
  then have "io_rel reads_only (\<lambda>s. wait_until E c (rw_run_id q) (ts_clock s + n) s)" for n
    unfolding io_rel_def by blast
  then show ?thesis unfolding tekton_wait_def by (intro tekton_rules)
qed

lemma tekton_query_reads:
  "io_rel reads_only (tekton_repositories E c limit)"
  "io_rel reads_only (tekton_workflows E c wq)"
  "io_rel reads_only (tekton_runs E c rq)"
  "io_rel reads_only (tekton_run E c run_id)"
  "io_rel reads_only (tekton_status E c run_id)"
  "io_rel reads_only (tekton_tasks E c tq)"
  "io_rel reads_only (tekton_logs E c lq)"
  unfolding tekton_repositories_def tekton_workflows_def workflows_inner_def tekton_runs_def tekton_run_def
    tekton_status_def tekton_tasks_def tekton_logs_def Let_def
  by (intro tekton_rules tekton_timeout_reads repository_catalog_reads discover_workflows_reads find_repository_reads
      kube_list_reads owned_run_reads task_object_reads verify_task_pod_reads read_step_logs_reads)+

section \<open>Grafana queries\<close>

definition grafana_reads :: "grafana_client \<Rightarrow> 'w grafana_sys \<Rightarrow> 'w grafana_sys \<Rightarrow> bool" where
  "grafana_reads c s s' \<longleftrightarrow>
     (\<exists>tr. gs_trace s' = gs_trace s @ tr \<and> list_all (\<lambda>(request, x). reading_request c request) tr)"

lemma grafana_reads_none: "gs_trace s' = gs_trace s \<Longrightarrow> grafana_reads c s s'"
  by (simp add: grafana_reads_def)

lemma grafana_reads_one: "gs_trace s' = gs_trace s @ [(request, x)] \<Longrightarrow> reading_request c request \<Longrightarrow> grafana_reads c s s'"
  by (simp add: grafana_reads_def)

lemma grafana_query_reads:
  "io_rel (grafana_reads c) (execute_logql E c q1)"
  "io_rel (grafana_reads c) (execute_promql E c q2)"
  "io_rel (grafana_reads c) (execute_traceql E c q3)"
  "io_rel (grafana_reads c) (execute_profiles E c q4)"
  "io_rel (grafana_reads c) (gf_alert_rules E c q5)"
  "io_rel (grafana_reads c) (gf_recording_rules E c q6)"
  "io_rel (grafana_reads c) (gf_alert_instances E c q7)"
  "io_rel (grafana_reads c) (gf_list_silences E c q8)"
  "io_rel (grafana_reads c) (gf_list_dashboards E c q9)"
  "io_rel (grafana_reads c) (gf_get_dashboard E c q10)"
  by (rule io_relI; drule query_laws; blast intro: grafana_reads_none grafana_reads_one)+

lemma render_attempt_trace:
  assumes "render_attempt E request s = (r, s')"
  shows "gs_trace s' = gs_trace s \<or> (\<exists>x. gs_trace s' = gs_trace s @ [(request, x)])"
proof -
  have p: "gs_trace t = gs_trace s" if "gf_permit E s = (r, t)" for s r t
    using gf_permit_step [OF that] by auto
  have q: "gs_trace t = gs_trace s" if "gf_render_permit E s = (r, t)" for s r t
    using gf_render_permit_step [OF that] by auto
  have e: "\<exists>x. gs_trace t = gs_trace s @ [(request, x)]" if "gf_exchange E request s = (r, t)" for s r t
    using gf_exchange_step [OF that] by auto
  show ?thesis
    using assms
    by (auto simp: render_attempt_def io_bind_def gf_lift_def io_lift_def io_guard_def guard_or_def
        dest!: p q e split: prod.splits sum.splits if_splits)
qed

lemma render_observed_reads:
  assumes "reading_request c request"
  shows "io_rel (grafana_reads c) (gf_observed action mode datasource (render_attempt E request))"
proof (rule io_relI)
  fix s r s'
  assume "gf_observed action mode datasource (render_attempt E request) s = (r, s')"
  from gf_observed_eq [OF _ this] render_attempt_keeps_metrics [of E request] obtain t m where
    t: "render_attempt E request (s\<lparr>gs_metrics := m\<rparr>) = (r, t)" and s': "gs_trace s' = gs_trace t" by fastforce
  from render_attempt_trace [OF t] show "grafana_reads c s s'"
    unfolding s' [symmetric] using assms by (auto intro: grafana_reads_none grafana_reads_one)
qed

lemma render_reads:
  "io_rel (grafana_reads c) (gf_render_dashboard E c d)"
  "io_rel (grafana_reads c) (gf_render_panel E c p)"
  by (auto simp: gf_render_dashboard_def gf_render_panel_def gf_render_def intro!: render_observed_reads
      split: prod.split)

section \<open>Ceph queries\<close>

lemma ceph_query_reads: "io_rel quiet (ceph_catalog_query parse db_of clients command)"
proof -
  have "io_rel quiet (with_deadline e (client_query_command (ceph_query parse db c) cluster command))" for e db c cluster
    using ceph.client_query_command_quiet [of parse db c cluster command]
    by (auto simp: io_rel_def with_deadline_def split: prod.splits)
  then show ?thesis
    unfolding ceph_catalog_query_def by (intro qs.step_rules)
qed

section \<open>The state of the server\<close>

text \<open>
  Only reading requests have been sent, only queries have been asked for, and the machines, the deploys
  and the counter of mutations are as they were.
\<close>

definition changes_nothing :: "grafana_client \<Rightarrow> 'w mcp_sys \<Rightarrow> 'w mcp_sys \<Rightarrow> bool" where
  "changes_nothing c s s' \<longleftrightarrow>
     grafana_reads c (sv_grafana s) (sv_grafana s') \<and> reads_only (sv_tekton s) (sv_tekton s')
     \<and> (\<forall>cluster. quiet (sv_ceph s cluster) (sv_ceph s' cluster))
     \<and> fst (sv_kube s') = fst (sv_kube s) \<and> only_queries (snd (sv_kube s)) (snd (sv_kube s'))
     \<and> sv_machines s' = sv_machines s \<and> sv_deploy s' = sv_deploy s"

lemmas part_refl = grafana_reads_none [OF refl] reads_only_refl quiet_refl only_queries_refl

lemma grafana_reads_trans: "grafana_reads c s t \<Longrightarrow> grafana_reads c t u \<Longrightarrow> grafana_reads c s u"
  unfolding grafana_reads_def by fastforce

interpretation cn: step_preorder "changes_nothing c" for c
proof
  fix s t u :: "'w mcp_sys"
  show "changes_nothing c s s" by (simp add: changes_nothing_def part_refl)
  show "changes_nothing c s t \<Longrightarrow> changes_nothing c t u \<Longrightarrow> changes_nothing c s u"
    unfolding changes_nothing_def
    by (auto intro: grafana_reads_trans reads_only_trans quiet_trans only_queries_trans)
qed

lemma on_parts_reads:
  "io_rel (grafana_reads c) m1 \<Longrightarrow> io_rel (changes_nothing c) (on_grafana m1)"
  "io_rel reads_only m2 \<Longrightarrow> io_rel (changes_nothing c) (on_tekton m2)"
  "io_rel quiet m3 \<Longrightarrow> io_rel (changes_nothing c) (on_ceph cluster m3)"
  "io_rel only_queries m4 \<Longrightarrow> io_rel (changes_nothing c) (on_kube m4)"
  "io_rel (changes_nothing c) (on_machines (\<lambda>table. (f table, table)))"
  by (auto simp: io_rel_def changes_nothing_def on_grafana_def on_tekton_def on_ceph_def on_kube_def on_machines_def
      part_refl split: prod.splits) (metis prod.collapse)

lemma selected_reads: "io_rel (changes_nothing c) m \<Longrightarrow> io_rel (changes_nothing c) (select_cancelled ctx m)"
  by (cases "sx_cancellation ctx")
    (auto simp: select_cancelled_def io_rel_def io_throw_def cn.step_refl, metis prod.collapse)

lemma replied_reads: "io_rel R m \<Longrightarrow> io_rel R (reply_with stopped failed done' m)"
  by (auto simp: reply_with_def io_rel_def split: prod.splits)

lemma valid_reads:
  "(\<And>q. io_rel (changes_nothing c) (run q)) \<Longrightarrow> io_rel (changes_nothing c) (with_valid validated invalid run)"
  by (auto simp: with_valid_def intro: cn.rel_return split: sum.split)

lemmas handler_reads = valid_reads replied_reads selected_reads on_parts_reads

end
