(* ===== verification/Mcp_Laws.thy ===== *)
theory Mcp_Laws
  imports Mcp_Reads
begin

text \<open>
  What the MCP surface guarantees: the tool listed as read-only and every resource change nothing, what a
  cancelled call is answered with, that a link added to a listing leads to the resource it stands for, and
  that the path of a resource, and nothing else, says which object is read.
\<close>

section \<open>The handlers of queries\<close>

abbreviation changes_none :: "'w mcp_env \<Rightarrow> 'w mcp_sys \<Rightarrow> 'w mcp_sys \<Rightarrow> bool" where
  "changes_none E \<equiv> changes_nothing (ms_grafana (me_services E))"

lemma grafana_handler_reads:
  "(\<And>q. io_rel (grafana_reads (ms_grafana (me_services E))) (run q)) \<Longrightarrow>
     io_rel (changes_none E) (grafana_query_handler E ctx subject validated run result_of)"
  unfolding grafana_query_handler_def by (intro handler_reads)

lemma tekton_handler_reads:
  "(\<And>q. io_rel reads_only (run (ms_tekton_env (me_services E)) (ms_tekton (me_services E)) q)) \<Longrightarrow>
     io_rel (changes_none E) (tekton_query_handler E ctx subject validated run)"
  unfolding tekton_query_handler_def by (intro handler_reads)

lemma ceph_handler_reads: "io_rel (changes_none E) (dispatch_ceph_query E ctx validated subject)"
  unfolding dispatch_ceph_query_def by (intro handler_reads ceph_query_reads)

lemma kubernetes_handler_reads: "io_rel (changes_none E) (dispatch_kubernetes_query E validated subject)"
  unfolding dispatch_kubernetes_query_def
proof (rule valid_reads)
  fix command
  have "io_rel (changes_none E) (on_kube (dispatch_cancelled (ml_json (me_libs E)) (ms_kube_encode (me_services E))
      (\<lambda>c. traced_kubectl (ms_kubectl (me_services E) c)) (ms_kubernetes (me_services E)) command))" (is "io_rel _ ?m")
    by (intro on_parts_reads dispatch_reads)
  then show "io_rel (changes_none E) (\<lambda>s. let (r, t) = ?m s in
      (case r of Inr output \<Rightarrow> Inr (json_result E (ml_query_result (me_libs E) output))
       | Inl e \<Rightarrow> if e = KE_RequestCancelled then Inl request_cancelled else Inr (kubernetes_tool_error subject e), t))"
    by (auto simp: io_rel_def split: prod.splits)
qed

lemma grafana_handlers_read:
  "io_rel (changes_none E) (mcp_logql E ctx i1)" "io_rel (changes_none E) (mcp_promql E ctx i2)"
  "io_rel (changes_none E) (mcp_traceql E ctx i3)" "io_rel (changes_none E) (mcp_profiles E ctx i4)"
  "io_rel (changes_none E) (mcp_alert_rules E ctx i5)" "io_rel (changes_none E) (mcp_recording_rules E ctx i6)"
  "io_rel (changes_none E) (mcp_alert_instances E ctx i7)" "io_rel (changes_none E) (mcp_list_silences E ctx i8)"
  "io_rel (changes_none E) (mcp_list_dashboards E ctx i9)" "io_rel (changes_none E) (mcp_get_dashboard E ctx i10)"
  "io_rel (changes_none E) (mcp_render_dashboard E ctx i11)" "io_rel (changes_none E) (mcp_render_panel E ctx i12)"
  unfolding mcp_logql_def mcp_promql_def mcp_traceql_def mcp_profiles_def mcp_alert_rules_def mcp_recording_rules_def
    mcp_alert_instances_def mcp_list_silences_def mcp_list_dashboards_def mcp_get_dashboard_def
    mcp_render_dashboard_def mcp_render_panel_def
  by (intro grafana_handler_reads grafana_query_reads render_reads)+

lemma tekton_handlers_read:
  "io_rel (changes_none E) (mcp_tekton_repositories E ctx i1)" "io_rel (changes_none E) (mcp_tekton_workflows E ctx i2)"
  "io_rel (changes_none E) (mcp_tekton_runs E ctx i3)" "io_rel (changes_none E) (mcp_tekton_run E ctx i4)"
  "io_rel (changes_none E) (mcp_tekton_run_status E ctx i5)" "io_rel (changes_none E) (mcp_tekton_run_wait E ctx i6)"
  "io_rel (changes_none E) (mcp_tekton_tasks E ctx i7)" "io_rel (changes_none E) (mcp_tekton_task_logs E ctx i8)"
  unfolding mcp_tekton_repositories_def mcp_tekton_workflows_def mcp_tekton_runs_def mcp_tekton_run_def
    mcp_tekton_run_status_def mcp_tekton_run_wait_def mcp_tekton_tasks_def mcp_tekton_task_logs_def
  by (intro tekton_handler_reads tekton_query_reads wait_reads)+

lemma kubernetes_handlers_read:
  "io_rel (changes_none E) (mcp_kubernetes_clusters E ctx i1)" "io_rel (changes_none E) (mcp_kubernetes_capabilities E ctx i2)"
  "io_rel (changes_none E) (mcp_kubernetes_resources E ctx i3)" "io_rel (changes_none E) (mcp_kubernetes_resource E ctx i4)"
  "io_rel (changes_none E) (mcp_kubernetes_pod_logs E ctx i5)"
  unfolding mcp_kubernetes_clusters_def mcp_kubernetes_capabilities_def mcp_kubernetes_resources_def
    mcp_kubernetes_resource_def mcp_kubernetes_pod_logs_def
  by (rule kubernetes_handler_reads)+

lemma ceph_handlers_read:
  "io_rel (changes_none E) (mcp_ceph_clusters E ctx i1)" "io_rel (changes_none E) (mcp_ceph_status E ctx i2)"
  "io_rel (changes_none E) (mcp_ceph_metrics E ctx i3)" "io_rel (changes_none E) (mcp_ceph_osds E ctx i4)"
  "io_rel (changes_none E) (mcp_ceph_osd E ctx i5)" "io_rel (changes_none E) (mcp_ceph_osd_safe_to_destroy E ctx i6)"
  "io_rel (changes_none E) (mcp_ceph_devices E ctx i7)" "io_rel (changes_none E) (mcp_ceph_device E ctx i8)"
  "io_rel (changes_none E) (mcp_ceph_flags E ctx i9)" "io_rel (changes_none E) (mcp_ceph_tasks E ctx i10)"
  unfolding mcp_ceph_clusters_def mcp_ceph_status_def mcp_ceph_metrics_def mcp_ceph_osds_def mcp_ceph_osd_def
    mcp_ceph_osd_safe_to_destroy_def mcp_ceph_devices_def mcp_ceph_device_def mcp_ceph_flags_def mcp_ceph_tasks_def
  by (rule ceph_handler_reads)+

lemma inventory_handlers_read:
  "io_rel (changes_none E) (mcp_machine_list E ctx i1)" "io_rel (changes_none E) (mcp_deploy_list E ctx i2)"
  unfolding mcp_machine_list_def mcp_deploy_list_def
  by (intro replied_reads selected_reads on_parts_reads cn.rel_return)+

lemmas handlers_read = grafana_handlers_read tekton_handlers_read kubernetes_handlers_read ceph_handlers_read
  inventory_handlers_read

section \<open>The catalog of tools\<close>

definition entry_reads :: "'w mcp_entry \<Rightarrow> bool" where
  "entry_reads entry \<longleftrightarrow> (\<forall>P E ctx v. io_rel (changes_none E) (snd (snd entry) P E ctx v))"

lemma tool_action_reads:
  "(\<And>E ctx i. io_rel (changes_none E) (handler E ctx i)) \<Longrightarrow> entry_reads (tool_action tool action read_input handler)"
  by (simp add: entry_reads_def tool_action_def cn.rel_throw split: option.split)

lemma query_actions_read: "list_all entry_reads query_actions"
  unfolding query_actions_def list.pred_inject
  by (intro conjI tool_action_reads handlers_read) (simp only: list.pred_inject)

lemma find_entry: "List.find p xs = Some x \<Longrightarrow> p x \<and> x \<in> set xs"
  by (auto simp: find_Some_iff)

lemma query_entry: "(''query'', action, handler) \<in> set tool_catalog \<Longrightarrow> (''query'', action, handler) \<in> set query_actions"
  by (auto simp: tool_catalog_def create_actions_def execute_actions_def destroy_actions_def tool_action_def)

lemma call_tool_reads: "io_rel (changes_none E) (call_tool P E ctx ''query'' arguments)"
  unfolding call_tool_def
proof (intro cn.step_rules, goal_cases)
  case (1 a)
  obtain action input filter_text where a: "a = (action, input, filter_text)" by (cases a)
  show ?case
  proof (cases "List.find (\<lambda>(t, a, _). t = ''query'' \<and> a = action) (tool_catalog :: 'a mcp_entry list)")
    case None
    then show ?thesis unfolding a by (simp add: cn.rel_throw)
  next
    case (Some entry)
    from find_entry [OF Some] obtain handler where entry: "entry = (''query'', action, handler)" "entry \<in> set tool_catalog"
      by auto
    with query_entry query_actions_read have "entry_reads entry" by (auto simp: list_all_iff)
    then have "io_rel (changes_none E) (handler P E ctx input)" by (simp add: entry_reads_def entry)
    with Some entry show ?thesis unfolding a by (auto intro: cn.step_rules)
  qed
qed

text \<open>Entries of a list by name.\<close>

lemma entry_actions:
  "action \<in> set (map (\<lambda>(_, action, _). action) (filter (\<lambda>(t, _, _). t = tool) xs)) \<longleftrightarrow> (\<exists>h. (tool, action, h) \<in> set xs)"
  by (induction xs) auto

lemma entry_names:
  "(tool, action) \<in> set (map (\<lambda>(tool, action, handler). (tool, action)) xs) \<longleftrightarrow> (\<exists>h. (tool, action, h) \<in> set xs)"
  by (induction xs) auto

lemma listed_entries:
  "(\<exists>d actions h. (tool, d, actions, h) \<in> set (map (\<lambda>(t, d). (t, d, f t, g t)) ds) \<and> action \<in> set actions)
     \<longleftrightarrow> tool \<in> set (map fst ds) \<and> action \<in> set (f tool)"
  by force

lemma find_no_entry:
  "List.find (\<lambda>(t, a, _). t = tool \<and> a = action) xs = None \<longleftrightarrow> (\<nexists>h. (tool, action, h) \<in> set xs)"
  by (auto simp: find_None_iff)

lemma find_the_entry:
  assumes "distinct (map (\<lambda>(tool, action, handler). action) xs)"
  shows "List.find (\<lambda>(t, a, _). t = tool \<and> a = action) xs = Some (tool, action, h) \<longleftrightarrow> (tool, action, h) \<in> set xs"
  using assms by (induction xs) (auto simp: image_iff)

text \<open>The names in the catalog do not depend on the type of the world.\<close>

lemma catalog_names:
  "map (\<lambda>(tool, action, handler). (tool, action)) (tool_catalog :: 'w mcp_entry list)
     = map (\<lambda>(tool, action, handler). (tool, action)) (tool_catalog :: unit mcp_entry list)"
  unfolding tool_catalog_def query_actions_def create_actions_def execute_actions_def destroy_actions_def
    tool_action_def append.simps list.map prod.case ..

lemma catalog_actions_distinct: "distinct (map (\<lambda>(tool, action, handler). action) tool_catalog)"
  unfolding tool_catalog_def query_actions_def create_actions_def execute_actions_def destroy_actions_def
    tool_action_def append.simps list.map prod.case
  by code_simp

lemma catalog_tools: "list_all (\<lambda>entry. fst entry \<in> {''query'', ''create'', ''execute'', ''destroy''}) tool_catalog"
  unfolding tool_catalog_def query_actions_def create_actions_def execute_actions_def destroy_actions_def
    tool_action_def append.simps by simp

definition tool_lists :: "string \<Rightarrow> string \<Rightarrow> bool" where
  "tool_lists tool action \<longleftrightarrow>
     (\<exists>description actions hints. (tool, description, actions, hints) \<in> set list_tools \<and> action \<in> set actions)"

lemma tool_lists_iff: "tool_lists tool action \<longleftrightarrow> (\<exists>handler. (tool, action, handler) \<in> set (tool_catalog :: 'w mcp_entry list))"
proof -
  let ?names = "{''query'', ''create'', ''execute'', ''destroy''}"
  have "tool_lists tool action \<longleftrightarrow> tool \<in> ?names \<and> action \<in> set (map (\<lambda>(_, action, _). action)
      (filter (\<lambda>(t, _, _). t = tool) (tool_catalog :: unit mcp_entry list)))"
    unfolding tool_lists_def list_tools_def by (subst listed_entries) (simp only: list.map list.set fst_conv)
  also have "\<dots> \<longleftrightarrow> tool \<in> ?names \<and> (\<exists>handler. (tool, action, handler) \<in> set (tool_catalog :: 'w mcp_entry list))"
    unfolding entry_actions entry_names [symmetric] catalog_names [symmetric, where 'w = 'w] ..
  also have "\<dots> \<longleftrightarrow> (\<exists>handler. (tool, action, handler) \<in> set (tool_catalog :: 'w mcp_entry list))"
    using catalog_tools [where 'a = 'w] unfolding list_all_iff by (metis fst_conv)
  finally show ?thesis .
qed

lemmas catalog_find = find_the_entry [OF catalog_actions_distinct]

text \<open>
  C35: A call of a tool runs exactly what the tool lists.  An action that the listing of the tools names for
  the tool is run by the one handler the catalog has for it, on the input of the call, and its answer is
  the answer of that handler as the filter projects it; any other action, also one of another tool, is
  refused as unknown, and the server is as it was.
\<close>

theorem tools_run_what_they_list:
  fixes E :: "'w mcp_env"
  assumes "mp_arguments P tool arguments = Inr (action, input, filter_text)"
  shows "if tool_lists tool action
    then \<exists>!handler. (tool, action, handler) \<in> set tool_catalog
      \<and> call_tool P E ctx tool arguments = io_bind (handler P E ctx input) (\<lambda>output. io_lift (mp_action_result P output filter_text))
    else call_tool P E ctx tool arguments s = (Inl (mp_unknown_action P action), s)"
proof -
  have call: "call_tool P E ctx tool arguments = (case List.find (\<lambda>(t, a, _). t = tool \<and> a = action) tool_catalog of
      None \<Rightarrow> io_throw (mp_unknown_action P action)
    | Some (_, _, handler) \<Rightarrow> io_bind (handler P E ctx input) (\<lambda>output. io_lift (mp_action_result P output filter_text)))"
    by (simp add: call_tool_def assms io_bind_def io_lift_def)
  show ?thesis
  proof (cases "tool_lists tool action")
    case True
    then obtain handler where h: "(tool, action, handler) \<in> set (tool_catalog :: 'w mcp_entry list)"
      unfolding tool_lists_iff [where 'w = 'w] by blast
    then have find: "List.find (\<lambda>(t, a, _). t = tool \<and> a = action) tool_catalog = Some (tool, action, handler)"
      by (simp only: catalog_find)
    have run: "call_tool P E ctx tool arguments
        = io_bind (handler P E ctx input) (\<lambda>output. io_lift (mp_action_result P output filter_text))"
      unfolding call find option.case prod.case ..
    have unique: "h' = handler" if "(tool, action, h') \<in> set tool_catalog" for h'
      using that find unfolding catalog_find [symmetric] by simp
    have "\<exists>!handler. (tool, action, handler) \<in> set tool_catalog \<and> call_tool P E ctx tool arguments
        = io_bind (handler P E ctx input) (\<lambda>output. io_lift (mp_action_result P output filter_text))"
      by (rule ex1I [of _ handler]) (rule conjI [OF h run], rule unique, erule conjunct1)
    with True show ?thesis by simp
  next
    case False
    then have "List.find (\<lambda>(t, a, _). t = tool \<and> a = action) (tool_catalog :: 'w mcp_entry list) = None"
      unfolding tool_lists_iff [where 'w = 'w] find_no_entry .
    then show ?thesis using False unfolding call by (simp add: io_throw_def)
  qed
qed

section \<open>Resources\<close>

lemma read_with_reads:
  "(\<And>i. io_rel (changes_none E) (handler E ctx i)) \<Longrightarrow> io_rel (changes_none E) (read_with E ctx input read_input handler)"
  by (simp add: read_with_def cn.rel_throw split: option.split)

lemma read_route_reads: "io_rel (changes_none E) (read_route P E U ctx uri route input)"
  unfolding read_route_def by (intro cn.step_rules read_with_reads handlers_read)

lemma read_resource_reads: "io_rel (changes_none E) (read_resource P E U ctx uri)"
  unfolding read_resource_def
  by (intro cn.step_rules) (auto intro!: cn.step_rules read_route_reads split: prod.split)

text \<open>
  C33: The tool that is listed as read-only and every read of a resource change nothing: whatever the input
  and however the request is cancelled, Grafana has been sent reading requests only, Tekton, Forgejo and
  the Ceph dashboards no request that changes them, \<open>kubectl\<close> has been run for \<open>get --raw\<close> only, no
  mutation has been counted, and the machines and the deploys are as they were.
\<close>

theorem read_only_surface:
  assumes "th_read_only (hints_of tool) \<and> call_tool P E ctx tool arguments s = (r, s')
    \<or> read_resource P E U ctx uri s = (r, s')"
  shows "changes_nothing (ms_grafana (me_services E)) s s'"
  using assms io_relD [OF call_tool_reads] io_relD [OF read_resource_reads] by (auto simp: hints_of_def)


section \<open>Calls that are cancelled\<close>

abbreviation cancelled :: "server_context \<Rightarrow> bool" where
  "cancelled ctx \<equiv> sx_cancellation ctx \<noteq> CN_Never"

text \<open>An answer that refuses the arguments, and one that says the outcome of a mutation is unknown.\<close>

definition refused_arguments :: "json \<Rightarrow> bool" where
  "refused_arguments v \<longleftrightarrow> (\<exists>message. v = into_mcp_result (tool_error_new ''invalid_arguments'' message False))"

definition unknown_outcome :: "bool \<Rightarrow> json \<Rightarrow> bool" where
  "unknown_outcome retryable v \<longleftrightarrow>
     (\<exists>message. v = into_mcp_result (tool_error_new ''mutation_outcome_unknown'' message retryable))"

lemma refused_answers:
  "refused_arguments (grafana_tool_error subject GE_InvalidArguments)"
  "refused_arguments (tekton_tool_error subject TE_InvalidArguments)"
  "refused_arguments (ceph_tool_error subject CE_InvalidArguments)"
  "refused_arguments invalid_machine_arguments" "refused_arguments invalid_deploy_arguments"
  by (auto simp: refused_arguments_def grafana_tool_error_def tekton_tool_error_def ceph_tool_error_def
      invalid_machine_arguments_def invalid_deploy_arguments_def grafana_into_tool_error_def
      tekton_into_tool_error_def ceph_into_tool_error_def)

lemma unknown_answers:
  "unknown_outcome False (grafana_tool_error subject GE_MutationOutcomeUnknown)"
  "unknown_outcome False (tekton_tool_error subject TE_MutationOutcomeUnknown)"
  "unknown_outcome False (ceph_tool_error subject CE_MutationOutcomeUnknown)"
  "unknown_outcome True inventory_outcome_unknown"
  by (auto simp: unknown_outcome_def grafana_tool_error_def tekton_tool_error_def ceph_tool_error_def
      inventory_outcome_unknown_def grafana_into_tool_error_def tekton_into_tool_error_def ceph_into_tool_error_def)

text \<open>What a cancelled handler may answer: that the arguments are refused, or \<open>stopped\<close>.\<close>

definition cancelled_run ::
  "(server_error + json \<Rightarrow> bool) \<Rightarrow> server_context \<Rightarrow> 'w mcp_handler \<Rightarrow> bool" where
  "cancelled_run stopped ctx m \<longleftrightarrow> (\<forall>s r s'. m s = (r, s') \<longrightarrow>
     (\<exists>v. r = Inr v \<and> refused_arguments v) \<and> s' = s \<or> stopped r \<and> (sx_cancellation ctx = CN_First \<longrightarrow> s' = s))"

lemma cancelled_reply:
  "cancelled ctx \<Longrightarrow> ok stopped \<Longrightarrow> cancelled_run ok ctx (reply_with stopped failed done' (select_cancelled ctx m))"
  by (cases "sx_cancellation ctx")
    (auto simp: cancelled_run_def reply_with_def select_cancelled_def io_throw_def)

lemma cancelled_refusal: "refused_arguments v \<Longrightarrow> cancelled_run ok ctx (io_return v)"
  by (simp add: cancelled_run_def io_return_def)

lemma cancelled_valid:
  "refused_arguments invalid \<Longrightarrow> (\<And>q. cancelled_run ok ctx (run q)) \<Longrightarrow> cancelled_run ok ctx (with_valid validated invalid run)"
  by (simp add: with_valid_def cancelled_refusal split: sum.split)

definition query_stopped :: "server_error + json \<Rightarrow> bool" where
  "query_stopped r \<longleftrightarrow> r = Inl request_cancelled"

definition mutation_stopped :: "bool \<Rightarrow> server_error + json \<Rightarrow> bool" where
  "mutation_stopped retryable r \<longleftrightarrow> (\<exists>v. r = Inr v \<and> unknown_outcome retryable v)"

lemma mutation_stoppedI: "unknown_outcome retryable v \<Longrightarrow> mutation_stopped retryable (Inr v)"
  by (simp add: mutation_stopped_def)

lemma query_stoppedI: "query_stopped (Inl request_cancelled)"
  by (simp add: query_stopped_def)

lemmas stopped_rules = cancelled_valid cancelled_refusal cancelled_reply refused_answers mutation_stoppedI
  unknown_answers query_stoppedI

lemma query_handlers_cancelled:
  assumes "cancelled ctx"
  shows "cancelled_run query_stopped ctx (grafana_query_handler E ctx subject validated run result_of)"
    "cancelled_run query_stopped ctx (tekton_query_handler E ctx subject validated' run')"
    "cancelled_run query_stopped ctx (dispatch_ceph_query E ctx validated'' subject)"
  unfolding grafana_query_handler_def tekton_query_handler_def dispatch_ceph_query_def
  using assms by (intro stopped_rules; assumption)+

lemma mutation_handlers_cancelled:
  assumes "cancelled ctx"
  shows "cancelled_run (mutation_stopped False) ctx (mcp_create_silence E ctx i1)"
    "cancelled_run (mutation_stopped False) ctx (tekton_mutation_handler E ctx subject run command)"
    "cancelled_run (mutation_stopped False) ctx (dispatch_ceph_exec E ctx validated subject)"
    "cancelled_run (mutation_stopped True) ctx (machine_mutation_handler ctx change result_of)"
  unfolding mcp_create_silence_def dispatch_create_silence_def tekton_mutation_handler_def dispatch_ceph_exec_def
    machine_mutation_handler_def
  using assms by (intro stopped_rules; assumption)+

lemma machine_handlers_cancelled:
  assumes "cancelled ctx"
  shows "cancelled_run (mutation_stopped True) ctx (mcp_machine_create E ctx i1)"
    "cancelled_run (mutation_stopped True) ctx (mcp_machine_update E ctx i2)"
    "cancelled_run (mutation_stopped True) ctx (mcp_machine_delete E ctx i3)"
    "cancelled_run (mutation_stopped True) ctx (mcp_host_key_clear E ctx i4)"
    "cancelled_run (mutation_stopped True) ctx (mcp_host_key_replace E ctx i5)"
  by (auto simp: mcp_machine_create_def mcp_machine_update_def mcp_machine_delete_def mcp_host_key_clear_def
      mcp_host_key_replace_def split: option.split
      intro: mutation_handlers_cancelled(4) [OF assms] cancelled_refusal refused_answers)

lemma deploy_run_cancelled:
  assumes "cancelled ctx" "mcp_deploy_run E ctx input s = (r, s')"
  shows "s' = s \<and> ((\<exists>v. r = Inr v \<and> refused_arguments v) \<or> query_stopped r)"
proof -
  have "select_cancelled ctx (machines_read f) s = (Inl None, s)" for f :: "machine_table \<Rightarrow> (repository_error + machine) option"
    using assms(1)
    by (cases "sx_cancellation ctx") (auto simp: select_cancelled_def io_throw_def on_machines_def split: prod.split)
  then show ?thesis
    using assms(2) refused_answers(5)
    by (auto simp: mcp_deploy_run_def io_return_def query_stopped_def split: option.splits)
qed

text \<open>What a cancelled call of a tool is answered with.\<close>

definition stopped_answer :: "string \<Rightarrow> string \<Rightarrow> server_error + json \<Rightarrow> bool" where
  "stopped_answer tool action =
     (if tool = ''query'' \<or> action = ''deploy.run'' then query_stopped
      else mutation_stopped (starts_with action ''machine.''))"

definition entry_cancelled :: "'w mcp_entry \<Rightarrow> bool" where
  "entry_cancelled entry \<longleftrightarrow> (\<forall>P E ctx v s r s'. cancelled ctx \<longrightarrow> snd (snd entry) P E ctx v s = (r, s') \<longrightarrow>
     (r = Inl (mp_bad_input P (fst (snd entry))) \<or> (\<exists>v. r = Inr v \<and> refused_arguments v)) \<and> s' = s
     \<or> stopped_answer (fst entry) (fst (snd entry)) r
       \<and> (sx_cancellation ctx = CN_First \<or> fst (snd entry) = ''deploy.run'' \<longrightarrow> s' = s))"

lemma tool_action_cancelled:
  assumes "\<And>E ctx i. cancelled ctx \<Longrightarrow> cancelled_run (stopped_answer tool action) ctx (handler E ctx i)"
    and "action \<noteq> ''deploy.run''"
  shows "entry_cancelled (tool_action tool action read_input handler)"
  using assms unfolding entry_cancelled_def cancelled_run_def tool_action_def io_throw_def
  by (simp split: option.split) blast

lemma query_actions_cancelled:
  "list_all (\<lambda>entry. starts_with (fst (snd entry)) ''kubernetes.'' \<or> entry_cancelled entry) query_actions"
proof -
  have q: "entry_cancelled (tool_action ''query'' action read_input handler)"
    if "\<And>E ctx i. cancelled ctx \<Longrightarrow> cancelled_run query_stopped ctx (handler E ctx i)" "action \<noteq> ''deploy.run''"
    for action read_input and handler :: "'w mcp_env \<Rightarrow> server_context \<Rightarrow> 'i \<Rightarrow> 'w mcp_handler"
    using that by (intro tool_action_cancelled) (simp_all add: stopped_answer_def)
  show ?thesis
    unfolding query_actions_def list.pred_inject
    by (intro conjI; (simp add: tool_action_def starts_with_def; fail)?; intro disjI2 q;
      (simp; fail)?; unfold mcp_logql_def mcp_promql_def mcp_traceql_def mcp_profiles_def
        mcp_alert_instances_def mcp_list_silences_def mcp_render_dashboard_def mcp_render_panel_def mcp_tekton_runs_def
        mcp_tekton_run_def mcp_tekton_run_status_def mcp_tekton_run_wait_def mcp_tekton_tasks_def
        mcp_tekton_task_logs_def mcp_ceph_status_def mcp_ceph_metrics_def mcp_ceph_osds_def mcp_ceph_osd_def
        mcp_ceph_osd_safe_to_destroy_def mcp_ceph_devices_def mcp_ceph_device_def mcp_ceph_flags_def mcp_ceph_tasks_def;
      rule query_handlers_cancelled; assumption)
qed

lemma mutation_actions_cancelled:
  "list_all (\<lambda>entry. starts_with (fst (snd entry)) ''kubernetes.'' \<or> fst (snd entry) = ''deploy.run'' \<or> entry_cancelled entry)
     (create_actions @ execute_actions @ destroy_actions)"
proof -
  have o: "entry_cancelled (tool_action tool action read_input handler)"
    if "\<And>E ctx i. cancelled ctx \<Longrightarrow> cancelled_run (mutation_stopped retryable) ctx (handler E ctx i)"
      "tool \<noteq> ''query'' \<and> action \<noteq> ''deploy.run'' \<and> starts_with action ''machine.'' = retryable"
    for tool action retryable read_input and handler :: "'w mcp_env \<Rightarrow> server_context \<Rightarrow> 'i \<Rightarrow> 'w mcp_handler"
    using that by (intro tool_action_cancelled) (simp_all add: stopped_answer_def)
  have t: "cancelled ctx \<Longrightarrow> cancelled_run (mutation_stopped False) ctx (mcp_tekton_dispatch E ctx i1)"
    "cancelled ctx \<Longrightarrow> cancelled_run (mutation_stopped False) ctx (mcp_tekton_rerun E ctx i2)"
    "cancelled ctx \<Longrightarrow> cancelled_run (mutation_stopped False) ctx (mcp_tekton_cancel E ctx i3)"
    for ctx and E :: "'w mcp_env" and i1 i2 i3
    unfolding mcp_tekton_dispatch_def mcp_tekton_rerun_def mcp_tekton_cancel_def dispatch_tekton_workflow_def
      dispatch_tekton_rerun_def dispatch_tekton_cancel_def
    by (intro cancelled_valid refused_answers mutation_handlers_cancelled; assumption)+
  have c: "cancelled ctx \<Longrightarrow> cancelled_run (mutation_stopped False) ctx (mcp_ceph_mark_osd E ctx i1)"
    "cancelled ctx \<Longrightarrow> cancelled_run (mutation_stopped False) ctx (mcp_ceph_reweight_osd E ctx i2)"
    "cancelled ctx \<Longrightarrow> cancelled_run (mutation_stopped False) ctx (mcp_ceph_scrub_osd E ctx i3)"
    "cancelled ctx \<Longrightarrow> cancelled_run (mutation_stopped False) ctx (mcp_ceph_destroy_osd E ctx i4)"
    "cancelled ctx \<Longrightarrow> cancelled_run (mutation_stopped False) ctx (mcp_ceph_purge_osd E ctx i5)"
    for ctx and E :: "'w mcp_env" and i1 i2 i3 i4 i5
    unfolding mcp_ceph_mark_osd_def mcp_ceph_reweight_osd_def mcp_ceph_scrub_osd_def mcp_ceph_destroy_osd_def
      mcp_ceph_purge_osd_def
    by (rule mutation_handlers_cancelled; assumption)+
  show ?thesis
    unfolding create_actions_def execute_actions_def destroy_actions_def append.simps list.pred_inject
    by (intro conjI; (simp add: tool_action_def starts_with_def; fail)?; intro disjI2; rule o,
      rule t c machine_handlers_cancelled mutation_handlers_cancelled(1), assumption, simp add: starts_with_def)
qed

text \<open>
  C34: A call that is cancelled says what became of it.  Of the actions of Grafana, Tekton, Ceph, the
  machines and the deploys: unless the input is refused, in which case nothing has happened, a query ends
  with the error that the request was cancelled; a mutation is answered with the tool error that its
  outcome is unknown, which the actions on machines, and no others, report as retryable; and a deploy that
  is cancelled while its machine is looked up ends with the error and leaves everything as it was.  A
  cancellation that is there before the operation runs leaves everything as it was.
\<close>

theorem cancelled_calls_answered:
  assumes "(tool, action, handler) \<in> set tool_catalog" "sx_cancellation ctx \<noteq> CN_Never"
    and "\<not> starts_with action ''kubernetes.''" "handler P E ctx v s = (r, s')"
  shows "(r = Inl (mp_bad_input P action) \<or> (\<exists>v. r = Inr v \<and> refused_arguments v)) \<and> s' = s
    \<or> stopped_answer tool action r \<and> (sx_cancellation ctx = CN_First \<or> action = ''deploy.run'' \<longrightarrow> s' = s)"
proof (cases "action = ''deploy.run''")
  case True
  with assms(1) have "handler = snd (snd (tool_action ''execute'' ''deploy.run'' (\<lambda>P. ki_deploy_run (mp_machines P)) mcp_deploy_run))"
    by (simp add: tool_catalog_def query_actions_def create_actions_def execute_actions_def destroy_actions_def
        tool_action_def)
  with assms(4) True show ?thesis
    by (auto simp: tool_action_def stopped_answer_def io_throw_def dest!: deploy_run_cancelled [OF assms(2)]
        split: option.splits)
next
  case False
  let ?entry = "(tool, action, handler)"
  from assms(1) have "?entry \<in> set query_actions \<or> ?entry \<in> set (create_actions @ execute_actions @ destroy_actions)"
    unfolding tool_catalog_def set_append by blast
  then have "starts_with action ''kubernetes.'' \<or> action = ''deploy.run'' \<or> entry_cancelled ?entry"
    using query_actions_cancelled [unfolded list_all_iff, THEN bspec, of ?entry]
      mutation_actions_cancelled [unfolded list_all_iff, THEN bspec, of ?entry] by auto
  with assms(3) False have "entry_cancelled (tool, action, handler)" by simp
  with assms(2,4) show ?thesis by (auto simp: entry_cancelled_def)
qed

section \<open>Concrete runs\<close>

text \<open>
  A server for the witnesses: Grafana answers with an empty list, nothing else answers, and the inventory
  has one machine.  Two inputs can be read, that of \<open>grafana.silence.list\<close> and that of the actions that
  take a machine.
\<close>

definition sample_grafana_inputs :: grafana_inputs where
  "sample_grafana_inputs = \<lparr>gi_logql = (\<lambda>v. None), gi_promql = (\<lambda>v. None), gi_traceql = (\<lambda>v. None),
     gi_profiles = (\<lambda>v. None), gi_alert_rules = (\<lambda>v. None),
     gi_recording_rules = (\<lambda>v. None), gi_alert_instances = (\<lambda>v. None),
     gi_list_silences = (\<lambda>v. Some (None, None)), gi_list_dashboards = (\<lambda>v. None),
     gi_get_dashboard = (\<lambda>v. None), gi_render_dashboard = (\<lambda>v. None),
     gi_render_panel = (\<lambda>v. None), gi_create_silence = (\<lambda>v. None)\<rparr>"

definition sample_tekton_inputs :: tekton_inputs where
  "sample_tekton_inputs = \<lparr>xi_repositories = (\<lambda>v. None), xi_workflows = (\<lambda>v. None), xi_runs = (\<lambda>v. None),
     xi_run_get = (\<lambda>v. None), xi_run_status = (\<lambda>v. None), xi_run_wait = (\<lambda>v. None),
     xi_tasks = (\<lambda>v. None), xi_logs = (\<lambda>v. None), xi_dispatch = (\<lambda>v. None),
     xi_rerun = (\<lambda>v. None), xi_cancel = (\<lambda>v. None)\<rparr>"

definition sample_kubernetes_inputs :: kubernetes_inputs where
  "sample_kubernetes_inputs = \<lparr>yi_clusters = (\<lambda>v. None), yi_capabilities = (\<lambda>v. None),
     yi_resources = (\<lambda>v. None), yi_resource = (\<lambda>v. None), yi_logs = (\<lambda>v. None),
     yi_restart = (\<lambda>v. None), yi_scale = (\<lambda>v. None), yi_suspend = (\<lambda>v. None),
     yi_trigger = (\<lambda>v. None), yi_delete = (\<lambda>v. None)\<rparr>"

definition sample_ceph_inputs :: ceph_inputs where
  "sample_ceph_inputs = \<lparr>zi_clusters = (\<lambda>v. None), zi_status = (\<lambda>v. None), zi_metrics = (\<lambda>v. None),
     zi_osds = (\<lambda>v. None), zi_osd = (\<lambda>v. None), zi_safe = (\<lambda>v. None),
     zi_devices = (\<lambda>v. None), zi_device = (\<lambda>v. None), zi_flags = (\<lambda>v. None),
     zi_tasks = (\<lambda>v. None), zi_mark = (\<lambda>v. None), zi_reweight = (\<lambda>v. None),
     zi_scrub = (\<lambda>v. None), zi_destroy = (\<lambda>v. None), zi_purge = (\<lambda>v. None)\<rparr>"

definition sample_machine_inputs :: machine_inputs where
  "sample_machine_inputs = \<lparr>ki_list = (\<lambda>v. None), ki_create = (\<lambda>v. None), ki_update = (\<lambda>v. None),
     ki_machine = (\<lambda>v. Some ''m''), ki_host_key = (\<lambda>v. None),
     ki_deploy_list = (\<lambda>v. None), ki_deploy_run = (\<lambda>v. None)\<rparr>"

definition sample_protocol :: mcp_protocol where
  "sample_protocol = \<lparr>mp_arguments = (\<lambda>tool v. case v of JStr action \<Rightarrow> Inr (action, JObj [], None)
         | _ \<Rightarrow> Inl (SE_InvalidParams ''arguments'')),
     mp_bad_input = SE_InvalidParams, mp_unknown_action = SE_NotFound, mp_action_result = (\<lambda>v f. Inr v),
     mp_grafana = sample_grafana_inputs, mp_tekton = sample_tekton_inputs, mp_kubernetes = sample_kubernetes_inputs,
     mp_ceph = sample_ceph_inputs, mp_machines = sample_machine_inputs\<rparr>"

definition sample_url :: located_url where
  "sample_url = \<lparr>url_scheme = ''https'', url_host = Some ''h'', url_username = [], url_password = None,
     url_query = None, url_fragment = None, url_path = ''/'', lu_port = None, lu_segments = Some [], lu_text = ''https://h/''\<rparr>"

definition silent_tekton :: "unit tekton_env" where
  "silent_tekton = \<lparr>lib_json = (\<lambda>t. None), lib_yaml = (\<lambda>t. []), lib_url = (\<lambda>t. None), lib_percent = Some,
     lib_base64 = (\<lambda>t. None), lib_digest = (\<lambda>t. t), tn_joins = (\<lambda>u. True), tn_permit = Pair True,
     tn_waiter = Pair True, tn_token_file = Pair None, tn_exchange = (\<lambda>q. Pair HX_Failed), tn_elapsed = (\<lambda>w. 1)\<rparr>"

definition silent_deploys :: "unit deploy_env" where
  "silent_deploys = \<lparr>dn_cancelled = Pair False, dn_random = Pair None, dn_mkdir = (\<lambda>path. Pair None),
     dn_keygen = (\<lambda>args. Pair (KG_Exited (Some 1))), dn_chmod = (\<lambda>path. Pair None),
     dn_metadata = (\<lambda>path. Pair (Inr \<lparr>fi_is_file = True, fi_len = 20\<rparr>)), dn_read = (\<lambda>path. Pair (Inr [])),
     dn_write = (\<lambda>path content. Pair None), dn_remove = (\<lambda>path. Pair None), dn_exchange = (\<lambda>q. Pair HX_Failed),
     dn_uv = (\<lambda>cmd. Pair \<lparr>uv_spawn_error = None, uv_stdout_pipe = True, uv_stderr_pipe = True, uv_polls = []\<rparr>),
     dn_remove_dir = (\<lambda>path w. w)\<rparr>"

definition sample_services :: "unit mcp_services" where
  "sample_services = \<lparr>ms_grafana_env = sample_grafana (JArr []) 200 ''[]'', ms_grafana = Grafana_Laws.sample_client,
     ms_tekton_env = silent_tekton,
     ms_tekton = \<lparr>tcl_forgejo_origin = sample_url, tcl_forgejo_token = ''t'', tcl_pac_secret = ''s'',
       tcl_namespace = ''ci'', tcl_kube_origin = ''https://k'', tcl_redactions = []\<rparr>,
     ms_kubectl = (\<lambda>c args op. io_throw KE_UpstreamUnavailable), ms_kube_encode = (\<lambda>t. t),
     ms_now = ''now'', ms_seconds = 0, ms_kubernetes = [],
     ms_dashboard = (\<lambda>cluster. \<lparr>cd_joins = (\<lambda>path. True), cd_permit = Pair True, cd_lock = (\<lambda>t w. (Some t, w)),
       cd_exchange = (\<lambda>q. Pair HX_Failed)\<rparr>),
     ms_ceph = [], ms_deploy_env = silent_deploys, ms_signer = (\<lambda>key. io_return ''certificate''),
     ms_render_inventory = (\<lambda>j. None),
     ms_runner = \<lparr>dr_catalog = \<lparr>dc_root = ''/srv'', dc_entries = []\<rparr>, dr_uv = ''/uv'', dr_keygen = ''/keygen'',
       dr_temp_root = ''/tmp''\<rparr>,
     ms_deploy_permits = 1, ms_worker_delivers = True, ms_database_fails = False, ms_new_id = 8, ms_database_now = 9,
     ms_collate = (\<lambda>t. t)\<rparr>"

definition sample_mcp_libs :: mcp_libs where
  "sample_mcp_libs = \<lparr>ml_json = (\<lambda>t. None), ml_print = (\<lambda>v. []), ml_base64_decode = (\<lambda>t. None),
     ml_base64 = (\<lambda>t. t), ml_uuid = (\<lambda>t. Some 7), ml_uuid_text = (\<lambda>u. ''7''), ml_rfc3339 = (\<lambda>n. ''then''),
     ml_query_result = (\<lambda>q. JNull), ml_exec_result = (\<lambda>q. JNull), ml_system_info = (\<lambda>q. JNull),
     ml_metadata = (\<lambda>q. JNull), ml_unfiltered = (\<lambda>v. v), ml_project = (\<lambda>f v. Inr v)\<rparr>"

definition sample_mcp :: "unit mcp_env" where
  "sample_mcp = \<lparr>me_services = sample_services, me_libs = sample_mcp_libs\<rparr>"

definition sample_mcp_sys :: "unit mcp_sys" where
  "sample_mcp_sys = \<lparr>sv_grafana = sample_grafana_sys, sv_tekton = \<lparr>ts_clock = 0, ts_trace = [], ts_world = ()\<rparr>,
     sv_ceph = (\<lambda>cluster. \<lparr>cs_token = None, cs_progress = False, cs_trace = [], cs_world = ()\<rparr>),
     sv_kube = (0, [], ()), sv_machines = [(7, sample_row)], sv_deploy = \<lparr>dy_trace = [], dy_world = ()\<rparr>\<rparr>"

lemmas sample_mcp_defs = sample_mcp_def sample_services_def sample_mcp_libs_def sample_mcp_sys_def sample_protocol_def
  sample_grafana_inputs_def sample_machine_inputs_def

abbreviation undisturbed :: server_context where
  "undisturbed \<equiv> \<lparr>sx_cancellation = CN_Never\<rparr>"

lemma sample_silences:
  "\<exists>s'. mcp_list_silences sample_mcp undisturbed (None, None) sample_mcp_sys
       = (Inr (gr_list ''silences'' []), s') \<and> length (gs_trace (sv_grafana s')) = 1"
proof -
  let ?E = "sample_grafana (JArr []) 200 ''[]''"
  have "gf_status_error GK_Read 200 = None"
    by (simp add: gf_status_error_def status_client_error_def status_success_def)
  moreover have "normalize_silences sample_calendar None 50 (JArr []) = Inr (gr_list ''silences'' [])"
    by (simp add: normalize_silences_def need_def)
  ultimately obtain t where t: "gf_list_silences ?E Grafana_Laws.sample_client (None, 50) sample_grafana_sys
      = (Inr (gr_list ''silences'' []), t)" "length (gs_trace t) = 1"
    using sample_run [of GK_Read 200 "normalize_silences sample_calendar None 50" "JArr []" _ "''[]''"]
    by (fastforce simp: gf_list_silences_def)
  have "validate_list_silences None None = Inr (None, 50)" by (simp add: validate_list_silences_def limit_or_def)
  with t show ?thesis
    by (simp add: mcp_list_silences_def grafana_query_handler_def with_valid_def reply_with_def select_cancelled_def
        on_grafana_def json_result_def sample_mcp_def sample_services_def sample_mcp_libs_def sample_mcp_sys_def)
qed

lemma sample_entries:
  "(''query'', snd (tool_action ''query'' ''grafana.silence.list'' (\<lambda>P. gi_list_silences (mp_grafana P)) mcp_list_silences))
     \<in> set tool_catalog"
  "(''destroy'', snd (tool_action ''destroy'' ''machine.delete'' (\<lambda>P. ki_machine (mp_machines P)) mcp_machine_delete))
     \<in> set tool_catalog"
  by (simp_all add: tool_catalog_def query_actions_def destroy_actions_def tool_action_def del: o_apply)

lemma sample_call:
  "call_tool sample_protocol sample_mcp undisturbed ''query'' (JStr ''grafana.silence.list'')
     = mcp_list_silences sample_mcp undisturbed (None, None)"
proof -
  let ?h = "\<lambda>P E ctx v. case gi_list_silences (mp_grafana P) v of
    None \<Rightarrow> io_throw (mp_bad_input P ''grafana.silence.list'') | Some i \<Rightarrow> mcp_list_silences E ctx i"
  have "List.find (\<lambda>(t, a, _). t = ''query'' \<and> a = ''grafana.silence.list'') (tool_catalog :: unit mcp_entry list)
      = Some (''query'', ''grafana.silence.list'', ?h)"
    unfolding catalog_find using sample_entries(1) by (simp add: tool_action_def)
  then show ?thesis
    by (simp add: call_tool_def sample_protocol_def sample_grafana_inputs_def io_bind_def io_lift_def fun_eq_iff
        split: prod.split sum.split)
qed

lemma read_only_surface_witness:
  "\<exists>s'. call_tool sample_protocol sample_mcp undisturbed ''query'' (JStr ''grafana.silence.list'') sample_mcp_sys
       = (Inr (gr_list ''silences'' []), s')
     \<and> length (gs_trace (sv_grafana s')) = 1 \<and> changes_nothing Grafana_Laws.sample_client sample_mcp_sys s'"
proof -
  from sample_silences obtain s' where s': "mcp_list_silences sample_mcp undisturbed (None, None) sample_mcp_sys
      = (Inr (gr_list ''silences'' []), s')" "length (gs_trace (sv_grafana s')) = 1" by blast
  then have call: "call_tool sample_protocol sample_mcp undisturbed ''query'' (JStr ''grafana.silence.list'') sample_mcp_sys
      = (Inr (gr_list ''silences'' []), s')"
    by (simp add: sample_call)
  have "th_read_only (hints_of ''query'')" by (simp add: hints_of_def)
  with call have "changes_nothing (ms_grafana (me_services sample_mcp)) sample_mcp_sys s'"
    by (intro read_only_surface) blast
  with call s' show ?thesis by (auto simp: sample_mcp_def sample_services_def)
qed

text \<open>A delete that is cancelled after it has been done.\<close>

lemma cancelled_calls_answered_witness:
  "\<exists>s'. mcp_machine_delete sample_mcp \<lparr>sx_cancellation = CN_During\<rparr> ''m'' sample_mcp_sys = (Inr inventory_outcome_unknown, s')
     \<and> sv_machines s' = [] \<and> stopped_answer ''destroy'' ''machine.delete'' (Inr inventory_outcome_unknown)"
proof -
  let ?ctx = "\<lparr>sx_cancellation = CN_During\<rparr>"
  let ?handler = "snd (snd (tool_action ''destroy'' ''machine.delete'' (\<lambda>P. ki_machine (mp_machines P)) mcp_machine_delete))"
  obtain s' where s': "mcp_machine_delete sample_mcp ?ctx ''m'' sample_mcp_sys = (Inr inventory_outcome_unknown, s')"
    "sv_machines s' = []"
    by (simp add: mcp_machine_delete_def machine_mutation_handler_def reply_with_def select_cancelled_def on_machines_def
        inventory_delete_def sample_mcp_def sample_services_def sample_mcp_libs_def sample_mcp_sys_def)
  have run: "?handler sample_protocol sample_mcp ?ctx JNull sample_mcp_sys = (Inr inventory_outcome_unknown, s')"
    using s'(1) by (simp add: tool_action_def sample_protocol_def sample_machine_inputs_def)
  have entry: "(''destroy'', ''machine.delete'', ?handler) \<in> set tool_catalog"
    using sample_entries(2) by (simp add: tool_action_def)
  have "s' \<noteq> sample_mcp_sys" using s'(2) by (auto simp: sample_mcp_sys_def)
  with cancelled_calls_answered [OF entry _ _ run] s' show ?thesis by (auto simp: starts_with_def)
qed

lemma tools_run_what_they_list_witness:
  "tool_lists ''query'' ''grafana.silence.list'' \<and> \<not> tool_lists ''query'' ''machine.delete''
     \<and> call_tool sample_protocol sample_mcp undisturbed ''query'' (JStr ''machine.delete'') sample_mcp_sys
         = (Inl (SE_NotFound ''machine.delete''), sample_mcp_sys)"
proof -
  have listed: "tool_lists ''query'' ''grafana.silence.list''"
    unfolding tool_lists_iff [where 'w = unit] using sample_entries(1) by (auto simp: tool_action_def)
  have unlisted: "\<not> tool_lists ''query'' ''machine.delete''"
    unfolding tool_lists_iff [where 'w = unit]
    by (auto dest!: query_entry simp: query_actions_def tool_action_def)
  have "mp_arguments sample_protocol ''query'' (JStr ''machine.delete'') = Inr (''machine.delete'', JObj [], None)"
    by (simp add: sample_protocol_def)
  from tools_run_what_they_list [OF this, of sample_mcp undisturbed sample_mcp_sys] listed unlisted show ?thesis
    by (simp add: sample_protocol_def)
qed

end
