(* ===== verification/Mcp_Links.thy ===== *)
theory Mcp_Links
  imports Mcp_Resources
begin

text \<open>
  The URIs of resources: that the links added to a listing lead to the resource of the element they are
  in, and what a query string and a path may say about the object that is read.
\<close>

section \<open>Plain identities\<close>

text \<open>
  What percent encoding and the splitting of query strings do to plain text, and that no skill has a URI
  of the scheme of the resources.
\<close>

definition plain_libs :: "resource_libs \<Rightarrow> bool" where
  "plain_libs U \<longleftrightarrow> (\<forall>t. list_all plain_segment_char t \<longrightarrow> ul_percent_encode U t = t)
     \<and> (\<forall>t. CHR ''%'' \<notin> set t \<longrightarrow> ul_percent_decode U t = Some t)
     \<and> ul_pairs U [] = [] \<and> (\<forall>uri. starts_with uri uri_scheme \<longrightarrow> ul_skill U uri = None)"

definition plain_identity :: "string \<Rightarrow> bool" where
  "plain_identity i \<longleftrightarrow> i \<noteq> [] \<and> length i \<le> 253 \<and> list_all plain_segment_char i"

lemma plain_segment_char_inert:
  "list_all plain_segment_char t \<Longrightarrow> CHR ''%'' \<notin> set t \<and> CHR ''/'' \<notin> set t \<and> CHR ''?'' \<notin> set t \<and> CHR ''#'' \<notin> set t"
  by (auto simp: list_all_iff plain_segment_char_def ascii_defs)

lemma plain_segment_code:
  "plain_segment_char c \<longleftrightarrow> ascii_alphanumeric (of_char c) \<or> (of_char c :: nat) \<in> {45, 46, 95, 126}"
  using of_char_eq_iff [of c "CHR ''-''", where 'a = nat] of_char_eq_iff [of c "CHR ''.''", where 'a = nat]
    of_char_eq_iff [of c "CHR ''_''", where 'a = nat] of_char_eq_iff [of c "CHR ''~''", where 'a = nat]
  by (auto simp: plain_segment_char_def)

lemma linkable_dashboard_plain:
  assumes "linkable_dashboard i"
  shows "plain_identity i"
proof -
  from assms have "valid_dashboard_uid i"
    by (simp add: linkable_dashboard_def validate_get_dashboard_def split: if_splits)
  then show ?thesis
    unfolding valid_dashboard_uid_def first_then_def plain_identity_def plain_segment_code
    by (cases i) (auto simp: list_all_iff)
qed

lemma linkable_cluster_plain:
  assumes "linkable_cluster i" "utf8_valid i"
  shows "plain_identity i"
proof -
  from assms(1) have v: "valid_identifier i 253"
    by (simp add: linkable_cluster_def capability_list_input_validate_def valid_catalog_name_def split: if_splits)
  then have "\<forall>n\<in>set (chars i). n < 128"
    by (auto simp: valid_identifier_def list_all_iff ascii_defs)
  with assms(2) have "is_ascii i" by (rule utf8_ascii_chars)
  with v show ?thesis
    by (auto simp: valid_identifier_def plain_identity_def plain_segment_code list_all_iff chars_ascii)
qed


section \<open>Reading a link\<close>

text \<open>What becomes of the answer \<open>m\<close> of a handler when it is read as a resource without a filter.\<close>

definition read_of :: "'w mcp_env \<Rightarrow> resource_libs \<Rightarrow> string \<Rightarrow> 'w mcp_handler \<Rightarrow> 'w mcp_handler" where
  "read_of E U uri m =
     io_bind m (\<lambda>raw. io_bind (io_lift (resource_output (me_libs E) raw)) (\<lambda>v.
       io_bind (io_lift (tool_result (me_libs E) v None)) (\<lambda>projected. io_lift (ul_result U uri projected))))"

lemma parse_plain_uri:
  assumes "plain_libs U" "CHR ''?'' \<notin> set rest" "CHR ''#'' \<notin> set rest" "length rest \<le> 8000"
  shows "parse_uri parse U (uri_scheme @ rest) = Inr (rest, JObj [], None)"
proof -
  have "split_once_char (CHR ''?'') rest = None" using assms(2) by (simp add: split_once_char_None)
  moreover have "CHR ''#'' \<notin> set (uri_scheme @ rest)" using assms(3) by (simp add: uri_scheme_def)
  ultimately show ?thesis
    using assms(1,4) by (simp add: parse_uri_def max_uri_bytes_def plain_libs_def uri_scheme_def)
qed

lemma bind_plain_identity:
  "plain_libs U \<Longrightarrow> plain_identity i \<Longrightarrow> bind_identity U (JObj []) key i = Inr (JObj [(key, JStr i)])"
  using plain_segment_char_inert [of i] by (simp add: bind_identity_def plain_libs_def plain_identity_def)

lemma read_plain:
  assumes "plain_libs U" "CHR ''?'' \<notin> set rest" "CHR ''#'' \<notin> set rest" "length rest \<le> 8000"
    and "rest \<notin> {''grafana/dashboards'', ''kubernetes/clusters''}"
  shows "read_resource P E U ctx (uri_scheme @ rest)
    = read_of E U (uri_scheme @ rest) (read_route P E U ctx (uri_scheme @ rest) rest (JObj []))"
proof -
  have skill: "ul_skill U (uri_scheme @ rest) = None" using assms(1) by (simp add: plain_libs_def)
  have enrich: "enrich_collection U rest v = v" for v using assms(5) by (simp add: enrich_collection_def)
  have parse: "io_bind (io_lift (parse_uri (ml_json (me_libs E)) U (uri_scheme @ rest))) f = f (rest, JObj [], None)"
    for f :: "string \<times> json \<times> string option \<Rightarrow> 'w mcp_handler"
    by (simp add: parse_plain_uri [OF assms(1-4)] io_bind_def io_lift_def)
  show ?thesis unfolding read_resource_def skill parse read_of_def by (simp add: enrich)
qed

lemma read_dashboard_route:
  assumes "plain_libs U" "plain_identity i"
  shows "read_route P E U ctx uri (''grafana/dashboards/'' @ i) (JObj []) =
    read_with E ctx (JObj [(''uid'', JStr i)]) (gi_get_dashboard (mp_grafana P)) mcp_get_dashboard"
proof -
  have "strip_prefix (''grafana/dashboards/'' @ i) ''kubernetes/capabilities/'' = None"
    "strip_prefix (''grafana/dashboards/'' @ i) ''grafana/dashboards/'' = Some i"
    by (simp_all add: strip_prefix_def starts_with_def)
  then show ?thesis
    using assms by (simp add: read_route_def bind_plain_identity io_bind_def io_lift_def)
qed

lemma read_capabilities_route:
  assumes "plain_libs U" "plain_identity i"
  shows "read_route P E U ctx uri (''kubernetes/capabilities/'' @ i) (JObj []) =
    read_with E ctx (JObj [(''cluster'', JStr i)]) (yi_capabilities (mp_kubernetes P)) mcp_kubernetes_capabilities"
proof -
  have "strip_prefix (''kubernetes/capabilities/'' @ i) ''kubernetes/capabilities/'' = Some i"
    by (simp add: strip_prefix_def starts_with_def)
  then show ?thesis
    using assms by (simp add: read_route_def bind_plain_identity io_bind_def io_lift_def)
qed

lemma read_links:
  assumes "plain_libs U" "plain_identity i"
  shows "read_resource P E U ctx (dashboards_prefix @ i) = read_of E U (dashboards_prefix @ i)
      (read_with E ctx (JObj [(''uid'', JStr i)]) (gi_get_dashboard (mp_grafana P)) mcp_get_dashboard)"
    and "read_resource P E U ctx (capabilities_prefix @ i) = read_of E U (capabilities_prefix @ i)
      (read_with E ctx (JObj [(''cluster'', JStr i)]) (yi_capabilities (mp_kubernetes P)) mcp_kubernetes_capabilities)"
proof -
  have p: "dashboards_prefix @ i = uri_scheme @ (''grafana/dashboards/'' @ i)"
    "capabilities_prefix @ i = uri_scheme @ (''kubernetes/capabilities/'' @ i)"
    by (simp_all add: dashboards_prefix_def capabilities_prefix_def uri_scheme_def)
  note inert = plain_segment_char_inert [of i]
  have n: "''grafana/dashboards/'' @ i \<noteq> ''grafana/dashboards''" "''grafana/dashboards/'' @ i \<noteq> ''kubernetes/clusters''"
    "''kubernetes/capabilities/'' @ i \<noteq> ''grafana/dashboards''" "''kubernetes/capabilities/'' @ i \<noteq> ''kubernetes/clusters''"
    by simp_all
  show "read_resource P E U ctx (dashboards_prefix @ i) = read_of E U (dashboards_prefix @ i)
      (read_with E ctx (JObj [(''uid'', JStr i)]) (gi_get_dashboard (mp_grafana P)) mcp_get_dashboard)"
    unfolding p(1)
    by (subst read_plain) (use assms inert n in \<open>auto simp: plain_identity_def read_dashboard_route [OF assms] simp del: append.simps\<close>)
  show "read_resource P E U ctx (capabilities_prefix @ i) = read_of E U (capabilities_prefix @ i)
      (read_with E ctx (JObj [(''cluster'', JStr i)]) (yi_capabilities (mp_kubernetes P)) mcp_kubernetes_capabilities)"
    unfolding p(2)
    by (subst read_plain) (use assms inert n in \<open>auto simp: plain_identity_def read_capabilities_route [OF assms] simp del: append.simps\<close>)
qed

section \<open>Links of a listing\<close>

definition listed_dashboards :: "json \<Rightarrow> json list" where
  "listed_dashboards v = opt_elems (opt_array (json_get v ''result''))"

definition listed_clusters :: "json \<Rightarrow> json list" where
  "listed_clusters v = (case json_get v ''result'' of None \<Rightarrow> [] | Some r \<Rightarrow> opt_elems (opt_array (json_get r ''clusters'')))"

lemma json_get_set_member: "json_get item k \<noteq> None \<Longrightarrow> json_get (set_member field v item) field = Some v"
proof (cases item)
  case (JObj m)
  have "map_of (map (\<lambda>(k, x). (k, if k = field then v else x)) m) field = Some v" if "map_of m field \<noteq> None"
    using that by (induction m) auto
  moreover have "map_of (m @ [(field, v)]) field = Some v" if "map_of m field = None"
    using that by (simp add: map_add_def)
  ultimately show ?thesis using JObj by simp
qed simp_all

lemma json_get_map_member: "json_get (map_member key f v) key = map_option f (json_get v key)"
proof (cases v)
  case (JObj m)
  have "map_of (map (\<lambda>(k, x). (k, if k = key then f x else x)) m) key = map_option f (map_of m key)"
    by (induction m) auto
  with JObj show ?thesis by simp
qed simp_all

lemma opt_elems_map: "opt_elems (opt_array (map_option (map_elements f) x)) = map f (opt_elems (opt_array x))"
  by (cases x; cases "the x") (simp_all add: opt_array_def opt_elems_def)

lemma enriched_listings:
  "listed_dashboards (enrich_collection U ''grafana/dashboards'' v) = map (dashboard_link U) (listed_dashboards v)"
  "listed_clusters (enrich_collection U ''kubernetes/clusters'' v) = map (cluster_link U) (listed_clusters v)"
  by (auto simp: listed_dashboards_def listed_clusters_def enrich_collection_def json_get_map_member opt_elems_map
      split: option.split)

lemma json_get_set_other: "json_get item k \<noteq> None \<Longrightarrow> other \<noteq> field \<Longrightarrow> json_get (set_member field v item) other = json_get item other"
proof (cases item)
  case (JObj m)
  assume "other \<noteq> field"
  then have "map_of (map (\<lambda>(k, x). (k, if k = field then v else x)) m) other = map_of m other"
    by (induction m) auto
  with JObj \<open>other \<noteq> field\<close> show ?thesis by (simp add: map_add_def split: option.split)
qed simp_all

text \<open>
  What becomes of an element of a listing.  If its identity is there, is a string and is fit for a link, the
  field holds the link, every other member is what it was, and reading the link runs the handler of that
  identity; in every other case the element is unchanged.
\<close>

definition linked ::
  "mcp_protocol \<Rightarrow> 'w mcp_env \<Rightarrow> resource_libs \<Rightarrow> server_context \<Rightarrow> string \<Rightarrow> (string \<Rightarrow> bool) \<Rightarrow> string \<Rightarrow> string
     \<Rightarrow> (string \<Rightarrow> 'w mcp_handler) \<Rightarrow> json \<Rightarrow> json \<Rightarrow> bool" where
  "linked P E U ctx key fit field prefix handler item item' \<longleftrightarrow>
     (if \<exists>i. json_get item key = Some (JStr i) \<and> fit i
      then \<exists>i. json_get item key = Some (JStr i) \<and> fit i
        \<and> json_get item' field = Some (JStr (prefix @ i)) \<and> (\<forall>k. k \<noteq> field \<longrightarrow> json_get item' k = json_get item k)
        \<and> read_resource P E U ctx (prefix @ i) = read_of E U (prefix @ i) (handler i)
      else item' = item)"

lemma add_link_linked:
  assumes "\<And>i. json_get item key = Some (JStr i) \<Longrightarrow> fit i \<Longrightarrow>
      ul_percent_encode U i = i \<and> read_resource P E U ctx (prefix @ i) = read_of E U (prefix @ i) (handler i)"
  shows "linked P E U ctx key fit field prefix handler item (add_link U key fit field prefix item)"
proof (cases "\<exists>i. json_get item key = Some (JStr i) \<and> fit i")
  case True
  then obtain i where i: "json_get item key = Some (JStr i)" "fit i" by blast
  then have "json_get item key \<noteq> None" by simp
  from json_get_set_member [OF this] json_get_set_other [OF this] i assms [OF i] show ?thesis
    unfolding linked_def by (simp add: add_link_def opt_str_def)
next
  case False
  then have "add_link U key fit field prefix item = item"
    by (auto simp: add_link_def opt_str_def Option.bind_eq_Some_conv split: option.split elim!: as_str.elims)
  then show ?thesis unfolding linked_def by (subst if_not_P [OF False])
qed

text \<open>
  C36: The links of a listing are complete and resolve.  In the listing of the dashboards, element by
  element, one whose uid is a string that a dashboard may have gets its link and keeps its other members, and
  reading the link runs the handler of the dashboards on exactly that uid, with nothing else taken from the URI;
  an element whose uid is missing, is no string or is not valid stays exactly as it was.  The same holds for the
  names of the clusters, whose link leads to the capabilities of exactly that cluster.  No other
  collection is changed.
\<close>

theorem listed_links_resolve:
  assumes "plain_libs U"
  shows "list_all2 (linked P E U ctx ''uid'' linkable_dashboard ''resource_uri'' dashboards_prefix
        (\<lambda>i. read_with E ctx (JObj [(''uid'', JStr i)]) (gi_get_dashboard (mp_grafana P)) mcp_get_dashboard))
      (listed_dashboards v) (listed_dashboards (enrich_collection U ''grafana/dashboards'' v))
    \<and> list_all2 (\<lambda>item item'. (\<forall>i. json_get item ''name'' = Some (JStr i) \<longrightarrow> utf8_valid i) \<longrightarrow>
        linked P E U ctx ''name'' linkable_cluster ''capabilities_uri'' capabilities_prefix
          (\<lambda>i. read_with E ctx (JObj [(''cluster'', JStr i)]) (yi_capabilities (mp_kubernetes P)) mcp_kubernetes_capabilities)
          item item')
      (listed_clusters v) (listed_clusters (enrich_collection U ''kubernetes/clusters'' v))
    \<and> (\<forall>route. route \<notin> {''grafana/dashboards'', ''kubernetes/clusters''} \<longrightarrow> enrich_collection U route v = v)"
proof (intro conjI)
  have plain: "ul_percent_encode U i = i" if "plain_identity i" for i
    using assms that by (simp add: plain_libs_def plain_identity_def)
  show "list_all2 (linked P E U ctx ''uid'' linkable_dashboard ''resource_uri'' dashboards_prefix
        (\<lambda>i. read_with E ctx (JObj [(''uid'', JStr i)]) (gi_get_dashboard (mp_grafana P)) mcp_get_dashboard))
      (listed_dashboards v) (listed_dashboards (enrich_collection U ''grafana/dashboards'' v))"
    unfolding enriched_listings dashboard_link_def list.rel_map
    by (intro list.rel_refl add_link_linked conjI plain read_links [OF assms] linkable_dashboard_plain)
  have "(\<forall>i. json_get item ''name'' = Some (JStr i) \<longrightarrow> utf8_valid i) \<longrightarrow>
        linked P E U ctx ''name'' linkable_cluster ''capabilities_uri'' capabilities_prefix
          (\<lambda>i. read_with E ctx (JObj [(''cluster'', JStr i)]) (yi_capabilities (mp_kubernetes P)) mcp_kubernetes_capabilities)
          item (cluster_link U item)" for item
    unfolding cluster_link_def
    by (intro impI add_link_linked conjI plain read_links [OF assms] linkable_cluster_plain) simp_all
  then show "list_all2 (\<lambda>item item'. (\<forall>i. json_get item ''name'' = Some (JStr i) \<longrightarrow> utf8_valid i) \<longrightarrow>
        linked P E U ctx ''name'' linkable_cluster ''capabilities_uri'' capabilities_prefix
          (\<lambda>i. read_with E ctx (JObj [(''cluster'', JStr i)]) (yi_capabilities (mp_kubernetes P)) mcp_kubernetes_capabilities)
          item item')
      (listed_clusters v) (listed_clusters (enrich_collection U ''kubernetes/clusters'' v))"
    unfolding enriched_listings list.rel_map by (intro list.rel_refl)
qed (simp add: enrich_collection_def)

text \<open>
  Libraries that leave everything as it is, and a listing of one dashboard, one whose uid is not valid and one
  without a uid.
\<close>

definition sample_uris :: resource_libs where
  "sample_uris = \<lparr>ul_skill = (\<lambda>uri. None), ul_pairs = (\<lambda>query. []), ul_percent_decode = Some,
     ul_percent_encode = (\<lambda>t. t), ul_result = (\<lambda>uri. Inr), ul_schema = (\<lambda>t. JNull)\<rparr>"

definition sample_listing :: json where
  "sample_listing = JObj [(''result'', JArr [JObj [(''uid'', JStr ''nodes'')], JObj [(''uid'', JStr ''a b'')], JObj []])]"

lemma listed_links_resolve_witness:
  "\<forall>P (E :: unit mcp_env) ctx. \<exists>item. listed_dashboards (enrich_collection sample_uris ''grafana/dashboards'' sample_listing)
       = [item, JObj [(''uid'', JStr ''a b'')], JObj []]
     \<and> json_get item ''resource_uri'' = Some (JStr (dashboards_prefix @ ''nodes''))
     \<and> read_resource P E sample_uris ctx (dashboards_prefix @ ''nodes'') = read_of E sample_uris (dashboards_prefix @ ''nodes'')
         (read_with E ctx (JObj [(''uid'', JStr ''nodes'')]) (gi_get_dashboard (mp_grafana P)) mcp_get_dashboard)"
    (is "\<forall>P E ctx. ?thesis' P E ctx")
proof -
  have libs: "plain_libs sample_uris" by (simp add: plain_libs_def sample_uris_def)
  have items: "listed_dashboards sample_listing = [JObj [(''uid'', JStr ''nodes'')], JObj [(''uid'', JStr ''a b'')], JObj []]"
    by (simp add: listed_dashboards_def sample_listing_def opt_array_def opt_elems_def)
  have fit: "linkable_dashboard ''nodes''" "\<not> linkable_dashboard ''a b''"
    by (simp_all add: linkable_dashboard_def validate_get_dashboard_def valid_dashboard_uid_def first_then_def ascii_defs)
  show ?thesis
  proof (intro allI)
    fix P ctx and E :: "unit mcp_env"
    show "?thesis' P E ctx"
      using listed_links_resolve [OF libs, of P E ctx sample_listing, THEN conjunct1, unfolded items] fit
      by (auto simp: linked_def list_all2_Cons1)
  qed
qed

section \<open>The parameters of a URI\<close>

definition parameter_keys :: "(string \<times> string) list \<Rightarrow> bool" where
  "parameter_keys pairs \<longleftrightarrow> distinct (map fst pairs) \<and> set (map fst pairs) \<subseteq> {''input'', ''filter''}"

text \<open>The input a query string stands for: an object, empty where it has no parameter \<open>input\<close>.\<close>

definition parameter_input :: "(string \<Rightarrow> json option) \<Rightarrow> (string \<times> string) list \<Rightarrow> json \<Rightarrow> bool" where
  "parameter_input parse pairs v \<longleftrightarrow>
     (case map_of pairs ''input'' of None \<Rightarrow> v = JObj [] | Some t \<Rightarrow> parse t = Some v \<and> as_object v \<noteq> None)"

lemma parse_parameters_filter_set:
  "parse_parameters parse (Some v) (Some f) pairs = Inr r \<longleftrightarrow> pairs = [] \<and> r = (Some v, Some f)"
  by (cases "(parse, Some v, Some f, pairs)" rule: parse_parameters.cases) auto

lemma parse_parameters_input_set:
  "parse_parameters parse (Some v) None pairs = Inr r \<longleftrightarrow>
     pairs = [] \<and> r = (Some v, None) \<or> (\<exists>f. pairs = [(''filter'', f)] \<and> r = (Some v, Some f))"
  by (cases "(parse, Some v, None :: string option, pairs)" rule: parse_parameters.cases)
    (auto simp: parse_parameters_filter_set)

lemma parse_parameters_only_filter:
  "parse_parameters parse None (Some f) pairs = Inr r \<longleftrightarrow>
     pairs = [] \<and> r = (None, Some f)
     \<or> (\<exists>t v. pairs = [(''input'', t)] \<and> parse t = Some v \<and> as_object v \<noteq> None \<and> r = (Some v, Some f))"
  by (cases "(parse, None :: json option, Some f, pairs)" rule: parse_parameters.cases)
    (auto simp: parse_parameters_filter_set split: option.splits)

lemma one_key: "distinct (map fst xs) \<and> set (map fst xs) \<subseteq> {k} \<longleftrightarrow> xs = [] \<or> (\<exists>u. xs = [(k, u)])"
  by (cases xs; cases "tl xs") auto

lemma two_keys:
  assumes "a \<noteq> b"
  shows "distinct (map fst ((a, t) # xs)) \<and> set (map fst ((a, t) # xs)) \<subseteq> {a, b} \<longleftrightarrow> xs = [] \<or> (\<exists>u. xs = [(b, u)])"
proof -
  have "a \<notin> K \<and> insert a K \<subseteq> {a, b} \<longleftrightarrow> K \<subseteq> {b}" for K using assms by auto
  then show ?thesis unfolding one_key [symmetric] list.map list.set fst_conv distinct.simps by blast
qed

lemma parameter_keys_Cons:
  "parameter_keys ((''input'', t) # xs) \<longleftrightarrow> xs = [] \<or> (\<exists>u. xs = [(''filter'', u)])"
  "parameter_keys ((''filter'', t) # xs) \<longleftrightarrow> xs = [] \<or> (\<exists>u. xs = [(''input'', u)])"
  using two_keys [of "''input''" "''filter''" t xs] two_keys [of "''filter''" "''input''" t xs]
  unfolding parameter_keys_def insert_commute [of "''filter''"] by simp_all

lemma parse_input_first:
  "parse_parameters parse None None ((''input'', t) # rest) = Inr (i, f) \<longleftrightarrow>
     (\<exists>v. parse t = Some v \<and> as_object v \<noteq> None \<and> i = Some v
        \<and> (rest = [] \<and> f = None \<or> (\<exists>u. rest = [(''filter'', u)] \<and> f = Some u)))"
  by (cases "parse t") (auto simp: parse_parameters_input_set)

lemma parse_filter_first:
  "parse_parameters parse None None ((''filter'', u) # rest) = Inr (i, f) \<longleftrightarrow> f = Some u
     \<and> (rest = [] \<and> i = None
        \<or> (\<exists>t v. rest = [(''input'', t)] \<and> parse t = Some v \<and> as_object v \<noteq> None \<and> i = Some v))"
  by (auto simp: parse_parameters_only_filter)

lemma parse_parameters_exact:
  "(\<exists>i. parse_parameters parse None None pairs = Inr (i, f) \<and> v = (case i of None \<Rightarrow> JObj [] | Some v \<Rightarrow> v)) \<longleftrightarrow>
     parameter_keys pairs \<and> parameter_input parse pairs v \<and> f = map_of pairs ''filter''"
proof (cases pairs)
  case (Cons kt rest)
  obtain k t where kt: "kt = (k, t)" by fastforce
  consider "k = ''input''" | "k = ''filter''" | "k \<noteq> ''input''" "k \<noteq> ''filter''" by blast
  then show ?thesis
  proof cases
    case 1
    show ?thesis
      unfolding Cons kt 1 parameter_keys_Cons parse_input_first parameter_input_def by auto
  next
    case 2
    show ?thesis
      unfolding Cons kt 2 parameter_keys_Cons parse_filter_first parameter_input_def by auto
  next
    case 3
    then show ?thesis unfolding Cons kt by (auto simp: parameter_keys_def)
  qed
qed (auto simp: parameter_keys_def parameter_input_def)

text \<open>What may come after the scheme: a route and the query string after it.\<close>

definition splits_into :: "string \<Rightarrow> string \<Rightarrow> string \<Rightarrow> bool" where
  "splits_into rest route query \<longleftrightarrow>
     CHR ''?'' \<notin> set route \<and> (rest = route \<and> query = [] \<or> rest = route @ CHR ''?'' # query)"

lemma splits_into_split:
  "splits_into rest route query \<longleftrightarrow>
     (case split_once_char (CHR ''?'') rest of None \<Rightarrow> (rest, []) | Some p \<Rightarrow> p) = (route, query)"
proof -
  have "splits_into rest route query \<longleftrightarrow> split_once_char (CHR ''?'') rest = None \<and> rest = route \<and> query = []
      \<or> split_once_char (CHR ''?'') rest = Some (route, query)"
    unfolding splits_into_def split_once_char_None split_once_char_Some by blast
  then show ?thesis by (cases "split_once_char (CHR ''?'') rest") auto
qed

text \<open>
  C37: A resource URI is read for exactly what it says.  It is accepted if and only if it is at most 8192
  bytes long, has the scheme and no fragment, and its query string has no parameter but \<open>input\<close> and
  \<open>filter\<close>, each at most once, with a JSON object as input; and then the route is all that stands before
  the question mark, the input is that object, or the empty object where none is given, and the filter is
  the one that is given.
\<close>

theorem resource_uri_exact:
  "parse_uri parse U uri = Inr (route, input, filter_text) \<longleftrightarrow>
     length uri \<le> 8192 \<and> CHR ''#'' \<notin> set uri
     \<and> (\<exists>rest query. uri = ''homelab://'' @ rest \<and> splits_into rest route query
          \<and> parameter_keys (ul_pairs U query) \<and> parameter_input parse (ul_pairs U query) input
          \<and> filter_text = map_of (ul_pairs U query) ''filter'')"
proof (cases "length uri \<le> 8192 \<and> starts_with uri uri_scheme \<and> CHR ''#'' \<notin> set uri")
  case True
  then obtain rest where uri: "uri = uri_scheme @ rest" by (auto simp: starts_with_iff)
  obtain r q where rq: "(case split_once_char (CHR ''?'') rest of None \<Rightarrow> (rest, []) | Some p \<Rightarrow> p) = (r, q)" by fastforce
  have rest: "uri = ''homelab://'' @ w \<longleftrightarrow> w = rest" for w by (auto simp: uri uri_scheme_def)
  have "parse_uri parse U uri = Inr (route, input, filter_text) \<longleftrightarrow> route = r
      \<and> (\<exists>i. parse_parameters parse None None (ul_pairs U q) = Inr (i, filter_text)
          \<and> input = (case i of None \<Rightarrow> JObj [] | Some v \<Rightarrow> v))"
    using True rq by (auto simp: parse_uri_def max_uri_bytes_def uri and_then_Inr)
  then show ?thesis
    unfolding parse_parameters_exact rest using True rq by (auto simp: splits_into_split)
next
  case False
  then have "parse_uri parse U uri \<noteq> Inr (route, input, filter_text)"
    by (auto simp: parse_uri_def max_uri_bytes_def)
  moreover have "starts_with uri uri_scheme" if "uri = ''homelab://'' @ rest" for rest
    unfolding that uri_scheme_def by (rule starts_with_append)
  ultimately show ?thesis using False by blast
qed

end
