(* ===== verification/Http_App.thy ===== *)
theory Http_App
  imports Http
begin

text \<open>
  The HTTP application (\<open>src/app.rs\<close>): the probes, the labels of a request, and the guard that counts a
  request as active and, once, as completed.  The handlers of the routes are axum routers of other parts;
  here a request is its method, its path and the pattern of the route it matched.

  A gauge is the sum of what has been added to it, a counter the list of what has been counted, with the
  attributes.  The span of a request holds what is recorded in it.  The duration that is recorded and the
  propagation of the trace context are not modelled.  \<open>instrument_request\<close> is what happens before the rest of
  the stack runs, the run, and what happens after it; overlapping requests interleave the first and the last.
\<close>

section \<open>Requests\<close>

record http_call =
  hl_method :: string
  hl_path :: string
  hl_matched :: "string option"

definition probe_paths :: "string set" where
  "probe_paths = {''/health'', ''/ready''}"

definition bounded_http_method :: "string \<Rightarrow> string" where
  "bounded_http_method method =
     (if method \<in> {''GET'', ''HEAD'', ''POST'', ''PUT'', ''PATCH'', ''DELETE'', ''OPTIONS'', ''CONNECT'', ''TRACE''}
      then method else ''OTHER'')"

definition stable_path_class :: "string \<Rightarrow> string" where
  "stable_path_class path =
     (if path = ''/health'' then ''/health''
      else if path = ''/ready'' then ''/ready''
      else if path = ''/mcp'' then ''/mcp''
      else if starts_with path ''/.well-known/'' then ''/.well-known/*''
      else if starts_with path ''/oauth/'' then ''/oauth/*''
      else if starts_with path ''/oidc/'' then ''/oidc/*''
      else ''unmatched'')"

definition call_labels :: "http_call \<Rightarrow> string \<times> string" where
  "call_labels call =
     (bounded_http_method (hl_method call),
      case hl_matched call of None \<Rightarrow> stable_path_class (hl_path call) | Some pattern \<Rightarrow> pattern)"

definition healthy :: u16 where
  "healthy = 200"

definition ready_status :: "bool \<Rightarrow> u16" where
  "ready_status check = (if check then 200 else 503)"

section \<open>Metrics\<close>

record request_span =
  rp_outcome :: "string option"
  rp_status :: "u16 option"
  rp_otel :: "string option"

record completed_request =
  cr_labels :: "string \<times> string"
  cr_outcome :: string
  cr_status :: "u16 option"

record http_metrics =
  hm_active :: "string \<times> string \<Rightarrow> int"
  hm_requests :: "completed_request list"
  hm_events :: "completed_request list"

record request_guard =
  rg_labels :: "string \<times> string"
  rg_span :: request_span
  rg_finished :: bool

definition add_active :: "string \<times> string \<Rightarrow> int \<Rightarrow> http_metrics \<Rightarrow> http_metrics" where
  "add_active labels n m = m\<lparr>hm_active := (hm_active m)(labels := hm_active m labels + n)\<rparr>"

definition request_guard_new :: "string \<times> string \<Rightarrow> http_metrics \<Rightarrow> request_guard \<times> http_metrics" where
  "request_guard_new labels m =
     (\<lparr>rg_labels = labels, rg_span = \<lparr>rp_outcome = None, rp_status = None, rp_otel = None\<rparr>, rg_finished = False\<rparr>,
      add_active labels 1 m)"

definition status_server_error :: "u16 \<Rightarrow> bool" where
  "status_server_error s \<longleftrightarrow> 500 \<le> s \<and> s < 600"

definition request_guard_finish ::
  "u16 option \<Rightarrow> string \<Rightarrow> request_guard \<times> http_metrics \<Rightarrow> request_guard \<times> http_metrics" where
  "request_guard_finish status outcome gm =
     (let (g, m) = gm in
      if rg_finished g then (g, m)
      else
        let sp = (rg_span g)\<lparr>rp_outcome := Some outcome\<rparr>;
            sp = (case status of
                Some s \<Rightarrow>
                  let sp = sp\<lparr>rp_status := Some s\<rparr> in
                  if status_server_error s then sp\<lparr>rp_otel := Some ''ERROR''\<rparr> else sp
              | None \<Rightarrow> sp\<lparr>rp_otel := Some ''ERROR''\<rparr>);
            m = add_active (rg_labels g) (- 1) m;
            c = \<lparr>cr_labels = rg_labels g, cr_outcome = outcome, cr_status = status\<rparr>
        in (g\<lparr>rg_finished := True, rg_span := sp\<rparr>,
            m\<lparr>hm_requests := hm_requests m @ [c], hm_events := hm_events m @ [c]\<rparr>))"

definition request_guard_complete :: "u16 \<Rightarrow> request_guard \<times> http_metrics \<Rightarrow> request_guard \<times> http_metrics" where
  "request_guard_complete status =
     request_guard_finish (Some status) (if status_server_error status then ''error'' else ''success'')"

definition request_guard_drop :: "request_guard \<times> http_metrics \<Rightarrow> http_metrics" where
  "request_guard_drop gm = snd (request_guard_finish None ''cancelled'' gm)"

section \<open>Serving a request\<close>

text \<open>
  Before the rest of the stack runs, a request that is not a probe gets its guard.  Afterwards the guard is
  completed with the status of the answer and dropped; without an answer, when the request is dropped, so is
  the guard.
\<close>

definition instrument_begin :: "http_call \<Rightarrow> http_metrics \<Rightarrow> request_guard option \<times> http_metrics" where
  "instrument_begin call m =
     (if hl_path call \<in> probe_paths then (None, m)
      else let (g, m) = request_guard_new (call_labels call) m in (Some g, m))"

definition instrument_end :: "u16 option \<Rightarrow> request_guard option \<Rightarrow> http_metrics \<Rightarrow> http_metrics" where
  "instrument_end answer guard m =
     (case guard of
        None \<Rightarrow> m
      | Some g \<Rightarrow>
          request_guard_drop (case answer of None \<Rightarrow> (g, m) | Some status \<Rightarrow> request_guard_complete status (g, m)))"

text \<open>
  \<open>rest\<close> is the rest of the stack: \<open>None\<close> says that the request is dropped before it has an answer.  Other
  requests may change the metrics while it runs.
\<close>

definition instrument_request ::
  "http_call \<Rightarrow> (http_metrics \<times> 'w \<Rightarrow> u16 option \<times> http_metrics \<times> 'w) \<Rightarrow> http_metrics \<times> 'w
     \<Rightarrow> u16 option \<times> http_metrics \<times> 'w" where
  "instrument_request call rest = (\<lambda>(m, w).
     let (guard, m) = instrument_begin call m;
         (answer, m, w) = rest (m, w)
     in (answer, instrument_end answer guard m, w))"

section \<open>Overlapping requests\<close>

text \<open>
  The server with the requests it is serving, each with its guard, and the requests that have ended, each
  with the status of its answer, if it had one.  A step is the start or the end of one request.
\<close>

record http_server =
  hv_metrics :: http_metrics
  hv_running :: "(http_call \<times> request_guard option) list"
  hv_ended :: "(http_call \<times> u16 option) list"

definition http_idle :: http_server where
  "http_idle = \<lparr>hv_metrics = \<lparr>hm_active = (\<lambda>labels. 0), hm_requests = [], hm_events = []\<rparr>, hv_running = [], hv_ended = []\<rparr>"

inductive http_step :: "http_server \<Rightarrow> http_server \<Rightarrow> bool" where
  begins: "instrument_begin call (hv_metrics s) = (guard, m) \<Longrightarrow>
    http_step s (s\<lparr>hv_metrics := m, hv_running := hv_running s @ [(call, guard)]\<rparr>)"
| ends: "hv_running s = before @ (call, guard) # after \<Longrightarrow>
    http_step s (s\<lparr>hv_metrics := instrument_end answer guard (hv_metrics s), hv_running := before @ after,
      hv_ended := hv_ended s @ [(call, answer)]\<rparr>)"

inductive http_reachable :: "http_server \<Rightarrow> bool" where
  idle: "http_reachable http_idle"
| step: "http_reachable s \<Longrightarrow> http_step s t \<Longrightarrow> http_reachable t"

section \<open>Every request is counted once\<close>

text \<open>How a request that ended with the answer is to be counted.\<close>

definition is_probe :: "http_call \<Rightarrow> bool" where
  "is_probe call \<longleftrightarrow> hl_path call = ''/health'' \<or> hl_path call = ''/ready''"

definition counted :: "http_call \<times> u16 option \<Rightarrow> completed_request" where
  "counted e =
     \<lparr>cr_labels = call_labels (fst e),
      cr_outcome = (case snd e of None \<Rightarrow> ''cancelled''
        | Some status \<Rightarrow> if unat status div 100 = 5 then ''error'' else ''success''),
      cr_status = snd e\<rparr>"

definition to_count :: "(http_call \<times> u16 option) list \<Rightarrow> completed_request list" where
  "to_count ended = map counted (filter (\<lambda>e. \<not> is_probe (fst e)) ended)"

definition guarded :: "http_call \<times> request_guard option \<Rightarrow> bool" where
  "guarded r \<longleftrightarrow>
     (case snd r of None \<Rightarrow> is_probe (fst r)
      | Some g \<Rightarrow> \<not> is_probe (fst r) \<and> rg_labels g = call_labels (fst r) \<and> \<not> rg_finished g)"

definition running_labels :: "http_server \<Rightarrow> (string \<times> string) list" where
  "running_labels s = map call_labels (filter (\<lambda>call. \<not> is_probe call) (map fst (hv_running s)))"

definition http_inv :: "http_server \<Rightarrow> bool" where
  "http_inv s \<longleftrightarrow>
     list_all guarded (hv_running s)
     \<and> (\<forall>labels. hm_active (hv_metrics s) labels = int (count_list (running_labels s) labels))
     \<and> hm_requests (hv_metrics s) = to_count (hv_ended s) \<and> hm_events (hv_metrics s) = to_count (hv_ended s)"

lemma is_probe_iff: "hl_path call \<in> probe_paths \<longleftrightarrow> is_probe call"
  by (auto simp: is_probe_def probe_paths_def)

lemma server_error_iff: "status_server_error s \<longleftrightarrow> unat s div 100 = 5"
proof -
  have "n div 100 = 5 \<longleftrightarrow> 500 \<le> n \<and> n < 600" for n :: nat by linarith
  then show ?thesis by (simp add: status_server_error_def word_le_nat_alt word_less_nat_alt)
qed

text \<open>What a request does to the metrics at its start and at its end.\<close>

lemma instrument_begin_cases:
  assumes "instrument_begin call m = (guard, m')"
  shows "guarded (call, guard)"
    and "m' = (if is_probe call then m else add_active (call_labels call) 1 m)"
  using assms by (auto simp: instrument_begin_def is_probe_iff request_guard_new_def guarded_def split: if_splits)

lemma instrument_end_cases:
  assumes "guarded (call, guard)"
  shows "instrument_end answer guard m =
    (if is_probe call then m
     else (add_active (call_labels call) (- 1) m)
       \<lparr>hm_requests := hm_requests m @ [counted (call, answer)], hm_events := hm_events m @ [counted (call, answer)]\<rparr>)"
proof (cases guard)
  case (Some g)
  with assms have g: "\<not> is_probe call" "rg_labels g = call_labels call" "\<not> rg_finished g"
    by (simp_all add: guarded_def)
  then show ?thesis unfolding Some
    by (cases answer) (simp_all add: instrument_end_def request_guard_drop_def request_guard_complete_def
        request_guard_finish_def add_active_def counted_def server_error_iff Let_def)
qed (use assms in \<open>simp add: instrument_end_def guarded_def\<close>)

lemma http_step_keeps_inv:
  assumes "http_step s t" "http_inv s"
  shows "http_inv t"
proof -
  have active: "hm_active (hv_metrics s) labels = int (count_list (running_labels s) labels)"
    and kept: "hm_requests (hv_metrics s) = to_count (hv_ended s)" "hm_events (hv_metrics s) = to_count (hv_ended s)"
    and guards: "list_all guarded (hv_running s)" for labels
    using assms(2) unfolding http_inv_def by blast+
  show ?thesis
    unfolding http_inv_def using assms(1)
  proof (intro conjI allI; cases)
    fix labels call guard m
    assume t: "t = s\<lparr>hv_metrics := m, hv_running := hv_running s @ [(call, guard)]\<rparr>"
      and "instrument_begin call (hv_metrics s) = (guard, m)"
    note start = instrument_begin_cases [OF this(2)]
    show "list_all guarded (hv_running t)" using guards start(1) by (simp add: t)
    show "hm_requests (hv_metrics t) = to_count (hv_ended t)" "hm_events (hv_metrics t) = to_count (hv_ended t)"
      using kept by (simp_all add: t start(2) add_active_def)
    show "hm_active (hv_metrics t) labels = int (count_list (running_labels t) labels)"
      using active by (simp add: t start(2) add_active_def running_labels_def)
  next
    fix labels before call guard after answer
    assume t: "t = s\<lparr>hv_metrics := instrument_end answer guard (hv_metrics s), hv_running := before @ after,
        hv_ended := hv_ended s @ [(call, answer)]\<rparr>"
      and run: "hv_running s = before @ (call, guard) # after"
    have g: "guarded (call, guard)" using guards run by simp
    show "list_all guarded (hv_running t)" using guards by (simp add: t run)
    show "hm_requests (hv_metrics t) = to_count (hv_ended t)" "hm_events (hv_metrics t) = to_count (hv_ended t)"
      using kept by (simp_all add: t instrument_end_cases [OF g] to_count_def add_active_def)
    have "hm_active (hv_metrics s) labels = int (count_list (running_labels s) labels)" by (rule active)
    then show "hm_active (hv_metrics t) labels = int (count_list (running_labels t) labels)"
      by (auto simp: t instrument_end_cases [OF g] add_active_def running_labels_def run)
  qed
qed

text \<open>
  C39: However requests overlap, are answered or are dropped, the gauge of active requests is, for every
  pair of method and route, the number of requests with these labels that are being served; the counter holds,
  and the log has, for each request that has ended and is not a probe exactly one entry, in the order in which
  they ended, with its own method and route, the status of the answer it really had, and the outcome that this
  answer calls for: error for a status of the 500s, success for any other, cancelled if there was no answer.
  Probes are not counted anywhere.
\<close>

theorem http_requests_counted_once:
  assumes "http_reachable s"
  shows "(\<forall>labels. hm_active (hv_metrics s) labels = int (count_list (running_labels s) labels))
    \<and> hm_requests (hv_metrics s) = to_count (hv_ended s)
    \<and> hm_events (hv_metrics s) = to_count (hv_ended s)"
proof -
  from assms have "http_inv s"
  proof induction
    case idle
    show ?case by (simp add: http_inv_def http_idle_def running_labels_def to_count_def)
  qed (rule http_step_keeps_inv)
  then show ?thesis by (simp add: http_inv_def)
qed

text \<open>\<open>instrument_request\<close> is the start of its request, what else happens meanwhile, and its end.\<close>

lemma instrument_request_steps:
  assumes "instrument_request call rest (hv_metrics s, w) = (answer, m, w')"
  obtains guard m1 m2 where "http_step s (s\<lparr>hv_metrics := m1, hv_running := hv_running s @ [(call, guard)]\<rparr>)"
    "rest (m1, w) = (answer, m2, w')"
    "\<And>(t :: http_server) before after. hv_running t = before @ (call, guard) # after \<Longrightarrow> hv_metrics t = m2 \<Longrightarrow>
       http_step t (t\<lparr>hv_metrics := m, hv_running := before @ after, hv_ended := hv_ended t @ [(call, answer)]\<rparr>)"
proof -
  obtain guard m1 where g: "instrument_begin call (hv_metrics s) = (guard, m1)" by fastforce
  with assms obtain m2 where m2: "rest (m1, w) = (answer, m2, w')" "m = instrument_end answer guard m2"
    by (auto simp: instrument_request_def split: prod.splits)
  show thesis
  proof (rule that [OF http_step.begins [OF g] m2(1)])
    fix t :: http_server and before after
    assume "hv_running t = before @ (call, guard) # after" "hv_metrics t = m2"
    then show "http_step t (t\<lparr>hv_metrics := m, hv_running := before @ after, hv_ended := hv_ended t @ [(call, answer)]\<rparr>)"
      using http_step.ends [of t before call guard after answer] m2(2) by simp
  qed
qed

text \<open>
  A run for the witness: a probe, a request that is answered with 503 and one that is dropped, all
  overlapping, and one that is still running.
\<close>

definition sample_call :: "string \<Rightarrow> http_call" where
  "sample_call path = \<lparr>hl_method = ''BREW'', hl_path = path, hl_matched = None\<rparr>"

definition sample_begin :: "http_call \<Rightarrow> http_server \<Rightarrow> http_server" where
  "sample_begin call s =
     (let (guard, m) = instrument_begin call (hv_metrics s)
      in s\<lparr>hv_metrics := m, hv_running := hv_running s @ [(call, guard)]\<rparr>)"

definition sample_end :: "u16 option \<Rightarrow> http_server \<Rightarrow> http_server" where
  "sample_end answer s =
     (let (call, guard) = hd (hv_running s)
      in s\<lparr>hv_metrics := instrument_end answer guard (hv_metrics s), hv_running := tl (hv_running s),
           hv_ended := hv_ended s @ [(call, answer)]\<rparr>)"

lemma sample_begin_reachable: "http_reachable s \<Longrightarrow> http_reachable (sample_begin call s)"
  by (cases "instrument_begin call (hv_metrics s)") (auto simp: sample_begin_def intro: http_reachable.step http_step.begins)

lemma sample_end_reachable:
  assumes "http_reachable s" "hv_running s \<noteq> []"
  shows "http_reachable (sample_end answer s)"
proof -
  obtain call guard where "hd (hv_running s) = (call, guard)" by fastforce
  with assms(2) have "hv_running s = [] @ (call, guard) # tl (hv_running s)" by (cases "hv_running s") auto
  from http_reachable.step [OF assms(1) http_step.ends [OF this]] show ?thesis
    using \<open>hd (hv_running s) = _\<close> by (simp add: sample_end_def)
qed

definition sample_server :: http_server where
  "sample_server = sample_end None (sample_end (Some 503) (sample_end (Some 200)
     (sample_begin (sample_call ''/mcp'') (sample_begin (sample_call ''/oauth/token'') (sample_begin (sample_call ''/mcp'')
     (sample_begin (sample_call ''/health'') http_idle))))))"

lemma http_requests_counted_once_witness:
  "http_reachable sample_server
     \<and> hv_ended sample_server = [(sample_call ''/health'', Some 200), (sample_call ''/mcp'', Some 503), (sample_call ''/oauth/token'', None)]
     \<and> hm_requests (hv_metrics sample_server) =
         [\<lparr>cr_labels = (''OTHER'', ''/mcp''), cr_outcome = ''error'', cr_status = Some 503\<rparr>,
          \<lparr>cr_labels = (''OTHER'', ''/oauth/*''), cr_outcome = ''cancelled'', cr_status = None\<rparr>]
     \<and> hm_active (hv_metrics sample_server) (''OTHER'', ''/mcp'') = 1"
proof -
  note server = sample_server_def sample_end_def sample_begin_def http_idle_def Let_def
  have running: "map fst (hv_running sample_server) = [sample_call ''/mcp'']"
    and ended: "hv_ended sample_server = [(sample_call ''/health'', Some 200), (sample_call ''/mcp'', Some 503), (sample_call ''/oauth/token'', None)]"
    by (simp_all add: server split: prod.split)
  have labels: "call_labels (sample_call ''/mcp'') = (''OTHER'', ''/mcp'')"
    "call_labels (sample_call ''/oauth/token'') = (''OTHER'', ''/oauth/*'')"
    by (simp_all add: call_labels_def sample_call_def bounded_http_method_def stable_path_class_def starts_with_def)
  have probes: "is_probe (sample_call ''/health'')" "\<not> is_probe (sample_call ''/mcp'')" "\<not> is_probe (sample_call ''/oauth/token'')"
    by (simp_all add: is_probe_def sample_call_def)
  have reachable: "http_reachable sample_server"
    unfolding sample_server_def
    by (intro sample_end_reachable sample_begin_reachable http_reachable.idle)
      (simp_all add: server split: prod.split)
  note law = http_requests_counted_once [OF reachable, unfolded running_labels_def running ended to_count_def]
  from law probes labels have "hm_active (hv_metrics sample_server) (''OTHER'', ''/mcp'') = 1" by simp
  moreover from law probes labels have "hm_requests (hv_metrics sample_server) =
         [\<lparr>cr_labels = (''OTHER'', ''/mcp''), cr_outcome = ''error'', cr_status = Some 503\<rparr>,
          \<lparr>cr_labels = (''OTHER'', ''/oauth/*''), cr_outcome = ''cancelled'', cr_status = None\<rparr>]"
    by (simp add: counted_def)
  ultimately show ?thesis using reachable ended by blast
qed

end
