(* ===== verification/Oauth.thy ===== *)
theory Oauth
  imports Config "HOL-Library.Multiset"
begin

text \<open>
  The OAuth server's configuration and start-up (\<open>src/oauth.rs\<close>): the policy, the bootstrap of the signing
  key, the client registration, the readiness check, the mapping of identities to principals and the
  consent that is given without asking.

  The authorization server, its stores, OIDC discovery and cryptography are packages; \<open>new_policy\<close> is
  \<open>OAuthAuthorizationServerConfig::new\<close>, and \<open>signing_env\<close> and \<open>oauth_env\<close> say how the calls of the start-up
  end.  \<open>sha256\<close>, \<open>base64\<close> and the check of a principal id are parameters of the mapping.
\<close>

section \<open>Policy\<close>

record oauth_policy =
  op_issuer :: string
  op_resources :: "(string \<times> string list) list"
  op_code_lifetime :: duration
  op_access_lifetime :: duration
  op_refresh_lifetime :: duration
  op_family_lifetime :: duration
  op_clock_skew :: duration
  op_verification_overlap :: duration
  op_registration_endpoint :: "string option"

definition max_duration :: duration where
  "max_duration = 2 ^ 64 * 1000000000 - 1"

definition duration_checked_add :: "duration \<Rightarrow> duration \<Rightarrow> duration option" where
  "duration_checked_add a b = (if a + b \<le> max_duration then Some (a + b) else None)"

definition below_issuer :: "oauth_config \<Rightarrow> string \<Rightarrow> string" where
  "below_issuer oauth path = trim_end_matches ''/'' (oa_issuer oauth) @ path"

definition authorization_server_policy ::
  "(string \<Rightarrow> (string \<times> string list) list \<Rightarrow> oauth_policy) \<Rightarrow> oauth_config \<Rightarrow> string + oauth_policy" where
  "authorization_server_policy new_policy oauth =
     (let policy = (new_policy (oa_issuer oauth) [(oa_resource oauth, oa_required_scopes oauth)])
            \<lparr>op_code_lifetime := oa_code_ttl oauth, op_access_lifetime := oa_access_token_ttl oauth,
             op_refresh_lifetime := oa_refresh_token_ttl oauth, op_family_lifetime := oa_refresh_family_ttl oauth\<rparr> in
      and_then (ok_or (duration_checked_add (op_access_lifetime policy) (op_clock_skew policy))
          ''invalid hosted OAuth configuration'') (\<lambda>overlap.
        let policy = policy\<lparr>op_verification_overlap := max (op_verification_overlap policy) overlap\<rparr> in
        Inr (if oa_allow_dcr oauth then policy\<lparr>op_registration_endpoint := Some (below_issuer oauth ''/register'')\<rparr>
             else policy)))"

section \<open>The signing key\<close>

text \<open>
  \<open>sn_active\<close> looks for an active key; \<open>sn_generate\<close> makes a candidate and says whether it is active at
  once; \<open>sn_activate\<close> says whether it could be activated.  \<open>None\<close> and a \<open>False\<close> of the others are errors.
\<close>

record 's signing_env =
  sn_begin :: "'s \<Rightarrow> bool \<times> 's"
  sn_lock :: "'s \<Rightarrow> bool \<times> 's"
  sn_active :: "'s \<Rightarrow> bool option \<times> 's"
  sn_generate :: "'s \<Rightarrow> bool option \<times> 's"
  sn_activate :: "'s \<Rightarrow> bool option \<times> 's"
  sn_validate :: "'s \<Rightarrow> bool \<times> 's"
  sn_commit :: "'s \<Rightarrow> bool \<times> 's"

datatype signing_event = SV_Begin | SV_Lock | SV_Inspect | SV_Generate | SV_Activate | SV_Validate | SV_Commit

record 's signing_sys =
  sy_trace :: "signing_event list"
  sy_world :: 's

type_synonym ('s, 'a) signing_io = "('s signing_sys, string, 'a) io"

definition signing_call :: "signing_event \<Rightarrow> ('s \<Rightarrow> 'a option \<times> 's) \<Rightarrow> string \<Rightarrow> ('s, 'a) signing_io" where
  "signing_call event call error = (\<lambda>s.
     let (a, w) = call (sy_world s) in
     (ok_or a error, s\<lparr>sy_trace := sy_trace s @ [event], sy_world := w\<rparr>))"

definition succeeds :: "('s \<Rightarrow> bool \<times> 's) \<Rightarrow> 's \<Rightarrow> unit option \<times> 's" where
  "succeeds call w = (let (ok, w') = call w in (if ok then Some () else None, w'))"

definition bootstrap_key :: "'s signing_env \<Rightarrow> ('s, unit) signing_io" where
  "bootstrap_key E =
     io_bind (signing_call SV_Generate (sn_generate E) ''failed to bootstrap OAuth signing key'') (\<lambda>active.
       if active then io_return ()
       else
         io_bind (signing_call SV_Activate (sn_activate E) ''failed to activate OAuth signing key'') (\<lambda>activated.
           io_guard activated ''failed to activate OAuth signing key''))"

definition initialize_signing_key :: "'s signing_env \<Rightarrow> ('s, unit) signing_io" where
  "initialize_signing_key E =
     io_bind (signing_call SV_Begin (succeeds (sn_begin E)) ''failed to lock OAuth signing-key initialization'') (\<lambda>_.
     io_bind (signing_call SV_Lock (succeeds (sn_lock E)) ''failed to lock OAuth signing-key initialization'') (\<lambda>_.
     io_bind (signing_call SV_Inspect (sn_active E) ''failed to inspect OAuth signing-key state'') (\<lambda>active.
     io_bind (if active then io_return () else bootstrap_key E) (\<lambda>_.
     io_bind (signing_call SV_Validate (succeeds (sn_validate E)) ''OAuth signing key is not ready'') (\<lambda>_.
       signing_call SV_Commit (succeeds (sn_commit E)) ''failed to complete OAuth signing-key initialization'')))))"

section \<open>Start-up\<close>

record client_registration =
  cr_fetcher :: "(bool \<times> located_url list) option"
  cr_dynamic :: bool
  cr_loopback :: bool

text \<open>
  The options of client registration, if there is any; the fetcher has its loopback flag and the trusted
  private origins, which \<open>origins_ok\<close> may refuse.
\<close>

definition registration_options ::
  "(located_url list \<Rightarrow> bool) \<Rightarrow> oauth_config \<Rightarrow> string + client_registration option" where
  "registration_options origins_ok oauth =
     (if oa_allow_dcr oauth \<or> oa_allow_cimd oauth \<or> oa_allow_loopback oauth then
        and_then (guard_or (\<not> (oa_allow_cimd oauth \<and> oa_cimd_origins oauth \<noteq> []) \<or> origins_ok (oa_cimd_origins oauth))
            ''invalid trusted CIMD destination policy'') (\<lambda>_.
          Inr (Some \<lparr>cr_fetcher = (if oa_allow_cimd oauth then Some (oa_allow_loopback oauth, oa_cimd_origins oauth) else None),
            cr_dynamic = oa_allow_dcr oauth, cr_loopback = oa_allow_loopback oauth\<rparr>))
      else Inr None)"

record resource_owner =
  ro_issuer :: string
  ro_client_id :: string
  ro_client_secret :: string
  ro_redirect_uri :: string
  ro_resume_uri :: string
  ro_scopes :: "string list"
  ro_lifetime :: duration

definition resource_owner_of :: "oidc_config \<Rightarrow> oauth_config \<Rightarrow> resource_owner" where
  "resource_owner_of oidc oauth =
     \<lparr>ro_issuer = oc_issuer oidc, ro_client_id = oc_client_id oidc, ro_client_secret = oc_client_secret oidc,
      ro_redirect_uri = oc_redirect_uri oidc, ro_resume_uri = below_issuer oauth ''/authorize'',
      ro_scopes = oc_scopes oidc, ro_lifetime = min (oa_code_ttl oauth) (from_secs (10 * 60))\<rparr>"

record 's oauth_env =
  on_store :: bool
  on_oidc_store :: bool
  on_keyring :: "string + string \<times> (string \<times> string) list"
  on_owner_ok :: "resource_owner \<Rightarrow> bool"
  on_discovered :: "resource_owner \<Rightarrow> bool"
  on_policy :: "string \<Rightarrow> (string \<times> string list) list \<Rightarrow> oauth_policy"
  on_server_ok :: "oauth_policy \<Rightarrow> string \<times> (string \<times> string) list \<Rightarrow> bool"
  on_origins_ok :: "located_url list \<Rightarrow> bool"
  on_registration_ok :: "client_registration \<Rightarrow> bool"
  on_signing :: "'s signing_env"

record oauth_server =
  os_policy :: oauth_policy
  os_keyring :: "string \<times> (string \<times> string) list"
  os_consent :: "string \<times> string list"
  os_registration :: "client_registration option"
  os_owner :: resource_owner

definition oauth_initialize ::
  "'s oauth_env \<Rightarrow> oidc_config \<Rightarrow> oauth_config \<Rightarrow> ('s, oauth_server) signing_io" where
  "oauth_initialize E oidc oauth =
     io_bind (io_guard (on_store E) ''failed to initialize OAuth persistence'') (\<lambda>_.
     io_bind (io_guard (on_oidc_store E) ''failed to initialize OIDC persistence'') (\<lambda>_.
     io_bind (io_lift (on_keyring E)) (\<lambda>keyring.
     let owner = resource_owner_of oidc oauth in
     io_bind (io_guard (on_owner_ok E owner) ''invalid OIDC resource-owner configuration'') (\<lambda>_.
     io_bind (io_guard (on_discovered E owner) ''failed to initialize OIDC resource-owner authentication'') (\<lambda>_.
     io_bind (io_lift (authorization_server_policy (on_policy E) oauth)) (\<lambda>policy.
     io_bind (io_guard (on_server_ok E policy keyring) ''invalid hosted OAuth configuration'') (\<lambda>_.
     io_bind (io_lift (registration_options (on_origins_ok E) oauth)) (\<lambda>registration.
     io_bind (io_guard (case registration of None \<Rightarrow> True | Some r \<Rightarrow> on_registration_ok E r)
         ''invalid OAuth client registration policy'') (\<lambda>_.
     io_bind (initialize_signing_key (on_signing E)) (\<lambda>_.
       io_return \<lparr>os_policy = policy, os_keyring = keyring,
         os_consent = (oa_resource oauth, oa_required_scopes oauth), os_registration = registration,
         os_owner = owner\<rparr>))))))))))"

section \<open>Readiness\<close>

text \<open>
  \<open>selected\<close> and \<open>validated\<close> are the answers of the two calls, of which the second is only made after the
  first; \<open>in_time\<close> says that they have ended before the timeout.
\<close>

definition oauth_ready :: "bool \<Rightarrow> bool \<Rightarrow> bool \<Rightarrow> bool" where
  "oauth_ready in_time selected validated = (if in_time then selected \<and> validated else False)"

section \<open>Principals\<close>

datatype principal_mapping = PM_Principal string | PM_Denied

record verified_identity =
  vi_issuer :: string
  vi_subject :: string
  vi_audiences :: "string list"
  vi_claims :: "(string \<times> json) list"

definition principal_text :: "verified_identity \<Rightarrow> string" where
  "principal_text identity = vi_issuer identity @ [char_of (0 :: nat)] @ vi_subject identity"

definition map_principal ::
  "(string \<Rightarrow> string) \<Rightarrow> (string \<Rightarrow> string) \<Rightarrow> (string \<Rightarrow> bool) \<Rightarrow> verified_identity \<Rightarrow> principal_mapping" where
  "map_principal sha256 base64 id_ok identity =
     (let principal = ''authentik:'' @ base64 (sha256 (principal_text identity)) in
      if id_ok principal then PM_Principal principal else PM_Denied)"

section \<open>Consent\<close>

datatype consent_presentation = CP_Approved | CP_Forbidden

definition present_consent :: "string \<times> string list \<Rightarrow> string \<Rightarrow> string list \<Rightarrow> consent_presentation" where
  "present_consent consent resource requested =
     (let (expected_resource, scopes) = consent in
      if resource = expected_resource \<and> length requested = length scopes \<and> set requested = set scopes
      then CP_Approved else CP_Forbidden)"

definition validate_decision :: bool where
  "validate_decision = False"

section \<open>What the start-up guarantees\<close>

lemma policy_covers_tokens:
  assumes "authorization_server_policy new_policy oauth = Inr policy"
  shows "op_access_lifetime policy + op_clock_skew policy \<le> op_verification_overlap policy
    \<and> op_access_lifetime policy = oa_access_token_ttl oauth"
  using assms by (auto simp: authorization_server_policy_def Let_def duration_checked_add_def split: if_splits)

text \<open>Under one issuer without a null byte no two subjects share the text that is hashed, whatever their claims.\<close>

lemma separator_unique:
  assumes "xs @ z # u = ys @ z # v" "z \<notin> set xs" "z \<notin> set ys"
  shows "xs = ys \<and> u = v"
  using assms
proof (induction xs arbitrary: ys)
  case Nil
  then show ?case by (cases ys) auto
next
  case (Cons x xs)
  then show ?case by (cases ys) auto
qed

lemma principal_text_exact:
  assumes "char_of (0 :: nat) \<notin> set (vi_issuer a)" "char_of (0 :: nat) \<notin> set (vi_issuer b)"
  shows "principal_text a = principal_text b \<longleftrightarrow> vi_issuer a = vi_issuer b \<and> vi_subject a = vi_subject b"
  using assms
    separator_unique [of "vi_issuer a" "char_of (0 :: nat)" "vi_subject a" "vi_issuer b" "vi_subject b"]
  by (auto simp: principal_text_def)

lemma same_scopes:
  assumes "distinct ys"
  shows "length xs = length ys \<and> set xs = set ys \<longleftrightarrow> mset xs = mset ys"
proof
  assume same: "length xs = length ys \<and> set xs = set ys"
  then have "distinct xs" using assms by (metis card_distinct distinct_card)
  with same assms show "mset xs = mset ys" by (simp add: set_eq_iff_mset_eq_distinct [symmetric])
qed (auto dest: mset_eq_length mset_eq_setD)

lemma initialized_consent:
  assumes "oauth_initialize E oidc oauth s = (Inr server, s')"
  shows "os_consent server = (oa_resource oauth, oa_required_scopes oauth)"
  using assms by (auto simp: oauth_initialize_def Let_def io_simps)

lemma oauth_from_env_scopes:
  assumes "oauth_from_env libs env = Inr oauth"
  shows "oa_required_scopes oauth = required_oauth_scopes"
  using assms by (auto simp: oauth_from_env_def parse_required_scopes_def Let_def split: if_splits)

lemma required_oauth_scopes_distinct: "distinct required_oauth_scopes"
  by code_simp

section \<open>The consent that is given\<close>

text \<open>
  C38: The consent handler of a started server, whose configuration was read from the environment, approves
  a request exactly when it names the configured resource and asks for each of the eight scopes of the
  program once, in any order; whatever else is asked for, or asked for twice, is forbidden, and no decision
  is ever accepted from a form.
\<close>

theorem consent_is_exact:
  assumes env: "oauth_from_env libs env = Inr oauth"
    and start: "oauth_initialize E oidc oauth s = (Inr server, s')"
  shows "(present_consent (os_consent server) resource requested = CP_Approved
      \<longleftrightarrow> resource = oa_resource oauth \<and> mset requested = mset required_oauth_scopes)
    \<and> \<not> validate_decision"
  using same_scopes [OF required_oauth_scopes_distinct, of requested]
  by (simp add: initialized_consent [OF start] oauth_from_env_scopes [OF env] present_consent_def
      validate_decision_def conj_assoc)

definition sample_oauth_env :: environment where
  "sample_oauth_env = map_of [(''HOMELAB_MCP_OAUTH_ISSUER'', ''https://mcp.example''),
     (''HOMELAB_MCP_OAUTH_RESOURCE'', ''https://mcp.example/mcp''),
     (''HOMELAB_MCP_OAUTH_REQUIRED_SCOPES'',
        ''mcp:use kubernetes:read kubernetes:write inventory:read inventory:write inventory:host-trust deploy:read deploy:run''),
     (''HOMELAB_MCP_OAUTH_ACCESS_TOKEN_TTL'', ''300''), (''HOMELAB_MCP_OAUTH_REFRESH_TOKEN_TTL'', ''600''),
     (''HOMELAB_MCP_OAUTH_REFRESH_FAMILY_TTL'', ''900''), (''HOMELAB_MCP_OAUTH_CODE_TTL'', ''60''),
     (''HOMELAB_MCP_OAUTH_ALLOW_DCR'', ''true''), (''HOMELAB_MCP_OAUTH_ALLOW_CIMD'', ''false''),
     (''HOMELAB_MCP_OAUTH_ALLOW_LOOPBACK_REDIRECTS'', ''false''),
     (''HOMELAB_MCP_OAUTH_WRAPPING_KEYS_FILE'', ''/keys'')]"

definition sample_oauth :: oauth_config where
  "sample_oauth = \<lparr>oa_issuer = ''https://mcp.example'', oa_resource = ''https://mcp.example/mcp'',
     oa_required_scopes = required_oauth_scopes, oa_access_token_ttl = from_secs 300,
     oa_refresh_token_ttl = from_secs 600, oa_refresh_family_ttl = from_secs 900, oa_code_ttl = from_secs 60,
     oa_allow_dcr = True, oa_allow_cimd = False, oa_cimd_origins = [], oa_allow_loopback = False,
     oa_wrapping_keys_file = ''/keys''\<rparr>"

lemma sample_oauth_read: "oauth_from_env libs sample_oauth_env = Inr sample_oauth"
proof -
  have vars: "required_var sample_oauth_env ''OAUTH_ISSUER'' = Inr ''https://mcp.example''"
    "required_var sample_oauth_env ''OAUTH_RESOURCE'' = Inr ''https://mcp.example/mcp''"
    "boolean_var sample_oauth_env ''OAUTH_ALLOW_DCR'' = Inr True"
    "boolean_var sample_oauth_env ''OAUTH_ALLOW_CIMD'' = Inr False"
    "boolean_var sample_oauth_env ''OAUTH_ALLOW_LOOPBACK_REDIRECTS'' = Inr False"
    "required_var sample_oauth_env ''OAUTH_WRAPPING_KEYS_FILE'' = Inr ''/keys''"
    "required_var sample_oauth_env ''OAUTH_ACCESS_TOKEN_TTL'' = Inr ''300''"
    "required_var sample_oauth_env ''OAUTH_REFRESH_TOKEN_TTL'' = Inr ''600''"
    "required_var sample_oauth_env ''OAUTH_REFRESH_FAMILY_TTL'' = Inr ''900''"
    "required_var sample_oauth_env ''OAUTH_CODE_TTL'' = Inr ''60''"
    "optional_var sample_oauth_env ''OAUTH_CIMD_TRUSTED_PRIVATE_ORIGINS'' = None"
    "and_then (required_var sample_oauth_env ''OAUTH_REQUIRED_SCOPES'') parse_required_scopes
       = Inr required_oauth_scopes"
    by code_simp+
  have numbers: "parse_unsigned 18446744073709551616 ''300'' = Some 300" "parse_unsigned 18446744073709551616 ''600'' = Some 600"
    "parse_unsigned 18446744073709551616 ''900'' = Some 900" "parse_unsigned 18446744073709551616 ''60'' = Some 60"
    by (simp_all add: parse_unsigned_def Let_def strip_prefix_def starts_with_def all_digits_def
        parse_digits_def ascii_digit_def digit_val_def)
  show ?thesis
    by (simp add: oauth_from_env_def seconds_var_def secure_origins_def vars numbers sample_oauth_def)
qed

definition sample_oidc :: oidc_config where
  "sample_oidc = \<lparr>oc_public_url = ''https://mcp.example'', oc_issuer = ''https://id.example'', oc_client_id = ''mcp'',
     oc_client_secret = ''s'', oc_redirect_uri = ''https://mcp.example/callback'', oc_scopes = [''openid'']\<rparr>"

definition sample_signing :: "bool signing_env" where
  "sample_signing = \<lparr>sn_begin = Pair True, sn_lock = Pair True, sn_active = (\<lambda>active. (Some active, active)),
     sn_generate = (\<lambda>_. (Some True, True)), sn_activate = (\<lambda>_. (Some True, True)),
     sn_validate = (\<lambda>active. (active, active)), sn_commit = Pair True\<rparr>"

definition sample_policy :: "string \<Rightarrow> (string \<times> string list) list \<Rightarrow> oauth_policy" where
  "sample_policy issuer resources = \<lparr>op_issuer = issuer, op_resources = resources, op_code_lifetime = 0,
     op_access_lifetime = 0, op_refresh_lifetime = 0, op_family_lifetime = 0, op_clock_skew = from_secs 30,
     op_verification_overlap = from_secs 600, op_registration_endpoint = None\<rparr>"

definition sample_oauth_libs :: "bool oauth_env" where
  "sample_oauth_libs = \<lparr>on_store = True, on_oidc_store = True, on_keyring = Inr (''a'', [(''a'', ''k'')]),
     on_owner_ok = (\<lambda>_. True), on_discovered = (\<lambda>_. True), on_policy = sample_policy,
     on_server_ok = (\<lambda>_ _. True), on_origins_ok = (\<lambda>_. True), on_registration_ok = (\<lambda>_. True),
     on_signing = sample_signing\<rparr>"

definition sample_oauth_start :: "(string + oauth_server) \<times> bool signing_sys" where
  "sample_oauth_start = oauth_initialize sample_oauth_libs sample_oidc sample_oauth \<lparr>sy_trace = [], sy_world = False\<rparr>"

lemma sample_oauth_starts:
  "\<exists>server s'. sample_oauth_start = (Inr server, s')
    \<and> sy_trace s' = [SV_Begin, SV_Lock, SV_Inspect, SV_Generate, SV_Validate, SV_Commit]
    \<and> os_consent server = (''https://mcp.example/mcp'', required_oauth_scopes)"
  by (simp add: sample_oauth_start_def oauth_initialize_def sample_oauth_libs_def sample_oauth_def Let_def
      sample_signing_def initialize_signing_key_def bootstrap_key_def signing_call_def succeeds_def
      authorization_server_policy_def registration_options_def duration_checked_add_def sample_policy_def
      max_duration_def from_secs_def io_bind_def io_guard_def io_lift_def io_return_def guard_or_def)

lemma not_approved: "p \<noteq> CP_Approved \<Longrightarrow> p = CP_Forbidden"
  by (cases p) simp_all

lemma consent_is_exact_witness:
  "\<exists>server s'. sample_oauth_start = (Inr server, s')
    \<and> present_consent (os_consent server) ''https://mcp.example/mcp'' (rev required_oauth_scopes) = CP_Approved
    \<and> present_consent (os_consent server) ''https://mcp.example/mcp'' [''mcp:use''] = CP_Forbidden"
proof -
  obtain server s' where start: "sample_oauth_start = (Inr server, s')" using sample_oauth_starts by blast
  note exact = consent_is_exact [OF sample_oauth_read start [unfolded sample_oauth_start_def]]
  have "length [''mcp:use''] \<noteq> length required_oauth_scopes" by code_simp
  then have "mset [''mcp:use''] \<noteq> mset required_oauth_scopes" using mset_eq_length by blast
  then have "present_consent (os_consent server) ''https://mcp.example/mcp'' [''mcp:use''] \<noteq> CP_Approved"
    using exact [of "''https://mcp.example/mcp''" "[''mcp:use'']"] by (simp only: simp_thms)
  then have no: "present_consent (os_consent server) ''https://mcp.example/mcp'' [''mcp:use''] = CP_Forbidden"
    by (rule not_approved)
  have "present_consent (os_consent server) ''https://mcp.example/mcp'' (rev required_oauth_scopes) = CP_Approved"
    using exact [of "''https://mcp.example/mcp''" "rev required_oauth_scopes"]
    by (simp only: mset_rev sample_oauth_def oauth_config.simps simp_thms)
  with start no show ?thesis by (intro exI conjI)
qed

end
