(* ===== verification/Spec2Isabelle.thy ===== *)
theory Spec2Isabelle
  imports Kube_Laws Ceph_Laws Inventory Tekton_Answers Deploy_Laws Config_Laws Grafana_Laws
    Mcp_Laws Mcp_Links Http_App Oauth
begin

text \<open>
  homelab-mcp is an MCP server in front of the systems of a home lab: Kubernetes clusters (through
  kubectl), Ceph clusters (through the Ceph Dashboard), Tekton with Pipelines as Code and Forgejo,
  Grafana, an inventory of machines in PostgreSQL, and deploy runs over SSH.  Each integration has
  the same layers: typed inputs with a \<open>validate\<close> that yields a command, a client that turns a
  command into bounded upstream requests, a normalisation of what comes back, and an error type that
  becomes the shared tool error.  The MCP surface registers one action per operation under four tools and
  makes what can be read available as resources; an OAuth server and an HTTP application stand in front
  of it, and one configuration, read from the environment, describes everything.  This development models
  all of these layers.

  Theories and code (paths under \<open>src/src/\<close>, integrations under \<open>src/src/integrations/\<close>):

  \<^item> Prelude: fixed-width integers, results (\<open>'e + 'a\<close>), computations with state and errors (\<open>io\<close>), and
    the locale \<open>step_preorder\<close>, in which the rules for "this computation only does harmless steps"
    are proved once.  Rust_Text, Rust_Str, Redaction, Rust_Float, Ip_Addr: the parts of the Rust
    standard library the sources use (UTF-8, string search, splitting and replacing, decimal numbers,
    rounding to doubles, IP address syntax).  Ord_Map: \<open>BTreeMap\<close> behind the locale \<open>ordered_map\<close>.
    Json, Json_Build: JSON values, their accessors and their construction.  Http: requests and
    answers of the HTTP library.
  \<^item> Tool_Error, Kube_Error, Ceph_Error: \<open>tool_error.rs\<close> and the \<open>error.rs\<close> files.
  \<^item> Kube_Kinds, Kube_Validate, Kube_Actions: \<open>kubernetes/actions.rs\<close>.  Kube_Runner:
    \<open>kubernetes/runner.rs\<close>, one run with its permit and the worker of its kubectl process.  Kube_Normalize:
    \<open>kubernetes/normalize.rs\<close>.  Kube_Client: \<open>kubernetes/client.rs\<close>.  Kube_Catalog:
    \<open>kubernetes/catalog.rs\<close>.  Kube_Laws: what lists, pod logs and mutations guarantee, over the processes
    that were run and their output.
  \<^item> Ceph_Actions, Ceph_Normalize, Ceph_Client, Ceph_Catalog: the files of the same names under \<open>ceph/\<close>.
    Ceph_Laws: what the composition of client and catalog guarantees.
  \<^item> Tekton_Actions: \<open>tekton/error.rs\<close>, \<open>tekton/actions.rs\<close>.  Tekton_Normalize, Tekton_Api, Tekton_Client:
    \<open>tekton/client.rs\<close>, split into recognition and normalisation, requests and listings, and
    operations.  Tekton_Laws, Tekton_Answers: what the operations guarantee, and what their results owe to
    the answers that were received.
  \<^item> Inventory: \<open>inventory.rs\<close> over the table of \<open>migrations/20260813000000_create_machines.sql\<close>.
  \<^item> Deploy_World, Deploy_Catalog, Deploy_Output, Deploy_Bao, Deploy_Runner: \<open>deploys/error.rs\<close> with the
    files and processes a deploy consults, \<open>deploys/catalog.rs\<close>, \<open>deploys/normalize.rs\<close>,
    \<open>deploys/openbao.rs\<close> and \<open>deploys/runner.rs\<close>.  Deploy_Laws: what a run guarantees.
  \<^item> Grafana_Actions: \<open>grafana/error.rs\<close> and the files under \<open>grafana/actions/\<close>.  Grafana_Normalize,
    Grafana_Client: \<open>grafana/client.rs\<close>, split into normalisation and requests, and
    \<open>grafana/telemetry.rs\<close>.  Float_Arith: the multiplication and rounding of doubles it does.
    Grafana_Laws: what the queries, the creation of a silence and rendering guarantee.
  \<^item> Config: \<open>config.rs\<close>, the reading and validation of the environment.  Config_Laws: whose credentials
    a configured cluster has.
  \<^item> Mcp_Base: the helpers of \<open>mcp.rs\<close> that turn results, errors and cancellations into tool results.
    Mcp_Handlers: its tool handlers.  Mcp_Tools: \<open>mcp/tools.rs\<close>.  Mcp_Resources: \<open>mcp/resources.rs\<close>.
    Mcp_Reads: the client operations that only read, behind the locale \<open>kubectl_reader\<close> and
    \<open>step_preorder\<close>.  Mcp_Links, Mcp_Laws: what the surface guarantees.
  \<^item> Http_App: \<open>app.rs\<close>.  Oauth: \<open>oauth.rs\<close>.

  State and effects.  A client operation is a function from a state record to a result and the next
  state.  The record has what the client itself keeps (a cached token, a progress flag, a clock), the
  trace of its exchanges with the outside, which is a history variable, and the world, of which
  nothing is assumed.  The world is consulted through a record of functions, the environment: the
  answer to a request, whether a permit is free, what other operations left in a shared cell, the
  content of a file.  Third-party code (the parsers of JSON, YAML and URLs, base64, SHA-256, percent
  decoding, the HTTP library, the collation of the database) is a function of the environment or an
  argument.  An outer deadline that drops an operation is an answer of the world (\<open>HX_Dropped\<close>) that
  passes through the operation unhandled up to the timeout that caused it.  A kubectl process is the
  sequence of events its poll loop sees.  The acts of a deploy, its reads included, are in its trace with their results.  The table of
  machines has the constraints of the migration.
  Strings are byte strings; what the sources do by character is done by UTF-8 sequence.

  What the lemmas show, by group:

  \<^item> the surface: what is listed as read-only changes nothing, a call runs the handler that its tool lists, a
    cancelled call says what became of it, resource URIs and the links in listings mean exactly what they
    say, consent is given for the configured resource and scopes only, each HTTP request is counted once, as
    what it was;
  \<^item> mutations: a Kubernetes, Ceph or Tekton mutation sends at most one change, a retryable error means
    that nothing was sent, success and rejection are reported only after an answer that says so, the
    arguments of the command are those of the validated request, destroying an OSD needs a safety
    check of the same OSD in the same operation, a dispatch names a workflow that answers of the same call
    published; a silence is reported as created, with the identifier of the answer, refused or unknown; a deploy
    starts only with a prepared directory and a certificate for the key it read there, reports a failure as
    harmless only if nothing ran, and removes the directory it created last;
  \<^item> queries: they send nothing that changes anything, results are bounded, sorted and come from objects
    of the right identity and say what was left out, pages and polls are bounded in number, logs are redacted
    and bounded;
  \<^item> validation: the checks of inputs are equivalent to plain descriptions (dry-run rules, the wire
    format of host keys, durations, URLs in annotations, resource URIs), and clients repeat them; the paths of
    a deploy catalog stay below its root; every cluster reads its own credential variables;
  \<^item> state: catalogs are sorted and complete, the machine table keeps its invariant under every operation and no stored value makes one panic;
  \<^item> text: truncation keeps UTF-8 and is maximal, the budget of event messages refines its
    specification, restart counts saturate.

  Loops.  Page loops recurse on the number of pages that may still be read (5 for Kubernetes and Ceph,
  10 for Tekton: the constants of the sources), so the fuel is the bound of the code and not an
  artefact.  The wait for a Tekton run recurses on the time left until its deadline; it ends because
  each poll comes at least the poll interval after the one before.  Everything else is structural.

  Findings, proved or described in the manifest: a refused Ceph mutation keeps the expired token; a
  Ceph query is sent twice after a 401 although the documents exclude retries; cancelling a kubectl
  mutation before its process exists is reported as outcome unknown; redaction cannot hide secrets that
  contain a bracket or occur in its mark, or that a byte limit cuts; a Tekton listing whose first page
  ignores the limit is cut without saying so; a machine mutation whose outcome is unknown is reported as
  retryable.

  Not modelled: \<open>main.rs\<close>, \<open>services.rs\<close>, \<open>database.rs\<close>, \<open>observability.rs\<close>, \<open>profiling.rs\<close>,
  \<open>http_client.rs\<close> (start-up, wiring and telemetry over third-party packages) and \<open>mcp/skills.rs\<close> (texts);
  the authorization server, OIDC and their stores, which are packages; spans and recorded durations; serde
  and JSON-schema derivation; whether a killed process is gone; concurrency between operations beyond what
  the environment stands for.
\<close>

end
